(* ===== verification/Ear_Prelude.thy ===== *)
theory Ear_Prelude
  imports Main "HOL-Library.Char_ord" "HOL-Library.List_Lexorder" "HOL-Library.AList"
begin

text \<open>
  The prelude of the development: the theorem collections its proofs use, and the parts of
  Go's \<^verbatim>\<open>strings\<close>, \<^verbatim>\<open>strconv\<close> and \<^verbatim>\<open>sort\<close> packages that the modelled files call.

  Text is a \<open>string\<close>, a list of characters.  The development covers ASCII text: there a Go
  string's bytes and its runes are the same sequence, so \<^verbatim>\<open>len\<close>, slicing and ranging agree,
  and the Unicode predicates are their ASCII tables.  A Go map is an association list
  with distinct keys where the code ranges over it or renders it, and a function into
  \<open>option\<close> where the code only looks keys up.
\<close>

named_theorems ear_defs \<open>definitions that proofs of the components unfold\<close>
named_theorems ear_simps \<open>equations of the components that simplification may use\<close>

section \<open>Characters\<close>

definition is_space :: "char \<Rightarrow> bool" where
  \<comment> \<open>unicode.IsSpace on ASCII: tab, newline, vertical tab, form feed, return, space\<close>
  "is_space c \<longleftrightarrow> (let n = of_char c :: nat in (9 \<le> n \<and> n \<le> 13) \<or> n = 32)"

definition is_digit :: "char \<Rightarrow> bool" where
  "is_digit c \<longleftrightarrow> (let n = of_char c :: nat in 48 \<le> n \<and> n \<le> 57)"

definition is_upper :: "char \<Rightarrow> bool" where
  "is_upper c \<longleftrightarrow> (let n = of_char c :: nat in 65 \<le> n \<and> n \<le> 90)"

definition is_lower :: "char \<Rightarrow> bool" where
  "is_lower c \<longleftrightarrow> (let n = of_char c :: nat in 97 \<le> n \<and> n \<le> 122)"

definition is_letter :: "char \<Rightarrow> bool" where
  "is_letter c \<longleftrightarrow> is_upper c \<or> is_lower c"

definition lower_char :: "char \<Rightarrow> char" where
  "lower_char c = (if is_upper c then char_of (of_char c + 32 :: nat) else c)"

definition upper_char :: "char \<Rightarrow> char" where
  "upper_char c = (if is_lower c then char_of (of_char c - 32 :: nat) else c)"

abbreviation newline :: char where
  "newline \<equiv> CHR 0x0A"

section \<open>The strings package\<close>

definition ToLower :: "string \<Rightarrow> string" where
  "ToLower s = map lower_char s"

definition trim_left :: "(char \<Rightarrow> bool) \<Rightarrow> string \<Rightarrow> string" where
  "trim_left p s = dropWhile p s"

definition trim_right :: "(char \<Rightarrow> bool) \<Rightarrow> string \<Rightarrow> string" where
  "trim_right p s = rev (dropWhile p (rev s))"

definition trim_by :: "(char \<Rightarrow> bool) \<Rightarrow> string \<Rightarrow> string" where
  "trim_by p s = trim_right p (trim_left p s)"

definition TrimSpace :: "string \<Rightarrow> string" where
  "TrimSpace s = trim_by is_space s"

definition trim_chars :: "string \<Rightarrow> string \<Rightarrow> string" where
  \<comment> \<open>strings.Trim(s, cutset)\<close>
  "trim_chars cutset s = trim_by (\<lambda>c. c \<in> set cutset) s"

definition has_prefix :: "string \<Rightarrow> string \<Rightarrow> bool" where
  "has_prefix p s \<longleftrightarrow> take (length p) s = p"

definition has_suffix :: "string \<Rightarrow> string \<Rightarrow> bool" where
  "has_suffix p s \<longleftrightarrow> has_prefix (rev p) (rev s)"

definition trim_prefix :: "string \<Rightarrow> string \<Rightarrow> string" where
  "trim_prefix p s = (if has_prefix p s then drop (length p) s else s)"

fun contains_str :: "string \<Rightarrow> string \<Rightarrow> bool" where
  \<comment> \<open>strings.Contains(s, sub), with the needle first\<close>
  "contains_str sub [] = (sub = [])"
| "contains_str sub (c # s) = (has_prefix sub (c # s) \<or> contains_str sub s)"

fun cut_at :: "string \<Rightarrow> string \<Rightarrow> (string \<times> string) option" where
  \<comment> \<open>strings.Cut: the text before and after the first separator, None when there is none\<close>
  "cut_at sep [] = (if sep = [] then Some ([], []) else None)"
| "cut_at sep (c # s) =
     (if has_prefix sep (c # s) then Some ([], drop (length sep) (c # s))
      else map_option (\<lambda>(a, b). (c # a, b)) (cut_at sep s))"

fun split_char :: "char \<Rightarrow> string \<Rightarrow> string list" where
  \<comment> \<open>strings.Split on a one-character separator\<close>
  "split_char sep [] = [[]]"
| "split_char sep (c # s) =
     (if c = sep then [] # split_char sep s
      else (case split_char sep s of [] \<Rightarrow> [[c]] | l # ls \<Rightarrow> (c # l) # ls))"

fun join_with :: "string \<Rightarrow> string list \<Rightarrow> string" where
  \<comment> \<open>strings.Join\<close>
  "join_with sep [] = []"
| "join_with sep [x] = x"
| "join_with sep (x # y # ys) = x @ sep @ join_with sep (y # ys)"

fun fields_by :: "(char \<Rightarrow> bool) \<Rightarrow> string \<Rightarrow> string \<Rightarrow> string list" where
  \<comment> \<open>strings.FieldsFunc; the second argument is the field being read\<close>
  "fields_by p w [] = (if w = [] then [] else [w])"
| "fields_by p w (c # s) =
     (if p c then (if w = [] then fields_by p [] s else w # fields_by p [] s)
      else fields_by p (w @ [c]) s)"

definition Fields :: "string \<Rightarrow> string list" where
  "Fields s = fields_by is_space [] s"

section \<open>The strconv package, integers\<close>

definition digit_char :: "nat \<Rightarrow> char" where
  "digit_char d = char_of (48 + d)"

definition digit_val :: "char \<Rightarrow> nat" where
  "digit_val c = of_char c - 48"

fun show_nat :: "nat \<Rightarrow> string" where
  "show_nat n = (if n < 10 then [digit_char n] else show_nat (n div 10) @ [digit_char (n mod 10)])"

declare show_nat.simps [simp del]

lemma show_small: "show_nat 0 = ''0''" "show_nat 1 = ''1''" "show_nat 2 = ''2''" "show_nat 3 = ''3''"
  by code_simp+

definition show_int :: "int \<Rightarrow> string" where
  "show_int i = (if i < 0 then CHR ''-'' # show_nat (nat (- i)) else show_nat (nat i))"

definition read_digits :: "string \<Rightarrow> nat" where
  "read_digits s = foldl (\<lambda>n c. 10 * n + digit_val c) 0 s"

definition min_int64 :: int where "min_int64 = - (2 ^ 63)"
definition max_int64 :: int where "max_int64 = 2 ^ 63 - 1"

definition Atoi :: "string \<Rightarrow> int option" where
  \<comment> \<open>strconv.Atoi and ParseInt(s, 10, 64): an optional sign, decimal digits, the int64 range\<close>
  "Atoi s =
     (let neg = (case s of c # _ \<Rightarrow> c = CHR ''-'' | [] \<Rightarrow> False);
          body = (case s of c # r \<Rightarrow> if c = CHR ''-'' \<or> c = CHR ''+'' then r else s | [] \<Rightarrow> s);
          v = (if neg then - int (read_digits body) else int (read_digits body))
      in if body \<noteq> [] \<and> list_all is_digit body \<and> min_int64 \<le> v \<and> v \<le> max_int64
         then Some v else None)"

section \<open>Results\<close>

type_synonym ('e, 'a) outcome = "'e + 'a"

definition bindR :: "('e, 'a) outcome \<Rightarrow> ('a \<Rightarrow> ('e, 'b) outcome) \<Rightarrow> ('e, 'b) outcome" where
  \<comment> \<open>the \<open>if err != nil { return err }\<close> idiom\<close>
  "bindR m f = (case m of Inl e \<Rightarrow> Inl e | Inr a \<Rightarrow> f a)"

lemma bindR_simps [simp]:
  "bindR (Inl e) f = Inl e" "bindR (Inr a) f = f a"
  by (simp_all add: bindR_def)

lemma bindR_Inr [simp]: "bindR r Inr = r"
  by (cases r) simp_all

lemma bindR_cong [fundef_cong]:
  "m = m' \<Longrightarrow> (\<And>a. m' = Inr a \<Longrightarrow> f a = f' a) \<Longrightarrow> bindR m f = bindR m' f'"
  by (cases m') (simp_all add: bindR_def)

lemma bindR_eq_Inr: "bindR m f = Inr b \<longleftrightarrow> (\<exists>a. m = Inr a \<and> f a = Inr b)"
  by (cases m) simp_all

lemma bindR_eq_Inl: "bindR m f = Inl e \<longleftrightarrow> m = Inl e \<or> (\<exists>a. m = Inr a \<and> f a = Inl e)"
  by (cases m) simp_all

section \<open>Association lists\<close>

definition sorted_keys :: "(string \<times> 'v) list \<Rightarrow> string list" where
  \<comment> \<open>sortedKeys in pipeline.go: the keys of a map in ascending order\<close>
  "sorted_keys m = sort (map fst m)"

definition map_put :: "'k \<Rightarrow> 'v \<Rightarrow> ('k \<times> 'v) list \<Rightarrow> ('k \<times> 'v) list" where
  "map_put k v m = AList.update k v m"

lemma map_of_map_put [simp]: "map_of (map_put k v m) = (map_of m)(k \<mapsto> v)"
  by (simp add: map_put_def update_conv')

lemma map_put_new: "k \<notin> fst ` set m \<Longrightarrow> map_put k v m = m @ [(k, v)]"
  unfolding map_put_def by (induction m) auto

lemma distinct_map_put [simp]: "distinct (map fst m) \<Longrightarrow> distinct (map fst (map_put k v m))"
  by (simp add: map_put_def distinct_update)

lemma set_sorted_keys [simp]: "set (sorted_keys m) = dom (map_of m)"
  by (simp add: sorted_keys_def dom_map_of_conv_image_fst)

lemma sorted_sorted_keys [simp]: "sorted (sorted_keys m)"
  by (simp add: sorted_keys_def)

section \<open>Lemmas on text\<close>

lemma trim_left_append:
  "x \<in> set a \<Longrightarrow> \<not> p x \<Longrightarrow> trim_left p (a @ b) = trim_left p a @ b"
  by (simp add: trim_left_def)

lemma trim_right_id: "s = [] \<or> \<not> p (last s) \<Longrightarrow> trim_right p s = s"
proof (cases s rule: rev_cases)
  case (snoc ys y)
  moreover assume "s = [] \<or> \<not> p (last s)"
  ultimately show ?thesis by (simp add: trim_right_def)
qed (simp add: trim_right_def)

lemma trim_left_id: "s = [] \<or> \<not> p (hd s) \<Longrightarrow> trim_left p s = s"
  by (cases s) (simp_all add: trim_left_def)

lemma trim_by_id: "s = [] \<or> (\<not> p (hd s) \<and> \<not> p (last s)) \<Longrightarrow> trim_by p s = s"
  by (auto simp: trim_by_def trim_left_id trim_right_id)

lemma trim_right_last: "trim_right p s \<noteq> [] \<Longrightarrow> \<not> p (last (trim_right p s))"
  using hd_dropWhile [of p "rev s"] by (auto simp: trim_right_def last_rev)

lemma trim_right_prefix: "\<exists>t. s = trim_right p s @ t \<and> list_all p t"
proof -
  have "s = rev (dropWhile p (rev s)) @ rev (takeWhile p (rev s))"
    by (metis rev_append rev_rev_ident takeWhile_dropWhile_id)
  moreover have "list_all p (rev (takeWhile p (rev s)))"
    by (auto simp: list_all_iff dest: set_takeWhileD)
  ultimately show ?thesis by (auto simp: trim_right_def)
qed

lemma hd_trim_right:
  assumes "trim_right p s \<noteq> []"
  shows "hd (trim_right p s) = hd s"
proof -
  obtain t where "s = trim_right p s @ t" using trim_right_prefix by blast
  with assms show ?thesis by (metis hd_append2)
qed

lemma trim_by_ends:
  "trim_by p s \<noteq> [] \<Longrightarrow> \<not> p (hd (trim_by p s)) \<and> \<not> p (last (trim_by p s))"
proof -
  assume ne: "trim_by p s \<noteq> []"
  then have "dropWhile p s \<noteq> []"
    by (auto simp: trim_by_def trim_left_def trim_right_def dest: set_dropWhileD)
  then have "\<not> p (hd (dropWhile p s))" by (rule hd_dropWhile)
  with ne show ?thesis
    using trim_right_last [of p "trim_left p s"] hd_trim_right [of p "trim_left p s"]
    by (simp add: trim_by_def trim_left_def)
qed

lemma trim_by_idem [simp]: "trim_by p (trim_by p s) = trim_by p s"
  using trim_by_ends [of p s] by (intro trim_by_id) blast

lemma split_char_nonempty [simp]: "split_char sep s \<noteq> []"
  by (induction s) (auto split: list.splits)

lemma join_with_Cons: "xs \<noteq> [] \<Longrightarrow> join_with sep (x # xs) = x @ sep @ join_with sep xs"
  by (cases xs) simp_all

lemma join_split_char [simp]: "join_with [sep] (split_char sep s) = s"
proof (induction s)
  case (Cons c s)
  show ?case
  proof (cases "c = sep")
    case True
    with Cons show ?thesis by (simp add: join_with_Cons)
  next
    case False
    obtain l ls where ls: "split_char sep s = l # ls"
      by (cases "split_char sep s") (use split_char_nonempty in blast)+
    from Cons.IH have "join_with [sep] (l # ls) = s" by (simp add: ls)
    then have "join_with [sep] ((c # l) # ls) = c # s" by (cases ls) simp_all
    with False ls show ?thesis by simp
  qed
qed simp

lemma split_char_no_sep: "l \<in> set (split_char sep s) \<Longrightarrow> sep \<notin> set l"
  by (induction s arbitrary: l) (auto split: if_splits list.splits)

lemma split_char_append:
  "sep \<notin> set l \<Longrightarrow> split_char sep (l @ sep # s) = l # split_char sep s"
  by (induction l) auto

lemma split_char_single: "sep \<notin> set l \<Longrightarrow> split_char sep l = [l]"
  by (induction l) auto

lemma split_join_char:
  "ls \<noteq> [] \<Longrightarrow> \<forall>l \<in> set ls. sep \<notin> set l \<Longrightarrow> split_char sep (join_with [sep] ls) = ls"
proof (induction ls)
  case (Cons l ls)
  then show ?case
    by (cases ls) (simp_all add: split_char_single split_char_append)
qed simp

lemma has_prefix_append [simp]: "has_prefix p (p @ s)"
  by (simp add: has_prefix_def)

lemma has_prefix_iff: "has_prefix p s \<longleftrightarrow> (\<exists>t. s = p @ t)"
  unfolding has_prefix_def by (metis append_eq_conv_conj append_take_drop_id)

lemma contains_str_iff: "contains_str sub s \<longleftrightarrow> (\<exists>a b. s = a @ sub @ b)"
proof (induction s)
  case (Cons c s)
  show ?case
  proof
    assume "contains_str sub (c # s)"
    then consider "has_prefix sub (c # s)" | "contains_str sub s" by auto
    then show "\<exists>a b. c # s = a @ sub @ b"
    proof cases
      case 1
      then show ?thesis by (metis append_Nil has_prefix_iff)
    next
      case 2
      then show ?thesis using Cons by (metis append_Cons)
    qed
  next
    assume "\<exists>a b. c # s = a @ sub @ b"
    then obtain a b where ab: "c # s = a @ sub @ b" by blast
    show "contains_str sub (c # s)"
    proof (cases a)
      case Nil
      with ab have "has_prefix sub (c # s)" by (auto simp: has_prefix_iff)
      then show ?thesis by simp
    next
      case (Cons d a')
      with ab have "s = a' @ sub @ b" by simp
      with Cons.IH show ?thesis by auto
    qed
  qed
qed simp

end
