(* ===== verification/Float64.thy ===== *)
theory Float64
  imports Complex_Main Ear_Prelude
begin

text \<open>
  Go's \<^verbatim>\<open>float64\<close>, which the evaluator, the budget, the authority and the memory layers
  compute with: the finite numbers of IEEE 754 binary64 as sign, significand and exponent,
  with correctly rounded arithmetic, and the conversions of \<^verbatim>\<open>strconv\<close> and \<^verbatim>\<open>fmt\<close> that
  read and print them.
\<close>

section \<open>The numbers\<close>

datatype f64 =
    FNaN
  | FInf bool
  | FFin bool nat int \<comment> \<open>negative, significand, exponent of two\<close>

abbreviation fzero :: f64 where
  "fzero \<equiv> FFin False 0 (-1074)"

definition signed :: "bool \<Rightarrow> nat \<Rightarrow> int" where
  "signed neg m = (if neg then - int m else int m)"

fun ilog2 :: "nat \<Rightarrow> nat" where
  "ilog2 n = (if n \<le> 1 then 0 else Suc (ilog2 (n div 2)))"

declare ilog2.simps [simp del]

definition flog2 :: "nat \<Rightarrow> nat \<Rightarrow> int" where
  \<comment> \<open>the exponent \<open>l\<close> with \<open>2 ^ l \<le> num / den < 2 ^ (l + 1)\<close>\<close>
  "flog2 num den =
     (let k = int (ilog2 num) - int (ilog2 den)
      in if (if 0 \<le> k then den * 2 ^ nat k \<le> num else den \<le> num * 2 ^ nat (- k))
         then k else k - 1)"

definition round_half_even :: "nat \<Rightarrow> nat \<Rightarrow> nat" where
  "round_half_even n d =
     (let q = n div d; r = n mod d
      in if 2 * r < d \<or> (2 * r = d \<and> even q) then q else q + 1)"

definition fround :: "bool \<Rightarrow> nat \<Rightarrow> nat \<Rightarrow> f64" where
  \<comment> \<open>the float nearest to \<open>num / den\<close>, ties to even, infinity past the largest\<close>
  "fround neg num den =
     (if num = 0 then FFin neg 0 (-1074)
      else let e = max (flog2 num den - 52) (-1074);
               m = (if 0 \<le> e then round_half_even num (den * 2 ^ nat e)
                    else round_half_even (num * 2 ^ nat (- e)) den);
               m' = (if m = 2 ^ 53 then 2 ^ 52 else m);
               e' = (if m = 2 ^ 53 then e + 1 else e)
           in if 971 < e' then FInf neg else FFin neg m' e')"

definition fscale :: "bool \<Rightarrow> nat \<Rightarrow> int \<Rightarrow> f64" where
  \<comment> \<open>the float nearest to \<open>m * 2 ^ e\<close>\<close>
  "fscale neg m e =
     (if 0 \<le> e then fround neg (m * 2 ^ nat e) 1 else fround neg m (2 ^ nat (- e)))"

definition f_of_int :: "int \<Rightarrow> f64" where
  \<comment> \<open>float64(n)\<close>
  "f_of_int i = fround (i < 0) (nat \<bar>i\<bar>) 1"

section \<open>Arithmetic\<close>

definition at_exp :: "bool \<Rightarrow> nat \<Rightarrow> int \<Rightarrow> int \<Rightarrow> int" where
  "at_exp neg m e e0 = signed neg m * 2 ^ nat (e - e0)"

fun fneg :: "f64 \<Rightarrow> f64" where
  "fneg FNaN = FNaN"
| "fneg (FInf s) = FInf (\<not> s)"
| "fneg (FFin s m e) = FFin (\<not> s) m e"

fun fadd :: "f64 \<Rightarrow> f64 \<Rightarrow> f64" where
  "fadd (FFin s m e) (FFin t n f) =
     (let g = min e f; z = at_exp s m e g + at_exp t n f g
      in if z = 0 then FFin (s \<and> t) 0 (-1074) else fscale (z < 0) (nat \<bar>z\<bar>) g)"
| "fadd (FInf s) (FInf t) = (if s = t then FInf s else FNaN)"
| "fadd (FInf s) (FFin t n f) = FInf s"
| "fadd (FFin s m e) (FInf t) = FInf t"
| "fadd _ _ = FNaN"

definition fsub :: "f64 \<Rightarrow> f64 \<Rightarrow> f64" where
  "fsub x y = fadd x (fneg y)"

fun fmul :: "f64 \<Rightarrow> f64 \<Rightarrow> f64" where
  "fmul (FFin s m e) (FFin t n f) = fscale (s \<noteq> t) (m * n) (e + f)"
| "fmul (FInf s) (FInf t) = FInf (s \<noteq> t)"
| "fmul (FInf s) (FFin t n f) = (if n = 0 then FNaN else FInf (s \<noteq> t))"
| "fmul (FFin s m e) (FInf t) = (if m = 0 then FNaN else FInf (s \<noteq> t))"
| "fmul _ _ = FNaN"

fun fdiv :: "f64 \<Rightarrow> f64 \<Rightarrow> f64" where
  "fdiv (FFin s m e) (FFin t n f) =
     (if n = 0 then (if m = 0 then FNaN else FInf (s \<noteq> t))
      else if f \<le> e then fround (s \<noteq> t) (m * 2 ^ nat (e - f)) n
      else fround (s \<noteq> t) m (n * 2 ^ nat (f - e)))"
| "fdiv (FInf s) (FFin t n f) = FInf (s \<noteq> t)"
| "fdiv (FFin s m e) (FInf t) = FFin (s \<noteq> t) 0 (-1074)"
| "fdiv _ _ = FNaN"

fun feq :: "f64 \<Rightarrow> f64 \<Rightarrow> bool" where
  "feq (FFin s m e) (FFin t n f) = (at_exp s m e (min e f) = at_exp t n f (min e f))"
| "feq (FInf s) (FInf t) = (s = t)"
| "feq _ _ = False"

fun flt :: "f64 \<Rightarrow> f64 \<Rightarrow> bool" where
  "flt (FFin s m e) (FFin t n f) = (at_exp s m e (min e f) < at_exp t n f (min e f))"
| "flt (FInf s) (FInf t) = (s \<and> \<not> t)"
| "flt (FInf s) (FFin t n f) = s"
| "flt (FFin s m e) (FInf t) = (\<not> t)"
| "flt _ _ = False"

definition fle :: "f64 \<Rightarrow> f64 \<Rightarrow> bool" where
  "fle x y \<longleftrightarrow> flt x y \<or> feq x y"

fun ffloor :: "f64 \<Rightarrow> f64" where
  \<comment> \<open>math.Floor\<close>
  "ffloor (FFin s m e) =
     (if m = 0 \<or> 0 \<le> e then FFin s m e else f_of_int (signed s m div 2 ^ nat (- e)))"
| "ffloor x = x"

fun fmodulo :: "f64 \<Rightarrow> f64 \<Rightarrow> f64" where
  \<comment> \<open>math.Mod: the remainder with the sign of the dividend\<close>
  "fmodulo (FFin s m e) (FFin t n f) =
     (if n = 0 then FNaN
      else let g = min e f in fscale s ((m * 2 ^ nat (e - g)) mod (n * 2 ^ nat (f - g))) g)"
| "fmodulo (FFin s m e) (FInf t) = FFin s m e"
| "fmodulo _ _ = FNaN"

fun f_trunc :: "f64 \<Rightarrow> int option" where
  \<comment> \<open>the integer part, None where there is none\<close>
  "f_trunc (FFin s m e) =
     Some (signed s (if 0 \<le> e then m * 2 ^ nat e else m div 2 ^ nat (- e)))"
| "f_trunc _ = None"

definition f_to_int64 :: "(f64 \<Rightarrow> int) \<Rightarrow> f64 \<Rightarrow> int" where
  \<comment> \<open>the conversion int(f): truncation; the language leaves the result of a value that does
      not fit to the implementation, which is the argument \<open>oor\<close>\<close>
  "f_to_int64 oor x =
     (case f_trunc x of
        Some i \<Rightarrow> if min_int64 \<le> i \<and> i \<le> max_int64 then i else oor x
      | None \<Rightarrow> oor x)"

section \<open>Reading: strconv.ParseFloat\<close>

definition is_hex :: "char \<Rightarrow> bool" where
  "is_hex c \<longleftrightarrow> is_digit c \<or> (let n = of_char (lower_char c) :: nat in 97 \<le> n \<and> n \<le> 102)"

definition hex_val :: "char \<Rightarrow> nat" where
  "hex_val c = (if is_digit c then digit_val c else of_char (lower_char c) - 87)"

fun underscore_ok :: "bool \<Rightarrow> char \<Rightarrow> string \<Rightarrow> bool" where
  \<comment> \<open>underscoreOK after the sign and the base prefix; the second argument is the class of the
      last character seen: 0 a digit, _ an underscore, anything else the rest\<close>
  "underscore_ok hex saw [] = (saw \<noteq> CHR ''_'')"
| "underscore_ok hex saw (c # s) =
     (if is_digit c \<or> (hex \<and> is_hex c) then underscore_ok hex (CHR ''0'') s
      else if c = CHR ''_'' then saw = CHR ''0'' \<and> underscore_ok hex (CHR ''_'') s
      else saw \<noteq> CHR ''_'' \<and> underscore_ok hex (CHR ''!'') s)"

definition read_mantissa :: "bool \<Rightarrow> string \<Rightarrow> (nat \<times> nat) option" where
  \<comment> \<open>all digits as one number, and how many of them follow the point\<close>
  "read_mantissa hex s =
     (let t = filter (\<lambda>c. c \<noteq> CHR ''_'') s;
          ip = takeWhile (\<lambda>c. c \<noteq> CHR ''.'') t;
          fp = drop (Suc (length ip)) t;
          base = (if hex then 16 else 10);
          value = (if hex then hex_val else digit_val)
      in if ip @ fp \<noteq> [] \<and> list_all (if hex then is_hex else is_digit) (ip @ fp)
         then Some (foldl (\<lambda>n c. base * n + value c) 0 (ip @ fp), length fp) else None)"

definition read_exponent :: "string \<Rightarrow> int option" where
  "read_exponent s =
     (let neg = (case s of c # _ \<Rightarrow> c = CHR ''-'' | [] \<Rightarrow> False);
          t = (case s of c # r \<Rightarrow> if c = CHR ''-'' \<or> c = CHR ''+'' then r else s | [] \<Rightarrow> s);
          u = filter (\<lambda>c. c \<noteq> CHR ''_'') t;
          n = foldl (\<lambda>n c. if n < 10000 then 10 * n + digit_val c else n) 0 u
      in if t \<noteq> [] \<and> is_digit (hd t) \<and> list_all is_digit u
         then Some (if neg then - int n else int n) else None)"

definition finite_only :: "f64 \<Rightarrow> f64 option" where
  \<comment> \<open>a value that rounds to infinity is a range error\<close>
  "finite_only x = (case x of FInf _ \<Rightarrow> None | _ \<Rightarrow> Some x)"

definition read_number :: "bool \<Rightarrow> string \<Rightarrow> f64 option" where
  "read_number neg s =
     (let hex = has_prefix ''0x'' (ToLower s);
          t = (if hex then drop 2 s else s);
          mark = (if hex then CHR ''p'' else CHR ''e'');
          mant = takeWhile (\<lambda>c. lower_char c \<noteq> mark) t;
          rest = drop (length mant) t;
          prefixed = has_prefix ''0b'' (ToLower s) \<or> has_prefix ''0o'' (ToLower s) \<or> hex
      in if CHR ''_'' \<in> set s \<and>
            \<not> underscore_ok hex (if prefixed then CHR ''0'' else CHR ''!'')
                (if prefixed then drop 2 s else s)
         then None
         else (case (read_mantissa hex mant,
                     if rest = [] then (if hex then None else Some 0) else read_exponent (tl rest)) of
             (Some (d, k), Some x) \<Rightarrow>
               finite_only
                 (if hex then fscale neg d (x - 4 * int k)
                  else if 0 \<le> x - int k then fround neg (d * 10 ^ nat (x - int k)) 1
                  else fround neg d (10 ^ nat (int k - x)))
           | _ \<Rightarrow> None))"

definition ParseFloat :: "string \<Rightarrow> f64 option" where
  "ParseFloat s =
     (let neg = (case s of c # _ \<Rightarrow> c = CHR ''-'' | [] \<Rightarrow> False);
          sgnd = (case s of c # _ \<Rightarrow> c = CHR ''-'' \<or> c = CHR ''+'' | [] \<Rightarrow> False);
          t = (if sgnd then tl s else s);
          l = ToLower t
      in if l = ''inf'' \<or> l = ''infinity'' then Some (FInf neg)
         else if l = ''nan'' \<and> \<not> sgnd then Some FNaN
         else read_number neg t)"

section \<open>Printing: the shortest decimal, as fmt prints a float64\<close>

function lead_zeros :: "nat \<Rightarrow> nat \<Rightarrow> nat" where
  \<comment> \<open>zeros after the point of \<open>num / den < 1\<close>\<close>
  "lead_zeros num den =
     (if num = 0 \<or> den \<le> 10 * num then 0 else Suc (lead_zeros (10 * num) den))"
  by pat_completeness auto
termination
  by (relation "measure (\<lambda>(num, den). den - num)") auto

declare lead_zeros.simps [simp del]

definition dec_exp :: "nat \<Rightarrow> nat \<Rightarrow> int" where
  "dec_exp num den =
     (if den \<le> num then int (length (show_nat (num div den))) else - int (lead_zeros num den))"

definition digits_at :: "nat \<Rightarrow> nat \<Rightarrow> f64 \<Rightarrow> int \<Rightarrow> nat \<Rightarrow> nat option" where
  \<comment> \<open>an n-digit decimal that reads back as x: the one below, the one above, the nearer of both\<close>
  "digits_at num den x k n =
     (let p = k - int n;
          a = (if 0 \<le> p then num else num * 10 ^ nat (- p));
          b = (if 0 \<le> p then den * 10 ^ nat p else den);
          lo = a div b;
          back = (\<lambda>d. if 0 \<le> p then fround False (d * 10 ^ nat p) 1
                      else fround False d (10 ^ nat (- p)))
      in if back lo = x \<and> back (lo + 1) = x then Some (round_half_even a b)
         else if back lo = x then Some lo
         else if back (lo + 1) = x then Some (lo + 1)
         else None)"

fun shortest_from :: "nat \<Rightarrow> nat \<Rightarrow> f64 \<Rightarrow> int \<Rightarrow> nat \<Rightarrow> nat \<Rightarrow> nat \<times> nat" where
  "shortest_from num den x k n 0 = (0, n)"
| "shortest_from num den x k n (Suc fuel) =
     (case digits_at num den x k n of
        Some d \<Rightarrow> (d, n)
      | None \<Rightarrow> shortest_from num den x k (Suc n) fuel)"

definition format_g :: "string \<Rightarrow> int \<Rightarrow> string" where
  \<comment> \<open>%g of the digits \<open>ds\<close> with the point before position \<open>dp\<close>: %e below 1e-4 and from 1e+06 on\<close>
  "format_g ds dp =
     (let x = dp - 1; nd = int (length ds)
      in if x < -4 \<or> 6 \<le> x
         then take 1 ds @ (if 1 < length ds then CHR ''.'' # drop 1 ds else []) @
              (if x < 0 then ''e-'' else ''e+'') @
              (if \<bar>x\<bar> < 10 then ''0'' else []) @ show_nat (nat \<bar>x\<bar>)
         else if dp \<le> 0 then ''0.'' @ replicate (nat (- dp)) CHR ''0'' @ ds
         else if nd \<le> dp then ds @ replicate (nat (dp - nd)) CHR ''0''
         else take (nat dp) ds @ CHR ''.'' # drop (nat dp) ds)"

definition short_digits :: "nat \<Rightarrow> int \<Rightarrow> string \<times> int" where
  \<comment> \<open>the shortest digits of a positive float that read back as it, and where its point is\<close>
  "short_digits m e =
     (let num = (if 0 \<le> e then m * 2 ^ nat e else m);
          den = (if 0 \<le> e then 1 else 2 ^ nat (- e));
          k = dec_exp num den;
          (d, n) = shortest_from num den (FFin False m e) k 1 17;
          ds = show_nat d
      in (trim_right (\<lambda>c. c = CHR ''0'') ds, k - int n + int (length ds)))"

definition Sprint_float :: "f64 \<Rightarrow> string" where
  \<comment> \<open>fmt.Sprint of a float64: %g with the fewest digits that read back\<close>
  "Sprint_float x =
     (case x of
        FNaN \<Rightarrow> ''NaN''
      | FInf neg \<Rightarrow> (if neg then ''-Inf'' else ''+Inf'')
      | FFin neg m e \<Rightarrow>
          (if neg then ''-'' else []) @
          (if m = 0 then ''0'' else (let (ds, dp) = short_digits m e in format_g ds dp)))"

definition format_f :: "nat \<Rightarrow> f64 \<Rightarrow> string" where
  \<comment> \<open>%.nf: the exact value rounded half to even at n decimals\<close>
  "format_f n x =
     (case x of
        FNaN \<Rightarrow> ''NaN''
      | FInf neg \<Rightarrow> (if neg then ''-Inf'' else ''+Inf'')
      | FFin neg m e \<Rightarrow>
          (let q = (if 0 \<le> e then m * 2 ^ nat e * 10 ^ n
                    else round_half_even (m * 10 ^ n) (2 ^ nat (- e)));
               frac = show_nat (q mod 10 ^ n)
           in (if neg then ''-'' else []) @ show_nat (q div 10 ^ n) @
              (if n = 0 then [] else ''.'' @ replicate (n - length frac) CHR ''0'' @ frac)))"

section \<open>Values and order\<close>

fun fval :: "f64 \<Rightarrow> real" where
  "fval (FFin s m e) = of_int (signed s m) * 2 powr of_int e"
| "fval _ = 0"

fun is_fin :: "f64 \<Rightarrow> bool" where
  "is_fin (FFin s m e) = True"
| "is_fin _ = False"

lemma at_exp_real:
  assumes "g \<le> e"
  shows "of_int (at_exp s m e g) * 2 powr of_int g = fval (FFin s m e)"
proof -
  have "(2::real) ^ nat (e - g) = 2 powr of_int (e - g)"
    using assms by (simp add: powr_realpow [symmetric])
  then show ?thesis
    by (simp add: at_exp_def powr_diff)
qed

lemma at_exp_less:
  "at_exp s m e (min e f) < at_exp t n f (min e f) \<longleftrightarrow> fval (FFin s m e) < fval (FFin t n f)"
  by (subst (1 2) at_exp_real [where g = "min e f", symmetric]) simp_all

lemma at_exp_eq:
  "at_exp s m e (min e f) = at_exp t n f (min e f) \<longleftrightarrow> fval (FFin s m e) = fval (FFin t n f)"
  by (subst (1 2) at_exp_real [where g = "min e f", symmetric]) simp_all

lemma flt_fval: "flt (FFin s m e) (FFin t n f) \<longleftrightarrow> fval (FFin s m e) < fval (FFin t n f)"
  by (simp only: flt.simps at_exp_less)

lemma feq_fval: "feq (FFin s m e) (FFin t n f) \<longleftrightarrow> fval (FFin s m e) = fval (FFin t n f)"
  by (simp only: feq.simps at_exp_eq)

lemmas float_order = flt_fval feq_fval

lemma flt_irrefl [simp]: "\<not> flt x x"
  by (cases x) simp_all

lemma flt_trans: "flt x y \<Longrightarrow> flt y z \<Longrightarrow> flt x z"
  by (cases x; cases y; cases z) (auto simp: flt_fval simp del: flt.simps(1) fval.simps)

lemma feq_sym: "feq x y \<Longrightarrow> feq y x"
  by (cases x; cases y) (auto simp: feq_fval simp del: feq.simps(1) fval.simps)

lemma feq_trans: "feq x y \<Longrightarrow> feq y z \<Longrightarrow> feq x z"
  by (cases x; cases y; cases z) (auto simp: feq_fval simp del: feq.simps(1) fval.simps)

lemma flt_feq_trans: "flt x y \<Longrightarrow> feq y z \<Longrightarrow> flt x z"
  by (cases x; cases y; cases z) (auto simp: float_order simp del: flt.simps(1) feq.simps(1) fval.simps)

lemma feq_flt_trans: "feq x y \<Longrightarrow> flt y z \<Longrightarrow> flt x z"
  by (cases x; cases y; cases z) (auto simp: float_order simp del: flt.simps(1) feq.simps(1) fval.simps)

lemma fle_trans: "fle x y \<Longrightarrow> fle y z \<Longrightarrow> fle x z"
  unfolding fle_def by (metis flt_trans feq_trans flt_feq_trans feq_flt_trans)

lemma flt_total: "x \<noteq> FNaN \<Longrightarrow> y \<noteq> FNaN \<Longrightarrow> flt x y \<or> feq x y \<or> flt y x"
  by (cases x; cases y) (auto simp: float_order simp del: flt.simps(1) feq.simps(1) fval.simps)

lemma feq_refl: "x \<noteq> FNaN \<Longrightarrow> feq x x"
  by (cases x) simp_all

lemma flt_not_feq: "flt x y \<Longrightarrow> \<not> feq x y"
  by (cases x; cases y) (auto simp: float_order simp del: flt.simps(1) feq.simps(1) fval.simps)

lemma flt_asym: "flt x y \<Longrightarrow> \<not> flt y x"
  using flt_trans flt_irrefl by blast

text \<open>What evaluates the arithmetic on a concrete input, by simplification on numerals.\<close>

lemmas char_eval = lower_char_def upper_char_def is_upper_def is_lower_def is_letter_def is_digit_def
  is_space_def digit_val_def digit_char_def

lemmas float_eval = f_of_int_def fround_def fscale_def at_exp_def signed_def flog2_def ilog2.simps
  round_half_even_def fle_def fsub_def f_to_int64_def min_int64_def max_int64_def

lemmas parse_float_eval = ParseFloat_def read_number_def read_mantissa_def read_exponent_def
  finite_only_def ToLower_def has_prefix_def is_hex_def hex_val_def

end
