(* ===== verification/GoValue.thy ===== *)
theory GoValue
  imports Float64
begin

text \<open>
  Values of Go's \<^verbatim>\<open>any\<close>: what an intent's context, a decision and a record's inputs hold.
  The constructors are the dynamic types the type switches of the source distinguish.  A
  map value is an association list with distinct keys.
\<close>

datatype goval =
    VNil
  | VBool bool
  | VInt int        \<comment> \<open>int\<close>
  | VInt64 int      \<comment> \<open>int64\<close>
  | VFloat f64
  | VStr string
  | VList "goval list"                  \<comment> \<open>[]any\<close>
  | VStrs "string list"                 \<comment> \<open>[]string\<close>
  | VMap "(string \<times> goval) list"       \<comment> \<open>map[string]any\<close>

type_synonym ctx = "(string \<times> goval) list"

definition show_pairs :: "(string \<times> string) list \<Rightarrow> string" where
  "show_pairs ps =
     ''map['' @ join_with '' '' (map (\<lambda>(k, v). k @ '':'' @ v) (sort_key fst ps)) @ '']''"

fun Sprint :: "goval \<Rightarrow> string" where
  \<comment> \<open>fmt.Sprint, and the verb %v\<close>
  "Sprint VNil = ''<nil>''"
| "Sprint (VBool b) = (if b then ''true'' else ''false'')"
| "Sprint (VInt i) = show_int i"
| "Sprint (VInt64 i) = show_int i"
| "Sprint (VFloat f) = Sprint_float f"
| "Sprint (VStr s) = s"
| "Sprint (VList vs) = ''['' @ join_with '' '' (map Sprint vs) @ '']''"
| "Sprint (VStrs ss) = ''['' @ join_with '' '' ss @ '']''"
| "Sprint (VMap m) = show_pairs (map (\<lambda>(k, v). (k, Sprint v)) m)"

section \<open>Formatting\<close>

definition hex_digit :: "nat \<Rightarrow> char" where
  "hex_digit n = (if n < 10 then char_of (48 + n) else char_of (87 + n))"

definition quote_char_go :: "char \<Rightarrow> string" where
  \<comment> \<open>one character inside the double quotes of strconv.Quote\<close>
  "quote_char_go c =
     (let n = of_char c :: nat; b = CHR 0x5C in
      if c = b \<or> n = 34 then [b, c]
      else if n = 7 then [b, CHR ''a''] else if n = 8 then [b, CHR ''b'']
      else if n = 12 then [b, CHR ''f''] else if n = 10 then [b, CHR ''n'']
      else if n = 13 then [b, CHR ''r''] else if n = 9 then [b, CHR ''t'']
      else if n = 11 then [b, CHR ''v'']
      else if n < 32 \<or> 127 \<le> n then [b, CHR ''x'', hex_digit (n div 16), hex_digit (n mod 16)]
      else [c])"

definition go_quote :: "string \<Rightarrow> string" where
  \<comment> \<open>the verb %q on a string\<close>
  "go_quote s = CHR 0x22 # concat (map quote_char_go s) @ [CHR 0x22]"

definition intent_words :: "string \<Rightarrow> string list" where
  \<comment> \<open>keywords in memory.go: the lower-cased words longer than three characters, as a set\<close>
  "intent_words s = remdups (map ToLower (filter (\<lambda>w. 3 < length w) (Fields s)))"

definition truncate_to :: "nat \<Rightarrow> string \<Rightarrow> string" where
  "truncate_to n s = (if n < length s then take n s else s)"

definition orText :: "string \<Rightarrow> string \<Rightarrow> string" where
  "orText s fallback = (if s = [] then fallback else s)"

end
