(* ===== verification/SafeEval.thy ===== *)
theory SafeEval
  imports GoValue
begin

text \<open>
  The safe expression evaluator of \<^verbatim>\<open>safeeval.go\<close>: the tokenizer, the recursive-descent
  parser that evaluates as it goes, and the operators on values.

  The parser of the source holds the token slice and a position; here it holds the tokens
  from the position on.  Its mutual recursion and its loops carry a fuel argument; running
  out of it is the error \<open>OutOfFuel\<close>, which the code does not have and which
  \<open>SafeEval\<close> is proved never to return.  \<^verbatim>\<open>math.Pow\<close> is the argument \<open>pw\<close>.
\<close>

section \<open>Tokens\<close>

datatype safe_error =
    MissingVariable string
  | UnsafeExpression string
  | OutOfFuel

datatype tokKind = tokNumber | tokString | tokName | tokOp | tokEOF

record token =
  tk_kind :: tokKind
  tk_text :: string

definition tok :: "tokKind \<Rightarrow> string \<Rightarrow> token" where
  "tok k s = \<lparr>tk_kind = k, tk_text = s\<rparr>"

definition eof_token :: token where
  "eof_token = tok tokEOF []"

definition twoChar :: "string list" where
  "twoChar = [''=='', ''!='', ''<='', ''>='', ''//'', ''**'']"

definition number_char :: "char \<Rightarrow> bool" where
  "number_char c \<longleftrightarrow> is_digit c \<or> c = CHR ''.''"

definition name_char :: "char \<Rightarrow> bool" where
  "name_char c \<longleftrightarrow> is_letter c \<or> is_digit c \<or> c = CHR ''_''"

definition push_token :: "token \<Rightarrow> (safe_error, token list) outcome \<Rightarrow> (safe_error, token list) outcome" where
  "push_token t r = bindR r (\<lambda>ts. Inr (t # ts))"

function tokenize :: "string \<Rightarrow> (safe_error, token list) outcome" where
  "tokenize [] = Inr [eof_token]"
| "tokenize (c # cs) =
     (if is_space c then tokenize cs
      else if c = CHR 0x22 \<or> c = CHR 0x27 then
        (case dropWhile (\<lambda>x. x \<noteq> c) cs of
           [] \<Rightarrow> Inl (UnsafeExpression ''unterminated string'')
         | _ # rest \<Rightarrow> push_token (tok tokString (takeWhile (\<lambda>x. x \<noteq> c) cs)) (tokenize rest))
      else if is_digit c \<or> (c = CHR ''.'' \<and> cs \<noteq> [] \<and> is_digit (hd cs)) then
        push_token (tok tokNumber (c # takeWhile number_char cs)) (tokenize (dropWhile number_char cs))
      else if is_letter c \<or> c = CHR ''_'' then
        push_token (tok tokName (c # takeWhile name_char cs)) (tokenize (dropWhile name_char cs))
      else if cs \<noteq> [] \<and> [c, hd cs] \<in> set twoChar then
        push_token (tok tokOp [c, hd cs]) (tokenize (tl cs))
      else if c \<notin> set ''+-*/%<>()[],'' then
        Inl (UnsafeExpression (''unexpected character: '' @ [c]))
      else push_token (tok tokOp [c]) (tokenize cs))"
  by pat_completeness auto
termination
proof (relation "measure length", goal_cases)
  case (3 c cs d rest)
  then have "length (d # rest) \<le> length cs" by (metis length_dropWhile_le)
  then show ?case by simp
qed (auto intro: le_imp_less_Suc length_dropWhile_le)

section \<open>Values\<close>

fun toNumber :: "goval \<Rightarrow> f64 option" where
  "toNumber (VFloat n) = Some n"
| "toNumber (VInt n) = Some (f_of_int n)"
| "toNumber (VInt64 n) = Some (f_of_int n)"
| "toNumber (VBool n) = Some (if n then f_of_int 1 else f_of_int 0)"
| "toNumber _ = None"

fun truthy :: "goval \<Rightarrow> bool" where
  "truthy (VBool n) = n"
| "truthy (VFloat n) = (\<not> feq n fzero)"
| "truthy (VStr n) = (n \<noteq> [])"
| "truthy VNil = False"
| "truthy (VList n) = (0 < length n)"
| "truthy _ = True"

definition arith :: "(f64 \<Rightarrow> f64 \<Rightarrow> f64) \<Rightarrow> string \<Rightarrow> goval \<Rightarrow> goval \<Rightarrow> (safe_error, goval) outcome" where
  "arith pw op a b =
     (case (toNumber a, toNumber b) of
        (Some x, Some y) \<Rightarrow>
          if op = ''+'' then Inr (VFloat (fadd x y))
          else if op = ''-'' then Inr (VFloat (fsub x y))
          else if op = ''*'' then Inr (VFloat (fmul x y))
          else if op = ''/'' then
            (if feq y fzero then Inl (UnsafeExpression ''division by zero'')
             else Inr (VFloat (fdiv x y)))
          else if op = ''//'' then
            (if feq y fzero then Inl (UnsafeExpression ''division by zero'')
             else Inr (VFloat (ffloor (fdiv x y))))
          else if op = ''%'' then
            (if feq y fzero then Inl (UnsafeExpression ''division by zero'')
             else Inr (VFloat (fmodulo x y)))
          else if op = ''**'' then Inr (VFloat (pw x y))
          else Inl (UnsafeExpression (''unsupported operator '' @ op))
      | _ \<Rightarrow>
          (case (a, b) of
             (VStr sa, VStr sb) \<Rightarrow>
               if op = ''+'' then Inr (VStr (sa @ sb))
               else Inl (UnsafeExpression ''arithmetic on non-number'')
           | _ \<Rightarrow> Inl (UnsafeExpression ''arithmetic on non-number'')))"

definition equal_val :: "goval \<Rightarrow> goval \<Rightarrow> bool" where
  "equal_val a b =
     (case (toNumber a, toNumber b) of
        (Some x, Some y) \<Rightarrow> feq x y
      | _ \<Rightarrow> Sprint a = Sprint b)"

fun contains_val :: "goval \<Rightarrow> goval \<Rightarrow> bool" where
  "contains_val (VStr c) item = contains_str (Sprint item) c"
| "contains_val (VList c) item = list_ex (\<lambda>e. equal_val e item) c"
| "contains_val _ item = False"

definition order_num :: "string \<Rightarrow> f64 \<Rightarrow> f64 \<Rightarrow> bool option" where
  "order_num op x y =
     (if op = ''<'' then Some (flt x y) else if op = ''<='' then Some (fle x y)
      else if op = ''>'' then Some (flt y x) else if op = ''>='' then Some (fle y x) else None)"

definition order_str :: "string \<Rightarrow> string \<Rightarrow> string \<Rightarrow> bool option" where
  "order_str op x y =
     (if op = ''<'' then Some (x < y) else if op = ''<='' then Some (x \<le> y)
      else if op = ''>'' then Some (y < x) else if op = ''>='' then Some (y \<le> x) else None)"

definition compare_val :: "string \<Rightarrow> goval \<Rightarrow> goval \<Rightarrow> (safe_error, goval) outcome" where
  "compare_val op a b =
     (if op = ''=='' then Inr (VBool (equal_val a b))
      else if op = ''!='' then Inr (VBool (\<not> equal_val a b))
      else if op = ''in'' then Inr (VBool (contains_val b a))
      else if op = ''not in'' then Inr (VBool (\<not> contains_val b a))
      else
        (case (case (toNumber a, toNumber b) of
                 (Some x, Some y) \<Rightarrow> order_num op x y
               | _ \<Rightarrow> (case (a, b) of (VStr sa, VStr sb) \<Rightarrow> order_str op sa sb | _ \<Rightarrow> None)) of
           Some r \<Rightarrow> Inr (VBool r)
         | None \<Rightarrow> Inl (UnsafeExpression ''cannot order these values'')))"

section \<open>The parser\<close>

definition peek :: "token list \<Rightarrow> token" where
  \<comment> \<open>the token at the position; the slice ends in the end-of-file token, which no step consumes\<close>
  "peek ts = (case ts of [] \<Rightarrow> eof_token | t # _ \<Rightarrow> t)"

definition acceptName :: "string \<Rightarrow> token list \<Rightarrow> token list option" where
  "acceptName word ts =
     (if tk_kind (peek ts) = tokName \<and> tk_text (peek ts) = word then Some (tl ts) else None)"

definition acceptOp :: "string \<Rightarrow> token list \<Rightarrow> token list option" where
  "acceptOp op ts =
     (if tk_kind (peek ts) = tokOp \<and> tk_text (peek ts) = op then Some (tl ts) else None)"

fun first_op :: "string list \<Rightarrow> token list \<Rightarrow> (string \<times> token list) option" where
  "first_op [] ts = None"
| "first_op (op # ops) ts =
     (case acceptOp op ts of Some ts' \<Rightarrow> Some (op, ts') | None \<Rightarrow> first_op ops ts)"

definition comparison_op :: "token list \<Rightarrow> (string \<times> token list) option" where
  "comparison_op ts =
     (case first_op [''=='', ''!='', ''<='', ''>='', ''<'', ''>''] ts of
        Some r \<Rightarrow> Some r
      | None \<Rightarrow>
          (case acceptName ''in'' ts of
             Some ts' \<Rightarrow> Some (''in'', ts')
           | None \<Rightarrow>
               (case acceptName ''not'' ts of
                  Some ts' \<Rightarrow>
                    (case acceptName ''in'' ts' of
                       Some ts'' \<Rightarrow> Some (''not in'', ts'')
                     | None \<Rightarrow> None)
                | None \<Rightarrow> None)))"

type_synonym parsed = "(safe_error, goval \<times> token list) outcome"

definition literal_name :: "string \<Rightarrow> goval option" where
  "literal_name s =
     (if s = ''true'' \<or> s = ''True'' then Some (VBool True)
      else if s = ''false'' \<or> s = ''False'' then Some (VBool False)
      else if s = ''none'' \<or> s = ''None'' \<or> s = ''null'' then Some VNil
      else None)"

definition name_value :: "(string \<Rightarrow> goval option) \<Rightarrow> string \<Rightarrow> (safe_error, goval) outcome" where
  "name_value vars s =
     (case literal_name s of
        Some v \<Rightarrow> Inr v
      | None \<Rightarrow> (case vars s of Some v \<Rightarrow> Inr v | None \<Rightarrow> Inl (MissingVariable s)))"

definition number_value :: "string \<Rightarrow> (safe_error, goval) outcome" where
  "number_value s =
     (case ParseFloat s of
        Some f \<Rightarrow> Inr (VFloat f)
      | None \<Rightarrow> Inl (UnsafeExpression (''bad number: '' @ s)))"

definition negate_val :: "goval \<Rightarrow> (safe_error, goval) outcome" where
  "negate_val v =
     (case toNumber v of
        Some f \<Rightarrow> Inr (VFloat (fneg f))
      | None \<Rightarrow> Inl (UnsafeExpression ''unary minus on non-number''))"

text \<open>
  One definition per method of \<^verbatim>\<open>exprParser\<close>, in the order of the source, each loop as a
  definition of its own that carries the value accumulated so far.  A method calls another
  through \<open>go\<close>, which names the method; \<open>run_parser\<close> ties the knot, one unit of fuel a call.
\<close>

datatype pmethod =
    MOr | MOrLoop goval | MAnd | MAndLoop goval | MNot
  | MComparison | MCompLoop goval | MSum | MSumLoop goval | MTerm | MTermLoop goval
  | MUnary | MPower | MAtom | MListLoop "goval list"

type_synonym calls = "pmethod \<Rightarrow> token list \<Rightarrow> parsed"

definition parseOr :: "calls \<Rightarrow> token list \<Rightarrow> parsed" where
  "parseOr go ts = bindR (go MAnd ts) (\<lambda>(left, ts1). go (MOrLoop left) ts1)"

definition orLoop :: "calls \<Rightarrow> goval \<Rightarrow> token list \<Rightarrow> parsed" where
  "orLoop go left ts =
     (case acceptName ''or'' ts of
        None \<Rightarrow> Inr (left, ts)
      | Some ts1 \<Rightarrow>
          bindR (go MAnd ts1)
            (\<lambda>(right, ts2). go (MOrLoop (VBool (truthy left \<or> truthy right))) ts2))"

definition parseAnd :: "calls \<Rightarrow> token list \<Rightarrow> parsed" where
  "parseAnd go ts = bindR (go MNot ts) (\<lambda>(left, ts1). go (MAndLoop left) ts1)"

definition andLoop :: "calls \<Rightarrow> goval \<Rightarrow> token list \<Rightarrow> parsed" where
  "andLoop go left ts =
     (case acceptName ''and'' ts of
        None \<Rightarrow> Inr (left, ts)
      | Some ts1 \<Rightarrow>
          bindR (go MNot ts1)
            (\<lambda>(right, ts2). go (MAndLoop (VBool (truthy left \<and> truthy right))) ts2))"

definition parseNot :: "calls \<Rightarrow> token list \<Rightarrow> parsed" where
  "parseNot go ts =
     (case acceptName ''not'' ts of
        Some ts1 \<Rightarrow> bindR (go MNot ts1) (\<lambda>(operand, ts2). Inr (VBool (\<not> truthy operand), ts2))
      | None \<Rightarrow> go MComparison ts)"

definition parseComparison :: "calls \<Rightarrow> token list \<Rightarrow> parsed" where
  "parseComparison go ts = bindR (go MSum ts) (\<lambda>(left, ts1). go (MCompLoop left) ts1)"

definition compLoop :: "calls \<Rightarrow> goval \<Rightarrow> token list \<Rightarrow> parsed" where
  "compLoop go left ts =
     (case comparison_op ts of
        None \<Rightarrow> Inr (left, ts)
      | Some (op, ts1) \<Rightarrow>
          bindR (go MSum ts1)
            (\<lambda>(right, ts2). bindR (compare_val op left right) (\<lambda>result. go (MCompLoop result) ts2)))"

definition parseSum :: "calls \<Rightarrow> token list \<Rightarrow> parsed" where
  "parseSum go ts = bindR (go MTerm ts) (\<lambda>(left, ts1). go (MSumLoop left) ts1)"

definition sumLoop :: "(f64 \<Rightarrow> f64 \<Rightarrow> f64) \<Rightarrow> calls \<Rightarrow> goval \<Rightarrow> token list \<Rightarrow> parsed" where
  "sumLoop pw go left ts =
     (case first_op [''+'', ''-''] ts of
        None \<Rightarrow> Inr (left, ts)
      | Some (op, ts1) \<Rightarrow>
          bindR (go MTerm ts1)
            (\<lambda>(right, ts2). bindR (arith pw op left right) (\<lambda>result. go (MSumLoop result) ts2)))"

definition parseTerm :: "calls \<Rightarrow> token list \<Rightarrow> parsed" where
  "parseTerm go ts = bindR (go MUnary ts) (\<lambda>(left, ts1). go (MTermLoop left) ts1)"

definition termLoop :: "(f64 \<Rightarrow> f64 \<Rightarrow> f64) \<Rightarrow> calls \<Rightarrow> goval \<Rightarrow> token list \<Rightarrow> parsed" where
  "termLoop pw go left ts =
     (case first_op [''*'', ''//'', ''/'', ''%''] ts of
        None \<Rightarrow> Inr (left, ts)
      | Some (op, ts1) \<Rightarrow>
          bindR (go MUnary ts1)
            (\<lambda>(right, ts2). bindR (arith pw op left right) (\<lambda>result. go (MTermLoop result) ts2)))"

definition parseUnary :: "calls \<Rightarrow> token list \<Rightarrow> parsed" where
  "parseUnary go ts =
     (case acceptOp ''-'' ts of
        Some ts1 \<Rightarrow>
          bindR (go MUnary ts1)
            (\<lambda>(operand, ts2). bindR (negate_val operand) (\<lambda>v. Inr (v, ts2)))
      | None \<Rightarrow>
          (case acceptOp ''+'' ts of
             Some ts1 \<Rightarrow> go MUnary ts1
           | None \<Rightarrow> go MPower ts))"

definition parsePower :: "(f64 \<Rightarrow> f64 \<Rightarrow> f64) \<Rightarrow> calls \<Rightarrow> token list \<Rightarrow> parsed" where
  "parsePower pw go ts =
     bindR (go MAtom ts)
       (\<lambda>(base, ts1).
          case acceptOp ''**'' ts1 of
            Some ts2 \<Rightarrow>
              bindR (go MUnary ts2)
                (\<lambda>(ex, ts3). bindR (arith pw ''**'' base ex) (\<lambda>v. Inr (v, ts3)))
          | None \<Rightarrow> Inr (base, ts1))"

definition parseAtom :: "(string \<Rightarrow> goval option) \<Rightarrow> calls \<Rightarrow> token list \<Rightarrow> parsed" where
  "parseAtom vars go ts =
     (let t = peek ts in
      case tk_kind t of
        tokNumber \<Rightarrow> bindR (number_value (tk_text t)) (\<lambda>v. Inr (v, tl ts))
      | tokString \<Rightarrow> Inr (VStr (tk_text t), tl ts)
      | tokName \<Rightarrow> bindR (name_value vars (tk_text t)) (\<lambda>v. Inr (v, tl ts))
      | tokOp \<Rightarrow>
          (if tk_text t = ''('' then
             bindR (go MOr (tl ts))
               (\<lambda>(v, ts1).
                  case acceptOp '')'' ts1 of
                    Some ts2 \<Rightarrow> Inr (v, ts2)
                  | None \<Rightarrow> Inl (UnsafeExpression ''missing )''))
           else if tk_text t = ''['' then
             (case acceptOp '']'' (tl ts) of
                Some ts1 \<Rightarrow> Inr (VList [], ts1)
              | None \<Rightarrow> go (MListLoop []) (tl ts))
           else Inl (UnsafeExpression (''unexpected token: '' @ tk_text t)))
      | tokEOF \<Rightarrow> Inl (UnsafeExpression (''unexpected token: '' @ tk_text t)))"

definition listLoop :: "calls \<Rightarrow> goval list \<Rightarrow> token list \<Rightarrow> parsed" where
  "listLoop go list ts =
     bindR (go MOr ts)
       (\<lambda>(v, ts1).
          case acceptOp '','' ts1 of
            Some ts2 \<Rightarrow> go (MListLoop (list @ [v])) ts2
          | None \<Rightarrow>
              (case acceptOp '']'' ts1 of
                 Some ts2 \<Rightarrow> Inr (VList (list @ [v]), ts2)
               | None \<Rightarrow> Inl (UnsafeExpression ''malformed list'')))"

definition parse_step :: "(f64 \<Rightarrow> f64 \<Rightarrow> f64) \<Rightarrow> (string \<Rightarrow> goval option) \<Rightarrow> calls \<Rightarrow> calls" where
  "parse_step pw vars go m ts =
     (case m of
        MOr \<Rightarrow> parseOr go ts
      | MOrLoop left \<Rightarrow> orLoop go left ts
      | MAnd \<Rightarrow> parseAnd go ts
      | MAndLoop left \<Rightarrow> andLoop go left ts
      | MNot \<Rightarrow> parseNot go ts
      | MComparison \<Rightarrow> parseComparison go ts
      | MCompLoop left \<Rightarrow> compLoop go left ts
      | MSum \<Rightarrow> parseSum go ts
      | MSumLoop left \<Rightarrow> sumLoop pw go left ts
      | MTerm \<Rightarrow> parseTerm go ts
      | MTermLoop left \<Rightarrow> termLoop pw go left ts
      | MUnary \<Rightarrow> parseUnary go ts
      | MPower \<Rightarrow> parsePower pw go ts
      | MAtom \<Rightarrow> parseAtom vars go ts
      | MListLoop list \<Rightarrow> listLoop go list ts)"

primrec run_parser :: "(f64 \<Rightarrow> f64 \<Rightarrow> f64) \<Rightarrow> (string \<Rightarrow> goval option) \<Rightarrow> nat \<Rightarrow> calls" where
  "run_parser pw vars 0 m ts = Inl OutOfFuel"
| "run_parser pw vars (Suc n) m ts = parse_step pw vars (run_parser pw vars n) m ts"

definition parse_fuel :: "token list \<Rightarrow> nat" where
  \<comment> \<open>sixteen units for every token and the end: no path through the grammar uses more\<close>
  "parse_fuel ts = 16 * Suc (length ts)"

definition SafeEval :: "(f64 \<Rightarrow> f64 \<Rightarrow> f64) \<Rightarrow> string \<Rightarrow> (string \<Rightarrow> goval option) \<Rightarrow> (safe_error, goval) outcome" where
  "SafeEval pw expression variables =
     bindR (tokenize expression)
       (\<lambda>toks.
          bindR (run_parser pw variables (parse_fuel toks) MOr toks)
            (\<lambda>(value, rest).
               if tk_kind (peek rest) \<noteq> tokEOF
               then Inl (UnsafeExpression (''trailing tokens: '' @ tk_text (peek rest)))
               else Inr value))"

section \<open>The fuel is enough\<close>

definition good :: "nat \<Rightarrow> parsed \<Rightarrow> bool" where
  "good b r \<longleftrightarrow> (case r of Inl e \<Rightarrow> e \<noteq> OutOfFuel | Inr (v, ts) \<Rightarrow> length ts \<le> b)"

fun rank :: "pmethod \<Rightarrow> nat" where
  "rank MOr = 9" | "rank MAnd = 8" | "rank MNot = 7" | "rank MComparison = 6" | "rank MSum = 5"
| "rank MTerm = 4" | "rank MUnary = 3" | "rank MPower = 2" | "rank (MListLoop _) = 10" | "rank _ = 1"

definition need :: "pmethod \<Rightarrow> token list \<Rightarrow> nat" where
  "need m ts = 16 * length ts + rank m"

lemma good_simps [simp]:
  "good b (Inl e) \<longleftrightarrow> e \<noteq> OutOfFuel" "good b (Inr (v, ts)) \<longleftrightarrow> length ts \<le> b"
  by (simp_all add: good_def)

lemma good_mono: "good b r \<Longrightarrow> b \<le> c \<Longrightarrow> good c r"
  by (auto simp: good_def split: sum.splits)

lemma good_bind:
  "good b r \<Longrightarrow> (\<And>v ts. length ts \<le> b \<Longrightarrow> good c (f (v, ts))) \<Longrightarrow> good c (bindR r f)"
  by (cases r) (auto simp: good_def)

lemma values_no_fuel [simp]:
  "arith pw op a b \<noteq> Inl OutOfFuel" "compare_val op a b \<noteq> Inl OutOfFuel"
  "negate_val a \<noteq> Inl OutOfFuel" "number_value s \<noteq> Inl OutOfFuel"
  "name_value vars s \<noteq> Inl OutOfFuel"
  by (simp_all add: arith_def compare_val_def negate_val_def number_value_def name_value_def
        split: option.split goval.split)

lemma good_bind_val:
  assumes "\<And>v. good c (f v)"
  shows "good c (bindR (arith pw op a b) f)" "good c (bindR (compare_val op a b) f)"
    "good c (bindR (negate_val a) f)" "good c (bindR (number_value s) f)"
    "good c (bindR (name_value vars s) f)"
  using assms values_no_fuel by (auto simp: bindR_def split: sum.split)

lemma acceptName_length: "acceptName w ts = Some ts' \<Longrightarrow> Suc (length ts') = length ts"
  by (cases ts) (auto simp: acceptName_def peek_def eof_token_def tok_def split: if_splits)

lemma acceptOp_length: "acceptOp w ts = Some ts' \<Longrightarrow> Suc (length ts') = length ts"
  by (cases ts) (auto simp: acceptOp_def peek_def eof_token_def tok_def split: if_splits)

lemma first_op_length: "first_op ops ts = Some (op, ts') \<Longrightarrow> Suc (length ts') = length ts"
  by (induction ops) (auto dest: acceptOp_length split: option.splits)

lemma comparison_op_length:
  assumes "comparison_op ts = Some (op, ts')"
  shows "length ts' < length ts"
  using assms
  by (auto simp: comparison_op_def split: option.splits prod.splits
      dest!: acceptName_length acceptOp_length first_op_length)

lemmas accept_lengths = acceptName_length acceptOp_length first_op_length comparison_op_length

lemma peek_nonempty:
  "tk_kind (peek ts) = tokOp \<Longrightarrow> \<exists>k. length ts = Suc k" "tk_kind (peek ts) = tokName \<Longrightarrow> \<exists>k. length ts = Suc k"
  "tk_kind (peek ts) = tokString \<Longrightarrow> \<exists>k. length ts = Suc k" "tk_kind (peek ts) = tokNumber \<Longrightarrow> \<exists>k. length ts = Suc k"
  by (cases ts; simp add: peek_def eof_token_def tok_def)+

lemmas method_defs = parse_step_def parseOr_def orLoop_def parseAnd_def andLoop_def parseNot_def
  parseComparison_def compLoop_def parseSum_def sumLoop_def parseTerm_def termLoop_def
  parseUnary_def parsePower_def parseAtom_def listLoop_def

lemma parse_step_good:
  assumes go: "\<And>m ts. need m ts \<le> n \<Longrightarrow> good (length ts) (go m ts)"
    and fuel: "need m ts \<le> Suc n"
  shows "good (length ts) (parse_step pw vars go m ts)"
proof -
  have call: "good c (bindR (go m' ts') f)"
    if "need m' ts' \<le> n" "\<And>v us. length us \<le> length ts' \<Longrightarrow> good c (f (v, us))" for m' ts' f c
    using go [OF that(1)] that(2) by (rule good_bind)
  have last: "good c (go m' ts')" if "need m' ts' \<le> n" "length ts' \<le> c" for m' ts' c
    using go [OF that(1)] that(2) by (rule good_mono)
  show ?thesis
    using fuel
    by (cases m)
      (auto simp: method_defs need_def Let_def dest!: accept_lengths peek_nonempty
        split: option.split tokKind.split prod.split
        intro!: call last good_bind_val)
qed

lemma run_parser_good: "need m ts \<le> n \<Longrightarrow> good (length ts) (run_parser pw vars n m ts)"
proof (induction n arbitrary: m ts)
  case 0
  then show ?case by (cases m) (simp_all add: need_def)
next
  case (Suc n)
  show ?case
    unfolding run_parser.simps by (rule parse_step_good) (use Suc in auto)
qed

lemma tokenize_no_fuel [simp]: "tokenize s \<noteq> Inl OutOfFuel"
  by (induction s rule: tokenize.induct)
    (auto simp: push_token_def bindR_eq_Inl split: list.split)

section \<open>The parser without fuel\<close>

text \<open>
  A run with more fuel agrees with a run that did not exhaust its own, so the run with just
  the fuel \<open>need\<close> names satisfies the equations of the source's methods without any fuel.
\<close>

definition fuel_le :: "parsed \<Rightarrow> parsed \<Rightarrow> bool" where
  "fuel_le r r' \<longleftrightarrow> r = Inl OutOfFuel \<or> r = r'"

lemma fuel_le_refl [simp]: "fuel_le r r"
  by (simp add: fuel_le_def)

lemma fuel_le_bind:
  assumes "fuel_le r r'" "\<And>x. fuel_le (f x) (f' x)"
  shows "fuel_le (bindR r f) (bindR r' f')"
proof (cases r)
  case (Inr a)
  with assms(1) assms(2) [of a] show ?thesis by (auto simp: fuel_le_def)
qed (use assms(1) in \<open>auto simp: fuel_le_def\<close>)

lemma fuel_le_bind_val:
  "(\<And>x. fuel_le (f x) (f' x)) \<Longrightarrow> fuel_le (bindR r f) (bindR r f')"
  for r :: "(safe_error, goval) outcome"
  by (cases r) auto

lemma parse_step_mono:
  assumes "\<And>m ts. fuel_le (go m ts) (go' m ts)"
  shows "fuel_le (parse_step pw vars go m ts) (parse_step pw vars go' m ts)"
  by (cases m)
    (auto simp: method_defs Let_def assms split: option.split tokKind.split prod.split
      intro!: fuel_le_bind fuel_le_bind_val)

lemma run_parser_mono: "fuel_le (run_parser pw vars n m ts) (run_parser pw vars (n + k) m ts)"
proof (induction n arbitrary: m ts)
  case 0
  show ?case by (simp add: fuel_le_def)
next
  case (Suc n)
  then show ?case by (auto intro: parse_step_mono)
qed

definition parse :: "(f64 \<Rightarrow> f64 \<Rightarrow> f64) \<Rightarrow> (string \<Rightarrow> goval option) \<Rightarrow> calls" where
  "parse pw vars m ts = run_parser pw vars (need m ts) m ts"

lemma run_parser_no_fuel: "need m ts \<le> n \<Longrightarrow> run_parser pw vars n m ts \<noteq> Inl OutOfFuel"
  using run_parser_good [of m ts n pw vars] by (auto simp: good_def)

lemma run_parser_enough:
  assumes "need m ts \<le> n" shows "run_parser pw vars n m ts = parse pw vars m ts"
  using run_parser_mono [of pw vars "need m ts" m ts "n - need m ts"] assms
    run_parser_no_fuel [of m ts "need m ts" pw vars]
  by (simp add: fuel_le_def parse_def)

lemma run_parser_le: "fuel_le (run_parser pw vars n m ts) (parse pw vars m ts)"
proof (cases "need m ts \<le> n")
  case True
  then show ?thesis by (simp add: run_parser_enough)
next
  case False
  then show ?thesis
    using run_parser_mono [of pw vars n m ts "need m ts - n"] by (simp add: parse_def)
qed

lemma parse_unfold: "parse pw vars m ts = parse_step pw vars (parse pw vars) m ts"
proof -
  have "fuel_le (parse_step pw vars (run_parser pw vars (need m ts)) m ts)
          (parse_step pw vars (parse pw vars) m ts)"
    by (intro parse_step_mono run_parser_le)
  moreover have "parse_step pw vars (run_parser pw vars (need m ts)) m ts = parse pw vars m ts"
    using run_parser_enough [of m ts "Suc (need m ts)" pw vars] by simp
  moreover have "parse pw vars m ts \<noteq> Inl OutOfFuel"
    by (simp add: parse_def run_parser_no_fuel)
  ultimately show ?thesis by (simp add: fuel_le_def)
qed

lemma SafeEval_parse:
  "SafeEval pw expression vars =
     bindR (tokenize expression)
       (\<lambda>toks. bindR (parse pw vars MOr toks)
          (\<lambda>(value, rest).
             if tk_kind (peek rest) \<noteq> tokEOF
             then Inl (UnsafeExpression (''trailing tokens: '' @ tk_text (peek rest)))
             else Inr value))"
  by (simp add: SafeEval_def run_parser_enough parse_fuel_def need_def)

lemma parse_no_fuel [simp]: "parse pw vars m ts \<noteq> Inl OutOfFuel"
  by (simp add: parse_def run_parser_no_fuel)

end
