(* ===== verification/SafeEvalSpec.thy ===== *)
theory SafeEvalSpec
  imports SafeEval
begin

text \<open>
  What the evaluator of \<^verbatim>\<open>safeeval.go\<close> promises: expressions as an abstract syntax with a
  compositional meaning, their tokens printed with the parentheses the grammar of the file's
  header needs, and the proof that the parser evaluates the tokens of every expression to its
  meaning.  Precedence and associativity are what the printer leaves out parentheses for.
\<close>

section \<open>Expressions and their meaning\<close>

datatype expr =
    ENum string | EStr string | EName string | EList "expr list"
  | EPow expr expr | ENeg expr | EPos expr
  | ETerm string expr expr | ESum string expr expr | ECmp string expr expr
  | ENot expr | EAnd expr expr | EOr expr expr

type_synonym valued = "(safe_error, goval) outcome"

fun collect :: "valued list \<Rightarrow> (safe_error, goval list) outcome" where
  "collect [] = Inr []"
| "collect (r # rs) = bindR r (\<lambda>v. bindR (collect rs) (\<lambda>vs. Inr (v # vs)))"

definition both :: "valued \<Rightarrow> valued \<Rightarrow> (goval \<Rightarrow> goval \<Rightarrow> valued) \<Rightarrow> valued" where
  "both a b f = bindR a (\<lambda>x. bindR b (f x))"

fun eval_expr :: "(f64 \<Rightarrow> f64 \<Rightarrow> f64) \<Rightarrow> (string \<Rightarrow> goval option) \<Rightarrow> expr \<Rightarrow> valued" where
  "eval_expr pw vars (ENum s) = number_value s"
| "eval_expr pw vars (EStr s) = Inr (VStr s)"
| "eval_expr pw vars (EName s) = name_value vars s"
| "eval_expr pw vars (EList es) =
     bindR (collect (map (eval_expr pw vars) es)) (\<lambda>vs. Inr (VList vs))"
| "eval_expr pw vars (EPow a b) = both (eval_expr pw vars a) (eval_expr pw vars b) (arith pw ''**'')"
| "eval_expr pw vars (ENeg a) = bindR (eval_expr pw vars a) negate_val"
| "eval_expr pw vars (EPos a) = eval_expr pw vars a"
| "eval_expr pw vars (ETerm op a b) = both (eval_expr pw vars a) (eval_expr pw vars b) (arith pw op)"
| "eval_expr pw vars (ESum op a b) = both (eval_expr pw vars a) (eval_expr pw vars b) (arith pw op)"
| "eval_expr pw vars (ECmp op a b) = both (eval_expr pw vars a) (eval_expr pw vars b) (compare_val op)"
| "eval_expr pw vars (ENot a) = bindR (eval_expr pw vars a) (\<lambda>v. Inr (VBool (\<not> truthy v)))"
| "eval_expr pw vars (EAnd a b) =
     both (eval_expr pw vars a) (eval_expr pw vars b) (\<lambda>x y. Inr (VBool (truthy x \<and> truthy y)))"
| "eval_expr pw vars (EOr a b) =
     both (eval_expr pw vars a) (eval_expr pw vars b) (\<lambda>x y. Inr (VBool (truthy x \<or> truthy y)))"

definition keyword :: "string \<Rightarrow> bool" where
  "keyword s \<longleftrightarrow> s \<in> {''or'', ''and'', ''not'', ''in''}"

fun wf_expr :: "expr \<Rightarrow> bool" where
  "wf_expr (ENum s) = True"
| "wf_expr (EStr s) = True"
| "wf_expr (EName s) = (\<not> keyword s)"
| "wf_expr (EList es) = list_all wf_expr es"
| "wf_expr (EPow a b) = (wf_expr a \<and> wf_expr b)"
| "wf_expr (ENeg a) = wf_expr a"
| "wf_expr (EPos a) = wf_expr a"
| "wf_expr (ETerm op a b) = (op \<in> {''*'', ''//'', ''/'', ''%''} \<and> wf_expr a \<and> wf_expr b)"
| "wf_expr (ESum op a b) = (op \<in> {''+'', ''-''} \<and> wf_expr a \<and> wf_expr b)"
| "wf_expr (ECmp op a b) =
     (op \<in> {''=='', ''!='', ''<='', ''>='', ''<'', ''>'', ''in'', ''not in''} \<and> wf_expr a \<and> wf_expr b)"
| "wf_expr (ENot a) = wf_expr a"
| "wf_expr (EAnd a b) = (wf_expr a \<and> wf_expr b)"
| "wf_expr (EOr a b) = (wf_expr a \<and> wf_expr b)"

section \<open>Printing\<close>

text \<open>The levels of the grammar: or 1, and 2, not 3, comp 4, sum 5, term 6, unary 7, power 8, atom 9.\<close>

fun prec :: "expr \<Rightarrow> nat" where
  "prec (EOr _ _) = 1" | "prec (EAnd _ _) = 2" | "prec (ENot _) = 3" | "prec (ECmp _ _ _) = 4"
| "prec (ESum _ _ _) = 5" | "prec (ETerm _ _ _) = 6" | "prec (ENeg _) = 7" | "prec (EPos _) = 7"
| "prec (EPow _ _) = 8" | "prec _ = 9"

abbreviation opTok :: "string \<Rightarrow> token" where "opTok s \<equiv> tok tokOp s"
abbreviation nameTok :: "string \<Rightarrow> token" where "nameTok s \<equiv> tok tokName s"

definition paren :: "nat \<Rightarrow> nat \<Rightarrow> token list \<Rightarrow> token list" where
  "paren l p ts = (if p < l then opTok ''('' # ts @ [opTok '')''] else ts)"

definition cmp_toks :: "string \<Rightarrow> token list" where
  "cmp_toks op =
     (if op = ''in'' then [nameTok ''in'']
      else if op = ''not in'' then [nameTok ''not'', nameTok ''in''] else [opTok op])"

fun commas :: "token list list \<Rightarrow> token list" where
  "commas [] = []"
| "commas [x] = x"
| "commas (x # y # ys) = x @ opTok '','' # commas (y # ys)"

fun raw :: "expr \<Rightarrow> token list" where
  "raw (ENum s) = [tok tokNumber s]"
| "raw (EStr s) = [tok tokString s]"
| "raw (EName s) = [nameTok s]"
| "raw (EList es) = opTok ''['' # commas (map raw es) @ [opTok '']'']"
| "raw (EPow a b) = paren 9 (prec a) (raw a) @ opTok ''**'' # paren 7 (prec b) (raw b)"
| "raw (ENeg a) = opTok ''-'' # paren 7 (prec a) (raw a)"
| "raw (EPos a) = opTok ''+'' # paren 7 (prec a) (raw a)"
| "raw (ETerm op a b) = paren 6 (prec a) (raw a) @ opTok op # paren 7 (prec b) (raw b)"
| "raw (ESum op a b) = paren 5 (prec a) (raw a) @ opTok op # paren 6 (prec b) (raw b)"
| "raw (ECmp op a b) = paren 4 (prec a) (raw a) @ cmp_toks op @ paren 5 (prec b) (raw b)"
| "raw (ENot a) = nameTok ''not'' # paren 3 (prec a) (raw a)"
| "raw (EAnd a b) = paren 2 (prec a) (raw a) @ nameTok ''and'' # paren 3 (prec b) (raw b)"
| "raw (EOr a b) = paren 1 (prec a) (raw a) @ nameTok ''or'' # paren 2 (prec b) (raw b)"

section \<open>What may follow an operand\<close>

definition tok_level :: "token \<Rightarrow> nat" where
  "tok_level t =
     (case tk_kind t of
        tokName \<Rightarrow> (if tk_text t = ''or'' then 1 else if tk_text t = ''and'' then 2
                    else if tk_text t = ''in'' \<or> tk_text t = ''not'' then 4 else 0)
      | tokOp \<Rightarrow>
          (if tk_text t \<in> {''=='', ''!='', ''<='', ''>='', ''<'', ''>''} then 4
           else if tk_text t \<in> {''+'', ''-''} then 5
           else if tk_text t \<in> {''*'', ''//'', ''/'', ''%''} then 6
           else if tk_text t = ''**'' then 9 else 0)
      | _ \<Rightarrow> 0)"

abbreviation quiet :: "nat \<Rightarrow> token list \<Rightarrow> bool" where
  "quiet l rest \<equiv> tok_level (peek rest) \<le> l"

fun meth :: "nat \<Rightarrow> pmethod" where
  "meth l = (if l \<le> 1 then MOr else if l = 2 then MAnd else if l = 3 then MNot
     else if l = 4 then MComparison else if l = 5 then MSum else if l = 6 then MTerm
     else if l = 7 then MUnary else if l = 8 then MPower else MAtom)"

definition cont :: "(f64 \<Rightarrow> f64 \<Rightarrow> f64) \<Rightarrow> (string \<Rightarrow> goval option) \<Rightarrow> nat \<Rightarrow> goval \<Rightarrow> token list \<Rightarrow> parsed" where
  \<comment> \<open>the loop a level goes on with after its first operand\<close>
  "cont pw vars l v ts =
     (if l \<le> 1 then parse pw vars (MOrLoop v) ts
      else if l = 2 then parse pw vars (MAndLoop v) ts
      else if l = 4 then parse pw vars (MCompLoop v) ts
      else if l = 5 then parse pw vars (MSumLoop v) ts
      else if l = 6 then parse pw vars (MTermLoop v) ts
      else Inr (v, ts))"

lemma peek_Cons [simp]: "peek (t # ts) = t"
  by (simp add: peek_def)

lemma tok_sel [simp]: "tk_kind (tok k s) = k" "tk_text (tok k s) = s"
  by (simp_all add: tok_def)

lemma accept_Cons [simp]:
  "acceptName w (tok k s # ts) = (if k = tokName \<and> s = w then Some ts else None)"
  "acceptOp w (tok k s # ts) = (if k = tokOp \<and> s = w then Some ts else None)"
  by (simp_all add: acceptName_def acceptOp_def)

lemmas parse_eqs = parse_unfold [of _ _ MOr] parse_unfold [of _ _ "MOrLoop v" for v]
  parse_unfold [of _ _ MAnd] parse_unfold [of _ _ "MAndLoop v" for v] parse_unfold [of _ _ MNot]
  parse_unfold [of _ _ MComparison] parse_unfold [of _ _ "MCompLoop v" for v]
  parse_unfold [of _ _ MSum] parse_unfold [of _ _ "MSumLoop v" for v]
  parse_unfold [of _ _ MTerm] parse_unfold [of _ _ "MTermLoop v" for v]
  parse_unfold [of _ _ MUnary] parse_unfold [of _ _ MPower] parse_unfold [of _ _ MAtom]
  parse_unfold [of _ _ "MListLoop v" for v]

lemma acceptName_quiet:
  "quiet 0 ts \<Longrightarrow> acceptName ''or'' ts = None" "quiet 1 ts \<Longrightarrow> acceptName ''and'' ts = None"
  "quiet 3 ts \<Longrightarrow> acceptName ''in'' ts = None" "quiet 3 ts \<Longrightarrow> acceptName ''not'' ts = None"
  by (auto simp: acceptName_def tok_level_def)

lemma acceptOp_quiet:
  "quiet 3 ts \<Longrightarrow> op \<in> {''=='', ''!='', ''<='', ''>='', ''<'', ''>''} \<Longrightarrow> acceptOp op ts = None"
  "quiet 4 ts \<Longrightarrow> op \<in> {''+'', ''-''} \<Longrightarrow> acceptOp op ts = None"
  "quiet 5 ts \<Longrightarrow> op \<in> {''*'', ''//'', ''/'', ''%''} \<Longrightarrow> acceptOp op ts = None"
  "quiet 8 ts \<Longrightarrow> acceptOp ''**'' ts = None"
  by (auto simp: acceptOp_def tok_level_def)

lemma cont_simps [simp]:
  "cont pw vars 1 v ts = parse pw vars (MOrLoop v) ts"
  "cont pw vars (Suc 0) v ts = parse pw vars (MOrLoop v) ts"
  "cont pw vars 2 v ts = parse pw vars (MAndLoop v) ts"
  "cont pw vars 3 v ts = Inr (v, ts)"
  "cont pw vars 4 v ts = parse pw vars (MCompLoop v) ts"
  "cont pw vars 5 v ts = parse pw vars (MSumLoop v) ts"
  "cont pw vars 6 v ts = parse pw vars (MTermLoop v) ts"
  "cont pw vars 7 v ts = Inr (v, ts)" "cont pw vars 8 v ts = Inr (v, ts)"
  "cont pw vars 9 v ts = Inr (v, ts)"
  by (simp_all add: cont_def)

lemma cont_quiet:
  assumes "tok_level (peek rest) < l" shows "cont pw vars l v rest = Inr (v, rest)"
proof -
  from assms consider "l = 1" | "l = 2" | "l = 4" | "l = 5" | "l = 6" | "l \<notin> {1, 2, 4, 5, 6}" "1 < l"
    by fastforce
  then show ?thesis
    by cases (use assms in \<open>auto simp: cont_def parse_eqs method_defs comparison_op_def
      acceptName_quiet acceptOp_quiet\<close>)
qed

section \<open>From one level to the next\<close>

definition parses_at :: "(f64 \<Rightarrow> f64 \<Rightarrow> f64) \<Rightarrow> (string \<Rightarrow> goval option) \<Rightarrow> nat \<Rightarrow> token list \<Rightarrow> valued \<Rightarrow> bool" where
  "parses_at pw vars l X r \<longleftrightarrow>
     (\<forall>rest. quiet l rest \<longrightarrow>
        parse pw vars (meth l) (X @ rest) = bindR r (\<lambda>v. cont pw vars l v rest))"

definition leads :: "nat \<Rightarrow> token list \<Rightarrow> bool" where
  "leads l X \<longleftrightarrow>
     (case X of
        [] \<Rightarrow> False
      | t # _ \<Rightarrow> t \<noteq> opTok '']'' \<and> (4 \<le> l \<longrightarrow> t \<noteq> nameTok ''not'') \<and> (8 \<le> l \<longrightarrow> t \<noteq> opTok ''-'' \<and> t \<noteq> opTok ''+''))"

lemma bindR_assoc: "bindR (bindR r f) g = bindR r (\<lambda>x. bindR (f x) g)"
  by (cases r) simp_all

lemma tok_eq [simp]: "tok k s = tok k' s' \<longleftrightarrow> k = k' \<and> s = s'"
  by (auto simp: tok_def)

lemma leads_not: "4 \<le> l \<Longrightarrow> leads l X \<Longrightarrow> acceptName ''not'' (X @ ts) = None"
  by (cases X) (auto simp: leads_def acceptName_def tok_def)

lemma leads_sign: "8 \<le> l \<Longrightarrow> leads l X \<Longrightarrow> acceptOp ''-'' (X @ ts) = None \<and> acceptOp ''+'' (X @ ts) = None"
  by (cases X) (auto simp: leads_def acceptOp_def tok_def)

lemma leads_mono: "leads l X \<Longrightarrow> k \<le> l \<Longrightarrow> leads k X"
  by (auto simp: leads_def split: list.splits)

lemma descend:
  assumes "1 \<le> l" "l < 8" "leads (Suc l) X"
  shows "parse pw vars (meth l) (X @ rest) =
           bindR (parse pw vars (meth (Suc l)) (X @ rest)) (\<lambda>(v, ts). cont pw vars l v ts)"
proof -
  from assms(1,2) consider "l = 1" | "l = 2" | "l = 3" | "l = 4" | "l = 5" | "l = 6" | "l = 7"
    by fastforce
  then show ?thesis
  proof cases
    case 3
    with assms show ?thesis
      by (simp add: parse_unfold [of _ _ MNot] method_defs leads_not [of 4] cont_def)
  next
    case 7
    with assms show ?thesis
      by (simp add: parse_unfold [of _ _ MUnary] method_defs leads_sign [of 8] cont_def)
  next
    case 1
    show ?thesis by (subst parse_unfold) (auto simp: 1 method_defs intro!: bindR_cong)
  next
    case 2
    show ?thesis by (subst parse_unfold) (auto simp: 2 method_defs intro!: bindR_cong)
  next
    case 4
    show ?thesis by (subst parse_unfold) (auto simp: 4 method_defs intro!: bindR_cong)
  next
    case 5
    show ?thesis by (subst parse_unfold) (auto simp: 5 method_defs intro!: bindR_cong)
  next
    case 6
    show ?thesis by (subst parse_unfold) (auto simp: 6 method_defs intro!: bindR_cong)
  qed
qed

lemma lift_level:
  assumes "1 \<le> l" "l \<le> 8" "leads (Suc l) X" "parses_at pw vars (Suc l) X r"
  shows "parses_at pw vars l X r"
proof (unfold parses_at_def, intro allI impI)
  fix rest assume q: "quiet l rest"
  then have up: "parse pw vars (meth (Suc l)) (X @ rest) = bindR r (\<lambda>v. Inr (v, rest))"
    using assms(4) by (simp add: parses_at_def cont_quiet del: meth.simps)
  show "parse pw vars (meth l) (X @ rest) = bindR r (\<lambda>v. cont pw vars l v rest)"
  proof (cases "l = 8")
    case True
    with up q show ?thesis
      by (simp add: parse_unfold [of _ _ MPower] method_defs bindR_assoc acceptOp_quiet(4) cont_def)
  next
    case False
    with assms have "l < 8" by simp
    with assms up show ?thesis
      by (simp add: descend bindR_assoc del: meth.simps)
  qed
qed

lemma lift_levels:
  assumes "parses_at pw vars p X r" "leads p X" "1 \<le> l" "l \<le> p" "p \<le> 9"
  shows "parses_at pw vars l X r"
  using assms
proof (induction "p - l" arbitrary: l)
  case (Suc n)
  then have "parses_at pw vars (Suc l) X r" by simp
  moreover have "leads (Suc l) X"
    by (rule leads_mono [OF Suc.prems(2)]) (use Suc.hyps(2) in simp)
  moreover have "l \<le> 8" using Suc.hyps(2) Suc.prems(5) by simp
  ultimately show ?case
    using lift_level Suc.prems(3) by blast
qed simp

lemma leads_paren: "leads p X \<Longrightarrow> leads l (paren l p X)"
  by (auto simp: paren_def leads_def leads_mono [of p X l] split: list.splits)

lemma parses_paren:
  assumes "parses_at pw vars p X r" "leads p X" "1 \<le> l" "l \<le> 9" "1 \<le> p" "p \<le> 9"
  shows "parses_at pw vars l (paren l p X) r"
proof (cases "p < l")
  case True
  let ?Y = "opTok ''('' # X @ [opTok '')'']"
  have inner: "parses_at pw vars 1 X r" by (rule lift_levels [OF assms(1,2)]) (use assms in simp_all)
  have close: "tok_level (opTok '')'') = 0" by (simp add: tok_level_def)
  then have "parse pw vars (MOrLoop v) (opTok '')'' # rest) = Inr (v, opTok '')'' # rest)" for v rest
    using cont_quiet [of "opTok '')'' # rest" 1] by simp
  with inner close have "parse pw vars MOr (X @ opTok '')'' # rest) = bindR r (\<lambda>v. Inr (v, opTok '')'' # rest))" for rest
    by (simp add: parses_at_def)
  then have "parses_at pw vars 9 ?Y r"
    by (simp add: parses_at_def parse_unfold [of _ _ MAtom] method_defs bindR_assoc cont_def)
  then have "parses_at pw vars l ?Y r"
    by (rule lift_levels) (use assms in \<open>auto simp: leads_def\<close>)
  with True show ?thesis by (simp add: paren_def)
next
  case False
  with assms show ?thesis by (auto simp: paren_def intro: lift_levels)
qed

section \<open>The parser evaluates what was printed\<close>

lemma leads_append: "leads l X \<Longrightarrow> leads l (X @ Y)"
  by (auto simp: leads_def split: list.splits)

lemma leads_left: "leads p X \<Longrightarrow> k \<le> l \<Longrightarrow> leads k (paren l p X @ Y)"
  by (intro leads_append leads_mono [OF leads_paren])

lemma leads_Cons:
  "leads l (t # ts) \<longleftrightarrow> t \<noteq> opTok '']'' \<and> (4 \<le> l \<longrightarrow> t \<noteq> nameTok ''not'') \<and>
     (8 \<le> l \<longrightarrow> t \<noteq> opTok ''-'' \<and> t \<noteq> opTok ''+'')"
  by (simp add: leads_def)

lemma leads_raw: "wf_expr e \<Longrightarrow> leads (prec e) (raw e)"
  by (induction e) (auto simp: leads_Cons keyword_def intro!: leads_left)

lemma prec_range [simp]: "Suc 0 \<le> prec e" "prec e \<le> 9"
  by (cases e; simp)+

lemma tok_level_gaps: "tok_level t \<le> 8 \<Longrightarrow> tok_level t \<le> 6"
  by (auto simp: tok_level_def split: tokKind.splits if_splits)

lemma parses_binary:
  assumes X: "parses_at pw vars l X r" and Y: "parses_at pw vars (Suc l) Y r'"
    and ops: "quiet l (ops @ Y @ [t])" "ops \<noteq> []"
    and loop: "\<And>x ts. cont pw vars l x (ops @ ts) =
      bindR (parse pw vars (meth (Suc l)) ts) (\<lambda>(y, us). bindR (f x y) (\<lambda>z. cont pw vars l z us))"
  shows "parses_at pw vars l (X @ ops @ Y) (both r r' f)"
proof (unfold parses_at_def, intro allI impI)
  fix rest assume q: "quiet l rest"
  have qo: "quiet l (ops @ Y @ rest)" using ops by (cases ops) auto
  have "parse pw vars (meth l) (X @ ops @ Y @ rest) = bindR r (\<lambda>x. cont pw vars l x (ops @ Y @ rest))"
    using X qo unfolding parses_at_def by blast
  moreover have "parse pw vars (meth (Suc l)) (Y @ rest) = bindR r' (\<lambda>y. Inr (y, rest))"
    using Y q by (simp add: parses_at_def cont_quiet del: meth.simps)
  ultimately show "parse pw vars (meth l) ((X @ ops @ Y) @ rest) =
      bindR (both r r' f) (\<lambda>v. cont pw vars l v rest)"
    by (simp add: loop bindR_assoc both_def del: meth.simps)
qed

lemma parses_list:
  assumes "es \<noteq> []" "\<And>e. e \<in> set es \<Longrightarrow> parses_at pw vars 1 (raw e) (eval_expr pw vars e)"
  shows "parse pw vars (MListLoop acc) (commas (map raw es) @ opTok '']'' # rest) =
    bindR (collect (map (eval_expr pw vars) es)) (\<lambda>vs. Inr (VList (acc @ vs), rest))"
  using assms
proof (induction es arbitrary: acc rule: list_nonempty_induct)
  case (single e)
  have "tok_level (opTok '']'') < 1" by (simp add: tok_level_def)
  with single [of e] have "parse pw vars MOr (raw e @ opTok '']'' # rest) =
      bindR (eval_expr pw vars e) (\<lambda>v. Inr (v, opTok '']'' # rest))"
    by (simp add: parses_at_def cont_quiet del: cont_simps)
  then show ?case
    by (simp add: parse_unfold [of _ _ "MListLoop acc"] method_defs bindR_assoc)
next
  case (cons e es)
  let ?more = "opTok '','' # commas (map raw es) @ opTok '']'' # rest"
  have "tok_level (opTok '','') < 1" by (simp add: tok_level_def)
  with cons.prems [of e] have "parse pw vars MOr (raw e @ ?more) =
      bindR (eval_expr pw vars e) (\<lambda>v. Inr (v, ?more))"
    by (simp add: parses_at_def cont_quiet del: cont_simps)
  moreover have "commas (map raw (e # es)) = raw e @ opTok '','' # commas (map raw es)"
    using cons.hyps by (cases es) simp_all
  ultimately show ?case
    using cons.IH cons.prems
    by (simp add: parse_unfold [of _ _ "MListLoop acc"] method_defs bindR_assoc)
qed

lemma parses_operand:
  "wf_expr e \<Longrightarrow> parses_at pw vars (prec e) (raw e) r \<Longrightarrow> 1 \<le> l \<Longrightarrow> l \<le> 9 \<Longrightarrow>
     parses_at pw vars l (paren l (prec e) (raw e)) r"
  by (intro parses_paren leads_raw) auto

lemma parses_prefix:
  assumes "parses_at pw vars l X r" "l = 3 \<or> l = 7"
    and head: "\<And>ts. parse pw vars (meth l) (t # ts) =
      bindR (parse pw vars (meth l) ts) (\<lambda>(v, us). bindR (f v) (\<lambda>w. Inr (w, us)))"
  shows "parses_at pw vars l (t # X) (bindR r f)"
proof (unfold parses_at_def, intro allI impI)
  fix rest assume "quiet l rest"
  with assms(1) have "parse pw vars (meth l) (X @ rest) = bindR r (\<lambda>v. cont pw vars l v rest)"
    by (simp add: parses_at_def del: meth.simps)
  with assms(2) show "parse pw vars (meth l) ((t # X) @ rest) = bindR (bindR r f) (\<lambda>v. cont pw vars l v rest)"
    by (auto simp: head bindR_assoc simp del: meth.simps)
qed

lemma parses_power:
  assumes "parses_at pw vars 9 X r" "parses_at pw vars 7 Y r'"
  shows "parses_at pw vars 8 (X @ opTok ''**'' # Y) (both r r' (arith pw ''**''))"
proof (unfold parses_at_def, intro allI impI)
  fix rest assume "quiet 8 rest"
  then have "quiet 7 rest" using tok_level_gaps by force
  with assms(2) have Y: "parse pw vars MUnary (Y @ rest) = bindR r' (\<lambda>v. Inr (v, rest))"
    by (simp add: parses_at_def)
  have "quiet 9 (opTok ''**'' # Y @ rest)" by (simp add: tok_level_def)
  with assms(1) have X: "parse pw vars MAtom (X @ opTok ''**'' # Y @ rest) =
      bindR r (\<lambda>v. Inr (v, opTok ''**'' # Y @ rest))"
    by (simp add: parses_at_def)
  then show "parse pw vars (meth 8) ((X @ opTok ''**'' # Y) @ rest) =
      bindR (both r r' (arith pw ''**'')) (\<lambda>v. cont pw vars 8 v rest)"
    using Y by (simp add: parse_unfold [of _ _ MPower] method_defs bindR_assoc both_def)
qed

lemma comparison_op_toks:
  "op \<in> {''=='', ''!='', ''<='', ''>='', ''<'', ''>'', ''in'', ''not in''} \<Longrightarrow>
     comparison_op (cmp_toks op @ ts) = Some (op, ts)"
  by (elim insertE) (simp_all add: comparison_op_def cmp_toks_def)

lemma parses_raw: "wf_expr e \<Longrightarrow> parses_at pw vars (prec e) (raw e) (eval_expr pw vars e)"
proof (induction e)
  case (EOr a b)
  then show ?case
    using parses_binary [of pw vars 1 "paren 1 (prec a) (raw a)" _ "paren 2 (prec b) (raw b)" _
        "[nameTok ''or'']" undefined "\<lambda>x y. Inr (VBool (truthy x \<or> truthy y))"]
    by (simp add: parses_operand tok_level_def parse_unfold [of _ _ "MOrLoop x" "nameTok ''or'' # ts" for x ts] method_defs
        flip: One_nat_def)
next
  case (EAnd a b)
  then show ?case
    using parses_binary [of pw vars 2 "paren 2 (prec a) (raw a)" _ "paren 3 (prec b) (raw b)" _
        "[nameTok ''and'']" undefined "\<lambda>x y. Inr (VBool (truthy x \<and> truthy y))"]
    by (simp add: parses_operand tok_level_def parse_unfold [of _ _ "MAndLoop x" "nameTok ''and'' # ts" for x ts] method_defs)
next
  case (ECmp op a b)
  have "cont pw vars 4 x (cmp_toks op @ ts) = bindR (parse pw vars (meth 5) ts)
      (\<lambda>(y, us). bindR (compare_val op x y) (\<lambda>z. cont pw vars 4 z us))" for x ts
    using ECmp.prems
    by (simp only: parse_unfold [of _ _ "MCompLoop x" "cmp_toks op @ ts"] parse_step_def compLoop_def
        comparison_op_toks wf_expr.simps cont_simps) simp
  moreover have "quiet 4 (cmp_toks op @ us)" "cmp_toks op \<noteq> []" for us
    using ECmp.prems by (auto simp: cmp_toks_def tok_level_def)
  ultimately show ?case
    using ECmp parses_binary [of pw vars 4 "paren 4 (prec a) (raw a)" _ "paren 5 (prec b) (raw b)" _
        "cmp_toks op" undefined "compare_val op"]
    by (simp add: parses_operand)
next
  case (ESum op a b)
  have "cont pw vars 5 x ([opTok op] @ ts) = bindR (parse pw vars (meth 6) ts)
      (\<lambda>(y, us). bindR (arith pw op x y) (\<lambda>z. cont pw vars 5 z us))" for x ts
    using ESum.prems by (auto simp: parse_unfold [of _ _ "MSumLoop x" for x] method_defs)
  moreover have "quiet 5 ([opTok op] @ us)" for us
    using ESum.prems by (auto simp: tok_level_def)
  ultimately show ?case
    using ESum parses_binary [of pw vars 5 "paren 5 (prec a) (raw a)" _ "paren 6 (prec b) (raw b)" _
        "[opTok op]" undefined "arith pw op"]
    by (simp add: parses_operand)
next
  case (ETerm op a b)
  have "cont pw vars 6 x ([opTok op] @ ts) = bindR (parse pw vars (meth 7) ts)
      (\<lambda>(y, us). bindR (arith pw op x y) (\<lambda>z. cont pw vars 6 z us))" for x ts
    using ETerm.prems by (auto simp: parse_unfold [of _ _ "MTermLoop x" for x] method_defs)
  moreover have "quiet 6 ([opTok op] @ us)" for us
    using ETerm.prems by (auto simp: tok_level_def)
  ultimately show ?case
    using ETerm parses_binary [of pw vars 6 "paren 6 (prec a) (raw a)" _ "paren 7 (prec b) (raw b)" _
        "[opTok op]" undefined "arith pw op"]
    by (simp add: parses_operand)
next
  case (ENot a)
  then show ?case
    using parses_prefix [of pw vars 3 "paren 3 (prec a) (raw a)" "eval_expr pw vars a" "nameTok ''not''"
        "\<lambda>v. Inr (VBool (\<not> truthy v))"]
    by (simp add: parses_operand parse_unfold [of _ _ MNot "nameTok ''not'' # ts" for ts] method_defs)
next
  case (ENeg a)
  then show ?case
    using parses_prefix [of pw vars 7 "paren 7 (prec a) (raw a)" "eval_expr pw vars a" "opTok ''-''" negate_val]
    by (simp add: parses_operand parse_unfold [of _ _ MUnary "opTok ''-'' # ts" for ts] method_defs)
next
  case (EPos a)
  then show ?case
    using parses_prefix [of pw vars 7 "paren 7 (prec a) (raw a)" "eval_expr pw vars a" "opTok ''+''" Inr]
    by (simp add: parses_operand parse_unfold [of _ _ MUnary "opTok ''+'' # ts" for ts] method_defs)
next
  case (EPow a b)
  then show ?case by (simp add: parses_power parses_operand)
next
  case (EList es)
  show ?case
  proof (cases "es = []")
    case True
    then show ?thesis by (simp add: parses_at_def parse_unfold [of _ _ MAtom] method_defs)
  next
    case False
    then obtain e es' where es: "es = e # es'" by (cases es) auto
    with EList.prems have "leads (prec e) (raw e)" by (simp add: leads_raw)
    then have "leads 0 (commas (map raw es))"
      using es by (cases es') (auto intro: leads_append leads_mono)
    then have "acceptOp '']'' (commas (map raw es) @ ts) = None" for ts
      by (cases "commas (map raw es)") (auto simp: leads_Cons leads_def acceptOp_def tok_def)
    moreover have "parses_at pw vars 1 (raw e) (eval_expr pw vars e)" if "e \<in> set es" for e
      by (rule lift_levels [OF EList.IH leads_raw]) (use EList.prems that in \<open>auto simp: list_all_iff\<close>)
    ultimately show ?thesis
      using False
      by (simp add: parses_at_def parse_unfold [of _ _ MAtom] method_defs bindR_assoc parses_list)
  qed
qed (simp_all add: parses_at_def parse_unfold [of _ _ MAtom] method_defs bindR_assoc)

section \<open>Text and tokens\<close>

definition quote_char :: char where "quote_char = CHR 0x22"

definition show_tok :: "token \<Rightarrow> string" where
  "show_tok t = (if tk_kind t = tokString then quote_char # tk_text t @ [quote_char] else tk_text t)"

definition render :: "token list \<Rightarrow> string" where
  "render ts = concat (map (\<lambda>t. show_tok t @ '' '') ts)"

definition op_text :: "string \<Rightarrow> bool" where
  "op_text s \<longleftrightarrow> s \<in> set twoChar \<or> (length s = 1 \<and> hd s \<in> set ''+-*/%<>()[],'')"

definition lexable :: "token \<Rightarrow> bool" where
  "lexable t =
     (let s = tk_text t in
      case tk_kind t of
        tokNumber \<Rightarrow> s \<noteq> [] \<and> is_digit (hd s) \<and> list_all number_char s
      | tokString \<Rightarrow> quote_char \<notin> set s
      | tokName \<Rightarrow> s \<noteq> [] \<and> (is_letter (hd s) \<or> hd s = CHR ''_'') \<and> list_all name_char s
      | tokOp \<Rightarrow> op_text s
      | tokEOF \<Rightarrow> False)"

fun lex_expr :: "expr \<Rightarrow> bool" where
  \<comment> \<open>the atoms of an expression can be written in the source's tokens\<close>
  "lex_expr (ENum s) = lexable (tok tokNumber s)"
| "lex_expr (EStr s) = lexable (tok tokString s)"
| "lex_expr (EName s) = lexable (nameTok s)"
| "lex_expr (EList es) = list_all lex_expr es"
| "lex_expr (EPow a b) = (lex_expr a \<and> lex_expr b)"
| "lex_expr (ENeg a) = lex_expr a"
| "lex_expr (EPos a) = lex_expr a"
| "lex_expr (ETerm op a b) = (lex_expr a \<and> lex_expr b)"
| "lex_expr (ESum op a b) = (lex_expr a \<and> lex_expr b)"
| "lex_expr (ECmp op a b) = (lex_expr a \<and> lex_expr b)"
| "lex_expr (ENot a) = lex_expr a"
| "lex_expr (EAnd a b) = (lex_expr a \<and> lex_expr b)"
| "lex_expr (EOr a b) = (lex_expr a \<and> lex_expr b)"

lemma takeWhile_stop: "list_all p s \<Longrightarrow> \<not> p x \<Longrightarrow> takeWhile p (s @ x # t) = s"
  by (induction s) auto

lemma dropWhile_stop: "list_all p s \<Longrightarrow> \<not> p x \<Longrightarrow> dropWhile p (s @ x # t) = x # t"
  by (induction s) auto

lemma char_classes [simp]:
  "\<not> number_char CHR '' ''" "\<not> name_char CHR '' ''" "is_space CHR '' ''" "\<not> is_space quote_char"
  "is_digit c \<Longrightarrow> \<not> is_space c" "is_letter c \<Longrightarrow> \<not> is_space c" "is_letter c \<Longrightarrow> \<not> is_digit c"
  "\<not> is_space CHR ''_''" "\<not> is_digit CHR ''_''"
  by (auto simp: number_char_def name_char_def quote_char_def is_letter_def is_digit_def is_space_def
      is_upper_def is_lower_def Let_def)

lemma not_quote:
  "is_digit c \<Longrightarrow> c \<noteq> CHR 0x22 \<and> c \<noteq> CHR 0x27" "is_letter c \<Longrightarrow> c \<noteq> CHR 0x22 \<and> c \<noteq> CHR 0x27 \<and> c \<noteq> CHR ''.''"
  by (auto simp: is_letter_def is_digit_def is_upper_def is_lower_def Let_def)

lemma tokenize_space [simp]: "tokenize (CHR '' '' # s) = tokenize s"
  by (subst tokenize.simps) simp

lemma tokenize_string:
  "quote_char \<notin> set w \<Longrightarrow>
     tokenize (quote_char # w @ quote_char # s) = push_token (tok tokString w) (tokenize s)"
proof -
  assume "quote_char \<notin> set w"
  then have w: "list_all (\<lambda>x. x \<noteq> quote_char) w" by (auto simp: list_all_iff)
  show ?thesis
    by (subst tokenize.simps)
      (simp only: takeWhile_stop [OF w] dropWhile_stop [OF w], simp, simp add: quote_char_def)
qed

lemma tokenize_number:
  assumes "w \<noteq> []" "is_digit (hd w)" "list_all number_char w"
  shows "tokenize (w @ CHR '' '' # s) = push_token (tok tokNumber w) (tokenize s)"
proof -
  obtain c cs where w: "w = c # cs" using assms(1) by (cases w) auto
  with assms have cs: "is_digit c" "list_all number_char cs" by auto
  then show ?thesis
    using not_quote [of c] by (simp add: w takeWhile_stop dropWhile_stop)
qed

lemma tokenize_name:
  assumes "w \<noteq> []" "is_letter (hd w) \<or> hd w = CHR ''_''" "list_all name_char w"
  shows "tokenize (w @ CHR '' '' # s) = push_token (tok tokName w) (tokenize s)"
proof -
  obtain c cs where w: "w = c # cs" using assms(1) by (cases w) auto
  with assms have cs: "is_letter c \<or> c = CHR ''_''" "list_all name_char cs" by auto
  then show ?thesis
    using not_quote [of c] by (auto simp: w takeWhile_stop dropWhile_stop)
qed

definition op_start :: "char \<Rightarrow> bool" where
  "op_start c \<longleftrightarrow> \<not> is_space c \<and> c \<noteq> CHR 0x22 \<and> c \<noteq> CHR 0x27 \<and> \<not> is_digit c \<and> c \<noteq> CHR ''.'' \<and>
     \<not> is_letter c \<and> c \<noteq> CHR ''_''"

lemma op_start_chars: "list_all op_start ''+-*/%<>()[],=!''"
  by code_simp

lemma tokenize_one_op:
  assumes "c \<in> set ''+-*/%<>()[],''"
  shows "tokenize (c # CHR '' '' # s) = push_token (tok tokOp [c]) (tokenize s)"
proof -
  have "op_start c" using assms op_start_chars by (auto simp: list_all_iff)
  moreover have "[c, CHR '' ''] \<notin> set twoChar" by (simp add: twoChar_def)
  ultimately show ?thesis
    using assms by (subst tokenize.simps) (simp add: op_start_def)
qed

lemma tokenize_two_op:
  assumes "[c, d] \<in> set twoChar"
  shows "tokenize (c # d # CHR '' '' # s) = push_token (tok tokOp [c, d]) (tokenize s)"
proof -
  have "c \<in> set ''+-*/%<>()[],=!''" using assms by (auto simp: twoChar_def)
  then have "op_start c" using op_start_chars by (auto simp: list_all_iff)
  then show ?thesis
    using assms by (subst tokenize.simps) (simp add: op_start_def)
qed

lemma tokenize_op:
  assumes "op_text w"
  shows "tokenize (w @ CHR '' '' # s) = push_token (tok tokOp w) (tokenize s)"
proof -
  from assms consider c where "w = [c]" "c \<in> set ''+-*/%<>()[],''"
    | c d where "w = [c, d]" "[c, d] \<in> set twoChar"
  proof (cases "w \<in> set twoChar")
    case False
    with assms show ?thesis using that(1) by (cases w) (simp_all add: op_text_def)
  next
    case True
    then have "w = [hd w, hd (tl w)]" by (auto simp: twoChar_def)
    with True show ?thesis using that(2) by metis
  qed
  then show ?thesis by cases (simp_all only: tokenize_one_op tokenize_two_op append.simps)
qed

lemma tokenize_tok:
  assumes "lexable t"
  shows "tokenize (show_tok t @ CHR '' '' # s) = push_token t (tokenize s)"
proof -
  have "t = tok (tk_kind t) (tk_text t)" by (simp add: tok_def)
  then obtain k w where t: "t = tok k w" by blast
  show ?thesis
  proof (cases k)
    case tokNumber
    with assms t show ?thesis by (simp add: lexable_def Let_def show_tok_def del: tokenize.simps add: tokenize_number)
  next
    case tokString
    with assms have "quote_char \<notin> set w" using t by (simp add: lexable_def Let_def)
    from tokenize_string [OF this, of "CHR '' '' # s"] tokString t show ?thesis
      by (simp add: show_tok_def del: tokenize.simps)
  next
    case tokName
    with assms t show ?thesis by (simp add: lexable_def Let_def show_tok_def del: tokenize.simps add: tokenize_name)
  next
    case tokOp
    with assms t show ?thesis by (simp add: lexable_def Let_def show_tok_def del: tokenize.simps add: tokenize_op)
  qed (use assms t in \<open>simp add: lexable_def Let_def\<close>)
qed

lemma tokenize_render: "list_all lexable ts \<Longrightarrow> tokenize (render ts) = Inr (ts @ [eof_token])"
proof (induction ts)
  case (Cons t ts)
  have "tokenize (render (t # ts)) = tokenize (show_tok t @ CHR '' '' # render ts)"
    by (simp add: render_def del: tokenize.simps)
  with Cons show ?case by (simp add: tokenize_tok push_token_def del: tokenize.simps)
qed (simp add: render_def)

lemmas lex_eval = lexable_def op_text_def twoChar_def name_char_def number_char_def quote_char_def char_eval

lemma lexable_ops:
  "lexable (opTok ''('')" "lexable (opTok '')'')" "lexable (opTok ''['')" "lexable (opTok '']'')"
  "lexable (opTok '','')" "lexable (opTok ''**'')" "lexable (opTok ''-'')" "lexable (opTok ''+'')"
  "lexable (nameTok ''not'')" "lexable (nameTok ''and'')" "lexable (nameTok ''or'')" "lexable (nameTok ''in'')"
  by (simp_all add: lex_eval)

lemma lexable_op_text:
  "op \<in> {''*'', ''//'', ''/'', ''%''} \<Longrightarrow> lexable (opTok op)" "op \<in> {''+'', ''-''} \<Longrightarrow> lexable (opTok op)"
  by (elim insertE; simp add: lexable_def op_text_def twoChar_def)+

lemma lexable_cmp:
  "op \<in> {''=='', ''!='', ''<='', ''>='', ''<'', ''>'', ''in'', ''not in''} \<Longrightarrow> list_all lexable (cmp_toks op)"
  by (elim insertE; simp add: cmp_toks_def lexable_ops; simp add: lexable_def op_text_def twoChar_def)

lemma lexable_paren: "list_all lexable ts \<Longrightarrow> list_all lexable (paren l p ts)"
  by (simp add: paren_def lexable_ops)

lemma lexable_commas: "list_all (list_all lexable) tss \<Longrightarrow> list_all lexable (commas tss)"
  by (induction tss rule: commas.induct) (simp_all add: lexable_ops)

lemma lexable_raw: "wf_expr e \<Longrightarrow> lex_expr e \<Longrightarrow> list_all lexable (raw e)"
proof (induction e)
  case (EList es)
  then have "list_all (list_all lexable) (map raw es)" by (simp add: list_all_iff)
  then show ?case by (simp add: lexable_commas lexable_ops)
qed (simp_all add: lexable_ops lexable_op_text lexable_cmp lexable_paren)

section \<open>Properties\<close>

text \<open>
  C38.  The evaluator always terminates with a value or one of the two errors of the source:
  the fuel of the model, sixteen calls for every token, is never exhausted, on any text.
\<close>

theorem SafeEval_total: "SafeEval pw expression variables \<noteq> Inl OutOfFuel"
  by (auto simp: SafeEval_parse bindR_eq_Inl split: if_splits)

text \<open>
  C7.  Every well-formed expression, written with only the parentheses the precedence and the
  left associativity of the header's grammar require, evaluates to its compositional meaning:
  operands left to right, \<open>and\<close> and \<open>or\<close> evaluating both sides, the first error wins.
\<close>

theorem SafeEval_evaluates:
  assumes "wf_expr e" "lex_expr e"
  shows "SafeEval pw (render (raw e)) vars = eval_expr pw vars e"
proof -
  have "parses_at pw vars 1 (raw e) (eval_expr pw vars e)"
    using assms by (intro lift_levels [OF parses_raw leads_raw]) auto
  moreover have "tok_level eof_token = 0" by (simp add: eof_token_def tok_level_def)
  ultimately have "parse pw vars MOr (raw e @ [eof_token]) =
      bindR (eval_expr pw vars e) (\<lambda>v. Inr (v, [eof_token]))"
    by (simp add: parses_at_def cont_quiet del: cont_simps)
  moreover have "tk_kind eof_token = tokEOF" by (simp add: eof_token_def)
  ultimately show ?thesis
    using tokenize_render [OF lexable_raw [OF assms]] by (simp add: SafeEval_parse bindR_assoc)
qed

definition sample_vars :: "string \<Rightarrow> goval option" where
  "sample_vars = [''amount'' \<mapsto> VInt 150, ''vip'' \<mapsto> VBool False]"

definition sample_expr :: expr where
  "sample_expr = EOr (ENot (ECmp ''<='' (ESum ''-'' (EName ''amount'') (ENeg (ENum ''2''))) (ENum ''100''))) (EName ''vip'')"

lemma SafeEval_evaluates_witness:
  "SafeEval fadd (render (raw sample_expr)) sample_vars = Inr (VBool True) \<and>
   render (raw sample_expr) = ''not amount - - 2 <= 100 or vip ''"
proof -
  have "wf_expr sample_expr" "lex_expr sample_expr"
    by (simp_all add: sample_expr_def keyword_def lex_eval)
  note SafeEval_evaluates [OF this, of fadd sample_vars]
  moreover have "eval_expr fadd sample_vars sample_expr = Inr (VBool True)"
    by (simp add: sample_expr_def sample_vars_def both_def number_value_def name_value_def literal_name_def
        arith_def negate_val_def compare_val_def order_num_def Let_def
        float_eval parse_float_eval char_eval)
  moreover have "render (raw sample_expr) = ''not amount - - 2 <= 100 or vip ''"
    by (simp add: sample_expr_def render_def show_tok_def paren_def cmp_toks_def)
  ultimately show ?thesis by simp
qed

end
