(* ===== verification/Section.thy ===== *)
theory Section
  imports GoValue
begin

text \<open>
  The structural markdown parser of \<^verbatim>\<open>section.go\<close>: name folding, value coercion, documents
  and their sections, the fields, bullets and numbered items of a section, and the
  label-and-blockquote idiom in which the system writes free text that must come back
  unchanged and must never be read as structure.

  The regular expressions of the source are written out as scanners over one line.  The
  language's class \<open>\s\<close> has five characters; the vertical tab is a space for \<open>TrimSpace\<close> only.
\<close>

section \<open>Names and values\<close>

definition re_space :: "char \<Rightarrow> bool" where
  "re_space c \<longleftrightarrow> c \<in> {CHR 0x09, CHR 0x0A, CHR 0x0C, CHR 0x0D, CHR 0x20}"

definition fold_char :: "char \<Rightarrow> bool" where
  "fold_char c \<longleftrightarrow> re_space c \<or> c = CHR ''_'' \<or> c = CHR ''-''"

fun fold_runs :: "bool \<Rightarrow> string \<Rightarrow> string" where
  \<comment> \<open>foldRe.ReplaceAllString: each run of separators becomes one space; the flag says a run is open\<close>
  "fold_runs inrun [] = []"
| "fold_runs inrun (c # s) =
     (if fold_char c then (if inrun then fold_runs True s else CHR '' '' # fold_runs True s)
      else c # fold_runs False s)"

definition Normalize :: "string \<Rightarrow> string" where
  "Normalize s = fold_runs False (ToLower (TrimSpace s))"

definition Coerce :: "string \<Rightarrow> goval" where
  "Coerce s =
     (let v = TrimSpace s; l = ToLower v in
      if l = ''true'' \<or> l = ''yes'' then VBool True
      else if l = ''false'' \<or> l = ''no'' then VBool False
      else (case Atoi v of
              Some i \<Rightarrow> VFloat (f_of_int i)
            | None \<Rightarrow> (case ParseFloat v of Some f \<Rightarrow> VFloat f | None \<Rightarrow> VStr v)))"

section \<open>Lines\<close>

definition strip_end :: "string \<Rightarrow> string" where
  \<comment> \<open>what the lazy group of headingRe leaves to \<open>\s*#*\s*$\<close>, removed\<close>
  "strip_end s =
     trim_right re_space (trim_right (\<lambda>c. c = CHR ''#'') (trim_right re_space s))"

definition headingRe :: "string \<Rightarrow> (nat \<times> string) option" where
  "headingRe line =
     (let marks = takeWhile (\<lambda>c. c = CHR ''#'') line; rest = drop (length marks) line in
      if 1 \<le> length marks \<and> length marks \<le> 6 \<and> rest \<noteq> [] \<and> re_space (hd rest)
      then Some (length marks, strip_end (dropWhile re_space rest)) else None)"

definition bulletRe :: "string \<Rightarrow> string option" where
  "bulletRe line =
     (case dropWhile re_space line of
        c # d # rest \<Rightarrow>
          if c \<in> set ''-*+'' \<and> re_space d then Some (dropWhile re_space rest) else None
      | _ \<Rightarrow> None)"

definition numberedRe :: "string \<Rightarrow> string option" where
  "numberedRe line =
     (let t = dropWhile re_space line; ds = takeWhile is_digit t in
      case drop (length ds) t of
        c # d # rest \<Rightarrow>
          if ds \<noteq> [] \<and> (c = CHR ''.'' \<or> c = CHR '')'') \<and> re_space d
          then Some (dropWhile re_space rest) else None
      | _ \<Rightarrow> None)"

definition isSpace :: "char \<Rightarrow> bool" where
  "isSpace b \<longleftrightarrow> b = CHR '' '' \<or> b = CHR 0x09"

definition isAlpha :: "char \<Rightarrow> bool" where
  "isAlpha c \<longleftrightarrow> is_lower c \<or> is_upper c"

definition label_char :: "char \<Rightarrow> bool" where
  "label_char c \<longleftrightarrow> isAlpha c \<or> is_digit c \<or> c = CHR '' '' \<or> c = CHR ''_'' \<or> c = CHR ''-''"

definition isLabel :: "string \<Rightarrow> bool" where
  "isLabel stripped \<longleftrightarrow>
     has_suffix '':'' stripped \<and> length stripped \<le> 40 \<and> butlast stripped \<noteq> [] \<and>
     isAlpha (hd (butlast stripped)) \<and> list_all label_char (butlast stripped)"

fun para_step :: "string list list \<Rightarrow> string list \<Rightarrow> string list list" where
  \<comment> \<open>the loop of paragraphs: the paragraphs so far, the last one open, in reverse order\<close>
  "para_step paras [] = paras"
| "para_step paras (line # lines) =
     (if line = [] then
        (if hd paras \<noteq> [] then para_step ([] # paras) lines else para_step paras lines)
      else para_step ((hd paras @ [line]) # tl paras) lines)"

definition paragraphs :: "string list \<Rightarrow> string" where
  "paragraphs lines =
     join_with (newline # [newline])
       (map (join_with '' '') (filter (\<lambda>p. p \<noteq> []) (rev (para_step [[]] lines))))"

section \<open>Sections\<close>

record Body =
  bd_Fields :: "(string \<times> string) list"
  bd_Bullets :: "string list"
  bd_Numbered :: "string list"
  bd_Prose :: string

record Section =
  sec_Name :: string
  sec_Lines :: "string list"

record Document =
  doc_Title :: string
  doc_Preamble :: string
  doc_Sections :: "Section list"

fun Field :: "Body \<Rightarrow> string list \<Rightarrow> string" where
  "Field b [] = []"
| "Field b (name # names) =
     (case map_of (bd_Fields b) (Normalize name) of
        Some v \<Rightarrow> if v \<noteq> [] then v else Field b names
      | None \<Rightarrow> Field b names)"

datatype open_item = NoItem | BulletItem | NumberedItem

record body_state =
  bs_body :: Body
  bs_prose :: "string list"
  bs_open :: open_item

definition append_last :: "string list \<Rightarrow> string \<Rightarrow> string list" where
  "append_last xs extra = butlast xs @ [last xs @ '' '' @ extra]"

definition body_line :: "string list \<Rightarrow> string \<Rightarrow> body_state \<Rightarrow> body_state" where
  \<comment> \<open>the body of the loop of StructuredBody; the first argument is the normalized field keys\<close>
  "body_line keys line st =
     (let b = bs_body st in
      if TrimSpace line = [] then st\<lparr>bs_prose := bs_prose st @ [[]], bs_open := NoItem\<rparr>
      else (case bulletRe line of
        Some m \<Rightarrow>
          st\<lparr>bs_body := b\<lparr>bd_Bullets := bd_Bullets b @ [TrimSpace m]\<rparr>, bs_open := BulletItem\<rparr>
      | None \<Rightarrow> (case numberedRe line of
          Some m \<Rightarrow>
            st\<lparr>bs_body := b\<lparr>bd_Numbered := bd_Numbered b @ [TrimSpace m]\<rparr>, bs_open := NumberedItem\<rparr>
        | None \<Rightarrow>
            if bs_open st = BulletItem \<and> isSpace (hd line) then
              st\<lparr>bs_body := b\<lparr>bd_Bullets := append_last (bd_Bullets b) (TrimSpace line)\<rparr>\<rparr>
            else if bs_open st = NumberedItem \<and> isSpace (hd line) then
              st\<lparr>bs_body := b\<lparr>bd_Numbered := append_last (bd_Numbered b) (TrimSpace line)\<rparr>\<rparr>
            else
              (case cut_at '':'' line of
                 Some (key, value) \<Rightarrow>
                   if Normalize key \<in> set keys then
                     st\<lparr>bs_body := b\<lparr>bd_Fields := map_put (Normalize key) (TrimSpace value) (bd_Fields b)\<rparr>,
                        bs_open := NoItem\<rparr>
                   else st\<lparr>bs_prose := bs_prose st @ [TrimSpace line], bs_open := NoItem\<rparr>
               | None \<Rightarrow> st\<lparr>bs_prose := bs_prose st @ [TrimSpace line], bs_open := NoItem\<rparr>))))"

definition empty_body :: Body where
  "empty_body = \<lparr>bd_Fields = [], bd_Bullets = [], bd_Numbered = [], bd_Prose = []\<rparr>"

definition StructuredBody :: "Section \<Rightarrow> string list \<Rightarrow> Body" where
  "StructuredBody s fieldKeys =
     (let st = fold (body_line (map Normalize fieldKeys)) (sec_Lines s)
                 \<lparr>bs_body = empty_body, bs_prose = [], bs_open = NoItem\<rparr>
      in (bs_body st)\<lparr>bd_Prose := paragraphs (bs_prose st)\<rparr>)"

section \<open>Documents\<close>

definition SectionNamed :: "Document \<Rightarrow> string \<Rightarrow> Section option" where
  "SectionNamed d name = find (\<lambda>s. Normalize (sec_Name s) = Normalize name) (doc_Sections d)"

fun unify_newlines :: "string \<Rightarrow> string" where
  \<comment> \<open>strings.ReplaceAll of return-newline by newline\<close>
  "unify_newlines (c # d # s) =
     (if c = CHR 0x0D \<and> d = newline then newline # unify_newlines s else c # unify_newlines (d # s))"
| "unify_newlines s = s"

record doc_state =
  ds_title :: string
  ds_sections :: "Section list"  \<comment> \<open>the last one is current\<close>
  ds_preamble :: "string list"

definition add_line :: "string \<Rightarrow> Section list \<Rightarrow> Section list" where
  "add_line raw ss = butlast ss @ [(last ss)\<lparr>sec_Lines := sec_Lines (last ss) @ [raw]\<rparr>]"

definition doc_line :: "string \<Rightarrow> doc_state \<Rightarrow> doc_state" where
  "doc_line raw st =
     (case headingRe raw of
        Some (level, grp) \<Rightarrow>
          let name = TrimSpace grp in
          if level = 1 \<and> ds_title st = [] \<and> ds_sections st = [] then st\<lparr>ds_title := name\<rparr>
          else st\<lparr>ds_sections := ds_sections st @ [\<lparr>sec_Name = name, sec_Lines = []\<rparr>]\<rparr>
      | None \<Rightarrow>
          if ds_sections st = [] then st\<lparr>ds_preamble := ds_preamble st @ [TrimSpace raw]\<rparr>
          else st\<lparr>ds_sections := add_line raw (ds_sections st)\<rparr>)"

definition ParseDocument :: "string \<Rightarrow> Document" where
  "ParseDocument t =
     (let st = fold doc_line (split_char newline (unify_newlines t))
                 \<lparr>ds_title = [], ds_sections = [], ds_preamble = []\<rparr>
      in \<lparr>doc_Title = ds_title st, doc_Preamble = paragraphs (ds_preamble st),
          doc_Sections = ds_sections st\<rparr>)"

section \<open>Quoted text and labelled blocks\<close>

definition quote_line :: "string \<Rightarrow> string" where
  "quote_line line = (if line = [] then ''>'' else ''> '' @ line)"

definition Quote :: "string \<Rightarrow> string" where
  "Quote t = join_with [newline] (map quote_line (split_char newline t))"

definition unquote_line :: "string \<Rightarrow> string option" where
  "unquote_line line =
     (let stripped = TrimSpace line in
      if has_prefix ''> '' stripped then Some (drop 2 stripped)
      else if stripped = ''>'' then Some [] else None)"

definition Unquote :: "string list \<Rightarrow> string" where
  "Unquote lines = join_with [newline] (List.map_filter unquote_line lines)"

record block_state =
  bk_blocks :: "(string \<times> string) list"
  bk_label :: string
  bk_pending :: "string list"

definition lb_commit :: "block_state \<Rightarrow> block_state" where
  "lb_commit st =
     (let blocks = (if bk_label st \<noteq> [] \<and> bk_pending st \<noteq> []
                    then map_put (Normalize (bk_label st)) (Unquote (bk_pending st)) (bk_blocks st)
                    else bk_blocks st)
      in \<lparr>bk_blocks = blocks, bk_label = [], bk_pending = []\<rparr>)"

definition lb_line :: "string \<Rightarrow> block_state \<Rightarrow> block_state" where
  "lb_line line st =
     (let stripped = TrimSpace line in
      if has_prefix ''>'' stripped then
        (if bk_label st \<noteq> [] then st\<lparr>bk_pending := bk_pending st @ [line]\<rparr> else st)
      else if isLabel stripped then (lb_commit st)\<lparr>bk_label := butlast stripped\<rparr>
      else if stripped \<noteq> [] then lb_commit st
      else if bk_label st \<noteq> [] \<and> bk_pending st \<noteq> [] then lb_commit st
      else st)"

definition no_blocks :: block_state where
  "no_blocks = \<lparr>bk_blocks = [], bk_label = [], bk_pending = []\<rparr>"

definition labelledBlocks :: "string list \<Rightarrow> (string \<times> string) list" where
  "labelledBlocks lines = bk_blocks (lb_commit (fold lb_line (lines @ [[]]) no_blocks))"

definition arg_commit :: "block_state \<Rightarrow> block_state" where
  "arg_commit st =
     (let blocks = (if bk_label st \<noteq> []
                    then map_put (bk_label st) (trim_chars [newline] (join_with [newline] (bk_pending st))) (bk_blocks st)
                    else bk_blocks st)
      in \<lparr>bk_blocks = blocks, bk_label = [], bk_pending = []\<rparr>)"

definition arg_line :: "string \<Rightarrow> block_state \<Rightarrow> block_state" where
  "arg_line line st =
     (case bulletRe line of
        Some m \<Rightarrow>
          (let st' = arg_commit st in
           case cut_at '':'' m of
             Some (name, value) \<Rightarrow>
               if TrimSpace name \<noteq> [] then
                 st'\<lparr>bk_blocks := map_put (TrimSpace name) (TrimSpace value) (bk_blocks st')\<rparr>
               else st'
           | None \<Rightarrow> st')
      | None \<Rightarrow>
          (let stripped = TrimSpace line in
           if \<not> has_prefix ''>'' stripped \<and> isLabel stripped then
             (arg_commit st)\<lparr>bk_label := butlast stripped\<rparr>
           else if bk_label st = [] then st
           else if has_prefix ''> '' stripped then
             st\<lparr>bk_pending := bk_pending st @ [drop 2 stripped]\<rparr>
           else if stripped = ''>'' then st\<lparr>bk_pending := bk_pending st @ [[]]\<rparr>
           else st\<lparr>bk_pending := bk_pending st @ [line]\<rparr>))"

definition argumentBlocks :: "string list \<Rightarrow> (string \<times> string) list" where
  "argumentBlocks lines = bk_blocks (arg_commit (fold arg_line lines no_blocks))"

section \<open>Quoted lines\<close>

definition trim_lines :: "string \<Rightarrow> string" where
  \<comment> \<open>a text without the white space at the ends of its lines\<close>
  "trim_lines t = join_with [newline] (map (trim_right is_space) (split_char newline t))"

lemma trim_right_append:
  "trim_right p (a @ b) = (if trim_right p b = [] then trim_right p a else a @ trim_right p b)"
  by (auto simp: trim_right_def dropWhile_append)

lemma TrimSpace_start: "\<not> is_space c \<Longrightarrow> TrimSpace (c # s) = trim_right is_space (c # s)"
  by (simp add: TrimSpace_def trim_by_def trim_left_def)

lemma unquote_quote_line [simp]: "unquote_line (quote_line l) = Some (trim_right is_space l)"
proof -
  have s: "\<not> is_space CHR ''>''" "is_space CHR '' ''" by (simp_all add: is_space_def)
  have one: "trim_right is_space ''>'' = ''>''" "trim_right is_space ''> '' = ''>''"
    using s by (simp_all add: trim_right_def)
  have t: "trim_right is_space (CHR ''>'' # CHR '' '' # l) =
      (if trim_right is_space l = [] then ''>'' else ''> '' @ trim_right is_space l)"
    using trim_right_append [of is_space "''> ''" l] one by simp
  show ?thesis
    using s one t by (auto simp: unquote_line_def quote_line_def TrimSpace_start Let_def has_prefix_def
        trim_right_def [of _ "[]"])
qed

lemma quote_line_newline: "newline \<notin> set l \<Longrightarrow> newline \<notin> set (quote_line l)"
  by (simp add: quote_line_def)

lemma Quote_lines [simp]: "split_char newline (Quote t) = map quote_line (split_char newline t)"
  unfolding Quote_def
  by (rule split_join_char) (auto intro!: quote_line_newline dest: split_char_no_sep)

lemma Unquote_lines: "Unquote (map quote_line ls) = join_with [newline] (map (trim_right is_space) ls)"
  by (simp add: Unquote_def map_filter_def comp_def)

section \<open>Documents and quoted text\<close>

definition drop_return :: "string \<Rightarrow> string" where
  "drop_return l = (if l \<noteq> [] \<and> last l = CHR 0x0D then butlast l else l)"

definition shape :: "doc_state \<Rightarrow> string \<times> string list" where
  \<comment> \<open>the structure found so far: the title and the names of the sections\<close>
  "shape st = (ds_title st, map sec_Name (ds_sections st))"

lemma drop_return_Nil [simp]: "drop_return [] = []"
  by (simp add: drop_return_def)

lemma drop_return_Cons: "l \<noteq> [] \<Longrightarrow> drop_return (c # l) = c # drop_return l"
  by (simp add: drop_return_def)

lemma unify_lines:
  "split_char newline (unify_newlines s) =
     map drop_return (butlast (split_char newline s)) @ [last (split_char newline s)]"
proof (induction s rule: unify_newlines.induct)
  case (1 c d s)
  obtain l ls where ls: "split_char newline s = l # ls"
    by (cases "split_char newline s") auto
  show ?case
  proof (cases "c = CHR 0x0D \<and> d = newline")
    case True
    with 1 show ?thesis by (simp add: drop_return_def)
  next
    case False
    obtain l' ls' where ls': "split_char newline (d # s) = l' # ls'"
      by (cases "split_char newline (d # s)") (use split_char_nonempty in blast)+
    have "drop_return (c # l') = c # drop_return l'" if "ls' \<noteq> []" "c \<noteq> newline"
    proof (cases "l' = []")
      case True
      with ls' have "d = newline" by (auto split: if_splits list.splits)
      with False True show ?thesis by (simp add: drop_return_def)
    qed (rule drop_return_Cons)
    moreover have "unify_newlines (c # d # s) = c # unify_newlines (d # s)" using False by simp
    ultimately show ?thesis
      using 1(2) False ls' by (auto simp: drop_return_def simp del: unify_newlines.simps split_char.simps(2)
          simp: split_char.simps(2) [of newline c])
  qed
qed simp_all

fun shape_step :: "string \<Rightarrow> string \<times> string list \<Rightarrow> string \<times> string list" where
  "shape_step raw (t, ns) =
     (case headingRe raw of
        Some (level, grp) \<Rightarrow>
          if level = 1 \<and> t = [] \<and> ns = [] then (TrimSpace grp, ns) else (t, ns @ [TrimSpace grp])
      | None \<Rightarrow> (t, ns))"

lemma names_add_line: "ss \<noteq> [] \<Longrightarrow> map sec_Name (add_line raw ss) = map sec_Name ss"
  by (cases ss rule: rev_cases) (simp_all add: add_line_def)

lemma shape_doc_line: "shape (doc_line raw st) = shape_step raw (shape st)"
  by (simp add: shape_def doc_line_def Let_def names_add_line split: option.split prod.split)

lemma shape_fold: "shape (fold doc_line ls st) = fold shape_step ls (shape st)"
  by (induction ls arbitrary: st) (simp_all add: shape_doc_line)

lemma shape_step_prose: "\<forall>l \<in> set ls. headingRe l = None \<Longrightarrow> fold shape_step ls x = x"
  by (induction ls) (cases x; simp)+

lemma quote_line_no_heading: "headingRe (drop_return (quote_line l)) = None"
  by (auto simp: drop_return_def quote_line_def headingRe_def Let_def)

lemma split_char_sep: "split_char sep (a @ sep # b) = split_char sep a @ split_char sep b"
proof (induction a)
  case (Cons c a)
  obtain l ls where "split_char sep a = l # ls" by (cases "split_char sep a") auto
  with Cons show ?case by (cases "split_char sep b") simp_all
qed simp

definition start_doc :: doc_state where
  "start_doc = \<lparr>ds_title = [], ds_sections = [], ds_preamble = []\<rparr>"

lemma ParseDocument_shape:
  "(doc_Title (ParseDocument t), map sec_Name (doc_Sections (ParseDocument t))) =
     fold shape_step (split_char newline (unify_newlines t)) ([], [])"
  using shape_fold [of "split_char newline (unify_newlines t)" start_doc]
  by (simp add: ParseDocument_def Let_def shape_def start_doc_def)

lemma unify_lines_sep:
  "split_char newline (unify_newlines (a @ newline # b)) =
     map drop_return (split_char newline a) @ split_char newline (unify_newlines b)"
  by (simp add: unify_lines split_char_sep butlast_append)

section \<open>Labelled blocks\<close>

definition block_lines :: "string \<times> string \<Rightarrow> string list" where
  "block_lines lv = (fst lv @ '':'') # split_char newline (Quote (snd lv)) @ [[]]"

lemma lb_line_quoted:
  "bk_label st \<noteq> [] \<Longrightarrow> lb_line (quote_line l) st = st\<lparr>bk_pending := bk_pending st @ [quote_line l]\<rparr>"
proof -
  assume ne: "bk_label st \<noteq> []"
  have s: "\<not> is_space CHR ''>''" by (simp add: is_space_def)
  have "has_prefix ''>'' (TrimSpace (quote_line l))"
  proof -
    obtain r where r: "quote_line l = CHR ''>'' # r" by (cases "l = []") (simp_all add: quote_line_def)
    have "trim_right is_space (''>'' @ r) = ''>'' @ trim_right is_space r"
      using s by (simp only: trim_right_append) (simp add: trim_right_def)
    with r s show ?thesis by (simp add: TrimSpace_start has_prefix_def)
  qed
  with ne show ?thesis by (simp add: lb_line_def Let_def)
qed

lemma lb_fold_quoted:
  "bk_label st \<noteq> [] \<Longrightarrow>
     fold lb_line (map quote_line ls) st = st\<lparr>bk_pending := bk_pending st @ map quote_line ls\<rparr>"
  by (induction ls arbitrary: st) (simp_all add: lb_line_quoted)

lemma isLabel_props:
  assumes "isLabel (l @ '':'')"
  shows "l \<noteq> []" "TrimSpace (l @ '':'') = l @ '':''" "\<not> has_prefix ''>'' (l @ '':'')"
proof -
  from assms have l: "l \<noteq> []" "isAlpha (hd l)" by (simp_all add: isLabel_def)
  then show "l \<noteq> []" by simp
  have "\<not> is_space (hd l)" "hd l \<noteq> CHR ''>''"
    using l(2) by (auto simp: isAlpha_def is_lower_def is_upper_def is_space_def Let_def)
  with l show "TrimSpace (l @ '':'') = l @ '':''" "\<not> has_prefix ''>'' (l @ '':'')"
    by (auto simp: TrimSpace_def is_space_def has_prefix_iff neq_Nil_conv intro!: trim_by_id)
qed

lemma lb_block:
  assumes "isLabel (l @ '':'')" "bk_label st = []" "bk_pending st = []"
  shows "fold lb_line (block_lines (l, v)) st =
    \<lparr>bk_blocks = map_put (Normalize l) (trim_lines v) (bk_blocks st), bk_label = [], bk_pending = []\<rparr>"
  using assms isLabel_props [OF assms(1)]
  by (simp add: block_lines_def lb_line_def [of "l @ '':''"] lb_commit_def lb_fold_quoted
      lb_line_def [of "[]"] Unquote_lines trim_lines_def has_prefix_def TrimSpace_def isLabel_def trim_by_id
      has_suffix_def Let_def)

lemma lb_blocks:
  assumes "\<forall>(l, v) \<in> set items. isLabel (l @ '':'')"
    "distinct (map fst (bk_blocks st) @ map (Normalize \<circ> fst) items)" "bk_label st = []" "bk_pending st = []"
  shows "fold lb_line (concat (map block_lines items)) st =
    \<lparr>bk_blocks = bk_blocks st @ map (\<lambda>(l, v). (Normalize l, trim_lines v)) items, bk_label = [], bk_pending = []\<rparr>"
  using assms
proof (induction items arbitrary: st)
  case (Cons lv items)
  obtain l v where lv: "lv = (l, v)" by (cases lv)
  with Cons.prems have "Normalize l \<notin> fst ` set (bk_blocks st)" by auto
  with Cons lv show ?case by (simp add: lb_block map_put_new)
qed simp

section \<open>A fact that is not a number\<close>

lemma Coerce_nan: "Coerce ''nan'' = VFloat FNaN"
proof -
  have s: "TrimSpace ''nan'' = ''nan''" "ToLower ''nan'' = ''nan''" "Atoi ''nan'' = None"
    by code_simp+
  then have "ParseFloat ''nan'' = Some FNaN" by (simp add: ParseFloat_def)
  with s show ?thesis by (simp add: Coerce_def)
qed

section \<open>Properties\<close>

text \<open>
  A quoted text inside a document adds no structure to it: the title and the sections'
  names are those of the document without it, whatever the text holds -- headings, bullets,
  labels, carriage returns.
\<close>

theorem Quote_is_inert:
  "doc_Title (ParseDocument (pre @ newline # Quote t @ newline # post)) =
     doc_Title (ParseDocument (pre @ newline # post)) \<and>
   map sec_Name (doc_Sections (ParseDocument (pre @ newline # Quote t @ newline # post))) =
     map sec_Name (doc_Sections (ParseDocument (pre @ newline # post)))"
proof -
  have "fold shape_step (map drop_return (map quote_line ls)) x = x" for ls x
    by (rule shape_step_prose) (auto simp: quote_line_no_heading)
  then have "fold shape_step (split_char newline (unify_newlines (pre @ newline # Quote t @ newline # post))) x =
      fold shape_step (split_char newline (unify_newlines (pre @ newline # post))) x" for x
    by (simp only: unify_lines_sep fold_append comp_def Quote_lines)
  then show ?thesis
    using ParseDocument_shape [of "pre @ newline # Quote t @ newline # post"]
      ParseDocument_shape [of "pre @ newline # post"] by (simp only: prod.inject) (metis prod.inject)
qed

text \<open>
  C34.  What the label-and-blockquote writer writes, \<open>labelledBlocks\<close> reads back: every label
  with its text, line for line, up to the white space at the ends of the lines.
\<close>

theorem labelledBlocks_roundtrip:
  assumes "\<forall>(l, v) \<in> set items. isLabel (l @ '':'')" "distinct (map (Normalize \<circ> fst) items)"
  shows "labelledBlocks (concat (map block_lines items)) =
    map (\<lambda>(l, v). (Normalize l, trim_lines v)) items"
  using lb_blocks [of items no_blocks] assms
  by (simp add: labelledBlocks_def no_blocks_def lb_line_def lb_commit_def TrimSpace_def trim_by_id
      has_prefix_def isLabel_def has_suffix_def Let_def)

lemma labelledBlocks_roundtrip_witness:
  "labelledBlocks (concat (map block_lines
     [(''Decision'', ''# not a title'' @ newline # ''- nor a bullet''), (''Evidence basis'', ''none '')])) =
   [(''decision'', ''# not a title'' @ newline # ''- nor a bullet''), (''evidence basis'', ''none'')]"
proof -
  let ?items = "[(''Decision'', ''# not a title'' @ newline # ''- nor a bullet''), (''Evidence basis'', ''none '')]"
  have "\<forall>(l, v) \<in> set ?items. isLabel (l @ '':'')" "distinct (map (Normalize \<circ> fst) ?items)"
    by code_simp+
  note labelledBlocks_roundtrip [OF this]
  moreover have "map (\<lambda>(l, v). (Normalize l, trim_lines v)) ?items =
      [(''decision'', ''# not a title'' @ newline # ''- nor a bullet''), (''evidence basis'', ''none'')]"
    by code_simp
  ultimately show ?thesis by simp
qed

text \<open>
  Reading back a quoted text gives the text with the white space at the ends of its lines
  removed, and nothing else changed: blank lines and indentation survive.
\<close>

theorem Unquote_Quote: "Unquote (split_char newline (Quote t)) = trim_lines t"
  by (simp add: Unquote_lines trim_lines_def)

end
