(* ===== verification/Stack.thy ===== *)
theory Stack
  imports Section SafeEval
begin

text \<open>
  The data model of \<^verbatim>\<open>model.go\<close>, \<^verbatim>\<open>policy.go\<close> and \<^verbatim>\<open>tenant.go\<close>: the stack an author builds
  out of intents, skills, personas, steps, workflows, processes, tools, contracts and policies,
  and the judgment of a policy without a model.

  The source compares personas, workflows, processes, skills and policies by their address.
  Here each of them carries its address in a field \<open>..._ref\<close>.  A policy's \<open>Gate\<close>, a closure in
  the source, is the name of a gate; what the names mean is an argument of \<open>govern\<close>.  The
  optional \<open>Handler\<close> of a skill, which nothing in the source calls, is left out.
\<close>

section \<open>Records\<close>

record Intent =
  in_Text :: string
  in_Context :: ctx

record Skill =
  sk_ref :: nat
  sk_Name :: string
  sk_Prompt :: string
  sk_Description :: string
  sk_Version :: string
  sk_Author :: string

record Persona =
  pe_ref :: nat
  pe_Name :: string
  pe_Instructions :: string
  pe_Skills :: "Skill list"

record Step =
  st_Instruction :: string
  st_Persona :: "Persona option"
  st_Name :: string

record ContractField =
  cf_Name :: string
  cf_Meaning :: string

record Contract =
  ct_Name :: string
  ct_Description :: string
  ct_Fields :: "ContractField list"

record Policy =
  po_ref :: nat
  po_Name :: string
  po_Statement :: string
  po_FallbackExpression :: string
  po_ApprovalRequired :: bool
  po_Approvers :: "string list"
  po_Escalation :: string
  po_EscalationDays :: "f64 option"
  po_Gate :: "nat option"

record Workflow =
  wf_ref :: nat
  wf_Name :: string
  wf_Personas :: "Persona list"
  wf_Steps :: "Step list"
  wf_Policies :: "Policy list"
  wf_Contract :: "Contract option"
  wf_Pattern :: string
  wf_Routes :: string
  wf_RetryBudget :: "int option"

record Process =
  pr_ref :: nat
  pr_Name :: string
  pr_Description :: string
  pr_Workflows :: "Workflow list"

record Tool =
  tl_Name :: string
  tl_Description :: string
  tl_Command :: string
  tl_Origin :: string

section \<open>Intents\<close>

definition NewIntent :: "string \<Rightarrow> ctx option \<Rightarrow> Intent" where
  "NewIntent t c = \<lparr>in_Text = t, in_Context = (case c of None \<Rightarrow> [] | Some m \<Rightarrow> m)\<rparr>"

definition context_bullet :: "string \<Rightarrow> ctx \<Rightarrow> ctx" where
  "context_bullet bullet c =
     (case (case cut_at '': '' bullet of Some kv \<Rightarrow> Some kv | None \<Rightarrow> cut_at '':'' bullet) of
        Some (key, value) \<Rightarrow> map_put (TrimSpace key) (Coerce value) c
      | None \<Rightarrow> c)"

definition intent_section :: "Section \<Rightarrow> string list \<times> ctx \<Rightarrow> string list \<times> ctx" where
  "intent_section s acc =
     (let (parts, c) = acc; body = StructuredBody s [] in
      if contains_str ''context'' (Normalize (sec_Name s)) then
        (parts, fold context_bullet (bd_Bullets body) c)
      else if bd_Prose body \<noteq> [] then (parts @ [bd_Prose body], c)
      else (parts, c))"

definition IntentFromMarkdown :: "string \<Rightarrow> Intent" where
  "IntentFromMarkdown markdown =
     (let doc = ParseDocument markdown;
          parts0 = (if doc_Title doc \<noteq> [] then [doc_Title doc] else []) @
                   (if doc_Preamble doc \<noteq> [] then [doc_Preamble doc] else []);
          (parts, c) = fold intent_section (doc_Sections doc) (parts0, [])
      in \<lparr>in_Text = TrimSpace (join_with [newline, newline] parts), in_Context = c\<rparr>)"

definition Intent_ToMarkdown :: "Intent \<Rightarrow> string" where
  \<comment> \<open>the source ranges over a map: the order of the list is the order of that range\<close>
  "Intent_ToMarkdown i =
     (let (first, rest) = (case cut_at [newline] (in_Text i) of Some ab \<Rightarrow> ab | None \<Rightarrow> (in_Text i, []));
          l1 = [''# '' @ TrimSpace first];
          l2 = (if TrimSpace rest \<noteq> [] then [[], TrimSpace rest] else []);
          l3 = (if in_Context i \<noteq> []
                then [[], ''## Context'', []] @ map (\<lambda>(k, v). ''- '' @ k @ '': '' @ Sprint v) (in_Context i)
                else [])
      in join_with [newline] (l1 @ l2 @ l3) @ [newline])"

section \<open>Skills and personas\<close>

definition Instruction :: "Skill \<Rightarrow> string" where
  "Instruction s =
     (if sk_Prompt s \<noteq> [] then sk_Prompt s
      else if sk_Description s \<noteq> [] then sk_Description s else sk_Name s)"

definition finish_markdown :: "string list \<Rightarrow> string" where
  \<comment> \<open>the last line of every ToMarkdown: joined, without trailing newlines, then one\<close>
  "finish_markdown lines = trim_right (\<lambda>c. c = newline) (join_with [newline] lines) @ [newline]"

definition Skill_ToMarkdown :: "Skill \<Rightarrow> string" where
  "Skill_ToMarkdown s =
     finish_markdown
       ([''## '' @ sk_Name s, []] @
        (if sk_Description s \<noteq> [] then [''Description: '' @ sk_Description s, []] else []) @
        (if sk_Prompt s \<noteq> [] then [sk_Prompt s] else []))"

definition AddSkill :: "Persona \<Rightarrow> Skill \<Rightarrow> Persona" where
  "AddSkill p s = p\<lparr>pe_Skills := pe_Skills p @ [s]\<rparr>"

definition GetSkill :: "Persona \<Rightarrow> string \<Rightarrow> Skill option" where
  "GetSkill p name = find (\<lambda>s. sk_Name s = name) (pe_Skills p)"

definition Persona_ToMarkdown :: "Persona \<Rightarrow> string" where
  "Persona_ToMarkdown p =
     finish_markdown
       ([''## '' @ pe_Name p, []] @
        (if pe_Skills p \<noteq> []
         then [''Skills: '' @ join_with '', '' (map sk_Name (pe_Skills p)), []] else []) @
        (if pe_Instructions p \<noteq> [] then [pe_Instructions p] else []))"

section \<open>Workflows and processes\<close>

definition DelegateTo :: "Step \<Rightarrow> Persona \<Rightarrow> Step" where
  "DelegateTo s p = s\<lparr>st_Persona := Some p\<rparr>"

definition AddPersona :: "Workflow \<Rightarrow> Persona \<Rightarrow> Workflow" where
  "AddPersona w p = w\<lparr>wf_Personas := wf_Personas w @ [p]\<rparr>"

definition AddStep :: "Workflow \<Rightarrow> string \<Rightarrow> Persona option \<Rightarrow> Workflow" where
  "AddStep w instruction p =
     w\<lparr>wf_Steps := wf_Steps w @ [\<lparr>st_Instruction = instruction, st_Persona = p, st_Name = []\<rparr>]\<rparr>"

definition AddPolicy :: "Workflow \<Rightarrow> Policy \<Rightarrow> Workflow" where
  "AddPolicy w p = w\<lparr>wf_Policies := wf_Policies w @ [p]\<rparr>"

fun dedup_by :: "('a \<Rightarrow> 'k) \<Rightarrow> 'k list \<Rightarrow> 'a list \<Rightarrow> 'a list" where
  \<comment> \<open>the loops that keep what their map \<open>seen\<close> does not hold yet\<close>
  "dedup_by key seen [] = []"
| "dedup_by key seen (x # xs) =
     (if key x \<in> set seen then dedup_by key seen xs else x # dedup_by key (key x # seen) xs)"

definition DelegatedPersonas :: "Workflow \<Rightarrow> Persona list" where
  "DelegatedPersonas w =
     dedup_by pe_ref [] (List.map_filter st_Persona (wf_Steps w) @ wf_Personas w)"

definition AddWorkflow :: "Process \<Rightarrow> Workflow \<Rightarrow> Process" where
  "AddWorkflow p w = p\<lparr>pr_Workflows := pr_Workflows p @ [w]\<rparr>"

definition Describe :: "Tool \<Rightarrow> string" where
  "Describe t =
     tl_Name t @ (if tl_Description t \<noteq> [] then '': '' @ tl_Description t else []) @
     (if tl_Command t \<noteq> [] then '' (invoked via `'' @ tl_Command t @ ''`)'' else [])"

definition step_line :: "nat \<Rightarrow> Step \<Rightarrow> string" where
  "step_line number step =
     show_nat (number + 1) @ ''. '' @ st_Instruction step @
     (case st_Persona step of Some p \<Rightarrow> '' ('' @ pe_Name p @ '')'' | None \<Rightarrow> [])"

definition Workflow_ToMarkdown :: "Workflow \<Rightarrow> string" where
  "Workflow_ToMarkdown w =
     finish_markdown
       ([''## '' @ wf_Name w, []] @
        (if wf_Pattern w \<noteq> [] then [''Pattern: '' @ wf_Pattern w] else []) @
        (if wf_Routes w \<noteq> [] then [''Routes: '' @ wf_Routes w] else []) @
        (case wf_RetryBudget w of
           Some n \<Rightarrow> [''Retries: retry a failed leg '' @ show_int n @ '' times''] | None \<Rightarrow> []) @
        (if wf_Policies w \<noteq> [] then [''Policies: '' @ join_with '', '' (map po_Name (wf_Policies w))] else []) @
        [[]] @
        map (\<lambda>(number, step). step_line number step) (enumerate 0 (wf_Steps w)) @
        (case wf_Contract w of
           Some c \<Rightarrow>
             [[], ''### Deliverable'', []] @
             (if ct_Description c \<noteq> [] then [ct_Description c, []] else []) @
             map (\<lambda>f. ''- '' @ cf_Name f @ '': '' @ cf_Meaning f) (ct_Fields c)
         | None \<Rightarrow> []))"

definition Process_ToMarkdown :: "Process \<Rightarrow> string" where
  "Process_ToMarkdown p =
     finish_markdown
       ([''## '' @ pr_Name p, []] @
        (if pr_Workflows p \<noteq> []
         then [''Workflows: '' @ join_with '', '' (map wf_Name (pr_Workflows p)), []] else []) @
        (if pr_Description p \<noteq> [] then [pr_Description p] else []))"

section \<open>Contracts\<close>

definition identifier_char :: "char \<Rightarrow> char" where
  "identifier_char c = (if is_lower c \<or> is_digit c then c else CHR ''_'')"

definition Identifier :: "ContractField \<Rightarrow> string" where
  "Identifier f =
     (let b = map identifier_char (ToLower (TrimSpace (cf_Name f))) in if b = [] then ''field'' else b)"

definition AddField :: "Contract \<Rightarrow> string \<Rightarrow> string \<Rightarrow> Contract" where
  "AddField c name meaning =
     c\<lparr>ct_Fields := ct_Fields c @ [\<lparr>cf_Name = name, cf_Meaning = meaning\<rparr>]\<rparr>"

definition field_missing :: "ctx \<Rightarrow> ContractField \<Rightarrow> bool" where
  "field_missing data f =
     (case map_of data (cf_Name f) of
        None \<Rightarrow> True
      | Some v \<Rightarrow> v = VNil \<or> TrimSpace (Sprint v) = [])"

definition Contract_Judge :: "Contract \<Rightarrow> ctx \<Rightarrow> bool \<times> string" where
  "Contract_Judge c data =
     (let missing = map cf_Name (filter (field_missing data) (ct_Fields c)) in
      if 0 < length missing
      then (False, ''structural check only (no model bound): missing or empty fields: '' @ join_with '', '' missing)
      else (True, ''structural check only (no model bound): every declared field is present and non-empty''))"

definition RenderFields :: "Contract \<Rightarrow> string" where
  "RenderFields c =
     join_with [newline]
       (map (\<lambda>f. ''- '' @ cf_Name f @ '': '' @ orText (cf_Meaning f) ''no meaning declared'') (ct_Fields c))"

section \<open>Policies\<close>

definition ApproverAllowed :: "Policy \<Rightarrow> string \<Rightarrow> bool" where
  "ApproverAllowed p approver =
     (if length (po_Approvers p) = 0 then True
      else list_ex (\<lambda>a. Normalize a = Normalize approver) (po_Approvers p))"

fun safe_error_text :: "safe_error \<Rightarrow> string" where
  "safe_error_text (MissingVariable name) = ''unknown variable: '' @ name"
| "safe_error_text (UnsafeExpression detail) = ''unsafe expression: '' @ detail"
| "safe_error_text OutOfFuel = []"

definition Policy_Judge :: "(f64 \<Rightarrow> f64 \<Rightarrow> f64) \<Rightarrow> Policy \<Rightarrow> ctx \<Rightarrow> bool \<times> string" where
  "Policy_Judge pw p c =
     (if po_FallbackExpression p = [] then
        (True, ''no model active and no fallback expression -- policy treated as not applicable'')
      else (case SafeEval pw (po_FallbackExpression p) (map_of c) of
              Inl (MissingVariable name) \<Rightarrow>
                (True, ''not applicable to this intent: '' @ safe_error_text (MissingVariable name))
            | Inl e \<Rightarrow> (True, ''fallback expression could not be evaluated: '' @ safe_error_text e)
            | Inr value \<Rightarrow>
                (truthy value,
                 ''fallback expression '' @ [CHR 0x27] @ po_FallbackExpression p @ [CHR 0x27] @
                 '' evaluated to '' @ (if truthy value then ''true'' else ''false''))))"

definition Policy_Evaluate :: "(f64 \<Rightarrow> f64 \<Rightarrow> f64) \<Rightarrow> Policy \<Rightarrow> ctx \<Rightarrow> bool" where
  "Policy_Evaluate pw p c = fst (Policy_Judge pw p c)"

definition Policy_ToMarkdown :: "Policy \<Rightarrow> string" where
  "Policy_ToMarkdown p =
     finish_markdown
       ([''## '' @ po_Name p, []] @
        (if po_FallbackExpression p \<noteq> [] then [''Fallback: '' @ po_FallbackExpression p] else []) @
        (if po_ApprovalRequired p then [''Approval: required''] else []) @
        (if po_Approvers p \<noteq> [] then [''Approvers: '' @ join_with '', '' (po_Approvers p)] else []) @
        (if po_Escalation p \<noteq> [] then [''Escalate: '' @ po_Escalation p] else []) @
        [[]] @
        (if po_Statement p \<noteq> [] then [po_Statement p] else []))"

end
