(* ===== verification/Hash.thy ===== *)
theory Hash
  imports Ear_Prelude "HOL-Library.Word"
begin

text \<open>
  SHA-256 and HMAC-SHA256, the digests of Go's \<^verbatim>\<open>crypto\<close> packages that the audit chain and the
  capability envelopes are built on, with their lower-case hexadecimal form (the verb %x).
\<close>

unbundle bit_operations_syntax

type_synonym w32 = "32 word"

text \<open>
  The constants of the standard are the first 32 bits of the fractional parts of the square roots
  of the first 8 primes and of the cube roots of the first 64; they are computed here, one bit of
  the root at a time.
\<close>

definition root_bits :: "nat \<Rightarrow> nat \<Rightarrow> nat" where
  "root_bits k n = foldl (\<lambda>r b. if (r + 2 ^ b) ^ k \<le> n then r + 2 ^ b else r) 0 (rev [0..<36])"

definition root_fraction :: "nat \<Rightarrow> nat \<Rightarrow> w32" where
  \<comment> \<open>of the k-th root of p\<close>
  "root_fraction k p = of_nat (root_bits k (p * 2 ^ (32 * k)))"

definition small_primes :: "nat list" where
  "small_primes = [p \<leftarrow> [2..<312]. list_all (\<lambda>d. p mod d \<noteq> 0) [2..<min p 18]]"

definition sha_init :: "w32 list" where
  "sha_init = map (root_fraction 2) [2, 3, 5, 7, 11, 13, 17, 19]"

definition sha_k :: "w32 list" where
  "sha_k = map (root_fraction 3) small_primes"

definition rotr :: "nat \<Rightarrow> w32 \<Rightarrow> w32" where
  "rotr n x = (drop_bit n x) OR (push_bit (32 - n) x)"

definition pad :: "nat list \<Rightarrow> nat list" where
  \<comment> \<open>the bit 1, zeros up to 56 modulo 64, the length in bits as eight bytes\<close>
  "pad bs =
     (let n = length bs; zeros = (119 - n mod 64) mod 64; bits = 8 * n in
      bs @ [128] @ replicate zeros 0 @ map (\<lambda>i. bits div 256 ^ i mod 256) [7, 6, 5, 4, 3, 2, 1, 0])"

fun be_words :: "nat list \<Rightarrow> w32 list" where
  "be_words (a # b # c # d # r) = of_nat (((a * 256 + b) * 256 + c) * 256 + d) # be_words r"
| "be_words _ = []"

definition next_w :: "w32 list \<Rightarrow> w32" where
  \<comment> \<open>the next word of the message schedule; the last sixteen, newest first\<close>
  "next_w ws =
     (let w15 = ws ! 14; w2 = ws ! 1;
          s0 = rotr 7 w15 XOR rotr 18 w15 XOR drop_bit 3 w15;
          s1 = rotr 17 w2 XOR rotr 19 w2 XOR drop_bit 10 w2
      in ws ! 15 + s0 + ws ! 6 + s1)"

primrec extend_w :: "nat \<Rightarrow> w32 list \<Rightarrow> w32 list" where
  "extend_w 0 ws = ws"
| "extend_w (Suc n) ws = extend_w n (next_w ws # ws)"

fun sha_round :: "w32 \<times> w32 \<Rightarrow> w32 list \<Rightarrow> w32 list" where
  "sha_round (k, w) [a, b, c, d, e, f, g, h] =
     (let s1 = rotr 6 e XOR rotr 11 e XOR rotr 25 e;
          ch = (e AND f) XOR (NOT e AND g);
          t1 = h + s1 + ch + k + w;
          s0 = rotr 2 a XOR rotr 13 a XOR rotr 22 a;
          maj = (a AND b) XOR (a AND c) XOR (b AND c)
      in [t1 + s0 + maj, a, b, c, d + t1, e, f, g])"
| "sha_round _ st = st"

definition compress :: "w32 list \<Rightarrow> w32 list \<Rightarrow> w32 list" where
  "compress st block = map2 (+) st (fold sha_round (zip sha_k (rev (extend_w 48 (rev block)))) st)"

fun blocks_of :: "nat \<Rightarrow> w32 list \<Rightarrow> w32 list list" where
  "blocks_of 0 ws = []"
| "blocks_of (Suc n) ws = take 16 ws # blocks_of n (drop 16 ws)"

definition word_bytes :: "w32 \<Rightarrow> nat list" where
  "word_bytes w = (let n = unat w in map (\<lambda>i. n div 256 ^ i mod 256) [3, 2, 1, 0])"

definition sha256_bytes :: "nat list \<Rightarrow> nat list" where
  "sha256_bytes bs =
     (let p = pad bs
      in concat (map word_bytes (foldl compress sha_init (blocks_of (length p div 64) (be_words p)))))"

definition bytes_of :: "string \<Rightarrow> nat list" where
  "bytes_of s = map of_char s"

definition hex_nibble :: "nat \<Rightarrow> char" where
  "hex_nibble n = (if n < 10 then char_of (48 + n) else char_of (87 + n))"

definition hex_bytes :: "nat list \<Rightarrow> string" where
  "hex_bytes bs = concat (map (\<lambda>b. [hex_nibble (b div 16), hex_nibble (b mod 16)]) bs)"

definition sha256_hex :: "string \<Rightarrow> string" where
  "sha256_hex s = hex_bytes (sha256_bytes (bytes_of s))"

definition hmac_pad :: "nat \<Rightarrow> nat list \<Rightarrow> nat list" where
  "hmac_pad b key =
     (let k = (if 64 < length key then sha256_bytes key else key)
      in map (\<lambda>x. unat ((of_nat x :: 8 word) XOR of_nat b)) (k @ replicate (64 - length k) 0))"

definition hmac_sha256_hex :: "string \<Rightarrow> string \<Rightarrow> string" where
  "hmac_sha256_hex key msg =
     (let k = bytes_of key
      in hex_bytes (sha256_bytes (hmac_pad 92 k @ sha256_bytes (hmac_pad 54 k @ bytes_of msg))))"

section \<open>The shape of a digest\<close>

lemma sha_round_length: "length (sha_round kw st) = length st"
  by (cases "(kw, st)" rule: sha_round.cases) (simp_all add: Let_def)

lemma sha_rounds_length: "length (fold sha_round kws st) = length st"
  by (induction kws arbitrary: st) (simp_all add: sha_round_length)

lemma compress_length [simp]: "length (compress st block) = length st"
  by (simp add: compress_def sha_rounds_length)

lemma compress_fold_length: "length (foldl compress st bs) = length st"
  by (induction bs arbitrary: st) simp_all

lemma sha256_bytes_length [simp]: "length (sha256_bytes bs) = 32"
proof -
  have "length (concat (map word_bytes ws)) = 4 * length ws" for ws
    by (induction ws) (simp_all add: word_bytes_def Let_def)
  then show ?thesis
    by (simp add: sha256_bytes_def Let_def compress_fold_length sha_init_def)
qed

lemma hex_bytes_length: "length (hex_bytes bs) = 2 * length bs"
  by (induction bs) (simp_all add: hex_bytes_def)

lemma sha256_hex_length [simp]: "length (sha256_hex s) = 64"
  by (simp add: sha256_hex_def hex_bytes_length)

lemma sha256_hex_nonempty [simp]: "sha256_hex s \<noteq> []"
  using sha256_hex_length [of s] by (metis length_0_conv zero_neq_numeral)

lemma hmac_nonempty [simp]: "hmac_sha256_hex k m \<noteq> []"
  using hex_bytes_length by (metis hmac_sha256_hex_def length_0_conv mult_eq_0_iff
      sha256_bytes_length zero_neq_numeral)

definition hex_char :: "char \<Rightarrow> bool" where
  \<comment> \<open>the class [0-9a-f]\<close>
  "hex_char c \<longleftrightarrow> (let n = of_char c :: nat in (48 \<le> n \<and> n \<le> 57) \<or> (97 \<le> n \<and> n \<le> 102))"

lemma hex_nibble_hex: "n < 16 \<Longrightarrow> hex_char (hex_nibble n)"
  by (auto simp: hex_nibble_def hex_char_def Let_def)

lemma word_bytes_bound: "b \<in> set (word_bytes w) \<Longrightarrow> b < 256"
  by (auto simp: word_bytes_def Let_def)

lemma hex_bytes_chars: "\<forall>b \<in> set bs. b < 256 \<Longrightarrow> list_all hex_char (hex_bytes bs)"
  by (induction bs) (simp_all add: hex_bytes_def hex_nibble_hex less_mult_imp_div_less)

lemma sha256_bytes_bound: "\<forall>b \<in> set (sha256_bytes bs). b < 256"
  by (auto simp: sha256_bytes_def Let_def dest: word_bytes_bound)

lemma sha256_hex_chars: "list_all hex_char (sha256_hex s)"
  unfolding sha256_hex_def by (rule hex_bytes_chars) (rule sha256_bytes_bound)

end
