(* ===== verification/Encode.thy ===== *)
theory Encode
  imports GoValue
begin

text \<open>
  What the source uses of \<^verbatim>\<open>encoding/json\<close> and \<^verbatim>\<open>time\<close>: the encoding of a value, which
  fails on a float that is not a number or infinite, and the renderings of an instant.  An
  instant is a number of nanoseconds since the zero time; the local zone is UTC.
\<close>

section \<open>JSON\<close>

definition json_char :: "char \<Rightarrow> string" where
  "json_char c =
     (let n = of_char c :: nat; b = CHR 0x5C in
      if n = 34 \<or> c = b then [b, c]
      else if n = 8 then [b, CHR ''b''] else if n = 12 then [b, CHR ''f'']
      else if n = 10 then [b, CHR ''n''] else if n = 13 then [b, CHR ''r'']
      else if n = 9 then [b, CHR ''t'']
      else if n < 32 \<or> c \<in> set ''<>&''
      then b # ''u00'' @ [hex_digit (n div 16), hex_digit (n mod 16)]
      else [c])"

definition json_string :: "string \<Rightarrow> string" where
  "json_string s = CHR 0x22 # concat (map json_char s) @ [CHR 0x22]"

definition format_json :: "string \<Rightarrow> int \<Rightarrow> string" where
  "format_json ds dp =
     (let x = dp - 1; nd = int (length ds)
      in if x < -6 \<or> 21 \<le> x
         then take 1 ds @ (if 1 < length ds then CHR ''.'' # drop 1 ds else []) @
              (if x < 0 then ''e-'' else ''e+'') @ show_nat (nat \<bar>x\<bar>)
         else if dp \<le> 0 then ''0.'' @ replicate (nat (- dp)) CHR ''0'' @ ds
         else if nd \<le> dp then ds @ replicate (nat (dp - nd)) CHR ''0''
         else take (nat dp) ds @ CHR ''.'' # drop (nat dp) ds)"

fun json_float :: "f64 \<Rightarrow> string option" where
  "json_float (FFin neg m e) =
     Some ((if neg then ''-'' else []) @
       (if m = 0 then ''0'' else (let (ds, dp) = short_digits m e in format_json ds dp)))"
| "json_float _ = None"

fun collect_opt :: "'a option list \<Rightarrow> 'a list option" where
  "collect_opt [] = Some []"
| "collect_opt (x # xs) =
     (case x of None \<Rightarrow> None | Some v \<Rightarrow> map_option (\<lambda>vs. v # vs) (collect_opt xs))"

definition json_array :: "string list \<Rightarrow> string" where
  "json_array xs = ''['' @ join_with '','' xs @ '']''"

definition json_object :: "(string \<times> string) list \<Rightarrow> string" where
  \<comment> \<open>the members in the order given, each value already encoded\<close>
  "json_object kvs = CHR 0x7B # join_with '','' (map (\<lambda>(k, v). json_string k @ '':'' @ v) kvs) @ [CHR 0x7D]"

fun json :: "goval \<Rightarrow> string option" where
  \<comment> \<open>json.Marshal; None is its error\<close>
  "json VNil = Some ''null''"
| "json (VBool b) = Some (if b then ''true'' else ''false'')"
| "json (VInt i) = Some (show_int i)"
| "json (VInt64 i) = Some (show_int i)"
| "json (VFloat f) = json_float f"
| "json (VStr s) = Some (json_string s)"
| "json (VList vs) = map_option json_array (collect_opt (map json vs))"
| "json (VStrs ss) = Some (json_array (map json_string ss))"
| "json (VMap m) =
     map_option json_object
       (collect_opt (map (\<lambda>(k, v). map_option (Pair k) v)
          (sort_key fst (map (\<lambda>(k, v). (k, json v)) m))))"

section \<open>Time\<close>

type_synonym gotime = int  \<comment> \<open>nanoseconds since January 1 of year 1; the zero time is 0\<close>
type_synonym duration = int  \<comment> \<open>nanoseconds\<close>

definition second_ns :: int where "second_ns = 1000000000"
definition day_ns :: int where "day_ns = 86400 * second_ns"

definition IsZero :: "gotime \<Rightarrow> bool" where
  "IsZero t \<longleftrightarrow> t = 0"

definition civil :: "int \<Rightarrow> int \<times> int \<times> int" where
  \<comment> \<open>year, month and day of a number of days since January 1 of year 1\<close>
  "civil days =
     (let z = days + 306; era = z div 146097; doe = z mod 146097;
          yoe = (doe - doe div 1460 + doe div 36524 - doe div 146096) div 365;
          doy = doe - (365 * yoe + yoe div 4 - yoe div 100);
          mp = (5 * doy + 2) div 153;
          d = doy - (153 * mp + 2) div 5 + 1;
          m = (if mp < 10 then mp + 3 else mp - 9)
      in (yoe + era * 400 + (if m \<le> 2 then 1 else 0), m, d))"

definition pad_num :: "nat \<Rightarrow> int \<Rightarrow> string" where
  "pad_num w n = (let s = show_nat (nat n) in replicate (w - length s) CHR ''0'' @ s)"

definition clock :: "gotime \<Rightarrow> int" where
  \<comment> \<open>the second of the day\<close>
  "clock t = (t mod day_ns) div second_ns"

definition format_date :: "gotime \<Rightarrow> string" where
  \<comment> \<open>2006-01-02\<close>
  "format_date t =
     (let (y, m, d) = civil (t div day_ns) in pad_num 4 y @ ''-'' @ pad_num 2 m @ ''-'' @ pad_num 2 d)"

definition format_minute :: "gotime \<Rightarrow> string" where
  \<comment> \<open>15:04\<close>
  "format_minute t =
     pad_num 2 (clock t div 3600) @ '':'' @ pad_num 2 (clock t div 60 mod 60)"

definition format_time :: "gotime \<Rightarrow> string" where
  \<comment> \<open>15:04:05\<close>
  "format_time t = format_minute t @ '':'' @ pad_num 2 (clock t mod 60)"

definition format_frac :: "gotime \<Rightarrow> string" where
  "format_frac t =
     (let ns = t mod second_ns in
      if ns = 0 then [] else CHR ''.'' # trim_right (\<lambda>c. c = CHR ''0'') (pad_num 9 ns))"

definition json_time :: "gotime \<Rightarrow> string option" where
  \<comment> \<open>RFC 3339 with nanoseconds; a year past 9999 is an error\<close>
  "json_time t =
     (if fst (civil (t div day_ns)) \<in> {0..9999}
      then Some (CHR 0x22 # format_date t @ ''T'' @ format_time t @ format_frac t @ ''Z'' @ [CHR 0x22])
      else None)"

end
