(* ===== verification/Chain.thy ===== *)
theory Chain
  imports Hash Encode
begin

text \<open>
  Records of the audit trail and the hash chain that links them: \<^verbatim>\<open>chainLink\<close>,
  \<^verbatim>\<open>recordPayload\<close> and the record types of \<^verbatim>\<open>reasoninglog.go\<close>.  The locale states what the two
  users of the chain, the in-memory log and the markdown trail file, rely on, and proves what
  a chain gives them.
\<close>

section \<open>Records\<close>

record Record =
  rc_Cycle :: int
  rc_Stage :: string
  rc_Time :: gotime
  rc_Inputs :: ctx
  rc_Output :: string
  rc_Rationale :: string
  rc_Model :: string
  rc_Chain :: string

record TrailCycle =
  tc_IntentText :: string
  tc_Started :: gotime
  tc_Records :: "Record list"

definition record_of :: "string \<Rightarrow> ctx \<Rightarrow> string \<Rightarrow> Record" where
  \<comment> \<open>the literal Record{Stage, Inputs, Output}, every other field zero\<close>
  "record_of stage inputs output =
     \<lparr>rc_Cycle = 0, rc_Stage = stage, rc_Time = 0, rc_Inputs = inputs, rc_Output = output,
      rc_Rationale = [], rc_Model = [], rc_Chain = []\<rparr>"

definition genesis :: string where
  "genesis = ''ear-genesis''"

definition chainLink :: "string \<Rightarrow> string \<Rightarrow> string" where
  "chainLink previous payload = sha256_hex (previous @ newline # payload)"

definition record_json :: "Record \<Rightarrow> string option" where
  \<comment> \<open>json.Marshal of the struct with its tags\<close>
  "record_json r =
     (case (json_time (rc_Time r), json (VMap (rc_Inputs r))) of
        (Some t, Some inputs) \<Rightarrow>
          Some (json_object
            ([(''cycle'', show_int (rc_Cycle r)), (''stage'', json_string (rc_Stage r)), (''time'', t)] @
             (if rc_Inputs r \<noteq> [] then [(''inputs'', inputs)] else []) @
             [(''output'', json_string (rc_Output r))] @
             (if rc_Rationale r \<noteq> [] then [(''rationale'', json_string (rc_Rationale r))] else []) @
             [(''model'', json_string (rc_Model r))] @
             (if rc_Chain r \<noteq> [] then [(''chain'', json_string (rc_Chain r))] else [])))
      | _ \<Rightarrow> None)"

definition recordPayload :: "Record \<Rightarrow> string" where
  \<comment> \<open>the marshalling error is dropped: the bytes are then nil\<close>
  "recordPayload r = (case record_json (r\<lparr>rc_Chain := []\<rparr>) of Some b \<Rightarrow> b | None \<Rightarrow> [])"

lemma recordPayload_chain [simp]: "recordPayload (r\<lparr>rc_Chain := c\<rparr>) = recordPayload r"
  by (simp add: recordPayload_def)

section \<open>Chains of links\<close>

text \<open>A chain is a list of pairs of a payload and the link stored with it.\<close>

type_synonym chain = "(string \<times> string) list"

fun first_break :: "(string \<Rightarrow> string \<Rightarrow> string) \<Rightarrow> string \<Rightarrow> chain \<Rightarrow> nat option" where
  \<comment> \<open>where the first link stands that does not reproduce\<close>
  "first_break link t [] = None"
| "first_break link t ((p, c) # xs) =
     (if c = link t p then map_option Suc (first_break link c xs) else Some 0)"

definition tip_before :: "string \<Rightarrow> chain \<Rightarrow> nat \<Rightarrow> string" where
  "tip_before t xs i = (if i = 0 then t else snd (xs ! (i - 1)))"

definition chain_end :: "string \<Rightarrow> chain \<Rightarrow> string" where
  "chain_end t xs = (if xs = [] then t else snd (last xs))"

lemma tip_before_simps [simp]:
  "tip_before t xs 0 = t" "tip_before t (x # xs) (Suc i) = tip_before (snd x) xs i"
  by (simp_all add: tip_before_def nth_Cons')

lemma chain_end_Cons [simp]: "chain_end t (x # xs) = chain_end (snd x) xs"
  by (simp add: chain_end_def)

lemma chain_end_append [simp]: "chain_end t (xs @ [x]) = snd x"
  by (simp add: chain_end_def)

lemma chain_end_Nil [simp]: "chain_end t [] = t"
  by (simp add: chain_end_def)

lemma first_break_append:
  "first_break link t (xs @ ys) =
     (case first_break link t xs of
        Some i \<Rightarrow> Some i
      | None \<Rightarrow> map_option ((+) (length xs)) (first_break link (chain_end t xs) ys))"
proof (induction xs arbitrary: t)
  case (Cons x xs)
  then show ?case
    by (cases x) (auto split: option.splits simp: option.map_comp comp_def intro!: option.map_cong)
qed (auto simp: map_option_case split: option.split)

locale link_chain =
  fixes link :: "string \<Rightarrow> string \<Rightarrow> string"
    and tip_ok :: "string \<Rightarrow> bool"
    and clash :: "string \<Rightarrow> string \<Rightarrow> string \<Rightarrow> string \<Rightarrow> bool"
  assumes link_tip: "tip_ok (link t p)"
    and link_binds:
      "tip_ok t \<Longrightarrow> tip_ok u \<Longrightarrow> link t p = link u q \<Longrightarrow> (t = u \<and> p = q) \<or> clash t p u q"
begin

text \<open>
  Another pair in place of one of an intact chain breaks it there, or at the next link when the new link
  fits the new payload, unless two link inputs clash; only the last pair can be replaced whole.
\<close>

lemma edit_breaks:
  assumes "first_break link t xs = None" "tip_ok t" "i < length xs" "(q, d) \<noteq> xs ! i"
  shows "first_break link t (xs[i := (q, d)]) = Some i \<or>
    (d \<noteq> snd (xs ! i) \<and> Suc i < length xs \<and> first_break link t (xs[i := (q, d)]) = Some (Suc i)) \<or>
    clash (tip_before t xs i) (fst (xs ! i)) (tip_before t xs i) q \<or>
    (Suc i < length xs \<and> clash (snd (xs ! i)) (fst (xs ! Suc i)) d (fst (xs ! Suc i))) \<or>
    (d \<noteq> snd (xs ! i) \<and> Suc i = length xs)"
  using assms
proof (induction xs arbitrary: t i)
  case (Cons x xs)
  obtain p c where x: "x = (p, c)" by (cases x)
  with Cons.prems have c: "c = link t p" "first_break link c xs = None" by (auto split: if_splits)
  show ?case
  proof (cases i)
    case 0
    consider "d \<noteq> link t q" | "d = link t q" "d = c" | "d = link t q" "d \<noteq> c" by blast
    then show ?thesis
    proof cases
      case 2
      with Cons.prems 0 x c link_binds [of t t p q] show ?thesis by auto
    next
      case 3
      show ?thesis
      proof (cases xs)
        case (Cons y ys)
        obtain p' c' where y: "y = (p', c')" by (cases y)
        have "c' = link c p'" using c(2) Cons y by (auto split: if_splits)
        with link_binds [of c d p' p'] link_tip c(1) 3 have "link d p' \<noteq> c' \<or> clash c p' d p'" by metis
        with 3 0 x Cons y show ?thesis by auto
      qed (use 3 0 x in simp)
    qed (use 0 x in simp)
  next
    case (Suc j)
    with Cons.IH [of c j] Cons.prems x c link_tip show ?thesis by auto
  qed
qed simp

lemma same_end_same_chain:
  assumes "first_break link t xs = None" "first_break link u ys = None" "tip_ok t" "tip_ok u"
    "length xs = length ys" "chain_end t xs = chain_end u ys"
  shows "(t = u \<and> xs = ys) \<or>
    (\<exists>i < length xs. clash (tip_before t xs i) (fst (xs ! i)) (tip_before u ys i) (fst (ys ! i)))"
  using assms(5,1-4,6)
proof (induction xs ys arbitrary: t u rule: list_induct2)
  case (Cons x xs y ys)
  obtain p c q d where xy: "x = (p, c)" "y = (q, d)" by (cases x; cases y)
  with Cons.prems have c: "c = link t p" "first_break link c xs = None"
    and d: "d = link u q" "first_break link d ys = None" by (auto split: if_splits)
  consider "c = d" "xs = ys"
    | i where "i < length xs" "clash (tip_before c xs i) (fst (xs ! i)) (tip_before d ys i) (fst (ys ! i))"
    using Cons.IH [of c d] Cons.prems xy c d link_tip by auto
  then show ?case
  proof cases
    case 1
    with c d Cons.prems link_binds [of t u p q] xy show ?thesis by force
  next
    case (2 i)
    with xy show ?thesis by (intro disjI2 exI [of _ "Suc i"]) simp
  qed
qed simp

lemma wrong_start:
  assumes "first_break link t xs = None" "tip_ok t" "tip_ok u" "t \<noteq> u" "xs \<noteq> []"
  shows "first_break link u xs = Some 0 \<or> clash t (fst (hd xs)) u (fst (hd xs))"
  using assms link_binds [of t u] by (cases xs) (auto split: if_splits)

lemma extend:
  "first_break link t xs = None \<Longrightarrow> first_break link t (xs @ [(p, link (chain_end t xs) p)]) = None"
  by (simp add: first_break_append)

end

section \<open>The chain of the source\<close>

definition plain_tip :: "string \<Rightarrow> bool" where
  "plain_tip t \<longleftrightarrow> newline \<notin> set t"

definition sha_clash :: "string \<Rightarrow> string \<Rightarrow> string \<Rightarrow> string \<Rightarrow> bool" where
  \<comment> \<open>two different texts, these ones, with the same SHA-256 digest\<close>
  "sha_clash t p u q \<longleftrightarrow>
     t @ newline # p \<noteq> u @ newline # q \<and> sha256_hex (t @ newline # p) = sha256_hex (u @ newline # q)"

lemma append_sep_inj: "sep \<notin> set a \<Longrightarrow> sep \<notin> set b \<Longrightarrow> a @ sep # x = b @ sep # y \<Longrightarrow> a = b \<and> x = y"
proof (induction a arbitrary: b)
  case Nil
  then show ?case by (cases b) auto
next
  case (Cons c a)
  then show ?case by (cases b) auto
qed

lemma plain_hex: "list_all hex_char s \<Longrightarrow> plain_tip s"
  by (auto simp: plain_tip_def list_all_iff hex_char_def)

lemma plain_genesis [simp]: "plain_tip genesis"
  by (simp add: plain_tip_def genesis_def)

interpretation sha: link_chain chainLink plain_tip sha_clash
proof
  show "plain_tip (chainLink t p)" for t p
    by (simp add: chainLink_def plain_hex sha256_hex_chars)
  show "(t = u \<and> p = q) \<or> sha_clash t p u q"
    if "plain_tip t" "plain_tip u" "chainLink t p = chainLink u q" for t u p q
    using that append_sep_inj [of newline t u p q]
    by (auto simp: sha_clash_def chainLink_def plain_tip_def)
qed

lemma chainLink_not_genesis [simp]: "chainLink t p \<noteq> genesis" "chainLink t p \<noteq> []"
proof -
  have "length (chainLink t p) = 64" by (simp add: chainLink_def)
  then show "chainLink t p \<noteq> genesis" "chainLink t p \<noteq> []" by (auto simp: genesis_def)
qed

end
