(* ===== verification/TrailFile.thy ===== *)
theory TrailFile
  imports Chain Section
begin

text \<open>
  The persisted trail of \<^verbatim>\<open>trailfile.go\<close>: records appended to a file as readable markdown
  blocks, each followed by its chain hash in a comment, the resumption of the chain by a later
  session, and the verification of a file from its own text; and the lines the JSON codec
  appends.  The file is its content; creating directories, opening and writing do not fail.
  Reading JSON lines back is in the theory TrailJson.
\<close>

section \<open>Markers and headings\<close>

definition marker_open :: string where "marker_open = ''<!-- chain: ''"
definition marker_close :: string where "marker_close = '' -->''"

definition marker_at :: "string \<Rightarrow> (string \<times> string) option" where
  \<comment> \<open>chainMarkerRe at the beginning of a text: the hash, and the text after the comment\<close>
  "marker_at s =
     (if has_prefix marker_open s then
        (let t = drop (length marker_open) s; h = takeWhile hex_char t; u = drop (length h) t
         in if h \<noteq> [] \<and> has_prefix marker_close u then Some (h, drop (length marker_close) u) else None)
      else None)"

lemma marker_at_shorter: "marker_at s = Some (h, r) \<Longrightarrow> length r < length s"
  by (auto simp: marker_at_def has_prefix_iff marker_open_def Let_def split: if_splits)
    (metis (no_types) add.commute diff_le_self le_add1 le_imp_less_Suc le_trans length_append length_drop
      less_SucI)

function all_markers :: "string \<Rightarrow> string list" where
  \<comment> \<open>FindAllStringSubmatch: the hash of every comment, left to right\<close>
  "all_markers s =
     (case marker_at s of
        Some (h, r) \<Rightarrow> h # all_markers r
      | None \<Rightarrow> (case s of [] \<Rightarrow> [] | _ # t \<Rightarrow> all_markers t))"
  by pat_completeness auto
termination by (relation "measure length") (auto dest: marker_at_shorter)

declare all_markers.simps [simp del]

definition chainMarkerRe :: "string \<Rightarrow> string option" where
  \<comment> \<open>FindStringSubmatch: the hash of the first comment of a line\<close>
  "chainMarkerRe line = (case all_markers line of [] \<Rightarrow> None | h # _ \<Rightarrow> Some h)"

definition cycle_heading :: "string \<Rightarrow> int option" where
  \<comment> \<open>cycleHeadingRe on one line, with the number read by Atoi\<close>
  "cycle_heading line =
     (let p = ''## Cycle ''; ds = takeWhile is_digit (drop (length p) line)
      in if has_prefix p line \<and> ds \<noteq> [] then Atoi ds else None)"

section \<open>Rendering a record\<close>

definition clip :: "string \<Rightarrow> nat \<Rightarrow> string" where
  "clip s width =
     (let t = join_with '' '' (Fields s) in if length t \<le> width then t else take (width - 3) t @ ''...'')"

definition capitalize :: "string \<Rightarrow> string" where
  "capitalize s = (case s of [] \<Rightarrow> [] | c # cs \<Rightarrow> upper_char c # cs)"

fun inputValue :: "goval \<Rightarrow> string" where
  "inputValue (VMap m) =
     CHR 0x7B #
     join_with '', '' (map (\<lambda>(k, v). k @ '': '' @ v) (sort_key fst (map (\<lambda>(k, v). (k, inputValue v)) m))) @
     [CHR 0x7D]"
| "inputValue (VStrs ss) = join_with '', '' ss"
| "inputValue (VList vs) = join_with '', '' (map inputValue vs)"
| "inputValue v = Sprint v"

definition record_header :: "Record \<Rightarrow> string" where
  "record_header r =
     ''### '' @ rc_Stage r @ (if rc_Output r \<noteq> [] then '' -- '' @ clip (rc_Output r) 80 else []) @
     (if rc_Model r \<noteq> [] then ''  ('' @ rc_Model r @ '')'' else [])"

definition recordMarkdown :: "Record \<Rightarrow> string" where
  "recordMarkdown r =
     (let shown = map (\<lambda>k. (k, inputValue (the (map_of (rc_Inputs r) k)))) (sorted_keys (rc_Inputs r));
          simple = filter (\<lambda>(k, v). newline \<notin> set v) shown;
          multiline = filter (\<lambda>(k, v). newline \<in> set v) shown
      in join_with [newline]
        ([record_header r, []] @
         (if simple \<noteq> [] then map (\<lambda>(k, v). ''- '' @ k @ '': '' @ v) simple @ [[]] else []) @
         concat (map (\<lambda>(k, v). if TrimSpace v \<noteq> [] then [capitalize k @ '':'', Quote v, []] else []) multiline) @
         (if rc_Rationale r \<noteq> [] then [''Why:'', Quote (rc_Rationale r), []] else []) @
         (if newline \<in> set (rc_Output r) \<or> 80 < length (rc_Output r)
          then [''Output:'', Quote (rc_Output r), []] else [])))"

section \<open>The file\<close>

record TrailFile =
  tf_Path :: string
  tf_file :: "string option"  \<comment> \<open>the content of the open file; None is the nil file\<close>
  tf_asMd :: bool
  tf_tip :: string
  tf_lastCycle :: int
  tf_maxCycle :: int

fun reparse :: "goval \<Rightarrow> goval" where
  \<comment> \<open>a value encoded and decoded again: numbers become floats, lists become []any\<close>
  "reparse (VInt i) = VFloat (f_of_int i)"
| "reparse (VInt64 i) = VFloat (f_of_int i)"
| "reparse (VStrs ss) = VList (map VStr ss)"
| "reparse (VList vs) = VList (map reparse vs)"
| "reparse (VMap m) = VMap (map (\<lambda>(k, v). (k, reparse v)) m)"
| "reparse v = v"

definition recordFields :: "Record \<Rightarrow> ctx option" where
  "recordFields r =
     (case (json_time (rc_Time r), json (VMap (rc_Inputs r))) of
        (Some t, Some _) \<Rightarrow>
          Some ([(''cycle'', VFloat (f_of_int (rc_Cycle r))), (''stage'', VStr (rc_Stage r)),
                 (''time'', VStr (butlast (tl t)))] @
                (if rc_Inputs r \<noteq> [] then [(''inputs'', reparse (VMap (rc_Inputs r)))] else []) @
                [(''output'', VStr (rc_Output r))] @
                (if rc_Rationale r \<noteq> [] then [(''rationale'', VStr (rc_Rationale r))] else []) @
                [(''model'', VStr (rc_Model r))])
      | _ \<Rightarrow> None)"

definition writeJSONL :: "TrailFile \<Rightarrow> Record \<Rightarrow> TrailFile \<times> bool" where
  \<comment> \<open>the boolean says whether the record was written; an encoding error is the source's err\<close>
  "writeJSONL t r =
     (case recordFields r of
        None \<Rightarrow> (t, False)
      | Some flds \<Rightarrow>
          (case json (VMap flds) of
             None \<Rightarrow> (t, False)
           | Some payload \<Rightarrow>
               (let tip = chainLink (tf_tip t) payload; t' = t\<lparr>tf_tip := tip\<rparr> in
                case json (VMap (map_put ''chain'' (VStr tip) flds)) of
                  None \<Rightarrow> (t', False)
                | Some line \<Rightarrow>
                    (t'\<lparr>tf_file := map_option (\<lambda>c. c @ line @ [newline]) (tf_file t')\<rparr>, True))))"

definition cycle_title :: "Record \<Rightarrow> string" where
  "cycle_title r =
     ''## Cycle '' @ show_int (rc_Cycle r) @ '' -- '' @ format_date (rc_Time r) @ '' '' @
     format_time (rc_Time r) @ '' UTC''"

definition writeMarkdown :: "TrailFile \<Rightarrow> Record \<Rightarrow> TrailFile" where
  "writeMarkdown t r =
     (let heading = (if rc_Cycle r \<noteq> tf_lastCycle t
                     then [newline] @ cycle_title r @ [newline, newline] else []);
          payload = recordMarkdown r;
          tip = chainLink (tf_tip t) payload;
          b = heading @ payload @ [newline] @ marker_open @ tip @ marker_close @ [newline]
      in t\<lparr>tf_lastCycle := rc_Cycle r, tf_tip := tip,
           tf_file := map_option (\<lambda>c. c @ b) (tf_file t)\<rparr>)"

definition WriteRecord :: "TrailFile \<Rightarrow> Record \<Rightarrow> TrailFile \<times> bool" where
  "WriteRecord t r =
     (if tf_file t = None then (t, False)
      else if tf_asMd t then (writeMarkdown t r, True) else writeJSONL t r)"

definition resume_md :: "string \<Rightarrow> TrailFile \<Rightarrow> TrailFile" where
  "resume_md content t =
     (let maxc = fold (\<lambda>line m. case cycle_heading line of Some n \<Rightarrow> max n m | None \<Rightarrow> m)
                   (split_char newline content) (tf_maxCycle t);
          markers = all_markers content
      in t\<lparr>tf_maxCycle := maxc, tf_lastCycle := maxc,
           tf_tip := (if markers \<noteq> [] then last markers else tf_tip t)\<rparr>)"

definition OpenTrailFile_md :: "string \<Rightarrow> string option \<Rightarrow> TrailFile" where
  \<comment> \<open>a path that ends in .md, and what the file holds, if it exists\<close>
  "OpenTrailFile_md path existing =
     (let t = \<lparr>tf_Path = path, tf_file = None, tf_asMd = True, tf_tip = genesis,
               tf_lastCycle = 0, tf_maxCycle = 0\<rparr>;
          t' = (case existing of None \<Rightarrow> t | Some c \<Rightarrow> resume_md c t)
      in t'\<lparr>tf_file := Some (case existing of None \<Rightarrow> [] | Some c \<Rightarrow> c)\<rparr>)"

definition Close_trail :: "TrailFile \<Rightarrow> TrailFile" where
  "Close_trail t = t\<lparr>tf_file := None\<rparr>"

section \<open>Verification\<close>

record trailLink =
  lk_label :: string
  lk_payload :: string
  lk_stored :: string

record md_state =
  ms_links :: "trailLink list"
  ms_block :: "string list"
  ms_inBlock :: bool

definition md_line :: "string \<Rightarrow> md_state \<Rightarrow> md_state" where
  "md_line line st =
     (if has_prefix ''### '' line then st\<lparr>ms_block := [line], ms_inBlock := True\<rparr>
      else if chainMarkerRe line \<noteq> None \<and> ms_inBlock st then
        (let head = trim_prefix ''### '' (hd (ms_block st));
             label = (case cut_at '' -- '' head of Some (a, _) \<Rightarrow> a | None \<Rightarrow> head)
         in \<lparr>ms_links = ms_links st @
               [\<lparr>lk_label = TrimSpace label, lk_payload = join_with [newline] (ms_block st),
                 lk_stored = the (chainMarkerRe line)\<rparr>],
             ms_block = [], ms_inBlock = False\<rparr>)
      else if ms_inBlock st then st\<lparr>ms_block := ms_block st @ [line]\<rparr>
      else st)"

definition chainLinksMd :: "string \<Rightarrow> trailLink list" where
  "chainLinksMd t =
     ms_links (fold md_line (split_char newline t) \<lparr>ms_links = [], ms_block = [], ms_inBlock = False\<rparr>)"

fun verify_links :: "string \<Rightarrow> nat \<Rightarrow> trailLink list \<Rightarrow> (nat \<times> string) option" where
  \<comment> \<open>the loop of VerifyTrail; None when every link reproduces\<close>
  "verify_links tip i [] = None"
| "verify_links tip i (l # ls) =
     (if lk_stored l \<noteq> chainLink tip (lk_payload l) then Some (i + 1, lk_label l)
      else verify_links (chainLink tip (lk_payload l)) (i + 1) ls)"

definition VerifyTrail_md :: "string \<Rightarrow> string option \<Rightarrow> bool \<times> string" where
  "VerifyTrail_md path existing =
     (case existing of
        None \<Rightarrow> (False, ''no trail file at '' @ go_quote path)
      | Some content \<Rightarrow>
          (let links = chainLinksMd content in
           if length links = 0 then
             (False, ''no chain records found -- this trail carries no integrity hashes'')
           else (case verify_links genesis 0 links of
                   Some (n, label) \<Rightarrow>
                     (False, ''broken chain at record '' @ show_nat n @ '' ('' @ label @
                        '') -- the trail was altered here or earlier'')
                 | None \<Rightarrow> (True, ''chain intact over '' @ show_nat (length links) @ '' records''))))"

section \<open>Texts as lines\<close>

definition unlines :: "string list \<Rightarrow> string" where
  "unlines ls = concat (map (\<lambda>l. l @ [newline]) ls)"

definition plain_lines :: "string list \<Rightarrow> bool" where
  "plain_lines ls \<longleftrightarrow> (\<forall>l \<in> set ls. newline \<notin> set l)"

lemma unlines_simps [simp]:
  "unlines [] = []" "unlines (l # ls) = l @ newline # unlines ls" "unlines (ls @ ks) = unlines ls @ unlines ks"
  by (simp_all add: unlines_def)

lemma plain_lines_simps [simp]:
  "plain_lines []" "plain_lines (l # ls) \<longleftrightarrow> newline \<notin> set l \<and> plain_lines ls"
  "plain_lines (ls @ ks) \<longleftrightarrow> plain_lines ls \<and> plain_lines ks"
  by (auto simp: plain_lines_def)

lemma plain_split [simp]: "plain_lines (split_char newline t)"
  by (auto simp: plain_lines_def dest: split_char_no_sep)

lemma split_unlines: "plain_lines ls \<Longrightarrow> split_char newline (unlines ls) = ls @ [[]]"
  by (induction ls) (simp_all add: split_char_append)

lemma unlines_split: "unlines (split_char newline t) = t @ [newline]"
proof -
  have "ls \<noteq> [] \<Longrightarrow> unlines ls = join_with [newline] ls @ [newline]" for ls
    by (induction ls rule: list_nonempty_induct) (simp_all add: join_with_Cons)
  then show ?thesis by simp
qed

lemma prefix_before_newline:
  assumes "has_prefix p (l @ newline # s)" "newline \<notin> set p" shows "has_prefix p l"
proof -
  from assms(1) obtain t where t: "l @ newline # s = p @ t" by (auto simp: has_prefix_iff)
  then consider us where "l = p @ us" | us where "p = l @ us" "newline # s = us @ t"
    by (auto simp: append_eq_append_conv2)
  then show ?thesis
  proof cases
    case 2
    with assms(2) have "us = []" by (cases us) auto
    with 2 show ?thesis by (simp add: has_prefix_def)
  qed (simp add: has_prefix_def)
qed

section \<open>Finding the markers\<close>

lemma marker_open_plain [simp]: "newline \<notin> set marker_open" "newline \<notin> set marker_close"
  by (simp_all add: marker_open_def marker_close_def)

lemma all_markers_skip:
  "\<not> contains_str marker_open l \<Longrightarrow> newline \<notin> set l \<Longrightarrow> all_markers (l @ newline # s) = all_markers s"
proof (induction l)
  case Nil
  have "marker_at (newline # s) = None" by (simp add: marker_at_def has_prefix_def marker_open_def)
  then show ?case by (simp add: all_markers.simps [of "newline # s"])
next
  case (Cons c l)
  then have "\<not> has_prefix marker_open (c # l)" by simp
  then have "\<not> has_prefix marker_open ((c # l) @ newline # s)"
    using prefix_before_newline marker_open_plain(1) by blast
  with Cons show ?case by (simp add: all_markers.simps [of "c # l @ newline # s"] marker_at_def)
qed

lemma all_markers_skip_lines:
  "plain_lines ls \<Longrightarrow> \<forall>l \<in> set ls. \<not> contains_str marker_open l \<Longrightarrow> all_markers (unlines ls @ s) = all_markers s"
  by (induction ls) (simp_all add: all_markers_skip)

lemma marker_at_marker:
  assumes "list_all hex_char h" "h \<noteq> []"
  shows "marker_at (marker_open @ h @ marker_close @ s) = Some (h, s)"
proof -
  have "takeWhile hex_char (h @ marker_close @ s) = h"
  proof -
    have "\<not> hex_char CHR '' ''" by (simp add: hex_char_def)
    then show ?thesis using assms(1) by (simp add: marker_close_def list_all_iff)
  qed
  then show ?thesis using assms(2) by (simp add: marker_at_def Let_def)
qed

definition marker_line :: "string \<Rightarrow> string" where
  "marker_line h = marker_open @ h @ marker_close"

lemma all_markers_marker:
  assumes "list_all hex_char h" "h \<noteq> []"
  shows "all_markers (marker_line h @ s) = h # all_markers s"
  by (subst all_markers.simps) (simp add: marker_line_def marker_at_marker [OF assms])

lemma all_markers_Nil [simp]: "all_markers [] = []"
  by (simp add: all_markers.simps marker_at_def has_prefix_def marker_open_def)

lemma all_markers_newline [simp]: "all_markers (newline # s) = all_markers s"
  using all_markers_skip [of "[]" s] by (simp add: marker_open_def)

lemma all_markers_none: "\<not> contains_str marker_open l \<Longrightarrow> newline \<notin> set l \<Longrightarrow> all_markers l = []"
proof (induction l)
  case (Cons c l)
  then have "\<not> has_prefix marker_open (c # l)" by simp
  with Cons show ?case by (simp add: all_markers.simps [of "c # l"] marker_at_def)
qed simp

lemma contains_part: "contains_str p b \<Longrightarrow> contains_str p (a @ b @ c)"
  by (metis append_assoc contains_str_iff)

lemma contains_line:
  assumes "l \<in> set (split_char newline t)" "contains_str p l" shows "contains_str p t"
proof -
  have "\<exists>a b. join_with [newline] ls = a @ l @ b" if "l \<in> set ls" for ls
    using that
  proof (induction ls)
    case (Cons k ls)
    show ?case
    proof (cases "ls = []")
      case True
      with Cons.prems have "join_with [newline] (k # ls) = [] @ l @ []" by simp
      then show ?thesis by blast
    next
      case False
      then have j: "join_with [newline] (k # ls) = k @ [newline] @ join_with [newline] ls"
        by (simp add: join_with_Cons)
      show ?thesis
      proof (cases "l = k")
        case True
        with j have "join_with [newline] (k # ls) = [] @ l @ ([newline] @ join_with [newline] ls)" by simp
        then show ?thesis by blast
      next
        case False
        with Cons obtain a b where "join_with [newline] ls = a @ l @ b" by auto
        with j have "join_with [newline] (k # ls) = (k @ [newline] @ a) @ l @ b" by simp
        then show ?thesis by blast
      qed
    qed
  qed simp
  from this [OF assms(1)] obtain a b where "t = a @ l @ b" by auto
  with assms(2) show ?thesis by (simp add: contains_part)
qed

section \<open>What a write appends\<close>

definition clean_record :: "Record \<Rightarrow> bool" where
  \<comment> \<open>no text of the record opens a chain comment, and no line after its heading looks like one\<close>
  "clean_record r \<longleftrightarrow>
     \<not> contains_str marker_open (recordMarkdown r) \<and>
     list_all (\<lambda>l. \<not> has_prefix ''### '' l) (tl (split_char newline (recordMarkdown r)))"

definition heading_lines :: "TrailFile \<Rightarrow> Record \<Rightarrow> string list" where
  "heading_lines t r = (if rc_Cycle r \<noteq> tf_lastCycle t then [[], cycle_title r, []] else [])"

definition chunk_lines :: "TrailFile \<Rightarrow> Record \<Rightarrow> string list" where
  "chunk_lines t r =
     heading_lines t r @ split_char newline (recordMarkdown r) @
     [marker_line (chainLink (tf_tip t) (recordMarkdown r))]"

lemma show_nat_digits: "list_all is_digit (show_nat n)"
proof (induction n rule: show_nat.induct)
  case (1 n)
  have "is_digit (digit_char d)" if "d < 10" for d
    using that by (simp add: digit_char_def is_digit_def Let_def)
  with 1 show ?case by (subst show_nat.simps) (auto split: if_splits)
qed

definition title_char :: "char \<Rightarrow> bool" where
  "title_char c \<longleftrightarrow> is_digit c \<or> c = CHR ''-'' \<or> c = CHR '':'' \<or> c = CHR '' ''"

lemma pad_num_chars: "list_all title_char (pad_num w n)"
  using show_nat_digits [of "nat n"]
  by (auto simp: pad_num_def Let_def title_char_def list_all_iff is_digit_def)

lemma show_int_chars: "list_all title_char (show_int i)"
  using show_nat_digits by (auto simp: show_int_def title_char_def list_all_iff)

lemma format_chars: "list_all title_char (format_date t)" "list_all title_char (format_time t)"
  using pad_num_chars
  by (auto simp: format_date_def format_time_def format_minute_def title_char_def [of "CHR ''-''"]
      title_char_def [of "CHR '':''"] split: prod.split)

lemma cycle_title_plain:
  "newline \<notin> set (cycle_title r)" "\<not> has_prefix ''### '' (cycle_title r)" "\<not> contains_str marker_open (cycle_title r)"
proof -
  have t: "\<not> title_char newline" "\<not> title_char CHR ''<''"
    by (simp_all add: title_char_def is_digit_def)
  have no: "c \<notin> set (cycle_title r)" if "c = newline \<or> c = CHR ''<''" for c
    using that t show_int_chars [of "rc_Cycle r"] format_chars [of "rc_Time r"]
    by (auto simp: cycle_title_def list_all_iff)
  then show "newline \<notin> set (cycle_title r)" by blast
  show "\<not> has_prefix ''### '' (cycle_title r)" by (simp add: cycle_title_def has_prefix_def)
  show "\<not> contains_str marker_open (cycle_title r)"
    using no [of "CHR ''<''"] by (auto simp: contains_str_iff marker_open_def)
qed

lemma chainLink_hex: "list_all hex_char (chainLink t p)"
  by (simp add: chainLink_def sha256_hex_chars)

lemma marker_line_newline [simp]: "newline \<notin> set (marker_line (chainLink t p))"
  using chainLink_hex [of t p]
  by (auto simp: marker_line_def marker_open_def marker_close_def list_all_iff hex_char_def)

lemma plain_chunk [simp]: "plain_lines (chunk_lines t r)"
  by (simp add: chunk_lines_def heading_lines_def cycle_title_plain)

lemma writeMarkdown_file:
  "tf_file (writeMarkdown t r) = map_option (\<lambda>c. c @ unlines (chunk_lines t r)) (tf_file t)"
  by (simp add: writeMarkdown_def chunk_lines_def heading_lines_def marker_line_def Let_def unlines_split)

lemma chunk_markers:
  assumes "clean_record r"
  shows "all_markers (unlines (chunk_lines t r) @ s) =
    chainLink (tf_tip t) (recordMarkdown r) # all_markers s"
proof -
  have "\<not> contains_str marker_open l" if "l \<in> set (split_char newline (recordMarkdown r))" for l
    using assms that contains_line by (auto simp: clean_record_def)
  moreover have "\<not> contains_str marker_open []" by (simp add: marker_open_def)
  ultimately have "\<forall>l \<in> set (heading_lines t r @ split_char newline (recordMarkdown r)). \<not> contains_str marker_open l"
    by (auto simp: heading_lines_def cycle_title_plain)
  then have "all_markers (unlines (heading_lines t r @ split_char newline (recordMarkdown r)) @ s) = all_markers s" for s
    by (intro all_markers_skip_lines) (simp_all add: heading_lines_def cycle_title_plain)
  then show ?thesis
    by (simp add: chunk_lines_def all_markers_marker chainLink_hex)
qed

section \<open>What the verification reads back\<close>

definition link_of :: "trailLink \<Rightarrow> string \<times> string" where
  "link_of l = (lk_payload l, lk_stored l)"

lemma verify_links_first_break:
  "verify_links t i ls =
     map_option (\<lambda>k. (i + k + 1, lk_label (ls ! k))) (first_break chainLink t (map link_of ls))"
  by (induction ls arbitrary: t i)
    (auto simp: link_of_def option.map_comp comp_def intro!: option.map_cong)

lemma md_line_skip:
  "\<not> has_prefix ''### '' l \<Longrightarrow> \<not> ms_inBlock st \<Longrightarrow> md_line l st = st"
  by (simp add: md_line_def)

lemma md_lines_block:
  assumes "\<forall>l \<in> set ls. \<not> has_prefix ''### '' l \<and> \<not> contains_str marker_open l" "plain_lines ls" "ms_inBlock st"
  shows "fold md_line ls st = st\<lparr>ms_block := ms_block st @ ls\<rparr>"
  using assms
proof (induction ls arbitrary: st)
  case (Cons l ls)
  then have "all_markers l = []"
    by (auto intro: all_markers_none)
  then have "chainMarkerRe l = None" by (simp add: chainMarkerRe_def)
  with Cons show ?case by (simp add: md_line_def)
qed simp

lemma chainMarkerRe_line: "chainMarkerRe (marker_line (chainLink t p)) = Some (chainLink t p)"
  using all_markers_marker [OF chainLink_hex, of t p "[]"] by (simp add: chainMarkerRe_def)

lemma marker_line_not_heading: "\<not> has_prefix ''### '' (marker_line h)"
  by (simp add: marker_line_def marker_open_def has_prefix_def)

lemma payload_lines:
  "\<exists>l ls. split_char newline (recordMarkdown r) = l # ls \<and> has_prefix ''### '' l"
proof -
  have "\<exists>u. recordMarkdown r = ''### '' @ u"
    by (simp add: recordMarkdown_def Let_def record_header_def join_with_Cons)
  then obtain u where u: "recordMarkdown r = ''### '' @ u" by blast
  then have "has_prefix ''### '' (hd (split_char newline (recordMarkdown r)))"
    by (cases "split_char newline u") (simp_all add: has_prefix_def)
  then show ?thesis by (cases "split_char newline (recordMarkdown r)") auto
qed

lemma md_lines_chunk:
  assumes "clean_record r" "ms_inBlock st = False" "ms_block st = []"
  shows "\<exists>label. fold md_line (chunk_lines t r) st =
    st\<lparr>ms_links := ms_links st @
      [\<lparr>lk_label = label, lk_payload = recordMarkdown r,
        lk_stored = chainLink (tf_tip t) (recordMarkdown r)\<rparr>]\<rparr>"
proof -
  obtain l ls where ls: "split_char newline (recordMarkdown r) = l # ls" "has_prefix ''### '' l"
    using payload_lines by blast
  have "\<not> contains_str marker_open k" if "k \<in> set (split_char newline (recordMarkdown r))" for k
    using assms(1) that contains_line by (auto simp: clean_record_def)
  then have body: "\<forall>k \<in> set ls. \<not> has_prefix ''### '' k \<and> \<not> contains_str marker_open k"
    using assms(1) ls(1) by (auto simp: clean_record_def list_all_iff)
  have "plain_lines (l # ls)" using plain_split [of "recordMarkdown r"] ls(1) by simp
  then have plain: "plain_lines ls" by simp
  have head: "fold md_line (heading_lines t r) st = st"
    using assms(2) cycle_title_plain(2) by (simp add: heading_lines_def md_line_skip has_prefix_def)
  have open_block: "md_line l st = st\<lparr>ms_block := [l], ms_inBlock := True\<rparr>"
    using ls(2) by (simp add: md_line_def)
  have "join_with [newline] (l # ls) = recordMarkdown r" using ls(1) by (metis join_split_char)
  moreover have "st\<lparr>ms_links := X\<rparr> = \<lparr>ms_links = X, ms_block = [], ms_inBlock = False\<rparr>" for X
    using assms(2,3) by (cases st) simp
  ultimately show ?thesis
    using md_lines_block [OF body plain, of "st\<lparr>ms_block := [l], ms_inBlock := True\<rparr>"]
    by (simp add: chunk_lines_def ls(1) head open_block md_line_def [of "marker_line h" for h]
        marker_line_not_heading chainMarkerRe_line Let_def)
qed

section \<open>Files written by sessions\<close>

definition md_start :: md_state where
  "md_start = \<lparr>ms_links = [], ms_block = [], ms_inBlock = False\<rparr>"

definition good_file :: "string \<Rightarrow> string \<Rightarrow> nat \<Rightarrow> bool" where
  \<comment> \<open>a content whose n links reproduce and end in the tip, which is its last marker\<close>
  "good_file content tip n \<longleftrightarrow>
     (\<exists>ls L. content = unlines ls \<and> plain_lines ls \<and>
        fold md_line ls md_start = \<lparr>ms_links = L, ms_block = [], ms_inBlock = False\<rparr> \<and>
        first_break chainLink genesis (map link_of L) = None \<and>
        chain_end genesis (map link_of L) = tip \<and> length L = n \<and>
        (\<forall>s. all_markers (content @ s) = map lk_stored L @ all_markers s))"

lemma good_file_empty: "good_file [] genesis 0"
  unfolding good_file_def by (rule exI [of _ "[]"]) (simp add: md_start_def)

lemma good_file_write:
  assumes "good_file content (tf_tip t) n" "clean_record r"
  shows "good_file (content @ unlines (chunk_lines t r)) (tf_tip (writeMarkdown t r)) (Suc n)"
proof -
  obtain ls L where f: "content = unlines ls" "plain_lines ls"
    "fold md_line ls md_start = \<lparr>ms_links = L, ms_block = [], ms_inBlock = False\<rparr>"
    "first_break chainLink genesis (map link_of L) = None" "chain_end genesis (map link_of L) = tf_tip t"
    "length L = n" "\<And>s. all_markers (content @ s) = map lk_stored L @ all_markers s"
    using assms(1) by (auto simp: good_file_def)
  obtain label where "fold md_line (chunk_lines t r) \<lparr>ms_links = L, ms_block = [], ms_inBlock = False\<rparr> =
      \<lparr>ms_links = L @ [\<lparr>lk_label = label, lk_payload = recordMarkdown r,
        lk_stored = chainLink (tf_tip t) (recordMarkdown r)\<rparr>], ms_block = [], ms_inBlock = False\<rparr>"
    using md_lines_chunk [OF assms(2), of "\<lparr>ms_links = L, ms_block = [], ms_inBlock = False\<rparr>" t] by auto
  with f show ?thesis
    unfolding good_file_def
    by (intro exI [of _ "ls @ chunk_lines t r"])
      (simp add: chunk_markers [OF assms(2)] first_break_append link_of_def
        writeMarkdown_def Let_def)
qed

definition write_session :: "string \<Rightarrow> Record list \<Rightarrow> string option \<Rightarrow> string option" where
  \<comment> \<open>one process: open the file, write the records, close it; what the file then holds\<close>
  "write_session path rs existing =
     tf_file (fold (\<lambda>r t. fst (WriteRecord t r)) rs (OpenTrailFile_md path existing))"

lemma writeMarkdown_open:
  "tf_asMd (writeMarkdown t r) = tf_asMd t"
  by (simp add: writeMarkdown_def Let_def)

lemma good_file_writes:
  assumes "good_file content (tf_tip t) n" "tf_file t = Some content" "tf_asMd t" "list_all clean_record rs"
  shows "\<exists>content' tip'. tf_file (fold (\<lambda>r t. fst (WriteRecord t r)) rs t) = Some content' \<and>
    good_file content' tip' (n + length rs)"
  using assms
proof (induction rs arbitrary: t content n)
  case (Cons r rs)
  have "tf_file (writeMarkdown t r) = Some (content @ unlines (chunk_lines t r))"
    using Cons.prems by (simp add: writeMarkdown_file)
  moreover have "fst (WriteRecord t r) = writeMarkdown t r" using Cons.prems by (simp add: WriteRecord_def)
  ultimately show ?case
    using Cons.IH [of _ "writeMarkdown t r" "Suc n"] Cons.prems good_file_write [of content t n r]
    by (simp add: writeMarkdown_open)
qed auto

definition file_ok :: "string option \<Rightarrow> nat \<Rightarrow> bool" where
  "file_ok existing n \<longleftrightarrow> (case existing of None \<Rightarrow> n = 0 | Some c \<Rightarrow> \<exists>tip. good_file c tip n)"

lemma good_file_open:
  assumes "file_ok existing n"
  shows "\<exists>c. tf_file (OpenTrailFile_md path existing) = Some c \<and>
    good_file c (tf_tip (OpenTrailFile_md path existing)) n \<and> tf_asMd (OpenTrailFile_md path existing)"
proof (cases existing)
  case None
  with assms good_file_empty show ?thesis by (simp add: file_ok_def OpenTrailFile_md_def)
next
  case (Some c)
  with assms obtain tip where g: "good_file c tip n" by (auto simp: file_ok_def)
  then obtain L where L: "all_markers (c @ []) = map lk_stored L @ all_markers []"
    "chain_end genesis (map link_of L) = tip"
    unfolding good_file_def by blast
  have "snd (last (map link_of L)) = lk_stored (last L)" if "L \<noteq> []"
    using that by (simp add: last_map link_of_def)
  with L have "(if all_markers c \<noteq> [] then last (all_markers c) else genesis) = tip"
    by (auto simp: chain_end_def last_map)
  with g Some show ?thesis
    by (auto simp: OpenTrailFile_md_def resume_md_def Let_def)
qed

lemma file_ok_session:
  assumes "file_ok existing n" "list_all clean_record rs"
  shows "file_ok (write_session path rs existing) (n + length rs)"
proof -
  from good_file_open [OF assms(1), of path] obtain c where
    "tf_file (OpenTrailFile_md path existing) = Some c"
    "good_file c (tf_tip (OpenTrailFile_md path existing)) n" "tf_asMd (OpenTrailFile_md path existing)"
    by blast
  from good_file_writes [OF this(2,1,3) assms(2)] show ?thesis
    by (auto simp: write_session_def file_ok_def)
qed

lemma file_ok_sessions:
  "list_all (list_all clean_record) rss \<Longrightarrow> file_ok existing n \<Longrightarrow>
     file_ok (fold (write_session path) rss existing) (n + length (concat rss))"
proof (induction rss arbitrary: existing n)
  case (Cons rs rss)
  then show ?case
    using file_ok_session [of existing n rs path] by (simp add: add.assoc [symmetric])
qed simp

lemma good_file_verifies:
  assumes "good_file content tip n" "n \<noteq> 0"
  shows "VerifyTrail_md path (Some content) = (True, ''chain intact over '' @ show_nat n @ '' records'')"
proof -
  from assms obtain ls L where f: "content = unlines ls" "plain_lines ls"
    "fold md_line ls md_start = \<lparr>ms_links = L, ms_block = [], ms_inBlock = False\<rparr>"
    "first_break chainLink genesis (map link_of L) = None" "length L = n"
    by (auto simp: good_file_def)
  then have "chainLinksMd content = L"
    by (simp add: chainLinksMd_def split_unlines md_start_def md_line_def has_prefix_def)
  moreover have "L \<noteq> []" using f(5) assms(2) by auto
  ultimately show ?thesis
    using f by (simp add: VerifyTrail_md_def verify_links_first_break)
qed

section \<open>Properties\<close>

text \<open>
  C14.  Whatever records sessions append to a markdown trail, one session after another, each
  resuming from what the file holds, the file verifies, over exactly as many records as were
  written -- as long as no record's text holds an opening of the chain comment.
\<close>

theorem trail_sessions_verify:
  assumes "list_all (list_all clean_record) rss" "concat rss \<noteq> []"
  shows "VerifyTrail_md path (fold (write_session path) rss None) =
    (True, ''chain intact over '' @ show_nat (length (concat rss)) @ '' records'')"
proof -
  have n: "length (concat rss) \<noteq> 0" using assms(2) by (simp only: length_0_conv) simp
  have "file_ok (fold (write_session path) rss None) (length (concat rss))"
    using file_ok_sessions [OF assms(1), of None 0 path] by (simp add: file_ok_def)
  with n obtain c tip where "fold (write_session path) rss None = Some c" "good_file c tip (length (concat rss))"
    unfolding file_ok_def by (cases "fold (write_session path) rss None") auto
  with good_file_verifies [OF _ n] show ?thesis by simp
qed

definition sample_record :: Record where
  "sample_record =
     \<lparr>rc_Cycle = 1, rc_Stage = ''policy'', rc_Time = 0, rc_Inputs = [(''policy'', VStr ''Cap'')],
      rc_Output = ''VIOLATED'', rc_Rationale = ''amount over the cap'', rc_Model = ''llm'', rc_Chain = []\<rparr>"

lemma trail_sessions_verify_witness:
  "VerifyTrail_md ''trail.md'' (fold (write_session ''trail.md'') [[sample_record], [sample_record, sample_record]] None) =
    (True, ''chain intact over 3 records'')"
proof -
  have "clean_record sample_record" by code_simp
  then have "list_all (list_all clean_record) [[sample_record], [sample_record, sample_record]]" by simp
  from trail_sessions_verify [OF this, of "''trail.md''"]
  have "VerifyTrail_md ''trail.md'' (fold (write_session ''trail.md'') [[sample_record], [sample_record, sample_record]] None) =
      (True, ''chain intact over '' @ show_nat 3 @ '' records'')" by (simp add: eval_nat_numeral)
  moreover have "show_nat 3 = ''3''" by code_simp
  ultimately show ?thesis by simp
qed

definition comment_record :: Record where
  "comment_record = sample_record\<lparr>rc_Cycle := 0, rc_Rationale := ''see <!-- chain: ab -->''\<rparr>"

text \<open>
  The hypothesis is needed: a trail that nobody altered is reported broken at its first
  record when that record's rationale quotes a chain comment.
\<close>

theorem trail_comment_collides:
  "VerifyTrail_md path (write_session path [comment_record] None) =
    (False, ''broken chain at record 1 (policy) -- the trail was altered here or earlier'')"
proof -
  have lines: "split_char newline (recordMarkdown comment_record) =
      [''### policy -- VIOLATED  (llm)'', [], ''- policy: Cap'', [], ''Why:'', ''> see <!-- chain: ab -->'', []]"
    by code_simp
  obtain t where t: "write_session path [comment_record] None = Some (unlines (chunk_lines t comment_record))"
    "tf_lastCycle t = 0" "tf_tip t = genesis"
    by (simp add: write_session_def WriteRecord_def OpenTrailFile_md_def writeMarkdown_file)
  define h where "h = marker_line (chainLink genesis (recordMarkdown comment_record))"
  have "rc_Cycle comment_record = 0" by (simp add: comment_record_def)
  with t lines have c: "chunk_lines t comment_record =
      [''### policy -- VIOLATED  (llm)'', [], ''- policy: Cap'', [], ''Why:'', ''> see <!-- chain: ab -->'', [], h]"
    by (simp add: chunk_lines_def heading_lines_def h_def)
  define p where "p = join_with [newline] [''### policy -- VIOLATED  (llm)'', [], ''- policy: Cap'', [], ''Why:'']"
  have "fold md_line [''### policy -- VIOLATED  (llm)'', [], ''- policy: Cap'', [], ''Why:'', ''> see <!-- chain: ab -->'', []] md_start
      = \<lparr>ms_links = [\<lparr>lk_label = ''policy'', lk_payload = p, lk_stored = ''ab''\<rparr>], ms_block = [], ms_inBlock = False\<rparr>"
    unfolding p_def by code_simp
  moreover have "md_line h st = st" if "\<not> ms_inBlock st" for st
    using that by (simp add: h_def md_line_skip marker_line_not_heading)
  moreover have "md_line [] st = st" if "\<not> ms_inBlock st" for st
    using that by (simp add: md_line_skip has_prefix_def)
  moreover have "split_char newline (unlines (chunk_lines t comment_record)) =
      [''### policy -- VIOLATED  (llm)'', [], ''- policy: Cap'', [], ''Why:'', ''> see <!-- chain: ab -->'', []] @ [h, []]"
    using split_unlines [OF plain_chunk, of t comment_record] c by simp
  ultimately have "chainLinksMd (unlines (chunk_lines t comment_record)) =
      [\<lparr>lk_label = ''policy'', lk_payload = p, lk_stored = ''ab''\<rparr>]"
    by (simp only: chainLinksMd_def fold_append comp_apply md_start_def) simp
  moreover have "''ab'' \<noteq> chainLink genesis p"
  proof -
    have "length (chainLink genesis p) = 64" by (simp add: chainLink_def)
    then show ?thesis by (metis length_Cons list.size(3) numeral_eq_iff num.distinct(1) num.inject(1) numeral_2_eq_2 semiring_norm(85))
  qed
  moreover have "show_nat 1 = ''1''" by code_simp
  ultimately show ?thesis using t(1) by (simp add: VerifyTrail_md_def)
qed

end
