(* ===== verification/AuditLog.thy ===== *)
theory AuditLog
  imports TrailFile Stack
begin

text \<open>
  The reasoning log of \<^verbatim>\<open>reasoninglog.go\<close>: cycles of records linked by a hash chain, the
  verification of the chain, retention, the streaming sink and the persisted trail, and the
  two reports.  The pointer \<open>current\<close> is nil or points to the last cycle; here it is a flag.
  Each critical section of the source is one step; the clock is an argument.  The sink and the
  trail are a writer that never fails and a markdown or JSON trail file.
\<close>

section \<open>The log\<close>

record ReasoningLog =
  rl_Sink :: "string option"
  rl_Trail :: "TrailFile option"
  rl_Cycles :: "TrailCycle list"
  rl_current :: bool
  rl_chainTip :: string
  rl_cycleNo :: int

definition new_log :: ReasoningLog where
  "new_log = \<lparr>rl_Sink = None, rl_Trail = None, rl_Cycles = [], rl_current = False,
              rl_chainTip = [], rl_cycleNo = 0\<rparr>"

definition SeedCycleNumbering :: "int \<Rightarrow> ReasoningLog \<Rightarrow> ReasoningLog" where
  "SeedCycleNumbering n l = (if rl_cycleNo l < n then l\<lparr>rl_cycleNo := n\<rparr> else l)"

definition open_cycle :: "string \<Rightarrow> gotime \<Rightarrow> ReasoningLog \<Rightarrow> ReasoningLog" where
  "open_cycle name started l =
     l\<lparr>rl_cycleNo := rl_cycleNo l + 1,
       rl_Cycles := rl_Cycles l @ [\<lparr>tc_IntentText = name, tc_Started = started, tc_Records = []\<rparr>],
       rl_current := True\<rparr>"

definition add_record :: "Record \<Rightarrow> TrailCycle list \<Rightarrow> TrailCycle list" where
  "add_record r cs = butlast cs @ [(last cs)\<lparr>tc_Records := tc_Records (last cs) @ [r]\<rparr>]"

definition fill_record :: "gotime \<Rightarrow> ReasoningLog \<Rightarrow> Record \<Rightarrow> Record" where
  \<comment> \<open>the defaults of the cycle number, the model and the time\<close>
  "fill_record now l r =
     r\<lparr>rc_Cycle := (if rc_Cycle r = 0 then rl_cycleNo l else rc_Cycle r),
       rc_Model := (if rc_Model r = [] then ''deterministic-fallback'' else rc_Model r),
       rc_Time := (if IsZero (rc_Time r) then now else rc_Time r)\<rparr>"

definition stream_record :: "Record \<Rightarrow> string option \<Rightarrow> string option" where
  "stream_record r sink =
     (case sink of
        None \<Rightarrow> None
      | Some s \<Rightarrow> Some (s @ (case record_json r of Some line \<Rightarrow> line @ [newline] | None \<Rightarrow> [])))"

definition Log_Record :: "gotime \<Rightarrow> Record \<Rightarrow> ReasoningLog \<Rightarrow> ReasoningLog" where
  "Log_Record now r l =
     (let l1 = (if rl_current l then l else open_cycle [] 0 l);
          r1 = fill_record now l1 r;
          tip = (if rl_chainTip l1 = [] then genesis else rl_chainTip l1);
          tip' = chainLink tip (recordPayload r1);
          r2 = r1\<lparr>rc_Chain := tip'\<rparr>
      in l1\<lparr>rl_chainTip := tip', rl_Cycles := add_record r2 (rl_Cycles l1),
            rl_Sink := stream_record r2 (rl_Sink l1),
            rl_Trail := map_option (\<lambda>t. fst (WriteRecord t r2)) (rl_Trail l1)\<rparr>)"

definition BeginCycle :: "gotime \<Rightarrow> Intent \<Rightarrow> ReasoningLog \<Rightarrow> ReasoningLog" where
  "BeginCycle now i l =
     Log_Record now (record_of ''intent'' [(''context'', VMap (in_Context i))] (in_Text i))
       (open_cycle (in_Text i) now l)"

definition retention :: "(f64 \<Rightarrow> int) \<Rightarrow> f64 \<Rightarrow> duration" where
  \<comment> \<open>time.Duration(retentionDays * float64(24*time.Hour))\<close>
  "retention oor days = f_to_int64 oor (fmul days (f_of_int day_ns))"

definition expired :: "gotime \<Rightarrow> TrailCycle \<Rightarrow> bool" where
  "expired cutoff c \<longleftrightarrow> \<not> IsZero (tc_Started c) \<and> tc_Started c < cutoff"

definition Rotate :: "(f64 \<Rightarrow> int) \<Rightarrow> gotime \<Rightarrow> f64 \<Rightarrow> gotime \<Rightarrow> ReasoningLog \<Rightarrow> ReasoningLog \<times> nat" where
  \<comment> \<open>the clock, the days, the optional instant to count from\<close>
  "Rotate oor clk days now l =
     (if fle days fzero then (l, 0)
      else (let now' = (if IsZero now then clk else now);
                cutoff = now' - retention oor days;
                kept = filter (\<lambda>c. \<not> expired cutoff c) (rl_Cycles l)
            in (l\<lparr>rl_Cycles := kept, rl_current := False\<rparr>, length (rl_Cycles l) - length kept)))"

definition LastCycle :: "ReasoningLog \<Rightarrow> TrailCycle option" where
  "LastCycle l = (if length (rl_Cycles l) = 0 then None else Some (last (rl_Cycles l)))"

definition Log_Records :: "ReasoningLog \<Rightarrow> Record list" where
  "Log_Records l = concat (map tc_Records (rl_Cycles l))"

fun verify_records :: "string \<Rightarrow> nat \<Rightarrow> Record list \<Rightarrow> nat \<times> string option" where
  \<comment> \<open>the loops of Verify: how many records were read, and the stage of the one that broke\<close>
  "verify_records tip n [] = (n, None)"
| "verify_records tip n (r # rs) =
     (let expected = chainLink tip (recordPayload r) in
      if rc_Chain r \<noteq> expected then (n + 1, Some (rc_Stage r))
      else verify_records expected (n + 1) rs)"

definition Verify :: "ReasoningLog \<Rightarrow> bool \<times> string" where
  "Verify l =
     (case verify_records genesis 0 (Log_Records l) of
        (n, Some stage) \<Rightarrow>
          (False, ''chain broken at record '' @ show_nat n @ '' (stage '' @ go_quote stage @ '')'')
      | (n, None) \<Rightarrow> (True, show_nat n @ '' records verified''))"

section \<open>Reports\<close>

fun anyInt :: "(f64 \<Rightarrow> int) \<Rightarrow> goval option \<Rightarrow> int" where
  \<comment> \<open>anyInt and anyInt64: a missing key is the nil value\<close>
  "anyInt oor (Some (VInt n)) = n"
| "anyInt oor (Some (VInt64 n)) = n"
| "anyInt oor (Some (VFloat n)) = f_to_int64 oor n"
| "anyInt oor _ = 0"

fun anyFloat :: "goval \<Rightarrow> f64" where
  "anyFloat (VFloat n) = n"
| "anyFloat (VInt n) = f_of_int n"
| "anyFloat (VInt64 n) = f_of_int n"
| "anyFloat _ = fzero"

definition usageRecord :: "Record list \<Rightarrow> Record option" where
  "usageRecord rs = find (\<lambda>r. rc_Stage r = ''usage'') rs"

record usage_totals =
  ut_row :: nat
  ut_calls :: int
  ut_in :: int
  ut_out :: int
  ut_latency :: int
  ut_cost :: f64
  ut_priced :: bool
  ut_text :: string

definition em_dash :: string where
  \<comment> \<open>the three bytes of the dash\<close>
  "em_dash = [CHR 0xE2, CHR 0x80, CHR 0x94]"

definition dollars_cell :: "f64 \<Rightarrow> string" where
  "dollars_cell c = ''$'' @ format_f 6 c"

definition usage_row :: "(f64 \<Rightarrow> int) \<Rightarrow> TrailCycle \<Rightarrow> usage_totals \<Rightarrow> usage_totals" where
  "usage_row oor c u =
     (case usageRecord (tc_Records c) of
        None \<Rightarrow> u
      | Some rec \<Rightarrow>
          (let get = map_of (rc_Inputs rec);
               calls = anyInt oor (get ''model_calls''); i = anyInt oor (get ''input_tokens'');
               out = anyInt oor (get ''output_tokens''); latency = anyInt oor (get ''latency_ms'');
               cell = (case get ''cost'' of Some v \<Rightarrow> dollars_cell (anyFloat v) | None \<Rightarrow> em_dash)
           in u\<lparr>ut_row := ut_row u + 1, ut_calls := ut_calls u + calls, ut_in := ut_in u + i,
                ut_out := ut_out u + out, ut_latency := ut_latency u + latency,
                ut_cost := (case get ''cost'' of Some v \<Rightarrow> fadd (ut_cost u) (anyFloat v) | None \<Rightarrow> ut_cost u),
                ut_priced := (ut_priced u \<or> get ''cost'' \<noteq> None),
                ut_text := ut_text u @ ''| '' @ show_nat (ut_row u + 1) @ '' | '' @ show_int calls @
                  '' | '' @ show_int i @ ''+'' @ show_int out @ '' | '' @ cell @ '' | '' @
                  show_int latency @ '' |'' @ [newline]\<rparr>))"

definition usage_start :: usage_totals where
  "usage_start = \<lparr>ut_row = 0, ut_calls = 0, ut_in = 0, ut_out = 0, ut_latency = 0, ut_cost = fzero,
     ut_priced = False, ut_text = []\<rparr>"

definition UsageReport :: "(f64 \<Rightarrow> int) \<Rightarrow> ReasoningLog \<Rightarrow> string" where
  "UsageReport oor l =
     (let u = fold (usage_row oor) (rl_Cycles l) usage_start;
          cell = (if ut_priced u then dollars_cell (ut_cost u) else em_dash)
      in ''# Usage Report'' @ [newline, newline] @
         ''| Cycle | Model calls | In+Out tokens | Cost | Latency (ms) |'' @ [newline] @
         ''| --- | --- | --- | --- | --- |'' @ [newline] @ ut_text u @
         ''| **total** | **'' @ show_int (ut_calls u) @ ''** | **'' @ show_int (ut_in u) @ ''+'' @
         show_int (ut_out u) @ ''** | **'' @ cell @ ''** | **'' @ show_int (ut_latency u) @ ''** |'' @ [newline])"

definition render_record :: "Record \<Rightarrow> string" where
  "render_record r =
     ''- **'' @ rc_Stage r @ ''** ['' @ rc_Model r @ '']: '' @ rc_Output r @ [newline] @
     (if rc_Rationale r \<noteq> [] then ''  - rationale: '' @ rc_Rationale r @ [newline] else [])"

definition Log_Render :: "ReasoningLog \<Rightarrow> string" where
  "Log_Render l =
     concat (map (\<lambda>c. ''## Cycle: '' @ tc_IntentText c @ [newline, newline] @
       concat (map render_record (tc_Records c)) @ [newline]) (rl_Cycles l))"

section \<open>The chain invariant\<close>

definition record_pair :: "Record \<Rightarrow> string \<times> string" where
  "record_pair r = (recordPayload r, rc_Chain r)"

definition log_chain :: "ReasoningLog \<Rightarrow> chain" where
  "log_chain l = map record_pair (Log_Records l)"

definition chain_inv :: "ReasoningLog \<Rightarrow> bool" where
  "chain_inv l \<longleftrightarrow>
     first_break chainLink genesis (log_chain l) = None \<and>
     (if rl_chainTip l = [] then genesis else rl_chainTip l) = chain_end genesis (log_chain l) \<and>
     (rl_current l \<longrightarrow> rl_Cycles l \<noteq> [])"

datatype log_op = OpBegin gotime Intent | OpRecord gotime Record | OpSeed int

fun log_step :: "log_op \<Rightarrow> ReasoningLog \<Rightarrow> ReasoningLog" where
  "log_step (OpBegin now i) l = BeginCycle now i l"
| "log_step (OpRecord now r) l = Log_Record now r l"
| "log_step (OpSeed n) l = SeedCycleNumbering n l"

fun records_made :: "log_op \<Rightarrow> nat" where
  "records_made (OpSeed n) = 0"
| "records_made _ = 1"

lemma verify_records_first_break:
  "verify_records tip n rs =
     (case first_break chainLink tip (map record_pair rs) of
        None \<Rightarrow> (n + length rs, None)
      | Some k \<Rightarrow> (n + k + 1, Some (rc_Stage (rs ! k))))"
  by (induction rs arbitrary: tip n)
    (auto simp: record_pair_def Let_def split: option.split)

lemma Log_Records_add:
  "cs \<noteq> [] \<Longrightarrow> concat (map tc_Records (add_record r cs)) = concat (map tc_Records cs) @ [r]"
  by (cases cs rule: rev_cases) (simp_all add: add_record_def)

lemma chain_inv_new: "chain_inv new_log"
  by (simp add: chain_inv_def new_log_def log_chain_def Log_Records_def)

lemma chain_inv_open: "chain_inv l \<Longrightarrow> chain_inv (open_cycle name t l) \<and> rl_current (open_cycle name t l)"
  by (simp add: chain_inv_def open_cycle_def log_chain_def Log_Records_def split: if_splits)

lemma Log_Records_open: "Log_Records (open_cycle name t l) = Log_Records l"
  by (simp add: open_cycle_def Log_Records_def)

lemma Log_Record_effect:
  assumes "chain_inv l"
  shows "chain_inv (Log_Record now r l) \<and> (\<exists>r'. Log_Records (Log_Record now r l) = Log_Records l @ [r'])"
proof -
  define l1 where "l1 = (if rl_current l then l else open_cycle [] 0 l)"
  have inv: "chain_inv l1" "rl_current l1" and recs: "Log_Records l1 = Log_Records l"
    using assms chain_inv_open by (auto simp: l1_def Log_Records_open)
  define tip where "tip = (if rl_chainTip l1 = [] then genesis else rl_chainTip l1)"
  define r2 where "r2 = (fill_record now l1 r)\<lparr>rc_Chain := chainLink tip (recordPayload (fill_record now l1 r))\<rparr>"
  have tip: "tip = chain_end genesis (log_chain l1)" using inv by (simp add: tip_def chain_inv_def)
  have eff: "Log_Record now r l =
      l1\<lparr>rl_chainTip := rc_Chain r2, rl_Cycles := add_record r2 (rl_Cycles l1),
         rl_Sink := stream_record r2 (rl_Sink l1),
         rl_Trail := map_option (\<lambda>t. fst (WriteRecord t r2)) (rl_Trail l1)\<rparr>"
    by (simp add: Log_Record_def Let_def l1_def [symmetric] tip_def [symmetric] r2_def [symmetric])
      (simp add: r2_def)
  have ne: "rl_Cycles l1 \<noteq> []" using inv by (simp add: chain_inv_def)
  then have rs: "Log_Records (Log_Record now r l) = Log_Records l1 @ [r2]"
    by (simp add: eff Log_Records_def Log_Records_add)
  have "record_pair r2 = (recordPayload r2, chainLink (chain_end genesis (log_chain l1)) (recordPayload r2))"
    by (simp add: record_pair_def r2_def tip)
  with rs have "log_chain (Log_Record now r l) =
      log_chain l1 @ [(recordPayload r2, chainLink (chain_end genesis (log_chain l1)) (recordPayload r2))]"
    by (simp add: log_chain_def)
  moreover have "rc_Chain r2 = chainLink (chain_end genesis (log_chain l1)) (recordPayload r2)"
    by (simp add: r2_def tip)
  moreover have "rl_Cycles (Log_Record now r l) \<noteq> []" by (simp add: eff add_record_def)
  ultimately have "chain_inv (Log_Record now r l)"
    using inv sha.extend [of genesis "log_chain l1" "recordPayload r2"]
    by (simp add: chain_inv_def eff)
  with rs recs show ?thesis by auto
qed

definition written :: "gotime \<Rightarrow> Record \<Rightarrow> ReasoningLog \<Rightarrow> Record" where
  \<comment> \<open>the record as it stands in the log, filled and chained\<close>
  "written now r l =
     (let l1 = (if rl_current l then l else open_cycle [] 0 l); r1 = fill_record now l1 r
      in r1\<lparr>rc_Chain := chainLink (if rl_chainTip l1 = [] then genesis else rl_chainTip l1) (recordPayload r1)\<rparr>)"

lemma Log_Records_Record:
  "chain_inv l \<Longrightarrow> Log_Records (Log_Record now r l) = Log_Records l @ [written now r l]"
  by (auto simp: Log_Record_def Let_def written_def Log_Records_def Log_Records_add open_cycle_def chain_inv_def)

lemma written_simps [simp]:
  "rc_Stage (written now r l) = rc_Stage r" "rc_Output (written now r l) = rc_Output r"
  "rc_Inputs (written now r l) = rc_Inputs r" "rc_Rationale (written now r l) = rc_Rationale r"
  by (simp_all add: written_def fill_record_def Let_def)

lemma log_step_effect:
  assumes "chain_inv l"
  shows "chain_inv (log_step op l) \<and> length (Log_Records (log_step op l)) = length (Log_Records l) + records_made op"
proof (cases op)
  case (OpBegin now i)
  have "chain_inv (open_cycle (in_Text i) now l)" using assms chain_inv_open by blast
  from Log_Record_effect [OF this, of now "record_of ''intent'' [(''context'', VMap (in_Context i))] (in_Text i)"]
  show ?thesis by (auto simp: OpBegin BeginCycle_def Log_Records_open)
next
  case (OpRecord now r)
  with Log_Record_effect [OF assms, of now r] show ?thesis by auto
next
  case (OpSeed n)
  with assms show ?thesis
    by (simp add: SeedCycleNumbering_def chain_inv_def log_chain_def Log_Records_def split: if_splits)
qed

lemma log_steps_effect:
  assumes "chain_inv l"
  shows "chain_inv (fold log_step ops l) \<and>
    length (Log_Records (fold log_step ops l)) = length (Log_Records l) + sum_list (map records_made ops)"
  using assms by (induction ops arbitrary: l) (simp_all add: log_step_effect)

lemma chain_inv_verify:
  "chain_inv l \<Longrightarrow> Verify l = (True, show_nat (length (Log_Records l)) @ '' records verified'')"
  by (simp add: Verify_def verify_records_first_break chain_inv_def log_chain_def)

section \<open>Editing a record\<close>

fun edit_cycles :: "nat \<Rightarrow> Record \<Rightarrow> TrailCycle list \<Rightarrow> TrailCycle list" where
  "edit_cycles k r [] = []"
| "edit_cycles k r (c # cs) =
     (if k < length (tc_Records c) then c\<lparr>tc_Records := (tc_Records c)[k := r]\<rparr> # cs
      else c # edit_cycles (k - length (tc_Records c)) r cs)"

definition edit_log :: "nat \<Rightarrow> Record \<Rightarrow> ReasoningLog \<Rightarrow> ReasoningLog" where
  \<comment> \<open>somebody overwrites the k-th record of the trail\<close>
  "edit_log k r l = l\<lparr>rl_Cycles := edit_cycles k r (rl_Cycles l)\<rparr>"

lemma Log_Records_edit: "Log_Records (edit_log k r l) = (Log_Records l)[k := r]"
proof -
  have "concat (map tc_Records (edit_cycles k r cs)) = (concat (map tc_Records cs))[k := r]" for cs
    by (induction k r cs rule: edit_cycles.induct) (simp_all add: list_update_append)
  then show ?thesis by (simp add: Log_Records_def edit_log_def)
qed

lemma edit_chain:
  "log_chain (edit_log k r l) = (log_chain l)[k := record_pair r]"
  by (simp add: log_chain_def Log_Records_edit map_update)

lemma verify_break:
  "first_break chainLink genesis (log_chain l) = Some k \<Longrightarrow>
     Verify l = (False, ''chain broken at record '' @ show_nat (k + 1) @ '' (stage '' @
       go_quote (rc_Stage (Log_Records l ! k)) @ '')'')"
  by (simp add: Verify_def verify_records_first_break log_chain_def)

lemma Verify_ok_iff:
  "Verify l = (True, msg) \<longleftrightarrow>
     first_break chainLink genesis (log_chain l) = None \<and>
     msg = show_nat (length (log_chain l)) @ '' records verified''"
  by (auto simp: Verify_def verify_records_first_break log_chain_def split: option.split)

lemma log_steps_verify:
  "Verify (fold log_step ops new_log) =
     (True, show_nat (sum_list (map records_made ops)) @ '' records verified'')"
proof -
  have "length (Log_Records new_log) = 0" by (simp add: new_log_def Log_Records_def)
  with log_steps_effect [OF chain_inv_new, of ops] show ?thesis
    by (simp add: chain_inv_verify)
qed

section \<open>The first record of a log\<close>

definition intent_record :: "gotime \<Rightarrow> Intent \<Rightarrow> Record" where
  "intent_record now i =
     \<lparr>rc_Cycle = 1, rc_Stage = ''intent'', rc_Time = now, rc_Inputs = [(''context'', VMap (in_Context i))],
      rc_Output = in_Text i, rc_Rationale = [], rc_Model = ''deterministic-fallback'', rc_Chain = []\<rparr>"

lemma Log_Records_begin:
  "now \<noteq> 0 \<Longrightarrow> Log_Records (BeginCycle now i new_log) =
     [(intent_record now i)\<lparr>rc_Chain := chainLink genesis (recordPayload (intent_record now i))\<rparr>]"
  by (simp add: BeginCycle_def Log_Record_def Let_def Log_Records_def open_cycle_def new_log_def add_record_def
      fill_record_def record_of_def IsZero_def intent_record_def)

lemma record_json_None: "json (VMap (rc_Inputs r)) = None \<Longrightarrow> record_json r = None"
  by (simp add: record_json_def split: option.split)

lemma length_join: "length (join_with sep xs) = sum_list (map length xs) + (length xs - 1) * length sep"
  by (induction sep xs rule: join_with.induct) simp_all

lemma outputs_differ:
  assumes "json_time (rc_Time r) \<noteq> None" "json (VMap (rc_Inputs r)) \<noteq> None"
    "length (json_string out) \<noteq> length (json_string (rc_Output r))"
  shows "recordPayload (r\<lparr>rc_Output := out\<rparr>) \<noteq> recordPayload r"
proof
  assume "recordPayload (r\<lparr>rc_Output := out\<rparr>) = recordPayload r"
  then have "length (recordPayload (r\<lparr>rc_Output := out\<rparr>)) = length (recordPayload r)" by simp
  with assms show False
    by (cases r; cases "rc_Rationale r = []") (auto simp: recordPayload_def record_json_def json_object_def length_join simp del: json.simps)
qed

section \<open>Properties\<close>

text \<open>
  C9.  A log that only its own operations wrote -- cycles begun, records appended, numbering
  seeded, in any order and number -- verifies, and the report counts every record written.
\<close>

theorem log_operations_verify:
  "Verify (fold log_step ops new_log) =
     (True, show_nat (sum_list (map records_made ops)) @ '' records verified'')"
  by (rule log_steps_verify)

definition broken_at :: "nat \<Rightarrow> ReasoningLog \<Rightarrow> bool" where
  \<comment> \<open>the verification fails at exactly this record, counted from 0, and says so\<close>
  "broken_at k l \<longleftrightarrow>
     Verify l = (False, ''chain broken at record '' @ show_nat (k + 1) @ '' (stage '' @ go_quote (rc_Stage (Log_Records l ! k)) @ '')'')"

definition edited :: "Record \<Rightarrow> Record \<Rightarrow> bool" where
  \<comment> \<open>another encoding, or another link\<close>
  "edited r r' \<longleftrightarrow> recordPayload r' \<noteq> recordPayload r \<or> rc_Chain r' \<noteq> rc_Chain r"

text \<open>
  C28.  Tamper evidence: in a log that verifies, overwriting a record by one with another encoding or another
  link makes the verification fail at exactly that record, or at the next one when the link was made to fit
  the new content, unless two link inputs are a SHA-256 collision.  Of the last record, which no link
  follows, this holds when its link is kept.
\<close>

theorem edit_is_located:
  assumes "fst (Verify l)" "k < length (Log_Records l)" "edited (Log_Records l ! k) r"
    "Suc k < length (Log_Records l) \<or> rc_Chain r = rc_Chain (Log_Records l ! k)"
  shows "broken_at k (edit_log k r l) \<or>
    (rc_Chain r \<noteq> rc_Chain (Log_Records l ! k) \<and> Suc k < length (Log_Records l) \<and> broken_at (Suc k) (edit_log k r l)) \<or>
    sha_clash (tip_before genesis (log_chain l) k) (recordPayload (Log_Records l ! k))
      (tip_before genesis (log_chain l) k) (recordPayload r) \<or>
    (Suc k < length (Log_Records l) \<and>
      sha_clash (rc_Chain (Log_Records l ! k)) (recordPayload (Log_Records l ! Suc k))
        (rc_Chain r) (recordPayload (Log_Records l ! Suc k)))"
proof -
  have inv: "first_break chainLink genesis (log_chain l) = None"
    using assms(1) Verify_ok_iff [of l "snd (Verify l)"] by (cases "Verify l") auto
  have k: "log_chain l ! k = record_pair (Log_Records l ! k)" "k < length (log_chain l)"
    and len: "length (log_chain l) = length (Log_Records l)" using assms(2) by (simp_all add: log_chain_def)
  have next_pair: "log_chain l ! Suc k = record_pair (Log_Records l ! Suc k)" if "Suc k < length (Log_Records l)"
    using that by (simp add: log_chain_def)
  have "record_pair r \<noteq> log_chain l ! k" using assms(3) k by (auto simp: edited_def record_pair_def)
  from sha.edit_breaks [OF inv plain_genesis k(2) this [unfolded record_pair_def [of r]]]
  have "first_break chainLink genesis (log_chain (edit_log k r l)) = Some k \<or>
      (rc_Chain r \<noteq> rc_Chain (Log_Records l ! k) \<and> Suc k < length (Log_Records l) \<and>
        first_break chainLink genesis (log_chain (edit_log k r l)) = Some (Suc k)) \<or>
      sha_clash (tip_before genesis (log_chain l) k) (recordPayload (Log_Records l ! k))
        (tip_before genesis (log_chain l) k) (recordPayload r) \<or>
      (Suc k < length (Log_Records l) \<and>
        sha_clash (rc_Chain (Log_Records l ! k)) (recordPayload (Log_Records l ! Suc k))
          (rc_Chain r) (recordPayload (Log_Records l ! Suc k)))"
    using assms(4) k len next_pair by (auto simp: edit_chain record_pair_def)
  moreover have "broken_at i (edit_log k r l)" if "first_break chainLink genesis (log_chain (edit_log k r l)) = Some i" for i
    using verify_break [OF that] by (simp add: broken_at_def)
  ultimately show ?thesis by blast
qed

text \<open>The last record can be replaced, its link with it: nothing follows that would tell.\<close>

lemma last_record_unprotected:
  assumes "chain_inv l" "Log_Records l \<noteq> []"
  shows "fst (Verify (edit_log (length (Log_Records l) - 1)
    (r\<lparr>rc_Chain := chainLink (tip_before genesis (log_chain l) (length (Log_Records l) - 1)) (recordPayload r)\<rparr>) l))"
proof -
  obtain xs x where xs: "log_chain l = xs @ [x]" using assms(2) by (cases "log_chain l" rule: rev_cases) (auto simp: log_chain_def)
  have len: "length (Log_Records l) - 1 = length xs" using xs by (metis diff_Suc_1 length_append_singleton length_map log_chain_def)
  have "first_break chainLink genesis xs = None"
    using assms(1) xs by (auto simp: chain_inv_def first_break_append split: option.splits)
  moreover have "tip_before genesis (xs @ [x]) (length xs) = chain_end genesis xs"
    by (auto simp: tip_before_def chain_end_def nth_append last_conv_nth)
  ultimately have "first_break chainLink genesis (log_chain (edit_log (length xs)
      (r\<lparr>rc_Chain := chainLink (tip_before genesis (log_chain l) (length xs)) (recordPayload r)\<rparr>) l)) = None"
    using sha.extend [of genesis xs "recordPayload r"] by (simp add: edit_chain xs record_pair_def)
  then show ?thesis unfolding len by (simp add: Verify_def verify_records_first_break log_chain_def)
qed

definition sample_intent :: Intent where
  "sample_intent = \<lparr>in_Text = ''pay'', in_Context = [(''amount'', VInt 5)]\<rparr>"

definition sample_log :: ReasoningLog where
  "sample_log = fold log_step [OpBegin 1 sample_intent] new_log"

lemma edit_is_located_witness:
  "broken_at 0 (edit_log 0 ((Log_Records sample_log ! 0)\<lparr>rc_Output := ''refund''\<rparr>) sample_log) \<or>
    sha_clash genesis (recordPayload (Log_Records sample_log ! 0))
      genesis (recordPayload ((Log_Records sample_log ! 0)\<lparr>rc_Output := ''refund''\<rparr>))"
proof -
  let ?R = "intent_record 1 sample_intent"
  let ?r = "?R\<lparr>rc_Chain := chainLink genesis (recordPayload ?R)\<rparr>"
  have recs: "Log_Records sample_log = [?r]"
    by (simp add: sample_log_def Log_Records_begin del: fold_simps(1))
  have "1 div day_ns = 0" by (simp add: day_ns_def second_ns_def)
  moreover have "fst (civil 0) \<in> {0..9999}" by code_simp
  ultimately have "json_time 1 \<noteq> None" by (simp add: json_time_def)
  then have "recordPayload (?r\<lparr>rc_Output := ''refund''\<rparr>) \<noteq> recordPayload ?r"
    by (intro outputs_differ) (auto simp: intent_record_def sample_intent_def json_string_def json_char_def)
  moreover have "fst (Verify sample_log)" by (simp only: sample_log_def log_steps_verify fst_conv)
  ultimately show ?thesis
    using edit_is_located [of sample_log 0 "?r\<lparr>rc_Output := ''refund''\<rparr>"] by (simp add: recs edited_def)
qed

text \<open>
  What the chain does not protect: a record that JSON cannot encode (a context holding a
  number that is not a number or is infinite, as the fact "x: nan" gives) has an empty payload,
  so overwriting it by any other such record leaves the verification's verdict as it was.
\<close>

theorem unencodable_edit_unseen:
  assumes "k < length (Log_Records l)" "record_json ((Log_Records l ! k)\<lparr>rc_Chain := []\<rparr>) = None"
    "record_json (r\<lparr>rc_Chain := []\<rparr>) = None" "rc_Chain r = rc_Chain (Log_Records l ! k)"
    "Verify l = (True, msg)"
  shows "Verify (edit_log k r l) = (True, msg)"
proof -
  have "record_pair r = record_pair (Log_Records l ! k)"
    using assms by (simp add: record_pair_def recordPayload_def)
  then have "log_chain (edit_log k r l) = log_chain l"
    using assms(1) by (simp add: log_chain_def Log_Records_edit map_update list_update_same_conv)
  then show ?thesis using assms(5) by (simp add: Verify_ok_iff)
qed

definition nan_log :: ReasoningLog where
  "nan_log = fold log_step [OpBegin 1 \<lparr>in_Text = ''pay 5'', in_Context = [(''x'', Coerce ''nan'')]\<rparr>] new_log"

lemma unencodable_edit_unseen_witness:
  "Verify (edit_log 0 ((Log_Records nan_log ! 0)\<lparr>rc_Output := ''pay 500''\<rparr>) nan_log) = (True, ''1 records verified'') \<and>
   rc_Output (Log_Records nan_log ! 0) = ''pay 5''"
proof -
  let ?R = "intent_record 1 \<lparr>in_Text = ''pay 5'', in_Context = [(''x'', VFloat FNaN)]\<rparr>"
  let ?r = "?R\<lparr>rc_Chain := chainLink genesis (recordPayload ?R)\<rparr>"
  have recs: "Log_Records nan_log = [?r]"
    by (simp add: nan_log_def Coerce_nan Log_Records_begin)
  have "Verify nan_log = (True, ''1 records verified'')"
    using log_steps_verify [of "[OpBegin 1 \<lparr>in_Text = ''pay 5'', in_Context = [(''x'', Coerce ''nan'')]\<rparr>]"]
    by (simp add: nan_log_def show_small [unfolded One_nat_def])
  then have "Verify (edit_log 0 (?r\<lparr>rc_Output := ''pay 500''\<rparr>) nan_log) = (True, ''1 records verified'')"
    by (rule unencodable_edit_unseen [rotated 4]) (simp_all add: recs record_json_None intent_record_def)
  then show ?thesis by (simp add: recs intent_record_def)
qed

text \<open>
  Retention and verification do not go together: once \<open>Rotate\<close> has dropped the records at the
  beginning of an intact log and some remain, \<open>Verify\<close> reports the chain broken at record 1,
  unless two link inputs are a SHA-256 collision.
\<close>

theorem Rotate_breaks_Verify:
  assumes "l = fold log_step ops new_log" "l' = fst (Rotate oor clk days now l)"
    "Log_Records l = dropped @ Log_Records l'" "dropped \<noteq> []" "Log_Records l' = r # rs"
  shows "Verify l' = (False, ''chain broken at record '' @ show_nat 1 @ '' (stage '' @ go_quote (rc_Stage r) @ '')'') \<or>
    sha_clash (rc_Chain (last dropped)) (recordPayload r) genesis (recordPayload r)"
proof -
  define t where "t = chain_end genesis (map record_pair dropped)"
  have chain: "log_chain l = map record_pair dropped @ log_chain l'"
    using assms(3) by (simp add: log_chain_def)
  have "first_break chainLink genesis (log_chain l) = None"
    using log_steps_effect [OF chain_inv_new, of ops] assms(1) by (simp add: chain_inv_def)
  with chain have d: "first_break chainLink genesis (map record_pair dropped) = None"
    and b: "first_break chainLink t (log_chain l') = None"
    by (auto simp: first_break_append t_def split: option.splits)
  have t: "t = rc_Chain (last dropped)"
    using assms(4) by (simp add: t_def chain_end_def record_pair_def last_map)
  obtain p where "t = chainLink (chain_end genesis (map record_pair (butlast dropped))) p"
  proof -
    have "map record_pair dropped = map record_pair (butlast dropped) @ [record_pair (last dropped)]"
      using assms(4) by (metis append_butlast_last_id list.simps(8,9) map_append)
    with d that show ?thesis
      by (auto simp: first_break_append t record_pair_def split: option.splits if_splits)
  qed
  then have "t \<noteq> genesis" "plain_tip t" using sha.link_tip by auto
  with sha.wrong_start [OF b] have "first_break chainLink genesis (log_chain l') = Some 0 \<or>
      sha_clash t (recordPayload r) genesis (recordPayload r)"
    using assms(5) by (simp add: log_chain_def record_pair_def)
  then show ?thesis
    using verify_break [of l' 0] assms(5) t by auto
qed

definition two_cycles :: ReasoningLog where
  "two_cycles = fold log_step [OpBegin 1 sample_intent, OpBegin (10 * day_ns) sample_intent] new_log"

lemma BeginCycle_cycles:
  "\<exists>r. rl_Cycles (BeginCycle now i l) =
     rl_Cycles l @ [\<lparr>tc_IntentText = in_Text i, tc_Started = now, tc_Records = [r]\<rparr>] \<and> rc_Stage r = ''intent''"
  by (simp add: BeginCycle_def Log_Record_def Let_def open_cycle_def add_record_def fill_record_def record_of_def)

lemma Rotate_breaks_Verify_witness:
  "\<exists>a b. Log_Records two_cycles = [a, b] \<and>
     (let l' = fst (Rotate (\<lambda>_. 0) (10 * day_ns) (FFin False 1 0) 0 two_cycles) in
      Verify l' = (False, ''chain broken at record '' @ show_nat 1 @ '' (stage '' @ go_quote ''intent'' @ '')'') \<or>
      sha_clash (rc_Chain a) (recordPayload b) genesis (recordPayload b))"
proof -
  obtain a where a: "rl_Cycles (BeginCycle 1 sample_intent new_log) =
      [\<lparr>tc_IntentText = ''pay'', tc_Started = 1, tc_Records = [a]\<rparr>]" "rc_Stage a = ''intent''"
    using BeginCycle_cycles [of 1 sample_intent new_log] by (auto simp: new_log_def sample_intent_def)
  obtain b where b: "rl_Cycles two_cycles =
      [\<lparr>tc_IntentText = ''pay'', tc_Started = 1, tc_Records = [a]\<rparr>,
       \<lparr>tc_IntentText = ''pay'', tc_Started = 10 * day_ns, tc_Records = [b]\<rparr>]" "rc_Stage b = ''intent''"
    using BeginCycle_cycles [of "10 * day_ns" sample_intent "BeginCycle 1 sample_intent new_log"] a
    by (auto simp: two_cycles_def sample_intent_def)
  define l' where "l' = fst (Rotate (\<lambda>_. 0) (10 * day_ns) (FFin False 1 0) 0 two_cycles)"
  have "retention (\<lambda>_. 0) (FFin False 1 0) = day_ns" "\<not> fle (FFin False 1 0) fzero"
    by (simp_all add: retention_def day_ns_def second_ns_def float_eval Let_def)
  then have "rl_Cycles l' = [\<lparr>tc_IntentText = ''pay'', tc_Started = 10 * day_ns, tc_Records = [b]\<rparr>]"
    using b(1) by (simp add: l'_def Rotate_def Let_def expired_def IsZero_def day_ns_def second_ns_def)
  then have "Log_Records two_cycles = [a] @ Log_Records l'" "Log_Records l' = [b]"
    using b(1) by (simp_all add: Log_Records_def)
  with Rotate_breaks_Verify [OF two_cycles_def l'_def this(1) _ this(2)] b(2)
  show ?thesis by (simp add: Let_def l'_def)
qed

end
