(* ===== verification/Window.thy ===== *)
theory Window
  imports Ear_Prelude
begin

text \<open>
  The interface of a bounded window, a store that keeps the last n of the items pushed into
  it.  The runtime's working memory and the kernel's dispatch history are its two providers.
\<close>

definition last_n :: "nat \<Rightarrow> 'a list \<Rightarrow> 'a list" where
  "last_n n xs = drop (length xs - n) xs"

lemma last_n_length [simp]: "length (last_n n xs) = min n (length xs)"
  by (simp add: last_n_def)

lemma last_n_all: "length xs \<le> n \<Longrightarrow> last_n n xs = xs"
  by (simp add: last_n_def)

lemma last_n_snoc: "last_n n (last_n n xs @ [x]) = last_n n (xs @ [x])"
proof (cases "length xs \<le> n")
  case False
  then show ?thesis
    by (cases n) (auto simp: last_n_def not_le intro!: arg_cong [of _ _ "\<lambda>k. drop k xs"])
qed (simp add: last_n_all)

lemma last_n_last: "0 < n \<Longrightarrow> last_n n (xs @ [x]) = last_n (n - 1) xs @ [x]"
  by (cases n) (auto simp: last_n_def)

locale bounded_window =
  fixes push :: "'a \<Rightarrow> 's \<Rightarrow> 's"
    and contents :: "'s \<Rightarrow> 'a list"
    and limit :: "'s \<Rightarrow> nat"
    and pushed :: "'s \<Rightarrow> nat"
  assumes contents_push: "contents (push x s) = last_n (limit s) (contents s @ [x])"
    and limit_push: "limit (push x s) = limit s"
    and pushed_push: "length (contents s) \<le> limit s \<Longrightarrow> pushed (push x s) = Suc (pushed s)"
begin

lemma limit_fold [simp]: "limit (fold push xs s) = limit s"
  by (induction xs arbitrary: s) (simp_all add: limit_push)

lemma contents_fold:
  assumes "length (contents s) \<le> limit s"
  shows "contents (fold push xs s) = last_n (limit s) (contents s @ xs)"
proof (induction xs rule: rev_induct)
  case Nil
  with assms show ?case by (simp add: last_n_all)
next
  case (snoc x xs)
  then show ?case by (simp add: contents_push last_n_snoc)
qed

lemma bounded: "length (contents s) \<le> limit s \<Longrightarrow> length (contents (fold push xs s)) \<le> limit s"
  by (simp add: contents_fold)

lemma pushed_fold:
  assumes "length (contents s) \<le> limit s"
  shows "pushed (fold push xs s) = pushed s + length xs"
proof (induction xs rule: rev_induct)
  case (snoc x xs)
  then show ?case using bounded [OF assms, of xs] by (simp add: pushed_push)
qed simp

lemma latest_kept:
  "length (contents s) \<le> limit s \<Longrightarrow> 0 < limit s \<Longrightarrow> last (contents (push x (fold push xs s))) = x"
  by (simp add: contents_push last_n_last)

end

end
