(* ===== verification/Memory.thy ===== *)
theory Memory
  imports Window Encode "HOL-Library.Product_Lexorder"
begin

text \<open>
  The four memory layers of \<^verbatim>\<open>memory.go\<close>: evidence, the bounded working memory with its
  compressed history, the experience that counts decisions, and the bank of adaptations.
  The summarizer and the distiller are functions of the caller or the model; an error of
  theirs and an empty answer have the same effect.
\<close>

section \<open>Evidence and entries\<close>

record Evidence =
  ev_Basis :: string
  ev_Sources :: ctx
  ev_Confidence :: f64

definition NewEvidence :: "string \<Rightarrow> Evidence" where
  "NewEvidence basis = \<lparr>ev_Basis = basis, ev_Sources = [], ev_Confidence = f_of_int 1\<rparr>"

record MemoryEntry =
  me_IntentText :: string
  me_Decision :: goval
  me_Context :: ctx
  me_Evidence :: "Evidence option"
  me_Timestamp :: gotime

definition Render_entry :: "MemoryEntry \<Rightarrow> string" where
  "Render_entry m =
     ''- ('' @ format_date (me_Timestamp m) @ '' '' @ format_minute (me_Timestamp m) @ '') '' @
     [CHR 0x27] @ me_IntentText m @ [CHR 0x27] @ '' -> '' @ Sprint (me_Decision m) @
     (case me_Evidence m of Some e \<Rightarrow> '' ['' @ ev_Basis e @ '']'' | None \<Rightarrow> [])"

section \<open>Memory\<close>

type_synonym summarizer = "string \<Rightarrow> string option"

record Memory =
  mm_Capacity :: int
  mm_Working :: "MemoryEntry list"
  mm_Compressed :: "string list"
  mm_Summarizer :: "summarizer option"

definition NewMemory :: Memory where
  "NewMemory = \<lparr>mm_Capacity = 20, mm_Working = [], mm_Compressed = [], mm_Summarizer = None\<rparr>"

definition model_text :: "summarizer option \<Rightarrow> string \<Rightarrow> string option" where
  \<comment> \<open>what a model wrote, unless it failed or wrote nothing\<close>
  "model_text f input =
     (case f of
        None \<Rightarrow> None
      | Some g \<Rightarrow> (case g input of Some s \<Rightarrow> if TrimSpace s \<noteq> [] then Some s else None | None \<Rightarrow> None))"

definition summarize :: "Memory \<Rightarrow> MemoryEntry list \<Rightarrow> string" where
  "summarize m overflow =
     (case model_text (mm_Summarizer m) (join_with [newline] (map Render_entry overflow)) of
        Some s \<Rightarrow> s
      | None \<Rightarrow>
          show_nat (length overflow) @ '' earlier cycles (e.g. '' @
          join_with '', '' (map (\<lambda>e. truncate_to 60 (Sprint (me_Decision e))) overflow) @ '')'')"

definition Compress :: "int \<Rightarrow> Memory \<Rightarrow> Memory" where
  "Compress keep m =
     (if int (length (mm_Working m)) \<le> keep then m
      else (let (overflow, working) =
                  (if keep \<le> 0 then (mm_Working m, [])
                   else (let cut = length (mm_Working m) - nat keep
                         in (take cut (mm_Working m), drop cut (mm_Working m))))
            in m\<lparr>mm_Working := working, mm_Compressed := mm_Compressed m @ [summarize m overflow]\<rparr>))"

definition push_entry :: "MemoryEntry \<Rightarrow> Memory \<Rightarrow> Memory" where
  "push_entry entry m =
     (let m1 = m\<lparr>mm_Working := mm_Working m @ [entry]\<rparr> in
      if mm_Capacity m1 < int (length (mm_Working m1)) then Compress (mm_Capacity m1) m1 else m1)"

definition Memory_Record ::
    "gotime \<Rightarrow> string \<Rightarrow> goval \<Rightarrow> ctx \<Rightarrow> Evidence option \<Rightarrow> Memory \<Rightarrow> MemoryEntry \<times> Memory" where
  "Memory_Record now intentText decision c evidence m =
     (let entry = \<lparr>me_IntentText = intentText, me_Decision = decision, me_Context = c,
                   me_Evidence = evidence, me_Timestamp = now\<rparr>
      in (entry, push_entry entry m))"

definition ContextWindow :: "Memory \<Rightarrow> string" where
  "ContextWindow m =
     join_with [newline, newline]
       ((if mm_Compressed m \<noteq> []
         then [''Earlier history (compressed):'' @ [newline] @ join_with [newline] (mm_Compressed m)] else []) @
        (if mm_Working m \<noteq> []
         then [''Recent history:'' @ [newline] @ join_with [newline] (map Render_entry (mm_Working m))] else []))"

definition Memory_Len :: "Memory \<Rightarrow> nat" where
  "Memory_Len m = length (mm_Working m) + length (mm_Compressed m)"

section \<open>Experience\<close>

record Experience =
  xp_Observations :: int
  xp_DecisionCounts :: "(string \<times> int) list"
  xp_EvidenceSeen :: "Evidence list"

definition NewExperience :: Experience where
  "NewExperience = \<lparr>xp_Observations = 0, xp_DecisionCounts = [], xp_EvidenceSeen = []\<rparr>"

definition count_of :: "Experience \<Rightarrow> string \<Rightarrow> int" where
  "count_of x k = (case map_of (xp_DecisionCounts x) k of Some n \<Rightarrow> n | None \<Rightarrow> 0)"

definition ObserveEntry :: "MemoryEntry \<Rightarrow> Experience \<Rightarrow> Experience" where
  "ObserveEntry entry x =
     (let key = Sprint (me_Decision entry) in
      x\<lparr>xp_DecisionCounts := map_put key (count_of x key + 1) (xp_DecisionCounts x),
        xp_Observations := xp_Observations x + 1,
        xp_EvidenceSeen := xp_EvidenceSeen x @ (case me_Evidence entry of Some e \<Rightarrow> [e] | None \<Rightarrow> [])\<rparr>)"

definition better :: "Experience \<Rightarrow> string \<Rightarrow> string \<times> int \<Rightarrow> string \<times> int" where
  "better x k best = (if snd best < count_of x k then (k, count_of x k) else best)"

definition MostCommonDecision :: "Experience \<Rightarrow> string \<times> int" where
  "MostCommonDecision x = fold (better x) (sorted_keys (xp_DecisionCounts x)) ([], 0)"

definition Experience_Summary :: "Experience \<Rightarrow> string" where
  "Experience_Summary x =
     (if length (xp_DecisionCounts x) = 0 then ''No observations yet.''
      else join_with [newline]
        (map (\<lambda>(d, c). ''- '' @ [CHR 0x27] @ d @ [CHR 0x27] @ '': '' @ show_int c @ ''/'' @
               show_int (xp_Observations x) @ '' cycles'')
          (sort_key (\<lambda>(d, c). (- c, d)) (xp_DecisionCounts x))))"

section \<open>Adaptations\<close>

record Adaptation =
  ad_Name :: string
  ad_Insight :: string
  ad_Confidence :: f64
  ad_EvidenceCount :: int

record AdaptationBank =
  bk_Impressions :: "Adaptation list"
  bk_Distiller :: "summarizer option"

definition NewAdaptationBank :: AdaptationBank where
  "NewAdaptationBank = \<lparr>bk_Impressions = [], bk_Distiller = None\<rparr>"

definition Bank_Add :: "Adaptation \<Rightarrow> AdaptationBank \<Rightarrow> AdaptationBank" where
  "Bank_Add a b = b\<lparr>bk_Impressions := bk_Impressions b @ [a]\<rparr>"

definition RelevantTo :: "AdaptationBank \<Rightarrow> string \<Rightarrow> Adaptation list" where
  "RelevantTo b intentText =
     (let words = intent_words intentText in
      if words = [] then bk_Impressions b
      else filter (\<lambda>a. list_ex (\<lambda>w. contains_str w (ToLower (ad_Insight a))) words) (bk_Impressions b))"

definition LearnFrom :: "Experience \<Rightarrow> AdaptationBank \<Rightarrow> Adaptation option \<times> AdaptationBank" where
  "LearnFrom x b =
     (if length (xp_DecisionCounts x) = 0 then (None, b)
      else
        (case (case model_text (bk_Distiller b) (Experience_Summary x) of
                 Some s \<Rightarrow> Some s
               | None \<Rightarrow>
                   (let (decision, count) = MostCommonDecision x in
                    if decision = [] \<and> count = 0 then None
                    else Some (''Most frequent outcome: '' @ [CHR 0x27] @ truncate_to 80 decision @ [CHR 0x27] @
                      '' ('' @ show_int count @ ''/'' @ show_int (xp_Observations x) @ '' cycles)''))) of
           None \<Rightarrow> (None, b)
         | Some insight \<Rightarrow>
             (let a = \<lparr>ad_Name = ''Learned-'' @ show_nat (length (bk_Impressions b) + 1), ad_Insight = insight,
                       ad_Confidence = f_of_int 1, ad_EvidenceCount = xp_Observations x\<rparr>
              in (Some a, Bank_Add a b))))"

section \<open>The working window\<close>

definition capacity :: "Memory \<Rightarrow> nat" where
  "capacity m = nat (mm_Capacity m)"

lemma push_entry_parts:
  "mm_Working (push_entry e m) = last_n (capacity m) (mm_Working m @ [e])"
  "length (mm_Compressed (push_entry e m)) =
     length (mm_Compressed m) + (if capacity m < length (mm_Working m) + 1 then 1 else 0)"
  "capacity (push_entry e m) = capacity m"
  by (auto simp: push_entry_def Compress_def Let_def capacity_def last_n_def not_le)

interpretation memory_window: bounded_window push_entry mm_Working capacity Memory_Len
  by unfold_locales (auto simp: push_entry_parts Memory_Len_def)

section \<open>Counting decisions\<close>

definition experience_inv :: "Experience \<Rightarrow> bool" where
  "experience_inv x \<longleftrightarrow>
     distinct (map fst (xp_DecisionCounts x)) \<and>
     sum_list (map snd (xp_DecisionCounts x)) = xp_Observations x"

lemma sum_map_put:
  fixes m :: "(string \<times> int) list"
  assumes "distinct (map fst m)"
  shows "sum_list (map snd (map_put k ((case map_of m k of Some n \<Rightarrow> n | None \<Rightarrow> 0) + 1) m)) =
    sum_list (map snd m) + 1"
  using assms unfolding map_put_def by (induction m) (auto split: option.splits)

lemma experience_inv_observe: "experience_inv x \<Longrightarrow> experience_inv (ObserveEntry e x)"
  by (simp add: experience_inv_def ObserveEntry_def Let_def count_of_def sum_map_put)

lemma count_of_observe:
  "count_of (ObserveEntry e x) d = count_of x d + (if Sprint (me_Decision e) = d then 1 else 0)"
  by (auto simp: count_of_def ObserveEntry_def Let_def)

lemma count_of_observes:
  "count_of (fold ObserveEntry es x) d =
     count_of x d + int (length (filter (\<lambda>e. Sprint (me_Decision e) = d) es))"
  by (induction es arbitrary: x) (simp_all add: count_of_observe)

lemma observations_observes: "xp_Observations (fold ObserveEntry es x) = xp_Observations x + int (length es)"
  by (induction es arbitrary: x) (simp_all add: ObserveEntry_def Let_def)

lemma better_fold:
  assumes "sorted ks" "r = fold (better x) ks b"
  shows "snd b \<le> snd r \<and> (snd r = snd b \<longrightarrow> r = b) \<and> (\<forall>k \<in> set ks. count_of x k \<le> snd r) \<and>
    (snd b < snd r \<longrightarrow> fst r \<in> set ks \<and> count_of x (fst r) = snd r \<and>
       (\<forall>k \<in> set ks. count_of x k = snd r \<longrightarrow> fst r \<le> k))"
  using assms
proof (induction ks arbitrary: b)
  case (Cons k ks)
  show ?case
  proof (cases "snd b < count_of x k")
    case True
    with Cons.IH [of "(k, count_of x k)"] Cons.prems show ?thesis by (force simp: better_def)
  next
    case False
    with Cons.IH [of b] Cons.prems show ?thesis by (auto simp: better_def)
  qed
qed simp

section \<open>Properties\<close>

text \<open>
  Whatever is recorded, the working memory holds the latest entries up to the capacity, in
  order, and the two layers together count every cycle ever recorded.
\<close>

theorem memory_keeps_latest:
  assumes "length (mm_Working m) \<le> capacity m"
  shows "mm_Working (fold push_entry es m) = last_n (capacity m) (mm_Working m @ es) \<and>
    Memory_Len (fold push_entry es m) = Memory_Len m + length es"
  using memory_window.contents_fold [OF assms] memory_window.pushed_fold [OF assms] by auto

text \<open>
  The experience of a sequence of cycles: each decision's count is how often it was made,
  the counts add up to the observations, and the most common decision is one whose count no
  other exceeds, the alphabetically first of them.
\<close>

theorem most_common_decision:
  assumes "x = fold ObserveEntry es NewExperience" "MostCommonDecision x = (d, n)" "es \<noteq> []"
  shows "n = int (length (filter (\<lambda>e. Sprint (me_Decision e) = d) es)) \<and> 0 < n \<and>
    (\<forall>e \<in> set es. int (length (filter (\<lambda>e'. Sprint (me_Decision e') = Sprint (me_Decision e)) es)) \<le> n) \<and>
    (\<forall>e \<in> set es. int (length (filter (\<lambda>e'. Sprint (me_Decision e') = Sprint (me_Decision e)) es)) = n \<longrightarrow>
        d \<le> Sprint (me_Decision e)) \<and>
    sum_list (map snd (xp_DecisionCounts x)) = int (length es)"
proof -
  have c: "count_of x k = int (length (filter (\<lambda>e. Sprint (me_Decision e) = k) es))" for k
    using count_of_observes [where d = k and es = es and x = NewExperience] assms(1) by (simp add: count_of_def NewExperience_def)
  have "experience_inv (fold ObserveEntry es y)" if "experience_inv y" for y
    using that by (induction es arbitrary: y) (simp_all add: experience_inv_observe)
  then have inv: "experience_inv x"
    using assms(1) by (simp add: experience_inv_def NewExperience_def)
  have obs: "xp_Observations x = int (length es)"
    using assms(1) observations_observes [where es = es and x = NewExperience] by (simp add: NewExperience_def)
  have keys: "Sprint (me_Decision e) \<in> set (sorted_keys (xp_DecisionCounts x))" if "e \<in> set es" for e
  proof -
    have "0 < count_of x (Sprint (me_Decision e))" using that by (auto simp: c length_greater_0_conv filter_empty_conv)
    then show ?thesis by (auto simp: count_of_def dom_def split: option.splits)
  qed
  let ?K = "set (sorted_keys (xp_DecisionCounts x))"
  have b: "\<forall>k \<in> ?K. count_of x k \<le> n"
    "0 < n \<longrightarrow> count_of x d = n \<and> (\<forall>k \<in> ?K. count_of x k = n \<longrightarrow> d \<le> k)"
    using better_fold [OF sorted_sorted_keys, of "(d, n)" x "xp_DecisionCounts x" "([], 0)"] assms(2)
    by (simp_all add: MostCommonDecision_def del: set_sorted_keys)
  obtain e where e: "e \<in> set es" using assms(3) by (cases es) auto
  then have "0 < count_of x (Sprint (me_Decision e))" by (auto simp: c length_greater_0_conv filter_empty_conv)
  with b(1) keys [OF e] have pos: "0 < n" by fastforce
  show ?thesis
    using b pos keys inv obs by (simp add: c experience_inv_def del: set_sorted_keys)
qed

definition sample_entry :: "string \<Rightarrow> MemoryEntry" where
  "sample_entry d = \<lparr>me_IntentText = [], me_Decision = VStr d, me_Context = [], me_Evidence = None, me_Timestamp = 0\<rparr>"

lemma most_common_decision_witness:
  "MostCommonDecision (fold ObserveEntry (map sample_entry [''no'', ''ok'', ''no'', ''ok'', ''wait'']) NewExperience) = (''no'', 2) \<and>
   (2::int) = int (length (filter (\<lambda>e. Sprint (me_Decision e) = ''no'') (map sample_entry [''no'', ''ok'', ''no'', ''ok'', ''wait''])))"
proof -
  let ?es = "map sample_entry [''no'', ''ok'', ''no'', ''ok'', ''wait'']"
  have m: "MostCommonDecision (fold ObserveEntry ?es NewExperience) = (''no'', 2)" by code_simp
  from most_common_decision [OF refl m] m show ?thesis by simp
qed

lemma memory_keeps_latest_witness:
  "mm_Working (fold push_entry (map sample_entry [''a'', ''b'', ''c'']) (NewMemory\<lparr>mm_Capacity := 2\<rparr>)) =
     map sample_entry [''b'', ''c''] \<and>
   Memory_Len (fold push_entry (map sample_entry [''a'', ''b'', ''c'']) (NewMemory\<lparr>mm_Capacity := 2\<rparr>)) = 3"
proof -
  define m where "m = NewMemory\<lparr>mm_Capacity := 2\<rparr>"
  define es where "es = map sample_entry [''a'', ''b'', ''c'']"
  have m: "mm_Working m = []" "capacity m = 2" "Memory_Len m = 0"
    by (simp_all add: m_def NewMemory_def capacity_def Memory_Len_def)
  have "last_n 2 es = map sample_entry [''b'', ''c'']" "length es = 3" by (simp_all add: es_def last_n_def)
  with m memory_keeps_latest [of m es] show ?thesis unfolding m_def es_def by simp
qed

end
