(* ===== verification/Concurrent.thy ===== *)
theory Concurrent
  imports Main
begin

text \<open>
  \<^verbatim>\<open>parallelMap\<close> of \<^verbatim>\<open>concurrent.go\<close>: a launcher that acquires the semaphore and starts one
  goroutine per item, and the goroutines, each of which computes its item, writes its own
  slot, releases the semaphore and finishes.  A step relation gives every interleaving;
  \<open>GOMAXPROCS\<close> is the bound \<open>limit\<close>.
\<close>

datatype phase =
    Waiting    \<comment> \<open>not launched yet\<close>
  | Acquired   \<comment> \<open>the launcher holds the item's slot of the semaphore; the go statement is next\<close>
  | Running    \<comment> \<open>launched; fn has not returned\<close>
  | Stored     \<comment> \<open>the result is in its slot; the deferred release is next\<close>
  | Released   \<comment> \<open>the semaphore is released; the deferred Done is next\<close>
  | Finished

record ('a, 'r) pmap =
  pm_phase :: "phase list"
  pm_results :: "'r option list"
  pm_next :: nat              \<comment> \<open>the index of the launching loop\<close>
  pm_sem :: nat               \<comment> \<open>how many values the semaphore's buffer holds\<close>
  pm_pending :: nat           \<comment> \<open>the counter of the wait group\<close>
  pm_returned :: bool

definition pm_start :: "'a list \<Rightarrow> ('a, 'r) pmap" where
  "pm_start items =
     \<lparr>pm_phase = replicate (length items) Waiting, pm_results = replicate (length items) None,
      pm_next = 0, pm_sem = 0, pm_pending = length items, pm_returned = False\<rparr>"

definition pm_limit :: "nat \<Rightarrow> 'a list \<Rightarrow> nat" where
  "pm_limit procs items = (if length items < procs then length items else procs)"

inductive pm_step :: "nat \<Rightarrow> ('a \<Rightarrow> 'r) \<Rightarrow> 'a list \<Rightarrow> ('a, 'r) pmap \<Rightarrow> ('a, 'r) pmap \<Rightarrow> bool"
  for limit fn items where
  acquire: "pm_next s < length items \<Longrightarrow> pm_phase s ! pm_next s = Waiting \<Longrightarrow> pm_sem s < limit \<Longrightarrow>
    pm_step limit fn items s (s\<lparr>pm_sem := pm_sem s + 1, pm_phase := (pm_phase s)[pm_next s := Acquired]\<rparr>)"
| launch: "pm_next s < length items \<Longrightarrow> pm_phase s ! pm_next s = Acquired \<Longrightarrow>
    pm_step limit fn items s
      (s\<lparr>pm_phase := (pm_phase s)[pm_next s := Running], pm_next := pm_next s + 1\<rparr>)"
| store: "i < length items \<Longrightarrow> pm_phase s ! i = Running \<Longrightarrow>
    pm_step limit fn items s
      (s\<lparr>pm_phase := (pm_phase s)[i := Stored], pm_results := (pm_results s)[i := Some (fn (items ! i))]\<rparr>)"
| release: "i < length items \<Longrightarrow> pm_phase s ! i = Stored \<Longrightarrow>
    pm_step limit fn items s (s\<lparr>pm_phase := (pm_phase s)[i := Released], pm_sem := pm_sem s - 1\<rparr>)"
| finish: "i < length items \<Longrightarrow> pm_phase s ! i = Released \<Longrightarrow>
    pm_step limit fn items s (s\<lparr>pm_phase := (pm_phase s)[i := Finished], pm_pending := pm_pending s - 1\<rparr>)"
| return: "pm_next s = length items \<Longrightarrow> pm_pending s = 0 \<Longrightarrow> \<not> pm_returned s \<Longrightarrow>
    pm_step limit fn items s (s\<lparr>pm_returned := True\<rparr>)"

inductive_cases pm_stepE: "pm_step limit fn items s t"

fun holds_slot :: "phase \<Rightarrow> bool" where
  "holds_slot Acquired = True" | "holds_slot Running = True" | "holds_slot Stored = True"
| "holds_slot _ = False"

fun remaining :: "phase \<Rightarrow> nat" where
  "remaining Waiting = 5" | "remaining Acquired = 4" | "remaining Running = 3"
| "remaining Stored = 2" | "remaining Released = 1" | "remaining Finished = 0"

definition pm_measure :: "('a, 'r) pmap \<Rightarrow> nat" where
  "pm_measure s = sum_list (map remaining (pm_phase s)) + (if pm_returned s then 0 else 1)"

definition count_phase :: "(phase \<Rightarrow> bool) \<Rightarrow> ('a, 'r) pmap \<Rightarrow> nat" where
  "count_phase P s = length (filter P (pm_phase s))"

definition pm_inv :: "nat \<Rightarrow> ('a \<Rightarrow> 'r) \<Rightarrow> 'a list \<Rightarrow> ('a, 'r) pmap \<Rightarrow> bool" where
  "pm_inv limit fn items s \<longleftrightarrow>
     length (pm_phase s) = length items \<and> length (pm_results s) = length items \<and>
     pm_next s \<le> length items \<and> pm_sem s = count_phase holds_slot s \<and> pm_sem s \<le> limit \<and>
     pm_pending s = count_phase (\<lambda>p. p \<noteq> Finished) s \<and>
     (\<forall>i < length items. pm_next s \<le> i \<longrightarrow> pm_phase s ! i = Waiting \<or> (i = pm_next s \<and> pm_phase s ! i = Acquired)) \<and>
     (\<forall>i < length items. i < pm_next s \<longrightarrow> pm_phase s ! i \<noteq> Waiting \<and> pm_phase s ! i \<noteq> Acquired) \<and>
     (\<forall>i < length items. pm_results s ! i =
        (if pm_phase s ! i \<in> {Stored, Released, Finished} then Some (fn (items ! i)) else None)) \<and>
     (pm_returned s \<longrightarrow> pm_pending s = 0)"

lemma count_update:
  assumes "i < length xs"
  shows "length (filter P (xs[i := y])) + (if P (xs ! i) then 1 else 0) =
    length (filter P xs) + (if P y then 1 else 0)"
  using assms
proof (induction xs arbitrary: i)
  case (Cons x xs)
  then show ?case by (cases i) auto
qed simp

lemma sum_update:
  "i < length xs \<Longrightarrow> sum_list (map remaining (xs[i := y])) + remaining (xs ! i) =
     sum_list (map remaining xs) + remaining y"
proof (induction xs arbitrary: i)
  case (Cons x xs)
  then show ?case by (cases i) auto
qed simp

lemma pm_inv_start: "pm_inv limit fn items (pm_start items)"
  by (auto simp: pm_inv_def pm_start_def count_phase_def)

definition set_phase :: "nat \<Rightarrow> phase \<Rightarrow> phase list \<Rightarrow> phase list" where
  "set_phase i p ps = ps[i := p]"

lemma filter_update:
  "i < length xs \<Longrightarrow> length (filter P (xs[i := y])) =
     (if P (xs ! i) then length (filter P xs) - 1 else length (filter P xs)) + (if P y then 1 else 0)"
  "i < length xs \<Longrightarrow> P (xs ! i) \<Longrightarrow> 0 < length (filter P xs)"
proof -
  show "i < length xs \<Longrightarrow> P (xs ! i) \<Longrightarrow> 0 < length (filter P xs)"
    by (auto simp: filter_empty_conv intro: nth_mem)
  then show "i < length xs \<Longrightarrow> length (filter P (xs[i := y])) =
     (if P (xs ! i) then length (filter P xs) - 1 else length (filter P xs)) + (if P y then 1 else 0)"
    using count_update [of i xs P y] by (auto split: if_splits)
qed

lemma pm_inv_step:
  assumes "pm_step limit fn items s t" "pm_inv limit fn items s"
  shows "pm_inv limit fn items t"
  using assms
proof (cases rule: pm_step.cases)
  case acquire
  with assms(2) show ?thesis
    using filter_update(2) [of "pm_next s" "pm_phase s" "\<lambda>p. p \<noteq> Finished"]
      filter_update(2) [of "pm_next s" "pm_phase s" holds_slot]
    by (auto simp: pm_inv_def count_phase_def filter_update nth_list_update simp flip: length_greater_0_conv)
next
  case launch
  with assms(2) show ?thesis
    using filter_update(2) [of "pm_next s" "pm_phase s" "\<lambda>p. p \<noteq> Finished"]
      filter_update(2) [of "pm_next s" "pm_phase s" holds_slot]
    by (auto simp: pm_inv_def count_phase_def filter_update nth_list_update simp flip: length_greater_0_conv)
next
  case (store i)
  then have "pm_next s \<le> i \<Longrightarrow> False" using assms(2) by (auto simp: pm_inv_def)
  with store assms(2) show ?thesis
    using filter_update(2) [of i "pm_phase s" "\<lambda>p. p \<noteq> Finished"]
      filter_update(2) [of i "pm_phase s" holds_slot]
    by (auto simp: pm_inv_def count_phase_def filter_update nth_list_update simp flip: length_greater_0_conv)
next
  case (release i)
  then have "pm_next s \<le> i \<Longrightarrow> False" using assms(2) by (auto simp: pm_inv_def)
  with release assms(2) show ?thesis
    using filter_update(2) [of i "pm_phase s" "\<lambda>p. p \<noteq> Finished"]
      filter_update(2) [of i "pm_phase s" holds_slot]
    by (auto simp: pm_inv_def count_phase_def filter_update nth_list_update simp flip: length_greater_0_conv)
next
  case (finish i)
  then have "pm_next s \<le> i \<Longrightarrow> False" using assms(2) by (auto simp: pm_inv_def)
  with finish assms(2) show ?thesis
    using filter_update(2) [of i "pm_phase s" "\<lambda>p. p \<noteq> Finished"]
      filter_update(2) [of i "pm_phase s" holds_slot]
    by (auto simp: pm_inv_def count_phase_def filter_update nth_list_update simp flip: length_greater_0_conv)
next
  case return
  with assms(2) show ?thesis by (auto simp: pm_inv_def count_phase_def)
qed

lemma pm_step_decreases:
  assumes "pm_step limit fn items s t" "pm_inv limit fn items s"
  shows "pm_measure t < pm_measure s"
  using assms
proof (cases rule: pm_step.cases)
  case acquire
  then show ?thesis
    using assms(2) sum_update [of "pm_next s" "pm_phase s" Acquired] by (simp add: pm_measure_def pm_inv_def)
next
  case launch
  then show ?thesis
    using assms(2) sum_update [of "pm_next s" "pm_phase s" Running] by (simp add: pm_measure_def pm_inv_def)
next
  case (store i)
  then show ?thesis
    using assms(2) sum_update [of i "pm_phase s" Stored] by (simp add: pm_measure_def pm_inv_def)
next
  case (release i)
  then show ?thesis
    using assms(2) sum_update [of i "pm_phase s" Released] by (simp add: pm_measure_def pm_inv_def)
next
  case (finish i)
  then show ?thesis
    using assms(2) sum_update [of i "pm_phase s" Finished] by (simp add: pm_measure_def pm_inv_def)
next
  case return
  then show ?thesis by (simp add: pm_measure_def)
qed

lemma pm_progress:
  assumes "pm_inv limit fn items s" "0 < limit" "\<not> pm_returned s"
  shows "\<exists>t. pm_step limit fn items s t"
proof (cases "\<exists>i < length items. pm_phase s ! i \<in> {Running, Stored, Released}")
  case True
  then show ?thesis by (blast intro: pm_step.intros)
next
  case False
  show ?thesis
  proof (cases "pm_next s < length items")
    case True
    with assms(1) consider "pm_phase s ! pm_next s = Waiting" | "pm_phase s ! pm_next s = Acquired"
      by (auto simp: pm_inv_def)
    then show ?thesis
    proof cases
      case 1
      have "\<not> holds_slot (pm_phase s ! i)" if "i < length items" for i
        using that False assms(1) 1 unfolding pm_inv_def
        by (cases "pm_phase s ! i"; cases "pm_next s \<le> i") auto
      then have "pm_sem s = 0"
        using assms(1) by (auto simp: pm_inv_def count_phase_def in_set_conv_nth filter_empty_conv)
      with 1 True assms(2) show ?thesis by (metis pm_step.acquire)
    next
      case 2
      with True show ?thesis by (blast intro: pm_step.launch)
    qed
  next
    case nf: False
    with assms(1) have n: "pm_next s = length items" by (simp add: pm_inv_def)
    have "pm_phase s ! i = Finished" if "i < length items" for i
      using that False assms(1) n unfolding pm_inv_def by (cases "pm_phase s ! i") auto
    then have "pm_pending s = 0"
      using assms(1) by (auto simp: pm_inv_def count_phase_def in_set_conv_nth filter_empty_conv)
    with n assms(3) show ?thesis by (blast intro: pm_step.return)
  qed
qed

lemma pm_reachable_inv:
  "(pm_step limit fn items)\<^sup>*\<^sup>* (pm_start items) s \<Longrightarrow> pm_inv limit fn items s"
  by (induction rule: rtranclp_induct) (simp_all add: pm_inv_start pm_inv_step)

definition parallelMap :: "('a \<Rightarrow> 'r) \<Rightarrow> 'a list \<Rightarrow> 'r list" where
  \<comment> \<open>what every schedule returns; the single item runs inline\<close>
  "parallelMap fn items = map fn items"

section \<open>Properties\<close>

text \<open>
  Under every interleaving of the launcher and the goroutines, at most \<open>limit\<close> calls of fn are
  in flight; a state that has not returned can step, and every step decreases a measure, so
  every schedule ends; and what has returned holds fn of each item in the order of the items.
\<close>

theorem parallelMap_any_schedule:
  assumes "(pm_step (pm_limit procs items) fn items)\<^sup>*\<^sup>* (pm_start items) s" "0 < procs" "items \<noteq> []"
  shows "count_phase holds_slot s \<le> procs \<and>
    (pm_returned s \<longrightarrow> pm_results s = map Some (parallelMap fn items)) \<and>
    (\<not> pm_returned s \<longrightarrow> (\<exists>t. pm_step (pm_limit procs items) fn items s t)) \<and>
    (\<forall>t. pm_step (pm_limit procs items) fn items s t \<longrightarrow> pm_measure t < pm_measure s)"
proof -
  have inv: "pm_inv (pm_limit procs items) fn items s" using assms(1) by (rule pm_reachable_inv)
  have "pm_limit procs items \<le> procs" "0 < pm_limit procs items"
    using assms(2,3) by (auto simp: pm_limit_def)
  moreover have "pm_results s = map Some (map fn items)" if "pm_returned s"
  proof (rule nth_equalityI)
    show "length (pm_results s) = length (map Some (map fn items))" using inv by (simp add: pm_inv_def)
    have "pm_pending s = 0" using inv that by (simp add: pm_inv_def)
    then have "pm_phase s ! i = Finished" if "i < length items" for i
      using inv that nth_mem [of i "pm_phase s"] by (auto simp: pm_inv_def count_phase_def filter_empty_conv)
    then show "pm_results s ! i = map Some (map fn items) ! i" if "i < length (pm_results s)" for i
      using inv that by (auto simp: pm_inv_def)
  qed
  ultimately show ?thesis
    using inv pm_progress [OF inv] pm_step_decreases [OF _ inv] by (auto simp: pm_inv_def parallelMap_def)
qed

lemma parallelMap_any_schedule_witness:
  "let s = (pm_start [1, 2, 3 :: nat] :: (nat, nat) pmap)\<lparr>pm_sem := 1, pm_phase := [Acquired, Waiting, Waiting]\<rparr> in
     (pm_step 2 Suc [1, 2, 3])\<^sup>*\<^sup>* (pm_start [1, 2, 3 :: nat]) s \<and> count_phase holds_slot s = 1 \<and> count_phase holds_slot s \<le> 2"
proof -
  let ?i = "[1, 2, 3 :: nat]"
  let ?s = "(pm_start ?i :: (nat, nat) pmap)\<lparr>pm_sem := 1, pm_phase := [Acquired, Waiting, Waiting]\<rparr>"
  have "pm_step 2 Suc ?i (pm_start ?i) ((pm_start ?i)\<lparr>pm_sem := pm_sem (pm_start ?i :: (nat, nat) pmap) + 1,
      pm_phase := (pm_phase (pm_start ?i :: (nat, nat) pmap))[pm_next (pm_start ?i :: (nat, nat) pmap) := Acquired]\<rparr>)"
    by (rule pm_step.acquire) (simp_all add: pm_start_def eval_nat_numeral)
  then have step: "pm_step 2 Suc ?i (pm_start ?i) ?s" by (simp add: pm_start_def eval_nat_numeral)
  then have "(pm_step (pm_limit 2 ?i) Suc ?i)\<^sup>*\<^sup>* (pm_start ?i) ?s" by (simp add: pm_limit_def r_into_rtranclp)
  from parallelMap_any_schedule [OF this] step show ?thesis
    by (simp add: Let_def count_phase_def r_into_rtranclp)
qed

end
