(* ===== verification/Budget.thy ===== *)
theory Budget
  imports AuditLog
begin

text \<open>
  The budget monitor of \<^verbatim>\<open>budget.go\<close>: cumulative spend against a cap, alerting when a
  threshold is first crossed.  \<open>OnAlert\<close>, the caller's function, is the list of the alerts
  delivered; the field \<open>fired\<close> is the set of the thresholds that have fired.
\<close>

record BudgetAlert =
  ba_Threshold :: f64
  ba_Spent :: f64
  ba_Budget :: f64
  ba_Fraction :: f64

definition alert_text :: "BudgetAlert \<Rightarrow> string" where
  "alert_text a =
     ''budget alert: '' @ format_f 0 (fmul (ba_Threshold a) (f_of_int 100)) @ ''% reached (~$'' @
     format_f 6 (ba_Spent a) @ '' of $'' @ format_f 2 (ba_Budget a) @ '', '' @
     format_f 1 (fmul (ba_Fraction a) (f_of_int 100)) @ ''% spent)''"

record BudgetMonitor =
  bm_Budget :: f64
  bm_Thresholds :: "f64 list"
  bm_spent :: f64
  bm_fired :: "f64 list"
  bm_alerts :: "BudgetAlert list"

fun insert_f :: "f64 \<Rightarrow> f64 list \<Rightarrow> f64 list" where
  "insert_f x [] = [x]"
| "insert_f x (y # ys) = (if flt y x then y # insert_f x ys else x # y # ys)"

definition sort_f :: "f64 list \<Rightarrow> f64 list" where
  \<comment> \<open>sort.Float64s on numbers\<close>
  "sort_f xs = foldr insert_f xs []"

fun dedup_thresholds :: "f64 list \<Rightarrow> f64 list \<Rightarrow> f64 list" where
  \<comment> \<open>the map \<open>seen\<close> compares keys as the language compares floats\<close>
  "dedup_thresholds seen [] = []"
| "dedup_thresholds seen (t # ts) =
     (if flt fzero t \<and> \<not> list_ex (feq t) seen then t # dedup_thresholds (t # seen) ts
      else dedup_thresholds seen ts)"

definition NewBudgetMonitor :: "f64 \<Rightarrow> f64 list \<Rightarrow> BudgetMonitor" where
  "NewBudgetMonitor budget thresholds =
     \<lparr>bm_Budget = budget, bm_Thresholds = sort_f (dedup_thresholds [] thresholds), bm_spent = fzero,
      bm_fired = [], bm_alerts = []\<rparr>"

fun cross :: "f64 \<Rightarrow> f64 \<Rightarrow> f64 \<Rightarrow> f64 list \<Rightarrow> f64 list \<Rightarrow> f64 list \<times> BudgetAlert list" where
  \<comment> \<open>the loop over the thresholds: what has fired, and the new alerts\<close>
  "cross spent budget fraction fired [] = (fired, [])"
| "cross spent budget fraction fired (t # ts) =
     (if \<not> list_ex (feq t) fired \<and> fle t fraction then
        (let (fired', alerts) = cross spent budget fraction (fired @ [t]) ts
         in (fired', \<lparr>ba_Threshold = t, ba_Spent = spent, ba_Budget = budget, ba_Fraction = fraction\<rparr> # alerts))
      else cross spent budget fraction fired ts)"

definition Budget_Add :: "f64 \<Rightarrow> BudgetMonitor \<Rightarrow> BudgetMonitor \<times> BudgetAlert list" where
  "Budget_Add cost b =
     (let spent = fadd (bm_spent b) cost in
      if flt fzero (bm_Budget b) then
        (let (fired, alerts) = cross spent (bm_Budget b) (fdiv spent (bm_Budget b)) (bm_fired b) (bm_Thresholds b)
         in (b\<lparr>bm_spent := spent, bm_fired := fired, bm_alerts := bm_alerts b @ alerts\<rparr>, alerts))
      else (b\<lparr>bm_spent := spent\<rparr>, []))"

definition deliver_alerts :: "(ReasoningLog \<Rightarrow> gotime) \<Rightarrow> BudgetAlert list \<Rightarrow> ReasoningLog \<Rightarrow> ReasoningLog" where
  \<comment> \<open>the alerts on the audit trail, where one is wired\<close>
  "deliver_alerts clk alerts l = fold (\<lambda>a l. Log_Record (clk l) (record_of ''budget'' [] (alert_text a)) l) alerts l"

definition Spent :: "BudgetMonitor \<Rightarrow> f64" where
  "Spent b = bm_spent b"

section \<open>Firing once, in order\<close>

definition ascending :: "f64 list \<Rightarrow> bool" where
  "ascending ts \<longleftrightarrow> sorted_wrt flt ts \<and> (\<forall>t \<in> set ts. flt fzero t)"

lemma positive_number: "flt fzero t \<Longrightarrow> t \<noteq> FNaN"
  by auto

lemma dedup_thresholds_props:
  "(\<forall>t \<in> set (dedup_thresholds seen ts). flt fzero t \<and> \<not> list_ex (feq t) seen) \<and>
   sorted_wrt (\<lambda>x y. \<not> feq x y) (dedup_thresholds seen ts)"
proof (induction ts arbitrary: seen)
  case (Cons t ts)
  then show ?case by (auto simp: list_ex_iff dest: feq_sym)
qed simp

lemma set_insert_f [simp]: "set (insert_f x ys) = insert x (set ys)"
  by (induction ys) auto

lemma set_sort_f [simp]: "set (sort_f xs) = set xs"
  by (induction xs) (simp_all add: sort_f_def)

lemma insert_f_ascending:
  assumes "sorted_wrt flt ys" "x \<noteq> FNaN" "\<forall>y \<in> set ys. y \<noteq> FNaN \<and> \<not> feq x y"
  shows "sorted_wrt flt (insert_f x ys)"
  using assms
proof (induction ys)
  case (Cons y ys)
  show ?case
  proof (cases "flt y x")
    case True
    with Cons show ?thesis by auto
  next
    case False
    with Cons.prems have "flt x y" using flt_total [of x y] by auto
    with False Cons.prems show ?thesis by (auto intro: flt_trans)
  qed
qed simp

lemma sort_f_ascending:
  "sorted_wrt (\<lambda>x y. \<not> feq x y) xs \<Longrightarrow> \<forall>x \<in> set xs. flt fzero x \<Longrightarrow> ascending (sort_f xs)"
proof (induction xs)
  case (Cons x xs)
  then have "sorted_wrt flt (sort_f xs)" by (simp add: ascending_def)
  then have "sorted_wrt flt (insert_f x (sort_f xs))"
    by (rule insert_f_ascending) (use Cons.prems positive_number in auto)
  moreover have "sort_f (x # xs) = insert_f x (sort_f xs)" by (simp add: sort_f_def)
  ultimately show ?case using Cons.prems by (auto simp: ascending_def)
qed (simp add: ascending_def sort_f_def)

lemma NewBudgetMonitor_ascending: "ascending (bm_Thresholds (NewBudgetMonitor b ts))"
  using dedup_thresholds_props [of "[]" ts] by (auto simp: NewBudgetMonitor_def intro!: sort_f_ascending)

definition alert_at :: "f64 \<Rightarrow> f64 \<Rightarrow> f64 \<Rightarrow> f64 \<Rightarrow> BudgetAlert" where
  "alert_at spent budget fraction t =
     \<lparr>ba_Threshold = t, ba_Spent = spent, ba_Budget = budget, ba_Fraction = fraction\<rparr>"

lemma cross_append:
  "cross spent budget fr fired (as @ bs) =
     (let (f1, a1) = cross spent budget fr fired as; (f2, a2) = cross spent budget fr f1 bs
      in (f2, a1 @ a2))"
  by (induction spent budget fr fired as rule: cross.induct) (auto split: prod.split)

lemma cross_fired:
  "\<forall>t \<in> set ts. list_ex (feq t) fired \<Longrightarrow> cross spent budget fr fired ts = (fired, [])"
  by (induction ts) auto

lemma cross_fresh:
  assumes "sorted_wrt flt ts" "\<forall>t \<in> set ts. \<not> list_ex (feq t) fired"
  shows "cross spent budget fr fired ts =
    (fired @ takeWhile (\<lambda>t. fle t fr) ts, map (alert_at spent budget fr) (takeWhile (\<lambda>t. fle t fr) ts))"
  using assms
proof (induction ts arbitrary: fired)
  case (Cons t ts)
  show ?case
  proof (cases "fle t fr")
    case True
    have "\<not> feq u t" if "u \<in> set ts" for u
      using Cons.prems(1) that flt_not_feq [of t u] feq_sym [of u t] by auto
    with True Cons.IH [of "fired @ [t]"] Cons.prems show ?thesis by (simp add: alert_at_def)
  next
    case False
    have none: "\<not> fle u fr" if "u \<in> set ts" for u
    proof
      assume "fle u fr"
      moreover have "fle t u" using Cons.prems(1) that by (simp add: fle_def)
      ultimately show False using False fle_trans by blast
    qed
    have "cross spent budget fr fired us = (fired, [])" if "\<forall>u \<in> set us. \<not> fle u fr" for us
      using that by (induction us) auto
    with False none show ?thesis by simp
  qed
qed simp

definition budget_inv :: "BudgetMonitor \<Rightarrow> bool" where
  "budget_inv b \<longleftrightarrow>
     ascending (bm_Thresholds b) \<and>
     (\<exists>k. bm_fired b = take k (bm_Thresholds b)) \<and>
     map ba_Threshold (bm_alerts b) = bm_fired b"

lemma cross_prefix:
  assumes "ascending ts" "fired = take k ts"
  shows "cross spent budget fr fired ts =
    (fired @ takeWhile (\<lambda>t. fle t fr) (drop k ts),
     map (alert_at spent budget fr) (takeWhile (\<lambda>t. fle t fr) (drop k ts)))"
proof -
  have "sorted_wrt flt (take k ts @ drop k ts)" using assms(1) by (simp add: ascending_def)
  then have s: "sorted_wrt flt (drop k ts)" "\<forall>t \<in> set (take k ts). \<forall>u \<in> set (drop k ts). flt t u"
    unfolding sorted_wrt_append by blast+
  have "t \<noteq> FNaN" if "t \<in> set (take k ts)" for t
    using assms(1) that positive_number in_set_takeD [of t k ts] by (auto simp: ascending_def)
  then have "\<forall>t \<in> set (take k ts). list_ex (feq t) fired"
    using assms(2) by (auto simp: list_ex_iff intro: feq_refl)
  then have 1: "cross spent budget fr fired (take k ts) = (fired, [])" by (rule cross_fired)
  have "\<forall>t \<in> set (drop k ts). \<not> list_ex (feq t) fired"
    using s(2) assms(2) flt_not_feq feq_sym by (fastforce simp: list_ex_iff)
  from cross_fresh [OF s(1) this] 1 show ?thesis
    using cross_append [of spent budget fr fired "take k ts" "drop k ts"] by simp
qed

lemma take_takeWhile: "take k xs @ takeWhile P (drop k xs) = take (length (take k xs @ takeWhile P (drop k xs))) xs"
proof -
  have "xs = take k xs @ takeWhile P (drop k xs) @ dropWhile P (drop k xs)" by simp
  then show ?thesis by (metis append_assoc append_eq_conv_conj)
qed

lemma Budget_Add_inv:
  assumes "budget_inv b" shows "budget_inv (fst (Budget_Add c b))"
proof (cases "flt fzero (bm_Budget b)")
  case True
  from assms obtain k where a: "ascending (bm_Thresholds b)"
    "bm_fired b = take k (bm_Thresholds b)" "map ba_Threshold (bm_alerts b) = bm_fired b"
    by (auto simp: budget_inv_def)
  define spent where "spent = fadd (bm_spent b) c"
  define fr where "fr = fdiv spent (bm_Budget b)"
  define new where "new = takeWhile (\<lambda>t. fle t fr) (drop k (bm_Thresholds b))"
  have "Budget_Add c b = (b\<lparr>bm_spent := spent, bm_fired := bm_fired b @ new,
      bm_alerts := bm_alerts b @ map (alert_at spent (bm_Budget b) fr) new\<rparr>,
      map (alert_at spent (bm_Budget b) fr) new)"
    using True cross_prefix [OF a(1,2)] by (simp add: Budget_Add_def Let_def spent_def fr_def new_def)
  moreover have "map ba_Threshold (map (alert_at spent (bm_Budget b) fr) new) = new"
    by (simp add: alert_at_def comp_def)
  moreover have "\<exists>n. bm_fired b @ new = take n (bm_Thresholds b)"
    using take_takeWhile [of k "bm_Thresholds b" "\<lambda>t. fle t fr"] a(2) unfolding new_def by metis
  ultimately show ?thesis using a by (simp add: budget_inv_def)
next
  case False
  with assms show ?thesis by (simp add: Budget_Add_def Let_def budget_inv_def)
qed

lemma Budget_Add_thresholds: "bm_Thresholds (fst (Budget_Add c b)) = bm_Thresholds b"
  by (simp add: Budget_Add_def Let_def split: prod.split)

definition spend :: "f64 list \<Rightarrow> BudgetMonitor \<Rightarrow> BudgetMonitor" where
  "spend costs b = fold (\<lambda>c b. fst (Budget_Add c b)) costs b"

lemma spend_inv: "budget_inv b \<Longrightarrow> budget_inv (spend costs b) \<and> bm_Thresholds (spend costs b) = bm_Thresholds b"
  by (induction costs arbitrary: b) (simp_all add: spend_def Budget_Add_inv Budget_Add_thresholds)

lemma ascending_prefix_reached:
  "u \<in> set us \<Longrightarrow> fle u fr \<Longrightarrow> sorted_wrt flt us \<Longrightarrow> u \<in> set (takeWhile (\<lambda>t. fle t fr) us)"
proof (induction us)
  case (Cons a us)
  have "fle a fr"
  proof (cases "u = a")
    case False
    with Cons.prems have "flt a u" by auto
    then have "fle a u" by (simp add: fle_def)
    then show ?thesis using Cons.prems(2) by (rule fle_trans)
  qed (use Cons.prems in simp)
  then show ?case using Cons by auto
qed simp

section \<open>Properties\<close>

text \<open>
  However the spend arrives -- any costs in any order -- the alerts delivered over the life
  of a monitor are for the first k of its thresholds, each once, in strictly ascending order.
\<close>

theorem budget_alerts_once_ascending:
  "\<exists>k. map ba_Threshold (bm_alerts (spend costs (NewBudgetMonitor budget thresholds))) =
        take k (bm_Thresholds (NewBudgetMonitor budget thresholds)) \<and>
     sorted_wrt flt (map ba_Threshold (bm_alerts (spend costs (NewBudgetMonitor budget thresholds))))"
proof -
  let ?b = "NewBudgetMonitor budget thresholds"
  have "budget_inv ?b"
    using NewBudgetMonitor_ascending by (simp add: budget_inv_def) (simp add: NewBudgetMonitor_def)
  then have "budget_inv (spend costs ?b)" "bm_Thresholds (spend costs ?b) = bm_Thresholds ?b"
    by (simp_all add: spend_inv)
  moreover have "sorted_wrt flt (take k (bm_Thresholds ?b))" for k
    using NewBudgetMonitor_ascending [of budget thresholds] by (simp add: ascending_def sorted_wrt_take)
  ultimately show ?thesis by (auto simp: budget_inv_def)
qed

text \<open>
  No threshold is skipped: after a spend on a positive budget, every threshold not above
  the fraction spent has fired.
\<close>

theorem budget_fires_reached:
  assumes "flt fzero budget" "b = spend (costs @ [c]) (NewBudgetMonitor budget thresholds)"
    "t \<in> set (bm_Thresholds b)" "fle t (fdiv (bm_spent b) budget)"
  shows "t \<in> ba_Threshold ` set (bm_alerts b)"
proof -
  let ?b0 = "spend costs (NewBudgetMonitor budget thresholds)"
  have "budget_inv (NewBudgetMonitor budget thresholds)"
    using NewBudgetMonitor_ascending by (simp add: budget_inv_def) (simp add: NewBudgetMonitor_def)
  then have inv: "budget_inv ?b0" by (simp add: spend_inv)
  then obtain k where a: "ascending (bm_Thresholds ?b0)" "bm_fired ?b0 = take k (bm_Thresholds ?b0)"
    by (auto simp: budget_inv_def)
  have bud: "bm_Budget ?b0 = budget"
  proof -
    have "bm_Budget (spend cs d) = bm_Budget d" for cs d
      by (induction cs arbitrary: d) (simp_all add: spend_def Budget_Add_def Let_def split: prod.splits)
    then show ?thesis by (simp add: NewBudgetMonitor_def)
  qed
  have b: "b = fst (Budget_Add c ?b0)" using assms(2) by (simp add: spend_def)
  define fr where "fr = fdiv (fadd (bm_spent ?b0) c) budget"
  have fired: "bm_fired b = take k (bm_Thresholds ?b0) @ takeWhile (\<lambda>t. fle t fr) (drop k (bm_Thresholds ?b0))"
    and sp: "bm_spent b = fadd (bm_spent ?b0) c"
    using b assms(1) bud cross_prefix [OF a] a(2) by (simp_all add: Budget_Add_def Let_def fr_def)
  have "budget_inv b" using Budget_Add_inv [OF inv] b by simp
  then have "ba_Threshold ` set (bm_alerts b) = set (bm_fired b)"
    by (simp add: budget_inv_def flip: set_map)
  moreover have "t \<in> set (bm_fired b)"
  proof -
    have "t \<in> set (take k (bm_Thresholds ?b0)) \<or> t \<in> set (drop k (bm_Thresholds ?b0))"
      using assms(3) b by (metis Budget_Add_thresholds Un_iff append_take_drop_id set_append)
    moreover have "u \<in> set (takeWhile (\<lambda>t. fle t fr) us)" if "u \<in> set us" "fle u fr" "sorted_wrt flt us" for u us
      using that by (rule ascending_prefix_reached)
    moreover have "sorted_wrt flt (drop k (bm_Thresholds ?b0))"
      using a(1) by (simp add: ascending_def sorted_wrt_drop)
    ultimately show ?thesis using fired assms(4) sp by (auto simp: fr_def)
  qed
  ultimately show ?thesis by simp
qed

lemma budget_fires_reached_witness:
  "let b = spend [FInf False] (NewBudgetMonitor (f_of_int 4) [f_of_int 3, f_of_int 1])
   in f_of_int 1 \<in> ba_Threshold ` set (bm_alerts b)"
  unfolding Let_def
  by (rule budget_fires_reached [where costs = "[]" and c = "FInf False" and budget = "f_of_int 4"
        and thresholds = "[f_of_int 3, f_of_int 1]"])
    (simp_all add: spend_def NewBudgetMonitor_def Budget_Add_def sort_f_def Let_def float_eval)

end
