(* ===== verification/Judgment.thy ===== *)
theory Judgment
  imports Stack
begin

text \<open>
  The structured-prompting engine: \<^verbatim>\<open>judgment.go\<close> (rendering a reasoning task to a prompt and
  reading the reply back), the typed signatures of \<^verbatim>\<open>signature.go\<close> and the contract tasks of
  \<^verbatim>\<open>contract.go\<close>.  A model is a function of the attempts made so far and of the prompt, the
  system text and the cache prefix; its call history is part of the state, as in \<^verbatim>\<open>lm.go\<close>.
  The struct types the signatures reflect on are lists of field names, tags and types.
\<close>

section \<open>Fields\<close>

datatype Kind = KindNone | KindText | KindStr | KindBool | KindList | KindMap

definition guidance_of :: "Kind \<Rightarrow> string" where
  \<comment> \<open>the map kindGuidance; a kind it lacks gives the empty string\<close>
  "guidance_of k =
     (case k of
        KindNone \<Rightarrow> []
      | KindText \<Rightarrow> ''the full text of the answer, as prose''
      | KindStr \<Rightarrow> ''a short one-line value''
      | KindBool \<Rightarrow> ''answer with a single word: yes or no''
      | KindList \<Rightarrow> ''one item per line, each line beginning with '' @ [CHR 0x27] @ ''- '' @ [CHR 0x27]
      | KindMap \<Rightarrow>
          ''one '' @ [CHR 0x27] @ ''- name: value'' @ [CHR 0x27] @ '' bullet per short argument; for a value that needs more than one line, '' @
          ''write '' @ [CHR 0x27] @ ''name:'' @ [CHR 0x27] @ '' alone on its line followed by the value as a blockquote -- every line, including a '' @
          ''blank one, starting with '' @ [CHR 0x27] @ ''> '' @ [CHR 0x27] @ '' (a lone '' @ [CHR 0x27] @ ''>'' @ [CHR 0x27] @ '' for a blank line)'')"

record JField =
  fl_Name :: string
  fl_Desc :: string
  fl_Kind :: Kind

definition NewField :: "string \<Rightarrow> string \<Rightarrow> JField" where
  "NewField name desc = \<lparr>fl_Name = name, fl_Desc = desc, fl_Kind = KindText\<rparr>"

definition heading_text :: "string \<Rightarrow> string" where
  \<comment> \<open>strings.ReplaceAll of the underscore by a space\<close>
  "heading_text s = map (\<lambda>c. if c = CHR ''_'' then CHR '' '' else c) s"

definition heading :: "JField \<Rightarrow> string" where
  "heading f = heading_text (fl_Name f)"

record Judgment =
  jd_Instruction :: string
  jd_Inputs :: "JField list"
  jd_Outputs :: "JField list"
  jd_Demos :: "ctx list"
  jd_CacheBoundary :: string

section \<open>Rendering\<close>

fun renderValue :: "goval \<Rightarrow> string" where
  "renderValue VNil = []"
| "renderValue (VStr s) = s"
| "renderValue (VMap m) =
     join_with [newline]
       (map (\<lambda>k. ''- '' @ k @ '': '' @ Sprint (the (map_of m k))) (sorted_keys m))"
| "renderValue v = Sprint v"

definition value_of :: "ctx \<Rightarrow> string \<Rightarrow> goval" where
  \<comment> \<open>indexing a Go map: the zero value where the key is missing\<close>
  "value_of values name = (case map_of values name of Some v \<Rightarrow> v | None \<Rightarrow> VNil)"

definition demo_lines :: "Judgment \<Rightarrow> nat \<times> ctx \<Rightarrow> string list" where
  "demo_lines j nd =
     [''Worked example '' @ show_nat (fst nd + 1) @ '':'', []] @
     concat (map (\<lambda>spec. case map_of (snd nd) (fl_Name spec) of
                Some v \<Rightarrow> [''## '' @ heading spec, [], TrimSpace (renderValue v), []]
              | None \<Rightarrow> []) (jd_Inputs j @ jd_Outputs j))"

definition ordered_inputs :: "Judgment \<Rightarrow> JField list" where
  "ordered_inputs j =
     (if jd_CacheBoundary j \<noteq> [] then
        filter (\<lambda>s. fl_Name s \<noteq> jd_CacheBoundary j) (jd_Inputs j) @
        filter (\<lambda>s. fl_Name s = jd_CacheBoundary j) (jd_Inputs j)
      else jd_Inputs j)"

definition head_lines :: "Judgment \<Rightarrow> string list" where
  "head_lines j =
     [jd_Instruction j, []] @ concat (map (demo_lines j) (enumerate 0 (jd_Demos j))) @
     (if 0 < length (jd_Demos j) then [''Now the task at hand:'', []] else [])"

definition input_step :: "Judgment \<Rightarrow> ctx \<Rightarrow> JField \<Rightarrow> string list \<times> string \<Rightarrow> string list \<times> string" where
  \<comment> \<open>the body of the loop over the ordered inputs: the lines so far and the cache prefix\<close>
  "input_step j values spec acc =
     (let lines = fst acc @ [''## '' @ heading spec, []];
          prefix = (if jd_CacheBoundary j \<noteq> [] \<and> fl_Name spec = jd_CacheBoundary j \<and> snd acc = []
                    then join_with [newline] lines else snd acc)
      in (lines @ [TrimSpace (renderValue (value_of values (fl_Name spec))), []], prefix))"

definition output_lines :: "JField \<Rightarrow> string list" where
  "output_lines spec =
     (let guidance = (if guidance_of (fl_Kind spec) = [] then guidance_of KindText else guidance_of (fl_Kind spec));
          detail = (if fl_Desc spec \<noteq> [] then fl_Desc spec @ '' -- '' @ guidance else guidance)
      in [''## '' @ heading spec, ''('' @ detail @ '')'', []])"

definition tail_lines :: "Judgment \<Rightarrow> string list" where
  "tail_lines j =
     [''Respond using exactly the following markdown sections, each a level-2 heading (`## Name`) '' @
      ''followed by its value. Add nothing outside these sections:'', []] @
     concat (map output_lines (jd_Outputs j))"

definition render :: "Judgment \<Rightarrow> ctx \<Rightarrow> string \<times> string" where
  "render j values =
     (let (lines, prefix) = fold (input_step j values) (ordered_inputs j) (head_lines j, [])
      in (join_with [newline] (lines @ tail_lines j), prefix))"

definition RenderPrompt :: "Judgment \<Rightarrow> ctx \<Rightarrow> string" where
  "RenderPrompt j values = fst (render j values)"

section \<open>Reading a reply\<close>

datatype pvalue = PText string | PBool bool | PList "string list" | PMap "(string \<times> string) list"

type_synonym Prediction = "(string \<times> pvalue) list"

definition readField :: "JField \<Rightarrow> Section option \<Rightarrow> pvalue" where
  "readField spec section =
     (case section of
        None \<Rightarrow>
          (case fl_Kind spec of
             KindList \<Rightarrow> PList [] | KindMap \<Rightarrow> PMap [] | KindBool \<Rightarrow> PBool False | _ \<Rightarrow> PText [])
      | Some s \<Rightarrow>
          if fl_Kind spec = KindMap then PMap (argumentBlocks (sec_Lines s))
          else (let body = StructuredBody s [] in
            if fl_Kind spec = KindList then
              PList (if 0 < length (bd_Bullets body) then bd_Bullets body else bd_Numbered body)
            else (let parts = (if bd_Prose body \<noteq> [] then [bd_Prose body] else []) @ bd_Bullets body;
                      t = TrimSpace (join_with [newline] parts)
                  in case fl_Kind spec of
                       KindBool \<Rightarrow>
                         (case Fields t of [] \<Rightarrow> PBool False | w # _ \<Rightarrow> PBool (Coerce w = VBool True))
                     | KindStr \<Rightarrow>
                         (if t = [] then PText [] else PText (TrimSpace (hd (split_char newline t))))
                     | _ \<Rightarrow> PText t)))"

definition section_map :: "Section list \<Rightarrow> (string \<times> Section) list" where
  \<comment> \<open>the map sections: a later heading of the same name replaces an earlier one\<close>
  "section_map ss = fold (\<lambda>s m. map_put (Normalize (sec_Name s)) s m) ss []"

definition find_section :: "(string \<times> Section) list \<Rightarrow> JField \<Rightarrow> Section option" where
  "find_section sections spec =
     (case map_of sections (Normalize (heading spec)) of
        Some s \<Rightarrow> Some s
      | None \<Rightarrow> map_of sections (Normalize (fl_Name spec)))"

definition ParseReply :: "Judgment \<Rightarrow> string \<Rightarrow> Prediction" where
  "ParseReply j reply =
     (let sections = section_map (doc_Sections (ParseDocument reply))
      in fold (\<lambda>spec p. map_put (fl_Name spec) (readField spec (find_section sections spec)) p) (jd_Outputs j) [])"

definition Pred_Text :: "Prediction \<Rightarrow> string \<Rightarrow> string" where
  "Pred_Text p name = (case map_of p name of Some (PText s) \<Rightarrow> s | _ \<Rightarrow> [])"

definition Pred_Bool :: "Prediction \<Rightarrow> string \<Rightarrow> bool" where
  "Pred_Bool p name = (case map_of p name of Some (PBool b) \<Rightarrow> b | _ \<Rightarrow> False)"

definition Pred_List :: "Prediction \<Rightarrow> string \<Rightarrow> string list" where
  "Pred_List p name = (case map_of p name of Some (PList l) \<Rightarrow> l | _ \<Rightarrow> [])"

definition Pred_Map :: "Prediction \<Rightarrow> string \<Rightarrow> (string \<times> string) list" where
  "Pred_Map p name = (case map_of p name of Some (PMap m) \<Rightarrow> m | _ \<Rightarrow> [])"

end
