(* ===== verification/Effects.thy ===== *)
theory Effects
  imports Judgment
begin

text \<open>
  What a stage of a cycle does: it returns a value or an error and changes the state.  The error
  types are those of \<^verbatim>\<open>runtime.go\<close>, \<^verbatim>\<open>identity.go\<close> and \<^verbatim>\<open>spawner.go\<close>; an error built with
  fmt.Errorf and the verb %w is \<open>Wrapped\<close>, any other error is \<open>Fault\<close> with its text, and the error of
  a context is \<open>Canceled\<close>; a run-time panic ends a step as \<open>Panic\<close>.  The second part is the language-model seam of \<^verbatim>\<open>lm.go\<close>: the bound
  provider is a function of how many attempts were made and of what it is sent, and the call
  history is state.
\<close>

section \<open>Errors\<close>

datatype ear_error =
    PolicyViolationError string "Policy list"
  | ApprovalRequiredError "Policy list"
  | TenantBoundaryError string string "string list"
  | SpawnDeniedError string
  | Wrapped string ear_error
  | Canceled string
  | Fault string
  | Panic string

definition policyNames :: "Policy list \<Rightarrow> string list" where
  "policyNames ps = map po_Name ps"

fun error_text :: "ear_error \<Rightarrow> string" where
  \<comment> \<open>the method Error of each type\<close>
  "error_text (PolicyViolationError scope ps) = scope @ '' violated: '' @ join_with '', '' (policyNames ps)"
| "error_text (ApprovalRequiredError ps) = ''human approval required for: '' @ join_with '', '' (policyNames ps)"
| "error_text (TenantBoundaryError subject org allowed) =
     (let names = join_with '', '' allowed
      in ''claim '' @ go_quote subject @ '' may not act as org '' @ go_quote org @ '' (authorized for: '' @
         (if names = [] then ''none'' else names) @ '')'')"
| "error_text (SpawnDeniedError reason) = reason"
| "error_text (Wrapped msg e) = msg @ '': '' @ error_text e"
| "error_text (Canceled t) = t"
| "error_text (Fault t) = t"
| "error_text (Panic t) = t"

fun error_root :: "ear_error \<Rightarrow> ear_error" where
  \<comment> \<open>what errors.As finds behind the wrapping\<close>
  "error_root (Wrapped msg e) = error_root e"
| "error_root e = e"

section \<open>Steps with errors and state\<close>

type_synonym ('s, 'a) eff = "'s \<Rightarrow> (ear_error, 'a) outcome \<times> 's"

definition returnS :: "'a \<Rightarrow> ('s, 'a) eff" where
  "returnS a s = (Inr a, s)"

definition failS :: "ear_error \<Rightarrow> ('s, 'a) eff" where
  "failS e s = (Inl e, s)"

definition bindS :: "('s, 'a) eff \<Rightarrow> ('a \<Rightarrow> ('s, 'b) eff) \<Rightarrow> ('s, 'b) eff" where
  "bindS m f s = (case m s of (Inl e, s') \<Rightarrow> (Inl e, s') | (Inr a, s') \<Rightarrow> f a s')"

definition updateS :: "('s \<Rightarrow> 's) \<Rightarrow> ('s, unit) eff" where
  "updateS f s = (Inr (), f s)"

definition thenS :: "('s, unit) eff \<Rightarrow> ('s, 'b) eff \<Rightarrow> ('s, 'b) eff" where
  "thenS m k = bindS m (\<lambda>_. k)"

lemma returnS_simps [simp]: "returnS a s = (Inr a, s)"
  and failS_simps [simp]: "failS e s = (Inl e, s)"
  and updateS_simps [simp]: "updateS f s = (Inr (), f s)"
  by (simp_all add: returnS_def failS_def updateS_def)

lemma bindS_Inr: "bindS m f s = (Inr b, s') \<longleftrightarrow> (\<exists>a s1. m s = (Inr a, s1) \<and> f a s1 = (Inr b, s'))"
  by (cases "m s"; cases "fst (m s)") (auto simp: bindS_def)

lemma bindS_Inl:
  "bindS m f s = (Inl e, s') \<longleftrightarrow> m s = (Inl e, s') \<or> (\<exists>a s1. m s = (Inr a, s1) \<and> f a s1 = (Inl e, s'))"
  by (cases "m s"; cases "fst (m s)") (auto simp: bindS_def)

lemma bindS_simps [simp]:
  "m s = (Inr a, s1) \<Longrightarrow> bindS m f s = f a s1" "m s = (Inl e, s1) \<Longrightarrow> bindS m f s = (Inl e, s1)"
  by (simp_all add: bindS_def)

lemma thenS_simps [simp]: "thenS (updateS f) k s = k (f s)"
  by (simp add: thenS_def)

text \<open>Every step keeps a property of the state: the rule that composes such facts.\<close>

definition keeps :: "('s \<Rightarrow> 's \<Rightarrow> bool) \<Rightarrow> ('s, 'a) eff \<Rightarrow> bool" where
  "keeps R m \<longleftrightarrow> (\<forall>s. R s (snd (m s)))"

lemma keeps_basic:
  "reflp R \<Longrightarrow> keeps R (returnS a)" "reflp R \<Longrightarrow> keeps R (failS e)" "(\<And>s. R s (f s)) \<Longrightarrow> keeps R (updateS f)"
  by (auto simp: keeps_def reflp_def)

lemma keeps_bindS: "transp R \<Longrightarrow> keeps R m \<Longrightarrow> (\<And>a. keeps R (f a)) \<Longrightarrow> keeps R (bindS m f)"
  unfolding keeps_def bindS_def
  by (auto split: prod.split sum.split) (metis snd_conv transpD)+

lemma keeps_thenS: "transp R \<Longrightarrow> keeps R m \<Longrightarrow> keeps R k \<Longrightarrow> keeps R (thenS m k)"
  unfolding thenS_def by (rule keeps_bindS)

section \<open>The model\<close>

record Usage =
  us_PromptTokens :: int
  us_CompletionTokens :: int
  us_CacheReadTokens :: int
  us_CacheWriteTokens :: int

record Call =
  ca_Prompt :: string
  ca_System :: string
  ca_CachePrefix :: string
  ca_Reply :: string
  ca_Usage :: Usage
  ca_LatencyMs :: int
  ca_Retries :: int

record LMState =
  lm_attempts :: nat
  lm_History :: "Call list"

record LMReply =
  re_Text :: string
  re_Usage :: Usage
  re_LatencyMs :: int
  re_Retries :: int

type_synonym provider = "nat \<Rightarrow> string \<Rightarrow> string \<Rightarrow> string \<Rightarrow> (ear_error, LMReply) outcome"

definition no_usage :: Usage where
  "no_usage = \<lparr>us_PromptTokens = 0, us_CompletionTokens = 0, us_CacheReadTokens = 0, us_CacheWriteTokens = 0\<rparr>"

definition Complete :: "provider \<Rightarrow> string \<Rightarrow> string \<Rightarrow> string \<Rightarrow> (LMState, string) eff" where
  "Complete p prompt system prefix s =
     (let s1 = s\<lparr>lm_attempts := lm_attempts s + 1\<rparr> in
      case p (lm_attempts s) prompt system prefix of
        Inl e \<Rightarrow> (Inl e, s1)
      | Inr r \<Rightarrow>
          (Inr (re_Text r),
           s1\<lparr>lm_History := lm_History s @
             [\<lparr>ca_Prompt = prompt, ca_System = system, ca_CachePrefix = prefix, ca_Reply = re_Text r,
               ca_Usage = re_Usage r, ca_LatencyMs = re_LatencyMs r, ca_Retries = re_Retries r\<rparr>]\<rparr>))"

definition ScriptedLM :: "string list \<Rightarrow> string \<Rightarrow> provider" where
  \<comment> \<open>the replies in order, then the default; nothing else is recorded of a call\<close>
  "ScriptedLM replies fallback n prompt system prefix =
     Inr \<lparr>re_Text = (if n < length replies then replies ! n else fallback), re_Usage = no_usage,
          re_LatencyMs = 0, re_Retries = 0\<rparr>"

definition reply_section :: "string \<Rightarrow> string \<Rightarrow> string" where
  "reply_section name v = ''## '' @ name @ [newline, newline] @ TrimSpace v @ [newline]"

fun Reply :: "string list \<Rightarrow> string" where
  "Reply (name # v # pairs) = reply_section name v @ [newline] @ Reply pairs"
| "Reply _ = []"

definition Judgment_Run :: "provider \<Rightarrow> Judgment \<Rightarrow> ctx \<Rightarrow> (LMState, Prediction) eff" where
  "Judgment_Run p j values =
     (let (prompt, prefix) = render j values
      in bindS (Complete p prompt (jd_Instruction j) prefix) (\<lambda>reply. returnS (ParseReply j reply)))"

section \<open>Typed signatures\<close>

datatype gotype = TString | TBool | TStrings | TStringMap | TAnyMap

record StructField =
  sf_Name :: string
  sf_Tag :: string  \<comment> \<open>the value of the key ear of the struct tag, empty when there is none\<close>
  sf_Type :: gotype

definition snake_char :: "nat \<times> char \<Rightarrow> string" where
  "snake_char ic =
     (if is_upper (snd ic) then (if 0 < fst ic then '' '' else []) @ [lower_char (snd ic)] else [snd ic])"

definition snakeCase :: "string \<Rightarrow> string" where
  "snakeCase name = concat (map snake_char (enumerate 0 name))"

definition parseEarTag :: "StructField \<Rightarrow> string \<times> string" where
  "parseEarTag sf =
     (let (rawName, rawDesc) = (case cut_at '','' (sf_Tag sf) of Some ab \<Rightarrow> ab | None \<Rightarrow> (sf_Tag sf, []));
          name = TrimSpace rawName
      in (if name = [] then snakeCase (sf_Name sf) else name, TrimSpace rawDesc))"

fun inferKind :: "gotype \<Rightarrow> Kind" where
  "inferKind TBool = KindBool"
| "inferKind TStrings = KindList"
| "inferKind TStringMap = KindMap"
| "inferKind TAnyMap = KindMap"
| "inferKind TString = KindText"

definition reflectFields :: "StructField list \<Rightarrow> bool \<Rightarrow> JField list" where
  "reflectFields sfs output =
     map (\<lambda>sf. \<lparr>fl_Name = fst (parseEarTag sf), fl_Desc = snd (parseEarTag sf),
               fl_Kind = (if output then inferKind (sf_Type sf) else KindNone)\<rparr>)
       (filter (\<lambda>sf. fst (parseEarTag sf) \<noteq> ''-'') sfs)"

record Signature =
  sg_In :: "StructField list"
  sg_Out :: "StructField list"
  sg_Instruction :: string
  sg_CacheBoundary :: string

definition signature_judgment :: "Signature \<Rightarrow> Judgment" where
  "signature_judgment s =
     \<lparr>jd_Instruction = sg_Instruction s, jd_Inputs = reflectFields (sg_In s) False,
      jd_Outputs = reflectFields (sg_Out s) True, jd_Demos = [], jd_CacheBoundary = sg_CacheBoundary s\<rparr>"

definition structToValues :: "StructField list \<Rightarrow> goval list \<Rightarrow> ctx" where
  "structToValues sfs vs =
     fold (\<lambda>(sf, v) m. if fst (parseEarTag sf) = ''-'' then m else map_put (fst (parseEarTag sf)) v m) (zip sfs vs) []"

fun fill_field :: "Prediction \<Rightarrow> StructField \<Rightarrow> pvalue" where
  \<comment> \<open>one field of fillStruct, read by its type\<close>
  "fill_field pred sf =
     (let name = fst (parseEarTag sf) in
      case sf_Type sf of
        TBool \<Rightarrow> PBool (Pred_Bool pred name)
      | TString \<Rightarrow> PText (Pred_Text pred name)
      | TStrings \<Rightarrow> PList (Pred_List pred name)
      | _ \<Rightarrow> PMap (Pred_Map pred name))"

definition fillStruct :: "Signature \<Rightarrow> Prediction \<Rightarrow> pvalue list" where
  \<comment> \<open>the fields of the result, in the order of the struct\<close>
  "fillStruct s pred = map (fill_field pred) (sg_Out s)"

definition Signature_Run :: "provider \<Rightarrow> Signature \<Rightarrow> goval list \<Rightarrow> (LMState, pvalue list) eff" where
  "Signature_Run p s vs =
     bindS (Judgment_Run p (signature_judgment s) (structToValues (sg_In s) vs))
       (\<lambda>pred. returnS (fillStruct s pred))"

definition Signature_Render :: "Signature \<Rightarrow> goval list \<Rightarrow> string" where
  "Signature_Render s vs = RenderPrompt (signature_judgment s) (structToValues (sg_In s) vs)"

definition out_text :: "pvalue list \<Rightarrow> nat \<Rightarrow> string" where
  "out_text vs i = (case vs ! i of PText s \<Rightarrow> s | _ \<Rightarrow> [])"

definition out_bool :: "pvalue list \<Rightarrow> nat \<Rightarrow> bool" where
  "out_bool vs i = (case vs ! i of PBool b \<Rightarrow> b | _ \<Rightarrow> False)"

definition out_list :: "pvalue list \<Rightarrow> nat \<Rightarrow> string list" where
  "out_list vs i = (case vs ! i of PList l \<Rightarrow> l | _ \<Rightarrow> [])"

definition out_map :: "pvalue list \<Rightarrow> nat \<Rightarrow> (string \<times> string) list" where
  "out_map vs i = (case vs ! i of PMap m \<Rightarrow> m | _ \<Rightarrow> [])"

end
