(* ===== verification/Catalogue.thy ===== *)
theory Catalogue
  imports Effects
begin

text \<open>
  The catalogue of reasoning tasks, \<^verbatim>\<open>signatures.go\<close>: per task the struct of its inputs, the
  struct of its outputs, and the signature with its instruction and cache boundary.
\<close>

definition JudgePolicyCompliance_in :: "StructField list" where
  "JudgePolicyCompliance_in =
     [\<lparr>sf_Name = ''Statement'', sf_Tag = ''policy_statement,The policy, written in plain English'',
        sf_Type = TString\<rparr>,
      \<lparr>sf_Name = ''Context'', sf_Tag = ''context,The intent's context values relevant to the policy'',
        sf_Type = TAnyMap\<rparr>]"

definition JudgePolicyCompliance_out :: "StructField list" where
  "JudgePolicyCompliance_out =
     [\<lparr>sf_Name = ''Complies'', sf_Tag = ''complies,True if the context satisfies the policy, False if it violates it'',
        sf_Type = TBool\<rparr>,
      \<lparr>sf_Name = ''Rationale'', sf_Tag = ''rationale,One sentence explaining the judgment'',
        sf_Type = TString\<rparr>]"

definition JudgePolicyCompliance :: Signature where
  "JudgePolicyCompliance =
     \<lparr>sg_In = JudgePolicyCompliance_in, sg_Out = JudgePolicyCompliance_out,
      sg_Instruction =
        ''Decide whether the given context complies with a written policy statement, the way '' @
        ''a careful compliance reviewer would: read the policy in plain English, check the '' @
        ''context against it, and explain your reasoning in one sentence.'',
      sg_CacheBoundary = []\<rparr>"

definition ReasonAboutIntent_in :: "StructField list" where
  "ReasonAboutIntent_in =
     [\<lparr>sf_Name = ''Intent'', sf_Tag = ''intent,The natural-language intent to resolve'',
        sf_Type = TString\<rparr>,
      \<lparr>sf_Name = ''Context'', sf_Tag = ''context,Structured context relevant to the intent'',
        sf_Type = TAnyMap\<rparr>,
      \<lparr>sf_Name = ''Capabilities'', sf_Tag = ''capabilities,The stacked personas and skill prompts composed for this intent'',
        sf_Type = TString\<rparr>]"

definition ReasonAboutIntent_out :: "StructField list" where
  "ReasonAboutIntent_out =
     [\<lparr>sf_Name = ''Decision'', sf_Tag = ''decision,The concrete decision reached, with a brief justification'',
        sf_Type = TString\<rparr>]"

definition ReasonAboutIntent :: Signature where
  "ReasonAboutIntent =
     \<lparr>sg_In = ReasonAboutIntent_in, sg_Out = ReasonAboutIntent_out,
      sg_Instruction =
        ''Resolve an intent into a final, concrete decision given its context. Reason as the '' @
        ''assembled capabilities: the persona instructions and the stacked skill prompts '' @
        ''describe who is acting and how -- follow them when reaching the decision.'',
      sg_CacheBoundary = []\<rparr>"

definition DiscoverRelevantProcesses_in :: "StructField list" where
  "DiscoverRelevantProcesses_in =
     [\<lparr>sf_Name = ''IntentText'', sf_Tag = ''intent_text'',
        sf_Type = TString\<rparr>,
      \<lparr>sf_Name = ''AvailableProcesses'', sf_Tag = ''available_processes,One 'name: description' pair per line'',
        sf_Type = TString\<rparr>]"

definition DiscoverRelevantProcesses_out :: "StructField list" where
  "DiscoverRelevantProcesses_out =
     [\<lparr>sf_Name = ''RelevantProcessNames'', sf_Tag = ''relevant_process_names,Names of the relevant processes, most relevant first'',
        sf_Type = TStrings\<rparr>]"

definition DiscoverRelevantProcesses :: Signature where
  "DiscoverRelevantProcesses =
     \<lparr>sg_In = DiscoverRelevantProcesses_in, sg_Out = DiscoverRelevantProcesses_out,
      sg_Instruction =
        ''Identify which of the runtime's registered processes are relevant to handling the '' @
        ''given intent, most relevant first.'',
      sg_CacheBoundary = []\<rparr>"

definition SelectProcesses_in :: "StructField list" where
  "SelectProcesses_in =
     [\<lparr>sf_Name = ''IntentText'', sf_Tag = ''intent_text'',
        sf_Type = TString\<rparr>,
      \<lparr>sf_Name = ''CandidateProcesses'', sf_Tag = ''candidate_processes,One 'name: description' pair per line'',
        sf_Type = TString\<rparr>]"

definition SelectProcesses_out :: "StructField list" where
  "SelectProcesses_out =
     [\<lparr>sf_Name = ''SelectedProcessNames'', sf_Tag = ''selected_process_names,Names of the processes to run, most relevant first'',
        sf_Type = TStrings\<rparr>]"

definition SelectProcesses :: Signature where
  "SelectProcesses =
     \<lparr>sg_In = SelectProcesses_in, sg_Out = SelectProcesses_out,
      sg_Instruction =
        ''Choose which of the candidate processes this cycle genuinely needs to handle the '' @
        ''intent, most relevant first. Choose only among the candidates; never invent one.'',
      sg_CacheBoundary = []\<rparr>"

definition ScheduleWorkflows_in :: "StructField list" where
  "ScheduleWorkflows_in =
     [\<lparr>sf_Name = ''IntentText'', sf_Tag = ''intent_text'',
        sf_Type = TString\<rparr>,
      \<lparr>sf_Name = ''Workflows'', sf_Tag = ''workflows,One 'name: step summary' pair per line, in current order'',
        sf_Type = TString\<rparr>]"

definition ScheduleWorkflows_out :: "StructField list" where
  "ScheduleWorkflows_out =
     [\<lparr>sf_Name = ''OrderedWorkflowNames'', sf_Tag = ''ordered_workflow_names,Every workflow name, in execution order'',
        sf_Type = TStrings\<rparr>]"

definition ScheduleWorkflows :: Signature where
  "ScheduleWorkflows =
     \<lparr>sg_In = ScheduleWorkflows_in, sg_Out = ScheduleWorkflows_out,
      sg_Instruction =
        ''Order the workflows for the intent at hand: prerequisites and information-producing '' @
        ''workflows first. Return every workflow name, none dropped.'',
      sg_CacheBoundary = []\<rparr>"

definition DelegateSteps_in :: "StructField list" where
  "DelegateSteps_in =
     [\<lparr>sf_Name = ''Steps'', sf_Tag = ''steps,One 'number: instruction' line per undelegated step'',
        sf_Type = TString\<rparr>,
      \<lparr>sf_Name = ''Personas'', sf_Tag = ''personas,One 'name: instructions and skills' line per available persona'',
        sf_Type = TString\<rparr>]"

definition DelegateSteps_out :: "StructField list" where
  "DelegateSteps_out =
     [\<lparr>sf_Name = ''Assignments'', sf_Tag = ''assignments,One 'number: persona name' item per step'',
        sf_Type = TStrings\<rparr>]"

definition DelegateSteps :: Signature where
  "DelegateSteps =
     \<lparr>sg_In = DelegateSteps_in, sg_Out = DelegateSteps_out,
      sg_Instruction =
        ''Assign each undelegated step to the best-suited persona from the available pool, '' @
        ''reading each step's instruction against the personas' standing instructions and '' @
        ''stacked skills.'',
      sg_CacheBoundary = []\<rparr>"

definition RankRelevantSkills_in :: "StructField list" where
  "RankRelevantSkills_in =
     [\<lparr>sf_Name = ''IntentText'', sf_Tag = ''intent_text'',
        sf_Type = TString\<rparr>,
      \<lparr>sf_Name = ''AvailableSkills'', sf_Tag = ''available_skills,One 'name: instruction' pair per line'',
        sf_Type = TString\<rparr>]"

definition RankRelevantSkills_out :: "StructField list" where
  "RankRelevantSkills_out =
     [\<lparr>sf_Name = ''RelevantSkillNames'', sf_Tag = ''relevant_skill_names,Names of the relevant skills, most relevant first'',
        sf_Type = TStrings\<rparr>]"

definition RankRelevantSkills :: Signature where
  "RankRelevantSkills =
     \<lparr>sg_In = RankRelevantSkills_in, sg_Out = RankRelevantSkills_out,
      sg_Instruction =
        ''Identify which of a persona's skills are relevant to the intent at hand, most '' @
        ''relevant first.'',
      sg_CacheBoundary = []\<rparr>"

definition JudgeContractConformance_in :: "StructField list" where
  "JudgeContractConformance_in =
     [\<lparr>sf_Name = ''Contract'', sf_Tag = ''contract,One '- name: meaning' line per declared field'',
        sf_Type = TString\<rparr>,
      \<lparr>sf_Name = ''Data'', sf_Tag = ''data,One '- name: value' line per delivered field'',
        sf_Type = TString\<rparr>]"

definition JudgeContractConformance_out :: "StructField list" where
  "JudgeContractConformance_out =
     [\<lparr>sf_Name = ''Conforms'', sf_Tag = ''conforms,True only if every delivered value honors its field's meaning'',
        sf_Type = TBool\<rparr>,
      \<lparr>sf_Name = ''Rationale'', sf_Tag = ''rationale,One sentence explaining the judgment'',
        sf_Type = TString\<rparr>]"

definition JudgeContractConformance :: Signature where
  "JudgeContractConformance =
     \<lparr>sg_In = JudgeContractConformance_in, sg_Out = JudgeContractConformance_out,
      sg_Instruction =
        ''Judge whether each delivered value honors the meaning of its declared field, the '' @
        ''way a reviewer checking a deliverable would, and explain your reasoning in one '' @
        ''sentence.'',
      sg_CacheBoundary = []\<rparr>"

definition RecallRelevantMemory_in :: "StructField list" where
  "RecallRelevantMemory_in =
     [\<lparr>sf_Name = ''IntentText'', sf_Tag = ''intent_text'',
        sf_Type = TString\<rparr>,
      \<lparr>sf_Name = ''History'', sf_Tag = ''history,The full remembered context window'',
        sf_Type = TString\<rparr>]"

definition RecallRelevantMemory_out :: "StructField list" where
  "RecallRelevantMemory_out =
     [\<lparr>sf_Name = ''RelevantContext'', sf_Tag = ''relevant_context,Only the remembered facts relevant to this intent'',
        sf_Type = TString\<rparr>]"

definition RecallRelevantMemory :: Signature where
  "RecallRelevantMemory =
     \<lparr>sg_In = RecallRelevantMemory_in, sg_Out = RecallRelevantMemory_out,
      sg_Instruction =
        ''From the runtime's remembered history, recall what is genuinely relevant to the '' @
        ''intent at hand -- prior decisions, amounts and outcomes that should inform this '' @
        ''cycle -- and leave the rest behind. Recall facts as they were recorded; never '' @
        ''invent or embellish them.'',
      sg_CacheBoundary = []\<rparr>"

definition AuditEvidence_in :: "StructField list" where
  "AuditEvidence_in =
     [\<lparr>sf_Name = ''Decision'', sf_Tag = ''decision'',
        sf_Type = TString\<rparr>,
      \<lparr>sf_Name = ''Evidence'', sf_Tag = ''evidence,The basis, policies checked, plan and recalled memory behind the '' @
          ''decision'',
        sf_Type = TString\<rparr>]"

definition AuditEvidence_out :: "StructField list" where
  "AuditEvidence_out =
     [\<lparr>sf_Name = ''Assessment'', sf_Tag = ''assessment,One or two sentences: supported or not, and any gap found'',
        sf_Type = TString\<rparr>]"

definition AuditEvidence :: Signature where
  "AuditEvidence =
     \<lparr>sg_In = AuditEvidence_in, sg_Out = AuditEvidence_out,
      sg_Instruction =
        ''Inspect a decision's evidence the way an internal auditor would: check the decision '' @
        ''against its basis, the policies checked and the plan, and say whether the evidence '' @
        ''supports the decision, naming any gap or inconsistency plainly.'',
      sg_CacheBoundary = []\<rparr>"

definition ExplainDecision_in :: "StructField list" where
  "ExplainDecision_in =
     [\<lparr>sf_Name = ''Basis'', sf_Tag = ''basis,The evidentiary basis the decision rests on'',
        sf_Type = TString\<rparr>,
      \<lparr>sf_Name = ''Decision'', sf_Tag = ''decision'',
        sf_Type = TString\<rparr>]"

definition ExplainDecision_out :: "StructField list" where
  "ExplainDecision_out =
     [\<lparr>sf_Name = ''Explanation'', sf_Tag = ''explanation,One or two plain-English sentences'',
        sf_Type = TString\<rparr>]"

definition ExplainDecision :: Signature where
  "ExplainDecision =
     \<lparr>sg_In = ExplainDecision_in, sg_Out = ExplainDecision_out,
      sg_Instruction =
        ''Write a short, human-readable explanation of why a decision was reached, given the '' @
        ''evidentiary basis for it.'',
      sg_CacheBoundary = []\<rparr>"

definition SelectRelevantPassages_in :: "StructField list" where
  "SelectRelevantPassages_in =
     [\<lparr>sf_Name = ''IntentText'', sf_Tag = ''intent_text'',
        sf_Type = TString\<rparr>,
      \<lparr>sf_Name = ''Passages'', sf_Tag = ''passages,Numbered passages, each headed by its [source]'',
        sf_Type = TString\<rparr>]"

definition SelectRelevantPassages_out :: "StructField list" where
  "SelectRelevantPassages_out =
     [\<lparr>sf_Name = ''RelevantNumbers'', sf_Tag = ''relevant_numbers,The numbers of the relevant passages; empty if none apply'',
        sf_Type = TStrings\<rparr>,
      \<lparr>sf_Name = ''Rationale'', sf_Tag = ''rationale,One sentence explaining the choice'',
        sf_Type = TString\<rparr>]"

definition SelectRelevantPassages :: Signature where
  "SelectRelevantPassages =
     \<lparr>sg_In = SelectRelevantPassages_in, sg_Out = SelectRelevantPassages_out,
      sg_Instruction =
        ''From the numbered knowledge passages, choose the ones a careful analyst would '' @
        ''actually consult for this intent. Choosing none is a valid judgment; never refer to '' @
        ''a passage that is not in the list.'',
      sg_CacheBoundary = []\<rparr>"

definition GistPassage_in :: "StructField list" where
  "GistPassage_in =
     [\<lparr>sf_Name = ''Passage'', sf_Tag = ''passage,The passage, headed by its [source]'',
        sf_Type = TString\<rparr>]"

definition GistPassage_out :: "StructField list" where
  "GistPassage_out =
     [\<lparr>sf_Name = ''Gist'', sf_Tag = ''gist,One plain-English line covering the passage and its synonyms'',
        sf_Type = TString\<rparr>]"

definition GistPassage :: Signature where
  "GistPassage =
     \<lparr>sg_In = GistPassage_in, sg_Out = GistPassage_out,
      sg_Instruction =
        ''Write a one-line gist of a reference passage for a retrieval index. Say what the '' @
        ''passage covers in plain, everyday words -- including the synonyms a searcher might '' @
        ''use for its key terms -- so a differently-phrased question still finds it. One '' @
        ''line, no heading, no quotation.'',
      sg_CacheBoundary = []\<rparr>"

definition ChooseToolAction_in :: "StructField list" where
  "ChooseToolAction_in =
     [\<lparr>sf_Name = ''Intent'', sf_Tag = ''intent,The intent to resolve'',
        sf_Type = TString\<rparr>,
      \<lparr>sf_Name = ''Context'', sf_Tag = ''context,Structured context relevant to the intent'',
        sf_Type = TAnyMap\<rparr>,
      \<lparr>sf_Name = ''Capabilities'', sf_Tag = ''capabilities,The stacked personas and skill prompts for this intent'',
        sf_Type = TString\<rparr>,
      \<lparr>sf_Name = ''Tools'', sf_Tag = ''tools,One 'name(parameters): description' line per available tool'',
        sf_Type = TString\<rparr>,
      \<lparr>sf_Name = ''Gathered'', sf_Tag = ''gathered,Results of tool calls made so far, or 'none yet'' @ [CHR 0x27],
        sf_Type = TString\<rparr>]"

definition ChooseToolAction_out :: "StructField list" where
  "ChooseToolAction_out =
     [\<lparr>sf_Name = ''Tool'', sf_Tag = ''tool,The name of the one tool to call now, or empty to decide instead'',
        sf_Type = TString\<rparr>,
      \<lparr>sf_Name = ''Arguments'', sf_Tag = ''arguments,The tool's arguments as '- name: value' bullets; empty when deciding '' @
          ''instead'',
        sf_Type = TStringMap\<rparr>,
      \<lparr>sf_Name = ''Decision'', sf_Tag = ''decision,The final decision, given only when no tool is called'',
        sf_Type = TString\<rparr>]"

definition ChooseToolAction :: Signature where
  "ChooseToolAction =
     \<lparr>sg_In = ChooseToolAction_in, sg_Out = ChooseToolAction_out,
      sg_Instruction =
        ''You are reasoning toward a decision and may use tools to get facts first. Read the '' @
        ''tools and what you have gathered so far. If a tool would help, call exactly one -- '' @
        ''name it and give its arguments. Otherwise, give the final decision. Never invent a '' @
        ''tool that is not listed. When a call fails, do not simply fire the identical call '' @
        ''again: diagnose the failure from the result you already have, change the input, and '' @
        ''only then retry -- an unchanged failed call will be refused before it runs.'',
      sg_CacheBoundary = ''gathered''\<rparr>"

definition ChooseNextSpeaker_in :: "StructField list" where
  "ChooseNextSpeaker_in =
     [\<lparr>sf_Name = ''IntentText'', sf_Tag = ''intent_text,What the panel is deliberating'',
        sf_Type = TString\<rparr>,
      \<lparr>sf_Name = ''Pattern'', sf_Tag = ''pattern,The authored deliberation pattern, in plain English'',
        sf_Type = TString\<rparr>,
      \<lparr>sf_Name = ''Personas'', sf_Tag = ''personas,One 'name: instructions' line per persona at the table'',
        sf_Type = TString\<rparr>,
      \<lparr>sf_Name = ''Transcript'', sf_Tag = ''transcript,The turns so far, speakers bracketed'',
        sf_Type = TString\<rparr>]"

definition ChooseNextSpeaker_out :: "StructField list" where
  "ChooseNextSpeaker_out =
     [\<lparr>sf_Name = ''Speaker'', sf_Tag = ''speaker,Exactly one listed persona's name, or 'conclude'' @ [CHR 0x27],
        sf_Type = TString\<rparr>,
      \<lparr>sf_Name = ''Rationale'', sf_Tag = ''rationale,One sentence: why this speaker, or why the panel is done'',
        sf_Type = TString\<rparr>]"

definition ChooseNextSpeaker :: Signature where
  "ChooseNextSpeaker =
     \<lparr>sg_In = ChooseNextSpeaker_in, sg_Out = ChooseNextSpeaker_out,
      sg_Instruction =
        ''Moderate a panel deliberation: read the authored pattern, the personas at the table '' @
        ''and the transcript so far, and choose who should speak next -- or whether the panel '' @
        ''has genuinely converged and should conclude. Answer with exactly one listed '' @
        ''persona's name, or 'conclude' when another turn would add nothing; when the pattern '' @
        ''prescribes an order, follow it.'',
      sg_CacheBoundary = []\<rparr>"

definition SpeakInPanel_in :: "StructField list" where
  "SpeakInPanel_in =
     [\<lparr>sf_Name = ''IntentText'', sf_Tag = ''intent_text,What the panel is deliberating'',
        sf_Type = TString\<rparr>,
      \<lparr>sf_Name = ''Persona'', sf_Tag = ''persona,Who is speaking: instructions and stacked skills'',
        sf_Type = TString\<rparr>,
      \<lparr>sf_Name = ''Pattern'', sf_Tag = ''pattern,The authored deliberation pattern, in plain English'',
        sf_Type = TString\<rparr>,
      \<lparr>sf_Name = ''Transcript'', sf_Tag = ''transcript,The turns so far, speakers bracketed'',
        sf_Type = TString\<rparr>]"

definition SpeakInPanel_out :: "StructField list" where
  "SpeakInPanel_out =
     [\<lparr>sf_Name = ''Statement'', sf_Tag = ''statement,This persona's turn, a few sentences'',
        sf_Type = TString\<rparr>]"

definition SpeakInPanel :: Signature where
  "SpeakInPanel =
     \<lparr>sg_In = SpeakInPanel_in, sg_Out = SpeakInPanel_out,
      sg_Instruction =
        ''Speak one turn in a panel deliberation, entirely as the given persona: follow its '' @
        ''standing instructions and stacked skills, engage concretely with what earlier '' @
        ''speakers said (agree, challenge, or add -- never merely restate), honor the '' @
        ''authored deliberation pattern, and keep the turn to a few sentences.'',
      sg_CacheBoundary = []\<rparr>"

definition SpeakOrUseTool_in :: "StructField list" where
  "SpeakOrUseTool_in =
     [\<lparr>sf_Name = ''IntentText'', sf_Tag = ''intent_text,What the panel is deliberating'',
        sf_Type = TString\<rparr>,
      \<lparr>sf_Name = ''Persona'', sf_Tag = ''persona,Who is speaking: instructions and stacked skills'',
        sf_Type = TString\<rparr>,
      \<lparr>sf_Name = ''Pattern'', sf_Tag = ''pattern,The authored deliberation pattern, in plain English'',
        sf_Type = TString\<rparr>,
      \<lparr>sf_Name = ''Transcript'', sf_Tag = ''transcript,The turns so far, speakers bracketed'',
        sf_Type = TString\<rparr>,
      \<lparr>sf_Name = ''Tools'', sf_Tag = ''tools,One 'name(parameters): description' line per available tool'',
        sf_Type = TString\<rparr>,
      \<lparr>sf_Name = ''Gathered'', sf_Tag = ''gathered,Facts gathered by tool calls this turn, or 'none yet'' @ [CHR 0x27],
        sf_Type = TString\<rparr>]"

definition SpeakOrUseTool_out :: "StructField list" where
  "SpeakOrUseTool_out =
     [\<lparr>sf_Name = ''Tool'', sf_Tag = ''tool,The name of the one tool to call now, or empty to speak instead'',
        sf_Type = TString\<rparr>,
      \<lparr>sf_Name = ''Arguments'', sf_Tag = ''arguments,The tool's arguments as '- name: value' bullets; empty when speaking'',
        sf_Type = TStringMap\<rparr>,
      \<lparr>sf_Name = ''Statement'', sf_Tag = ''statement,This persona's turn, given only when no tool is called'',
        sf_Type = TString\<rparr>]"

definition SpeakOrUseTool :: Signature where
  "SpeakOrUseTool =
     \<lparr>sg_In = SpeakOrUseTool_in, sg_Out = SpeakOrUseTool_out,
      sg_Instruction =
        ''You are one persona taking a turn in a panel deliberation and may use tools to get '' @
        ''facts before speaking. If a tool would ground your turn, call exactly one -- name '' @
        ''it and give its arguments. Otherwise speak the turn, entirely as the persona, '' @
        ''engaging with the transcript. Never invent a tool that is not listed.'',
      sg_CacheBoundary = ''gathered''\<rparr>"

definition SynthesizePanel_in :: "StructField list" where
  "SynthesizePanel_in =
     [\<lparr>sf_Name = ''IntentText'', sf_Tag = ''intent_text,What the panel deliberated'',
        sf_Type = TString\<rparr>,
      \<lparr>sf_Name = ''Pattern'', sf_Tag = ''pattern,The authored deliberation pattern, in plain English'',
        sf_Type = TString\<rparr>,
      \<lparr>sf_Name = ''Transcript'', sf_Tag = ''transcript,The full deliberation, speakers bracketed'',
        sf_Type = TString\<rparr>]"

definition SynthesizePanel_out :: "StructField list" where
  "SynthesizePanel_out =
     [\<lparr>sf_Name = ''Decision'', sf_Tag = ''decision,The panel's single concluded decision, with its reasoning'',
        sf_Type = TString\<rparr>]"

definition SynthesizePanel :: Signature where
  "SynthesizePanel =
     \<lparr>sg_In = SynthesizePanel_in, sg_Out = SynthesizePanel_out,
      sg_Instruction =
        ''Conclude a panel deliberation into one decision: weigh what each speaker '' @
        ''established, resolve disagreements the way the authored pattern directs, and state '' @
        ''the single concrete outcome with the decisive reasoning -- never a hedge between '' @
        ''positions.'',
      sg_CacheBoundary = []\<rparr>"

definition SummarizeHistory_in :: "StructField list" where
  "SummarizeHistory_in =
     [\<lparr>sf_Name = ''History'', sf_Tag = ''history'',
        sf_Type = TString\<rparr>]"

definition SummarizeHistory_out :: "StructField list" where
  "SummarizeHistory_out =
     [\<lparr>sf_Name = ''Summary'', sf_Tag = ''summary,A short paragraph'',
        sf_Type = TString\<rparr>]"

definition SummarizeHistory :: Signature where
  "SummarizeHistory =
     \<lparr>sg_In = SummarizeHistory_in, sg_Out = SummarizeHistory_out,
      sg_Instruction =
        ''Summarize execution history into a short paragraph, preserving any decisions, '' @
        ''amounts and outcomes that later reasoning might need.'',
      sg_CacheBoundary = []\<rparr>"

definition DistillInsight_in :: "StructField list" where
  "DistillInsight_in =
     [\<lparr>sf_Name = ''ExperienceSummary'', sf_Tag = ''experience_summary'',
        sf_Type = TString\<rparr>]"

definition DistillInsight_out :: "StructField list" where
  "DistillInsight_out =
     [\<lparr>sf_Name = ''Insight'', sf_Tag = ''insight,One sentence'',
        sf_Type = TString\<rparr>]"

definition DistillInsight :: Signature where
  "DistillInsight =
     \<lparr>sg_In = DistillInsight_in, sg_Out = DistillInsight_out,
      sg_Instruction =
        ''State one durable lesson, in one sentence, from aggregated execution experience '' @
        ''that should bias future decisions.'',
      sg_CacheBoundary = []\<rparr>"

end
