(* ===== verification/JudgmentProps.thy ===== *)
theory JudgmentProps
  imports Catalogue
begin

text \<open>
  What the prompting engine promises: the cache prefix is stable and is a prefix of the prompt,
  a reply is read into one value of the right kind per declared output, and an answer that
  cannot be read is the zero value.
\<close>

section \<open>The cache prefix\<close>

lemma join_with_append:
  "xs \<noteq> [] \<Longrightarrow> ys \<noteq> [] \<Longrightarrow> join_with sep (xs @ ys) = join_with sep xs @ sep @ join_with sep ys"
proof (induction xs)
  case (Cons x xs)
  then show ?case by (cases "xs = []") (simp_all add: join_with_Cons)
qed simp

definition input_block :: "ctx \<Rightarrow> JField \<Rightarrow> string list" where
  "input_block vs spec =
     [''## '' @ heading spec, [], TrimSpace (renderValue (value_of vs (fl_Name spec))), []]"

lemma input_steps_plain:
  "\<forall>s \<in> set fs. fl_Name s \<noteq> jd_CacheBoundary j \<Longrightarrow>
   fold (input_step j vs) fs (lines, p) = (lines @ concat (map (input_block vs) fs), p)"
  by (induction fs arbitrary: lines) (simp_all add: input_step_def Let_def input_block_def)

definition prefix_ok :: "string list \<times> string \<Rightarrow> bool" where
  "prefix_ok acc \<longleftrightarrow> snd acc = [] \<or> (\<exists>l1 l2. l1 \<noteq> [] \<and> fst acc = l1 @ l2 \<and> snd acc = join_with [newline] l1)"

lemma input_step_prefix_ok: "prefix_ok acc \<Longrightarrow> prefix_ok (input_step j vs spec acc)"
proof -
  assume ok: "prefix_ok acc"
  obtain ls p where acc: "acc = (ls, p)" by (cases acc)
  let ?head = "ls @ [''## '' @ heading spec, []]"
  let ?rest = "[TrimSpace (renderValue (value_of vs (fl_Name spec))), []]"
  have lines: "fst (input_step j vs spec acc) = ?head @ ?rest"
    and prefix: "snd (input_step j vs spec acc) = p \<or> snd (input_step j vs spec acc) = join_with [newline] ?head"
    by (simp_all add: input_step_def Let_def acc)
  have "prefix_ok (?head @ ?rest, join_with [newline] ?head)"
    unfolding prefix_ok_def by (intro disjI2 exI [of _ ?head] exI [of _ ?rest]) simp
  moreover have "prefix_ok (?head @ ?rest, p)"
    using ok by (auto simp: prefix_ok_def acc)
  ultimately show ?thesis using lines prefix by (auto simp: prefix_ok_def)
qed

lemma input_steps_prefix_ok: "prefix_ok acc \<Longrightarrow> prefix_ok (fold (input_step j vs) fs acc)"
  by (induction fs arbitrary: acc) (simp_all add: input_step_prefix_ok)

lemma render_prefix: "has_prefix (snd (render j vs)) (fst (render j vs))"
proof -
  obtain ls p where a: "fold (input_step j vs) (ordered_inputs j) (head_lines j, []) = (ls, p)"
    by (cases "fold (input_step j vs) (ordered_inputs j) (head_lines j, [])")
  have "prefix_ok (ls, p)"
    using input_steps_prefix_ok [of "(head_lines j, [])" j vs "ordered_inputs j"] a by (simp add: prefix_ok_def)
  moreover have "render j vs = (join_with [newline] (ls @ tail_lines j), p)" using a by (simp add: render_def)
  moreover have "tail_lines j \<noteq> []" by (simp add: tail_lines_def)
  ultimately show ?thesis
    using join_with_append [of _ _ "[newline]"] by (auto simp: prefix_ok_def has_prefix_iff)
qed

lemma boundary_steps_fixed:
  "p \<noteq> [] \<Longrightarrow> snd (fold (input_step j vs) fs (lines, p)) = p"
  by (induction fs arbitrary: lines) (simp_all add: input_step_def Let_def)

lemma join_with_heading: "join_with [newline] (ls @ [''## '' @ h, []]) \<noteq> []"
  by (cases "ls = []") (simp_all add: join_with_append)

lemma render_prefix_form:
  assumes "jd_CacheBoundary j \<noteq> []"
  shows "snd (render j vs) =
    (case filter (\<lambda>s. fl_Name s = jd_CacheBoundary j) (jd_Inputs j) of
       [] \<Rightarrow> []
     | s # _ \<Rightarrow> join_with [newline]
         (head_lines j @ concat (map (input_block vs) (filter (\<lambda>s. fl_Name s \<noteq> jd_CacheBoundary j) (jd_Inputs j))) @
          [''## '' @ heading s, []]))"
proof -
  let ?plain = "filter (\<lambda>s. fl_Name s \<noteq> jd_CacheBoundary j) (jd_Inputs j)"
  let ?last = "filter (\<lambda>s. fl_Name s = jd_CacheBoundary j) (jd_Inputs j)"
  let ?lines = "head_lines j @ concat (map (input_block vs) ?plain)"
  have snd_render: "snd (render j vs) = snd (fold (input_step j vs) ?last (?lines, []))"
    using assms by (simp add: render_def ordered_inputs_def input_steps_plain split: prod.split)
  show ?thesis
  proof (cases ?last)
    case Nil
    then show ?thesis using snd_render by simp
  next
    case (Cons s ss)
    then have "fl_Name s = jd_CacheBoundary j"
      by (metis (mono_tags, lifting) filter_eq_ConsD)
    then have step: "input_step j vs s (?lines, []) =
        (?lines @ [''## '' @ heading s, []] @ [TrimSpace (renderValue (value_of vs (fl_Name s))), []],
         join_with [newline] (?lines @ [''## '' @ heading s, []]))"
      using assms by (simp add: input_step_def Let_def)
    have "snd (fold (input_step j vs) ?last (?lines, [])) = snd (fold (input_step j vs) ss (input_step j vs s (?lines, [])))"
      using Cons by simp
    also have "\<dots> = join_with [newline] (?lines @ [''## '' @ heading s, []])"
      unfolding step by (rule boundary_steps_fixed) (rule join_with_heading)
    finally have "snd (fold (input_step j vs) ?last (?lines, [])) = join_with [newline] (?lines @ [''## '' @ heading s, []])" .
    then show ?thesis using snd_render Cons by simp
  qed
qed

text \<open>
  Two prompts of one task that differ only in the value of the volatile input have the same
  cache prefix, and the prefix given to the model is a prefix of the prompt.
\<close>

theorem cache_prefix_stable:
  assumes "\<forall>name. name \<noteq> jd_CacheBoundary j \<longrightarrow> value_of v name = value_of w name"
  shows "snd (render j v) = snd (render j w) \<and> has_prefix (snd (render j v)) (fst (render j v))"
proof (cases "jd_CacheBoundary j = []")
  case True
  have "snd (fold (input_step j vs) fs (lines, [])) = []" for vs fs lines
    using True by (induction fs arbitrary: lines) (simp_all add: input_step_def Let_def)
  then have "snd (render j vs) = []" for vs by (simp add: render_def split: prod.split)
      (metis snd_conv)
  then show ?thesis by (simp add: has_prefix_def)
next
  case False
  have "concat (map (input_block v) (filter (\<lambda>s. fl_Name s \<noteq> jd_CacheBoundary j) fs)) =
      concat (map (input_block w) (filter (\<lambda>s. fl_Name s \<noteq> jd_CacheBoundary j) fs))" for fs
    using assms by (induction fs) (simp_all add: input_block_def)
  then have "snd (render j v) = snd (render j w)"
    by (simp add: render_prefix_form [OF False] cong: list.case_cong)
  then show ?thesis using render_prefix by blast
qed

lemma cache_prefix_stable_witness:
  "snd (render (signature_judgment ChooseToolAction) [(''intent'', VStr ''pay''), (''gathered'', VStr ''none yet'')]) =
   snd (render (signature_judgment ChooseToolAction) [(''intent'', VStr ''pay''), (''gathered'', VStr ''a fact'')])"
proof -
  have b: "jd_CacheBoundary (signature_judgment ChooseToolAction) = ''gathered''"
    by (simp add: signature_judgment_def ChooseToolAction_def)
  show ?thesis
    by (rule conjunct1 [OF cache_prefix_stable]) (simp add: b value_of_def)
qed

section \<open>Reading a reply\<close>

fun kind_value :: "Kind \<Rightarrow> pvalue \<Rightarrow> bool" where
  "kind_value KindBool (PBool b) = True"
| "kind_value KindList (PList l) = True"
| "kind_value KindMap (PMap m) = True"
| "kind_value KindText (PText s) = True"
| "kind_value KindStr (PText s) = True"
| "kind_value KindNone (PText s) = True"
| "kind_value _ _ = False"

definition zero_value :: "Kind \<Rightarrow> pvalue" where
  "zero_value k = (case k of KindList \<Rightarrow> PList [] | KindMap \<Rightarrow> PMap [] | KindBool \<Rightarrow> PBool False | _ \<Rightarrow> PText [])"

lemma readField_kind: "kind_value (fl_Kind f) (readField f s)"
  by (cases "fl_Kind f") (auto simp: readField_def Let_def split: option.split list.split)

lemma readField_absent: "readField f None = zero_value (fl_Kind f)"
  by (simp add: readField_def zero_value_def)

lemma ParseReply_lookup:
  assumes "distinct (map fl_Name (jd_Outputs j))" "f \<in> set (jd_Outputs j)"
  shows "map_of (ParseReply j reply) (fl_Name f) =
    Some (readField f (find_section (section_map (doc_Sections (ParseDocument reply))) f))"
proof -
  have "map_of (fold (\<lambda>spec p. map_put (fl_Name spec) (g spec) p) fs p0) (fl_Name f) =
      (if f \<in> set fs then Some (g f) else map_of p0 (fl_Name f))"
    if "inj_on fl_Name (insert f (set fs))" for g :: "JField \<Rightarrow> pvalue" and fs p0
    using that
  proof (induction fs arbitrary: p0)
    case (Cons a fs)
    have "inj_on fl_Name (insert f (set fs))" by (rule inj_on_subset [OF Cons.prems]) auto
    note IH = Cons.IH [OF this]
    have "fl_Name a = fl_Name f \<longleftrightarrow> a = f" using inj_onD [OF Cons.prems, of a f] by auto
    then show ?case using IH by (cases "a = f") simp_all
  qed simp
  moreover have "inj_on fl_Name (insert f (set (jd_Outputs j)))"
    using assms by (simp add: distinct_map insert_absorb)
  ultimately show ?thesis using assms(2) by (simp add: ParseReply_def Let_def)
qed

text \<open>
  C37.  Whatever the model answers, every declared output of a task gets a value of its kind; an
  output whose section the reply lacks gets the zero value of its kind, so a yes/no question
  that was not answered reads as no.
\<close>

theorem ParseReply_typed:
  assumes "distinct (map fl_Name (jd_Outputs j))" "f \<in> set (jd_Outputs j)"
  shows "\<exists>v. map_of (ParseReply j reply) (fl_Name f) = Some v \<and> kind_value (fl_Kind f) v \<and>
    ((\<forall>s \<in> set (doc_Sections (ParseDocument reply)).
        Normalize (sec_Name s) \<noteq> Normalize (heading f) \<and> Normalize (sec_Name s) \<noteq> Normalize (fl_Name f)) \<longrightarrow>
     v = zero_value (fl_Kind f))"
proof -
  let ?ss = "doc_Sections (ParseDocument reply)"
  have keys: "map_of (fold (\<lambda>s m. map_put (Normalize (sec_Name s)) s m) ss m0) k = map_of m0 k"
    if "\<forall>s \<in> set ss. Normalize (sec_Name s) \<noteq> k" for ss m0 k
    using that by (induction ss arbitrary: m0) auto
  have "find_section (section_map ?ss) f = None"
    if "\<forall>s \<in> set ?ss. Normalize (sec_Name s) \<noteq> Normalize (heading f) \<and> Normalize (sec_Name s) \<noteq> Normalize (fl_Name f)"
    using that keys [of ?ss _ "[]"] by (simp add: find_section_def section_map_def)
  then show ?thesis
    using ParseReply_lookup [OF assms] readField_kind [of f] readField_absent [of f] by auto
qed

definition yes_no_task :: Judgment where
  "yes_no_task =
     \<lparr>jd_Instruction = ''Decide.'', jd_Inputs = [],
      jd_Outputs = [\<lparr>fl_Name = ''complies'', fl_Desc = [], fl_Kind = KindBool\<rparr>], jd_Demos = [], jd_CacheBoundary = []\<rparr>"

lemma ParseReply_typed_witness:
  "\<exists>v. map_of (ParseReply yes_no_task ''no heading'') ''complies'' = Some v \<and> kind_value KindBool v"
  using ParseReply_typed [of yes_no_task "\<lparr>fl_Name = ''complies'', fl_Desc = [], fl_Kind = KindBool\<rparr>" "''no heading''"]
  by (auto simp: yes_no_task_def)

end
