(* ===== verification/Instance.thy ===== *)
theory Instance
  imports Catalogue AuditLog Memory Budget
begin

text \<open>
  The state of a runtime instance: the record Runtime of \<^verbatim>\<open>runtime.go\<close> with what its fields hold,
  and the outside world an instance acts in.  A seam the caller may replace, a bound tool's
  handler and a policy's gate are addresses; the world says what stands behind an address.
  The world is otherwise the clock, the model provider, the error of the caller's context, and
  the arithmetic the source takes from the platform.  What a handler returns may depend on the
  handlers that ran before it; they are listed in the field \<open>rt_effects\<close>, which the source has not.
\<close>

section \<open>Strategy\<close>

record Ontology =
  on_Terms :: "(string \<times> string) list"  \<comment> \<open>in the order of the field Order\<close>
  on_Notes :: string

definition Define :: "string \<Rightarrow> string \<Rightarrow> Ontology \<Rightarrow> Ontology" where
  "Define term meaning o1 = o1\<lparr>on_Terms := map_put term meaning (on_Terms o1)\<rparr>"

definition Ontology_Render :: "Ontology \<Rightarrow> string" where
  "Ontology_Render o1 =
     (let lines = map (\<lambda>(t, m). ''- '' @ t @ '': '' @ m) (on_Terms o1) @
                  (if on_Notes o1 \<noteq> [] then [TrimSpace (on_Notes o1)] else [])
      in if 0 = length lines then []
         else ''Working vocabulary:'' @ [newline] @ join_with [newline] lines)"

record ScheduledWork =
  sw_Every :: duration
  sw_Intent :: string

record modelSpec =
  ms_Provider :: string
  ms_Model :: string
  ms_APIKeyEnvVar :: string
  ms_APIBase :: string
  ms_Temperature :: "f64 option"
  ms_MaxOutputTokens :: int

record McpServer =
  mc_Name :: string
  mc_Description :: string
  mc_Command :: string
  mc_URL :: string

record KnowledgeSource =
  ks_Name :: string
  ks_Path :: string

record Strategy =
  sy_Raw :: string
  sy_ContextHistory :: string
  sy_HistoryCapacity :: int
  sy_AuditTrail :: string
  sy_AuditEnabled :: bool
  sy_AuditPath :: string
  sy_RetentionDays :: f64
  sy_SubagentSpawning :: string
  sy_SubagentsConfigured :: bool
  sy_SubagentsEnabled :: bool
  sy_MaxSubagents :: int
  sy_SkillsDiscovery :: string
  sy_Tools :: "Tool list"
  sy_ToolAcquisition :: bool
  sy_Ontology :: Ontology
  sy_ModelSelection :: string
  sy_Primary :: modelSpec          \<comment> \<open>the fields Provider to MaxOutputTokens\<close>
  sy_AuxModelSelection :: string
  sy_Aux :: modelSpec              \<comment> \<open>the fields AuxProvider to AuxMaxOutputTokens\<close>
  sy_Pricing :: string
  sy_InputRatePerMillion :: "f64 option"
  sy_OutputRatePerMillion :: "f64 option"
  sy_Budget :: f64
  sy_AlertThresholds :: "f64 list"
  sy_KnowledgeSources :: "KnowledgeSource list"
  sy_CrossSessionPath :: string
  sy_MCP :: string
  sy_McpServers :: "McpServer list"
  sy_Schedule :: string
  sy_ScheduledWork :: "ScheduledWork list"

definition million :: f64 where "million = f_of_int 1000000"

definition Dollars :: "Strategy \<Rightarrow> int \<Rightarrow> int \<Rightarrow> int \<Rightarrow> int \<Rightarrow> f64 \<times> bool" where
  "Dollars s i out cacheRead cacheWrite =
     (if sy_InputRatePerMillion s = None \<and> sy_OutputRatePerMillion s = None then (fzero, False)
      else
        (let c1 = (case sy_InputRatePerMillion s of
               Some r \<Rightarrow>
                 (let rate = fdiv r million;
                      a = fadd fzero (fmul (f_of_int i) rate);
                      b = fadd a (fmul (fmul (f_of_int cacheRead) rate) (fdiv (f_of_int 1) (f_of_int 10)))
                  in fadd b (fmul (fmul (f_of_int cacheWrite) rate) (fdiv (f_of_int 5) (f_of_int 4))))
             | None \<Rightarrow> fzero);
             c2 = (case sy_OutputRatePerMillion s of
               Some r \<Rightarrow> fadd c1 (fdiv (fmul (f_of_int out) r) million)
             | None \<Rightarrow> c1)
         in (c2, True)))"

section \<open>Tools\<close>

record BoundTool =
  bt_Name :: string
  bt_Description :: string
  bt_Parameters :: "string list"
  bt_Handler :: nat

record ToolBinder =
  tb_MaxIterations :: int
  tb_bound :: "(string \<times> BoundTool) list"
  tb_order :: "string list"

definition NewToolBinder :: ToolBinder where
  "NewToolBinder = \<lparr>tb_MaxIterations = 6, tb_bound = [], tb_order = []\<rparr>"

section \<open>Retrieval\<close>

record Passage =
  ps_Source :: string
  ps_Text :: string
  ps_Gist :: string

record Research =
  rs_Passages :: "Passage list"
  rs_Citations :: "string list"
  rs_Rendered :: string

record Librarian =
  ln_Passages :: "Passage list"
  ln_Candidates :: "string \<Rightarrow> int \<Rightarrow> Passage list"
  ln_Narrowing :: string
  ln_CandidateLimit :: int
  ln_KeepLimit :: int

section \<open>Human input and identity\<close>

record ApprovalVerdict =
  av_Approver :: string
  av_Verdict :: "bool option"
  av_Note :: string

record Claim =
  cl_Subject :: string
  cl_OrgIDs :: "string list"

record Panel =
  pn_Rounds :: int
  pn_MaxTurns :: int

section \<open>The instance\<close>

datatype judge_seam = DeterministicJudge | LMJudge "judge_seam option" | CustomJudge nat
datatype reasoner_seam = DefaultReasoner | LMReasoner string | CustomReasoner nat

datatype stage =
    governStage string bool
  | discoverStage | selectStage | composeStage | scheduleStage | delegateStage | recallStage
  | researchStage | reasonStage | formalizeStage | evidenceStage | explainStage | auditStage | memoryStage

record Runtime =
  rt_Name :: string
  rt_OrgID :: string
  rt_Processes :: "Process list"
  rt_Policies :: "Policy list"
  rt_Memory :: Memory
  rt_Experience :: Experience
  rt_Adaptations :: AdaptationBank
  rt_ReasoningLog :: ReasoningLog
  rt_Reasoner :: reasoner_seam
  rt_PolicyJudge :: judge_seam
  rt_LM :: bool                 \<comment> \<open>whether a model is bound\<close>
  rt_CallHistory :: bool        \<comment> \<open>whether the bound model exposes its history\<close>
  rt_lm :: LMState
  rt_AdaptEvery :: int
  rt_Strategy :: "Strategy option"
  rt_Tools :: "Tool list"
  rt_Pipeline :: "stage list"
  rt_Budget :: "BudgetMonitor option"
  rt_ToolBinder :: ToolBinder
  rt_ToolPolicies :: "Policy list"
  rt_Librarian :: "Librarian option"
  rt_SessionStore :: "string option"
  rt_Panel :: "Panel option"
  rt_effects :: "(nat \<times> ctx) list"  \<comment> \<open>the handlers that ran, with their arguments\<close>

type_synonym 'a act = "(Runtime, 'a) eff"

type_synonym judge = "Policy \<Rightarrow> ctx \<Rightarrow> (LMState, bool \<times> string) eff"

record World =
  wd_clock :: "ReasoningLog \<Rightarrow> gotime"
  wd_provider :: provider
  wd_ctx_err :: "ReasoningLog \<Rightarrow> LMState \<Rightarrow> ear_error option"
  wd_pow :: "f64 \<Rightarrow> f64 \<Rightarrow> f64"
  wd_oor :: "f64 \<Rightarrow> int"
  wd_gates :: "nat \<Rightarrow> judge \<Rightarrow> judge"
  wd_judges :: "nat \<Rightarrow> judge"
  wd_handlers :: "nat \<Rightarrow> (nat \<times> ctx) list \<Rightarrow> ctx \<Rightarrow> (string, string) outcome \<times> duration"
  wd_reasoners :: "nat \<Rightarrow> Runtime \<Rightarrow> Intent \<Rightarrow> Workflow list \<Rightarrow> Research option \<Rightarrow> (ear_error, goval) outcome"
  wd_save :: "Runtime \<Rightarrow> ear_error option"

definition defaultPipeline :: "stage list" where
  "defaultPipeline =
     [governStage ''Policy'' False, discoverStage, selectStage, composeStage, scheduleStage,
      governStage ''Workflow policy'' True, delegateStage, recallStage, researchStage, reasonStage,
      formalizeStage, evidenceStage, explainStage, auditStage, memoryStage]"

fun stage_Name :: "stage \<Rightarrow> string" where
  "stage_Name (governStage s w) = ''govern''"
| "stage_Name discoverStage = ''discover''"
| "stage_Name selectStage = ''select''"
| "stage_Name composeStage = ''compose''"
| "stage_Name scheduleStage = ''schedule''"
| "stage_Name delegateStage = ''delegate''"
| "stage_Name recallStage = ''recall''"
| "stage_Name researchStage = ''research''"
| "stage_Name reasonStage = ''reason''"
| "stage_Name formalizeStage = ''formalize''"
| "stage_Name evidenceStage = ''evidence''"
| "stage_Name explainStage = ''explain''"
| "stage_Name auditStage = ''audit''"
| "stage_Name memoryStage = ''memory''"

definition PipelineNames :: "Runtime \<Rightarrow> string list" where
  "PipelineNames r = map stage_Name (rt_Pipeline r)"

definition no_calls :: LMState where
  "no_calls = \<lparr>lm_attempts = 0, lm_History = []\<rparr>"

definition NewRuntime :: "string \<Rightarrow> Runtime" where
  "NewRuntime name =
     \<lparr>rt_Name = name, rt_OrgID = ''default'', rt_Processes = [], rt_Policies = [], rt_Memory = NewMemory,
      rt_Experience = NewExperience, rt_Adaptations = NewAdaptationBank, rt_ReasoningLog = new_log,
      rt_Reasoner = DefaultReasoner, rt_PolicyJudge = DeterministicJudge, rt_LM = False,
      rt_CallHistory = False, rt_lm = no_calls, rt_AdaptEvery = 5, rt_Strategy = None, rt_Tools = [],
      rt_Pipeline = defaultPipeline, rt_Budget = None, rt_ToolBinder = NewToolBinder, rt_ToolPolicies = [],
      rt_Librarian = None, rt_SessionStore = None, rt_Panel = Some \<lparr>pn_Rounds = 0, pn_MaxTurns = 0\<rparr>,
      rt_effects = []\<rparr>"

definition AddProcess :: "Process \<Rightarrow> Runtime \<Rightarrow> Runtime" where
  "AddProcess p r = r\<lparr>rt_Processes := rt_Processes r @ [p]\<rparr>"

definition Runtime_AddPolicy :: "Policy \<Rightarrow> Runtime \<Rightarrow> Runtime" where
  "Runtime_AddPolicy p r = r\<lparr>rt_Policies := rt_Policies r @ [p]\<rparr>"

section \<open>Acting on the instance\<close>

definition put_record :: "World \<Rightarrow> Record \<Rightarrow> Runtime \<Rightarrow> Runtime" where
  "put_record w rec r = r\<lparr>rt_ReasoningLog := Log_Record (wd_clock w (rt_ReasoningLog r)) rec (rt_ReasoningLog r)\<rparr>"

definition recordA :: "World \<Rightarrow> Record \<Rightarrow> unit act" where
  "recordA w rec = updateS (put_record w rec)"

definition withLM :: "(LMState, 'a) eff \<Rightarrow> 'a act" where
  \<comment> \<open>a call of the bound model\<close>
  "withLM m r = (let (res, s) = m (rt_lm r) in (res, r\<lparr>rt_lm := s\<rparr>))"

definition askA :: "World \<Rightarrow> Signature \<Rightarrow> goval list \<Rightarrow> pvalue list act" where
  "askA w s vs = withLM (Signature_Run (wd_provider w) s vs)"

definition getS :: "('s \<Rightarrow> ('s, 'a) eff) \<Rightarrow> ('s, 'a) eff" where
  "getS f s = f s s"

definition checkpoint :: "World \<Rightarrow> unit act" where
  \<comment> \<open>if err := ctx.Err(); err != nil, return err\<close>
  "checkpoint w r =
     (case wd_ctx_err w (rt_ReasoningLog r) (rt_lm r) of Some e \<Rightarrow> (Inl e, r) | None \<Rightarrow> (Inr (), r))"

lemma getS_simp [simp]: "getS f s = f s s"
  by (simp add: getS_def)

definition quiet_world :: "judge \<Rightarrow> provider \<Rightarrow> World" where
  \<comment> \<open>a world for examples: one judge, one model, a clock that stands still\<close>
  "quiet_world j p =
     \<lparr>wd_clock = (\<lambda>_. 0), wd_provider = p, wd_ctx_err = (\<lambda>_ _. None), wd_pow = (\<lambda>_ _. FNaN),
      wd_oor = (\<lambda>_. 0), wd_gates = (\<lambda>_ j'. j'), wd_judges = (\<lambda>_. j),
      wd_handlers = (\<lambda>_ _ _. (Inr [], 0)), wd_reasoners = (\<lambda>_ _ _ _ _. Inr VNil), wd_save = (\<lambda>_. None)\<rparr>"

section \<open>The policy-judge seam\<close>

definition LMJudge_Judge :: "provider \<Rightarrow> judge \<Rightarrow> judge" where
  "LMJudge_Judge p fallback policy c =
     (if po_Statement policy = [] then fallback policy c
      else (\<lambda>s. case Signature_Run p JudgePolicyCompliance [VStr (po_Statement policy), VMap c] s of
               (Inl e, s') \<Rightarrow> (Inl (Wrapped (''judging policy '' @ go_quote (po_Name policy) @ '' against the model'') e), s')
             | (Inr out, s') \<Rightarrow> (Inr (out_bool out 0, out_text out 1), s')))"

fun judge_of :: "World \<Rightarrow> judge_seam \<Rightarrow> judge" where
  "judge_of w DeterministicJudge policy c = returnS (Policy_Judge (wd_pow w) policy c)"
| "judge_of w (LMJudge fallback) policy c =
     LMJudge_Judge (wd_provider w)
       (case fallback of Some j \<Rightarrow> judge_of w j | None \<Rightarrow> judge_of w DeterministicJudge) policy c"
| "judge_of w (CustomJudge n) policy c = wd_judges w n policy c"

definition PolicyJudge :: "World \<Rightarrow> Runtime \<Rightarrow> judge" where
  "PolicyJudge w r = judge_of w (rt_PolicyJudge r)"

end
