(* ===== verification/Governance.thy ===== *)
theory Governance
  imports Instance Concurrent
begin

text \<open>
  Governance: the judging of policies and the approval gates of \<^verbatim>\<open>pipeline.go\<close> (\<open>govern\<close>), the
  stop they turn into in \<^verbatim>\<open>runtime.go\<close> (\<open>enforce\<close>), and the tenant boundary of \<^verbatim>\<open>identity.go\<close>.  The
  policies of one gate are judged concurrently in the source; the results come back in policy
  order whatever the schedule (theory Concurrent), and the calls their judges make are numbered
  here in that order.
\<close>

section \<open>Judging\<close>

definition judge_policy :: "World \<Rightarrow> Runtime \<Rightarrow> ctx \<Rightarrow> Policy \<Rightarrow> (LMState, bool \<times> string) eff" where
  \<comment> \<open>a policy's own gate, or the runtime's judge\<close>
  "judge_policy w r c policy =
     (case po_Gate policy of
        Some g \<Rightarrow> wd_gates w g (PolicyJudge w r) policy c
      | None \<Rightarrow> PolicyJudge w r policy c)"

fun judge_all :: "(Policy \<Rightarrow> (LMState, bool \<times> string) eff) \<Rightarrow> Policy list \<Rightarrow> LMState \<Rightarrow>
    (Policy \<times> (ear_error, bool \<times> string) outcome) list \<times> LMState" where
  "judge_all j [] s = ([], s)"
| "judge_all j (p # ps) s =
     (let (res, s1) = j p s; (rest, s2) = judge_all j ps s1 in ((p, res) # rest, s2))"

definition approvalName :: "ApprovalVerdict \<Rightarrow> string" where
  "approvalName a = (if av_Approver a = [] then ''an unnamed approver'' else av_Approver a)"

record ruling =
  ru_stage :: string
  ru_output :: string
  ru_rationale :: string
  ru_violated :: bool

definition rule_policy :: "ApprovalVerdict option \<Rightarrow> Policy \<Rightarrow> bool \<Rightarrow> string \<Rightarrow> ruling" where
  \<comment> \<open>the body of the loop over the judgments, up to the record\<close>
  "rule_policy approval policy complies rationale =
     (let gated = (\<not> complies \<and> po_ApprovalRequired policy);
          verdict = (if gated then (case approval of Some a \<Rightarrow> av_Verdict a | None \<Rightarrow> None) else None);
          name = (case approval of Some a \<Rightarrow> approvalName a | None \<Rightarrow> ''an unnamed approver'');
          approver = (case approval of Some a \<Rightarrow> av_Approver a | None \<Rightarrow> []);
          note = (case approval of Some a \<Rightarrow> av_Note a | None \<Rightarrow> []);
          offList = (verdict = Some True \<and> \<not> ApproverAllowed policy approver);
          waived = (verdict = Some True \<and> \<not> offList);
          output = (if complies then ''complies''
                    else if \<not> gated then ''VIOLATED''
                    else if verdict = None then ''PENDING APPROVAL''
                    else if offList then ''REFUSED -- '' @ name @ '' is not an approved approver for '' @
                      po_Name policy @ '' (allowed: '' @ join_with '', '' (po_Approvers policy) @ '')''
                    else if waived then ''approved by '' @ name
                    else ''REJECTED by '' @ name)
      in \<lparr>ru_stage = (if gated \<and> verdict \<noteq> None then ''approval'' else ''policy''),
          ru_output = output,
          ru_rationale = rationale @ (if gated \<and> verdict \<noteq> None \<and> note \<noteq> [] then '' | approver: '' @ note else []),
          ru_violated = (\<not> complies \<and> \<not> waived)\<rparr>)"

definition ruling_record :: "Intent \<Rightarrow> Policy \<Rightarrow> ruling \<Rightarrow> Record" where
  "ruling_record intent policy ru =
     (record_of (ru_stage ru)
        [(''policy'', VStr (po_Name policy)), (''statement'', VStr (po_Statement policy)),
         (''context'', VMap (in_Context intent))]
        (ru_output ru))\<lparr>rc_Rationale := ru_rationale ru\<rparr>"

fun govern_fold :: "World \<Rightarrow> Intent \<Rightarrow> ApprovalVerdict option \<Rightarrow>
    (Policy \<times> (ear_error, bool \<times> string) outcome) list \<Rightarrow> Policy list \<Rightarrow> Policy list act" where
  "govern_fold w intent approval [] violations r = (Inr violations, r)"
| "govern_fold w intent approval ((policy, res) # rest) violations r =
     (case res of
        Inl e \<Rightarrow> (Inl (Wrapped (''judging policy '' @ go_quote (po_Name policy)) e), r)
      | Inr (complies, rationale) \<Rightarrow>
          (let ru = rule_policy approval policy complies rationale
           in govern_fold w intent approval rest
                (if ru_violated ru then violations @ [policy] else violations)
                (put_record w (ruling_record intent policy ru) r)))"

definition govern :: "World \<Rightarrow> Policy list \<Rightarrow> Intent \<Rightarrow> ApprovalVerdict option \<Rightarrow> Policy list act" where
  "govern w policies intent approval r =
     (if length policies = 0 then (Inr [], r)
      else (let (results, s) = judge_all (judge_policy w r (in_Context intent)) policies (rt_lm r)
            in govern_fold w intent approval results [] (r\<lparr>rt_lm := s\<rparr>)))"

definition workflowPolicies :: "Workflow list \<Rightarrow> Policy list" where
  "workflowPolicies ws = concat (map wf_Policies ws)"

section \<open>Stopping the cycle\<close>

definition rejects :: "ApprovalVerdict option \<Rightarrow> bool" where
  "rejects approval \<longleftrightarrow> (case approval of Some a \<Rightarrow> av_Verdict a = Some False | None \<Rightarrow> False)"

definition pending_record :: "Policy list \<Rightarrow> Record" where
  "pending_record pending =
     record_of ''approval'' [(''policies'', VStrs (policyNames pending))]
       (''PENDING -- human approval required for: '' @ join_with '', '' (policyNames pending))"

definition enforce :: "World \<Rightarrow> Policy list \<Rightarrow> ApprovalVerdict option \<Rightarrow> string \<Rightarrow> unit act" where
  "enforce w violations approval scope =
     (if length violations = 0 then returnS ()
      else (let blocking = filter (\<lambda>p. \<not> po_ApprovalRequired p \<or> rejects approval) violations;
                pending = filter (\<lambda>p. \<not> (\<not> po_ApprovalRequired p \<or> rejects approval)) violations
            in if 0 < length blocking then failS (PolicyViolationError scope blocking)
               else thenS (recordA w (pending_record pending)) (failS (ApprovalRequiredError pending))))"

definition governStage_Run :: "World \<Rightarrow> string \<Rightarrow> Policy list \<Rightarrow> Intent \<Rightarrow> ApprovalVerdict option \<Rightarrow> unit act" where
  "governStage_Run w scope policies intent approval =
     bindS (govern w policies intent approval) (\<lambda>violations. enforce w violations approval scope)"

fun enforce_loop :: "judge \<Rightarrow> ctx \<Rightarrow> Policy list \<Rightarrow> (LMState, Policy list) eff" where
  "enforce_loop j c [] = returnS []"
| "enforce_loop j c (p # ps) =
     bindS (j p c) (\<lambda>(complies, _). bindS (enforce_loop j c ps)
       (\<lambda>out. returnS (if complies then out else p # out)))"

definition EnforcePolicies :: "World \<Rightarrow> ctx \<Rightarrow> Policy list act" where
  "EnforcePolicies w c r = withLM (enforce_loop (PolicyJudge w r) c (rt_Policies r)) r"

section \<open>The tenant boundary\<close>

definition MayActAs :: "Claim \<Rightarrow> string \<Rightarrow> bool" where
  "MayActAs c orgID = list_ex (\<lambda>i. i = orgID) (cl_OrgIDs c)"

definition Require :: "Claim \<Rightarrow> string \<Rightarrow> ear_error option" where
  "Require c orgID =
     (if MayActAs c orgID then None else Some (TenantBoundaryError (cl_Subject c) orgID (cl_OrgIDs c)))"

definition checkTenantBoundary :: "World \<Rightarrow> Claim option \<Rightarrow> unit act" where
  "checkTenantBoundary w claim =
     (case claim of
        None \<Rightarrow> returnS ()
      | Some c \<Rightarrow> getS (\<lambda>r.
          case Require c (rt_OrgID r) of
            None \<Rightarrow> returnS ()
          | Some e \<Rightarrow>
              thenS (recordA w (record_of ''tenant''
                [(''subject'', VStr (cl_Subject c)), (''org_id'', VStr (rt_OrgID r)),
                 (''authorized_for'', VStrs (cl_OrgIDs c))]
                (''REFUSED -- '' @ error_text e))) (failS e)))"

section \<open>What passes a gate\<close>

definition waives :: "ApprovalVerdict option \<Rightarrow> Policy \<Rightarrow> bool" where
  \<comment> \<open>an allowed approver said yes to a policy that asks for approval\<close>
  "waives approval p \<longleftrightarrow>
     po_ApprovalRequired p \<and>
     (\<exists>a. approval = Some a \<and> av_Verdict a = Some True \<and> ApproverAllowed p (av_Approver a))"

fun clears :: "ApprovalVerdict option \<Rightarrow> Policy \<times> (ear_error, bool \<times> string) outcome \<Rightarrow> bool" where
  "clears approval (p, Inl e) = False"
| "clears approval (p, Inr (complies, rationale)) = (complies \<or> waives approval p)"

lemma rule_policy_violated: "ru_violated (rule_policy approval p complies rationale) \<longleftrightarrow> \<not> (complies \<or> waives approval p)"
  by (cases approval) (auto simp: rule_policy_def Let_def waives_def)

definition judged_ok :: "(ear_error, bool \<times> string) outcome \<Rightarrow> bool" where
  "judged_ok res \<longleftrightarrow> (\<exists>x. res = Inr x)"

definition judged_record :: "Intent \<Rightarrow> ApprovalVerdict option \<Rightarrow> Policy \<times> (ear_error, bool \<times> string) outcome \<Rightarrow> Record" where
  "judged_record intent approval pr =
     (case snd pr of
        Inr (complies, rationale) \<Rightarrow> ruling_record intent (fst pr) (rule_policy approval (fst pr) complies rationale)
      | Inl e \<Rightarrow> record_of [] [] [])"

definition put_records :: "World \<Rightarrow> Record list \<Rightarrow> Runtime \<Rightarrow> Runtime" where
  "put_records w recs r = fold (put_record w) recs r"

lemma judged_record_Inr [simp]:
  "judged_record intent approval (p, Inr (complies, rationale)) =
     ruling_record intent p (rule_policy approval p complies rationale)"
  by (simp add: judged_record_def)

lemma put_records_simps [simp]:
  "put_records w [] r = r" "put_records w (x # xs) r = put_records w xs (put_record w x r)"
  by (simp_all add: put_records_def)

lemma govern_fold_ok:
  "\<forall>x \<in> set results. judged_ok (snd x) \<Longrightarrow>
   govern_fold w intent approval results violations r =
     (Inr (violations @ map fst (filter (\<lambda>x. \<not> clears approval x) results)),
      put_records w (map (judged_record intent approval) results) r)"
proof (induction results arbitrary: violations r)
  case (Cons x xs)
  obtain p complies rationale where x: "x = (p, Inr (complies, rationale))"
    using Cons.prems by (cases x) (auto simp: judged_ok_def)
  then show ?case
    using Cons by (simp add: rule_policy_violated)
qed simp

lemma govern_fold_error:
  "\<not> (\<forall>x \<in> set results. judged_ok (snd x)) \<Longrightarrow>
   \<exists>pre p e post. results = pre @ (p, Inl e) # post \<and> (\<forall>x \<in> set pre. judged_ok (snd x)) \<and>
     govern_fold w intent approval results violations r =
       (Inl (Wrapped (''judging policy '' @ go_quote (po_Name p)) e),
        put_records w (map (judged_record intent approval) pre) r)"
proof (induction results arbitrary: violations r)
  case (Cons x xs)
  obtain p res where x: "x = (p, res)" by (cases x)
  show ?case
  proof (cases res)
    case (Inl e)
    then show ?thesis
      by (intro exI [of _ "[]"] exI [of _ p] exI [of _ e] exI [of _ xs]) (simp add: x)
  next
    case (Inr v)
    obtain complies rationale where v: "v = (complies, rationale)" by (cases v)
    let ?ru = "rule_policy approval p complies rationale"
    have "\<not> (\<forall>x \<in> set xs. judged_ok (snd x))" using Cons.prems Inr x by (auto simp: judged_ok_def)
    then obtain pre q e post where IH: "xs = pre @ (q, Inl e) # post" "\<forall>x \<in> set pre. judged_ok (snd x)"
      "govern_fold w intent approval xs (if ru_violated ?ru then violations @ [p] else violations)
         (put_record w (ruling_record intent p ?ru) r) =
       (Inl (Wrapped (''judging policy '' @ go_quote (po_Name q)) e),
        put_records w (map (judged_record intent approval) pre) (put_record w (ruling_record intent p ?ru) r))"
      using Cons.IH by blast
    then show ?thesis
      by (intro exI [of _ "x # pre"] exI [of _ q] exI [of _ e] exI [of _ post])
        (simp add: x Inr v Let_def judged_ok_def)
  qed
qed simp

lemma judge_all_length: "length (fst (judge_all j ps s)) = length ps"
  by (induction ps arbitrary: s) (simp_all add: Let_def case_prod_beta)

lemma map_fst_judge_all: "map fst (fst (judge_all j ps s)) = ps"
  by (induction ps arbitrary: s) (simp_all add: Let_def case_prod_beta)

section \<open>Properties\<close>

definition outcomes :: "World \<Rightarrow> Runtime \<Rightarrow> Policy list \<Rightarrow> Intent \<Rightarrow> (Policy \<times> (ear_error, bool \<times> string) outcome) list" where
  \<comment> \<open>what the judges of a gate answer\<close>
  "outcomes w r policies intent = fst (judge_all (judge_policy w r (in_Context intent)) policies (rt_lm r))"

definition gate_verdict :: "string \<Rightarrow> ApprovalVerdict option \<Rightarrow>
    (Policy \<times> (ear_error, bool \<times> string) outcome) list \<Rightarrow> (ear_error, unit) outcome" where
  \<comment> \<open>the contract of a gate: an error of a judge first, then hard violations, then what waits for a human\<close>
  "gate_verdict scope approval results =
     (case find (\<lambda>x. \<not> judged_ok (snd x)) results of
        Some (p, Inl e) \<Rightarrow> Inl (Wrapped (''judging policy '' @ go_quote (po_Name p)) e)
      | _ \<Rightarrow>
          (let bad = map fst (filter (\<lambda>x. \<not> clears approval x) results);
               hard = filter (\<lambda>p. \<not> po_ApprovalRequired p \<or> rejects approval) bad
           in if bad = [] then Inr ()
              else if hard \<noteq> [] then Inl (PolicyViolationError scope hard)
              else Inl (ApprovalRequiredError bad)))"

lemma filter_none_all: "filter P xs = [] \<Longrightarrow> filter (\<lambda>x. \<not> P x) xs = xs"
  by (induction xs) (auto split: if_splits)

lemma fst_enforce:
  "fst (enforce w bad approval scope r) =
     (let hard = filter (\<lambda>p. \<not> po_ApprovalRequired p \<or> rejects approval) bad
      in if bad = [] then Inr ()
         else if hard \<noteq> [] then Inl (PolicyViolationError scope hard)
         else Inl (ApprovalRequiredError bad))"
proof (cases "filter (\<lambda>p. \<not> po_ApprovalRequired p \<or> rejects approval) bad")
  case Nil
  then show ?thesis
    using filter_none_all [OF Nil] by (simp add: enforce_def Let_def recordA_def)
qed (auto simp: enforce_def Let_def)

lemma find_split:
  "xs = pre @ x # post \<Longrightarrow> \<forall>y \<in> set pre. \<not> P y \<Longrightarrow> P x \<Longrightarrow> find P xs = Some x"
  by (induction pre arbitrary: xs) auto

lemma find_none: "\<forall>x \<in> set xs. \<not> P x \<Longrightarrow> find P xs = None"
  by (induction xs) auto

lemma govern_cases:
  obtains (ok) "\<forall>x \<in> set (outcomes w r ps intent). judged_ok (snd x)"
      "fst (govern w ps intent approval r) = Inr (map fst (filter (\<lambda>x. \<not> clears approval x) (outcomes w r ps intent)))"
      "find (\<lambda>x. \<not> judged_ok (snd x)) (outcomes w r ps intent) = None"
  | (err) p e where "find (\<lambda>x. \<not> judged_ok (snd x)) (outcomes w r ps intent) = Some (p, Inl e)"
      "fst (govern w ps intent approval r) = Inl (Wrapped (''judging policy '' @ go_quote (po_Name p)) e)"
proof (cases "\<forall>x \<in> set (outcomes w r ps intent). judged_ok (snd x)")
  case True
  then have "fst (govern w ps intent approval r) =
      Inr (map fst (filter (\<lambda>x. \<not> clears approval x) (outcomes w r ps intent)))"
    by (simp add: govern_def outcomes_def case_prod_beta govern_fold_ok)
  then show thesis using True find_none [of "outcomes w r ps intent" "\<lambda>x. \<not> judged_ok (snd x)"] by (intro ok) auto
next
  case False
  let ?s = "snd (judge_all (judge_policy w r (in_Context intent)) ps (rt_lm r))"
  obtain pre p e post where f: "outcomes w r ps intent = pre @ (p, Inl e) # post" "\<forall>x \<in> set pre. judged_ok (snd x)"
    "govern_fold w intent approval (outcomes w r ps intent) [] (r\<lparr>rt_lm := ?s\<rparr>) =
       (Inl (Wrapped (''judging policy '' @ go_quote (po_Name p)) e),
        put_records w (map (judged_record intent approval) pre) (r\<lparr>rt_lm := ?s\<rparr>))"
    using govern_fold_error [OF False] by blast
  have "ps \<noteq> []" using f(1) by (auto simp: outcomes_def)
  then have "fst (govern w ps intent approval r) = Inl (Wrapped (''judging policy '' @ go_quote (po_Name p)) e)"
    using f(3) by (simp add: govern_def outcomes_def case_prod_beta)
  moreover have "find (\<lambda>x. \<not> judged_ok (snd x)) (outcomes w r ps intent) = Some (p, Inl e)"
    using f(1,2) by (intro find_split) (auto simp: judged_ok_def)
  ultimately show thesis by (intro err)
qed

text \<open>
  C8.  A governance gate decides exactly by the answers of its judges and the human verdict: the
  first judge that errs fails the gate closed; a policy that does not comply stops it unless it
  asks for approval and an allowed approver said yes; what stops it is a hard block when one of
  those policies does not ask for approval or the human rejected, and waits for approval
  otherwise; and it passes when nothing is left.
\<close>

theorem governStage_outcome:
  "fst (governStage_Run w scope ps intent approval r) = gate_verdict scope approval (outcomes w r ps intent)"
proof (cases rule: govern_cases [of w r ps intent approval])
  case ok
  then show ?thesis
    by (cases "govern w ps intent approval r")
      (simp add: governStage_Run_def bindS_def gate_verdict_def fst_enforce Let_def)
next
  case (err p e)
  then show ?thesis
    by (cases "govern w ps intent approval r") (simp add: governStage_Run_def bindS_def gate_verdict_def)
qed

lemma find_Some_iff': "find P xs = Some x \<Longrightarrow> x \<in> set xs \<and> P x"
  by (induction xs) (auto split: if_splits)

lemma gate_verdict_pass: "gate_verdict scope approval results = Inr () \<longleftrightarrow> (\<forall>x \<in> set results. clears approval x)"
proof (cases "find (\<lambda>x. \<not> judged_ok (snd x)) results")
  case None
  then show ?thesis
    by (auto simp: gate_verdict_def Let_def filter_empty_conv)
next
  case (Some x)
  obtain p res where x: "x = (p, res)" by (cases x)
  have m: "(p, res) \<in> set results" "\<not> judged_ok res" using find_Some_iff' [OF Some] x by auto
  then obtain e where "res = Inl e" by (cases res) (auto simp: judged_ok_def)
  then show ?thesis using m Some x by (force simp: gate_verdict_def)
qed

text \<open>
  Whatever the judges answer, one gate writes one record per policy judged, in the order of
  the policies, up to the first judge that erred: the trail of a gate does not depend on the
  order in which its concurrent judgments finished.
\<close>

theorem govern_trail:
  "\<exists>n s. snd (govern w ps intent approval r) =
      put_records w (map (judged_record intent approval) (take n (outcomes w r ps intent))) (r\<lparr>rt_lm := s\<rparr>) \<and>
    (n = length ps \<longleftrightarrow> find (\<lambda>x. \<not> judged_ok (snd x)) (outcomes w r ps intent) = None) \<and>
    map fst (outcomes w r ps intent) = ps"
proof (cases "ps = []")
  case True
  then show ?thesis by (intro exI [of _ 0] exI [of _ "rt_lm r"]) (simp add: govern_def outcomes_def)
next
  case False
  let ?s = "snd (judge_all (judge_policy w r (in_Context intent)) ps (rt_lm r))"
  let ?os = "outcomes w r ps intent"
  have g: "govern w ps intent approval r = govern_fold w intent approval ?os [] (r\<lparr>rt_lm := ?s\<rparr>)"
    using False by (simp add: govern_def outcomes_def case_prod_beta)
  have os: "map fst ?os = ps" "length ?os = length ps"
    using map_fst_judge_all judge_all_length by (simp_all add: outcomes_def)
  show ?thesis
  proof (cases "\<forall>x \<in> set ?os. judged_ok (snd x)")
    case True
    then show ?thesis
      using g os govern_fold_ok [OF True] find_none [of ?os "\<lambda>x. \<not> judged_ok (snd x)"]
      by (intro exI [of _ "length ps"] exI [of _ ?s]) simp
  next
    case bad: False
    then obtain pre p e post where f: "?os = pre @ (p, Inl e) # post" "\<forall>x \<in> set pre. judged_ok (snd x)"
      "govern_fold w intent approval ?os [] (r\<lparr>rt_lm := ?s\<rparr>) =
         (Inl (Wrapped (''judging policy '' @ go_quote (po_Name p)) e),
          put_records w (map (judged_record intent approval) pre) (r\<lparr>rt_lm := ?s\<rparr>))"
      using govern_fold_error [OF bad] by blast
    have "find (\<lambda>x. \<not> judged_ok (snd x)) ?os = Some (p, Inl e)"
      using f(1,2) by (intro find_split) (auto simp: judged_ok_def)
    moreover have "length pre < length ps" using f(1) os(2) by simp
    ultimately show ?thesis
      using f(1,3) g os(1) by (intro exI [of _ "length pre"] exI [of _ ?s]) simp
  qed
qed

text \<open>
  A gate never passes on the word of somebody who may not give it: when one policy's
  judge finds it violated, and the policy either asks for no approval or lists approvers the
  human is not among, the cycle stops.
\<close>

theorem unauthorised_waiver_stops:
  assumes "(p, Inr (False, why)) \<in> set (outcomes w r ps intent)"
    and "\<not> po_ApprovalRequired p \<or> \<not> ApproverAllowed p (av_Approver a)"
  shows "\<exists>e. fst (governStage_Run w scope ps intent (Some a) r) = Inl e"
proof -
  have "\<not> clears (Some a) (p, Inr (False, why))" using assms(2) by (simp add: waives_def)
  then have "gate_verdict scope (Some a) (outcomes w r ps intent) \<noteq> Inr ()"
    using assms(1) gate_verdict_pass by blast
  then have "fst (governStage_Run w scope ps intent (Some a) r) \<noteq> Inr ()"
    by (simp add: governStage_outcome)
  then show ?thesis by (cases "fst (governStage_Run w scope ps intent (Some a) r)") auto
qed

definition deny :: judge where
  "deny policy c = returnS (False, ''over the limit'')"

definition payments_policy :: Policy where
  "payments_policy =
     \<lparr>po_ref = 1, po_Name = ''Payments'', po_Statement = ''no payment over the limit'', po_FallbackExpression = [],
      po_ApprovalRequired = False, po_Approvers = [], po_Escalation = [], po_EscalationDays = None, po_Gate = None\<rparr>"

definition guarded_runtime :: Runtime where
  "guarded_runtime = (NewRuntime ''desk'')\<lparr>rt_PolicyJudge := CustomJudge 0, rt_Policies := [payments_policy]\<rparr>"

lemma unauthorised_waiver_stops_witness:
  "\<exists>e. fst (governStage_Run (quiet_world deny (ScriptedLM [] [])) ''Policy'' [payments_policy]
       (NewIntent ''pay'' None) (Some \<lparr>av_Approver = ''mallory'', av_Verdict = Some True, av_Note = []\<rparr>) guarded_runtime) = Inl e"
  by (rule unauthorised_waiver_stops [where p = payments_policy and why = "''over the limit''"])
    (simp_all add: outcomes_def judge_policy_def PolicyJudge_def payments_policy_def guarded_runtime_def
      quiet_world_def deny_def)

end
