(* ===== verification/Tools.thy ===== *)
theory Tools
  imports Governance
begin

text \<open>
  Bound tools (\<^verbatim>\<open>tool_binder.go\<close>) and the tool-use loop (\<^verbatim>\<open>tool_reasoning.go\<close>): binding only what
  the stack declares, the governed call of a tool, and the bounded loop in which the model calls
  tools before it decides.
\<close>

section \<open>Registries keyed by normalised name\<close>

text \<open>
  The binder keeps a table of tools and the order of their keys.  The locale states what its
  users rely on: what was added last under a name, in any spelling, is what is found.
\<close>

locale named_registry =
  fixes lookup :: "'r \<Rightarrow> string \<Rightarrow> 'v option"
    and add :: "'v \<Rightarrow> 'r \<Rightarrow> 'r"
    and name_of :: "'v \<Rightarrow> string"
    and listing :: "'r \<Rightarrow> 'v list"
    and ok :: "'r \<Rightarrow> bool"
  assumes lookup_add: "ok r \<Longrightarrow>
      lookup (add v r) n = (if Normalize n = Normalize (name_of v) then Some v else lookup r n)"
    and ok_add: "ok r \<Longrightarrow> ok (add v r)"
    and listed: "ok r \<Longrightarrow> v \<in> set (listing r) \<longleftrightarrow> (\<exists>n. lookup r n = Some v)"
begin

lemma ok_adds: "ok r \<Longrightarrow> ok (fold add vs r)"
  by (induction vs arbitrary: r) (simp_all add: ok_add)

lemma lookup_adds:
  "ok r \<Longrightarrow> lookup (fold add vs r) n =
     (case find (\<lambda>v. Normalize n = Normalize (name_of v)) (rev vs) of Some v \<Rightarrow> Some v | None \<Rightarrow> lookup r n)"
proof (induction vs arbitrary: r)
  case (Cons v vs)
  have "find P (xs @ [x]) = (case find P xs of Some y \<Rightarrow> Some y | None \<Rightarrow> if P x then Some x else None)"
    for P xs and x :: 'v by (induction xs) auto
  then show ?case using Cons ok_add by (simp add: lookup_add split: option.split)
qed simp

lemma spelling: "ok r \<Longrightarrow> Normalize n = Normalize m \<Longrightarrow> lookup (add v r) n = lookup (add v r) m \<or>
    lookup r n \<noteq> lookup r m"
  by (simp add: lookup_add)

end

definition toolKey :: "string \<Rightarrow> string" where
  "toolKey name = Normalize name"

definition binder_add :: "BoundTool \<Rightarrow> ToolBinder \<Rightarrow> ToolBinder" where
  "binder_add t b =
     (let key = toolKey (bt_Name t) in
      b\<lparr>tb_order := (if map_of (tb_bound b) key = None then tb_order b @ [key] else tb_order b),
        tb_bound := map_put key t (tb_bound b)\<rparr>)"

definition binder_Get :: "ToolBinder \<Rightarrow> string \<Rightarrow> BoundTool option" where
  "binder_Get b name = map_of (tb_bound b) (toolKey name)"

definition binder_Tools :: "ToolBinder \<Rightarrow> BoundTool list" where
  "binder_Tools b = List.map_filter (map_of (tb_bound b)) (tb_order b)"

definition binder_ok :: "ToolBinder \<Rightarrow> bool" where
  "binder_ok b \<longleftrightarrow>
     set (tb_order b) = dom (map_of (tb_bound b)) \<and> distinct (tb_order b) \<and>
     (\<forall>(k, t) \<in> set (tb_bound b). k = toolKey (bt_Name t)) \<and> distinct (map fst (tb_bound b))"

lemma binder_ok_new: "binder_ok NewToolBinder"
  by (simp add: binder_ok_def NewToolBinder_def)

lemma binder_ok_add: "binder_ok b \<Longrightarrow> binder_ok (binder_add t b)"
proof -
  assume ok: "binder_ok b"
  have "(k, u) \<in> set (map_put key t m) \<Longrightarrow> distinct (map fst m) \<Longrightarrow> (k, u) = (key, t) \<or> (k, u) \<in> set m"
    for key :: string and m k u
    using map_of_map_put [of key t m] by (metis distinct_map_put map_of_SomeD map_of_is_SomeI fun_upd_apply option.inject)
  with ok show ?thesis
    by (auto simp: binder_ok_def binder_add_def Let_def split: if_splits) blast+
qed

interpretation toolbox: named_registry binder_Get binder_add bt_Name binder_Tools binder_ok
proof
  show "binder_Get (binder_add v r) n = (if Normalize n = Normalize (bt_Name v) then Some v else binder_Get r n)" for v r n
    by (simp add: binder_Get_def binder_add_def toolKey_def Let_def)
  show "binder_ok r \<Longrightarrow> binder_ok (binder_add v r)" for v r by (rule binder_ok_add)
  show "v \<in> set (binder_Tools r) \<longleftrightarrow> (\<exists>n. binder_Get r n = Some v)" if ok: "binder_ok r" for v r
  proof
    assume "v \<in> set (binder_Tools r)"
    then obtain k where k: "map_of (tb_bound r) k = Some v"
      by (auto simp: binder_Tools_def List.map_filter_def)
    then have "k = toolKey (bt_Name v)" using ok map_of_SomeD by (fastforce simp: binder_ok_def)
    then show "\<exists>n. binder_Get r n = Some v" using k by (auto simp: binder_Get_def)
  next
    assume "\<exists>n. binder_Get r n = Some v"
    then obtain n where n: "map_of (tb_bound r) (toolKey n) = Some v" by (auto simp: binder_Get_def)
    then have "toolKey n \<in> set (tb_order r)" using ok by (auto simp: binder_ok_def)
    with n show "v \<in> set (binder_Tools r)" by (force simp: binder_Tools_def List.map_filter_def)
  qed
qed

section \<open>Binding\<close>

definition Describe_bound :: "BoundTool \<Rightarrow> string" where
  "Describe_bound t = bt_Name t @ ''('' @ join_with '', '' (bt_Parameters t) @ ''): '' @ bt_Description t"

definition BindTool :: "string \<Rightarrow> nat \<Rightarrow> string list \<Rightarrow> unit act" where
  "BindTool name handler params = getS (\<lambda>r.
     case find (\<lambda>t. toolKey (tl_Name t) = toolKey name) (rt_Tools r) of
       None \<Rightarrow> failS (Fault (''cannot bind undeclared tool '' @ go_quote name @
         '' -- declare it in memory.md's ## Tools first''))
     | Some declared \<Rightarrow>
         updateS (\<lambda>r. r\<lparr>rt_ToolBinder := binder_add
           \<lparr>bt_Name = tl_Name declared, bt_Description = tl_Description declared, bt_Parameters = params,
             bt_Handler = handler\<rparr> (rt_ToolBinder r)\<rparr>))"

section \<open>The governed call\<close>

definition sq :: "string \<Rightarrow> string" where
  \<comment> \<open>the verb %s between single quotes\<close>
  "sq s = [CHR 0x27] @ s @ [CHR 0x27]"

definition call_context :: "BoundTool \<Rightarrow> ctx \<Rightarrow> ctx" where
  "call_context t args = fold (\<lambda>(k, v) m. map_put k v m) args [(''tool'', VStr (bt_Name t))]"

fun tool_gate :: "judge \<Rightarrow> ctx \<Rightarrow> Policy list \<Rightarrow> LMState \<Rightarrow> (Policy \<times> string) option \<times> LMState" where
  \<comment> \<open>the loop over the tool policies: the first that refuses, with the rationale\<close>
  "tool_gate j c [] s = (None, s)"
| "tool_gate j c (p # ps) s =
     (case j p c s of
        (Inl e, s1) \<Rightarrow> (Some (p, ''policy could not be judged: '' @ error_text e), s1)
      | (Inr (complies, rationale), s1) \<Rightarrow>
          if complies then tool_gate j c ps s1 else (Some (p, rationale), s1))"

definition blocked_record :: "BoundTool \<Rightarrow> ctx \<Rightarrow> Policy \<Rightarrow> string \<Rightarrow> Record" where
  "blocked_record t args p rationale =
     (record_of ''tool''
        [(''tool'', VStr (bt_Name t)), (''arguments'', VMap args), (''policy'', VStr (po_Name p))]
        (''BLOCKED by policy '' @ sq (po_Name p)))\<lparr>rc_Rationale := rationale\<rparr>"

definition ms_of :: "duration \<Rightarrow> int" where
  \<comment> \<open>Duration.Milliseconds: truncated towards zero\<close>
  "ms_of d = (if 0 \<le> d then d div 1000000 else - ((- d) div 1000000))"

definition run_handler :: "World \<Rightarrow> BoundTool \<Rightarrow> ctx \<Rightarrow> string act" where
  "run_handler w t args r =
     (let (res, took) = wd_handlers w (bt_Handler t) (rt_effects r) args;
          output = (case res of Inr s \<Rightarrow> s | Inl e \<Rightarrow> ''Tool '' @ sq (bt_Name t) @ '' failed: '' @ e);
          recordOutput = (case res of Inr s \<Rightarrow> output | Inl e \<Rightarrow> ''FAILED -- '' @ output);
          r1 = r\<lparr>rt_effects := rt_effects r @ [(bt_Handler t, args)]\<rparr>
      in (Inr output,
          put_record w (record_of ''tool''
            [(''tool'', VStr (bt_Name t)), (''arguments'', VMap args), (''duration_ms'', VInt64 (ms_of took))]
            recordOutput) r1))"

definition InvokeTool :: "World \<Rightarrow> string \<Rightarrow> ctx \<Rightarrow> string act" where
  "InvokeTool w name args r =
     (case binder_Get (rt_ToolBinder r) name of
        None \<Rightarrow> (Inr (''no tool named '' @ go_quote name @ '' is bound''), r)
      | Some t \<Rightarrow>
          (let (refusal, s) = tool_gate (PolicyJudge w r) (call_context t args) (rt_ToolPolicies r) (rt_lm r);
               r1 = r\<lparr>rt_lm := s\<rparr>
           in case refusal of
                Some (p, rationale) \<Rightarrow>
                  (Inr (''Tool '' @ sq (bt_Name t) @ '' blocked by policy '' @ sq (po_Name p) @ '': '' @ rationale),
                   put_record w (blocked_record t args p rationale) r1)
              | None \<Rightarrow> run_handler w t args r1))"

section \<open>The tool-use loop\<close>

definition toolCatalogue :: "BoundTool list \<Rightarrow> string" where
  "toolCatalogue ts = join_with [newline] (map Describe_bound ts)"

definition toolNames :: "BoundTool list \<Rightarrow> string" where
  "toolNames ts = (if length ts = 0 then ''none'' else join_with '', '' (map bt_Name ts))"

definition coerceArgs :: "(string \<times> string) list \<Rightarrow> ctx" where
  "coerceArgs raw = map (\<lambda>(k, v). (k, Coerce v)) raw"

definition arg_text :: "ctx \<Rightarrow> string \<Rightarrow> string" where
  "arg_text args k = k @ ''='' @ Sprint (value_of args k)"

definition argsKey :: "ctx \<Rightarrow> string" where
  "argsKey args = concat (map (\<lambda>k. arg_text args k @ '';'') (sorted_keys args))"

definition renderArgs :: "ctx \<Rightarrow> string" where
  "renderArgs args = join_with '', '' (map (arg_text args) (sorted_keys args))"

definition toolResultFailed :: "string \<Rightarrow> bool" where
  "toolResultFailed result \<longleftrightarrow>
     contains_str ''failed:'' result \<or> contains_str ''blocked by policy'' result \<or>
     has_prefix ''no tool named'' result"

record loop_state =
  ls_gathered :: "string list"
  ls_failedCalls :: "string list"  \<comment> \<open>the set of the keys of failed calls\<close>
  ls_recoveries :: nat

definition loop_start :: loop_state where
  "loop_start = \<lparr>ls_gathered = [], ls_failedCalls = [], ls_recoveries = 0\<rparr>"

definition gatheredText :: "string list \<Rightarrow> string" where
  "gatheredText g = (if 0 < length g then join_with [newline] g else ''none yet'')"

definition maxToolRecoveries :: nat where "maxToolRecoveries = 3"

definition recovery_note :: "string \<Rightarrow> string \<Rightarrow> string" where
  "recovery_note toolName available =
     ''(recovered: '' @
     (if toolName \<noteq> [] then ''no tool named '' @ sq toolName @ '' -- available tools: '' @ available
      else ''no tool call and no decision were given'') @
     ''; call a listed tool or give your final decision)''"

definition refusal_note :: "string \<Rightarrow> string" where
  "refusal_note name =
     ''(refused: the previous identical '' @ name @ '' call already failed -- diagnose that error '' @
     ''and change the input before retrying, or give your final decision)''"

definition after_call :: "string \<Rightarrow> string \<Rightarrow> string \<Rightarrow> loop_state \<Rightarrow> loop_state" where
  \<comment> \<open>a call ran: its line, and the failed calls after it\<close>
  "after_call line key result st =
     st\<lparr>ls_gathered := ls_gathered st @ [line],
        ls_failedCalls := (if toolResultFailed result then key # ls_failedCalls st else [])\<rparr>"

fun toolLoop :: "World \<Rightarrow> string \<Rightarrow> string \<Rightarrow> ctx \<Rightarrow> BoundTool list \<Rightarrow> nat \<Rightarrow> loop_state \<Rightarrow>
    (string + string list) act" where
  \<comment> \<open>the loop with its remaining turns: a decision, or the facts gathered when it ends without one\<close>
  "toolLoop w intent capabilities c tools 0 st r = (Inr (Inr (ls_gathered st)), r)"
| "toolLoop w intent capabilities c tools (Suc n) st r =
     bindS (thenS (checkpoint w)
       (askA w ChooseToolAction [VStr intent, VMap c, VStr capabilities, VStr (toolCatalogue tools),
          VStr (gatheredText (ls_gathered st))]))
       (\<lambda>out r1.
          let toolName = TrimSpace (out_text out 0); decision = TrimSpace (out_text out 2) in
          case (if toolName = [] then None else binder_Get (rt_ToolBinder r1) toolName) of
            None \<Rightarrow>
              if decision \<noteq> [] then (Inr (Inl decision), r1)
              else if ls_recoveries st < maxToolRecoveries then
                toolLoop w intent capabilities c tools n
                  (st\<lparr>ls_recoveries := ls_recoveries st + 1,
                      ls_gathered := ls_gathered st @ [recovery_note toolName (toolNames tools)]\<rparr>) r1
              else (Inr (Inr (ls_gathered st)), r1)
          | Some chosen \<Rightarrow>
              (let args = coerceArgs (out_map out 1);
                   key = toolKey (bt_Name chosen) @ ''::'' @ argsKey args
               in if key \<in> set (ls_failedCalls st) then
                    toolLoop w intent capabilities c tools n
                      (st\<lparr>ls_gathered := ls_gathered st @ [refusal_note (bt_Name chosen)]\<rparr>) r1
                  else
                    bindS (InvokeTool w (bt_Name chosen) args)
                      (\<lambda>result. toolLoop w intent capabilities c tools n
                         (after_call (bt_Name chosen @ ''('' @ renderArgs args @ '') -> '' @ result) key result st)) r1)) r"

definition iteration_budget :: "ToolBinder \<Rightarrow> nat" where
  "iteration_budget b = (if tb_MaxIterations b \<le> 0 then 6 else nat (tb_MaxIterations b))"

definition reasonWithTools :: "World \<Rightarrow> string \<Rightarrow> string \<Rightarrow> ctx \<Rightarrow> BoundTool list \<Rightarrow> string act" where
  "reasonWithTools w intent capabilities c tools = getS (\<lambda>r0.
     bindS (toolLoop w intent capabilities c tools (iteration_budget (rt_ToolBinder r0)) loop_start)
       (\<lambda>ending. case ending of
          Inl decision \<Rightarrow> returnS decision
        | Inr gathered \<Rightarrow>
            (let enriched = (if 0 < length gathered
                             then map_put ''_tool_results'' (VStr (join_with [newline] gathered)) c else c)
             in bindS (askA w ReasonAboutIntent [VStr intent, VMap enriched, VStr capabilities])
                  (\<lambda>out. returnS (out_text out 0)))))"

section \<open>Properties\<close>

lemma put_record_frame [simp]:
  "rt_effects (put_record w rec r) = rt_effects r" "rt_ToolBinder (put_record w rec r) = rt_ToolBinder r"
  "rt_ToolPolicies (put_record w rec r) = rt_ToolPolicies r" "rt_lm (put_record w rec r) = rt_lm r"
  by (simp_all add: put_record_def)

lemma withLM_snd: "snd (withLM m r) = r\<lparr>rt_lm := snd (m (rt_lm r))\<rparr>"
  by (simp add: withLM_def case_prod_beta)

lemma checkpoint_snd [simp]: "snd (checkpoint w r) = r"
  by (simp add: checkpoint_def split: option.split)

lemma tool_gate_None:
  "fst (tool_gate j c ps s) = None \<longleftrightarrow> (\<forall>x \<in> set (fst (judge_all (\<lambda>p. j p c) ps s)). \<exists>why. snd x = Inr (True, why))"
proof (induction ps arbitrary: s)
  case (Cons p ps)
  obtain res s1 where j: "j p c s = (res, s1)" by (cases "j p c s")
  show ?case
  proof (cases res)
    case (Inl e)
    then show ?thesis using j by (simp add: Let_def case_prod_beta)
  next
    case (Inr v)
    then show ?thesis using j Cons.IH [of s1] by (cases v) (simp add: Let_def case_prod_beta)
  qed
qed simp

definition tool_cleared :: "World \<Rightarrow> Runtime \<Rightarrow> BoundTool \<Rightarrow> ctx \<Rightarrow> bool" where
  \<comment> \<open>every tool policy is judged, and complies with this very call\<close>
  "tool_cleared w r t args \<longleftrightarrow>
     list_all (\<lambda>x. case snd x of Inr (complies, _) \<Rightarrow> complies | Inl _ \<Rightarrow> False)
       (fst (judge_all (\<lambda>p. PolicyJudge w r p (call_context t args)) (rt_ToolPolicies r) (rt_lm r)))"

lemma tool_cleared_gate:
  "tool_cleared w r t args \<longleftrightarrow>
   fst (tool_gate (PolicyJudge w r) (call_context t args) (rt_ToolPolicies r) (rt_lm r)) = None"
  unfolding tool_gate_None tool_cleared_def list_all_iff
  by (intro ball_cong refl) (auto split: sum.split)

definition calls_made :: "World \<Rightarrow> Runtime \<Rightarrow> string \<Rightarrow> ctx \<Rightarrow> (nat \<times> ctx) list" where
  \<comment> \<open>the contract of a governed call: which handler it runs\<close>
  "calls_made w r name args =
     (case binder_Get (rt_ToolBinder r) name of
        None \<Rightarrow> []
      | Some t \<Rightarrow> if tool_cleared w r t args then [(bt_Handler t, args)] else [])"

definition refused_by :: "World \<Rightarrow> Runtime \<Rightarrow> BoundTool \<Rightarrow> ctx \<Rightarrow> (Policy \<times> (ear_error, bool \<times> string) outcome) option" where
  \<comment> \<open>the first tool policy that does not clear this very call, with what its judge said\<close>
  "refused_by w r t args =
     find (\<lambda>x. \<not> (case snd x of Inr (complies, _) \<Rightarrow> complies | Inl _ \<Rightarrow> False))
       (fst (judge_all (\<lambda>p. PolicyJudge w r p (call_context t args)) (rt_ToolPolicies r) (rt_lm r)))"

definition grounds :: "(ear_error, bool \<times> string) outcome \<Rightarrow> string" where
  "grounds res = (case res of Inl e \<Rightarrow> ''policy could not be judged: '' @ error_text e | Inr (_, why) \<Rightarrow> why)"

lemma refused_by_None: "refused_by w r t args = None \<longleftrightarrow> tool_cleared w r t args"
  by (auto simp: refused_by_def tool_cleared_def find_None_iff list_all_iff)

lemma tool_gate_find:
  "fst (tool_gate j c ps s) = map_option (\<lambda>(p, res). (p, grounds res))
     (find (\<lambda>x. \<not> (case snd x of Inr (complies, _) \<Rightarrow> complies | Inl _ \<Rightarrow> False)) (fst (judge_all (\<lambda>p. j p c) ps s)))"
proof (induction ps arbitrary: s)
  case (Cons p ps)
  obtain res s1 where j: "j p c s = (res, s1)" by (cases "j p c s")
  then show ?case
    using Cons.IH [of s1]
    by (cases res) (auto simp: grounds_def Let_def case_prod_beta)
qed simp

lemma tool_gate_refused_by:
  "fst (tool_gate (PolicyJudge w r) (call_context t args) (rt_ToolPolicies r) (rt_lm r)) =
     map_option (\<lambda>(p, res). (p, grounds res)) (refused_by w r t args)"
  by (simp add: tool_gate_find refused_by_def)

definition tells_call :: "World \<Rightarrow> Runtime \<Rightarrow> BoundTool \<Rightarrow> ctx \<Rightarrow> string \<Rightarrow> Record \<Rightarrow> bool" where
  \<comment> \<open>what the record of a call of a bound tool says, and what its caller is told: the tool, its
     arguments, and either what the handler returned or which policy refused the call and why\<close>
  "tells_call w r t args told rec \<longleftrightarrow>
     rc_Stage rec = ''tool'' \<and>
     value_of (rc_Inputs rec) ''tool'' = VStr (bt_Name t) \<and> value_of (rc_Inputs rec) ''arguments'' = VMap args \<and>
     (case refused_by w r t args of
        None \<Rightarrow>
          (case fst (wd_handlers w (bt_Handler t) (rt_effects r) args) of
             Inr result \<Rightarrow> told = result \<and> rc_Output rec = result
           | Inl e \<Rightarrow> told = ''Tool '' @ sq (bt_Name t) @ '' failed: '' @ e \<and> rc_Output rec = ''FAILED -- '' @ told)
      | Some (p, res) \<Rightarrow>
          value_of (rc_Inputs rec) ''policy'' = VStr (po_Name p) \<and>
          rc_Output rec = ''BLOCKED by policy '' @ sq (po_Name p) \<and> rc_Rationale rec = grounds res \<and>
          told = ''Tool '' @ sq (bt_Name t) @ '' blocked by policy '' @ sq (po_Name p) @ '': '' @ grounds res)"

definition log_records :: "Runtime \<Rightarrow> Record list" where
  "log_records r = Log_Records (rt_ReasoningLog r)"

lemma log_records_put:
  "chain_inv (rt_ReasoningLog r) \<Longrightarrow>
     log_records (put_record w rec r) = log_records r @ [written (wd_clock w (rt_ReasoningLog r)) rec (rt_ReasoningLog r)]"
  by (simp add: log_records_def put_record_def Log_Records_Record)

text \<open>
  C13.  A tool's handler runs exactly when the tool is bound and every tool-scoped policy was
  judged on this call and complies; a judge that cannot rule blocks the call like a violation.
  A name that is not bound leaves no record; every call of a bound tool appends exactly one, with
  the tool, its arguments and either the handler's result (or its failure) or the first policy
  that refused the call, with the judge's grounds; and the caller is told the same.
\<close>

theorem InvokeTool_governed:
  assumes "chain_inv (rt_ReasoningLog r)"
  shows "rt_effects (snd (InvokeTool w name args r)) = rt_effects r @ calls_made w r name args \<and>
    (case binder_Get (rt_ToolBinder r) name of
       None \<Rightarrow> log_records (snd (InvokeTool w name args r)) = log_records r
     | Some t \<Rightarrow> \<exists>told rec. fst (InvokeTool w name args r) = Inr told \<and>
         log_records (snd (InvokeTool w name args r)) = log_records r @ [rec] \<and> tells_call w r t args told rec)"
proof (cases "binder_Get (rt_ToolBinder r) name")
  case None
  then show ?thesis by (simp add: InvokeTool_def calls_made_def)
next
  case (Some t)
  obtain refusal s where g: "tool_gate (PolicyJudge w r) (call_context t args) (rt_ToolPolicies r) (rt_lm r) = (refusal, s)"
    by (cases "tool_gate (PolicyJudge w r) (call_context t args) (rt_ToolPolicies r) (rt_lm r)")
  have refusal: "refusal = map_option (\<lambda>(p, res). (p, grounds res)) (refused_by w r t args)"
    using tool_gate_refused_by [of w r t args] g by simp
  have same: "log_records (r\<lparr>rt_lm := s\<rparr>) = log_records r" "log_records (r\<lparr>rt_lm := s, rt_effects := x\<rparr>) = log_records r" for x
    by (simp_all add: log_records_def)
  show ?thesis
  proof (cases "refused_by w r t args")
    case None
    moreover have "tool_cleared w r t args" using None refused_by_None by simp
    ultimately show ?thesis using Some g refusal assms
      by (simp add: InvokeTool_def calls_made_def run_handler_def Let_def case_prod_beta same log_records_put
          tells_call_def record_of_def value_of_def split: sum.split)
  next
    case (Some x)
    moreover have "\<not> tool_cleared w r t args" using Some refused_by_None by (metis option.distinct(1))
    ultimately show ?thesis using \<open>binder_Get (rt_ToolBinder r) name = Some t\<close> g refusal assms
      by (cases x) (simp add: InvokeTool_def calls_made_def blocked_record_def Let_def same log_records_put
          tells_call_def record_of_def value_of_def)
  qed
qed

section \<open>The loop is bounded\<close>

definition judge_cost :: "World \<Rightarrow> nat \<Rightarrow> judge_seam \<Rightarrow> bool" where
  \<comment> \<open>one policy put to this judge costs at most k questions to the model\<close>
  "judge_cost w k j \<longleftrightarrow> (\<forall>p c s. lm_attempts (snd (judge_of w j p c s)) \<le> lm_attempts s + k)"

lemma Signature_Run_attempts: "lm_attempts (snd (Signature_Run p sg vs s)) = lm_attempts s + 1"
  by (auto simp: Signature_Run_def Judgment_Run_def bindS_def Complete_def Let_def case_prod_beta split: sum.split)

lemma judge_cost_deterministic: "judge_cost w 0 DeterministicJudge"
  by (simp add: judge_cost_def)

lemma judge_cost_model: "judge_cost w 1 (LMJudge None)"
proof -
  have "lm_attempts (snd (judge_of w (LMJudge None) p c s)) \<le> lm_attempts s + 1" for p c s
    using Signature_Run_attempts [of "wd_provider w" JudgePolicyCompliance "[VStr (po_Statement p), VMap c]" s]
    by (cases "Signature_Run (wd_provider w) JudgePolicyCompliance [VStr (po_Statement p), VMap c] s")
      (auto simp: LMJudge_Judge_def split: sum.split)
  then show ?thesis by (simp add: judge_cost_def)
qed

lemma judge_cost_fallback:
  assumes "judge_cost w k j"
  shows "judge_cost w (max 1 k) (LMJudge (Some j))"
proof -
  have "lm_attempts (snd (judge_of w (LMJudge (Some j)) p c s)) \<le> lm_attempts s + max 1 k" for p c s
  proof (cases "po_Statement p = []")
    case True
    have "lm_attempts (snd (judge_of w j p c s)) \<le> lm_attempts s + k" using assms by (simp add: judge_cost_def)
    then show ?thesis using True by (simp add: LMJudge_Judge_def)
  next
    case False
    then show ?thesis
      using Signature_Run_attempts [of "wd_provider w" JudgePolicyCompliance "[VStr (po_Statement p), VMap c]" s]
      by (cases "Signature_Run (wd_provider w) JudgePolicyCompliance [VStr (po_Statement p), VMap c] s")
        (auto simp: LMJudge_Judge_def split: sum.split)
  qed
  then show ?thesis by (simp add: judge_cost_def)
qed

lemma tool_gate_attempts:
  assumes "judge_cost w k (rt_PolicyJudge r)"
  shows "lm_attempts (snd (tool_gate (PolicyJudge w r) c ps s)) \<le> lm_attempts s + k * length ps"
proof (induction ps arbitrary: s)
  case (Cons p ps)
  obtain res s1 where j: "PolicyJudge w r p c s = (res, s1)" by (cases "PolicyJudge w r p c s")
  have "lm_attempts s1 \<le> lm_attempts s + k"
    using assms j by (metis judge_cost_def PolicyJudge_def snd_conv)
  then show ?case
    using j Cons.IH [of s1] by (cases res) (auto split: prod.split)
qed simp

definition tool_runs :: "nat \<Rightarrow> nat \<Rightarrow> Runtime \<Rightarrow> Runtime \<Rightarrow> bool" where
  \<comment> \<open>at most m questions went to the model and at most n handlers ran, each of a bound tool; the
     bound tools, the tool policies and their judge are the same\<close>
  "tool_runs m n r r' \<longleftrightarrow>
     rt_ToolBinder r' = rt_ToolBinder r \<and> rt_ToolPolicies r' = rt_ToolPolicies r \<and> rt_PolicyJudge r' = rt_PolicyJudge r \<and>
     lm_attempts (rt_lm r') \<le> lm_attempts (rt_lm r) + m \<and>
     (\<exists>es. rt_effects r' = rt_effects r @ es \<and> length es \<le> n \<and>
       (\<forall>(h, args) \<in> set es. \<exists>t \<in> set (binder_Tools (rt_ToolBinder r)). bt_Handler t = h))"

lemma tool_runs_refl: "tool_runs 0 0 r r"
  by (simp add: tool_runs_def)

lemma tool_runs_mono: "tool_runs m n r r' \<Longrightarrow> m \<le> m' \<Longrightarrow> n \<le> n' \<Longrightarrow> tool_runs m' n' r r'"
  unfolding tool_runs_def by fastforce

lemma tool_runs_trans: "tool_runs m n r r1 \<Longrightarrow> tool_runs m' n' r1 r2 \<Longrightarrow> tool_runs (m + m') (n + n') r r2"
  unfolding tool_runs_def by (auto 0 3)

lemma askA_frame: "tool_runs 1 0 r (snd (askA w s vs r))"
  by (simp add: askA_def withLM_snd tool_runs_def Signature_Run_attempts)

lemma checked_ask_frame: "tool_runs 1 0 r (snd (thenS (checkpoint w) (askA w s vs) r))"
  using askA_frame [of r w s vs] checkpoint_snd [of w r] tool_runs_mono [OF tool_runs_refl [of r], of 1 0]
  by (cases "checkpoint w r"; cases "fst (checkpoint w r)") (auto simp: thenS_def)

lemma put_record_judge [simp]: "rt_PolicyJudge (put_record w rec r) = rt_PolicyJudge r"
  by (simp add: put_record_def)

lemma InvokeTool_runs:
  assumes "binder_ok (rt_ToolBinder r)" "judge_cost w k (rt_PolicyJudge r)"
  shows "tool_runs (k * length (rt_ToolPolicies r)) 1 r (snd (InvokeTool w name args r))"
proof (cases "binder_Get (rt_ToolBinder r) name")
  case None
  then show ?thesis by (simp add: InvokeTool_def tool_runs_def)
next
  case (Some t)
  then have "t \<in> set (binder_Tools (rt_ToolBinder r))" using toolbox.listed [OF assms(1)] by blast
  moreover have "lm_attempts (snd (tool_gate (PolicyJudge w r) (call_context t args) (rt_ToolPolicies r) (rt_lm r)))
      \<le> lm_attempts (rt_lm r) + k * length (rt_ToolPolicies r)"
    by (rule tool_gate_attempts [OF assms(2)])
  ultimately show ?thesis
    using Some
    by (auto simp: InvokeTool_def run_handler_def Let_def tool_runs_def case_prod_beta split: option.split)
qed

definition turn_cost :: "nat \<Rightarrow> Runtime \<Rightarrow> nat" where
  \<comment> \<open>the questions of one turn: its own, and those of the policies its call is judged by\<close>
  "turn_cost k r = 1 + k * length (rt_ToolPolicies r)"

lemma toolLoop_runs:
  "binder_ok (rt_ToolBinder r) \<Longrightarrow> judge_cost w k (rt_PolicyJudge r) \<Longrightarrow>
     tool_runs (n * turn_cost k r) n r (snd (toolLoop w intent capabilities c ts n st r))"
proof (induction n arbitrary: st r)
  case 0
  then show ?case by (simp add: tool_runs_refl)
next
  case (Suc n)
  let ?ask = "thenS (checkpoint w) (askA w ChooseToolAction [VStr intent, VMap c, VStr capabilities,
    VStr (toolCatalogue ts), VStr (gatheredText (ls_gathered st))])"
  obtain res r1 where ask: "?ask r = (res, r1)" by (cases "?ask r")
  have f1: "tool_runs 1 0 r r1" using checked_ask_frame ask by (metis snd_conv)
  then have ok1: "binder_ok (rt_ToolBinder r1)" "judge_cost w k (rt_PolicyJudge r1)"
    and c1: "turn_cost k r1 = turn_cost k r" "length (rt_ToolPolicies r1) = length (rt_ToolPolicies r)"
    using Suc.prems by (simp_all add: tool_runs_def turn_cost_def)
  have go: "tool_runs (Suc n * turn_cost k r) (Suc n) r (snd (toolLoop w intent capabilities c ts n st' r1))" for st'
    using tool_runs_trans [OF f1 Suc.IH [OF ok1, of st']]
    by (rule tool_runs_mono) (simp_all add: c1, simp add: turn_cost_def)
  have stop: "tool_runs (Suc n * turn_cost k r) (Suc n) r r1"
    using f1 by (rule tool_runs_mono) (simp_all add: turn_cost_def)
  have call: "tool_runs (Suc n * turn_cost k r) (Suc n) r
      (snd (bindS (InvokeTool w name args) (\<lambda>x. toolLoop w intent capabilities c ts n (g x)) r1))"
    for name args g
  proof -
    obtain x r2 where inv: "InvokeTool w name args r1 = (x, r2)" by (cases "InvokeTool w name args r1")
    have f2: "tool_runs (k * length (rt_ToolPolicies r)) 1 r1 r2"
      using InvokeTool_runs [OF ok1, of name args] inv c1 by simp
    then have ok2: "binder_ok (rt_ToolBinder r2)" "judge_cost w k (rt_PolicyJudge r2)"
      and c2: "turn_cost k r2 = turn_cost k r" using ok1 c1 by (simp_all add: tool_runs_def turn_cost_def)
    have f12: "tool_runs (turn_cost k r) 1 r r2"
      using tool_runs_trans [OF f1 f2] by (simp add: turn_cost_def)
    have "tool_runs (Suc n * turn_cost k r) (Suc n) r (snd (toolLoop w intent capabilities c ts n st' r2))" for st'
      using tool_runs_trans [OF f12 Suc.IH [OF ok2, of st']] by (rule tool_runs_mono) (simp_all add: c2)
    moreover have "tool_runs (Suc n * turn_cost k r) (Suc n) r r2" using f12 by (rule tool_runs_mono) simp_all
    ultimately show ?thesis using inv by (cases x) simp_all
  qed
  show ?case
  proof (cases res)
    case (Inl e)
    then show ?thesis using ask stop by simp
  next
    case (Inr out)
    then show ?thesis
      using ask go stop call by (simp add: Let_def split: option.split)
  qed
qed

text \<open>
  C36.  The tool-use loop is bounded: on every input, and whatever the model answers, it asks the
  model at most once per turn of its iteration budget and once to conclude, besides the questions
  the judge of the tool policies puts (at most k for each policy: none for the deterministic judge,
  one for the model's), and runs at most one handler per turn, only of bound tools.
\<close>

theorem reasonWithTools_bounded:
  assumes "binder_ok (rt_ToolBinder r)" "judge_cost w k (rt_PolicyJudge r)"
  shows "tool_runs (iteration_budget (rt_ToolBinder r) * (1 + k * length (rt_ToolPolicies r)) + 1)
    (iteration_budget (rt_ToolBinder r)) r (snd (reasonWithTools w intent capabilities c ts r))"
proof -
  let ?n = "iteration_budget (rt_ToolBinder r)" and ?m = "iteration_budget (rt_ToolBinder r) * turn_cost k r"
  obtain x r1 where l: "toolLoop w intent capabilities c ts ?n loop_start r = (x, r1)"
    by (cases "toolLoop w intent capabilities c ts ?n loop_start r")
  have f: "tool_runs ?m ?n r r1" using toolLoop_runs [OF assms] l by (metis snd_conv)
  then have f': "tool_runs (?m + 1) ?n r r1" by (rule tool_runs_mono) simp_all
  have "tool_runs (?m + 1) ?n r (snd (reasonWithTools w intent capabilities c ts r))"
  proof (cases x)
    case (Inl e)
    then show ?thesis using l f' by (simp add: reasonWithTools_def)
  next
    case (Inr ending)
    show ?thesis
    proof (cases ending)
      case decided: (Inl d)
      then show ?thesis using l f' Inr by (simp add: reasonWithTools_def)
    next
      case gathered: (Inr g)
      let ?c = "if 0 < length g then map_put ''_tool_results'' (VStr (join_with [newline] g)) c else c"
      let ?q = "askA w ReasonAboutIntent [VStr intent, VMap ?c, VStr capabilities]"
      have "tool_runs (?m + 1) (?n + 0) r (snd (?q r1))" using f askA_frame by (rule tool_runs_trans)
      moreover have "snd (bindS ?q (\<lambda>out. returnS (out_text out 0)) r1) = snd (?q r1)"
        by (cases "?q r1"; cases "fst (?q r1)") auto
      ultimately show ?thesis using l Inr gathered by (simp add: reasonWithTools_def Let_def)
    qed
  qed
  then show ?thesis by (simp add: turn_cost_def)
qed

lemma reasonWithTools_bounded_witness:
  "tool_runs 7 6 guarded_runtime (snd (reasonWithTools (quiet_world deny (ScriptedLM [] [])) ''pay'' [] [] [] guarded_runtime))"
proof -
  have cost: "judge_cost (quiet_world deny (ScriptedLM [] [])) 0 (rt_PolicyJudge guarded_runtime)"
    by (simp add: guarded_runtime_def judge_cost_def quiet_world_def deny_def)
  have ok: "binder_ok (rt_ToolBinder guarded_runtime)" by (simp add: guarded_runtime_def NewRuntime_def binder_ok_new)
  have "iteration_budget (rt_ToolBinder guarded_runtime) = 6"
    by (simp add: guarded_runtime_def NewRuntime_def iteration_budget_def) (simp add: NewToolBinder_def)
  then show ?thesis using reasonWithTools_bounded [OF ok cost, of "''pay''" "[]" "[]" "[]"] by simp
qed

definition wire_tool :: BoundTool where
  "wire_tool = \<lparr>bt_Name = ''wire'', bt_Description = [], bt_Parameters = [], bt_Handler = 7\<rparr>"

definition wire_runtime :: Runtime where
  "wire_runtime = guarded_runtime\<lparr>rt_ToolBinder := binder_add wire_tool NewToolBinder, rt_ToolPolicies := [payments_policy]\<rparr>"

lemma InvokeTool_governed_witness:
  "rt_effects (snd (InvokeTool (quiet_world deny (ScriptedLM [] [])) ''wire'' [] wire_runtime)) = []"
proof -
  have "chain_inv (rt_ReasoningLog wire_runtime)"
    by (simp add: wire_runtime_def guarded_runtime_def NewRuntime_def new_log_def chain_inv_def log_chain_def Log_Records_def)
  note InvokeTool_governed [OF this, of "quiet_world deny (ScriptedLM [] [])" "''wire''" "[]"]
  moreover have "\<not> tool_cleared (quiet_world deny (ScriptedLM [] [])) wire_runtime t []" for t
    by (simp add: tool_cleared_def wire_runtime_def guarded_runtime_def PolicyJudge_def quiet_world_def deny_def)
  ultimately show ?thesis
    by (simp add: calls_made_def wire_runtime_def guarded_runtime_def NewRuntime_def split: option.split)
qed

end
