(* ===== verification/Reasoning.thy ===== *)
theory Reasoning
  imports Tools "HOL-Library.Multiset"
begin

text \<open>
  Deliberation: the rendering of the stacked capabilities and the deterministic decision
  (\<^verbatim>\<open>reasoner.go\<close>), the default reasoner (\<^verbatim>\<open>stage.go\<close>) and the model-backed one
  (\<^verbatim>\<open>seams.go\<close>).  The helpers that turn a model's answer into names, skills, processes and an
  order of workflows are those of \<^verbatim>\<open>stages.go\<close>.
\<close>

section \<open>Names\<close>

definition processNames :: "Process list \<Rightarrow> string list" where
  "processNames ps = map pr_Name ps"

definition orNone :: "string list \<Rightarrow> string" where
  "orNone names = (if length names = 0 then ''none'' else join_with '', '' names)"

definition skillCatalogue :: "Skill list \<Rightarrow> string" where
  "skillCatalogue skills = join_with [newline] (map (\<lambda>s. sk_Name s @ '': '' @ Instruction s) skills)"

definition processCatalogue :: "Process list \<Rightarrow> string" where
  "processCatalogue ps =
     join_with [newline]
       (map (\<lambda>p. pr_Name p @ '': '' @ (if pr_Description p = [] then ''no description'' else pr_Description p)) ps)"

fun resolve_names :: "('a \<Rightarrow> string) \<Rightarrow> ('a \<Rightarrow> nat) \<Rightarrow> 'a list \<Rightarrow> nat list \<Rightarrow> string list \<Rightarrow> 'a list" where
  \<comment> \<open>the loop of resolveSkills, resolveProcesses and reorderWorkflows; the table byKey keeps the last of a key\<close>
  "resolve_names name ref pool seen [] = []"
| "resolve_names name ref pool seen (n # ns) =
     (case find (\<lambda>x. Normalize (name x) = Normalize n) (rev pool) of
        Some x \<Rightarrow>
          if ref x \<in> set seen then resolve_names name ref pool seen ns
          else x # resolve_names name ref pool (ref x # seen) ns
      | None \<Rightarrow> resolve_names name ref pool seen ns)"

definition resolveSkills :: "string list \<Rightarrow> Skill list \<Rightarrow> Skill list" where
  "resolveSkills names pool = resolve_names sk_Name sk_ref pool [] names"

definition resolveProcesses :: "string list \<Rightarrow> Process list \<Rightarrow> Process list" where
  "resolveProcesses names pool = resolve_names pr_Name pr_ref pool [] names"

definition workflowNames :: "Workflow list \<Rightarrow> string list" where
  "workflowNames plan = map wf_Name plan"

definition workflowSummaries :: "Workflow list \<Rightarrow> string" where
  "workflowSummaries plan =
     join_with [newline]
       (map (\<lambda>w. let summary = join_with ''; '' (map st_Instruction (take 4 (wf_Steps w)))
                 in wf_Name w @ '': '' @ (if summary = [] then ''no steps'' else summary)) plan)"

definition reorderWorkflows :: "string list \<Rightarrow> Workflow list \<Rightarrow> Workflow list" where
  \<comment> \<open>the second loop appends what was not placed; a pointer the plan holds twice is appended twice there\<close>
  "reorderWorkflows names plan =
     (let ordered = resolve_names wf_Name wf_ref plan [] names
      in ordered @ filter (\<lambda>w. wf_ref w \<notin> set (map wf_ref ordered)) plan)"

section \<open>Capabilities\<close>

definition persona_lines :: "string \<Rightarrow> bool \<Rightarrow> Persona \<Rightarrow> Skill list \<Rightarrow> string list" where
  "persona_lines indent header p skills =
     (if header then
        [indent @ ''Persona '' @ pe_Name p @ (if pe_Instructions p \<noteq> [] then '': '' @ pe_Instructions p else [])]
      else if pe_Instructions p \<noteq> [] then [indent @ ''Persona '' @ pe_Name p @ '': '' @ pe_Instructions p] else []) @
     map (\<lambda>s. indent @ ''  - Skill '' @ sk_Name s @ '': '' @ Instruction s) skills"

type_synonym skill_filter = "Persona \<Rightarrow> Skill list act"

fun mapA :: "('a \<Rightarrow> ('s, 'b) eff) \<Rightarrow> 'a list \<Rightarrow> ('s, 'b list) eff" where
  "mapA f [] = returnS []"
| "mapA f (x # xs) = bindS (f x) (\<lambda>y. bindS (mapA f xs) (\<lambda>ys. returnS (y # ys)))"

definition renderPersona :: "skill_filter \<Rightarrow> string \<Rightarrow> bool \<Rightarrow> Persona option \<Rightarrow> string list act" where
  "renderPersona pick indent header persona =
     (case persona of
        None \<Rightarrow> returnS []
      | Some p \<Rightarrow> bindS (pick p) (\<lambda>skills. returnS (persona_lines indent header p skills)))"

definition step_text :: "nat \<Rightarrow> Step \<Rightarrow> string" where
  "step_text number step =
     ''  Step '' @ show_nat (number + 1) @ '': '' @ st_Instruction step @
     (case st_Persona step of Some p \<Rightarrow> '' [delegated to Persona '' @ pe_Name p @ '']'' | None \<Rightarrow> [])"

definition renderStep :: "skill_filter \<Rightarrow> nat \<times> Step \<Rightarrow> string list act" where
  "renderStep pick ns =
     bindS (renderPersona pick ''      '' False (st_Persona (snd ns)))
       (\<lambda>lines. returnS (step_text (fst ns) (snd ns) # lines))"

definition renderWorkflow :: "skill_filter \<Rightarrow> Workflow \<Rightarrow> string list act" where
  "renderWorkflow pick w =
     bindS (mapA (renderStep pick) (enumerate 0 (wf_Steps w))) (\<lambda>steps.
     bindS (mapA (\<lambda>p. renderPersona pick ''  '' True (Some p)) (wf_Personas w)) (\<lambda>personas.
     returnS ((if wf_Name w \<noteq> [] then [''Workflow '' @ wf_Name w @ '':''] else []) @ concat steps @ concat personas)))"

definition renderCapabilities :: "Workflow list \<Rightarrow> skill_filter \<Rightarrow> string act" where
  "renderCapabilities plan pick =
     (if length plan = 0 then returnS []
      else bindS (mapA (renderWorkflow pick) plan) (\<lambda>blocks. returnS (join_with [newline] (concat blocks))))"

definition all_skills :: skill_filter where
  \<comment> \<open>the filter nil\<close>
  "all_skills p = returnS (pe_Skills p)"

section \<open>The deterministic decision\<close>

definition capability_head :: "string \<Rightarrow> string option" where
  "capability_head line =
     (if TrimSpace line = [] then None
      else (let head = trim_chars '' -'' (case cut_at '':'' line of Some (a, b) \<Rightarrow> a | None \<Rightarrow> line)
            in if head \<noteq> [] then Some head else None))"

definition defaultReasoning :: "Runtime \<Rightarrow> Intent \<Rightarrow> string \<Rightarrow> string" where
  "defaultReasoning r intent capabilities =
     (let names = processNames (rt_Processes r);
          processes = (if 0 < length names then join_with '', '' names else ''none'');
          n = Memory_Len (rt_Memory r);
          memoryNote = (if 0 < n then '', drawing on '' @ show_nat n @ '' remembered cycles'' else []);
          heads = (if capabilities \<noteq> [] then List.map_filter capability_head (split_char newline capabilities) else []);
          capabilityNote = (if 0 < length heads then '', applying capabilities: '' @ join_with '', '' heads else [])
      in ''['' @ rt_Name r @ ''] resolved intent '' @ sq (in_Text intent) @ '' across processes: '' @
         processes @ capabilityNote @ memoryNote)"

definition DefaultReasoner_Reason :: "World \<Rightarrow> Intent \<Rightarrow> Workflow list \<Rightarrow> goval act" where
  "DefaultReasoner_Reason w intent plan =
     thenS (checkpoint w)
       (bindS (renderCapabilities plan all_skills) (\<lambda>capabilities. getS (\<lambda>r.
          let decision = defaultReasoning r intent capabilities in
          thenS (recordA w (record_of ''deliberation''
              [(''intent'', VStr (in_Text intent)), (''context'', VMap (in_Context intent)),
               (''capabilities'', VStr capabilities), (''memory'', VStr (ContextWindow (rt_Memory r)))]
              decision))
            (returnS (VStr decision)))))"

section \<open>The model-backed reasoner\<close>

definition catchS :: "('s, 'a) eff \<Rightarrow> ('s, 'a) eff \<Rightarrow> ('s, 'a) eff" where
  "catchS m h s = (case m s of (Inl e, s') \<Rightarrow> h s' | (Inr a, s') \<Rightarrow> (Inr a, s'))"

definition wrapS :: "string \<Rightarrow> ('s, 'a) eff \<Rightarrow> ('s, 'a) eff" where
  "wrapS msg m s = (case m s of (Inl e, s') \<Rightarrow> (Inl (Wrapped msg e), s') | (Inr a, s') \<Rightarrow> (Inr a, s'))"

definition select_skills :: "World \<Rightarrow> Intent \<Rightarrow> skill_filter" where
  \<comment> \<open>the filter of LMReasoner: an error or an unusable answer gives all skills\<close>
  "select_skills w intent p =
     (if length (pe_Skills p) \<le> 1 then returnS (pe_Skills p)
      else catchS
        (bindS (askA w RankRelevantSkills [VStr (in_Text intent), VStr (skillCatalogue (pe_Skills p))])
          (\<lambda>out. let selected = resolveSkills (out_list out 0) (pe_Skills p)
                 in returnS (if 0 < length selected then selected else pe_Skills p)))
        (returnS (pe_Skills p)))"

definition reasoning_context :: "Runtime \<Rightarrow> Intent \<Rightarrow> Research option \<Rightarrow> ctx" where
  "reasoning_context r intent research =
     (let c1 = map_put ''_available_processes'' (VStr (orNone (processNames (rt_Processes r))))
                 (map_put ''_runtime_name'' (VStr (rt_Name r)) (in_Context intent));
          window = ContextWindow (rt_Memory r);
          c2 = (if window \<noteq> [] then map_put ''_remembered_context'' (VStr window) c1 else c1);
          narrative = (case rt_Strategy r of Some s \<Rightarrow> Ontology_Render (sy_Ontology s) | None \<Rightarrow> []);
          c3 = (if narrative \<noteq> [] then map_put ''_operating_strategy'' (VStr narrative) c2 else c2);
          rendered = (case research of Some rs \<Rightarrow> rs_Rendered rs | None \<Rightarrow> [])
      in if rendered \<noteq> [] then map_put ''_retrieved_knowledge'' (VStr rendered) c3 else c3)"

definition modelLabel_of :: "string \<Rightarrow> string" where
  "modelLabel_of model = (if model \<noteq> [] then model else ''llm'')"

definition LMReasoner_Reason :: "World \<Rightarrow> string \<Rightarrow> Intent \<Rightarrow> Workflow list \<Rightarrow> Research option \<Rightarrow> goval act" where
  "LMReasoner_Reason w model intent plan research =
     thenS (checkpoint w)
       (bindS (renderCapabilities plan (select_skills w intent)) (\<lambda>rendered. getS (\<lambda>r.
          let capabilities = (if rendered = [] then ''none'' else rendered);
              c = reasoning_context r intent research;
              tools = binder_Tools (rt_ToolBinder r)
          in bindS
               (wrapS ''reasoning against the model''
                 (if 0 < length tools then reasonWithTools w (in_Text intent) capabilities c tools
                  else bindS (askA w ReasonAboutIntent [VStr (in_Text intent), VMap c, VStr capabilities])
                         (\<lambda>out. returnS (out_text out 0))))
               (\<lambda>decision.
                  thenS (recordA w ((record_of ''deliberation''
                      [(''intent'', VStr (in_Text intent)), (''context'', VMap (in_Context intent)),
                       (''capabilities'', VStr capabilities)]
                      decision)\<lparr>rc_Model := modelLabel_of model\<rparr>))
                    (returnS (VStr decision))))))"

definition Reasoner_Reason :: "World \<Rightarrow> Intent \<Rightarrow> Workflow list \<Rightarrow> Research option \<Rightarrow> goval act" where
  \<comment> \<open>the seam: whichever reasoner the runtime holds\<close>
  "Reasoner_Reason w intent plan research = getS (\<lambda>r.
     case rt_Reasoner r of
       DefaultReasoner \<Rightarrow> DefaultReasoner_Reason w intent plan
     | LMReasoner model \<Rightarrow> LMReasoner_Reason w model intent plan research
     | CustomReasoner n \<Rightarrow> (\<lambda>r. (wd_reasoners w n r intent plan research, r)))"

section \<open>Resolving names\<close>

lemma find_rev_mem: "find P (rev xs) = Some x \<Longrightarrow> x \<in> set xs \<and> P x"
  using find_Some_iff' [of P "rev xs" x] by simp

lemma resolve_names_props:
  "distinct (map ref (resolve_names name ref pool seen ns)) \<and>
   set (resolve_names name ref pool seen ns) \<subseteq> set pool \<and>
   set (map ref (resolve_names name ref pool seen ns)) \<inter> set seen = {}"
proof (induction ns arbitrary: seen)
  case (Cons n ns)
  show ?case
  proof (cases "find (\<lambda>x. Normalize (name x) = Normalize n) (rev pool)")
    case None
    then show ?thesis using Cons.IH by simp
  next
    case (Some x)
    then have "x \<in> set pool" by (simp add: find_rev_mem)
    then show ?thesis using Some Cons.IH [of "ref x # seen"] Cons.IH [of seen] by auto
  qed
qed simp

lemma resolve_names_known:
  "y \<in> set (resolve_names name ref pool seen ns) \<Longrightarrow> \<exists>n \<in> set ns. Normalize (name y) = Normalize n"
  by (induction ns arbitrary: seen) (auto split: option.splits if_splits dest: find_rev_mem)

lemma inj_on_ref: "distinct (map ref xs) \<Longrightarrow> x \<in> set xs \<Longrightarrow> y \<in> set xs \<Longrightarrow> ref x = ref y \<Longrightarrow> x = y"
  by (metis distinct_map inj_onD)

text \<open>
  Scheduling never loses, repeats or invents work: whatever names the model gives, in
  whatever spelling, the reordered plan holds exactly the workflows of the composed plan.
\<close>

theorem reorderWorkflows_permutes:
  assumes "distinct (map wf_ref plan)"
  shows "mset (reorderWorkflows names plan) = mset plan"
proof -
  let ?o = "resolve_names wf_Name wf_ref plan [] names"
  have o: "distinct (map wf_ref ?o)" "set ?o \<subseteq> set plan"
    using resolve_names_props [of wf_ref wf_Name plan "[]" names] by auto
  have mem: "wf_ref w \<in> set (map wf_ref ?o) \<longleftrightarrow> w \<in> set ?o" if "w \<in> set plan" for w
    using that o(2) inj_on_ref [OF assms] by auto
  then have "set (reorderWorkflows names plan) = set plan"
    using o(2) by (auto simp: reorderWorkflows_def Let_def)
  moreover have "distinct (reorderWorkflows names plan)"
    using o assms mem by (auto simp: reorderWorkflows_def Let_def distinct_map)
  ultimately show ?thesis
    using assms by (simp add: set_eq_iff_mset_eq_distinct distinct_map)
qed

definition plain_workflow :: "nat \<Rightarrow> string \<Rightarrow> Workflow" where
  "plain_workflow n name =
     \<lparr>wf_ref = n, wf_Name = name, wf_Personas = [], wf_Steps = [], wf_Policies = [], wf_Contract = None,
      wf_Pattern = [], wf_Routes = [], wf_RetryBudget = None\<rparr>"

lemma reorderWorkflows_permutes_witness:
  "mset (reorderWorkflows [''settle'', ''unknown''] [plain_workflow 1 ''Check'', plain_workflow 2 ''Settle'']) =
   {#plain_workflow 1 ''Check'', plain_workflow 2 ''Settle''#}"
  by (subst reorderWorkflows_permutes) (simp_all add: plain_workflow_def)

end
