(* ===== verification/Panels.thy ===== *)
theory Panels
  imports Reasoning
begin

text \<open>
  Panel deliberation, \<^verbatim>\<open>panel.go\<close>: the bounded conversation of a workflow's personas, the
  moderator's choices and what code refuses them, the tool loop inside a turn, and the
  synthesis.
\<close>

section \<open>Helpers\<close>

record Turn =
  tn_Speaker :: string
  tn_Statement :: string

definition concludeWords :: "string list" where
  "concludeWords = [''conclude'', ''concluded'', ''consensus'', ''done'', ''end'', ''finish'', ''finished'']"

definition standing :: "Persona \<Rightarrow> string" where
  "standing p = orText (pe_Instructions p) ''no standing instructions''"

definition renderPanelPersona :: "Persona \<Rightarrow> string" where
  "renderPanelPersona p =
     join_with [newline]
       ((pe_Name p @ '': '' @ standing p) #
        map (\<lambda>s. ''  - Skill '' @ sk_Name s @ '': '' @ Instruction s) (pe_Skills p))"

definition renderTranscript :: "Turn list \<Rightarrow> string" where
  "renderTranscript ts =
     (if length ts = 0 then ''no turns yet''
      else join_with [newline, newline] (map (\<lambda>t. ''['' @ tn_Speaker t @ '']'' @ [newline] @ tn_Statement t) ts))"

definition personaNamed :: "Persona list \<Rightarrow> string \<Rightarrow> Persona option" where
  "personaNamed ps key = find (\<lambda>p. Normalize (pe_Name p) = key) ps"

fun personaIndex :: "Persona list \<Rightarrow> nat \<Rightarrow> int" where
  \<comment> \<open>by the address of the persona\<close>
  "personaIndex [] ref = -1"
| "personaIndex (p # ps) ref =
     (if pe_ref p = ref then 0 else (let i = personaIndex ps ref in if i < 0 then -1 else i + 1))"

definition everyoneSpoke :: "Persona list \<Rightarrow> string list \<Rightarrow> bool" where
  "everyoneSpoke ps spoken = list_all (\<lambda>p. pe_Name p \<in> set spoken) ps"

definition orOpenDeliberation :: "string \<Rightarrow> string" where
  "orOpenDeliberation style = (if style = [] then ''an open deliberation'' else style)"

definition panelModel :: "bool \<Rightarrow> string" where
  "panelModel live = (if live then ''llm'' else [])"

definition panelCall :: "Workflow list \<Rightarrow> string \<times> Persona list" where
  "panelCall plan =
     (let ws = filter (\<lambda>w. wf_Pattern w \<noteq> []) plan
      in (join_with ''; '' (map wf_Pattern ws), dedup_by pe_ref [] (concat (map DelegatedPersonas ws))))"

section \<open>Turns\<close>

definition chooseSpeaker :: "World \<Rightarrow> Intent \<Rightarrow> Persona list \<Rightarrow> Turn list \<Rightarrow> string \<Rightarrow> (string \<times> string) act" where
  "chooseSpeaker w intent ps transcript style =
     bindS (askA w ChooseNextSpeaker [VStr (in_Text intent), VStr (orOpenDeliberation style),
        VStr (join_with [newline] (map (\<lambda>p. pe_Name p @ '': '' @ standing p) ps)),
        VStr (renderTranscript transcript)])
       (\<lambda>out. returnS (TrimSpace (out_text out 0), TrimSpace (out_text out 1)))"

definition speak_as :: "World \<Rightarrow> Intent \<Rightarrow> Persona \<Rightarrow> string \<Rightarrow> string \<Rightarrow> string act" where
  \<comment> \<open>SpeakInPanel over a rendered transcript\<close>
  "speak_as w intent p style rendered =
     bindS (askA w SpeakInPanel [VStr (in_Text intent), VStr (renderPanelPersona p),
        VStr (orOpenDeliberation style), VStr rendered])
       (\<lambda>out. returnS (TrimSpace (out_text out 0)))"

definition speak :: "World \<Rightarrow> Intent \<Rightarrow> Persona \<Rightarrow> Turn list \<Rightarrow> string \<Rightarrow> string act" where
  "speak w intent p transcript style = speak_as w intent p style (renderTranscript transcript)"

fun turnLoop :: "World \<Rightarrow> Intent \<Rightarrow> Persona \<Rightarrow> Turn list \<Rightarrow> string \<Rightarrow> BoundTool list \<Rightarrow> nat \<Rightarrow> string list \<Rightarrow>
    (string + string list) act" where
  \<comment> \<open>the tool calls of one turn: a statement, or the facts gathered\<close>
  "turnLoop w intent p transcript style tools 0 gathered r = (Inr (Inr gathered), r)"
| "turnLoop w intent p transcript style tools (Suc n) gathered r =
     bindS (thenS (checkpoint w)
       (askA w SpeakOrUseTool [VStr (in_Text intent), VStr (renderPanelPersona p), VStr (orOpenDeliberation style),
          VStr (renderTranscript transcript), VStr (toolCatalogue tools), VStr (gatheredText gathered)]))
       (\<lambda>out r1.
          case binder_Get (rt_ToolBinder r1) (TrimSpace (out_text out 0)) of
            None \<Rightarrow>
              (let statement = TrimSpace (out_text out 2) in
               if statement \<noteq> [] then (Inr (Inl statement), r1) else (Inr (Inr gathered), r1))
          | Some chosen \<Rightarrow>
              (let args = coerceArgs (out_map out 1) in
               bindS (InvokeTool w (bt_Name chosen) args)
                 (\<lambda>result. turnLoop w intent p transcript style tools n
                    (gathered @ [bt_Name chosen @ ''('' @ renderArgs args @ '') -> '' @ result])) r1)) r"

definition turnToolBudget :: nat where "turnToolBudget = 3"

definition speakWithTools :: "World \<Rightarrow> Intent \<Rightarrow> Persona \<Rightarrow> Turn list \<Rightarrow> string \<Rightarrow> BoundTool list \<Rightarrow> string act" where
  "speakWithTools w intent p transcript style tools =
     bindS (turnLoop w intent p transcript style tools turnToolBudget [])
       (\<lambda>ending. case ending of
          Inl statement \<Rightarrow> returnS statement
        | Inr gathered \<Rightarrow>
            speak_as w intent p style
              (renderTranscript transcript @
               (if 0 < length gathered
                then [newline, newline] @ ''[facts '' @ pe_Name p @ '' gathered with tools]'' @ [newline] @
                     join_with [newline] gathered
                else [])))"

section \<open>The conversation\<close>

record table_state =
  ts_transcript :: "Turn list"
  ts_spoken :: "string list"
  ts_lastIndex :: int
  ts_conclusion :: string

datatype chair = Concludes string | Speaks Persona string string
  \<comment> \<open>who speaks, chosen by whom, with what rationale\<close>

definition rotation :: "Persona list \<Rightarrow> table_state \<Rightarrow> Persona" where
  "rotation ps st = ps ! (nat (ts_lastIndex st + 1) mod length ps)"

definition read_choice :: "Persona list \<Rightarrow> table_state \<Rightarrow> string \<Rightarrow> string \<Rightarrow> chair" where
  \<comment> \<open>what code lets the moderator decide\<close>
  "read_choice ps st choice rationale =
     (let key = Normalize choice in
      if key \<in> set concludeWords then
        (if everyoneSpoke ps (ts_spoken st) then Concludes rationale
         else Speaks (rotation ps st) ''rotation (conclusion refused: not every persona has spoken yet)'' [])
      else (case personaNamed ps key of
              Some named \<Rightarrow> Speaks named ''model'' rationale
            | None \<Rightarrow> Speaks (rotation ps st) (''rotation (the choice '' @ sq choice @ '' names no listed persona)'') []))"

definition choose_chair :: "World \<Rightarrow> Intent \<Rightarrow> Persona list \<Rightarrow> string \<Rightarrow> bool \<Rightarrow> table_state \<Rightarrow> chair act" where
  "choose_chair w intent ps style live st =
     (if live then
        bindS (chooseSpeaker w intent ps (ts_transcript st) style)
          (\<lambda>(choice, rationale). returnS (read_choice ps st choice rationale))
      else returnS (Speaks (rotation ps st) ''rotation'' []))"

definition take_turn :: "World \<Rightarrow> Intent \<Rightarrow> Persona \<Rightarrow> string \<Rightarrow> bool \<Rightarrow> BoundTool list \<Rightarrow> Turn list \<Rightarrow> string act" where
  "take_turn w intent p style live tools transcript =
     (if live \<and> 0 < length tools then speakWithTools w intent p transcript style tools
      else if live then speak w intent p transcript style
      else returnS (''(no model bound) '' @ pe_Name p @ '' would deliberate here as: '' @ standing p))"

definition turn_record :: "Intent \<Rightarrow> Persona \<Rightarrow> string \<Rightarrow> bool \<Rightarrow> nat \<Rightarrow> string \<Rightarrow> string \<Rightarrow> string \<Rightarrow> Record" where
  "turn_record intent p style live n chosenBy choiceRationale statement =
     (record_of ''conversation''
        [(''speaker'', VStr (pe_Name p)), (''turn'', VInt (int n)), (''style'', VStr style),
         (''intent'', VStr (in_Text intent)), (''chosen_by'', VStr chosenBy), (''choice_rationale'', VStr choiceRationale)]
        statement)\<lparr>rc_Model := panelModel live\<rparr>"

definition seat :: "World \<Rightarrow> Intent \<Rightarrow> Persona list \<Rightarrow> string \<Rightarrow> bool \<Rightarrow> BoundTool list \<Rightarrow> table_state \<Rightarrow>
    (table_state \<Rightarrow> table_state act) \<Rightarrow> chair \<Rightarrow> table_state act" where
  \<comment> \<open>what follows the choice of a speaker; the argument before the last is the rest of the loop\<close>
  "seat w intent ps style live tools st rest ch =
     (case ch of
        Concludes rationale \<Rightarrow> returnS (st\<lparr>ts_conclusion := rationale\<rparr>)
      | Speaks p chosenBy choiceRationale \<Rightarrow>
          bindS (take_turn w intent p style live tools (ts_transcript st)) (\<lambda>statement.
            let transcript = ts_transcript st @ [\<lparr>tn_Speaker = pe_Name p, tn_Statement = statement\<rparr>]
            in thenS (recordA w (turn_record intent p style live (length transcript) chosenBy choiceRationale statement))
                 (rest (st\<lparr>ts_lastIndex := personaIndex ps (pe_ref p), ts_spoken := pe_Name p # ts_spoken st,
                           ts_transcript := transcript\<rparr>))))"

fun conversation :: "World \<Rightarrow> Intent \<Rightarrow> Persona list \<Rightarrow> string \<Rightarrow> bool \<Rightarrow> BoundTool list \<Rightarrow> nat \<Rightarrow> table_state \<Rightarrow>
    table_state act" where
  \<comment> \<open>the loop with the turns the budget leaves\<close>
  "conversation w intent ps style live tools 0 st = returnS st"
| "conversation w intent ps style live tools (Suc n) st =
     thenS (checkpoint w)
       (bindS (choose_chair w intent ps style live st)
          (seat w intent ps style live tools st (\<lambda>st'. conversation w intent ps style live tools n st')))"

definition panel_budget :: "Panel \<Rightarrow> Persona list \<Rightarrow> nat" where
  "panel_budget p ps =
     (let rounds = (if pn_Rounds p \<le> 0 then 2 else pn_Rounds p);
          maxTurns = (if pn_MaxTurns p \<le> 0 then 12 else pn_MaxTurns p);
          budget = rounds * int (length ps)
      in nat (if maxTurns < budget then maxTurns else budget))"

definition table_start :: table_state where
  "table_start = \<lparr>ts_transcript = [], ts_spoken = [], ts_lastIndex = -1, ts_conclusion = []\<rparr>"

definition synthesize :: "World \<Rightarrow> Intent \<Rightarrow> Persona list \<Rightarrow> string \<Rightarrow> bool \<Rightarrow> Turn list \<Rightarrow> string act" where
  "synthesize w intent ps style live transcript =
     (if live then
        bindS (askA w SynthesizePanel [VStr (in_Text intent), VStr (orOpenDeliberation style), VStr (renderTranscript transcript)])
          (\<lambda>out. returnS (TrimSpace (out_text out 0)))
      else returnS (''Panel of '' @ join_with '', '' (map pe_Name ps) @ '' deliberated '' @ sq (in_Text intent) @
             (if style \<noteq> [] then '' in the style '' @ sq style else []) @
             '' -- no model bound, so no judgment was synthesized.''))"

definition Convene :: "World \<Rightarrow> Panel \<Rightarrow> Persona list \<Rightarrow> Intent \<Rightarrow> string \<Rightarrow> string act" where
  "Convene w p ps intent style = getS (\<lambda>r.
     let live = rt_LM r;
         tools = (if live then binder_Tools (rt_ToolBinder r) else [])
     in bindS (conversation w intent ps style live tools (panel_budget p ps) table_start) (\<lambda>st.
        bindS (synthesize w intent ps style live (ts_transcript st)) (\<lambda>decision.
          thenS (recordA w ((record_of ''deliberation''
              ([(''intent'', VStr (in_Text intent)), (''context'', VMap (in_Context intent)),
                (''panel'', VStrs (map pe_Name ps)), (''style'', VStr style),
                (''transcript'', VStr (renderTranscript (ts_transcript st)))] @
               (if ts_conclusion st \<noteq> [] then [(''concluded_early'', VStr (ts_conclusion st))] else []))
              decision)\<lparr>rc_Model := panelModel live\<rparr>))
            (returnS decision))))"

section \<open>What the code guards\<close>

definition table_ok :: "Persona list \<Rightarrow> table_state \<Rightarrow> bool" where
  "table_ok ps st \<longleftrightarrow>
     ts_spoken st = rev (map tn_Speaker (ts_transcript st)) \<and>
     set (map tn_Speaker (ts_transcript st)) \<subseteq> pe_Name ` set ps"

lemma rotation_mem: "ps \<noteq> [] \<Longrightarrow> rotation ps st \<in> set ps"
  by (simp add: rotation_def)

lemma personaNamed_mem: "personaNamed ps key = Some p \<Longrightarrow> p \<in> set ps"
  by (simp add: personaNamed_def find_Some_iff')

lemma read_choice_guard:
  assumes "ps \<noteq> []"
  shows "case read_choice ps st choice rationale of
    Concludes c \<Rightarrow> everyoneSpoke ps (ts_spoken st) | Speaks p a b \<Rightarrow> p \<in> set ps"
  using rotation_mem [OF assms] by (simp add: read_choice_def Let_def personaNamed_mem split: option.split)

lemma choose_chair_guard:
  assumes "ps \<noteq> []" "choose_chair w intent ps style live st r = (Inr ch, r1)"
  shows "case ch of Concludes c \<Rightarrow> everyoneSpoke ps (ts_spoken st) | Speaks p a b \<Rightarrow> p \<in> set ps"
  using assms read_choice_guard [OF assms(1)] rotation_mem [OF assms(1)]
  by (auto simp: choose_chair_def bindS_Inr split: if_splits)

lemma conversation_guard:
  assumes "ps \<noteq> []"
  shows "conversation w intent ps style live tools n st r = (Inr st', r') \<Longrightarrow> table_ok ps st \<Longrightarrow>
    table_ok ps st' \<and> length (ts_transcript st') \<le> length (ts_transcript st) + n \<and>
    (length (ts_transcript st') < length (ts_transcript st) + n \<longrightarrow> everyoneSpoke ps (ts_spoken st'))"
proof (induction n arbitrary: st r)
  case (Suc n)
  let ?rest = "\<lambda>st'. conversation w intent ps style live tools n st'"
  from Suc.prems(1) obtain ch r1 r2 where ch: "choose_chair w intent ps style live st r1 = (Inr ch, r2)"
    and rest: "seat w intent ps style live tools st ?rest ch r2 = (Inr st', r')"
    unfolding conversation.simps thenS_def bindS_Inr by blast
  note guard = choose_chair_guard [OF assms ch]
  show ?case
  proof (cases ch)
    case (Concludes rationale)
    then show ?thesis using rest guard Suc.prems(2) by (auto simp: table_ok_def seat_def)
  next
    case (Speaks p chosenBy choiceRationale)
    then obtain statement r3 where cont: "?rest
        (st\<lparr>ts_lastIndex := personaIndex ps (pe_ref p), ts_spoken := pe_Name p # ts_spoken st,
            ts_transcript := ts_transcript st @ [\<lparr>tn_Speaker = pe_Name p, tn_Statement = statement\<rparr>]\<rparr>) r3 = (Inr st', r')"
      using rest by (auto simp: thenS_def bindS_Inr Let_def seat_def)
    have "p \<in> set ps" using guard Speaks by simp
    then show ?thesis using Suc.IH [OF cont] Suc.prems(2) by (auto simp: table_ok_def)
  qed
qed auto

text \<open>
  Whatever the model answers, a panel takes at most the turns its budget allows, only listed
  personas speak, and it ends early only after every persona has spoken.
\<close>

theorem panel_guarded:
  assumes "ps \<noteq> []"
    and "conversation w intent ps style live tools (panel_budget p ps) table_start r = (Inr st, r')"
  shows "length (ts_transcript st) \<le> panel_budget p ps \<and>
    (\<forall>t \<in> set (ts_transcript st). \<exists>q \<in> set ps. tn_Speaker t = pe_Name q) \<and>
    (length (ts_transcript st) < panel_budget p ps \<longrightarrow>
       (\<forall>q \<in> set ps. \<exists>t \<in> set (ts_transcript st). tn_Speaker t = pe_Name q))"
proof -
  have "table_ok ps table_start" by (simp add: table_ok_def table_start_def)
  from conversation_guard [OF assms this] show ?thesis
    by (fastforce simp: table_ok_def table_start_def everyoneSpoke_def list_all_iff)
qed

lemma offline_total:
  assumes "ps \<noteq> []" "\<And>l s. wd_ctx_err w l s = None"
  shows "\<exists>st' r'. conversation w intent ps style False tools n st r = (Inr st', r')"
  by (induction n arbitrary: st r)
    (simp_all add: assms thenS_def checkpoint_def choose_chair_def take_turn_def recordA_def Let_def seat_def)

lemma personaIndex_nth:
  "distinct (map pe_ref ps) \<Longrightarrow> i < length ps \<Longrightarrow> personaIndex ps (pe_ref (ps ! i)) = int i"
  by (induction ps arbitrary: i) (auto simp: nth_Cons' Let_def)

text \<open>
  With no model bound a panel always returns, having gone round the table in order for the
  whole budget.
\<close>

theorem offline_panel_rotates:
  assumes "ps \<noteq> []" "distinct (map pe_ref ps)" "\<forall>l s. wd_ctx_err w l s = None"
  shows "\<exists>st r'. conversation w intent ps style False tools n table_start r = (Inr st, r') \<and>
    map tn_Speaker (ts_transcript st) = map (\<lambda>i. pe_Name (ps ! (i mod length ps))) [0..<n]"
proof -
  have "\<exists>st' r'. conversation w intent ps style False tools n st r = (Inr st', r') \<and>
      map tn_Speaker (ts_transcript st') =
        map tn_Speaker (ts_transcript st) @ map (\<lambda>i. pe_Name (ps ! ((k + i) mod length ps))) [0..<n]"
    if "nat (ts_lastIndex st + 1) mod length ps = k mod length ps" for st r k
    using that
  proof (induction n arbitrary: st r k)
    case (Suc n)
    let ?p = "rotation ps st"
    have p: "?p = ps ! (k mod length ps)" using Suc.prems by (simp add: rotation_def)
    let ?t = "\<lparr>tn_Speaker = pe_Name ?p, tn_Statement =
        ''(no model bound) '' @ pe_Name ?p @ '' would deliberate here as: '' @ standing ?p\<rparr>"
    let ?st = "st\<lparr>ts_lastIndex := personaIndex ps (pe_ref ?p), ts_spoken := pe_Name ?p # ts_spoken st,
        ts_transcript := ts_transcript st @ [?t]\<rparr>"
    have "personaIndex ps (pe_ref ?p) = int (k mod length ps)"
      using assms(1,2) unfolding p by (intro personaIndex_nth) simp_all
    then have "nat (ts_lastIndex ?st + 1) mod length ps = Suc k mod length ps"
      by (simp add: nat_add_distrib mod_Suc_eq)
    from Suc.IH [OF this] obtain st' r' where IH:
      "conversation w intent ps style False tools n ?st
         (put_record w (turn_record intent ?p style False (length (ts_transcript ?st)) ''rotation'' [] (tn_Statement ?t)) r) = (Inr st', r')"
      "map tn_Speaker (ts_transcript st') =
         map tn_Speaker (ts_transcript ?st) @ map (\<lambda>i. pe_Name (ps ! ((Suc k + i) mod length ps))) [0..<n]"
      by blast
    have "conversation w intent ps style False tools (Suc n) st r = (Inr st', r')"
      using IH(1) assms(3) by (simp add: thenS_def checkpoint_def choose_chair_def take_turn_def recordA_def Let_def seat_def)
    moreover have "map (\<lambda>i. pe_Name (ps ! ((k + i) mod length ps))) [0..<Suc n] =
        pe_Name ?p # map (\<lambda>i. pe_Name (ps ! ((Suc k + i) mod length ps))) [0..<n]"
      by (simp add: p upt_conv_Cons map_Suc_upt [symmetric] comp_def del: upt_Suc)
    ultimately show ?case using IH(2) by simp
  qed simp
  from this [of table_start 0 r] show ?thesis by (simp add: table_start_def)
qed

definition plain_persona :: "nat \<Rightarrow> string \<Rightarrow> Persona" where
  "plain_persona n name = \<lparr>pe_ref = n, pe_Name = name, pe_Instructions = [], pe_Skills = []\<rparr>"

definition two_personas :: "Persona list" where
  "two_personas = [plain_persona 1 ''Risk'', plain_persona 2 ''Legal'']"

lemma two_personas_ok: "two_personas \<noteq> []" "distinct (map pe_ref two_personas)"
  by (simp_all add: two_personas_def plain_persona_def)

lemma offline_panel_rotates_witness:
  "\<exists>st r'. conversation (quiet_world deny (ScriptedLM [] [])) (NewIntent ''pay'' None) two_personas [] False [] 3
      table_start guarded_runtime = (Inr st, r') \<and>
    map tn_Speaker (ts_transcript st) = [''Risk'', ''Legal'', ''Risk'']"
  using offline_panel_rotates [OF two_personas_ok, of "quiet_world deny (ScriptedLM [] [])" "NewIntent ''pay'' None" "[]" "[]" 3 guarded_runtime]
  by (simp add: quiet_world_def two_personas_def plain_persona_def upt_rec)

lemma panel_guarded_witness:
  "\<exists>st r'. conversation (quiet_world deny (ScriptedLM [] [])) (NewIntent ''pay'' None) two_personas [] False []
      (panel_budget \<lparr>pn_Rounds = 0, pn_MaxTurns = 3\<rparr> two_personas) table_start guarded_runtime = (Inr st, r') \<and>
    length (ts_transcript st) \<le> 3"
proof -
  let ?w = "quiet_world deny (ScriptedLM [] [])" and ?i = "NewIntent ''pay'' None"
    and ?p = "\<lparr>pn_Rounds = 0, pn_MaxTurns = 3\<rparr> :: Panel"
  have b: "panel_budget ?p two_personas = 3"
    by (simp add: panel_budget_def two_personas_def)
  have start: "table_ok two_personas table_start" by (simp add: table_ok_def table_start_def)
  have "wd_ctx_err ?w l s = None" for l s by (simp add: quiet_world_def)
  then obtain st r' where c: "conversation ?w ?i two_personas [] False [] (panel_budget ?p two_personas) table_start guarded_runtime = (Inr st, r')"
    using offline_total [OF two_personas_ok(1)] by blast
  then show ?thesis using panel_guarded [OF two_personas_ok(1) c] b by auto
qed

end
