(* ===== verification/Stages.thy ===== *)
theory Stages
  imports Panels
begin

text \<open>
  The stages of the cycle, \<^verbatim>\<open>stages.go\<close> with the mechanical steps of \<^verbatim>\<open>pipeline.go\<close>, the model
  half of \<^verbatim>\<open>contract.go\<close> and the research of \<^verbatim>\<open>librarian.go\<close>.  Each stage maps the cycle, the value
  threaded through the pipeline (\<^verbatim>\<open>cycle.go\<close>), to the next.
\<close>

record Cycle =
  cy_Intent :: Intent
  cy_Approval :: "ApprovalVerdict option"
  cy_Candidates :: "Process list"
  cy_Selected :: "Process list"
  cy_Plan :: "Workflow list"
  cy_Recalled :: string
  cy_Research :: "Research option"
  cy_Decision :: goval
  cy_Data :: ctx
  cy_Evidence :: "Evidence option"

type_synonym stage_run = "Cycle \<Rightarrow> Cycle act"

definition modelLabel :: "Runtime \<Rightarrow> string" where
  "modelLabel r = (if rt_LM r then ''llm'' else [])"

definition nil_panic :: ear_error where
  "nil_panic = Panic ''runtime error: invalid memory address or nil pointer dereference''"

section \<open>Planning\<close>

definition discoverByKeyword :: "Process list \<Rightarrow> Intent \<Rightarrow> Process list" where
  "discoverByKeyword ps intent =
     (let words = intent_words (in_Text intent) in
      if length words = 0 then ps
      else (let matches = filter (\<lambda>p. list_ex (\<lambda>w. contains_str w (ToLower (pr_Name p))) words) ps
            in if length matches = 0 then ps else matches))"

definition discovery_record :: "Intent \<Rightarrow> Process list \<Rightarrow> Process list \<Rightarrow> string \<Rightarrow> Record" where
  "discovery_record intent ps found model =
     (record_of ''discovery''
        [(''intent'', VStr (in_Text intent)), (''available_processes'', VStrs (processNames ps))]
        (orNone (processNames found)))\<lparr>rc_Model := model\<rparr>"

definition discover :: "World \<Rightarrow> Intent \<Rightarrow> Process list act" where
  "discover w intent = getS (\<lambda>r.
     let found = discoverByKeyword (rt_Processes r) intent in
     thenS (recordA w (discovery_record intent (rt_Processes r) found [])) (returnS found))"

definition lmDiscover :: "World \<Rightarrow> Intent \<Rightarrow> Process list act" where
  "lmDiscover w intent = getS (\<lambda>r.
     if length (rt_Processes r) = 0 then returnS []
     else bindS (askA w DiscoverRelevantProcesses [VStr (in_Text intent), VStr (processCatalogue (rt_Processes r))])
       (\<lambda>out. let resolved = resolveProcesses (out_list out 0) (rt_Processes r);
                  found = (if length resolved = 0 then rt_Processes r else resolved)
              in thenS (recordA w (discovery_record intent (rt_Processes r) found (modelLabel r))) (returnS found)))"

definition discoverStage_Run :: "World \<Rightarrow> stage_run" where
  "discoverStage_Run w c = getS (\<lambda>r.
     bindS (if \<not> rt_LM r then discover w (cy_Intent c) else lmDiscover w (cy_Intent c))
       (\<lambda>found. returnS (c\<lparr>cy_Candidates := found\<rparr>)))"

definition selectProcesses :: "Process list \<Rightarrow> Process list" where
  "selectProcesses candidates = dedup_by pr_Name [] candidates"

definition selectStage_Run :: "World \<Rightarrow> stage_run" where
  "selectStage_Run w c = getS (\<lambda>r.
     let deduped = selectProcesses (cy_Candidates c) in
     if \<not> rt_LM r \<or> length deduped \<le> 1 then returnS (c\<lparr>cy_Selected := deduped\<rparr>)
     else bindS (askA w SelectProcesses [VStr (in_Text (cy_Intent c)), VStr (processCatalogue deduped)])
       (\<lambda>out. let resolved = resolveProcesses (out_list out 0) deduped;
                  chosen = (if length resolved = 0 then deduped else resolved)
              in thenS (recordA w ((record_of ''selection''
                     [(''intent'', VStr (in_Text (cy_Intent c))), (''candidates'', VStrs (processNames deduped))]
                     (orNone (processNames chosen)))\<lparr>rc_Model := modelLabel r\<rparr>))
                   (returnS (c\<lparr>cy_Selected := chosen\<rparr>))))"

definition compose :: "Process list \<Rightarrow> Workflow list" where
  "compose selected = concat (map pr_Workflows selected)"

definition composeStage_Run :: "stage_run" where
  "composeStage_Run c = returnS (c\<lparr>cy_Plan := compose (cy_Selected c)\<rparr>)"

definition schedule :: "Workflow list \<Rightarrow> Workflow list" where
  "schedule plan = plan"

definition scheduleStage_Run :: "World \<Rightarrow> stage_run" where
  "scheduleStage_Run w c = getS (\<lambda>r.
     let plan = schedule (cy_Plan c) in
     if \<not> rt_LM r \<or> length plan \<le> 1 then returnS (c\<lparr>cy_Plan := plan\<rparr>)
     else bindS (askA w ScheduleWorkflows [VStr (in_Text (cy_Intent c)), VStr (workflowSummaries plan)])
       (\<lambda>out. let ordered = reorderWorkflows (out_list out 0) plan
              in thenS (recordA w ((record_of ''scheduling''
                     [(''intent'', VStr (in_Text (cy_Intent c))), (''composed_order'', VStrs (workflowNames plan))]
                     (join_with '', '' (workflowNames ordered)))\<lparr>rc_Model := modelLabel r\<rparr>))
                   (returnS (c\<lparr>cy_Plan := ordered\<rparr>))))"

section \<open>Delegation\<close>

definition numberedSteps :: "Step list \<Rightarrow> string" where
  "numberedSteps steps =
     join_with [newline] (map (\<lambda>(i, s). show_nat (i + 1) @ '': '' @ st_Instruction s) (enumerate 0 steps))"

definition personaPool :: "Persona list \<Rightarrow> string" where
  "personaPool pool =
     join_with [newline]
       (map (\<lambda>p. pe_Name p @ '': '' @ orText (pe_Instructions p) ''no standing instructions'' @
          (if 0 < length (pe_Skills p) then '' -- skills: '' @ join_with '', '' (map sk_Name (pe_Skills p)) else [])) pool)"

definition scan_int :: "string \<Rightarrow> int option" where
  \<comment> \<open>Sscanf with the verb %d: a sign and the digits that follow, what comes after them ignored\<close>
  "scan_int s =
     (let neg = (case s of c # _ \<Rightarrow> c = CHR ''-'' | [] \<Rightarrow> False);
          body = (case s of c # t \<Rightarrow> if c = CHR ''-'' \<or> c = CHR ''+'' then t else s | [] \<Rightarrow> s);
          digits = takeWhile is_digit body;
          v = (if neg then - int (read_digits digits) else int (read_digits digits))
      in if digits \<noteq> [] \<and> min_int64 \<le> v \<and> v \<le> max_int64 then Some v else None)"

definition apply_delegation :: "Persona list \<Rightarrow> string \<Rightarrow> Step list \<Rightarrow> Step list" where
  "apply_delegation pool a steps =
     (case cut_at '':'' a of
        None \<Rightarrow> steps
      | Some (numberText, personaName) \<Rightarrow>
          (case scan_int (TrimSpace numberText) of
             None \<Rightarrow> steps
           | Some number \<Rightarrow>
               (case find (\<lambda>p. Normalize (pe_Name p) = Normalize personaName) (rev pool) of
                  None \<Rightarrow> steps
                | Some persona \<Rightarrow>
                    if 1 \<le> number \<and> number \<le> int (length steps) \<and> st_Persona (steps ! nat (number - 1)) = None
                    then steps[nat (number - 1) := (steps ! nat (number - 1))\<lparr>st_Persona := Some persona\<rparr>]
                    else steps)))"

definition applyDelegations :: "string list \<Rightarrow> Step list \<Rightarrow> Persona list \<Rightarrow> Step list" where
  \<comment> \<open>the undelegated steps after the assignments\<close>
  "applyDelegations assignments undelegated pool = fold (apply_delegation pool) assignments undelegated"

fun put_back :: "Step list \<Rightarrow> Step list \<Rightarrow> Step list" where
  \<comment> \<open>the steps of a workflow, its undelegated ones replaced in order\<close>
  "put_back (s # ss) us =
     (if st_Persona s \<noteq> None then s # put_back ss us
      else (case us of u # us' \<Rightarrow> u # put_back ss us' | [] \<Rightarrow> s # put_back ss []))"
| "put_back [] us = []"

definition replace_workflow :: "Workflow \<Rightarrow> Workflow \<Rightarrow> Workflow" where
  \<comment> \<open>writing through the pointer: every workflow of that address\<close>
  "replace_workflow new v = (if wf_ref v = wf_ref new then new else v)"

definition replace_in_runtime :: "Workflow \<Rightarrow> Runtime \<Rightarrow> Runtime" where
  "replace_in_runtime new r =
     r\<lparr>rt_Processes := map (\<lambda>p. p\<lparr>pr_Workflows := map (replace_workflow new) (pr_Workflows p)\<rparr>) (rt_Processes r)\<rparr>"

function delegate_loop :: "World \<Rightarrow> Workflow list \<Rightarrow> Workflow list \<Rightarrow> Workflow list act" where
  \<comment> \<open>the loop over the plan: the workflows seen, and those to come\<close>
  "delegate_loop w seen [] = returnS seen"
| "delegate_loop w seen (wk # rest) =
     (let undelegated = filter (\<lambda>s. st_Persona s = None) (wf_Steps wk);
          pool = DelegatedPersonas wk
      in if length undelegated = 0 \<or> length pool = 0 then delegate_loop w (seen @ [wk]) rest
         else bindS (askA w DelegateSteps [VStr (numberedSteps undelegated), VStr (personaPool pool)])
           (\<lambda>out.
              let new = wk\<lparr>wf_Steps := put_back (wf_Steps wk) (applyDelegations (out_list out 0) undelegated pool)\<rparr>
              in thenS (updateS (replace_in_runtime new))
                   (delegate_loop w (map (replace_workflow new) seen @ [new]) (map (replace_workflow new) rest))))"
  by pat_completeness auto
termination
  by (relation "measure (\<lambda>(w, seen, rest). length rest)") auto

definition delegateStage_Run :: "World \<Rightarrow> stage_run" where
  "delegateStage_Run w c = getS (\<lambda>r.
     if \<not> rt_LM r then returnS c
     else bindS (delegate_loop w [] (cy_Plan c)) (\<lambda>plan. returnS (c\<lparr>cy_Plan := plan\<rparr>)))"

section \<open>Recall and research\<close>

definition recallStage_Run :: "World \<Rightarrow> stage_run" where
  "recallStage_Run w c = getS (\<lambda>r.
     let window = ContextWindow (rt_Memory r) in
     if \<not> rt_LM r \<or> window = [] then returnS (c\<lparr>cy_Recalled := window\<rparr>)
     else bindS (askA w RecallRelevantMemory [VStr (in_Text (cy_Intent c)), VStr window])
       (\<lambda>out. returnS (c\<lparr>cy_Recalled := (if TrimSpace (out_text out 0) = [] then window else out_text out 0)\<rparr>)))"

definition Passage_Render :: "Passage \<Rightarrow> string" where
  "Passage_Render p = ''['' @ ps_Source p @ '']'' @ [newline] @ ps_Text p"

definition passageSources :: "Passage list \<Rightarrow> string list" where
  "passageSources ps = map ps_Source ps"

definition renderPassages :: "Passage list \<Rightarrow> string" where
  "renderPassages ps = join_with [newline, newline] (map Passage_Render ps)"

fun pick_passages :: "Passage list \<Rightarrow> int list \<Rightarrow> string list \<Rightarrow> Passage list" where
  \<comment> \<open>the loop over the numbers the model gave\<close>
  "pick_passages candidates seen [] = []"
| "pick_passages candidates seen (num # nums) =
     (case Atoi (TrimSpace num) of
        None \<Rightarrow> pick_passages candidates seen nums
      | Some n \<Rightarrow>
          (let idx = n - 1 in
           if 0 \<le> idx \<and> idx < int (length candidates) \<and> idx \<notin> set seen
           then candidates ! nat idx # pick_passages candidates (idx # seen) nums
           else pick_passages candidates seen nums))"

definition judgePassagesWithLM :: "World \<Rightarrow> Intent \<Rightarrow> Passage list \<Rightarrow> (Passage list \<times> string) act" where
  "judgePassagesWithLM w intent candidates =
     catchS
       (bindS (askA w SelectRelevantPassages [VStr (in_Text intent),
           VStr (join_with [newline, newline]
             (map (\<lambda>(i, p). show_nat (i + 1) @ ''. '' @ Passage_Render p) (enumerate 0 candidates)))])
         (\<lambda>out. returnS (pick_passages candidates [] (out_list out 0), out_text out 1)))
       (returnS (take 3 candidates, ''retrieval judging failed; best BM25 candidates included''))"

definition Research_Run :: "World \<Rightarrow> Librarian option \<Rightarrow> Intent \<Rightarrow> Research option act" where
  "Research_Run w librarian intent =
     (case librarian of
        None \<Rightarrow> returnS None
      | Some l \<Rightarrow>
          if length (ln_Passages l) = 0 then returnS None
          else (let candidateLimit = (if ln_CandidateLimit l \<le> 0 then 6 else ln_CandidateLimit l);
                    keep = (if ln_KeepLimit l \<le> 0 then 3 else ln_KeepLimit l);
                    candidates = ln_Candidates l (in_Text intent) candidateLimit
                in if length candidates = 0 then returnS None
                   else getS (\<lambda>r.
                     bindS (if rt_LM r then judgePassagesWithLM w intent candidates
                            else returnS (take (nat keep) candidates,
                              ''structural retrieval only (no model bound): best BM25 candidates included''))
                       (\<lambda>(chosen, rationale).
                          let citations = passageSources chosen;
                              joined = join_with ''; '' citations;
                              output = (if joined = [] then ''nothing judged relevant'' else joined)
                          in thenS (recordA w ((record_of ''retrieval''
                                 [(''intent'', VStr (in_Text intent)), (''candidates'', VStrs (passageSources candidates)),
                                  (''narrowing'', VStr (ln_Narrowing l))] output)
                                 \<lparr>rc_Rationale := rationale, rc_Model := (if rt_LM r then ''llm'' else [])\<rparr>))
                               (returnS (Some \<lparr>rs_Passages = chosen, rs_Citations = citations,
                                               rs_Rendered = renderPassages chosen\<rparr>))))))"

definition researchStage_Run :: "World \<Rightarrow> stage_run" where
  "researchStage_Run w c = getS (\<lambda>r.
     case rt_Librarian r of
       None \<Rightarrow> returnS c
     | Some l \<Rightarrow> bindS (Research_Run w (Some l) (cy_Intent c)) (\<lambda>found. returnS (c\<lparr>cy_Research := found\<rparr>)))"

section \<open>Reasoning\<close>

definition validate :: "goval \<Rightarrow> goval act" where
  "validate decision =
     (case decision of
        VStr s \<Rightarrow> if TrimSpace s = [] then failS (Fault ''validator rejected an empty decision'') else returnS decision
      | _ \<Rightarrow> returnS decision)"

definition deliberate :: "World \<Rightarrow> Cycle \<Rightarrow> goval act" where
  "deliberate w c = getS (\<lambda>r.
     let (style, personas) = panelCall (cy_Plan c) in
     case (if style \<noteq> [] \<and> 2 \<le> length personas then rt_Panel r else None) of
       Some p \<Rightarrow> bindS (Convene w p personas (cy_Intent c) style) (\<lambda>d. returnS (VStr d))
     | None \<Rightarrow> Reasoner_Reason w (cy_Intent c) (cy_Plan c) (cy_Research c))"

definition reasonStage_Run :: "World \<Rightarrow> stage_run" where
  "reasonStage_Run w c =
     bindS (deliberate w c) (\<lambda>d. bindS (validate d) (\<lambda>decision. returnS (c\<lparr>cy_Decision := decision\<rparr>)))"

end
