(* ===== verification/ReasonCycle.thy ===== *)
theory ReasonCycle
  imports Stages
begin

text \<open>
  The rest of the pipeline and one cycle end to end: deliverables (\<^verbatim>\<open>contract.go\<close>), evidence,
  explanation, audit and memory (\<^verbatim>\<open>stages.go\<close>), and \<open>Reason\<close> with the accounting, retention and
  persistence that close every cycle (\<^verbatim>\<open>runtime.go\<close>).
\<close>

section \<open>Deliverables\<close>

definition extract_judgment :: "Contract \<Rightarrow> string \<Rightarrow> Judgment" where
  "extract_judgment ct hint =
     \<lparr>jd_Instruction =
        ''Fill the deliverable's fields from the decision, exactly as the decision states them -- '' @
        ''never invent a value the decision does not support. Each field's description is its authored meaning.'' @
        (if hint \<noteq> [] then [newline] @ ''A prior attempt was judged nonconforming: '' @ hint else []),
      jd_Inputs = [NewField ''intent'' ''The intent the decision resolves'',
                   NewField ''decision'' ''The prose decision to fill the fields from''],
      jd_Outputs = map (\<lambda>f. \<lparr>fl_Name = Identifier f,
                             fl_Desc = (if cf_Meaning f = [] then cf_Name f else cf_Meaning f),
                             fl_Kind = KindStr\<rparr>) (ct_Fields ct),
      jd_Demos = [], jd_CacheBoundary = []\<rparr>"

definition Extract :: "World \<Rightarrow> Contract \<Rightarrow> goval \<Rightarrow> string \<Rightarrow> string \<Rightarrow> ctx act" where
  "Extract w ct decision intent hint =
     bindS (withLM (Judgment_Run (wd_provider w) (extract_judgment ct hint)
         [(''intent'', VStr intent), (''decision'', VStr (Sprint decision))]))
       (\<lambda>pred. returnS (fold (\<lambda>f data.
          map_put (cf_Name f) (Coerce (join_with '' '' (Fields (Pred_Text pred (Identifier f))))) data) (ct_Fields ct) []))"

definition renderData :: "Contract \<Rightarrow> ctx \<Rightarrow> string" where
  "renderData ct data =
     join_with [newline] (map (\<lambda>f. ''- '' @ cf_Name f @ '': '' @ Sprint (value_of data (cf_Name f))) (ct_Fields ct))"

definition JudgeWithModel :: "World \<Rightarrow> Contract \<Rightarrow> ctx \<Rightarrow> (bool \<times> string) act" where
  "JudgeWithModel w ct data =
     bindS (askA w JudgeContractConformance [VStr (RenderFields ct), VStr (renderData ct data)])
       (\<lambda>out. returnS (out_bool out 0, out_text out 1))"

definition attempt :: "World \<Rightarrow> Cycle \<Rightarrow> Contract \<Rightarrow> string \<Rightarrow> (bool \<times> string \<times> ctx) act" where
  "attempt w c ct hint =
     bindS (Extract w ct (cy_Decision c) (in_Text (cy_Intent c)) hint) (\<lambda>extracted.
     bindS (JudgeWithModel w ct extracted) (\<lambda>(conforms, rationale). returnS (conforms, rationale, extracted)))"

definition extractAndJudge :: "World \<Rightarrow> Cycle \<Rightarrow> Contract \<Rightarrow> (bool \<times> string \<times> ctx) act" where
  "extractAndJudge w c ct =
     bindS (attempt w c ct []) (\<lambda>(conforms, rationale, extracted).
       if conforms then returnS (conforms, rationale, extracted) else attempt w c ct rationale)"

definition merge_data :: "ctx \<Rightarrow> ctx \<Rightarrow> ctx" where
  "merge_data data extracted = fold (\<lambda>(k, v) m. map_put k v m) extracted data"

fun formalize_loop :: "World \<Rightarrow> Cycle \<Rightarrow> Workflow list \<Rightarrow> ctx \<Rightarrow> ctx act" where
  "formalize_loop w c [] data = returnS data"
| "formalize_loop w c (wk # rest) data =
     (case wf_Contract wk of
        None \<Rightarrow> formalize_loop w c rest data
      | Some ct \<Rightarrow>
          bindS (extractAndJudge w c ct) (\<lambda>(conforms, rationale, extracted).
            thenS (recordA w ((record_of ''contract''
                [(''contract'', VStr (ct_Name ct)), (''fields'', VStr (RenderFields ct)), (''data'', VMap extracted)]
                (if conforms then ''conformant'' else ''NONCONFORMING -- data withheld from the decision''))
                \<lparr>rc_Rationale := rationale, rc_Model := ''llm''\<rparr>))
              (formalize_loop w c rest (if conforms then merge_data data extracted else data))))"

fun formalize :: "World \<Rightarrow> Workflow list \<Rightarrow> unit act" where
  \<comment> \<open>no model bound: one skip per contract\<close>
  "formalize w [] = returnS ()"
| "formalize w (wk # rest) =
     (case wf_Contract wk of
        None \<Rightarrow> formalize w rest
      | Some ct \<Rightarrow>
          thenS (recordA w (record_of ''contract''
              [(''contract'', VStr (ct_Name ct)), (''fields'', VStr (RenderFields ct))]
              ''skipped -- no model bound to extract the deliverable''))
            (formalize w rest))"

definition formalizeStage_Run :: "World \<Rightarrow> stage_run" where
  "formalizeStage_Run w c = getS (\<lambda>r.
     if \<not> rt_LM r then thenS (formalize w (cy_Plan c)) (returnS c)
     else bindS (formalize_loop w c (cy_Plan c) [])
       (\<lambda>data. returnS (if 0 < length data then c\<lparr>cy_Data := data\<rparr> else c)))"

section \<open>Evidence, explanation, audit\<close>

definition put_source :: "string \<Rightarrow> goval \<Rightarrow> Evidence \<Rightarrow> Evidence" where
  "put_source k v e = e\<lparr>ev_Sources := map_put k v (ev_Sources e)\<rparr>"

definition buildEvidence :: "Runtime \<Rightarrow> Intent \<Rightarrow> Workflow list \<Rightarrow> string \<Rightarrow> Evidence" where
  "buildEvidence r intent plan recalled =
     put_source ''recalled_memory'' (VStr recalled)
       (put_source ''plan'' (VStrs (workflowNames plan))
         (put_source ''context'' (VMap (in_Context intent))
           (put_source ''policies_checked'' (VStrs (policyNames (rt_Policies r)))
             (NewEvidence ''Resolved via the Reasoner's dependency-free default''))))"

definition evidenceStage_Run :: "stage_run" where
  "evidenceStage_Run c = getS (\<lambda>r.
     let e0 = buildEvidence r (cy_Intent c) (cy_Plan c) (cy_Recalled c);
         e1 = (if 0 < length (cy_Data c) then put_source ''data'' (VMap (cy_Data c)) e0 else e0);
         e2 = (case cy_Research c of
                 Some rs \<Rightarrow> if 0 < length (rs_Citations rs) then put_source ''citations'' (VStrs (rs_Citations rs)) e1 else e1
               | None \<Rightarrow> e1)
     in returnS (c\<lparr>cy_Evidence := Some e2\<rparr>))"

definition explain :: "Evidence \<Rightarrow> goval \<Rightarrow> string" where
  "explain e decision = ev_Basis e @ '' -> '' @ Sprint decision"

definition explainStage_Run :: "World \<Rightarrow> stage_run" where
  "explainStage_Run w c = getS (\<lambda>r.
     case cy_Evidence c of
       None \<Rightarrow> failS nil_panic
     | Some e \<Rightarrow>
         bindS (if \<not> rt_LM r then returnS (explain e (cy_Decision c))
                else bindS (askA w ExplainDecision [VStr (ev_Basis e), VStr (Sprint (cy_Decision c))])
                       (\<lambda>out. returnS (out_text out 0)))
           (\<lambda>explanation.
              thenS (recordA w ((record_of ''explanation''
                  [(''basis'', VStr (ev_Basis e)), (''decision'', VStr (Sprint (cy_Decision c)))] explanation)
                  \<lparr>rc_Model := modelLabel r\<rparr>))
                (returnS (c\<lparr>cy_Evidence := Some (put_source ''explanation'' (VStr explanation) e)\<rparr>))))"

definition evidenceSummary :: "Evidence \<Rightarrow> string" where
  "evidenceSummary e =
     join_with [newline]
       ((''Basis: '' @ ev_Basis e) #
        List.map_filter
          (\<lambda>k. case map_of (ev_Sources e) k of
                 Some v \<Rightarrow> if v \<noteq> VNil then Some (k @ '': '' @ Sprint v) else None
               | None \<Rightarrow> None)
          [''policies_checked'', ''plan'', ''recalled_memory''])"

definition audit :: "Evidence \<Rightarrow> Evidence" where
  "audit e = (if map_of (ev_Sources e) ''audited'' = None then put_source ''audited'' (VBool True) e else e)"

definition auditStage_Run :: "World \<Rightarrow> stage_run" where
  "auditStage_Run w c = getS (\<lambda>r.
     case cy_Evidence c of
       None \<Rightarrow> failS nil_panic
     | Some e \<Rightarrow>
         if rt_LM r then
           bindS (askA w AuditEvidence [VStr (Sprint (cy_Decision c)), VStr (evidenceSummary e)])
             (\<lambda>out. let assessment = out_text out 0 in
                thenS (recordA w ((record_of ''audit''
                    [(''basis'', VStr (ev_Basis e)), (''decision'', VStr (Sprint (cy_Decision c)))] assessment)
                    \<lparr>rc_Model := modelLabel r\<rparr>))
                  (returnS (c\<lparr>cy_Evidence := Some (audit (put_source ''audit_assessment'' (VStr assessment) e))\<rparr>)))
         else returnS (c\<lparr>cy_Evidence := Some (audit e)\<rparr>))"

section \<open>Memory\<close>

definition adapt :: "Runtime \<Rightarrow> Adaptation option \<times> Runtime" where
  "adapt r =
     (if rt_AdaptEvery r \<le> 0 \<or> xp_Observations (rt_Experience r) = 0 then (None, r)
      else if xp_Observations (rt_Experience r) mod rt_AdaptEvery r \<noteq> 0 then (None, r)
      else (let (learned, bank) = LearnFrom (rt_Experience r) (rt_Adaptations r)
            in (learned, r\<lparr>rt_Adaptations := bank\<rparr>)))"

definition remember :: "World \<Rightarrow> Cycle \<Rightarrow> Runtime \<Rightarrow> Runtime" where
  "remember w c r =
     (let (entry, m) = Memory_Record (wd_clock w (rt_ReasoningLog r)) (in_Text (cy_Intent c)) (cy_Decision c)
                         (in_Context (cy_Intent c)) (cy_Evidence c) (rt_Memory r)
      in r\<lparr>rt_Memory := m, rt_Experience := ObserveEntry entry (rt_Experience r)\<rparr>)"

definition memoryStage_Run :: "World \<Rightarrow> stage_run" where
  "memoryStage_Run w c r =
     (let (learned, r1) = adapt (remember w c r) in
      case learned of
        None \<Rightarrow> (Inr c, r1)
      | Some a \<Rightarrow>
          (Inr c, put_record w (record_of ''adaptation''
             [(''experience'', VStr (Experience_Summary (rt_Experience r1)))] (ad_Insight a)) r1))"

section \<open>The pipeline\<close>

definition govern_run :: "World \<Rightarrow> string \<Rightarrow> bool \<Rightarrow> stage_run" where
  "govern_run w scope workflow c = getS (\<lambda>r.
     bindS (governStage_Run w scope (if workflow then workflowPolicies (cy_Plan c) else rt_Policies r)
              (cy_Intent c) (cy_Approval c))
       (\<lambda>_. returnS c))"

fun stage_Run :: "World \<Rightarrow> stage \<Rightarrow> stage_run" where
  "stage_Run w (governStage scope workflow) = govern_run w scope workflow"
| "stage_Run w discoverStage = discoverStage_Run w"
| "stage_Run w selectStage = selectStage_Run w"
| "stage_Run w composeStage = composeStage_Run"
| "stage_Run w scheduleStage = scheduleStage_Run w"
| "stage_Run w delegateStage = delegateStage_Run w"
| "stage_Run w recallStage = recallStage_Run w"
| "stage_Run w researchStage = researchStage_Run w"
| "stage_Run w reasonStage = reasonStage_Run w"
| "stage_Run w formalizeStage = formalizeStage_Run w"
| "stage_Run w evidenceStage = evidenceStage_Run"
| "stage_Run w explainStage = explainStage_Run w"
| "stage_Run w auditStage = auditStage_Run w"
| "stage_Run w memoryStage = memoryStage_Run w"

fun run_stages :: "World \<Rightarrow> stage list \<Rightarrow> stage_run" where
  "run_stages w [] c = returnS c"
| "run_stages w (s # ss) c =
     thenS (checkpoint w) (bindS (stage_Run w s c) (\<lambda>c'. run_stages w ss c'))"

definition new_cycle :: "Intent \<Rightarrow> ApprovalVerdict option \<Rightarrow> Cycle" where
  "new_cycle intent approval =
     \<lparr>cy_Intent = intent, cy_Approval = approval, cy_Candidates = [], cy_Selected = [], cy_Plan = [],
      cy_Recalled = [], cy_Research = None, cy_Decision = VNil, cy_Data = [], cy_Evidence = None\<rparr>"

section \<open>Closing a cycle\<close>

definition modelCallsSoFar :: "Runtime \<Rightarrow> nat" where
  "modelCallsSoFar r = (if rt_LM r \<and> rt_CallHistory r then length (lm_History (rt_lm r)) else 0)"

definition cycleCalls :: "nat \<Rightarrow> Runtime \<Rightarrow> Call list" where
  "cycleCalls callsBefore r =
     (if \<not> (rt_LM r \<and> rt_CallHistory r) then []
      else if length (lm_History (rt_lm r)) < callsBefore then []
      else drop callsBefore (lm_History (rt_lm r)))"

definition total :: "(Usage \<Rightarrow> int) \<Rightarrow> Call list \<Rightarrow> int" where
  "total f calls = sum_list (map (\<lambda>c. f (ca_Usage c)) calls)"

definition usage_output :: "Runtime \<Rightarrow> Call list \<Rightarrow> f64 \<times> bool \<Rightarrow> int \<Rightarrow> string" where
  "usage_output r calls cost latency =
     (let i = total us_PromptTokens calls; out = total us_CompletionTokens calls;
          rd = total us_CacheReadTokens calls; wr = total us_CacheWriteTokens calls;
          retries = sum_list (map ca_Retries calls)
      in if 0 < length calls then
           show_nat (length calls) @ '' model calls, '' @ show_int i @ ''+'' @ show_int out @ '' tokens'' @
           (if 0 < rd \<or> 0 < wr then '' ('' @ show_int rd @ '' cache read, '' @ show_int wr @ '' cache write)'' else []) @
           (if snd cost then '', ~$'' @ format_f 6 (fst cost) else []) @
           (if 0 < retries then '', '' @ show_int retries @ '' retried'' else []) @
           '', '' @ show_int latency @ '' ms''
         else if rt_LM r then ''0 new model calls recorded (cached), '' @ show_int latency @ '' ms''
         else ''0 model calls (deterministic fallbacks), '' @ show_int latency @ '' ms'')"

definition usage_inputs :: "Call list \<Rightarrow> f64 \<times> bool \<Rightarrow> int \<Rightarrow> ctx" where
  "usage_inputs calls cost latency =
     [(''model_calls'', VInt (int (length calls))), (''input_tokens'', VInt (total us_PromptTokens calls)),
      (''output_tokens'', VInt (total us_CompletionTokens calls)),
      (''cache_read_tokens'', VInt (total us_CacheReadTokens calls)),
      (''cache_write_tokens'', VInt (total us_CacheWriteTokens calls)),
      (''retries'', VInt (sum_list (map ca_Retries calls))), (''latency_ms'', VInt64 latency)] @
     (if snd cost then [(''cost'', VFloat (fst cost))] else [])"

definition cycle_cost :: "Runtime \<Rightarrow> Call list \<Rightarrow> f64 \<times> bool" where
  "cycle_cost r calls =
     (case rt_Strategy r of
        Some s \<Rightarrow> Dollars s (total us_PromptTokens calls) (total us_CompletionTokens calls)
                   (total us_CacheReadTokens calls) (total us_CacheWriteTokens calls)
      | None \<Rightarrow> (fzero, False))"

definition spend_budget :: "World \<Rightarrow> f64 \<times> bool \<Rightarrow> Runtime \<Rightarrow> Runtime" where
  "spend_budget w cost r =
     (case rt_Budget r of
        Some b \<Rightarrow>
          if snd cost \<and> flt fzero (fst cost) then
            (let (b', alerts) = Budget_Add (fst cost) b
             in r\<lparr>rt_Budget := Some b', rt_ReasoningLog := deliver_alerts (wd_clock w) alerts (rt_ReasoningLog r)\<rparr>)
          else r
      | None \<Rightarrow> r)"

definition recordUsage :: "World \<Rightarrow> gotime \<Rightarrow> nat \<Rightarrow> Runtime \<Rightarrow> Runtime" where
  "recordUsage w started callsBefore r =
     (let latency = ms_of (wd_clock w (rt_ReasoningLog r) - started);
          calls = cycleCalls callsBefore r;
          cost = cycle_cost r calls
      in spend_budget w cost
           (put_record w (record_of ''usage'' (usage_inputs calls cost latency) (usage_output r calls cost latency)) r))"

definition applyRetention :: "World \<Rightarrow> Runtime \<Rightarrow> Runtime" where
  "applyRetention w r =
     (case rt_Strategy r of
        Some s \<Rightarrow>
          if flt fzero (sy_RetentionDays s) then
            r\<lparr>rt_ReasoningLog := fst (Rotate (wd_oor w) (wd_clock w (rt_ReasoningLog r)) (sy_RetentionDays s) 0 (rt_ReasoningLog r))\<rparr>
          else r
      | None \<Rightarrow> r)"

definition persist :: "World \<Rightarrow> Runtime \<Rightarrow> Runtime" where
  "persist w r =
     (case rt_SessionStore r of
        None \<Rightarrow> r
      | Some path \<Rightarrow>
          (case wd_save w r of
             None \<Rightarrow> r
           | Some e \<Rightarrow> put_record w (record_of ''persist'' [(''path'', VStr path)] (''session not saved: '' @ error_text e)) r))"

definition close_cycle :: "World \<Rightarrow> gotime \<Rightarrow> nat \<Rightarrow> Runtime \<Rightarrow> Runtime" where
  "close_cycle w started callsBefore r = persist w (applyRetention w (recordUsage w started callsBefore r))"

definition begin_cycle :: "World \<Rightarrow> Intent \<Rightarrow> Runtime \<Rightarrow> Runtime" where
  "begin_cycle w intent r = r\<lparr>rt_ReasoningLog := BeginCycle (wd_clock w (rt_ReasoningLog r)) intent (rt_ReasoningLog r)\<rparr>"

definition reason_body :: "World \<Rightarrow> Claim option \<Rightarrow> Intent \<Rightarrow> ApprovalVerdict option \<Rightarrow> goval act" where
  "reason_body w claim intent approval =
     thenS (checkTenantBoundary w claim)
       (getS (\<lambda>r. bindS (run_stages w (rt_Pipeline r) (new_cycle intent approval)) (\<lambda>c. returnS (cy_Decision c))))"

definition Reason :: "World \<Rightarrow> Claim option \<Rightarrow> Intent \<Rightarrow> ApprovalVerdict option \<Rightarrow> goval act" where
  "Reason w claim intent approval r =
     (let started = wd_clock w (rt_ReasoningLog r);
          (res, r1) = reason_body w claim intent approval (begin_cycle w intent r)
      in (res, close_cycle w started (modelCallsSoFar r) r1))"

end
