(* ===== verification/CycleProps.thy ===== *)
theory CycleProps
  imports ReasonCycle
begin

text \<open>
  What holds of a whole cycle: the frame of every stage (what it may change), the audit trail,
  the gates, the tenant boundary, memory and accounting.
\<close>

section \<open>The frame of a stage\<close>

definition log_ext :: "ReasoningLog \<Rightarrow> ReasoningLog \<Rightarrow> bool" where
  \<comment> \<open>the chain still verifies, and records were only added\<close>
  "log_ext l l' \<longleftrightarrow> (chain_inv l \<longrightarrow> chain_inv l' \<and> (\<exists>recs. Log_Records l' = Log_Records l @ recs))"

definition frame :: "bool \<Rightarrow> Runtime \<Rightarrow> Runtime \<Rightarrow> bool" where
  \<comment> \<open>a step adds records, calls the model, runs handlers unless the flag forbids it, and writes delegations\<close>
  "frame calm r r' \<longleftrightarrow>
     (\<exists>l s e ps. r' = r\<lparr>rt_ReasoningLog := l, rt_lm := s, rt_effects := e, rt_Processes := ps\<rparr> \<and>
        log_ext (rt_ReasoningLog r) l \<and> (calm \<longrightarrow> e = rt_effects r))"

lemma log_ext_refl [simp]: "log_ext l l"
  by (simp add: log_ext_def)

lemma log_ext_trans: "log_ext l l1 \<Longrightarrow> log_ext l1 l2 \<Longrightarrow> log_ext l l2"
  by (auto simp: log_ext_def)

lemma log_ext_record: "log_ext l (Log_Record now rec l)"
  using Log_Record_effect [of l now rec] by (auto simp: log_ext_def)

lemma frame_refl [simp]: "frame calm r r"
  unfolding frame_def
  by (intro exI [of _ "rt_ReasoningLog r"] exI [of _ "rt_lm r"] exI [of _ "rt_effects r"] exI [of _ "rt_Processes r"]) simp

lemma frame_trans: "frame calm r r1 \<Longrightarrow> frame calm r1 r2 \<Longrightarrow> frame calm r r2"
proof -
  assume "frame calm r r1" "frame calm r1 r2"
  then obtain l s e ps l' s' e' ps' where
    r1: "r1 = r\<lparr>rt_ReasoningLog := l, rt_lm := s, rt_effects := e, rt_Processes := ps\<rparr>" and
    a: "log_ext (rt_ReasoningLog r) l" "calm \<longrightarrow> e = rt_effects r" and
    r2: "r2 = r1\<lparr>rt_ReasoningLog := l', rt_lm := s', rt_effects := e', rt_Processes := ps'\<rparr>" and
    b: "log_ext (rt_ReasoningLog r1) l'" "calm \<longrightarrow> e' = rt_effects r1"
    unfolding frame_def by blast
  have "r2 = r\<lparr>rt_ReasoningLog := l', rt_lm := s', rt_effects := e', rt_Processes := ps'\<rparr>" by (simp add: r1 r2)
  moreover have "log_ext (rt_ReasoningLog r) l'" using a b r1 log_ext_trans by simp
  moreover have "calm \<longrightarrow> e' = rt_effects r" using a b r1 by simp
  ultimately show ?thesis unfolding frame_def by blast
qed

lemma frame_transp [simp]: "transp (frame calm)" and frame_reflp [simp]: "reflp (frame calm)"
  by (auto intro: transpI reflpI frame_trans)

lemma frame_put_record [simp]: "frame calm r (put_record w rec r)"
  unfolding frame_def put_record_def
  by (intro exI [of _ "Log_Record (wd_clock w (rt_ReasoningLog r)) rec (rt_ReasoningLog r)"] exI [of _ "rt_lm r"]
      exI [of _ "rt_effects r"] exI [of _ "rt_Processes r"]) (simp add: log_ext_record)

lemma frame_lm [simp]: "frame calm r (r\<lparr>rt_lm := s\<rparr>)"
  unfolding frame_def
  by (intro exI [of _ "rt_ReasoningLog r"] exI [of _ s] exI [of _ "rt_effects r"] exI [of _ "rt_Processes r"]) simp

lemma frame_processes [simp]: "frame calm r (r\<lparr>rt_Processes := ps\<rparr>)"
  unfolding frame_def
  by (intro exI [of _ "rt_ReasoningLog r"] exI [of _ "rt_lm r"] exI [of _ "rt_effects r"] exI [of _ ps]) simp

lemma frame_effects [simp]: "frame False r (r\<lparr>rt_effects := e\<rparr>)"
  unfolding frame_def
  by (intro exI [of _ "rt_ReasoningLog r"] exI [of _ "rt_lm r"] exI [of _ e] exI [of _ "rt_Processes r"]) simp

lemma frame_then_record: "frame calm r r1 \<Longrightarrow> frame calm r (put_record w rec r1)"
  by (rule frame_trans [OF _ frame_put_record])

lemma frame_weaken: "frame calm r r' \<Longrightarrow> frame False r r'"
  unfolding frame_def by blast

lemma frame_keeps:
  "frame calm r r' \<Longrightarrow> rt_Memory r' = rt_Memory r \<and> rt_Experience r' = rt_Experience r \<and>
     rt_Adaptations r' = rt_Adaptations r \<and> rt_Policies r' = rt_Policies r \<and> rt_OrgID r' = rt_OrgID r \<and>
     rt_Pipeline r' = rt_Pipeline r \<and> rt_Strategy r' = rt_Strategy r \<and> rt_AdaptEvery r' = rt_AdaptEvery r \<and>
     log_ext (rt_ReasoningLog r) (rt_ReasoningLog r') \<and> (calm \<longrightarrow> rt_effects r' = rt_effects r)"
  unfolding frame_def by auto

section \<open>Every stage but the last keeps the frame\<close>

named_theorems kept \<open>steps that keep the frame\<close>

lemma kept_basic [kept]:
  "keeps (frame calm) (returnS a)" "keeps (frame calm) (failS e)" "keeps (frame calm) (recordA w rec)"
  "keeps (frame calm) (withLM m)" "keeps (frame calm) (checkpoint w)"
  "keeps (frame calm) (updateS (replace_in_runtime wk))" "keeps (frame calm) (\<lambda>r. (f r, r))"
  by (auto simp: keeps_def recordA_def withLM_snd replace_in_runtime_def)

lemma kept_bind [kept]: "keeps (frame calm) m \<Longrightarrow> (\<And>a. keeps (frame calm) (f a)) \<Longrightarrow> keeps (frame calm) (bindS m f)"
  by (rule keeps_bindS) simp_all

lemma kept_then [kept]: "keeps (frame calm) m \<Longrightarrow> keeps (frame calm) k \<Longrightarrow> keeps (frame calm) (thenS m k)"
  by (rule keeps_thenS) simp_all

lemma kept_getS [kept]: "(\<And>r. keeps R (f r)) \<Longrightarrow> keeps R (getS f)"
  by (simp add: keeps_def)

lemma kept_if [kept]: "(b \<Longrightarrow> keeps R m) \<Longrightarrow> (\<not> b \<Longrightarrow> keeps R k) \<Longrightarrow> keeps R (if b then m else k)"
  by simp

lemma kept_cases [kept]:
  "keeps R m \<Longrightarrow> (\<And>y. keeps R (f y)) \<Longrightarrow> keeps R (case x of None \<Rightarrow> m | Some y \<Rightarrow> f y)"
  "(\<And>a. keeps R (g a)) \<Longrightarrow> (\<And>b. keeps R (h b)) \<Longrightarrow> keeps R (case s of Inl a \<Rightarrow> g a | Inr b \<Rightarrow> h b)"
  "(\<And>a b. keeps R (k a b)) \<Longrightarrow> keeps R (case p of (a, b) \<Rightarrow> k a b)"
  by (simp_all split: option.split sum.split prod.split)

lemma kept_catch [kept]: "keeps (frame calm) m \<Longrightarrow> keeps (frame calm) h \<Longrightarrow> keeps (frame calm) (catchS m h)"
  unfolding keeps_def catchS_def
  by (auto split: prod.split sum.split) (metis snd_conv frame_trans)+

lemma kept_wrap [kept]: "keeps (frame calm) m \<Longrightarrow> keeps (frame calm) (wrapS msg m)"
  unfolding keeps_def wrapS_def by (auto split: prod.split sum.split) (metis snd_conv)+

lemma kept_mapA [kept]: "(\<And>x. keeps (frame calm) (f x)) \<Longrightarrow> keeps (frame calm) (mapA f xs)"
  by (induction xs) (simp_all add: kept)

lemma kept_ask [kept]: "keeps (frame calm) (askA w s vs)"
  by (simp add: askA_def kept)

lemma keepsD: "keeps R m \<Longrightarrow> R r (snd (m r))"
  by (simp add: keeps_def)

lemma put_records_frame: "frame calm r (put_records w recs r)"
proof (induction recs arbitrary: r)
  case (Cons rec recs)
  show ?case using frame_trans [OF frame_put_record Cons.IH] by simp
qed simp

lemma kept_govern [kept]: "keeps (frame calm) (govern w ps intent approval)"
  unfolding keeps_def
proof
  fix r
  obtain recs s where "snd (govern w ps intent approval r) = put_records w recs (r\<lparr>rt_lm := s\<rparr>)"
    using govern_trail [of w ps intent approval r] by blast
  then show "frame calm r (snd (govern w ps intent approval r))"
    using frame_trans [OF frame_lm put_records_frame] by metis
qed

lemma kept_governance [kept]:
  "keeps (frame calm) (enforce w v approval scope)"
  "keeps (frame calm) (governStage_Run w scope ps intent approval)"
  "keeps (frame calm) (checkTenantBoundary w claim)"
  unfolding enforce_def governStage_Run_def checkTenantBoundary_def Let_def by (auto intro!: kept)

lemma kept_planning [kept]:
  "keeps (frame calm) (discoverStage_Run w c)" "keeps (frame calm) (selectStage_Run w c)"
  "keeps (frame calm) (composeStage_Run c)" "keeps (frame calm) (scheduleStage_Run w c)"
  unfolding discoverStage_Run_def discover_def lmDiscover_def selectStage_Run_def composeStage_Run_def
    scheduleStage_Run_def Let_def by (auto intro!: kept)

lemma kept_delegate_loop [kept]: "keeps (frame calm) (delegate_loop w seen rest)"
  by (induction w seen rest rule: delegate_loop.induct) (auto simp: Let_def intro!: kept)

lemma kept_before_reason [kept]:
  "keeps (frame calm) (delegateStage_Run w c)" "keeps (frame calm) (recallStage_Run w c)"
  "keeps (frame calm) (judgePassagesWithLM w intent cands)" "keeps (frame calm) (Research_Run w l intent)"
  "keeps (frame calm) (researchStage_Run w c)"
  unfolding delegateStage_Run_def recallStage_Run_def judgePassagesWithLM_def Research_Run_def researchStage_Run_def Let_def
  by (auto intro!: kept)

lemma kept_run_handler [kept]: "keeps (frame False) (run_handler w t args)"
  unfolding keeps_def run_handler_def Let_def by (simp add: case_prod_beta frame_then_record)

lemma kept_invoke [kept]: "keeps (frame False) (InvokeTool w name args)"
  unfolding keeps_def InvokeTool_def Let_def
  by (auto simp: case_prod_beta frame_then_record split: option.split
      intro: frame_trans [OF frame_lm keepsD [OF kept_run_handler]])

lemma keepsI: "(\<And>r. R r (snd (m r))) \<Longrightarrow> keeps R m"
  by (simp add: keeps_def)

lemma kept_eta: "keeps R (\<lambda>r. m r) \<Longrightarrow> keeps R m"
  by simp

lemma kept_toolLoop [kept]: "keeps (frame False) (toolLoop w intent cap c ts n st)"
proof (induction n arbitrary: st)
  case 0
  have "toolLoop w intent cap c ts 0 st = returnS (Inr (ls_gathered st))" by (rule ext) simp
  then show ?case by (simp add: kept)
next
  case (Suc n)
  have inner: "keeps (frame False) (\<lambda>r1. case d r1 of None \<Rightarrow> (if b then (Inr (Inl x), r1) else if b' then toolLoop w intent cap c ts n st1 r1 else (Inr (Inr g), r1))
      | Some t \<Rightarrow> (if q t then toolLoop w intent cap c ts n (st2 t) r1
          else bindS (InvokeTool w (bt_Name t) args) (\<lambda>result. toolLoop w intent cap c ts n (st3 t result)) r1))"
    for d :: "Runtime \<Rightarrow> BoundTool option" and b b' x g st1 st2 st3 q args
  proof (rule keepsI)
    fix r1
    show "frame False r1 (snd (case d r1 of None \<Rightarrow> (if b then (Inr (Inl x), r1) else if b' then toolLoop w intent cap c ts n st1 r1 else (Inr (Inr g), r1))
      | Some t \<Rightarrow> (if q t then toolLoop w intent cap c ts n (st2 t) r1
          else bindS (InvokeTool w (bt_Name t) args) (\<lambda>result. toolLoop w intent cap c ts n (st3 t result)) r1)))"
      using keepsD [OF Suc.IH] keepsD [OF kept_bind [OF kept_invoke Suc.IH]] by (simp split: option.split)
  qed
  show ?case
    by (rule kept_eta, subst toolLoop.simps(2), rule kept_bind [OF kept_then [OF kept_basic(5) kept_ask]])
      (simp only: Let_def inner)
qed

lemma kept_reasonWithTools [kept]: "keeps (frame False) (reasonWithTools w intent cap c ts)"
  unfolding reasonWithTools_def Let_def by (auto intro!: kept)

lemma kept_render [kept]:
  assumes "\<And>p. keeps (frame calm) (pick p)"
  shows "keeps (frame calm) (renderCapabilities plan pick)"
  unfolding renderCapabilities_def renderWorkflow_def renderStep_def renderPersona_def
  by (auto intro!: kept assms)

lemma kept_reasoner [kept]: "keeps (frame False) (Reasoner_Reason w intent plan research)"
proof -
  have "keeps (frame False) (select_skills w intent p)" "keeps (frame False) (all_skills p)" for p
    unfolding select_skills_def all_skills_def Let_def by (auto intro!: kept)
  then show ?thesis
    unfolding Reasoner_Reason_def DefaultReasoner_Reason_def LMReasoner_Reason_def Let_def
    by (auto intro!: kept split: reasoner_seam.split)
qed

lemma kept_speak [kept]: "keeps (frame calm) (speak_as w intent p style rendered)"
  by (auto simp: speak_as_def intro!: kept)

lemma kept_turnLoop [kept]: "keeps (frame False) (turnLoop w intent p ts style tools n gathered)"
proof (induction n arbitrary: gathered)
  case 0
  have "turnLoop w intent p ts style tools 0 gathered = returnS (Inr gathered)" by (rule ext) simp
  then show ?case by (simp add: kept)
next
  case (Suc n)
  have inner: "keeps (frame False) (\<lambda>r1. case d r1 of None \<Rightarrow> (if b then (Inr (Inl x), r1) else (Inr (Inr g), r1))
      | Some t \<Rightarrow> bindS (InvokeTool w (bt_Name t) args) (\<lambda>result. turnLoop w intent p ts style tools n (g' t result)) r1)"
    for d :: "Runtime \<Rightarrow> BoundTool option" and b x g g' args
  proof (rule keepsI)
    fix r1
    show "frame False r1 (snd (case d r1 of None \<Rightarrow> (if b then (Inr (Inl x), r1) else (Inr (Inr g), r1))
      | Some t \<Rightarrow> bindS (InvokeTool w (bt_Name t) args) (\<lambda>result. turnLoop w intent p ts style tools n (g' t result)) r1))"
      using keepsD [OF kept_bind [OF kept_invoke Suc.IH]] by (simp split: option.split)
  qed
  show ?case
    by (rule kept_eta, subst turnLoop.simps(2), rule kept_bind [OF kept_then [OF kept_basic(5) kept_ask]])
      (simp only: Let_def inner)
qed

lemma kept_turns [kept]:
  "keeps (frame False) (take_turn w intent p style live tools ts)"
  "keeps (frame False) (choose_chair w intent ps style live st)"
  unfolding take_turn_def speakWithTools_def speak_def choose_chair_def chooseSpeaker_def Let_def
  by (auto intro!: kept split: sum.split)

lemma kept_conversation [kept]: "keeps (frame False) (conversation w intent ps style live tools n st)"
proof (induction n arbitrary: st)
  case (Suc n)
  have "keeps (frame False) (seat w intent ps style live tools st (conversation w intent ps style live tools n) ch)" for ch
    by (cases ch) (auto simp: seat_def Let_def intro!: kept Suc.IH)
  then show ?case by (auto intro!: kept)
qed (simp add: kept)

lemma kept_convene [kept]: "keeps (frame False) (Convene w p ps intent style)"
  unfolding Convene_def synthesize_def Let_def by (auto intro!: kept)

lemma kept_reasonStage [kept]: "keeps (frame False) (reasonStage_Run w c)"
  unfolding reasonStage_Run_def deliberate_def validate_def Let_def
  by (auto intro!: kept split: goval.split)

lemma kept_contract [kept]:
  "keeps (frame calm) (attempt w c ct hint)" "keeps (frame calm) (extractAndJudge w c ct)"
  unfolding extractAndJudge_def attempt_def Extract_def JudgeWithModel_def by (auto intro!: kept)

lemma kept_formalize [kept]: "keeps (frame calm) (formalize w plan)" "keeps (frame calm) (formalize_loop w c plan data)"
  by (induction plan arbitrary: data) (auto intro!: kept split: option.split)

lemma kept_tail [kept]:
  "keeps (frame calm) (formalizeStage_Run w c)" "keeps (frame calm) (evidenceStage_Run c)"
  "keeps (frame calm) (explainStage_Run w c)" "keeps (frame calm) (auditStage_Run w c)"
  "keeps (frame calm) (govern_run w scope b c)"
  unfolding formalizeStage_Run_def evidenceStage_Run_def explainStage_Run_def auditStage_Run_def govern_run_def Let_def
  by (auto intro!: kept)

definition before_reason :: "stage list" where
  \<comment> \<open>the stages up to the second gate\<close>
  "before_reason = [governStage ''Policy'' False, discoverStage, selectStage, composeStage, scheduleStage,
     governStage ''Workflow policy'' True]"

lemma kept_stage: "st \<noteq> memoryStage \<Longrightarrow> keeps (frame False) (stage_Run w st c)"
  by (cases st) (simp_all add: kept)

lemma kept_stage_calm: "st \<noteq> memoryStage \<Longrightarrow> st \<noteq> reasonStage \<Longrightarrow> keeps (frame calm) (stage_Run w st c)"
  by (cases st) (simp_all add: kept)

lemma kept_stages: "memoryStage \<notin> set ss \<Longrightarrow> keeps (frame False) (run_stages w ss c)"
  by (induction ss arbitrary: c) (auto intro!: kept kept_stage)

lemma kept_stages_calm:
  "memoryStage \<notin> set ss \<Longrightarrow> reasonStage \<notin> set ss \<Longrightarrow> keeps (frame calm) (run_stages w ss c)"
  by (induction ss arbitrary: c) (auto intro!: kept kept_stage_calm)

lemma run_stages_append: "run_stages w (as @ bs) c = bindS (run_stages w as c) (run_stages w bs)"
proof (induction as arbitrary: c)
  case (Cons a as)
  then show ?case
    by (auto simp: fun_eq_iff thenS_def bindS_def split: prod.split sum.split)
qed (simp add: fun_eq_iff bindS_def)

section \<open>Opening and closing a cycle\<close>

lemma begin_cycle_keeps [simp]:
  "rt_Memory (begin_cycle w i r) = rt_Memory r" "rt_Experience (begin_cycle w i r) = rt_Experience r"
  "rt_Adaptations (begin_cycle w i r) = rt_Adaptations r" "rt_Policies (begin_cycle w i r) = rt_Policies r"
  "rt_OrgID (begin_cycle w i r) = rt_OrgID r" "rt_Pipeline (begin_cycle w i r) = rt_Pipeline r"
  "rt_Strategy (begin_cycle w i r) = rt_Strategy r" "rt_effects (begin_cycle w i r) = rt_effects r"
  "rt_lm (begin_cycle w i r) = rt_lm r"
  by (simp_all add: begin_cycle_def)

lemma close_cycle_keeps [simp]:
  "rt_Memory (close_cycle w t n r) = rt_Memory r" "rt_Experience (close_cycle w t n r) = rt_Experience r"
  "rt_Adaptations (close_cycle w t n r) = rt_Adaptations r" "rt_effects (close_cycle w t n r) = rt_effects r"
  "rt_lm (close_cycle w t n r) = rt_lm r"
  by (simp_all add: close_cycle_def persist_def applyRetention_def recordUsage_def spend_budget_def put_record_def
      Let_def case_prod_beta split: option.split)

definition retains_all :: "Runtime \<Rightarrow> bool" where
  \<comment> \<open>no retention window is declared\<close>
  "retains_all r \<longleftrightarrow> (case rt_Strategy r of Some s \<Rightarrow> \<not> flt fzero (sy_RetentionDays s) | None \<Rightarrow> True)"

lemma begin_cycle_log:
  assumes "chain_inv (rt_ReasoningLog r)"
  shows "chain_inv (rt_ReasoningLog (begin_cycle w i r)) \<and>
    (\<exists>x. rc_Stage x = ''intent'' \<and> Log_Records (rt_ReasoningLog (begin_cycle w i r)) = Log_Records (rt_ReasoningLog r) @ [x])"
proof -
  let ?l = "rt_ReasoningLog r"
  let ?now = "wd_clock w ?l"
  let ?rec = "record_of ''intent'' [(''context'', VMap (in_Context i))] (in_Text i)"
  have open_ok: "chain_inv (open_cycle (in_Text i) ?now ?l)" using chain_inv_open [OF assms] by blast
  have "rc_Stage (written ?now ?rec (open_cycle (in_Text i) ?now ?l)) = ''intent''" by (simp add: record_of_def)
  then show ?thesis
    using Log_Record_effect [OF open_ok] Log_Records_Record [OF open_ok]
    by (auto simp: begin_cycle_def BeginCycle_def Log_Records_open)
qed

lemma deliver_alerts_ext: "log_ext l (deliver_alerts clk alerts l)"
proof (induction alerts arbitrary: l)
  case (Cons a alerts)
  have "deliver_alerts clk (a # alerts) l =
      deliver_alerts clk alerts (Log_Record (clk l) (record_of ''budget'' [] (alert_text a)) l)"
    by (simp add: deliver_alerts_def)
  then show ?case using log_ext_trans [OF log_ext_record Cons.IH] by simp
qed (simp add: deliver_alerts_def)

lemma recordUsage_log:
  assumes "chain_inv (rt_ReasoningLog r)"
  shows "chain_inv (rt_ReasoningLog (recordUsage w t n r)) \<and> rt_Strategy (recordUsage w t n r) = rt_Strategy r \<and>
    (\<exists>recs. Log_Records (rt_ReasoningLog (recordUsage w t n r)) = Log_Records (rt_ReasoningLog r) @ recs \<and>
       (\<exists>u \<in> set recs. rc_Stage u = ''usage''))"
proof -
  define lat where "lat = ms_of (wd_clock w (rt_ReasoningLog r) - t)"
  define cost where "cost = cycle_cost r (cycleCalls n r)"
  define rec where "rec = record_of ''usage'' (usage_inputs (cycleCalls n r) cost lat) (usage_output r (cycleCalls n r) cost lat)"
  define r1 where "r1 = put_record w rec r"
  have st1: "rt_Strategy r1 = rt_Strategy r" by (simp add: r1_def put_record_def)
  have r1: "chain_inv (rt_ReasoningLog r1)" "\<exists>u. rc_Stage u = ''usage'' \<and> Log_Records (rt_ReasoningLog r1) = Log_Records (rt_ReasoningLog r) @ [u]"
    using Log_Record_effect [OF assms(1)] Log_Records_Record [OF assms(1)] written_simps(1)
    by (auto simp: r1_def put_record_def rec_def record_of_def intro!: exI)
  define r2 where "r2 = spend_budget w cost r1"
  have r2: "log_ext (rt_ReasoningLog r1) (rt_ReasoningLog r2)" "rt_Strategy r2 = rt_Strategy r1"
    by (auto simp: r2_def spend_budget_def deliver_alerts_ext case_prod_beta split: option.split)
  have "recordUsage w t n r = r2"
    by (simp add: recordUsage_def Let_def r2_def r1_def rec_def lat_def cost_def)
  with r1 r2 st1 show ?thesis by (auto simp: log_ext_def)
qed

lemma close_cycle_log:
  assumes "chain_inv (rt_ReasoningLog r)" "retains_all r"
  shows "chain_inv (rt_ReasoningLog (close_cycle w t n r)) \<and>
    (\<exists>recs. Log_Records (rt_ReasoningLog (close_cycle w t n r)) = Log_Records (rt_ReasoningLog r) @ recs \<and>
       (\<exists>u \<in> set recs. rc_Stage u = ''usage''))"
proof -
  let ?r = "recordUsage w t n r"
  from recordUsage_log [OF assms(1), of w t n] have u: "chain_inv (rt_ReasoningLog ?r)" "rt_Strategy ?r = rt_Strategy r"
    "\<exists>recs. Log_Records (rt_ReasoningLog ?r) = Log_Records (rt_ReasoningLog r) @ recs \<and> (\<exists>u \<in> set recs. rc_Stage u = ''usage'')" by auto
  then have "applyRetention w ?r = ?r" using assms(2) by (auto simp: retains_all_def applyRetention_def split: option.splits)
  then have "log_ext (rt_ReasoningLog ?r) (rt_ReasoningLog (close_cycle w t n r))"
    by (auto simp: close_cycle_def persist_def put_record_def log_ext_record split: option.split)
  with u show ?thesis by (auto simp: log_ext_def)
qed

definition in_window :: "World \<Rightarrow> Runtime \<Rightarrow> ReasoningLog \<Rightarrow> Record list" where
  \<comment> \<open>the records of the cycles that are not past the declared retention window\<close>
  "in_window w r l =
     (case rt_Strategy r of
        Some s \<Rightarrow>
          if flt fzero (sy_RetentionDays s)
          then concat (map tc_Records (filter (\<lambda>c. \<not> expired (wd_clock w l - retention (wd_oor w) (sy_RetentionDays s)) c) (rl_Cycles l)))
          else Log_Records l
      | None \<Rightarrow> Log_Records l)"

lemma flt_fzero: "flt fzero d \<Longrightarrow> \<not> fle d fzero"
  by (cases d) (auto simp: fle_def min.commute)

lemma persist_records:
  assumes "chain_inv (rt_ReasoningLog r) \<or> \<not> rl_current (rt_ReasoningLog r)"
  shows "\<exists>more. Log_Records (rt_ReasoningLog (persist w r)) = Log_Records (rt_ReasoningLog r) @ more \<and>
    (\<forall>x \<in> set more. rc_Stage x = ''persist'')"
proof -
  have "Log_Records (Log_Record now rec l) = Log_Records l @ [written now rec l]" if "chain_inv l \<or> \<not> rl_current l" for now rec l
  proof (cases "chain_inv l")
    case True
    then show ?thesis by (rule Log_Records_Record)
  next
    case False
    then show ?thesis using that
      by (auto simp: Log_Record_def Let_def written_def Log_Records_def add_record_def open_cycle_def)
  qed
  with assms show ?thesis
    by (auto simp: persist_def put_record_def record_of_def split: option.split)
qed

lemma close_cycle_window:
  assumes "chain_inv (rt_ReasoningLog r)"
  shows "\<exists>l recs more. chain_inv l \<and> Log_Records l = Log_Records (rt_ReasoningLog r) @ recs \<and> (\<exists>u \<in> set recs. rc_Stage u = ''usage'') \<and>
    Log_Records (rt_ReasoningLog (close_cycle w t n r)) = in_window w r l @ more \<and> (\<forall>x \<in> set more. rc_Stage x = ''persist'')"
proof -
  let ?r = "recordUsage w t n r" and ?a = "applyRetention w (recordUsage w t n r)"
  from recordUsage_log [OF assms(1), of w t n] have u: "chain_inv (rt_ReasoningLog ?r)" "rt_Strategy ?r = rt_Strategy r"
    "\<exists>recs. Log_Records (rt_ReasoningLog ?r) = Log_Records (rt_ReasoningLog r) @ recs \<and> (\<exists>u \<in> set recs. rc_Stage u = ''usage'')" by auto
  have a: "Log_Records (rt_ReasoningLog ?a) = in_window w r (rt_ReasoningLog ?r)"
    "chain_inv (rt_ReasoningLog ?a) \<or> \<not> rl_current (rt_ReasoningLog ?a)"
    using u(1,2) by (auto simp: applyRetention_def in_window_def Rotate_def Log_Records_def IsZero_def flt_fzero Let_def split: option.split)
  from persist_records [OF a(2), of w] u(1,3) show ?thesis unfolding close_cycle_def a(1) by blast
qed

section \<open>The trail of a cycle\<close>

definition audited :: "Runtime \<Rightarrow> Runtime \<Rightarrow> bool" where
  "audited r r' \<longleftrightarrow> log_ext (rt_ReasoningLog r) (rt_ReasoningLog r') \<and> rt_Strategy r' = rt_Strategy r"

lemma audited_frame: "frame calm r r' \<Longrightarrow> audited r r'"
  using frame_keeps by (auto simp: audited_def)

lemma audited_trans: "audited r r1 \<Longrightarrow> audited r1 r2 \<Longrightarrow> audited r r2"
  using log_ext_trans by (auto simp: audited_def)

lemma remember_keeps [simp]:
  "rt_ReasoningLog (remember w c r) = rt_ReasoningLog r" "rt_Strategy (remember w c r) = rt_Strategy r"
  "rt_effects (remember w c r) = rt_effects r"
  by (simp_all add: remember_def case_prod_beta)

lemma adapt_keeps [simp]:
  "rt_ReasoningLog (snd (adapt r)) = rt_ReasoningLog r" "rt_Strategy (snd (adapt r)) = rt_Strategy r"
  "rt_effects (snd (adapt r)) = rt_effects r" "rt_Experience (snd (adapt r)) = rt_Experience r"
  "rt_Memory (snd (adapt r)) = rt_Memory r"
  by (simp_all add: adapt_def case_prod_beta)

lemma audited_memory: "keeps audited (memoryStage_Run w c)"
  by (rule keepsI) (auto simp: memoryStage_Run_def audited_def put_record_def log_ext_record case_prod_beta split: option.split)

lemma audited_ops: "reflp audited" "transp audited"
  by (simp add: reflp_def audited_def) (rule transpI, rule audited_trans)

lemma audited_stages: "keeps audited (run_stages w ss c)"
proof (induction ss arbitrary: c)
  case Nil
  show ?case unfolding run_stages.simps by (rule keeps_basic(1) [OF audited_ops(1)])
next
  case (Cons st ss)
  have check: "keeps audited (checkpoint w)" using audited_ops(1) by (simp add: keeps_def reflpD)
  have "keeps audited (stage_Run w st c)"
    by (cases "st = memoryStage") (auto simp: audited_memory intro!: keepsI audited_frame keepsD [OF kept_stage])
  then show ?case
    using keeps_thenS [OF audited_ops(2) check keeps_bindS [OF audited_ops(2) _ Cons.IH]] by simp
qed

lemma audited_body: "keeps audited (reason_body w claim intent approval)"
proof -
  have "keeps audited (checkTenantBoundary w claim)"
    by (rule keepsI, rule audited_frame, rule keepsD [OF kept_governance(3)])
  moreover have "keeps audited (getS (\<lambda>r. bindS (run_stages w (rt_Pipeline r) c) (\<lambda>c. returnS (cy_Decision c))))" for c
    using keeps_bindS [OF audited_ops(2) audited_stages keeps_basic(1) [OF audited_ops(1)]]
    by (intro kept_getS)
  ultimately show ?thesis unfolding reason_body_def using keeps_thenS [OF audited_ops(2)] by blast
qed

text \<open>
  C3.  Every cycle is audited on every exit, whatever the pipeline, the answers of models, judges and
  tools, the errors and the refusals: on a log that was never cut, a cycle adds records only, the first one the
  intent and one of them the usage accounting, and the log with them verifies.  What stays in memory are the
  records of that log within the declared retention window, then the note of a session that could not be
  saved; without a window everything stays and verifies.
\<close>

theorem Reason_is_audited:
  assumes "chain_inv (rt_ReasoningLog r)"
  shows "\<exists>l recs more. Log_Records l = Log_Records (rt_ReasoningLog r) @ recs \<and>
    rc_Stage (hd recs) = ''intent'' \<and> (\<exists>u \<in> set recs. rc_Stage u = ''usage'') \<and> fst (Verify l) \<and>
    Log_Records (rt_ReasoningLog (snd (Reason w claim intent approval r))) = in_window w r l @ more \<and>
    (\<forall>x \<in> set more. rc_Stage x = ''persist'') \<and>
    (retains_all r \<longrightarrow> in_window w r l = Log_Records l \<and> fst (Verify (rt_ReasoningLog (snd (Reason w claim intent approval r)))))"
proof -
  let ?r0 = "begin_cycle w intent r"
  define r1 where "r1 = snd (reason_body w claim intent approval ?r0)"
  obtain t where out: "snd (Reason w claim intent approval r) = close_cycle w t (modelCallsSoFar r) r1"
    by (simp add: Reason_def Let_def case_prod_beta r1_def)
  from begin_cycle_log [OF assms(1)] obtain x where b: "chain_inv (rt_ReasoningLog ?r0)" "rc_Stage x = ''intent''"
    "Log_Records (rt_ReasoningLog ?r0) = Log_Records (rt_ReasoningLog r) @ [x]" by blast
  have "audited ?r0 r1" using audited_body unfolding r1_def by (rule keepsD)
  then obtain mid where m: "chain_inv (rt_ReasoningLog r1)" "rt_Strategy r1 = rt_Strategy r"
    "Log_Records (rt_ReasoningLog r1) = Log_Records (rt_ReasoningLog ?r0) @ mid"
    using b(1) by (auto simp: audited_def log_ext_def)
  have win: "in_window w r1 = in_window w r" using m(2) by (simp add: in_window_def fun_eq_iff)
  from close_cycle_window [OF m(1), of w t "modelCallsSoFar r"] obtain l recs more where c: "chain_inv l"
    "Log_Records l = Log_Records (rt_ReasoningLog r1) @ recs" "\<exists>u \<in> set recs. rc_Stage u = ''usage''"
    "Log_Records (rt_ReasoningLog (close_cycle w t (modelCallsSoFar r) r1)) = in_window w r l @ more"
    "\<forall>x \<in> set more. rc_Stage x = ''persist''" unfolding win by blast
  have "in_window w r l = Log_Records l \<and> fst (Verify (rt_ReasoningLog (close_cycle w t (modelCallsSoFar r) r1)))" if "retains_all r"
  proof -
    have "retains_all r1" using that m(2) by (simp add: retains_all_def)
    from close_cycle_log [OF m(1) this] have "fst (Verify (rt_ReasoningLog (close_cycle w t (modelCallsSoFar r) r1)))"
      by (simp add: chain_inv_verify)
    with that show ?thesis by (auto simp: retains_all_def in_window_def split: option.splits)
  qed
  moreover have "Log_Records l = Log_Records (rt_ReasoningLog r) @ x # mid @ recs" using b(3) m(3) c(2) by simp
  moreover have "rc_Stage (hd (x # mid @ recs)) = ''intent''" "\<exists>u \<in> set (x # mid @ recs). rc_Stage u = ''usage''" using b(2) c(3) by auto
  moreover have "fst (Verify l)" using chain_inv_verify [OF c(1)] by simp
  ultimately show ?thesis unfolding out using c(4,5)
    by (intro exI [of _ l] exI [of _ "x # mid @ recs"] exI [of _ more] conjI impI) (simp_all only:)
qed

end
