(* ===== verification/CycleGates.thy ===== *)
theory CycleGates
  imports CycleProps
begin

text \<open>
  What a whole cycle guarantees: nothing is decided and no tool runs before both gates passed, a
  refused claim changes nothing but the trail, and memory holds exactly the decisions returned.
\<close>

section \<open>What a cycle value carries through the pipeline\<close>

definition yields :: "('a \<Rightarrow> bool) \<Rightarrow> ('s, 'a) eff \<Rightarrow> bool" where
  "yields P m \<longleftrightarrow> (\<forall>s a s'. m s = (Inr a, s') \<longrightarrow> P a)"

named_theorems yielding \<open>what the value a step returns satisfies\<close>

lemma yields_return [yielding]: "P a \<Longrightarrow> yields P (returnS a)"
  by (simp add: yields_def)

lemma yields_fail [yielding]: "yields P (failS e)"
  by (simp add: yields_def)

lemma yields_bind [yielding]: "(\<And>a. yields P (f a)) \<Longrightarrow> yields P (bindS m f)"
  unfolding yields_def by (auto simp: bindS_Inr)

lemma yields_then [yielding]: "yields P k \<Longrightarrow> yields P (thenS m k)"
  unfolding thenS_def by (rule yields_bind)

lemma yields_getS [yielding]: "(\<And>r. yields P (f r)) \<Longrightarrow> yields P (getS f)"
  by (auto simp: yields_def)

lemma yields_if [yielding]: "(b \<Longrightarrow> yields P m) \<Longrightarrow> (\<not> b \<Longrightarrow> yields P k) \<Longrightarrow> yields P (if b then m else k)"
  by simp

lemma yields_cases [yielding]:
  "yields P m \<Longrightarrow> (\<And>y. yields P (f y)) \<Longrightarrow> yields P (case x of None \<Rightarrow> m | Some y \<Rightarrow> f y)"
  "(\<And>a b. yields P (k a b)) \<Longrightarrow> yields P (case p of (a, b) \<Rightarrow> k a b)"
  by (simp_all split: option.split prod.split)

definition same_request :: "Cycle \<Rightarrow> Cycle \<Rightarrow> bool" where
  "same_request c c' \<longleftrightarrow> cy_Intent c' = cy_Intent c \<and> cy_Approval c' = cy_Approval c"

lemma same_request_simps [simp]: "same_request c c"
  by (simp add: same_request_def)

lemma same_request_trans: "same_request c c1 \<Longrightarrow> same_request c1 c2 \<Longrightarrow> same_request c c2"
  by (simp add: same_request_def)

lemma yields_memory: "yields (\<lambda>c'. c' = c) (memoryStage_Run w c)"
  by (auto simp: yields_def memoryStage_Run_def split: prod.splits option.splits)

lemma remember_effect:
  "\<exists>entry. me_Decision entry = cy_Decision c \<and> me_IntentText entry = in_Text (cy_Intent c) \<and>
     me_Context entry = in_Context (cy_Intent c) \<and> rt_Memory (remember w c r) = push_entry entry (rt_Memory r) \<and>
     rt_Experience (remember w c r) = ObserveEntry entry (rt_Experience r)"
  by (intro exI [of _ "fst (Memory_Record (wd_clock w (rt_ReasoningLog r)) (in_Text (cy_Intent c)) (cy_Decision c)
        (in_Context (cy_Intent c)) (cy_Evidence c) (rt_Memory r))"])
    (simp add: remember_def Memory_Record_def Let_def)

lemma memoryStage_effect:
  "\<exists>r' entry. memoryStage_Run w c r = (Inr c, r') \<and> me_Decision entry = cy_Decision c \<and>
     me_IntentText entry = in_Text (cy_Intent c) \<and> me_Context entry = in_Context (cy_Intent c) \<and>
     rt_Memory r' = push_entry entry (rt_Memory r) \<and> rt_Experience r' = ObserveEntry entry (rt_Experience r)"
proof -
  have "\<exists>r'. memoryStage_Run w c r = (Inr c, r') \<and> rt_Memory r' = rt_Memory (remember w c r) \<and>
      rt_Experience r' = rt_Experience (remember w c r)"
    by (simp add: memoryStage_Run_def put_record_def case_prod_beta split: option.split)
  then show ?thesis using remember_effect [of c w r] by metis
qed

lemma yields_stage: "yields (same_request c) (stage_Run w st c)"
proof (cases "st = memoryStage")
  case True
  then show ?thesis using yields_memory [of c w] unfolding yields_def by (metis same_request_simps stage_Run.simps(14))
next
  case False
  then show ?thesis
    by (cases st)
      (auto simp: govern_run_def discoverStage_Run_def selectStage_Run_def composeStage_Run_def scheduleStage_Run_def
        delegateStage_Run_def recallStage_Run_def researchStage_Run_def reasonStage_Run_def formalizeStage_Run_def
        evidenceStage_Run_def explainStage_Run_def auditStage_Run_def Let_def same_request_def
        intro!: yielding split: if_splits)
qed

lemma yields_stages: "yields (same_request c) (run_stages w ss c)"
proof (induction ss arbitrary: c)
  case Nil
  show ?case by (simp add: yields_def)
next
  case (Cons st ss)
  show ?case
    unfolding yields_def
  proof (intro allI impI)
    fix r c' r'
    assume "run_stages w (st # ss) c r = (Inr c', r')"
    then obtain r1 c1 r2 where "stage_Run w st c r1 = (Inr c1, r2)" "run_stages w ss c1 r2 = (Inr c', r')"
      by (auto simp: thenS_def bindS_Inr)
    then show "same_request c c'"
      using yields_stage [of c w st] Cons.IH [of c1] same_request_trans unfolding yields_def by blast
  qed
qed

section \<open>Nothing happens before the gates\<close>

definition active :: "Runtime \<Rightarrow> (ear_error, 'a) outcome \<times> Runtime \<Rightarrow> bool" where
  \<comment> \<open>a result came back, or a handler ran\<close>
  "active r out \<longleftrightarrow> (\<exists>d. fst out = Inr d) \<or> rt_effects (snd out) \<noteq> rt_effects r"

lemma active_bind:
  assumes "keeps (frame True) m" "active r (bindS m f r)"
  obtains a r1 where "m r = (Inr a, r1)" "active r1 (f a r1)"
proof -
  obtain res r1 where m: "m r = (res, r1)" by (cases "m r")
  have "rt_effects r1 = rt_effects r" using frame_keeps [OF keepsD [OF assms(1), of r]] m by simp
  then show thesis
    using assms(2) m that by (cases res) (auto simp: active_def)
qed

lemma bindS_assoc: "bindS (bindS m f) g = bindS m (\<lambda>a. bindS (f a) g)"
  by (auto simp: fun_eq_iff bindS_def split: prod.split sum.split)

lemma bindS_return [simp]: "bindS (returnS a) f = f a"
  by (simp add: fun_eq_iff bindS_def)

lemma checkpoint_pass: "checkpoint w r = (Inr u, r1) \<Longrightarrow> r1 = r"
  by (auto simp: checkpoint_def split: option.splits)

lemma tenant_pass:
  "checkTenantBoundary w claim r = (Inr u, r1) \<Longrightarrow> r1 = r \<and> (\<forall>c. claim = Some c \<longrightarrow> MayActAs c (rt_OrgID r))"
  by (cases claim) (simp_all add: checkTenantBoundary_def thenS_def bindS_def Require_def recordA_def split: if_splits)

lemma gate_pass:
  assumes "govern_run w scope wkf c r = (Inr c', r1)"
  shows "\<forall>x \<in> set (outcomes w r (if wkf then workflowPolicies (cy_Plan c) else rt_Policies r) (cy_Intent c)).
    clears (cy_Approval c) x"
proof -
  let ?ps = "if wkf then workflowPolicies (cy_Plan c) else rt_Policies r"
  have "fst (governStage_Run w scope ?ps (cy_Intent c) (cy_Approval c) r) = Inr ()"
    using assms by (auto simp: govern_run_def bindS_Inr)
  then show ?thesis by (simp add: governStage_outcome gate_verdict_pass)
qed

lemma gate_first:
  assumes "active r (bindS (run_stages w (governStage scope wkf # ss) c) g r)"
  shows "\<forall>x \<in> set (outcomes w r (if wkf then workflowPolicies (cy_Plan c) else rt_Policies r) (cy_Intent c)).
    clears (cy_Approval c) x"
proof -
  have "active r (bindS (checkpoint w) (\<lambda>_. bindS (govern_run w scope wkf c) (\<lambda>c. bindS (run_stages w ss c) g)) r)"
    using assms by (simp add: thenS_def bindS_assoc)
  then obtain u r1 where 1: "checkpoint w r = (Inr u, r1)"
    "active r1 (bindS (govern_run w scope wkf c) (\<lambda>c. bindS (run_stages w ss c) g) r1)"
    by (rule active_bind [OF kept_basic(5)])
  then obtain c' r2 where "govern_run w scope wkf c r1 = (Inr c', r2)"
    by (elim active_bind [OF kept_tail(5)]) blast
  then show ?thesis using gate_pass checkpoint_pass [OF 1(1)] by blast
qed

definition planning :: "stage list" where
  \<comment> \<open>the stages before the second gate\<close>
  "planning = take 5 defaultPipeline"

text \<open>
  C1.  With the default pipeline, a cycle that returns a decision, or in which any tool handler
  ran, passed everything first: the claim may act as the organisation, every policy of the
  instance was cleared (it complies, or an allowed approver waived it) on the request as it came
  in, and every policy of the workflows planned was cleared on the plan the cycle composed.
\<close>

theorem acts_only_after_gates:
  assumes "rt_Pipeline r = defaultPipeline" "r0 = begin_cycle w intent r"
    and "(\<exists>d. fst (Reason w claim intent approval r) = Inr d) \<or>
         rt_effects (snd (Reason w claim intent approval r)) \<noteq> rt_effects r"
  shows "(\<forall>c. claim = Some c \<longrightarrow> MayActAs c (rt_OrgID r)) \<and>
    (\<forall>x \<in> set (outcomes w r0 (rt_Policies r) intent). clears approval x) \<and>
    (\<exists>c r1. run_stages w planning (new_cycle intent approval) r0 = (Inr c, r1) \<and>
       (\<forall>x \<in> set (outcomes w r1 (workflowPolicies (cy_Plan c)) intent). clears approval x))"
proof -
  let ?c0 = "new_cycle intent approval"
  let ?rest = "governStage ''Workflow policy'' True # drop 6 defaultPipeline"
  have split: "defaultPipeline = planning @ ?rest" "planning = governStage ''Policy'' False # drop 1 planning"
    by (simp_all add: planning_def defaultPipeline_def)
  have calm: "memoryStage \<notin> set planning" "reasonStage \<notin> set planning"
    by (simp_all add: planning_def defaultPipeline_def)
  define finish where "finish = (\<lambda>c :: Cycle. returnS (cy_Decision c) :: goval act)"
  have "active r0 (reason_body w claim intent approval r0)"
    using assms(3) by (simp add: Reason_def Let_def case_prod_beta active_def assms(2))
  then obtain u r' where t: "checkTenantBoundary w claim r0 = (Inr u, r')"
    "active r' (bindS (run_stages w (rt_Pipeline r') ?c0) finish r')"
    unfolding reason_body_def thenS_def finish_def by (elim active_bind [OF kept_governance(3)]) simp
  have r': "r' = r0" and claim: "\<forall>c. claim = Some c \<longrightarrow> MayActAs c (rt_OrgID r)"
    using tenant_pass [OF t(1)] assms(2) by auto
  have act: "active r0 (bindS (run_stages w (planning @ ?rest) ?c0) finish r0)"
    using t(2) assms(1,2) r' split(1) by simp
  have "active r0 (bindS (run_stages w (governStage ''Policy'' False # (drop 1 planning @ ?rest)) ?c0) finish r0)"
    using act split(2) by (metis append_Cons)
  from gate_first [OF this] have first: "\<forall>x \<in> set (outcomes w r0 (rt_Policies r) intent). clears approval x"
    using assms(2) by (simp add: new_cycle_def)
  obtain c r1 where pl: "run_stages w planning ?c0 r0 = (Inr c, r1)"
    "active r1 (bindS (run_stages w ?rest c) finish r1)"
    using act by (subst (asm) run_stages_append, subst (asm) bindS_assoc) (elim active_bind [OF kept_stages_calm [OF calm]])
  have "same_request ?c0 c" using yields_stages pl(1) unfolding yields_def by blast
  then have "\<forall>x \<in> set (outcomes w r1 (workflowPolicies (cy_Plan c)) intent). clears approval x"
    using gate_first [OF pl(2)] by (simp add: same_request_def new_cycle_def)
  with claim first pl(1) show ?thesis by blast
qed

section \<open>Memory\<close>

text \<open>
  C4.  Memory and experience hold the decisions that were returned and nothing else: a cycle
  that ends in an error leaves both, and what was learned, as they were; one that returns a
  decision adds that decision under the request's own words and counts one observation more.
\<close>

theorem memory_holds_decisions:
  assumes "rt_Pipeline r = defaultPipeline" "r' = snd (Reason w claim intent approval r)"
  shows "case fst (Reason w claim intent approval r) of
      Inl e \<Rightarrow> rt_Memory r' = rt_Memory r \<and> rt_Experience r' = rt_Experience r \<and> rt_Adaptations r' = rt_Adaptations r
    | Inr d \<Rightarrow> \<exists>entry. me_Decision entry = d \<and> me_IntentText entry = in_Text intent \<and> me_Context entry = in_Context intent \<and>
        rt_Memory r' = push_entry entry (rt_Memory r) \<and> rt_Experience r' = ObserveEntry entry (rt_Experience r)"
proof -
  let ?r0 = "begin_cycle w intent r"
  let ?c0 = "new_cycle intent approval"
  let ?ss = "take 14 defaultPipeline"
  define finish where "finish = (\<lambda>c :: Cycle. returnS (cy_Decision c) :: goval act)"
  have split: "defaultPipeline = ?ss @ [memoryStage]" "memoryStage \<notin> set ?ss"
    by (simp_all add: defaultPipeline_def)
  obtain res r1 where b: "reason_body w claim intent approval ?r0 = (res, r1)" by fastforce
  have out: "fst (Reason w claim intent approval r) = res" "rt_Memory r' = rt_Memory r1"
    "rt_Experience r' = rt_Experience r1" "rt_Adaptations r' = rt_Adaptations r1"
    using b by (simp_all add: Reason_def Let_def case_prod_beta assms(2))
  obtain t ra where ta: "checkTenantBoundary w claim ?r0 = (t, ra)" by fastforce
  have fa: "frame False ?r0 ra" using keepsD [OF kept_governance(3), of False ?r0 w claim] ta by simp
  show ?thesis
  proof (cases t)
    case (Inl e)
    then have "res = Inl e \<and> r1 = ra" using b ta by (simp add: reason_body_def thenS_def)
    then show ?thesis using out frame_keeps [OF fa] by simp
  next
    case (Inr u)
    then have ra: "ra = ?r0" using tenant_pass ta by blast
    have body: "bindS (run_stages w (?ss @ [memoryStage]) ?c0) finish ?r0 = (res, r1)"
      using b ta Inr ra split(1) assms(1) by (simp add: reason_body_def thenS_def finish_def)
    obtain x rb where st: "run_stages w ?ss ?c0 ?r0 = (x, rb)" by fastforce
    have fb: "frame False ?r0 rb" using keepsD [OF kept_stages [OF split(2)], of ?r0 w ?c0] st by simp
    note kb = frame_keeps [OF fb]
    have rest: "(case x of Inl e \<Rightarrow> (Inl e, rb)
       | Inr c \<Rightarrow> bindS (checkpoint w) (\<lambda>_. bindS (memoryStage_Run w c) finish) rb) = (res, r1)"
      using body st by (cases x) (simp_all add: run_stages_append bindS_assoc thenS_def)
    show ?thesis
    proof (cases x)
      case (Inl e)
      then show ?thesis unfolding out using rest kb by auto
    next
      case (Inr c)
      have sr: "cy_Intent c = intent" using yields_stages st Inr unfolding yields_def same_request_def new_cycle_def by fastforce
      show ?thesis
      proof (cases "checkpoint w rb")
        case (Pair y rc)
        have rc: "rc = rb" using Pair by (auto simp: checkpoint_def split: option.splits)
        show ?thesis
        proof (cases y)
          case (Inl e)
          then show ?thesis unfolding out using rest kb Pair rc Inr by auto
        next
          case (Inr v)
          obtain rd entry where me: "memoryStage_Run w c rb = (Inr c, rd)" "me_Decision entry = cy_Decision c"
            "me_IntentText entry = in_Text (cy_Intent c)" "me_Context entry = in_Context (cy_Intent c)"
            "rt_Memory rd = push_entry entry (rt_Memory rb)" "rt_Experience rd = ObserveEntry entry (rt_Experience rb)"
            using memoryStage_effect by blast
          have "res = Inr (cy_Decision c)" "r1 = rd"
            using rest me(1) Pair rc \<open>x = Inr c\<close> Inr by (simp_all add: finish_def)
          then show ?thesis unfolding out using me sr kb by auto
        qed
      qed
    qed
  qed
qed

section \<open>The tenant boundary\<close>

definition refusal :: "Claim \<Rightarrow> Runtime \<Rightarrow> ear_error" where
  "refusal c r = TenantBoundaryError (cl_Subject c) (rt_OrgID r) (cl_OrgIDs c)"

definition refused :: "World \<Rightarrow> Claim \<Rightarrow> Intent \<Rightarrow> Runtime \<Rightarrow> Runtime" where
  \<comment> \<open>the instance after a refused claim, before the cycle is closed\<close>
  "refused w c intent r =
     put_record w (record_of ''tenant'' [(''subject'', VStr (cl_Subject c)), (''org_id'', VStr (rt_OrgID r)),
        (''authorized_for'', VStrs (cl_OrgIDs c))] (''REFUSED -- '' @ error_text (refusal c r)))
       (begin_cycle w intent r)"

lemma refused_cycle:
  assumes "\<not> MayActAs c (rt_OrgID r)"
  shows "Reason w (Some c) intent approval r =
    (Inl (refusal c r), close_cycle w (wd_clock w (rt_ReasoningLog r)) (modelCallsSoFar r) (refused w c intent r))"
  using assms
  by (simp add: Reason_def reason_body_def checkTenantBoundary_def Require_def recordA_def thenS_def bindS_def Let_def
      refused_def refusal_def)

lemma refused_keeps [simp]:
  "rt_lm (refused w c i r) = rt_lm r" "rt_effects (refused w c i r) = rt_effects r"
  "rt_Memory (refused w c i r) = rt_Memory r" "rt_Experience (refused w c i r) = rt_Experience r"
  "rt_Strategy (refused w c i r) = rt_Strategy r"
  by (simp_all add: refused_def put_record_def)



end
