(* ===== verification/CycleLive.thy ===== *)
theory CycleLive
  imports CycleGates
begin

text \<open>
  The source promises that nothing in a cycle needs a model: with none bound every stage has a
  deterministic answer.  Here: such a cycle always ends in a decision when its policies comply
  and its caller does not cancel.
\<close>

section \<open>Steps that succeed\<close>

definition succeeds :: "('s \<Rightarrow> bool) \<Rightarrow> ('a \<Rightarrow> bool) \<Rightarrow> ('s, 'a) eff \<Rightarrow> bool" where
  "succeeds J P m \<longleftrightarrow> (\<forall>r. J r \<longrightarrow> (\<exists>a r'. m r = (Inr a, r') \<and> J r' \<and> P a))"

named_theorems live \<open>steps that return a value\<close>

lemma succeeds_return [live]: "P a \<Longrightarrow> succeeds J P (returnS a)"
  by (simp add: succeeds_def)

lemma succeeds_bind: "succeeds J Q m \<Longrightarrow> (\<And>a. Q a \<Longrightarrow> succeeds J P (f a)) \<Longrightarrow> succeeds J P (bindS m f)"
  unfolding succeeds_def by (metis bindS_simps(1))

lemma succeeds_then: "succeeds J Q m \<Longrightarrow> succeeds J P k \<Longrightarrow> succeeds J P (thenS m k)"
  unfolding thenS_def by (rule succeeds_bind)

lemma succeeds_getS: "(\<And>r. J r \<Longrightarrow> succeeds J P (f r)) \<Longrightarrow> succeeds J P (getS f)"
  by (simp add: succeeds_def)

lemma succeeds_mapA: "(\<And>x. x \<in> set xs \<Longrightarrow> succeeds J (\<lambda>_. True) (f x)) \<Longrightarrow> succeeds J (\<lambda>_. True) (mapA f xs)"
proof (induction xs)
  case (Cons x xs)
  show ?case
    unfolding mapA.simps using Cons
    by (intro succeeds_bind [where Q = "\<lambda>_. True"] succeeds_return) auto
qed (simp add: live)

section \<open>An instance without a model\<close>

definition offline :: "Process list \<Rightarrow> Policy list \<Rightarrow> Runtime \<Rightarrow> bool" where
  "offline ps pols r \<longleftrightarrow>
     \<not> rt_LM r \<and> rt_Reasoner r = DefaultReasoner \<and> rt_PolicyJudge r = DeterministicJudge \<and>
     rt_Librarian r = None \<and> rt_Processes r = ps \<and> rt_Policies r = pols \<and>
     rt_Pipeline r = defaultPipeline"

definition complying :: "World \<Rightarrow> Process list \<Rightarrow> Intent \<Rightarrow> Policy list \<Rightarrow> bool" where
  \<comment> \<open>the policies of the instance and of every workflow hold of the request\<close>
  "complying w ps intent pols \<longleftrightarrow>
     (\<forall>p \<in> set (pols @ workflowPolicies (compose ps)).
        po_Gate p = None \<and> Policy_Evaluate (wd_pow w) p (in_Context intent))"

lemma offline_keeps [simp]:
  "offline ps pols (put_record w rec r) \<longleftrightarrow> offline ps pols r"
  "offline ps pols (r\<lparr>rt_lm := s\<rparr>) \<longleftrightarrow> offline ps pols r"
  "offline ps pols (remember w c r) \<longleftrightarrow> offline ps pols r"
  "offline ps pols (snd (adapt r)) \<longleftrightarrow> offline ps pols r"
  "offline ps pols (begin_cycle w i r) \<longleftrightarrow> offline ps pols r"
  by (simp_all add: offline_def put_record_def remember_def adapt_def begin_cycle_def case_prod_beta)

lemma offline_put_records [simp]: "offline ps pols (put_records w recs r) \<longleftrightarrow> offline ps pols r"
  by (induction recs arbitrary: r) simp_all

lemma live_record [live]: "succeeds (offline ps pols) (\<lambda>_. True) (recordA w rec)"
  by (simp add: succeeds_def recordA_def)

lemma outcomes_offline:
  assumes "offline ps pols r" "\<forall>p \<in> set qs. po_Gate p = None"
  shows "outcomes w r qs intent = map (\<lambda>p. (p, Inr (Policy_Judge (wd_pow w) p (in_Context intent)))) qs"
proof -
  have "judge_policy w r c p = returnS (Policy_Judge (wd_pow w) p c)" if "p \<in> set qs" for c p
    using that assms by (simp add: judge_policy_def PolicyJudge_def offline_def fun_eq_iff)
  then have "fst (judge_all (judge_policy w r c) qs s) = map (\<lambda>p. (p, Inr (Policy_Judge (wd_pow w) p c))) qs" for c s
    by (induction qs arbitrary: s) (simp_all add: Let_def case_prod_beta)
  then show ?thesis by (simp add: outcomes_def)
qed

lemma live_govern:
  assumes "\<forall>p \<in> set qs. po_Gate p = None \<and> Policy_Evaluate (wd_pow w) p (in_Context intent)"
  shows "succeeds (offline ps pols) (\<lambda>_. True) (governStage_Run w scope qs intent approval)"
  unfolding succeeds_def
proof (intro allI impI)
  fix r
  assume r: "offline ps pols r"
  obtain res r' where g: "govern w qs intent approval r = (res, r')" by fastforce
  have out: "outcomes w r qs intent = map (\<lambda>p. (p, Inr (Policy_Judge (wd_pow w) p (in_Context intent)))) qs"
    using outcomes_offline [OF r] assms by blast
  have "\<forall>x \<in> set (outcomes w r qs intent). clears approval x"
    using assms unfolding out by (auto simp: Policy_Evaluate_def split_beta intro: clears.elims(3))
      (metis clears.simps(2) prod.collapse)
  then have pass: "fst (governStage_Run w scope qs intent approval r) = Inr ()"
    by (simp add: governStage_outcome gate_verdict_pass)
  have "offline ps pols r'"
    using govern_trail [of w qs intent approval r] r g by auto
  moreover have "governStage_Run w scope qs intent approval r = (Inr (), r')"
    using pass g by (cases res) (auto simp: governStage_Run_def enforce_def bindS_def thenS_def recordA_def Let_def
        split: if_splits)
  ultimately show "\<exists>a r'. governStage_Run w scope qs intent approval r = (Inr a, r') \<and> offline ps pols r' \<and> True" by blast
qed

section \<open>The stages\<close>

definition planned :: "Process list \<Rightarrow> Intent \<Rightarrow> Cycle \<Rightarrow> bool" where
  \<comment> \<open>what a cycle considers comes from the instance\<close>
  "planned ps intent c \<longleftrightarrow>
     cy_Intent c = intent \<and> set (cy_Candidates c) \<subseteq> set ps \<and> set (cy_Selected c) \<subseteq> set ps \<and>
     set (cy_Plan c) \<subseteq> set (compose ps)"

definition decided :: "Cycle \<Rightarrow> bool" where
  "decided c \<longleftrightarrow> (\<exists>d. cy_Decision c = VStr d)"

definition evidenced :: "Cycle \<Rightarrow> bool" where
  "evidenced c \<longleftrightarrow> decided c \<and> cy_Evidence c \<noteq> None"

lemma set_dedup_by: "set (dedup_by key seen xs) \<subseteq> set xs"
  by (induction key seen xs rule: dedup_by.induct) auto

lemma workflowPolicies_mono: "set ws \<subseteq> set vs \<Longrightarrow> set (workflowPolicies ws) \<subseteq> set (workflowPolicies vs)"
  by (auto simp: workflowPolicies_def)

lemma live_gate:
  assumes "planned ps intent c" "complying w ps intent pols"
  shows "succeeds (offline ps pols) (planned ps intent) (govern_run w scope b c)"
proof -
  have qs: "\<forall>p \<in> set (if b then workflowPolicies (cy_Plan c) else pols).
      po_Gate p = None \<and> Policy_Evaluate (wd_pow w) p (in_Context (cy_Intent c))"
    using assms workflowPolicies_mono [of "cy_Plan c" "compose ps"] by (auto simp: complying_def planned_def)
  have "succeeds (offline ps pols) (planned ps intent) (bindS (governStage_Run w scope
      (if b then workflowPolicies (cy_Plan c) else rt_Policies r) (cy_Intent c) (cy_Approval c)) (\<lambda>_. returnS c))"
    if "offline ps pols r" for r
    using that qs assms(1) by (intro succeeds_bind [OF live_govern] succeeds_return) (auto simp: offline_def)
  then show ?thesis unfolding govern_run_def by (rule succeeds_getS)
qed

lemma live_discover:
  assumes "planned ps intent c"
  shows "succeeds (offline ps pols) (planned ps intent) (discoverStage_Run w c)"
  using assms
  by (auto simp: succeeds_def discoverStage_Run_def discover_def recordA_def Let_def offline_def planned_def
      discoverByKeyword_def bindS_def put_record_def)

lemma live_planning:
  assumes "planned ps intent c"
  shows "succeeds (offline ps pols) (planned ps intent) (selectStage_Run w c)"
    "succeeds (offline ps pols) (planned ps intent) (composeStage_Run c)"
    "succeeds (offline ps pols) (planned ps intent) (scheduleStage_Run w c)"
    "succeeds (offline ps pols) (planned ps intent) (delegateStage_Run w c)"
    "succeeds (offline ps pols) (planned ps intent) (recallStage_Run w c)"
    "succeeds (offline ps pols) (planned ps intent) (researchStage_Run w c)"
  using assms set_dedup_by [of pr_Name "[]" "cy_Candidates c"]
  by (auto simp: succeeds_def selectStage_Run_def composeStage_Run_def scheduleStage_Run_def delegateStage_Run_def
      recallStage_Run_def researchStage_Run_def offline_def planned_def Let_def selectProcesses_def schedule_def compose_def)

lemma TrimSpace_nonempty:
  assumes "c \<in> set s" "\<not> is_space c"
  shows "TrimSpace s \<noteq> []"
proof -
  have "c \<in> set (dropWhile is_space s)"
    using assms by (metis set_takeWhileD takeWhile_dropWhile_id Un_iff set_append)
  then show ?thesis
    using assms(2) by (auto simp: TrimSpace_def trim_by_def trim_left_def trim_right_def dest: set_dropWhileD)
qed

lemma defaultReasoning_nonempty: "TrimSpace (defaultReasoning r intent caps) \<noteq> []"
  by (rule TrimSpace_nonempty [of "CHR ''[''"]) (simp_all add: defaultReasoning_def Let_def is_space_def)

lemma live_capabilities: "succeeds J (\<lambda>_. True) (renderCapabilities plan all_skills)"
proof -
  have p: "succeeds J (\<lambda>_. True) (renderPersona all_skills indent header persona)" for indent header persona
    by (cases persona) (simp_all add: renderPersona_def all_skills_def succeeds_def)
  have s: "succeeds J (\<lambda>_. True) (renderStep all_skills ns)" for ns
    unfolding renderStep_def by (intro succeeds_bind [OF p] succeeds_return) simp
  have "succeeds J (\<lambda>_. True) (renderWorkflow all_skills wk)" for wk
    unfolding renderWorkflow_def
    by (intro succeeds_bind [OF succeeds_mapA] succeeds_return p s) simp
  then show ?thesis
    unfolding renderCapabilities_def
    by (cases "length plan = 0") (auto intro!: succeeds_bind [OF succeeds_mapA] succeeds_return)
qed

lemma live_checkpoint: "wd_ctx_err w = (\<lambda>_ _. None) \<Longrightarrow> succeeds J (\<lambda>_. True) (checkpoint w)"
  by (simp add: succeeds_def checkpoint_def)

lemma live_conversation:
  assumes "qs \<noteq> []" "wd_ctx_err w = (\<lambda>_ _. None)"
  shows "succeeds (offline ps pols) (\<lambda>_. True) (conversation w intent qs style False tools n st)"
proof (induction n arbitrary: st)
  case (Suc n)
  then show ?case
    by (simp add: choose_chair_def seat_def take_turn_def Let_def)
      (intro succeeds_then [OF live_checkpoint [OF assms(2)]] succeeds_then [OF live_record] Suc.IH)
qed (simp add: live)

lemma live_convene:
  assumes "qs \<noteq> []" "wd_ctx_err w = (\<lambda>_ _. None)"
  shows "succeeds (offline ps pols) (\<lambda>s. TrimSpace s \<noteq> []) (Convene w p qs intent style)"
proof -
  have "TrimSpace (''Panel of '' @ t) \<noteq> []" for t
    by (rule TrimSpace_nonempty [of "CHR ''P''"]) (simp_all add: is_space_def)
  then show ?thesis
    unfolding Convene_def Let_def
    by (intro succeeds_getS)
      (auto simp: offline_def [of ps pols] synthesize_def succeeds_return
        intro!: succeeds_bind [OF live_conversation [OF assms]] succeeds_then [OF live_record] succeeds_return)
qed

lemma live_reason:
  assumes "wd_ctx_err w = (\<lambda>_ _. None)"
  shows "succeeds (offline ps pols) decided (reasonStage_Run w c)"
proof -
  have "succeeds (offline ps pols) (\<lambda>d. \<exists>s. d = VStr s \<and> TrimSpace s \<noteq> []) (DefaultReasoner_Reason w i plan)" for i plan
    unfolding DefaultReasoner_Reason_def Let_def using defaultReasoning_nonempty
    by (intro succeeds_then [OF live_checkpoint [OF assms]] succeeds_bind [OF live_capabilities]
        succeeds_getS succeeds_then [OF live_record] succeeds_return) auto
  then have d: "succeeds (offline ps pols) (\<lambda>d. \<exists>s. d = VStr s \<and> TrimSpace s \<noteq> []) (Reasoner_Reason w i plan research)" for i plan research
    unfolding Reasoner_Reason_def by (intro succeeds_getS) (auto simp: offline_def)
  have p: "succeeds (offline ps pols) (\<lambda>d. \<exists>s. d = VStr s \<and> TrimSpace s \<noteq> [])
      (bindS (Convene w p qs i style) (\<lambda>d. returnS (VStr d)))" if "2 \<le> length qs" for p qs i style
  proof -
    have "qs \<noteq> []" using that by auto
    then show ?thesis by (intro succeeds_bind [OF live_convene [OF _ assms]] succeeds_return) auto
  qed
  have r: "succeeds (offline ps pols) (\<lambda>d. \<exists>s. d = VStr s \<and> TrimSpace s \<noteq> []) (deliberate w c)"
    unfolding deliberate_def
    by (intro succeeds_getS) (simp add: case_prod_beta d p split: option.split)
  show ?thesis
    unfolding reasonStage_Run_def
    by (rule succeeds_bind [OF r]) (auto simp: validate_def decided_def succeeds_def)
qed

lemma live_tail:
  assumes "decided c"
  shows "succeeds (offline ps pols) decided (formalizeStage_Run w c)"
    "succeeds (offline ps pols) evidenced (evidenceStage_Run c)"
    "evidenced c \<Longrightarrow> succeeds (offline ps pols) evidenced (explainStage_Run w c)"
    "evidenced c \<Longrightarrow> succeeds (offline ps pols) evidenced (auditStage_Run w c)"
    "succeeds (offline ps pols) decided (memoryStage_Run w c)"
proof -
  have f: "succeeds (offline ps pols) (\<lambda>_. True) (formalize w plan)" for plan
  proof (induction plan)
    case Nil
    show ?case unfolding formalize.simps by (rule succeeds_return) simp
  next
    case (Cons wk plan)
    then show ?case by (simp add: succeeds_then [OF live_record] split: option.split)
  qed
  have "succeeds (offline ps pols) decided (thenS (formalize w plan) (returnS c))" for plan
    using assms by (intro succeeds_then [OF f] succeeds_return)
  then show "succeeds (offline ps pols) decided (formalizeStage_Run w c)"
    unfolding formalizeStage_Run_def by (intro succeeds_getS) (simp add: offline_def)
  show "succeeds (offline ps pols) evidenced (evidenceStage_Run c)"
    using assms by (auto simp: succeeds_def evidenceStage_Run_def Let_def evidenced_def decided_def)
  show "evidenced c \<Longrightarrow> succeeds (offline ps pols) evidenced (explainStage_Run w c)"
    by (auto simp: explainStage_Run_def evidenced_def decided_def offline_def bindS_def thenS_def recordA_def succeeds_def
        put_record_def)
  show "evidenced c \<Longrightarrow> succeeds (offline ps pols) evidenced (auditStage_Run w c)"
    by (auto simp: auditStage_Run_def evidenced_def decided_def offline_def succeeds_def)
  show "succeeds (offline ps pols) decided (memoryStage_Run w c)"
    using assms by (simp add: succeeds_def memoryStage_Run_def case_prod_beta split: option.split)
qed

lemma live_cons:
  assumes "wd_ctx_err w = (\<lambda>_ _. None)" "succeeds J Q (stage_Run w st c)"
    and "\<And>c'. Q c' \<Longrightarrow> succeeds J P (run_stages w ss c')"
  shows "succeeds J P (run_stages w (st # ss) c)"
  unfolding run_stages.simps
  by (rule succeeds_then [OF live_checkpoint [OF assms(1)]], rule succeeds_bind [OF assms(2)], rule assms(3))

lemma live_pipeline:
  assumes n: "wd_ctx_err w = (\<lambda>_ _. None)" and "complying w ps intent pols" "planned ps intent c"
  shows "succeeds (offline ps pols) decided (run_stages w defaultPipeline c)"
proof -
  have tail: "succeeds (offline ps pols) decided (run_stages w [formalizeStage, evidenceStage, explainStage, auditStage, memoryStage] c)"
    if "decided c" for c
    using that
    by (intro live_cons [OF n, where Q = decided] live_cons [OF n, where Q = evidenced])
      (auto simp: live live_tail evidenced_def [of c for c] intro!: succeeds_return)
  show ?thesis
    unfolding defaultPipeline_def
    by (rule live_cons [OF n, where Q = "planned ps intent"], simp add: live_gate assms,
        rule live_cons [OF n, where Q = "planned ps intent"], simp add: live_discover,
        rule live_cons [OF n, where Q = "planned ps intent"], simp add: live_planning,
        rule live_cons [OF n, where Q = "planned ps intent"], simp add: live_planning,
        rule live_cons [OF n, where Q = "planned ps intent"], simp add: live_planning,
        rule live_cons [OF n, where Q = "planned ps intent"], simp add: live_gate assms,
        rule live_cons [OF n, where Q = "planned ps intent"], simp add: live_planning,
        rule live_cons [OF n, where Q = "planned ps intent"], simp add: live_planning,
        rule live_cons [OF n, where Q = "planned ps intent"], simp add: live_planning,
        rule live_cons [OF n, where Q = decided], simp add: live_reason n, rule tail)
qed


section \<open>An example\<close>

definition desk :: Runtime where
  "desk = (NewRuntime ''desk'')\<lparr>rt_Policies := [payments_policy], rt_Panel := None\<rparr>"

definition quiet :: World where
  "quiet = quiet_world deny (ScriptedLM [] [])"

definition pay :: Intent where
  "pay = NewIntent ''pay'' None"

lemma desk_offline:
  "offline [] [payments_policy] desk" "complying quiet [] pay [payments_policy]" "wd_ctx_err quiet = (\<lambda>_ _. None)"
  by (simp_all add: offline_def desk_def NewRuntime_def complying_def payments_policy_def compose_def workflowPolicies_def
      Policy_Evaluate_def Policy_Judge_def quiet_def quiet_world_def)

lemma desk_simps: "rt_Pipeline desk = defaultPipeline" "chain_inv (rt_ReasoningLog desk)" "retains_all desk"
  by (simp_all add: desk_def NewRuntime_def retains_all_def chain_inv_new)


lemma desk_decides: "\<exists>d. fst (Reason quiet None pay None desk) = Inr d"
proof -
  have "offline [] [payments_policy] (begin_cycle quiet pay desk)" "planned [] pay (new_cycle pay None)"
    using desk_offline(1) by (simp_all add: planned_def new_cycle_def)
  then obtain c r' where "run_stages quiet defaultPipeline (new_cycle pay None) (begin_cycle quiet pay desk) = (Inr c, r')"
    using live_pipeline [OF desk_offline(3,2)] unfolding succeeds_def by blast
  then show ?thesis
    by (simp add: Reason_def reason_body_def checkTenantBoundary_def Let_def thenS_def bindS_def desk_simps case_prod_beta)
qed

lemma acts_only_after_gates_witness:
  "list_all (clears None) (outcomes quiet (begin_cycle quiet pay desk) (rt_Policies desk) pay)"
  unfolding list_all_iff
  using acts_only_after_gates [OF desk_simps(1) refl disjI1, of quiet None pay None] desk_decides by blast

lemma memory_holds_decisions_witness:
  "\<exists>entry. rt_Memory (snd (Reason quiet None pay None desk)) = push_entry entry (rt_Memory desk)"
proof -
  obtain d where "fst (Reason quiet None pay None desk) = Inr d" using desk_decides by blast
  then show ?thesis
    using memory_holds_decisions [OF desk_simps(1) refl, of quiet None pay None] by auto
qed

lemma Reason_is_audited_witness:
  "fst (Verify (rt_ReasoningLog (snd (Reason quiet None pay None desk))))"
  using Reason_is_audited [OF desk_simps(2), of quiet None pay None] desk_simps(3) by blast

end
