(* ===== verification/Kernel.thy ===== *)
theory Kernel
  imports ReasonCycle
begin

text \<open>
  The scheduler of \<^verbatim>\<open>kernel.go\<close>: a process table of instances, a run queue of tasks, the history of
  dispatches, and the loop that takes the earliest task that is due.  Instances are addresses
  into the field \<open>kn_heap\<close>, since the table holds pointers and two names may hold the same one; a
  task the queue and a running dispatch share is found by its ID.  Every reading of the clock
  takes the next value of the sequence \<open>ke_clock\<close>, which \<open>kn_reads\<close> counts.
\<close>

section \<open>Data\<close>

datatype DispatchStatus = StatusRan | StatusBlocked | StatusFailed

fun status_text :: "DispatchStatus \<Rightarrow> string" where
  "status_text StatusRan = ''ran''"
| "status_text StatusBlocked = ''blocked''"
| "status_text StatusFailed = ''failed''"

record Task =
  tk_ID :: int
  tk_Instance :: string
  tk_Intent :: Intent
  tk_Approval :: "ApprovalVerdict option"
  tk_Claim :: "Claim option"
  tk_Every :: duration
  tk_due :: gotime
  tk_runs :: nat

definition Recurring :: "Task \<Rightarrow> bool" where
  "Recurring t \<longleftrightarrow> 0 < tk_Every t"

datatype TaskOption =
    RunEvery duration
  | StartAfter duration
  | WithVerdict "ApprovalVerdict option"
  | ActingAs Claim

record Dispatch =
  ds_TaskID :: int
  ds_Instance :: string
  ds_Status :: DispatchStatus
  ds_Summary :: string
  ds_Duration :: duration
  ds_At :: gotime

definition Dispatch_String :: "Dispatch \<Rightarrow> string" where
  "Dispatch_String d =
     ''['' @ format_time (ds_At d) @ ''] '' @ ds_Instance d @ '' #'' @ show_int (ds_TaskID d) @ '' '' @
     status_text (ds_Status d) @ '' ('' @ show_int (ms_of (ds_Duration d)) @ '' ms)''"

record Kernel =
  kn_Workers :: int
  kn_Dispatcher :: "nat option"
  kn_HistoryLimit :: int
  kn_instances :: "(string \<times> nat) list"
  kn_queue :: "Task list"
  kn_history :: "Dispatch list"
  kn_inFlight :: "string list"
  kn_idleWaits :: nat
  kn_dispatched :: nat
  kn_nextID :: int
  kn_wake :: bool            \<comment> \<open>whether the channel of capacity one holds a wake-up\<close>
  kn_running :: bool
  kn_heap :: "nat \<Rightarrow> Runtime"
  kn_reads :: nat

text \<open>What a kernel runs in: its clock, the world of the cycles, the processors, the dispatcher seams.\<close>

record Env =
  ke_clock :: "nat \<Rightarrow> gotime"
  ke_world :: World
  ke_procs :: nat
  ke_dispatchers :: "nat \<Rightarrow> Task \<Rightarrow> Runtime \<Rightarrow> (string, DispatchStatus \<times> string) outcome \<times> Runtime"

definition NewKernel :: "(nat \<Rightarrow> Runtime) \<Rightarrow> Kernel" where
  "NewKernel heap =
     \<lparr>kn_Workers = 0, kn_Dispatcher = None, kn_HistoryLimit = 0, kn_instances = [], kn_queue = [],
      kn_history = [], kn_inFlight = [], kn_idleWaits = 0, kn_dispatched = 0, kn_nextID = 0,
      kn_wake = False, kn_running = False, kn_heap = heap, kn_reads = 0\<rparr>"

definition readClock :: "Env \<Rightarrow> Kernel \<Rightarrow> gotime \<times> Kernel" where
  "readClock e k = (ke_clock e (kn_reads k), k\<lparr>kn_reads := kn_reads k + 1\<rparr>)"

section \<open>The process table\<close>

definition Register :: "string \<Rightarrow> nat \<Rightarrow> Kernel \<Rightarrow> Kernel" where
  "Register name rt k = k\<lparr>kn_instances := map_put name rt (kn_instances k)\<rparr>"

definition Remove :: "string \<Rightarrow> Kernel \<Rightarrow> Kernel" where
  "Remove name k = k\<lparr>kn_instances := filter (\<lambda>e. fst e \<noteq> name) (kn_instances k)\<rparr>"

definition Instance_at :: "string \<Rightarrow> Kernel \<Rightarrow> nat option" where
  "Instance_at name k = map_of (kn_instances k) name"

definition Instances :: "Kernel \<Rightarrow> string list" where
  \<comment> \<open>the source leaves the order open\<close>
  "Instances k = map fst (kn_instances k)"

section \<open>Submitting work\<close>

fun apply_option :: "Env \<Rightarrow> TaskOption \<Rightarrow> Task \<times> Kernel \<Rightarrow> Task \<times> Kernel" where
  "apply_option e (RunEvery period) (t, k) = (t\<lparr>tk_Every := period\<rparr>, k)"
| "apply_option e (StartAfter delay) (t, k) =
     (let (now, k1) = readClock e k in (t\<lparr>tk_due := now + delay\<rparr>, k1))"
| "apply_option e (WithVerdict v) (t, k) = (t\<lparr>tk_Approval := v\<rparr>, k)"
| "apply_option e (ActingAs c) (t, k) = (t\<lparr>tk_Claim := Some c\<rparr>, k)"

definition interrupt :: "Kernel \<Rightarrow> Kernel" where
  "interrupt k = k\<lparr>kn_wake := True\<rparr>"

definition enqueue :: "Task \<Rightarrow> Kernel \<Rightarrow> Task \<times> Kernel" where
  "enqueue t k =
     (let t' = t\<lparr>tk_ID := kn_nextID k + 1\<rparr>
      in (t', k\<lparr>kn_nextID := kn_nextID k + 1, kn_queue := kn_queue k @ [t']\<rparr>))"

definition Submit :: "Env \<Rightarrow> string \<Rightarrow> Intent \<Rightarrow> TaskOption list \<Rightarrow> Kernel \<Rightarrow> Task \<times> Kernel" where
  "Submit e name intent opts k =
     (let (now, k1) = readClock e k;
          t0 = \<lparr>tk_ID = 0, tk_Instance = name, tk_Intent = intent, tk_Approval = None, tk_Claim = None,
                tk_Every = 0, tk_due = now, tk_runs = 0\<rparr>;
          (t1, k2) = fold (apply_option e) opts (t0, k1);
          (t, k3) = enqueue t1 k2
      in (t, interrupt k3))"

definition Schedule_task :: "Env \<Rightarrow> string \<Rightarrow> Intent \<Rightarrow> duration \<Rightarrow> TaskOption list \<Rightarrow> Kernel \<Rightarrow> Task \<times> Kernel" where
  "Schedule_task e name intent period opts k = Submit e name intent ([RunEvery period, StartAfter period] @ opts) k"

fun arm_all :: "Env \<Rightarrow> string \<Rightarrow> TaskOption list \<Rightarrow> ScheduledWork list \<Rightarrow> Kernel \<Rightarrow> Task list \<times> Kernel" where
  "arm_all e name opts [] k = ([], k)"
| "arm_all e name opts (work # rest) k =
     (let (t, k1) = Schedule_task e name (NewIntent (sw_Intent work) None) (sw_Every work) opts k;
          (ts, k2) = arm_all e name opts rest k1
      in (t # ts, k2))"

definition Arm :: "Env \<Rightarrow> string \<Rightarrow> TaskOption list \<Rightarrow> Kernel \<Rightarrow> (string, Task list) outcome \<times> Kernel" where
  "Arm e name opts k =
     (case Instance_at name k of
        None \<Rightarrow> (Inl (''no such instance '' @ go_quote name), k)
      | Some rt \<Rightarrow>
          (case rt_Strategy (kn_heap k rt) of
             None \<Rightarrow> (Inr [], k)
           | Some s \<Rightarrow> (let (ts, k1) = arm_all e name opts (sy_ScheduledWork s) k in (Inr ts, k1))))"

fun remove_id :: "int \<Rightarrow> Task list \<Rightarrow> Task list" where
  "remove_id i [] = []"
| "remove_id i (t # ts) = (if tk_ID t = i then ts else t # remove_id i ts)"

definition Cancel :: "int \<Rightarrow> Kernel \<Rightarrow> bool \<times> Kernel" where
  "Cancel i k =
     (if i \<in> set (map tk_ID (kn_queue k)) then (True, k\<lparr>kn_queue := remove_id i (kn_queue k)\<rparr>) else (False, k))"

definition Pending :: "Kernel \<Rightarrow> nat" where
  "Pending k = length (kn_queue k)"

section \<open>Taking the next task\<close>

definition better_task :: "gotime \<Rightarrow> string list \<Rightarrow> nat \<times> Task \<Rightarrow> (nat \<times> Task) option \<Rightarrow> (nat \<times> Task) option" where
  \<comment> \<open>the body of the loop over the queue; the list holds the instances to skip\<close>
  "better_task now skip it best =
     (if now < tk_due (snd it) then best
      else if tk_Instance (snd it) \<in> set skip then best
      else (case best of
              None \<Rightarrow> Some it
            | Some b \<Rightarrow> if tk_due (snd it) < tk_due (snd b) then Some it else best))"

definition best_ready :: "gotime \<Rightarrow> string list \<Rightarrow> Task list \<Rightarrow> (nat \<times> Task) option" where
  "best_ready now skip q = fold (better_task now skip) (enumerate 0 q) None"

definition takeReady :: "gotime \<Rightarrow> bool \<Rightarrow> Kernel \<Rightarrow> Task option \<times> Kernel" where
  "takeReady now reserve k =
     (case best_ready now (if reserve then kn_inFlight k else []) (kn_queue k) of
        None \<Rightarrow> (None, k)
      | Some (i, best) \<Rightarrow>
          (let q = kn_queue k;
               t = (if Recurring best then best\<lparr>tk_due := now + tk_Every best\<rparr> else best);
               q' = (if Recurring best then q[i := t] else take i q @ drop (i + 1) q);
               k1 = k\<lparr>kn_queue := q'\<rparr>
           in (Some t, if reserve then k1\<lparr>kn_inFlight := List.insert (tk_Instance best) (kn_inFlight k1)\<rparr> else k1)))"

section \<open>Running one task\<close>

definition classifyDispatch :: "ear_error \<Rightarrow> DispatchStatus \<times> string" where
  "classifyDispatch err =
     (case error_root err of
        ApprovalRequiredError ps \<Rightarrow> (StatusBlocked, ''awaiting approval: '' @ error_text (ApprovalRequiredError ps))
      | PolicyViolationError scope ps \<Rightarrow> (StatusBlocked, error_text (PolicyViolationError scope ps))
      | TenantBoundaryError subject org allowed \<Rightarrow> (StatusBlocked, error_text (TenantBoundaryError subject org allowed))
      | SpawnDeniedError reason \<Rightarrow> (StatusBlocked, error_text (SpawnDeniedError reason))
      | _ \<Rightarrow> (StatusFailed, error_text err))"

definition outcome_status :: "(ear_error, goval) outcome \<Rightarrow> DispatchStatus \<times> string" where
  \<comment> \<open>what Reason gave, a panic caught by the deferred recover\<close>
  "outcome_status res =
     (case res of
        Inr d \<Rightarrow> (StatusRan, Sprint d)
      | Inl e \<Rightarrow> (case error_root e of Panic t \<Rightarrow> (StatusFailed, ''panic: '' @ t) | _ \<Rightarrow> classifyDispatch e))"

definition runTask :: "Env \<Rightarrow> Task \<Rightarrow> nat \<Rightarrow> Kernel \<Rightarrow> (DispatchStatus \<times> string) \<times> Kernel" where
  "runTask e t rt k =
     (case kn_Dispatcher k of
        Some d \<Rightarrow>
          (let (res, r) = ke_dispatchers e d t (kn_heap k rt)
           in (case res of Inl text \<Rightarrow> (StatusFailed, ''panic: '' @ text) | Inr s \<Rightarrow> s, k\<lparr>kn_heap := (kn_heap k)(rt := r)\<rparr>))
      | None \<Rightarrow>
          (let (res, r) = Reason (ke_world e) (tk_Claim t) (tk_Intent t) (tk_Approval t) (kn_heap k rt)
           in (outcome_status res, k\<lparr>kn_heap := (kn_heap k)(rt := r)\<rparr>)))"

definition truncate_text :: "string \<Rightarrow> nat \<Rightarrow> string" where
  "truncate_text s limit = (if length s \<le> limit then s else take limit s @ ''...'')"

definition history_limit :: "Kernel \<Rightarrow> nat" where
  "history_limit k = (if kn_HistoryLimit k \<le> 0 then 1024 else nat (kn_HistoryLimit k))"

definition record_dispatch :: "Dispatch \<Rightarrow> Kernel \<Rightarrow> Kernel" where
  "record_dispatch d k =
     (let h = kn_history k @ [d];
          excess = length h - history_limit k
      in k\<lparr>kn_history := (if 0 < excess then drop excess h else h), kn_dispatched := kn_dispatched k + 1\<rparr>)"

definition History :: "Kernel \<Rightarrow> Dispatch list" where
  "History k = kn_history k"

definition count_run :: "int \<Rightarrow> Kernel \<Rightarrow> Kernel" where
  \<comment> \<open>task.runs++, seen by the queue when the task is in it\<close>
  "count_run i k = k\<lparr>kn_queue := map (\<lambda>t. if tk_ID t = i then t\<lparr>tk_runs := tk_runs t + 1\<rparr> else t) (kn_queue k)\<rparr>"

definition dispatch :: "Env \<Rightarrow> Task \<Rightarrow> Kernel \<Rightarrow> Dispatch \<times> Kernel" where
  "dispatch e t k =
     (let (started, k1) = readClock e k;
          rt = Instance_at (tk_Instance t) k1;
          k2 = count_run (tk_ID t) k1;
          ((status, summary), k3) =
            (case rt of
               None \<Rightarrow> ((StatusFailed, ''no such instance '' @ go_quote (tk_Instance t)), k2)
             | Some a \<Rightarrow> runTask e (t\<lparr>tk_runs := tk_runs t + 1\<rparr>) a k2);
          (ended, k4) = readClock e k3;
          d = \<lparr>ds_TaskID = tk_ID t, ds_Instance = tk_Instance t, ds_Status = status,
               ds_Summary = truncate_text summary 240, ds_Duration = ended - started, ds_At = started\<rparr>
      in (d, record_dispatch d k4))"

section \<open>The loop\<close>

definition Tick :: "Env \<Rightarrow> Kernel \<Rightarrow> Dispatch option \<times> Kernel" where
  "Tick e k =
     (let (now, k1) = readClock e k in
      case takeReady now False k1 of
        (None, k2) \<Rightarrow> (None, k2\<lparr>kn_idleWaits := kn_idleWaits k2 + 1\<rparr>)
      | (Some t, k2) \<Rightarrow> (let (d, k3) = dispatch e t k2 in (Some d, k3)))"

fun drain_loop :: "Env \<Rightarrow> nat \<Rightarrow> Kernel \<Rightarrow> Dispatch list \<times> Kernel" where
  \<comment> \<open>the units left\<close>
  "drain_loop e 0 k = ([], k)"
| "drain_loop e (Suc n) k =
     (case Tick e k of
        (None, k1) \<Rightarrow> ([], k1)
      | (Some d, k1) \<Rightarrow> (let (ds, k2) = drain_loop e n k1 in (d # ds, k2)))"

definition max_units :: "int \<Rightarrow> nat" where
  "max_units n = (if n \<le> 0 then 10000 else nat n)"

definition workers :: "Env \<Rightarrow> Kernel \<Rightarrow> nat" where
  "workers e k = (if kn_Workers k < 0 then ke_procs e else if kn_Workers k < 1 then 1 else nat (kn_Workers k))"

definition Drain_serial :: "Env \<Rightarrow> int \<Rightarrow> Kernel \<Rightarrow> Dispatch list \<times> Kernel" where
  \<comment> \<open>Drain of a kernel with one worker\<close>
  "Drain_serial e maxUnits k = drain_loop e (max_units maxUnits) k"

definition busy :: "Kernel \<Rightarrow> bool" where
  "busy k \<longleftrightarrow> 0 < length (kn_inFlight k)"

definition sooner :: "gotime \<Rightarrow> Task \<Rightarrow> gotime \<Rightarrow> gotime" where
  "sooner now t soonest =
     (if now < tk_due t \<and> (IsZero soonest \<or> tk_due t < soonest) then tk_due t else soonest)"

definition untilNext :: "gotime \<Rightarrow> Kernel \<Rightarrow> duration option" where
  "untilNext now k =
     (let soonest = fold (sooner now) (kn_queue k) 0 in if IsZero soonest then None else Some (soonest - now))"

datatype turn =
    Dispatched Dispatch
  | SleepFor duration      \<comment> \<open>until an interrupt, the timer or the end of the context\<close>
  | SleepUntilWake         \<comment> \<open>until an interrupt or the end of the context\<close>

definition sleepUntilInterrupt :: "Env \<Rightarrow> Kernel \<Rightarrow> turn \<times> Kernel" where
  "sleepUntilInterrupt e k =
     (let (now, k1) = readClock e k
      in (case untilNext now k1 of None \<Rightarrow> SleepUntilWake | Some delay \<Rightarrow> SleepFor delay, k1))"

definition run_turn :: "Env \<Rightarrow> Kernel \<Rightarrow> turn \<times> Kernel" where
  \<comment> \<open>one turn of the serial Run\<close>
  "run_turn e k =
     (case Tick e k of
        (Some d, k1) \<Rightarrow> (Dispatched d, k1)
      | (None, k1) \<Rightarrow> sleepUntilInterrupt e k1)"

definition Run_enter :: "Kernel \<Rightarrow> (string, Kernel) outcome" where
  \<comment> \<open>the compare-and-swap that admits one Run at a time\<close>
  "Run_enter k = (if kn_running k then Inl ''kernel is already running'' else Inr (k\<lparr>kn_running := True\<rparr>))"

definition Run_leave :: "Kernel \<Rightarrow> Kernel" where
  "Run_leave k = k\<lparr>kn_running := False\<rparr>"

record Snapshot =
  sn_Instances :: "string list"
  sn_Pending :: nat
  sn_InFlight :: "string list"
  sn_Running :: bool
  sn_IdleWaits :: nat
  sn_Dispatched :: nat
  sn_Recent :: "Dispatch list"

definition Kernel_Snapshot :: "Kernel \<Rightarrow> Snapshot" where
  "Kernel_Snapshot k =
     \<lparr>sn_Instances = Instances k, sn_Pending = length (kn_queue k), sn_InFlight = kn_inFlight k,
      sn_Running = kn_running k, sn_IdleWaits = kn_idleWaits k, sn_Dispatched = kn_dispatched k,
      sn_Recent = drop (length (kn_history k) - 8) (kn_history k)\<rparr>"

end
