(* ===== verification/KernelProps.thy ===== *)
theory KernelProps
  imports Kernel CycleLive Window
begin

text \<open>
  What the scheduler guarantees: which task is taken, in which order a drain runs the work that is
  due, what the history keeps, how a stopped cycle is reported, and how long the loop sleeps.
\<close>

section \<open>The task that is taken\<close>

definition eligible :: "gotime \<Rightarrow> string list \<Rightarrow> Task \<Rightarrow> bool" where
  "eligible now skip t \<longleftrightarrow> tk_due t \<le> now \<and> tk_Instance t \<notin> set skip"

lemma best_ready_snoc:
  "best_ready now skip (q @ [t]) = better_task now skip (length q, t) (best_ready now skip q)"
  by (simp add: best_ready_def enumerate_append_eq)

lemma best_ready_cases:
  "case best_ready now skip q of
     None \<Rightarrow> \<forall>t \<in> set q. \<not> eligible now skip t
   | Some (i, t) \<Rightarrow> i < length q \<and> q ! i = t \<and> eligible now skip t \<and>
       (\<forall>j < length q. eligible now skip (q ! j) \<longrightarrow> tk_due t \<le> tk_due (q ! j) \<and> (j < i \<longrightarrow> tk_due t < tk_due (q ! j)))"
proof (induction q rule: rev_induct)
  case Nil
  show ?case by (simp add: best_ready_def)
next
  case (snoc x q)
  show ?case
  proof (cases "best_ready now skip q")
    case None
    then show ?thesis
      using snoc.IH by (auto simp: best_ready_snoc better_task_def eligible_def nth_append)
  next
    case (Some p)
    then obtain i t where b: "best_ready now skip q = Some (i, t)" by (cases p) auto
    have IH: "i < length q" "q ! i = t" "eligible now skip t"
      "\<And>j. j < length q \<Longrightarrow> eligible now skip (q ! j) \<Longrightarrow> tk_due t \<le> tk_due (q ! j) \<and> (j < i \<longrightarrow> tk_due t < tk_due (q ! j))"
      using snoc.IH b by auto
    show ?thesis
    proof (cases "eligible now skip x \<and> tk_due x < tk_due t")
      case True
      have "best_ready now skip (q @ [x]) = Some (length q, x)"
        using True b by (auto simp: best_ready_snoc better_task_def eligible_def)
      then show ?thesis
        using True IH(4) by (force simp: nth_append less_Suc_eq)
    next
      case False
      have "best_ready now skip (q @ [x]) = Some (i, t)"
        using False b by (auto simp: best_ready_snoc better_task_def eligible_def)
      then show ?thesis
        using False IH by (auto simp: nth_append less_Suc_eq)
    qed
  qed
qed

lemma best_ready_Some:
  assumes "best_ready now skip q = Some (i, t)"
  shows "i < length q" "q ! i = t" "eligible now skip t"
    "\<And>j. j < length q \<Longrightarrow> eligible now skip (q ! j) \<Longrightarrow> tk_due t \<le> tk_due (q ! j)"
    "\<And>j. j < i \<Longrightarrow> eligible now skip (q ! j) \<Longrightarrow> tk_due t < tk_due (q ! j)"
  using best_ready_cases [where now = now and skip = skip and q = q] assms by auto

lemma best_ready_None: "best_ready now skip q = None \<longleftrightarrow> (\<forall>t \<in> set q. \<not> eligible now skip t)"
  using best_ready_cases [where now = now and skip = skip and q = q] by (force split: option.splits simp: in_set_conv_nth)

section \<open>Order of a drain\<close>

lemma insort_key_over:
  "\<forall>x \<in> set xs. f t < f x \<Longrightarrow> foldr (insort_key f) xs (insort_key f t zs) = insort_key f t (foldr (insort_key f) xs zs)"
  by (induction xs) (auto simp: insort_key_left_comm)

lemma sort_key_least:
  fixes f :: "'a \<Rightarrow> 'b :: linorder"
  assumes "\<forall>x \<in> set xs. f t < f x" "\<forall>y \<in> set ys. f t \<le> f y"
  shows "sort_key f (xs @ t # ys) = t # sort_key f (xs @ ys)"
proof -
  have "sort_key f (xs @ t # ys) = insort_key f t (sort_key f (xs @ ys))"
    using insort_key_over [OF assms(1)] by (simp add: sort_key_def)
  also have "\<dots> = t # sort_key f (xs @ ys)"
    using assms by (intro insort_is_Cons) (auto intro: less_imp_le)
  finally show ?thesis .
qed

lemma sort_key_map: "(\<And>x. f (g x) = f x) \<Longrightarrow> sort_key f (map g xs) = map g (sort_key f xs)"
proof -
  assume g: "\<And>x. f (g x) = f x"
  have "insort_key f (g x) (map g ys) = map g (insort_key f x ys)" for x ys
    by (induction ys) (simp_all add: g)
  then show ?thesis by (induction xs) simp_all
qed

definition due_now :: "gotime \<Rightarrow> Kernel \<Rightarrow> Task list" where
  \<comment> \<open>the tasks whose time has come, earliest first, the queue's order among equals\<close>
  "due_now now k = sort_key tk_due (filter (\<lambda>t. tk_due t \<le> now) (kn_queue k))"

lemma takeReady_due:
  assumes "takeReady now False k = (res, k')"
  shows "case res of
      None \<Rightarrow> due_now now k = [] \<and> k' = k
    | Some t \<Rightarrow> \<exists>t0. due_now now k = t0 # due_now now k' \<and> tk_ID t = tk_ID t0 \<and> tk_Instance t = tk_Instance t0 \<and>
        kn_history k' = kn_history k \<and> kn_reads k' = kn_reads k"
proof (cases "best_ready now [] (kn_queue k)")
  case None
  then have "filter (\<lambda>t. tk_due t \<le> now) (kn_queue k) = []"
    by (auto simp: best_ready_None eligible_def filter_empty_conv)
  then show ?thesis using assms None by (auto simp: takeReady_def due_now_def)
next
  case (Some it)
  obtain i t where it: "best_ready now [] (kn_queue k) = Some (i, t)" using Some by (cases it) auto
  let ?q = "kn_queue k"
  let ?r = "filter (\<lambda>t. tk_due t \<le> now)"
  note b = best_ready_Some [OF it]
  have q: "?q = take i ?q @ t # drop (i + 1) ?q" using id_take_nth_drop [OF b(1)] b(2) by simp
  have t: "tk_due t \<le> now" using b(3) by (simp add: eligible_def)
  have before: "\<forall>x \<in> set (?r (take i ?q)). tk_due t < tk_due x"
  proof
    fix x
    assume "x \<in> set (?r (take i ?q))"
    then obtain j where "j < i" "x = ?q ! j" "tk_due x \<le> now" using b(1) by (auto simp: in_set_conv_nth)
    then show "tk_due t < tk_due x" using b(5) by (simp add: eligible_def)
  qed
  have after: "\<forall>x \<in> set (?r (drop (i + 1) ?q)). tk_due t \<le> tk_due x"
  proof
    fix x
    assume x: "x \<in> set (?r (drop (i + 1) ?q))"
    then have "x \<in> set ?q" by (auto dest: in_set_dropD)
    then obtain j where "j < length ?q" "x = ?q ! j" by (auto simp: in_set_conv_nth)
    then show "tk_due t \<le> tk_due x" using x b(4) by (simp add: eligible_def)
  qed
  have "due_now now k = sort_key tk_due (?r (take i ?q) @ t # ?r (drop (i + 1) ?q))"
    unfolding due_now_def using t by (subst (1) q) simp
  also have "\<dots> = t # sort_key tk_due (?r (take i ?q @ drop (i + 1) ?q))"
    using sort_key_least [OF before after] by simp
  finally have split: "due_now now k = t # sort_key tk_due (?r (take i ?q @ drop (i + 1) ?q))" .
  show ?thesis
  proof (cases "Recurring t")
    case True
    let ?t = "t\<lparr>tk_due := now + tk_Every t\<rparr>"
    have "?q[i := ?t] = take i ?q @ ?t # drop (i + 1) ?q"
      using b(1) by (simp add: upd_conv_take_nth_drop)
    moreover have "\<not> tk_due ?t \<le> now" using True by (simp add: Recurring_def)
    ultimately have "due_now now (k\<lparr>kn_queue := ?q[i := ?t]\<rparr>) = sort_key tk_due (?r (take i ?q @ drop (i + 1) ?q))"
      by (simp add: due_now_def)
    then show ?thesis using assms it split True by (auto simp: takeReady_def Let_def)
  next
    case False
    then show ?thesis using assms it split by (auto simp: takeReady_def Let_def due_now_def)
  qed
qed

lemma due_now_simps [simp]:
  "due_now now (k\<lparr>kn_reads := n\<rparr>) = due_now now k" "due_now now (k\<lparr>kn_heap := h\<rparr>) = due_now now k"
  "due_now now (record_dispatch d k) = due_now now k"
  by (simp_all add: due_now_def record_dispatch_def Let_def)

lemma due_now_count_run: "map tk_ID (due_now now (count_run i k)) = map tk_ID (due_now now k)"
proof -
  let ?g = "\<lambda>t. if tk_ID t = i then t\<lparr>tk_runs := tk_runs t + 1\<rparr> else t"
  have "filter (\<lambda>t. tk_due t \<le> now) (map ?g (kn_queue k)) = map ?g (filter (\<lambda>t. tk_due t \<le> now) (kn_queue k))"
    by (induction "kn_queue k") (auto simp: filter_map o_def intro!: arg_cong [of _ _ "map ?g"] filter_cong)
  then have "due_now now (count_run i k) = map ?g (due_now now k)"
    by (simp add: due_now_def count_run_def sort_key_map)
  then show ?thesis by (simp add: o_def)
qed

lemma runTask_keeps: "\<exists>h. snd (runTask e t a k) = k\<lparr>kn_heap := h\<rparr>"
  by (auto simp: runTask_def case_prod_beta split: option.split)

lemma dispatch_effect:
  "ds_TaskID (fst (dispatch e t k)) = tk_ID t \<and>
   (\<exists>k1. snd (dispatch e t k) = record_dispatch (fst (dispatch e t k)) k1 \<and>
      map tk_ID (due_now now k1) = map tk_ID (due_now now k) \<and> kn_history k1 = kn_history k \<and>
      kn_HistoryLimit k1 = kn_HistoryLimit k \<and> kn_dispatched k1 = kn_dispatched k \<and>
      kn_inFlight k1 = kn_inFlight k \<and> map tk_ID (kn_queue k1) = map tk_ID (kn_queue k) \<and> kn_nextID k1 = kn_nextID k)"
proof -
  let ?k2 = "count_run (tk_ID t) (k\<lparr>kn_reads := kn_reads k + 1\<rparr>)"
  obtain s k3 where r: "(case Instance_at (tk_Instance t) (k\<lparr>kn_reads := kn_reads k + 1\<rparr>) of
        None \<Rightarrow> ((StatusFailed, ''no such instance '' @ go_quote (tk_Instance t)), ?k2)
      | Some a \<Rightarrow> runTask e (t\<lparr>tk_runs := tk_runs t + 1\<rparr>) a ?k2) = (s, k3)" by fastforce
  have "k3 = ?k2 \<or> (\<exists>h. k3 = ?k2\<lparr>kn_heap := h\<rparr>)"
    using r runTask_keeps by (auto split: option.splits) (metis snd_conv)
  then have k3: "\<exists>h. k3 = ?k2\<lparr>kn_heap := h\<rparr>"
    by (auto intro: exI [of _ "kn_heap ?k2"])
  have ids: "map tk_ID (map (\<lambda>t'. if tk_ID t' = i then t'\<lparr>tk_runs := tk_runs t' + 1\<rparr> else t') q) = map tk_ID q" for i q
    by (induction q) auto
  obtain st su where s: "s = (st, su)" by (cases s)
  have d: "dispatch e t k =
      (let d = \<lparr>ds_TaskID = tk_ID t, ds_Instance = tk_Instance t, ds_Status = st,
               ds_Summary = truncate_text su 240, ds_Duration = ke_clock e (kn_reads k3) - ke_clock e (kn_reads k), ds_At = ke_clock e (kn_reads k)\<rparr>
       in (d, record_dispatch d (k3\<lparr>kn_reads := kn_reads k3 + 1\<rparr>)))"
    by (simp only: dispatch_def readClock_def Let_def prod.case r s)
  show ?thesis
    using k3 ids due_now_count_run [of now "tk_ID t" k]
    by (auto simp: d Let_def count_run_def intro!: exI [of _ "k3\<lparr>kn_reads := kn_reads k3 + 1\<rparr>"])
qed

lemma dispatch_queue:
  "kn_queue (snd (dispatch e t k)) = kn_queue (count_run (tk_ID t) k) \<and> kn_reads (snd (dispatch e t k)) = kn_reads k + 2"
proof -
  obtain h where "snd (runTask e t' a k') = k'\<lparr>kn_heap := h t' a k'\<rparr>" for t' a k'
    using runTask_keeps by metis
  then show ?thesis
    by (simp add: dispatch_def readClock_def Let_def case_prod_beta record_dispatch_def count_run_def split: option.split)
qed

definition settled :: "gotime \<Rightarrow> gotime \<Rightarrow> Task list \<Rightarrow> bool" where
  \<comment> \<open>from the first instant until the second nothing falls due\<close>
  "settled now till q \<longleftrightarrow>
     (\<forall>t \<in> set q. if tk_due t \<le> now then Recurring t \<longrightarrow> till \<le> now + tk_Every t else till \<le> tk_due t)"

definition brisk :: "Env \<Rightarrow> gotime \<Rightarrow> gotime \<Rightarrow> nat \<Rightarrow> Kernel \<Rightarrow> bool" where
  \<comment> \<open>the readings of the clock that so many units take, three each and one to find nothing left, fall in a span in which
    no task of the queue becomes due, again or for the first time\<close>
  "brisk e now till m k \<longleftrightarrow>
     (\<forall>i \<le> 3 * m. now \<le> ke_clock e (kn_reads k + i) \<and> ke_clock e (kn_reads k + i) < till) \<and> settled now till (kn_queue k)"

lemma settled_due: "settled now till (kn_queue k) \<Longrightarrow> now \<le> c \<Longrightarrow> c < till \<Longrightarrow> due_now c k = due_now now k"
  unfolding due_now_def settled_def
  by (intro arg_cong [of _ _ "sort_key tk_due"] filter_cong refl) (force split: if_splits)

lemma settled_count: "settled now till (kn_queue (count_run i k)) = settled now till (kn_queue k)"
proof -
  have "settled now till (map (\<lambda>t. if tk_ID t = i then t\<lparr>tk_runs := tk_runs t + 1\<rparr> else t) q) = settled now till q" for q
    by (induction q) (simp_all add: settled_def Recurring_def)
  then show ?thesis by (simp add: count_run_def)
qed

lemma settled_take:
  assumes "takeReady c False k = (Some t, k')" "settled now till (kn_queue k)" "now \<le> c" "c < till"
  shows "settled now till (kn_queue k')"
proof -
  obtain i best where i: "best_ready c [] (kn_queue k) = Some (i, best)"
    using assms(1) by (auto simp: takeReady_def split: option.splits prod.splits)
  have b: "i < length (kn_queue k)" "best = kn_queue k ! i" "tk_due best \<le> c"
    using best_ready_Some [OF i] by (auto simp: eligible_def)
  then have mem: "best \<in> set (kn_queue k)" by simp
  have q: "kn_queue k' = (if Recurring best then (kn_queue k)[i := best\<lparr>tk_due := c + tk_Every best\<rparr>] else take i (kn_queue k) @ drop (i + 1) (kn_queue k))"
    using assms(1) i by (auto simp: takeReady_def Let_def)
  have "tk_due best \<le> now" using mem assms(2-4) b(3) by (force simp: settled_def split: if_splits)
  then have e: "Recurring best \<Longrightarrow> till \<le> c + tk_Every best" using mem assms(2,3) by (force simp: settled_def)
  show ?thesis
  proof (cases "Recurring best")
    case True
    have "\<not> c + tk_Every best \<le> now" using True assms(3) by (simp add: Recurring_def)
    with True e assms(2) q show ?thesis
      by (auto simp: settled_def dest!: set_update_subset_insert [THEN subsetD])
  next
    case False
    then have "set (kn_queue k') \<subseteq> set (kn_queue k)" using q by (auto dest: in_set_takeD in_set_dropD)
    with assms(2) show ?thesis by (auto simp: settled_def)
  qed
qed

lemma Tick_due:
  assumes "brisk e now till (Suc m) k"
  shows "case due_now now k of
      [] \<Rightarrow> fst (Tick e k) = None
    | t # ts \<Rightarrow> (\<exists>d k'. Tick e k = (Some d, k') \<and> ds_TaskID d = tk_ID t \<and> map tk_ID (due_now now k') = map tk_ID ts \<and> brisk e now till m k')"
proof -
  let ?k1 = "k\<lparr>kn_reads := kn_reads k + 1\<rparr>" and ?c = "ke_clock e (kn_reads k)"
  have c: "now \<le> ?c" "?c < till" and q: "settled now till (kn_queue k)" using assms by (auto simp: brisk_def dest: spec [of _ 0])
  obtain res k2 where tr: "takeReady ?c False ?k1 = (res, k2)" by fastforce
  have tick: "Tick e k = (case res of None \<Rightarrow> (None, k2\<lparr>kn_idleWaits := kn_idleWaits k2 + 1\<rparr>)
      | Some t \<Rightarrow> (let (d, k3) = dispatch e t k2 in (Some d, k3)))"
    using tr by (auto simp: Tick_def readClock_def Let_def split: option.split)
  have due: "due_now ?c ?k1 = due_now now k" using settled_due [of now till ?k1 ?c] q c by simp
  show ?thesis
  proof (cases res)
    case None
    then show ?thesis using takeReady_due [OF tr] tick due by simp
  next
    case (Some t)
    have q2: "settled now till (kn_queue k2)" using settled_take [OF tr [unfolded Some]] q c by simp
    have due2: "due_now ?c k2 = due_now now k2" by (rule settled_due [OF q2 c])
    obtain t0 where t0: "due_now now k = t0 # due_now now k2" "tk_ID t = tk_ID t0" "kn_reads k2 = kn_reads k + 1"
      using takeReady_due [OF tr] Some due due2 by auto
    from dispatch_effect [of e t k2 now] have d: "ds_TaskID (fst (dispatch e t k2)) = tk_ID t"
      "map tk_ID (due_now now (snd (dispatch e t k2))) = map tk_ID (due_now now k2)" by fastforce+
    have "brisk e now till m (snd (dispatch e t k2))"
    proof -
      have "now \<le> ke_clock e (kn_reads k + (3 + i)) \<and> ke_clock e (kn_reads k + (3 + i)) < till" if "i \<le> 3 * m" for i
        using assms that unfolding brisk_def by simp
      then show ?thesis using dispatch_queue [of e t k2] q2 t0(3) by (simp add: brisk_def settled_count numeral_3_eq_3)
    qed
    then show ?thesis using t0 tick Some d by (auto simp: case_prod_beta)
  qed
qed

text \<open>
  C10.  A drain runs the work that is due and nothing else, in order: when it is done before any task becomes
  due, again or for the first time, its dispatches are of exactly the tasks that were due at its start,
  earliest first, the order of submission among equals, each once even when it recurs, up to the bound on the
  units.  The clock may run meanwhile.
\<close>

theorem Drain_runs_due_in_order:
  assumes "brisk e now till (max_units maxUnits) k"
  shows "map ds_TaskID (fst (Drain_serial e maxUnits k)) = take (max_units maxUnits) (map tk_ID (due_now now k))"
proof -
  have "map ds_TaskID (fst (drain_loop e n k)) = take n (map tk_ID (due_now now k))" if "brisk e now till n k" for n
    using that
  proof (induction n arbitrary: k)
    case (Suc n)
    show ?case
    proof (cases "due_now now k")
      case Nil
      then have "fst (Tick e k) = None" using Tick_due [OF Suc.prems] by simp
      then show ?thesis using Nil by (cases "Tick e k") simp
    next
      case (Cons t ts)
      then obtain d k' where "Tick e k = (Some d, k')" "ds_TaskID d = tk_ID t" "map tk_ID (due_now now k') = map tk_ID ts"
        "brisk e now till n k'"
        using Tick_due [OF Suc.prems] by auto
      then show ?thesis using Suc.IH [of k'] Cons by (simp add: case_prod_beta)
    qed
  qed simp
  then show ?thesis using assms by (simp add: Drain_serial_def)
qed

lemma still_clock: "ke_clock e = (\<lambda>_. now) \<Longrightarrow> settled now (now + 1) (kn_queue k) \<Longrightarrow> brisk e now (now + 1) m k"
  by (simp add: brisk_def)

section \<open>The history\<close>

interpretation kh: bounded_window record_dispatch kn_history history_limit kn_dispatched
proof
  fix d k
  show "kn_history (record_dispatch d k) = last_n (history_limit k) (kn_history k @ [d])"
    by (simp add: record_dispatch_def last_n_def Let_def)
  show "history_limit (record_dispatch d k) = history_limit k"
    by (simp add: record_dispatch_def history_limit_def Let_def)
  show "kn_dispatched (record_dispatch d k) = Suc (kn_dispatched k)"
    by (simp add: record_dispatch_def Let_def)
qed

definition history_step :: "Kernel \<Rightarrow> Dispatch list \<Rightarrow> Kernel \<Rightarrow> bool" where
  \<comment> \<open>the dispatches were pushed and nothing else touched the history\<close>
  "history_step k ds k' \<longleftrightarrow>
     kn_history k' = kn_history (fold record_dispatch ds k) \<and> history_limit k' = history_limit k \<and>
     kn_dispatched k' = kn_dispatched k + length ds"

lemma history_limit_simps [simp]:
  "history_limit (k\<lparr>kn_idleWaits := n\<rparr>) = history_limit k" "history_limit (k\<lparr>kn_reads := n\<rparr>) = history_limit k"
  by (simp_all add: history_limit_def)

lemma dispatched_fold: "kn_dispatched (fold record_dispatch ds k) = kn_dispatched k + length ds"
  by (induction ds arbitrary: k) (simp_all add: record_dispatch_def Let_def)

lemma record_cong:
  "kn_history k' = kn_history k \<Longrightarrow> history_limit k' = history_limit k \<Longrightarrow>
   kn_history (record_dispatch d k') = kn_history (record_dispatch d k)"
  by (simp add: kh.contents_push)

lemma fold_record_cong:
  "kn_history k' = kn_history k \<Longrightarrow> history_limit k' = history_limit k \<Longrightarrow>
   kn_history (fold record_dispatch ds k') = kn_history (fold record_dispatch ds k)"
proof (induction ds arbitrary: k k')
  case (Cons d ds)
  have "history_limit (record_dispatch d k') = history_limit (record_dispatch d k)"
    using Cons.prems(2) by (simp only: kh.limit_push)
  from Cons.IH [OF record_cong [OF Cons.prems] this] show ?case by simp
qed simp

lemma takeReady_keeps:
  "kn_history (snd (takeReady now b k)) = kn_history k \<and> kn_HistoryLimit (snd (takeReady now b k)) = kn_HistoryLimit k \<and>
   kn_dispatched (snd (takeReady now b k)) = kn_dispatched k \<and> kn_heap (snd (takeReady now b k)) = kn_heap k \<and>
   kn_nextID (snd (takeReady now b k)) = kn_nextID k \<and> kn_instances (snd (takeReady now b k)) = kn_instances k"
  by (auto simp: takeReady_def Let_def split: option.split)

lemma Tick_history:
  "history_step k (case fst (Tick e k) of None \<Rightarrow> [] | Some d \<Rightarrow> [d]) (snd (Tick e k))"
proof -
  let ?k1 = "k\<lparr>kn_reads := kn_reads k + 1\<rparr>"
  obtain res k2 where tr: "takeReady (ke_clock e (kn_reads k)) False ?k1 = (res, k2)" by fastforce
  have k2: "kn_history k2 = kn_history k" "history_limit k2 = history_limit k" "kn_dispatched k2 = kn_dispatched k"
    using takeReady_keeps [of "ke_clock e (kn_reads k)" False ?k1] tr by (simp_all add: history_limit_def)
  have tick: "Tick e k = (case res of None \<Rightarrow> (None, k2\<lparr>kn_idleWaits := kn_idleWaits k2 + 1\<rparr>)
      | Some t \<Rightarrow> (let (d, k3) = dispatch e t k2 in (Some d, k3)))"
    using tr by (auto simp: Tick_def readClock_def Let_def split: option.split)
  show ?thesis
  proof (cases res)
    case None
    then show ?thesis using tick k2 by (simp add: history_step_def)
  next
    case (Some t)
    from dispatch_effect [of e t k2 0] obtain k3 where d: "snd (dispatch e t k2) = record_dispatch (fst (dispatch e t k2)) k3"
      "kn_history k3 = kn_history k2" "kn_HistoryLimit k3 = kn_HistoryLimit k2" "kn_dispatched k3 = kn_dispatched k2" by blast
    have "history_limit k3 = history_limit k2" using d(3) by (simp add: history_limit_def)
    then have l: "history_limit k3 = history_limit k" using k2(2) by simp
    have "kn_history (record_dispatch (fst (dispatch e t k2)) k3) = kn_history (record_dispatch (fst (dispatch e t k2)) k)"
      using d(2) k2 l by (intro record_cong) simp_all
    then show ?thesis
      using tick Some d k2 l dispatched_fold [of "[fst (dispatch e t k2)]" k3]
      by (simp add: history_step_def case_prod_beta kh.limit_push)
  qed
qed

text \<open>
  The history a drain leaves holds the most recent dispatches, oldest first, and never more
  than its limit; the counter counts every dispatch, the forgotten ones too.
\<close>

theorem Drain_keeps_latest:
  assumes "length (kn_history k) \<le> history_limit k" "(ds, k') = Drain_serial e maxUnits k"
  shows "kn_history k' = last_n (history_limit k) (kn_history k @ ds) \<and> length (kn_history k') \<le> history_limit k \<and>
    kn_dispatched k' = kn_dispatched k + length ds"
proof -
  have "history_step k (fst (drain_loop e n k)) (snd (drain_loop e n k))" for n
  proof (induction n arbitrary: k)
    case (Suc n)
    obtain res k1 where t: "Tick e k = (res, k1)" by fastforce
    note h = Tick_history [of k e, unfolded t]
    show ?case
    proof (cases res)
      case None
      then show ?thesis using h t by (simp add: history_step_def)
    next
      case (Some d)
      note IH = Suc.IH [of k1]
      have "kn_history (fold record_dispatch ds k1) = kn_history (fold record_dispatch ds (record_dispatch d k))" for ds
        using h Some by (intro fold_record_cong) (simp_all add: history_step_def kh.limit_push)
      then show ?thesis using IH h t Some by (simp add: history_step_def case_prod_beta)
    qed
  qed (simp add: history_step_def)
  then have "history_step k ds k'" using assms(2) by (simp add: Drain_serial_def) (metis fst_conv snd_conv)
  then show ?thesis
    using kh.contents_fold [OF assms(1), of ds] kh.bounded [OF assms(1), of ds] by (simp add: history_step_def)
qed

section \<open>Taking work\<close>

text \<open>
  The next task is the first of the earliest tasks that are due on an instance that may take
  it; a one-shot task leaves the queue, a recurring one stays with its next time one period
  after now; and nothing is taken only when nothing qualifies.
\<close>

theorem takeReady_earliest:
  "case takeReady now reserve k of
     (None, k') \<Rightarrow> k' = k \<and> (\<forall>t \<in> set (kn_queue k). \<not> eligible now (if reserve then kn_inFlight k else []) t)
   | (Some t, k') \<Rightarrow> \<exists>before old after. kn_queue k = before @ old # after \<and>
       eligible now (if reserve then kn_inFlight k else []) old \<and>
       (\<forall>u \<in> set before. eligible now (if reserve then kn_inFlight k else []) u \<longrightarrow> tk_due old < tk_due u) \<and>
       (\<forall>u \<in> set after. eligible now (if reserve then kn_inFlight k else []) u \<longrightarrow> tk_due old \<le> tk_due u) \<and>
       (if Recurring old then t = old\<lparr>tk_due := now + tk_Every old\<rparr> \<and> kn_queue k' = before @ t # after
        else t = old \<and> kn_queue k' = before @ after) \<and>
       set (kn_inFlight k') = (if reserve then insert (tk_Instance old) (set (kn_inFlight k)) else set (kn_inFlight k))"
proof -
  let ?s = "if reserve then kn_inFlight k else []"
  let ?q = "kn_queue k"
  show ?thesis
  proof (cases "best_ready now ?s ?q")
    case None
    then show ?thesis using best_ready_None [of now ?s ?q] by (simp add: takeReady_def)
  next
    case (Some it)
    obtain i t where it: "best_ready now ?s ?q = Some (i, t)" using Some by (cases it) auto
    note b = best_ready_Some [OF it]
    have q: "?q = take i ?q @ t # drop (i + 1) ?q" using id_take_nth_drop [OF b(1)] b(2) by simp
    have before: "\<forall>u \<in> set (take i ?q). eligible now ?s u \<longrightarrow> tk_due t < tk_due u"
      using b(1,5) by (auto simp: in_set_conv_nth)
    have after: "\<forall>u \<in> set (drop (i + 1) ?q). eligible now ?s u \<longrightarrow> tk_due t \<le> tk_due u"
      using b(4) by (auto simp: in_set_conv_nth dest!: in_set_dropD)
    have upd: "?q[i := u] = take i ?q @ u # drop (i + 1) ?q" for u
      using b(1) by (simp add: upd_conv_take_nth_drop)
    show ?thesis
      unfolding takeReady_def it Let_def option.case prod.case
      by (intro exI [of _ "take i ?q"] exI [of _ t] exI [of _ "drop (i + 1) ?q"] conjI q b(3) before after)
        (auto simp: upd)
  qed
qed

section \<open>Sleeping\<close>

lemma Min_drop: "finite L \<Longrightarrow> s \<le> d \<Longrightarrow> Min (insert s (insert (d::int) L)) = Min (insert s L)"
  by (cases "L = {}") (auto simp: min_def)

lemma sooner_fold:
  assumes "0 \<le> now" "s = 0 \<or> now < s"
  shows "fold (sooner now) q s =
    (let later = (if s = 0 then [] else [s]) @ map tk_due (filter (\<lambda>t. now < tk_due t) q)
     in if later = [] then 0 else Min (set later))"
  using assms(2)
proof (induction q arbitrary: s)
  case (Cons t q)
  let ?L = "set (map tk_due (filter (\<lambda>t. now < tk_due t) q))"
  have s': "sooner now t s = 0 \<or> now < sooner now t s" using Cons.prems by (auto simp: sooner_def)
  note IH = Cons.IH [OF s']
  consider "\<not> now < tk_due t" | "now < tk_due t" "s = 0" | "now < tk_due t" "0 < s" "tk_due t < s" | "now < tk_due t" "0 < s" "s \<le> tk_due t"
    using Cons.prems assms(1) by linarith
  then show ?case
  proof cases
    case 1
    then show ?thesis using IH by (simp add: sooner_def)
  next
    case 2
    then show ?thesis using IH assms(1) by (simp add: sooner_def IsZero_def)
  next
    case 3
    then show ?thesis
      using IH assms(1) Min_drop [of ?L "tk_due t" s] by (simp add: sooner_def IsZero_def insert_commute)
  next
    case 4
    then show ?thesis
      using IH assms(1) Min_drop [of ?L s "tk_due t"] by (simp add: sooner_def IsZero_def)
  qed
qed simp

text \<open>
  An idle loop sleeps until the earliest task that is not due yet, and without a timer only
  when there is none: a task whose time has come plays no part in the length of the sleep.
\<close>

theorem untilNext_soonest:
  assumes "0 \<le> now"
  shows "untilNext now k =
    (let later = map tk_due (filter (\<lambda>t. now < tk_due t) (kn_queue k))
     in if later = [] then None else Some (Min (set later) - now))"
proof -
  have "now < Min (set (map tk_due (filter (\<lambda>t. now < tk_due t) (kn_queue k))))"
    if "filter (\<lambda>t. now < tk_due t) (kn_queue k) \<noteq> []"
    using that by (subst Min_gr_iff) (auto simp: filter_empty_conv)
  then show ?thesis
    using sooner_fold [OF assms, of 0 "kn_queue k"] assms
    by (cases "filter (\<lambda>t. now < tk_due t) (kn_queue k) = []") (simp_all add: untilNext_def Let_def IsZero_def)
qed

text \<open>
  A wake-up can be lost: a task that falls due between the two readings of the clock, the
  one with which the loop looks for work and the one with which it computes its sleep, is not
  taken by the first and not counted by the second, so a loop with nothing else scheduled sleeps
  with no timer although its task is due.
\<close>

theorem lost_wakeup:
  assumes "kn_queue k = [t]" "ke_clock e (kn_reads k) < tk_due t" "tk_due t \<le> ke_clock e (kn_reads k + 1)"
  shows "fst (run_turn e k) = SleepUntilWake \<and> kn_queue (snd (run_turn e k)) = [t]"
proof -
  have "takeReady (ke_clock e (kn_reads k)) False (k\<lparr>kn_reads := kn_reads k + 1\<rparr>) = (None, k\<lparr>kn_reads := kn_reads k + 1\<rparr>)"
    using assms(1,2) by (simp add: takeReady_def best_ready_def better_task_def)
  then show ?thesis
    using assms by (simp add: run_turn_def Tick_def readClock_def sleepUntilInterrupt_def untilNext_def sooner_def IsZero_def)
qed

section \<open>Work for the wrong organisation\<close>

text \<open>
  Scheduled work is held to the boundary a direct call meets: a task whose claim may not act
  as its instance's organisation lands blocked with the refusal as its summary; no model call,
  handler, memory or experience of that instance changes, no other instance changes at all, and
  the rest of the queue stays.
\<close>

theorem foreign_task_is_blocked:
  assumes "Instance_at (tk_Instance t) k = Some a" "kn_Dispatcher k = None" "tk_Claim t = Some c"
    and "\<not> MayActAs c (rt_OrgID (kn_heap k a))" "(d, k') = dispatch e t k"
  shows "ds_Status d = StatusBlocked \<and>
    ds_Summary d = truncate_text (error_text (TenantBoundaryError (cl_Subject c) (rt_OrgID (kn_heap k a)) (cl_OrgIDs c))) 240 \<and>
    map tk_ID (kn_queue k') = map tk_ID (kn_queue k) \<and> kn_heap k' = (kn_heap k)(a := kn_heap k' a) \<and>
    rt_lm (kn_heap k' a) = rt_lm (kn_heap k a) \<and> rt_effects (kn_heap k' a) = rt_effects (kn_heap k a) \<and>
    rt_Memory (kn_heap k' a) = rt_Memory (kn_heap k a) \<and> rt_Experience (kn_heap k' a) = rt_Experience (kn_heap k a)"
proof -
  let ?k2 = "count_run (tk_ID t) (k\<lparr>kn_reads := kn_reads k + 1\<rparr>)"
  have "kn_heap ?k2 = kn_heap k" "kn_Dispatcher ?k2 = None" using assms(2) by (simp_all add: count_run_def)
  then have r: "runTask e (t\<lparr>tk_runs := tk_runs t + 1\<rparr>) a ?k2 =
      ((StatusBlocked, error_text (refusal c (kn_heap k a))),
       ?k2\<lparr>kn_heap := (kn_heap k)(a := close_cycle (ke_world e) (wd_clock (ke_world e) (rt_ReasoningLog (kn_heap k a)))
           (modelCallsSoFar (kn_heap k a)) (refused (ke_world e) c (tk_Intent t) (kn_heap k a)))\<rparr>)"
    using refused_cycle [OF assms(4)] assms(3)
    by (simp add: runTask_def outcome_status_def classifyDispatch_def refusal_def)
  have i: "Instance_at (tk_Instance t) (k\<lparr>kn_reads := kn_reads k + 1\<rparr>) = Some a" using assms(1) by (simp add: Instance_at_def)
  have ids: "map tk_ID (map (\<lambda>t'. if tk_ID t' = i then t'\<lparr>tk_runs := tk_runs t' + 1\<rparr> else t') q) = map tk_ID q" for i q
    by (induction q) auto
  from assms(5) show ?thesis
    unfolding dispatch_def readClock_def Let_def prod.case i option.case r
    using ids by (auto simp: record_dispatch_def count_run_def Let_def refusal_def o_def cong: if_cong)
qed

section \<open>Examples\<close>

definition foreign_task :: Task where
  "foreign_task = \<lparr>tk_ID = 2, tk_Instance = ''desk'', tk_Intent = pay, tk_Approval = None,
     tk_Claim = Some \<lparr>cl_Subject = ''eve'', cl_OrgIDs = []\<rparr>, tk_Every = 0, tk_due = 0, tk_runs = 0\<rparr>"

definition sweep :: Task where
  "sweep = \<lparr>tk_ID = 1, tk_Instance = ''desk'', tk_Intent = pay, tk_Approval = None, tk_Claim = None,
            tk_Every = 60, tk_due = 15, tk_runs = 0\<rparr>"

definition one_task :: Kernel where
  "one_task = (NewKernel (\<lambda>_. desk))\<lparr>kn_instances := [(''desk'', 0)], kn_queue := [sweep]\<rparr>"

definition steady :: Env where
  \<comment> \<open>a clock that advances ten units per reading\<close>
  "steady = \<lparr>ke_clock = (\<lambda>n. 10 * int n + 10), ke_world = quiet, ke_procs = 1, ke_dispatchers = (\<lambda>_ _ r. (Inl [], r))\<rparr>"

lemma lost_wakeup_witness: "fst (run_turn steady one_task) = SleepUntilWake"
  using lost_wakeup [of one_task sweep steady]
  by (simp add: one_task_def NewKernel_def sweep_def steady_def)

lemma untilNext_soonest_witness: "untilNext 5 one_task = Some 10"
  using untilNext_soonest [of 5 one_task] by (simp add: one_task_def NewKernel_def sweep_def)

lemma Drain_runs_due_in_order_witness:
  "map ds_TaskID (fst (Drain_serial (steady\<lparr>ke_clock := (\<lambda>n. 20 + int n)\<rparr>) 5 one_task)) = [1]"
  by (subst Drain_runs_due_in_order [where now = 20 and till = 80])
    (simp_all add: brisk_def settled_def due_now_def one_task_def NewKernel_def sweep_def max_units_def)

lemma Drain_keeps_latest_witness:
  "length (kn_history (snd (Drain_serial steady 3 one_task))) \<le> 1024"
  using Drain_keeps_latest [of one_task _ _ steady 3, OF _ surjective_pairing [symmetric]]
  by (simp add: one_task_def NewKernel_def history_limit_def)

lemma foreign_task_is_blocked_witness:
  "ds_Status (fst (dispatch steady foreign_task one_task)) = StatusBlocked"
  using foreign_task_is_blocked [of foreign_task one_task 0 "\<lparr>cl_Subject = ''eve'', cl_OrgIDs = []\<rparr>",
      OF _ _ _ _ surjective_pairing [symmetric]]
  by (simp add: foreign_task_def one_task_def NewKernel_def Instance_at_def MayActAs_def)

lemma takeReady_earliest_witness:
  "case takeReady 20 True one_task of (None, k') \<Rightarrow> False | (Some t, k') \<Rightarrow> t = sweep\<lparr>tk_due := 80\<rparr>"
  using takeReady_earliest [where now = 20 and reserve = True and k = one_task]
  by (auto simp: one_task_def NewKernel_def sweep_def eligible_def Recurring_def Cons_eq_append_conv split: prod.splits option.splits)

end
