(* ===== verification/KernelPool.thy ===== *)
theory KernelPool
  imports KernelProps
begin

text \<open>
  Fleet parallelism, the concurrent half of \<^verbatim>\<open>kernel.go\<close>: the launchers (\<open>drainConcurrent\<close>,
  \<open>submitReady\<close>) reserve a ready task, wait for a slot of the semaphore and start a goroutine; the
  goroutine runs the task, releases the instance and gives the slot back.  Submissions,
  cancellations and changes of the process table happen at any moment between.  A step relation
  gives every interleaving.
\<close>

datatype pool_phase =
    Reserved     \<comment> \<open>taken and reserved; the launcher waits for a slot of the semaphore\<close>
  | Working      \<comment> \<open>the goroutine holds a slot; the cycle has not been recorded\<close>
  | Recorded     \<comment> \<open>dispatched; the deferred release of the instance is next\<close>
  | Leaving      \<comment> \<open>the instance is free; the slot is still held\<close>

record Fleet =
  fl_kernel :: Kernel
  fl_pool :: "(Task \<times> pool_phase) list"

definition holds_instance :: "Task \<times> pool_phase \<Rightarrow> bool" where
  "holds_instance x \<longleftrightarrow> snd x \<noteq> Leaving"

definition in_slot :: "Task \<times> pool_phase \<Rightarrow> bool" where
  "in_slot x \<longleftrightarrow> snd x \<noteq> Reserved"

definition release_instance :: "Task \<Rightarrow> Kernel \<Rightarrow> Kernel" where
  \<comment> \<open>the deferred function of dispatchAndRelease\<close>
  "release_instance t k = interrupt (k\<lparr>kn_inFlight := removeAll (tk_Instance t) (kn_inFlight k)\<rparr>)"

inductive pool_step :: "Env \<Rightarrow> nat \<Rightarrow> Fleet \<Rightarrow> Fleet \<Rightarrow> bool" for e limit where
  reserve: "takeReady now True (fl_kernel s) = (Some t, k) \<Longrightarrow>
    pool_step e limit s (s\<lparr>fl_kernel := k, fl_pool := fl_pool s @ [(t, Reserved)]\<rparr>)"
| launch: "fl_pool s = xs @ (t, Reserved) # ys \<Longrightarrow> length (filter in_slot (fl_pool s)) < limit \<Longrightarrow>
    pool_step e limit s (s\<lparr>fl_pool := xs @ (t, Working) # ys\<rparr>)"
| work: "fl_pool s = xs @ (t, Working) # ys \<Longrightarrow> dispatch e t (fl_kernel s) = (d, k) \<Longrightarrow>
    pool_step e limit s (s\<lparr>fl_kernel := k, fl_pool := xs @ (t, Recorded) # ys\<rparr>)"
| release: "fl_pool s = xs @ (t, Recorded) # ys \<Longrightarrow>
    pool_step e limit s (s\<lparr>fl_kernel := release_instance t (fl_kernel s), fl_pool := xs @ (t, Leaving) # ys\<rparr>)"
| leave: "fl_pool s = xs @ (t, Leaving) # ys \<Longrightarrow> pool_step e limit s (s\<lparr>fl_pool := xs @ ys\<rparr>)"
| submit: "pool_step e limit s (s\<lparr>fl_kernel := snd (Submit e name intent opts (fl_kernel s))\<rparr>)"
| cancel: "pool_step e limit s (s\<lparr>fl_kernel := snd (Cancel i (fl_kernel s))\<rparr>)"
| register: "pool_step e limit s (s\<lparr>fl_kernel := Register name a (fl_kernel s)\<rparr>)"
| remove: "pool_step e limit s (s\<lparr>fl_kernel := Remove name (fl_kernel s)\<rparr>)"

inductive_cases pool_stepE: "pool_step e limit s s'"

definition fleet_start :: "Kernel \<Rightarrow> Fleet" where
  "fleet_start k = \<lparr>fl_kernel = k, fl_pool = []\<rparr>"

section \<open>Identifiers\<close>

definition ids_ok :: "Kernel \<Rightarrow> bool" where
  \<comment> \<open>queued tasks have different positive identifiers, all of them given out\<close>
  "ids_ok k \<longleftrightarrow> distinct (map tk_ID (kn_queue k)) \<and> (\<forall>t \<in> set (kn_queue k). 0 < tk_ID t \<and> tk_ID t \<le> kn_nextID k) \<and>
     0 \<le> kn_nextID k"

lemma ids_okI: "map tk_ID (kn_queue k') = map tk_ID (kn_queue k) \<Longrightarrow> kn_nextID k' = kn_nextID k \<Longrightarrow> ids_ok k \<Longrightarrow> ids_ok k'"
proof -
  assume q: "map tk_ID (kn_queue k') = map tk_ID (kn_queue k)" and n: "kn_nextID k' = kn_nextID k" and ok: "ids_ok k"
  have alt: "ids_ok k \<longleftrightarrow> distinct (map tk_ID (kn_queue k)) \<and> (\<forall>i \<in> set (map tk_ID (kn_queue k)). 0 < i \<and> i \<le> kn_nextID k) \<and>
      0 \<le> kn_nextID k" for k
    by (simp add: ids_ok_def)
  from ok show "ids_ok k'" unfolding alt q n .
qed

lemma ids_ok_new: "ids_ok (NewKernel h)"
  by (simp add: ids_ok_def NewKernel_def)

lemma apply_options_keeps:
  "kn_queue (snd (fold (apply_option e) opts (t, k))) = kn_queue k \<and>
   kn_nextID (snd (fold (apply_option e) opts (t, k))) = kn_nextID k \<and>
   kn_inFlight (snd (fold (apply_option e) opts (t, k))) = kn_inFlight k"
proof (induction opts arbitrary: t k)
  case (Cons opt opts)
  obtain t' k' where o: "apply_option e opt (t, k) = (t', k')" by fastforce
  have "kn_queue k' = kn_queue k \<and> kn_nextID k' = kn_nextID k \<and> kn_inFlight k' = kn_inFlight k"
    using o by (cases opt) (auto simp: readClock_def Let_def)
  then show ?case using Cons.IH [of t' k'] o by simp
qed simp

lemma Submit_effect:
  "\<exists>t. tk_ID t = kn_nextID k + 1 \<and> kn_queue (snd (Submit e name intent opts k)) = kn_queue k @ [t] \<and>
     kn_nextID (snd (Submit e name intent opts k)) = kn_nextID k + 1 \<and>
     kn_inFlight (snd (Submit e name intent opts k)) = kn_inFlight k"
  using apply_options_keeps [of e opts]
  by (auto simp: Submit_def readClock_def enqueue_def interrupt_def Let_def case_prod_beta)

lemma ids_ok_submit: "ids_ok k \<Longrightarrow> ids_ok (snd (Submit e name intent opts k))"
  using Submit_effect [of k e name intent opts] by (force simp: ids_ok_def)

lemma remove_id_split: "i \<in> set (map tk_ID q) \<Longrightarrow> \<exists>xs t ys. q = xs @ t # ys \<and> tk_ID t = i \<and> remove_id i q = xs @ ys"
proof (induction q)
  case (Cons t q)
  show ?case
  proof (cases "tk_ID t = i")
    case True
    then show ?thesis by (intro exI [of _ "[]"]) simp
  next
    case False
    then obtain xs u ys where "q = xs @ u # ys" "tk_ID u = i" "remove_id i q = xs @ ys" using Cons by auto
    then show ?thesis using False by (intro exI [of _ "t # xs"]) simp
  qed
qed simp

lemma ids_ok_drop: "kn_queue k = xs @ t # ys \<Longrightarrow> kn_queue k' = xs @ ys \<Longrightarrow> kn_nextID k' = kn_nextID k \<Longrightarrow> ids_ok k \<Longrightarrow> ids_ok k'"
  by (auto simp: ids_ok_def)

lemma ids_ok_cancel: "ids_ok k \<Longrightarrow> ids_ok (snd (Cancel i k))"
  using remove_id_split [of i "kn_queue k"] ids_ok_drop [of k _ _ _ "k\<lparr>kn_queue := remove_id i (kn_queue k)\<rparr>"]
  by (auto simp: Cancel_def simp del: set_map)

lemma takeReady_split:
  assumes "takeReady now True k = (Some t, k')"
  obtains xs old ys where "kn_queue k = xs @ old # ys" "tk_ID t = tk_ID old" "tk_Instance t = tk_Instance old"
    "tk_Instance t \<notin> set (kn_inFlight k)" "kn_inFlight k' = tk_Instance t # kn_inFlight k"
    "kn_queue k' = xs @ t # ys \<or> kn_queue k' = xs @ ys" "kn_nextID k' = kn_nextID k"
proof -
  obtain i old where b: "best_ready now (kn_inFlight k) (kn_queue k) = Some (i, old)"
    using assms by (auto simp: takeReady_def split: option.splits)
  note r = best_ready_Some [OF b]
  have q: "kn_queue k = take i (kn_queue k) @ old # drop (i + 1) (kn_queue k)"
    using id_take_nth_drop [OF r(1)] r(2) by simp
  have u: "(kn_queue k)[i := u] = take i (kn_queue k) @ u # drop (i + 1) (kn_queue k)" for u
    using r(1) by (simp add: upd_conv_take_nth_drop)
  have free: "tk_Instance old \<notin> set (kn_inFlight k)" using r(3) by (simp add: eligible_def)
  show thesis
    by (rule that [OF q]) (use assms b free in \<open>auto simp: takeReady_def Let_def u split: if_splits\<close>)
qed

lemma ids_ok_take: "takeReady now True k = (Some t, k') \<Longrightarrow> ids_ok k \<Longrightarrow> ids_ok k'"
  by (erule takeReady_split) (auto simp: ids_ok_def)

section \<open>The invariant of the pool\<close>

definition flying :: "Fleet \<Rightarrow> string list" where
  \<comment> \<open>the instances the pool holds\<close>
  "flying s = map (\<lambda>x. tk_Instance (fst x)) (filter holds_instance (fl_pool s))"

definition pool_inv :: "nat \<Rightarrow> Fleet \<Rightarrow> bool" where
  "pool_inv limit s \<longleftrightarrow>
     distinct (flying s) \<and> set (kn_inFlight (fl_kernel s)) = set (flying s) \<and>
     length (filter in_slot (fl_pool s)) \<le> limit \<and> ids_ok (fl_kernel s)"

lemma dispatch_keeps:
  "dispatch e t k = (d, k') \<Longrightarrow> kn_inFlight k' = kn_inFlight k \<and> map tk_ID (kn_queue k') = map tk_ID (kn_queue k) \<and> kn_nextID k' = kn_nextID k"
  using dispatch_effect [of e t k 0] by (auto simp: record_dispatch_def Let_def)

lemma pool_inv_step: "pool_step e limit s s' \<Longrightarrow> pool_inv limit s \<Longrightarrow> pool_inv limit s'"
proof (induction rule: pool_step.induct)
  case (reserve now s t k)
  from reserve(1) obtain xs old ys where "tk_Instance t \<notin> set (kn_inFlight (fl_kernel s))"
    "kn_inFlight k = tk_Instance t # kn_inFlight (fl_kernel s)" by (rule takeReady_split)
  then show ?case
    using reserve(2) ids_ok_take [OF reserve(1)]
    by (auto simp: pool_inv_def flying_def holds_instance_def in_slot_def)
next
  case (work s xs t ys d k)
  have "ids_ok k" using dispatch_keeps [OF work(2)] work(3) by (intro ids_okI [of k "fl_kernel s"]) (simp_all add: pool_inv_def)
  moreover have "kn_inFlight k = kn_inFlight (fl_kernel s)" using dispatch_keeps [OF work(2)] by blast
  ultimately show ?case
    using work(1,3) by (simp add: pool_inv_def flying_def holds_instance_def in_slot_def)
next
  case (release s xs t ys)
  have "ids_ok (release_instance t (fl_kernel s))"
    using release(2) by (simp add: pool_inv_def release_instance_def interrupt_def ids_ok_def)
  moreover have "set (removeAll (tk_Instance t) (kn_inFlight (fl_kernel s))) = set (flying s) - {tk_Instance t}"
    using release(2) by (simp add: pool_inv_def)
  ultimately show ?case
    using release by (auto simp: pool_inv_def flying_def holds_instance_def in_slot_def release_instance_def interrupt_def)
next
  case (submit s name intent opts)
  have "kn_inFlight (snd (Submit e name intent opts (fl_kernel s))) = kn_inFlight (fl_kernel s)"
    using Submit_effect [of "fl_kernel s" e name intent opts] by blast
  then show ?case
    using submit ids_ok_submit [of "fl_kernel s" e name intent opts] by (simp add: pool_inv_def flying_def)
next
  case (cancel s i)
  have "kn_inFlight (snd (Cancel i (fl_kernel s))) = kn_inFlight (fl_kernel s)" by (simp add: Cancel_def)
  then show ?case using cancel ids_ok_cancel [of "fl_kernel s" i] by (simp add: pool_inv_def flying_def)
qed (auto simp: pool_inv_def flying_def holds_instance_def in_slot_def Register_def Remove_def ids_ok_def)

lemma pool_inv_reachable: "(pool_step e limit)\<^sup>*\<^sup>* s s' \<Longrightarrow> pool_inv limit s \<Longrightarrow> pool_inv limit s'"
  by (induction rule: rtranclp_induct) (auto intro: pool_inv_step)

definition working :: "Fleet \<Rightarrow> Task list" where
  "working s = map fst (filter (\<lambda>x. snd x = Working) (fl_pool s))"

lemma working_le: "length (working s) \<le> length (filter in_slot (fl_pool s))"
proof -
  have "filter (\<lambda>x. snd x = Working) xs = filter (\<lambda>x. snd x = Working) (filter in_slot xs)" for xs :: "(Task \<times> pool_phase) list"
    by (induction xs) (auto simp: in_slot_def)
  then show ?thesis unfolding working_def by (metis length_filter_le length_map)
qed

lemma working_distinct: "distinct (flying s) \<Longrightarrow> distinct (map tk_Instance (working s))"
proof -
  have "distinct (map f (filter holds_instance xs)) \<Longrightarrow> distinct (map f (filter (\<lambda>x. snd x = Working) xs))"
    for f :: "Task \<times> pool_phase \<Rightarrow> string" and xs
    by (induction xs) (auto simp: holds_instance_def split: if_splits)
  then show "distinct (flying s) \<Longrightarrow> distinct (map tk_Instance (working s))"
    by (simp add: flying_def working_def o_def)
qed

text \<open>
  C2.  In every interleaving of launchers, cycles, submissions, cancellations and changes of the
  process table, at most one cycle runs per instance and never more than the pool allows, the
  reserved instances are exactly those with a task in the pool, and the queued tasks have
  different identifiers.
\<close>

theorem one_cycle_per_instance:
  assumes "(pool_step e limit)\<^sup>*\<^sup>* (fleet_start (NewKernel heap)) s"
  shows "distinct (map tk_Instance (working s)) \<and> length (working s) \<le> limit \<and>
    set (kn_inFlight (fl_kernel s)) = set (flying s) \<and> distinct (map tk_ID (kn_queue (fl_kernel s)))"
proof -
  have "pool_inv limit (fleet_start (NewKernel heap))"
    using ids_ok_new [of heap] by (simp add: pool_inv_def fleet_start_def flying_def) (simp add: NewKernel_def)
  then have "pool_inv limit s" using pool_inv_reachable [OF assms] by blast
  then show ?thesis using working_le [of s] working_distinct [of s] by (simp add: pool_inv_def ids_ok_def)
qed

lemma one_cycle_per_instance_witness:
  "distinct (map tk_Instance (working (fleet_start (Register ''desk'' 0 (NewKernel (\<lambda>_. desk))))))"
proof -
  have "pool_step steady 2 (fleet_start (NewKernel (\<lambda>_. desk))) (fleet_start (Register ''desk'' 0 (NewKernel (\<lambda>_. desk))))"
    using pool_step.register [of steady 2 "fleet_start (NewKernel (\<lambda>_. desk))" "''desk''" 0] by (simp add: fleet_start_def)
  then show ?thesis using one_cycle_per_instance [OF r_into_rtranclp] by blast
qed

end
