(* ===== verification/Spawner.thy ===== *)
theory Spawner
  imports CycleGates
begin

text \<open>
  Subagents, \<^verbatim>\<open>spawner.go\<close>, and the options that wire an instance: \<^verbatim>\<open>options.go\<close> and the model
  bindings of \<^verbatim>\<open>seams.go\<close>.  A spawner is shared by the parent and its subagents; its mutex makes
  the check of the limit and the reservation of the slot one step.  The bound model is shared
  too, so what the subagent's cycle added to its history is the parent's.
\<close>

section \<open>Options\<close>

definition WithReasoner :: "reasoner_seam \<Rightarrow> Runtime \<Rightarrow> Runtime" where
  "WithReasoner reasoner r = r\<lparr>rt_Reasoner := reasoner\<rparr>"

definition WithPolicyJudge :: "judge_seam \<Rightarrow> Runtime \<Rightarrow> Runtime" where
  "WithPolicyJudge j r = r\<lparr>rt_PolicyJudge := j\<rparr>"

definition WithTenant :: "string \<Rightarrow> Runtime \<Rightarrow> Runtime" where
  \<comment> \<open>of the tenant, the cycle reads the organisation only\<close>
  "WithTenant orgID r = r\<lparr>rt_OrgID := orgID\<rparr>"

definition WithMemoryCapacity :: "int \<Rightarrow> Runtime \<Rightarrow> Runtime" where
  "WithMemoryCapacity n r = r\<lparr>rt_Memory := (rt_Memory r)\<lparr>mm_Capacity := n\<rparr>\<rparr>"

definition WithAdaptEvery :: "int \<Rightarrow> Runtime \<Rightarrow> Runtime" where
  "WithAdaptEvery every r = r\<lparr>rt_AdaptEvery := every\<rparr>"

definition WithBudget :: "f64 \<Rightarrow> f64 list \<Rightarrow> Runtime \<Rightarrow> Runtime" where
  "WithBudget budget thresholds r = r\<lparr>rt_Budget := Some (NewBudgetMonitor budget thresholds)\<rparr>"

definition attachAuxiliaryLM :: "summarizer \<Rightarrow> summarizer \<Rightarrow> Runtime \<Rightarrow> Runtime" where
  \<comment> \<open>the two functions are SummarizeHistory and DistillInsight run against the model\<close>
  "attachAuxiliaryLM summarizer distiller r =
     r\<lparr>rt_Memory := (rt_Memory r)\<lparr>mm_Summarizer := Some summarizer\<rparr>,
       rt_Adaptations := (rt_Adaptations r)\<lparr>bk_Distiller := Some distiller\<rparr>\<rparr>"

definition attachLM :: "LMState \<Rightarrow> bool \<Rightarrow> summarizer \<Rightarrow> summarizer \<Rightarrow> Runtime \<Rightarrow> Runtime" where
  \<comment> \<open>the model's state, and whether it exposes its history\<close>
  "attachLM lm history summarizer distiller r =
     attachAuxiliaryLM summarizer distiller
       (r\<lparr>rt_Reasoner := LMReasoner [], rt_PolicyJudge := LMJudge (Some DeterministicJudge), rt_LM := True,
          rt_CallHistory := history, rt_lm := lm\<rparr>)"

section \<open>Spawning\<close>

record Spawner =
  sp_Enabled :: bool
  sp_Limit :: int
  sp_spawned :: "Runtime list"

definition disabled_reason :: string where
  "disabled_reason = ''subagent spawning is disabled by the runtime's strategy''"

definition subagent_workflow :: "Persona \<Rightarrow> Workflow" where
  "subagent_workflow p =
     AddPersona \<lparr>wf_ref = 0, wf_Name = pe_Name p @ '' Subagent Workflow'', wf_Personas = [], wf_Steps = [],
        wf_Policies = [], wf_Contract = None, wf_Pattern = [], wf_Routes = [], wf_RetryBudget = None\<rparr> p"

definition subagent_process :: "Persona \<Rightarrow> Process" where
  "subagent_process p =
     AddWorkflow \<lparr>pr_ref = 0, pr_Name = pe_Name p @ '' Subagent'',
        pr_Description = (if pe_Instructions p = [] then ''A subagent scoped to the persona '' @ pe_Name p @ ''.''
                          else pe_Instructions p),
        pr_Workflows = []\<rparr> (subagent_workflow p)"

definition build_subagent :: "Runtime \<Rightarrow> Persona \<Rightarrow> Runtime" where
  "build_subagent parent p =
     AddProcess (subagent_process p)
       ((NewRuntime (rt_Name parent @ ''::'' @ pe_Name p))
          \<lparr>rt_Reasoner := rt_Reasoner parent, rt_PolicyJudge := rt_PolicyJudge parent, rt_LM := rt_LM parent,
           rt_CallHistory := rt_CallHistory parent, rt_lm := rt_lm parent, rt_Strategy := rt_Strategy parent,
           rt_Tools := rt_Tools parent\<rparr>)"

definition reserve_slot :: "Runtime \<Rightarrow> Persona \<Rightarrow> Spawner \<Rightarrow> (ear_error, Runtime) outcome \<times> Spawner" where
  \<comment> \<open>the part under the lock\<close>
  "reserve_slot parent p s =
     (if \<not> sp_Enabled s then (Inl (SpawnDeniedError disabled_reason), s)
      else if 0 < sp_Limit s \<and> sp_Limit s \<le> int (length (sp_spawned s)) then
        (Inl (SpawnDeniedError (''subagent limit of '' @ show_int (sp_Limit s) @ '' reached for runtime '' @ go_quote (rt_Name parent))), s)
      else (let sub = build_subagent parent p in (Inr sub, s\<lparr>sp_spawned := sp_spawned s @ [sub]\<rparr>)))"

definition Spawner_Spawn :: "World \<Rightarrow> Claim option \<Rightarrow> Runtime \<Rightarrow> Persona \<Rightarrow> Intent \<Rightarrow> Spawner \<Rightarrow>
    (ear_error, goval) outcome \<times> Spawner \<times> Runtime" where
  \<comment> \<open>the result, the spawner with the subagent as its cycle left it, the parent with the shared model\<close>
  "Spawner_Spawn w claim parent p intent s =
     (case reserve_slot parent p s of
        (Inl e, s1) \<Rightarrow> (Inl e, s1, parent)
      | (Inr sub, s1) \<Rightarrow>
          (let (res, sub') = Reason w claim intent None sub
           in (res, s1\<lparr>sp_spawned := butlast (sp_spawned s1) @ [sub']\<rparr>, parent\<lparr>rt_lm := rt_lm sub'\<rparr>)))"

definition Spawned :: "Spawner \<Rightarrow> Runtime list" where
  "Spawned s = sp_spawned s"

definition Runtime_Spawn :: "World \<Rightarrow> Claim option \<Rightarrow> Runtime \<Rightarrow> Persona \<Rightarrow> Intent \<Rightarrow> Spawner option \<Rightarrow>
    (ear_error, goval) outcome \<times> Spawner \<times> Runtime" where
  \<comment> \<open>the instance's spawner, made on first use\<close>
  "Runtime_Spawn w claim parent p intent sp =
     Spawner_Spawn w claim parent p intent
       (case sp of Some s \<Rightarrow> s | None \<Rightarrow> \<lparr>sp_Enabled = True, sp_Limit = 0, sp_spawned = []\<rparr>)"

definition WithSubagents :: "bool \<Rightarrow> int \<Rightarrow> Spawner" where
  "WithSubagents enabled limit = \<lparr>sp_Enabled = enabled, sp_Limit = limit, sp_spawned = []\<rparr>"

section \<open>The limit\<close>

fun reservations :: "(Runtime \<times> Persona) list \<Rightarrow> Spawner \<Rightarrow> (ear_error, Runtime) outcome list \<times> Spawner" where
  \<comment> \<open>reservations in the order in which the lock admitted them, whoever asked\<close>
  "reservations [] s = ([], s)"
| "reservations ((parent, p) # rest) s =
     (let (res, s1) = reserve_slot parent p s; (out, s2) = reservations rest s1 in (res # out, s2))"

text \<open>
  C35.  The limit on subagents holds for every order in which concurrent and nested spawns reach the
  lock: with spawning enabled exactly the first ones up to the limit get a subagent, each later
  one is denied, and with spawning disabled none does.
\<close>

theorem spawn_limit:
  "map (\<lambda>res. \<exists>sub. res = Inr sub) (fst (reservations reqs (WithSubagents enabled limit))) =
     (let n = (if \<not> enabled then 0 else if 0 < limit then min (nat limit) (length reqs) else length reqs)
      in replicate n True @ replicate (length reqs - n) False) \<and>
   (0 < limit \<or> \<not> enabled \<longrightarrow> int (length (Spawned (snd (reservations reqs (WithSubagents enabled limit))))) \<le> max 0 limit)"
proof -
  have steps: "map (\<lambda>res. \<exists>sub. res = Inr sub) (fst (reservations rs s)) =
      (let n = (if \<not> sp_Enabled s then 0 else if 0 < sp_Limit s then min (nat (sp_Limit s) - length (sp_spawned s)) (length rs) else length rs)
       in replicate n True @ replicate (length rs - n) False) \<and>
      (0 < sp_Limit s \<longrightarrow> int (length (sp_spawned s)) \<le> sp_Limit s \<longrightarrow> int (length (sp_spawned (snd (reservations rs s)))) \<le> sp_Limit s) \<and>
      (\<not> sp_Enabled s \<longrightarrow> sp_spawned (snd (reservations rs s)) = sp_spawned s)" for rs s
  proof (induction rs arbitrary: s)
    case (Cons r rs)
    obtain parent p where r: "r = (parent, p)" by (cases r)
    consider "\<not> sp_Enabled s" | "sp_Enabled s" "0 < sp_Limit s" "sp_Limit s \<le> int (length (sp_spawned s))"
      | "sp_Enabled s" "\<not> (0 < sp_Limit s \<and> sp_Limit s \<le> int (length (sp_spawned s)))" by blast
    then show ?case
    proof cases
      case 1
      then show ?thesis using Cons.IH [of s] by (simp add: r reserve_slot_def Let_def case_prod_beta)
    next
      case 2
      then show ?thesis using Cons.IH [of s] by (simp add: r reserve_slot_def Let_def case_prod_beta)
    next
      case 3
      let ?s = "s\<lparr>sp_spawned := sp_spawned s @ [build_subagent parent p]\<rparr>"
      have e: "reserve_slot parent p s = (Inr (build_subagent parent p), ?s)"
        using 3 by (auto simp: reserve_slot_def Let_def)
      have n: "0 < sp_Limit s \<Longrightarrow> nat (sp_Limit s) - length (sp_spawned s) = Suc (nat (sp_Limit s) - length (sp_spawned ?s))"
        using 3 by simp
      show ?thesis using Cons.IH [of ?s] 3 n by (auto simp: r e Let_def case_prod_beta)
    qed
  qed simp
  show ?thesis
    using steps [of reqs "WithSubagents enabled limit"]
    by (auto simp: WithSubagents_def Spawned_def Let_def)
qed

section \<open>What a subagent does not inherit\<close>

lemma build_subagent_simps [simp]:
  "rt_OrgID (build_subagent parent p) = ''default''" "rt_Policies (build_subagent parent p) = []"
  "rt_ToolPolicies (build_subagent parent p) = []" "rt_Memory (build_subagent parent p) = NewMemory"
  by (simp_all add: build_subagent_def AddProcess_def NewRuntime_def)

text \<open>
  A subagent does not belong to its parent's organisation and is held to none of its parent's
  policies: it is built in the default tenant, so a claim that may act as the parent's
  organisation and not as the default one is refused for every spawn, and both gates of a
  subagent have nothing to judge, whatever the parent's policies say of the intent.
\<close>

theorem subagent_leaves_the_boundary:
  assumes "reserve_slot parent p s = (Inr sub, s')" "\<not> MayActAs c ''default''"
  shows "fst (Spawner_Spawn w (Some c) parent p intent s) = Inl (TenantBoundaryError (cl_Subject c) ''default'' (cl_OrgIDs c)) \<and>
    fst (governStage_Run w scope (rt_Policies sub) intent approval sub) = Inr () \<and>
    workflowPolicies (compose (rt_Processes sub)) = []"
proof -
  have sub: "sub = build_subagent parent p" using assms(1) by (auto simp: reserve_slot_def Let_def split: if_splits)
  have "Reason w (Some c) intent None sub =
      (Inl (refusal c sub), close_cycle w (wd_clock w (rt_ReasoningLog sub)) (modelCallsSoFar sub) (refused w c intent sub))"
    using assms(2) by (intro refused_cycle) (simp add: sub)
  moreover have "workflowPolicies (compose (rt_Processes sub)) = []"
    by (simp add: sub build_subagent_def AddProcess_def NewRuntime_def subagent_process_def subagent_workflow_def
        AddWorkflow_def AddPersona_def compose_def workflowPolicies_def)
  ultimately show ?thesis
    using assms(1) by (simp add: Spawner_Spawn_def sub refusal_def governStage_outcome gate_verdict_pass outcomes_def)
qed

definition analyst :: Persona where
  "analyst = \<lparr>pe_ref = 1, pe_Name = ''Analyst'', pe_Instructions = [], pe_Skills = []\<rparr>"

definition acme_desk :: Runtime where
  "acme_desk = WithTenant ''acme'' guarded_runtime"

lemma subagent_leaves_the_boundary_witness:
  "MayActAs \<lparr>cl_Subject = ''ann'', cl_OrgIDs = [''acme'']\<rparr> (rt_OrgID acme_desk) \<and>
   fst (Spawner_Spawn (quiet_world deny (ScriptedLM [] [])) (Some \<lparr>cl_Subject = ''ann'', cl_OrgIDs = [''acme'']\<rparr>) acme_desk
     analyst (NewIntent ''pay'' None) (WithSubagents True 3)) = Inl (TenantBoundaryError ''ann'' ''default'' [''acme''])"
proof -
  have "reserve_slot acme_desk analyst (WithSubagents True 3) =
      (Inr (build_subagent acme_desk analyst), (WithSubagents True 3)\<lparr>sp_spawned := [build_subagent acme_desk analyst]\<rparr>)"
    by (simp add: reserve_slot_def WithSubagents_def Let_def)
  from subagent_leaves_the_boundary [OF this, of "\<lparr>cl_Subject = ''ann'', cl_OrgIDs = [''acme'']\<rparr>"]
  show ?thesis by (simp add: MayActAs_def acme_desk_def WithTenant_def guarded_runtime_def)
qed

lemma spawn_limit_witness:
  "map (\<lambda>res. \<exists>sub. res = Inr sub)
     (fst (reservations [(acme_desk, analyst), (acme_desk, analyst), (acme_desk, analyst)] (WithSubagents True 2))) = [True, True, False]"
  using spawn_limit [of "[(acme_desk, analyst), (acme_desk, analyst), (acme_desk, analyst)]" True 2]
  by (simp add: numeral_2_eq_2)

end
