(* ===== verification/Authority.thy ===== *)
theory Authority
  imports Governance Hash
begin

text \<open>
  Capability envelopes, \<^verbatim>\<open>authority.go\<close>: the records that say which agents may act, their
  signatures, the registry with its transitions, and the gate that a policy carries.  The
  operations of a catalogue backend are parameters over the backend's own state.  The audit log
  the registry writes to is threaded, since it is the log of an instance.
\<close>

section \<open>What an intent names\<close>

definition actorKeys :: "string list" where
  "actorKeys = [''agent'', ''actor'', ''agent_id'', ''acting_agent'']"

definition scopeKeys :: "string list" where
  "scopeKeys = [''scope'', ''capability'', ''required_scope'']"

definition tierKeys :: "string list" where
  "tierKeys = [''autonomy_tier'', ''tier'', ''required_tier'']"

definition given :: "goval \<Rightarrow> bool" where
  "given v \<longleftrightarrow> v \<noteq> VNil \<and> v \<noteq> VStr []"

fun firstValue :: "ctx \<Rightarrow> string list \<Rightarrow> goval" where
  "firstValue c [] = VNil"
| "firstValue c (k # ks) =
     (case map_of c k of Some v \<Rightarrow> if given v then v else firstValue c ks | None \<Rightarrow> firstValue c ks)"

fun firstString :: "ctx \<Rightarrow> string list \<Rightarrow> string" where
  "firstString c [] = []"
| "firstString c (k # ks) =
     (case map_of c k of Some v \<Rightarrow> if given v then Sprint v else firstString c ks | None \<Rightarrow> firstString c ks)"

section \<open>The envelope\<close>

record CapabilityEnvelope =
  en_Agent :: string
  en_Certified :: bool
  en_Scopes :: "string list"
  en_MaxAutonomyTier :: int
  en_Status :: string
  en_TrustScore :: f64
  en_IssuedAt :: string
  en_Signature :: string

text \<open>What the platform decides: a float too large for an int, and the verb %q on a value that is no string.\<close>

record Platform =
  pf_oor :: "f64 \<Rightarrow> int"
  pf_quote :: "goval \<Rightarrow> string"

definition IsActive :: "CapabilityEnvelope \<Rightarrow> bool" where
  "IsActive e \<longleftrightarrow> en_Certified e \<and> Normalize (en_Status e) = ''active''"

definition HoldsScope :: "CapabilityEnvelope \<Rightarrow> goval \<Rightarrow> bool" where
  "HoldsScope e scope =
     (if \<not> given scope then True
      else list_ex (\<lambda>held. Normalize held = Normalize (Sprint scope)) (en_Scopes e))"

fun asInt :: "Platform \<Rightarrow> goval \<Rightarrow> int option" where
  "asInt pf (VInt n) = Some n"
| "asInt pf (VInt64 n) = Some n"
| "asInt pf (VFloat f) = Some (f_to_int64 (pf_oor pf) f)"
| "asInt pf (VStr s) = Atoi (TrimSpace s)"
| "asInt pf _ = None"

definition WithinTier :: "Platform \<Rightarrow> CapabilityEnvelope \<Rightarrow> goval \<Rightarrow> bool" where
  "WithinTier pf e tier =
     (if \<not> given tier then True
      else (case asInt pf tier of None \<Rightarrow> False | Some n \<Rightarrow> n \<le> en_MaxAutonomyTier e))"

definition signaturePayload :: "CapabilityEnvelope \<Rightarrow> string" where
  "signaturePayload e =
     (case json (VMap
        [(''agent'', VStr (en_Agent e)), (''certified'', VBool (en_Certified e)),
         (''scopes'', VStrs (sort (map Normalize (en_Scopes e)))),
         (''max_autonomy_tier'', VInt (en_MaxAutonomyTier e)),
         (''status'', VStr (Normalize (en_Status e))), (''issued_at'', VStr (en_IssuedAt e))]) of
        Some t \<Rightarrow> t
      | None \<Rightarrow> [])"

definition ComputeSignature :: "string \<Rightarrow> CapabilityEnvelope \<Rightarrow> string" where
  "ComputeSignature secret e =
     (if secret \<noteq> [] then hmac_sha256_hex secret (signaturePayload e) else sha256_hex (signaturePayload e))"

definition Sign :: "string \<Rightarrow> CapabilityEnvelope \<Rightarrow> CapabilityEnvelope" where
  "Sign secret e = e\<lparr>en_Signature := ComputeSignature secret e\<rparr>"

definition SignatureValid :: "string \<Rightarrow> CapabilityEnvelope \<Rightarrow> bool" where
  "SignatureValid secret e = (if en_Signature e = [] then False else en_Signature e = ComputeSignature secret e)"

definition Envelope_Floor :: "string \<Rightarrow> CapabilityEnvelope \<Rightarrow> bool \<times> string" where
  "Envelope_Floor secret e =
     (let agent = ''agent '' @ go_quote (en_Agent e) in
      if \<not> en_Certified e then (False, agent @ '' holds no certified envelope'')
      else if Normalize (en_Status e) = ''revoked'' then (False, agent @ '' envelope is revoked'')
      else if Normalize (en_Status e) = ''suspended'' then (False, agent @ '' envelope is suspended'')
      else if en_Signature e \<noteq> [] \<and> \<not> SignatureValid secret e
        then (False, agent @ '' envelope signature does not verify -- record tampered'')
      else (True, agent @ '' holds a live envelope (standing: '' @ Normalize (en_Status e) @ '')''))"

definition quote_value :: "Platform \<Rightarrow> goval \<Rightarrow> string" where
  "quote_value pf v = (case v of VStr s \<Rightarrow> go_quote s | _ \<Rightarrow> pf_quote pf v)"

definition Envelope_Authorized :: "Platform \<Rightarrow> goval \<Rightarrow> goval \<Rightarrow> string \<Rightarrow> CapabilityEnvelope \<Rightarrow> bool \<times> string" where
  "Envelope_Authorized pf scope tier secret e =
     (let (ok, reason) = Envelope_Floor secret e; agent = ''agent '' @ go_quote (en_Agent e) in
      if \<not> ok then (False, reason)
      else if \<not> HoldsScope e scope then (False, agent @ '' envelope does not hold scope '' @ quote_value pf scope)
      else if \<not> WithinTier pf e tier then
        (False, agent @ '' envelope tier '' @ show_int (en_MaxAutonomyTier e) @ '' is below the required tier '' @ Sprint tier)
      else if Normalize (en_Status e) = ''probation'' then
        (True, agent @ '' is on probation -- authorized but flagged for review'')
      else (True, agent @ '' holds an active, in-scope envelope''))"

section \<open>The registry\<close>

record 'b backend =
  be_List :: "'b \<Rightarrow> (string, string list) outcome"
  be_Exists :: "string \<Rightarrow> 'b \<Rightarrow> (string, bool) outcome"
  be_Read :: "string \<Rightarrow> 'b \<Rightarrow> (string, string) outcome"
  be_Write :: "string \<Rightarrow> string \<Rightarrow> 'b \<Rightarrow> (string, unit) outcome \<times> 'b"
  be_Delete :: "string \<Rightarrow> 'b \<Rightarrow> (string, unit) outcome \<times> 'b"

record 'b EnvelopeRegistry =
  rg_Backend :: "'b backend option"
  rg_store :: 'b                    \<comment> \<open>the state of the backend\<close>
  rg_StateName :: string
  rg_SecretEnvVar :: string
  rg_HasLog :: bool
  rg_envelopes :: "(string \<times> CapabilityEnvelope) list"

definition NewEnvelopeRegistry :: "'b \<Rightarrow> 'b EnvelopeRegistry" where
  "NewEnvelopeRegistry b =
     \<lparr>rg_Backend = None, rg_store = b, rg_StateName = ''authority_envelopes'', rg_SecretEnvVar = [],
      rg_HasLog = False, rg_envelopes = []\<rparr>"

definition Secret :: "(string \<Rightarrow> string) \<Rightarrow> 'b EnvelopeRegistry \<Rightarrow> string" where
  \<comment> \<open>the first argument is os.Getenv\<close>
  "Secret getenv g = (if rg_SecretEnvVar g = [] then [] else getenv (rg_SecretEnvVar g))"

definition ensure_name :: "'b EnvelopeRegistry \<Rightarrow> 'b EnvelopeRegistry" where
  "ensure_name g = (if rg_StateName g = [] then g\<lparr>rg_StateName := ''authority_envelopes''\<rparr> else g)"

definition Registry_Get :: "'b EnvelopeRegistry \<Rightarrow> string \<Rightarrow> CapabilityEnvelope option" where
  "Registry_Get g agent = map_of (rg_envelopes g) (Normalize agent)"

definition no_envelope :: "string \<Rightarrow> string" where
  "no_envelope agent = ''agent '' @ go_quote agent @ '' holds no envelope -- uncertified actors may not act''"

definition Registry_Floor :: "(string \<Rightarrow> string) \<Rightarrow> 'b EnvelopeRegistry \<Rightarrow> string \<Rightarrow> bool \<times> string" where
  "Registry_Floor getenv g agent =
     (case Registry_Get g agent of
        None \<Rightarrow> (False, no_envelope agent)
      | Some e \<Rightarrow> Envelope_Floor (Secret getenv g) e)"

definition Registry_Authorized ::
    "(string \<Rightarrow> string) \<Rightarrow> Platform \<Rightarrow> 'b EnvelopeRegistry \<Rightarrow> string \<Rightarrow> goval \<Rightarrow> goval \<Rightarrow> bool \<times> string" where
  "Registry_Authorized getenv pf g agent scope tier =
     (case Registry_Get g agent of
        None \<Rightarrow> (False, no_envelope agent)
      | Some e \<Rightarrow> Envelope_Authorized pf scope tier (Secret getenv g) e)"

section \<open>Persistence\<close>

datatype jtree = JAtom string | JArray "jtree list" | JObject "(string \<times> jtree) list"

definition indent_by :: "nat \<Rightarrow> string" where
  "indent_by n = replicate (2 * n) CHR '' ''"

fun render_tree :: "nat \<Rightarrow> jtree \<Rightarrow> string" where
  \<comment> \<open>json.MarshalIndent with two blanks: the depth of the enclosing value\<close>
  "render_tree n (JAtom s) = s"
| "render_tree n (JArray vs) =
     (if vs = [] then ''[]''
      else ''['' @ [newline] @ join_with ('','' @ [newline]) (map (\<lambda>v. indent_by (n + 1) @ render_tree (n + 1) v) vs) @
           [newline] @ indent_by n @ '']'')"
| "render_tree n (JObject kvs) =
     (if kvs = [] then [CHR 0x7B, CHR 0x7D]
      else CHR 0x7B # newline #
           join_with ('','' @ [newline])
             (map (\<lambda>(k, v). indent_by (n + 1) @ json_string k @ '': '' @ render_tree (n + 1) v) kvs) @
           [newline] @ indent_by n @ [CHR 0x7D])"

definition envelope_tree :: "CapabilityEnvelope \<Rightarrow> jtree option" where
  \<comment> \<open>the fields in the order of the struct, under their JSON names\<close>
  "envelope_tree e =
     map_option (\<lambda>trust. JObject
        [(''agent'', JAtom (json_string (en_Agent e))),
         (''certified'', JAtom (if en_Certified e then ''true'' else ''false'')),
         (''scopes'', JArray (map (\<lambda>s. JAtom (json_string s)) (en_Scopes e))),
         (''max_autonomy_tier'', JAtom (show_int (en_MaxAutonomyTier e))),
         (''status'', JAtom (json_string (en_Status e))), (''trust_score'', JAtom trust),
         (''issued_at'', JAtom (json_string (en_IssuedAt e))), (''signature'', JAtom (json_string (en_Signature e)))])
       (json_float (en_TrustScore e))"

definition registry_blob :: "'b EnvelopeRegistry \<Rightarrow> string option" where
  "registry_blob g =
     map_option (\<lambda>es. render_tree 0 (JObject [(''envelopes'', JArray es)]))
       (collect_opt (map (\<lambda>k. case map_of (rg_envelopes g) k of Some e \<Rightarrow> envelope_tree e | None \<Rightarrow> Some (JAtom ''null''))
          (sorted_keys (rg_envelopes g))))"

definition Persist :: "'b EnvelopeRegistry \<Rightarrow> string option \<times> 'b EnvelopeRegistry" where
  \<comment> \<open>the text of the error, if there was one\<close>
  "Persist g =
     (case rg_Backend g of
        None \<Rightarrow> (None, g)
      | Some be \<Rightarrow>
          (case registry_blob g of
             None \<Rightarrow> (Some ''json: unsupported value'', g)
           | Some blob \<Rightarrow>
               (let (res, b) = be_Write be (rg_StateName g) (blob @ [newline]) (rg_store g)
                in (case res of Inl err \<Rightarrow> Some err | Inr _ \<Rightarrow> None, g\<lparr>rg_store := b\<rparr>))))"

section \<open>Transitions\<close>

definition certification_record :: "string \<Rightarrow> string \<Rightarrow> string \<Rightarrow> string \<Rightarrow> Record" where
  "certification_record agent status output rationale =
     (record_of ''certification'' [(''agent'', VStr agent), (''status'', VStr status)] output)
       \<lparr>rc_Rationale := rationale\<rparr>"

type_synonym 'b registry_state = "'b EnvelopeRegistry \<times> ReasoningLog"

definition transition :: "gotime \<Rightarrow> string \<Rightarrow> string \<Rightarrow> string \<Rightarrow> 'b registry_state \<Rightarrow> 'b registry_state" where
  "transition now agent status reason gl =
     (let (err, g) = Persist (fst gl);
          l1 = (case err of
                  Some text \<Rightarrow> if rg_HasLog g then Log_Record now (certification_record agent status (''not persisted: '' @ text) []) (snd gl)
                               else snd gl
                | None \<Rightarrow> snd gl);
          l2 = (if rg_HasLog g then Log_Record now (certification_record agent status (agent @ '' -> '' @ status) reason) l1
                else l1)
      in (g, l2))"

definition Certify :: "(string \<Rightarrow> string) \<Rightarrow> gotime \<Rightarrow> string \<Rightarrow> string list \<Rightarrow> int \<Rightarrow> f64 \<Rightarrow> string \<Rightarrow>
    'b registry_state \<Rightarrow> CapabilityEnvelope \<times> 'b registry_state" where
  "Certify getenv now agent scopes maxTier trust issuedAt gl =
     (let e = Sign (Secret getenv (fst gl))
                \<lparr>en_Agent = agent, en_Certified = True, en_Scopes = scopes, en_MaxAutonomyTier = maxTier,
                 en_Status = ''active'', en_TrustScore = trust, en_IssuedAt = issuedAt, en_Signature = []\<rparr>;
          g = ensure_name (fst gl)
      in (e, transition now agent ''active'' ''certified''
               (g\<lparr>rg_envelopes := map_put (Normalize agent) e (rg_envelopes g)\<rparr>, snd gl)))"

definition mutate :: "(string \<Rightarrow> string) \<Rightarrow> gotime \<Rightarrow> string \<Rightarrow>
    (CapabilityEnvelope \<Rightarrow> CapabilityEnvelope \<times> string \<times> string) \<Rightarrow> 'b registry_state \<Rightarrow> string option \<times> 'b registry_state" where
  \<comment> \<open>the change gives the envelope, the status and the reason; the result is the text of the error\<close>
  "mutate getenv now agent change gl =
     (let g = ensure_name (fst gl) in
      case Registry_Get g agent of
        None \<Rightarrow> (Some (''no envelope for agent '' @ go_quote agent @ '' -- certify it first''), (g, snd gl))
      | Some e \<Rightarrow>
          (let (e', status, reason) = change e;
               g' = g\<lparr>rg_envelopes := map_put (Normalize agent) (Sign (Secret getenv g) e') (rg_envelopes g)\<rparr>
           in (None, transition now agent status reason (g', snd gl))))"

definition SetTrust :: "(string \<Rightarrow> string) \<Rightarrow> gotime \<Rightarrow> string \<Rightarrow> f64 \<Rightarrow> 'b registry_state \<Rightarrow> string option \<times> 'b registry_state" where
  "SetTrust getenv now agent trust gl =
     mutate getenv now agent
       (\<lambda>e. (e\<lparr>en_TrustScore := trust\<rparr>, en_Status e, ''trust set to '' @ Sprint_float trust)) gl"

definition setStatus :: "(string \<Rightarrow> string) \<Rightarrow> gotime \<Rightarrow> string \<Rightarrow> string \<Rightarrow> string \<Rightarrow> 'b registry_state \<Rightarrow>
    string option \<times> 'b registry_state" where
  "setStatus getenv now agent status reason gl =
     mutate getenv now agent (\<lambda>e. (e\<lparr>en_Status := status\<rparr>, status, reason)) gl"

definition orDefault :: "string \<Rightarrow> string \<Rightarrow> string" where
  "orDefault s fallback = (if TrimSpace s = [] then fallback else s)"

datatype standing = Probation | Suspend | Revoke | Reinstate

fun standing_status :: "standing \<Rightarrow> string" where
  "standing_status Probation = ''probation''"
| "standing_status Suspend = ''suspended''"
| "standing_status Revoke = ''revoked''"
| "standing_status Reinstate = ''active''"

fun standing_reason :: "standing \<Rightarrow> string" where
  "standing_reason Probation = ''placed on probation''"
| "standing_reason Suspend = ''suspended''"
| "standing_reason Revoke = ''revoked''"
| "standing_reason Reinstate = ''reinstated''"

definition move_standing :: "(string \<Rightarrow> string) \<Rightarrow> gotime \<Rightarrow> standing \<Rightarrow> string \<Rightarrow> string \<Rightarrow> 'b registry_state \<Rightarrow>
    string option \<times> 'b registry_state" where
  \<comment> \<open>the methods Probation, Suspend, Revoke and Reinstate\<close>
  "move_standing getenv now s agent reason gl =
     setStatus getenv now agent (standing_status s) (orDefault reason (standing_reason s)) gl"

section \<open>Enforcement\<close>

definition enriched :: "CapabilityEnvelope \<Rightarrow> string \<Rightarrow> goval \<Rightarrow> goval \<Rightarrow> bool \<Rightarrow> ctx \<Rightarrow> ctx" where
  "enriched e agent scope tier detOK c =
     fold (\<lambda>(k, v) m. map_put k v m)
       [(''acting_agent'', VStr agent), (''envelope_scopes'', VStr (join_with '', '' (en_Scopes e))),
        (''envelope_max_autonomy_tier'', VInt (en_MaxAutonomyTier e)), (''envelope_standing'', VStr (en_Status e)),
        (''envelope_trust_score'', VFloat (en_TrustScore e)), (''requested_scope'', scope), (''requested_tier'', tier),
        (''envelope_authorizes'', VBool detOK)] c"

definition envelopeGate :: "(string \<Rightarrow> string) \<Rightarrow> Platform \<Rightarrow> 'b EnvelopeRegistry \<Rightarrow> judge \<Rightarrow> judge" where
  \<comment> \<open>the gate reads the registry as it is when a policy is judged\<close>
  "envelopeGate getenv pf g base policy c =
     (let agent = firstString c actorKeys in
      if agent = [] then
        returnS (True, ''no acting agent in context -- envelope policy not applicable (human-initiated)'')
      else if \<not> fst (Registry_Floor getenv g agent) then returnS (False, snd (Registry_Floor getenv g agent))
      else (case Registry_Get g agent of
              None \<Rightarrow> failS (Panic ''runtime error: invalid memory address or nil pointer dereference'')
            | Some e \<Rightarrow>
                (let scope = firstValue c scopeKeys; tier = firstValue c tierKeys;
                     (detOK, detReason) = Envelope_Authorized pf scope tier (Secret getenv g) e
                 in bindS (base policy (enriched e agent scope tier detOK c))
                      (\<lambda>(complies, rationale). returnS (complies, if rationale = [] then detReason else rationale)))))"

definition envelope_statement :: string where
  "envelope_statement =
     ''The acting agent's capability envelope must authorize this action. Given the '' @
     ''scopes the envelope grants (envelope_scopes) and its maximum autonomy tier '' @
     ''(envelope_max_autonomy_tier), judge whether it covers the requested scope '' @
     ''(requested_scope) and tier (requested_tier). The envelope has already cleared the '' @
     ''certification and revocation floor; decide only whether the granted authority reaches '' @
     ''this particular action.''"

definition envelope_policy :: "string \<Rightarrow> nat \<Rightarrow> Policy" where
  "envelope_policy name gate =
     \<lparr>po_ref = 0, po_Name = (if name = [] then ''Capability Envelope'' else name), po_Statement = envelope_statement,
      po_FallbackExpression = ''envelope_authorizes'', po_ApprovalRequired = False, po_Approvers = [],
      po_Escalation = [], po_EscalationDays = None, po_Gate = Some gate\<rparr>"

definition EnforceEnvelopes :: "Runtime \<Rightarrow> 'b EnvelopeRegistry \<Rightarrow> string \<Rightarrow> nat \<Rightarrow> Policy \<times> Runtime \<times> 'b EnvelopeRegistry" where
  \<comment> \<open>the gate is bound to the address given; the registry writes to the log of the instance\<close>
  "EnforceEnvelopes r g name gate =
     (envelope_policy name gate, Runtime_AddPolicy (envelope_policy name gate) r, g\<lparr>rg_HasLog := True\<rparr>)"

end
