(* ===== verification/AuthorityProps.thy ===== *)
theory AuthorityProps
  imports Authority
begin

text \<open>
  What envelopes guarantee: a withdrawn credential never passes and is never shown to a judge, the
  registry follows the abstract history of standings, and every record it writes is signed; and
  what they do not: a record with its signature removed, or re-signed by a later transition, passes.
\<close>

section \<open>Standing\<close>

lemma Normalize_standings [simp]:
  "Normalize ''active'' = ''active''" "Normalize ''revoked'' = ''revoked''"
  "Normalize ''suspended'' = ''suspended''" "Normalize ''probation'' = ''probation''"
  by code_simp+

lemma ComputeSignature_nonempty [simp]: "ComputeSignature secret e \<noteq> []"
  by (simp add: ComputeSignature_def)

lemma signaturePayload_unsigned [simp]: "signaturePayload (e\<lparr>en_Signature := s\<rparr>) = signaturePayload e"
  by (simp add: signaturePayload_def)

lemma ComputeSignature_unsigned [simp]: "ComputeSignature secret (e\<lparr>en_Signature := s\<rparr>) = ComputeSignature secret e"
  by (simp add: ComputeSignature_def)

lemma SignatureValid_Sign [simp]: "SignatureValid secret (Sign secret e)"
  by (simp add: SignatureValid_def Sign_def)

lemma Sign_simps [simp]:
  "en_Agent (Sign s e) = en_Agent e" "en_Certified (Sign s e) = en_Certified e" "en_Status (Sign s e) = en_Status e"
  "en_Scopes (Sign s e) = en_Scopes e" "en_MaxAutonomyTier (Sign s e) = en_MaxAutonomyTier e"
  by (simp_all add: Sign_def)

definition live :: "CapabilityEnvelope \<Rightarrow> bool" where
  "live e \<longleftrightarrow> en_Certified e \<and> Normalize (en_Status e) \<noteq> ''revoked'' \<and> Normalize (en_Status e) \<noteq> ''suspended''"

lemma Floor_iff:
  "fst (Envelope_Floor secret e) \<longleftrightarrow> live e \<and> (en_Signature e = [] \<or> SignatureValid secret e)"
  by (auto simp: Envelope_Floor_def live_def Let_def)

lemma Persist_keeps [simp]:
  "rg_envelopes (snd (Persist g)) = rg_envelopes g" "rg_SecretEnvVar (snd (Persist g)) = rg_SecretEnvVar g"
  by (auto simp: Persist_def case_prod_beta split: option.split)

lemma transition_keeps [simp]:
  "rg_envelopes (fst (transition now agent status reason gl)) = rg_envelopes (fst gl)"
  "rg_SecretEnvVar (fst (transition now agent status reason gl)) = rg_SecretEnvVar (fst gl)"
  by (simp_all add: transition_def Let_def case_prod_beta)

lemma ensure_name_keeps [simp]:
  "rg_envelopes (ensure_name g) = rg_envelopes g" "rg_SecretEnvVar (ensure_name g) = rg_SecretEnvVar g"
  "Secret getenv (ensure_name g) = Secret getenv g" "Registry_Get (ensure_name g) = Registry_Get g"
  by (auto simp: ensure_name_def Secret_def Registry_Get_def)

lemma Secret_cong: "rg_SecretEnvVar g = rg_SecretEnvVar h \<Longrightarrow> Secret getenv g = Secret getenv h"
  by (simp add: Secret_def)

section \<open>One transition\<close>

lemma mutate_effect:
  "rg_SecretEnvVar (fst (snd (mutate getenv now agent change gl))) = rg_SecretEnvVar (fst gl) \<and>
   rg_envelopes (fst (snd (mutate getenv now agent change gl))) =
     (case Registry_Get (fst gl) agent of
        None \<Rightarrow> rg_envelopes (fst gl)
      | Some e \<Rightarrow> map_put (Normalize agent) (Sign (Secret getenv (fst gl)) (fst (change e))) (rg_envelopes (fst gl)))"
  by (simp add: mutate_def Let_def case_prod_beta split: option.split)

lemma Certify_effect:
  "rg_SecretEnvVar (fst (snd (Certify getenv now agent scopes maxTier trust issuedAt gl))) = rg_SecretEnvVar (fst gl) \<and>
   rg_envelopes (fst (snd (Certify getenv now agent scopes maxTier trust issuedAt gl))) =
     map_put (Normalize agent) (fst (Certify getenv now agent scopes maxTier trust issuedAt gl)) (rg_envelopes (fst gl)) \<and>
   en_Status (fst (Certify getenv now agent scopes maxTier trust issuedAt gl)) = ''active'' \<and>
   en_Certified (fst (Certify getenv now agent scopes maxTier trust issuedAt gl)) \<and>
   SignatureValid (Secret getenv (fst gl)) (fst (Certify getenv now agent scopes maxTier trust issuedAt gl))"
  by (simp add: Certify_def Let_def)

section \<open>The gate\<close>

lemma gate_below_floor:
  "\<not> fst (Registry_Floor getenv g (firstString c actorKeys)) \<Longrightarrow> firstString c actorKeys \<noteq> [] \<Longrightarrow>
   envelopeGate getenv pf g base policy c s = (Inr (False, snd (Registry_Floor getenv g (firstString c actorKeys))), s)"
  by (simp add: envelopeGate_def Let_def)

text \<open>
  C11.  Revocation is immediate and not the model's to waive: once an agent's envelope is revoked,
  the very next judgment of an intent that names the agent, in whatever spelling, fails whatever
  the judge behind the gate would say, and the judge is not asked.
\<close>

theorem revocation_is_immediate:
  assumes "(err, gl') = move_standing getenv now Revoke agent reason gl" "Registry_Get (fst gl) agent \<noteq> None"
    and "Normalize (firstString c actorKeys) = Normalize agent" "firstString c actorKeys \<noteq> []"
  shows "err = None \<and> (\<exists>why. envelopeGate getenv pf (fst gl') base policy c s = (Inr (False, why), s))"
proof -
  obtain e where e: "Registry_Get (fst gl) agent = Some e" using assms(2) by blast
  have m: "(err, gl') = mutate getenv now agent
      (\<lambda>e. (e\<lparr>en_Status := ''revoked''\<rparr>, ''revoked'', orDefault reason ''revoked'')) gl"
    using assms(1) by (simp add: move_standing_def setStatus_def)
  have err: "err = None" using m e by (simp add: mutate_def Let_def)
  let ?e = "Sign (Secret getenv (fst gl)) (e\<lparr>en_Status := ''revoked''\<rparr>)"
  have "rg_envelopes (fst gl') = map_put (Normalize agent) ?e (rg_envelopes (fst gl))"
    using mutate_effect [of getenv now agent "\<lambda>e. (e\<lparr>en_Status := ''revoked''\<rparr>, ''revoked'', orDefault reason ''revoked'')" gl] e
    by (simp add: m [symmetric])
  then have "Registry_Get (fst gl') (firstString c actorKeys) = Some ?e"
    using assms(3) by (simp add: Registry_Get_def)
  then have "\<not> fst (Registry_Floor getenv (fst gl') (firstString c actorKeys))"
    by (simp add: Registry_Floor_def Floor_iff live_def)
  then show ?thesis using err gate_below_floor assms(4) by blast
qed

section \<open>Histories\<close>

datatype registry_op =
    OpCertify string "string list" int f64 string
  | OpStanding standing string string
  | OpTrust string f64

fun apply_op :: "(string \<Rightarrow> string) \<Rightarrow> gotime \<Rightarrow> registry_op \<Rightarrow> 'b registry_state \<Rightarrow> 'b registry_state" where
  "apply_op getenv now (OpCertify agent scopes tier trust issued) gl = snd (Certify getenv now agent scopes tier trust issued gl)"
| "apply_op getenv now (OpStanding st agent reason) gl = snd (move_standing getenv now st agent reason gl)"
| "apply_op getenv now (OpTrust agent trust) gl = snd (SetTrust getenv now agent trust gl)"

definition apply_ops :: "(string \<Rightarrow> string) \<Rightarrow> gotime \<Rightarrow> registry_op list \<Rightarrow> 'b registry_state \<Rightarrow> 'b registry_state" where
  "apply_ops getenv now ops gl = fold (apply_op getenv now) ops gl"

fun spec_op :: "registry_op \<Rightarrow> (string \<rightharpoonup> standing) \<Rightarrow> (string \<rightharpoonup> standing)" where
  \<comment> \<open>the abstract registry: the standing of every agent certified once\<close>
  "spec_op (OpCertify agent scopes tier trust issued) m = m(Normalize agent \<mapsto> Reinstate)"
| "spec_op (OpStanding st agent reason) m = (if m (Normalize agent) = None then m else m(Normalize agent \<mapsto> st))"
| "spec_op (OpTrust agent trust) m = m"

definition agrees :: "string \<Rightarrow> CapabilityEnvelope option \<Rightarrow> standing option \<Rightarrow> bool" where
  \<comment> \<open>an agent's record and its standing in the abstract registry\<close>
  "agrees secret x y \<longleftrightarrow>
     (case x of
        None \<Rightarrow> y = None
      | Some e \<Rightarrow> \<exists>st. y = Some st \<and> en_Certified e \<and> en_Status e = standing_status st \<and> SignatureValid secret e)"

definition standing_inv :: "(string \<Rightarrow> string) \<Rightarrow> string \<Rightarrow> (string \<rightharpoonup> standing) \<Rightarrow> 'b EnvelopeRegistry \<Rightarrow> bool" where
  "standing_inv getenv var m g \<longleftrightarrow>
     rg_SecretEnvVar g = var \<and> (\<forall>a. agrees (Secret getenv g) (map_of (rg_envelopes g) a) (m a))"

lemma standing_inv_get:
  assumes "standing_inv getenv var m g"
  shows "map_of (rg_envelopes g) a = None \<Longrightarrow> m a = None"
    "map_of (rg_envelopes g) a = Some e \<Longrightarrow>
      \<exists>st. m a = Some st \<and> en_Certified e \<and> en_Status e = standing_status st \<and> SignatureValid (Secret getenv g) e"
proof -
  have "agrees (Secret getenv g) (map_of (rg_envelopes g) a) (m a)" using assms by (simp add: standing_inv_def)
  then show "map_of (rg_envelopes g) a = None \<Longrightarrow> m a = None"
    "map_of (rg_envelopes g) a = Some e \<Longrightarrow>
      \<exists>st. m a = Some st \<and> en_Certified e \<and> en_Status e = standing_status st \<and> SignatureValid (Secret getenv g) e"
    by (simp_all add: agrees_def)
qed

lemma standing_inv_same:
  "standing_inv getenv var m g \<Longrightarrow> rg_SecretEnvVar g' = rg_SecretEnvVar g \<Longrightarrow> rg_envelopes g' = rg_envelopes g \<Longrightarrow>
   standing_inv getenv var m g'"
  using Secret_cong [of g' g getenv] by (simp add: standing_inv_def)

lemma standing_inv_put:
  assumes "standing_inv getenv var m g" "rg_SecretEnvVar g' = rg_SecretEnvVar g"
    and "rg_envelopes g' = map_put a e (rg_envelopes g)" "m' = m(a \<mapsto> st)"
    and "en_Certified e" "en_Status e = standing_status st" "SignatureValid (Secret getenv g) e"
  shows "standing_inv getenv var m' g'"
  using assms Secret_cong [OF assms(2), of getenv]
  by (auto simp: standing_inv_def) (simp add: agrees_def)

lemma standing_inv_op:
  assumes "standing_inv getenv var m (fst gl)"
  shows "standing_inv getenv var (spec_op op m) (fst (apply_op getenv now op gl))"
proof (cases op)
  case (OpCertify agent scopes tier trust issued)
  then show ?thesis
    using Certify_effect [of getenv now agent scopes tier trust issued gl]
    by (auto intro!: standing_inv_put [OF assms])
next
  case (OpStanding st agent reason)
  let ?ch = "\<lambda>e. (e\<lparr>en_Status := standing_status st\<rparr>, standing_status st, orDefault reason (standing_reason st))"
  note eff = mutate_effect [of getenv now agent ?ch gl]
  have ap: "move_standing getenv now st agent reason gl = mutate getenv now agent ?ch gl"
    by (simp add: move_standing_def setStatus_def)
  show ?thesis
  proof (cases "Registry_Get (fst gl) agent")
    case None
    then have "m (Normalize agent) = None" using standing_inv_get(1) [OF assms] by (simp add: Registry_Get_def)
    then show ?thesis
      using eff None standing_inv_same [OF assms, of "fst (apply_op getenv now op gl)"] by (simp add: OpStanding ap)
  next
    case (Some e)
    then obtain st0 where "m (Normalize agent) = Some st0" "en_Certified e"
      using standing_inv_get(2) [OF assms] by (auto simp: Registry_Get_def)
    then show ?thesis
      using eff Some
      by (intro standing_inv_put [OF assms, where a = "Normalize agent" and st = st and e = "Sign (Secret getenv (fst gl)) (fst (?ch e))"])
        (auto simp: OpStanding ap)
  qed
next
  case (OpTrust agent trust)
  let ?ch = "\<lambda>e. (e\<lparr>en_TrustScore := trust\<rparr>, en_Status e, ''trust set to '' @ Sprint_float trust)"
  note eff = mutate_effect [of getenv now agent ?ch gl]
  have ap: "SetTrust getenv now agent trust gl = mutate getenv now agent ?ch gl" by (simp add: SetTrust_def)
  show ?thesis
  proof (cases "Registry_Get (fst gl) agent")
    case None
    then show ?thesis
      using eff standing_inv_same [OF assms, of "fst (apply_op getenv now op gl)"] by (simp add: OpTrust ap)
  next
    case (Some e)
    then obtain st0 where st0: "m (Normalize agent) = Some st0" "en_Certified e" "en_Status e = standing_status st0"
      using standing_inv_get(2) [OF assms] by (auto simp: Registry_Get_def)
    then have "m = m(Normalize agent \<mapsto> st0)" by (simp add: fun_upd_idem)
    then show ?thesis
      using eff Some st0
      by (intro standing_inv_put [OF assms, where a = "Normalize agent" and st = st0 and e = "Sign (Secret getenv (fst gl)) (fst (?ch e))"])
        (auto simp: OpTrust ap)
  qed
qed

lemma standing_inv_ops:
  "standing_inv getenv var m (fst gl) \<Longrightarrow> standing_inv getenv var (fold spec_op ops m) (fst (apply_ops getenv now ops gl))"
proof (induction ops arbitrary: m gl)
  case (Cons op ops)
  have "apply_ops getenv now (op # ops) gl = apply_ops getenv now ops (apply_op getenv now op gl)"
    by (simp add: apply_ops_def)
  then show ?case using Cons.IH [OF standing_inv_op [OF Cons.prems]] by simp
qed (simp add: apply_ops_def)

text \<open>
  C12.  The registry refines the history of its transitions: after any sequence of certifications,
  standings and trust changes an agent clears the floor exactly when it was certified and the
  last standing since is neither a suspension nor a revocation; agents are matched in any
  spelling, and every record is signed for its current standing.
\<close>

theorem registry_follows_history:
  assumes "gl = (NewEnvelopeRegistry b, l)" "g = fst (apply_ops getenv now ops gl)"
  shows "fst (Registry_Floor getenv g agent) \<longleftrightarrow>
      fold spec_op ops Map.empty (Normalize agent) \<in> {Some Reinstate, Some Probation} \<and>
    (\<forall>a e. map_of (rg_envelopes g) a = Some e \<longrightarrow> SignatureValid (Secret getenv g) e)"
proof -
  have "standing_inv getenv [] Map.empty (fst gl)"
    by (simp add: assms(1) standing_inv_def NewEnvelopeRegistry_def agrees_def)
  then have inv: "standing_inv getenv [] (fold spec_op ops Map.empty) g"
    unfolding assms(2) by (rule standing_inv_ops)
  have signed: "\<forall>a e. map_of (rg_envelopes g) a = Some e \<longrightarrow> SignatureValid (Secret getenv g) e"
    using standing_inv_get(2) [OF inv] by blast
  show ?thesis
  proof (cases "map_of (rg_envelopes g) (Normalize agent)")
    case None
    then show ?thesis
      using standing_inv_get(1) [OF inv None] signed by (simp add: Registry_Floor_def Registry_Get_def)
  next
    case (Some e)
    then obtain st where "fold spec_op ops Map.empty (Normalize agent) = Some st" "en_Certified e"
      "en_Status e = standing_status st" "SignatureValid (Secret getenv g) e"
      using standing_inv_get(2) [OF inv Some] by blast
    then show ?thesis
      using Some signed by (cases st) (simp_all add: Registry_Floor_def Registry_Get_def Floor_iff live_def)
  qed
qed

section \<open>What the floor lets through\<close>

text \<open>
  Tampering is not always seen: a record edited by hand passes the floor when its signature is
  removed with the edit, whatever agent, scopes, tier or standing it claims; and one whose
  signature is wrong passes after any change of trust, which signs it without checking it.
\<close>

theorem tampering_can_pass:
  assumes "live e" "Registry_Get (fst gl) agent = Some e"
  shows "fst (Envelope_Floor secret (e\<lparr>en_Signature := []\<rparr>)) \<and>
    fst (Registry_Floor getenv (fst (snd (SetTrust getenv now agent trust gl))) agent)"
proof -
  have l: "live (e\<lparr>en_Signature := []\<rparr>)" using assms(1) by (simp add: live_def)
  let ?ch = "\<lambda>e. (e\<lparr>en_TrustScore := trust\<rparr>, en_Status e, ''trust set to '' @ Sprint_float trust)"
  let ?e = "Sign (Secret getenv (fst gl)) (e\<lparr>en_TrustScore := trust\<rparr>)"
  let ?g = "fst (snd (SetTrust getenv now agent trust gl))"
  have "rg_envelopes ?g = map_put (Normalize agent) ?e (rg_envelopes (fst gl))"
    "Secret getenv ?g = Secret getenv (fst gl)"
    using mutate_effect [of getenv now agent ?ch gl] assms(2)
    by (auto simp: SetTrust_def intro!: Secret_cong)
  then have "Registry_Floor getenv ?g agent = Envelope_Floor (Secret getenv (fst gl)) ?e"
    by (simp add: Registry_Floor_def Registry_Get_def)
  moreover have "live ?e" using assms(1) by (simp add: live_def)
  ultimately show ?thesis using l by (simp add: Floor_iff)
qed

section \<open>Examples\<close>

definition forged :: CapabilityEnvelope where
  "forged = \<lparr>en_Agent = ''bot'', en_Certified = True, en_Scopes = [''payments''], en_MaxAutonomyTier = 9,
     en_Status = ''active'', en_TrustScore = fzero, en_IssuedAt = [], en_Signature = ''forged''\<rparr>"

definition forged_registry :: "unit EnvelopeRegistry" where
  "forged_registry = (NewEnvelopeRegistry ())\<lparr>rg_envelopes := [(''bot'', forged)]\<rparr>"

lemma Normalize_bot [simp]: "Normalize ''bot'' = ''bot''" "Normalize ''Bot'' = ''bot''"
  by code_simp+

lemma tampering_can_pass_witness:
  "fst (Registry_Floor (\<lambda>_. ''key'') (fst (snd (SetTrust (\<lambda>_. ''key'') 0 ''bot'' fzero (forged_registry, new_log)))) ''bot'')"
  using tampering_can_pass [of forged "(forged_registry, new_log)" "''bot''" "''key''" "\<lambda>_. ''key''" 0 fzero]
  by (simp add: live_def forged_def forged_registry_def Registry_Get_def)

lemma revocation_is_immediate_witness:
  "\<exists>why. envelopeGate (\<lambda>_. []) \<lparr>pf_oor = (\<lambda>_. 0), pf_quote = (\<lambda>_. [])\<rparr>
     (fst (snd (move_standing (\<lambda>_. []) 0 Revoke ''bot'' [] (forged_registry, new_log)))) (\<lambda>_ _. returnS (True, [])) payments_policy
     [(''agent'', VStr ''Bot'')] no_calls = (Inr (False, why), no_calls)"
  using revocation_is_immediate [OF surjective_pairing [symmetric],
      where gl = "(forged_registry, new_log)" and agent = "''bot''" and c = "[(''agent'', VStr ''Bot'')]"]
  by (simp add: forged_registry_def Registry_Get_def actorKeys_def given_def)

lemma registry_follows_history_witness:
  "fst (Registry_Floor (\<lambda>_. []) (fst (apply_ops (\<lambda>_. []) 0 [OpCertify ''bot'' [] 1 fzero [], OpStanding Suspend ''Bot'' []]
     (NewEnvelopeRegistry (), new_log))) ''bot'') = False"
  using registry_follows_history [OF refl refl, where ops = "[OpCertify ''bot'' [] 1 fzero [], OpStanding Suspend ''Bot'' []]"
      and agent = "''bot''"] by simp

text \<open>A fractional tier is truncated before it is compared.\<close>

lemma tier_truncated: "WithinTier pf (forged\<lparr>en_MaxAutonomyTier := 2\<rparr>) (VFloat (FFin False 5 (- 1)))"
  by (simp add: WithinTier_def given_def f_to_int64_def Float64.signed_def min_int64_def max_int64_def)

end
