(* ===== verification/Regex.thy ===== *)
theory Regex
  imports Ear_Prelude
begin

text \<open>
  What the loaders use of Go's \<^verbatim>\<open>regexp\<close>: expressions as a datatype and their leftmost-first
  matching, with capture groups.  \<open>run\<close> lists every way an expression can match from a position, in the
  order in which the library prefers them; a search takes the first at the leftmost position.  A
  position is the character before it and the text after it.  An iteration of a star that consumes
  nothing is not repeated.
\<close>

section \<open>Expressions\<close>

datatype re =
    Cls "char \<Rightarrow> bool"
  | Eps
  | Seq re re
  | Alt re re
  | Opt re
  | Star re
  | Lazy re         \<comment> \<open>a star that prefers fewer iterations\<close>
  | Grp nat re
  | Bnd           \<comment> \<open>a word boundary\<close>
  | Beg           \<comment> \<open>the beginning of the text\<close>
  | End           \<comment> \<open>the end of the text\<close>

type_synonym pos = "char option \<times> string"
type_synonym caps = "(nat \<times> string) list"

definition word_char :: "char \<Rightarrow> bool" where
  "word_char c \<longleftrightarrow> is_letter c \<or> is_digit c \<or> c = CHR ''_''"

definition at_boundary :: "pos \<Rightarrow> bool" where
  "at_boundary p \<longleftrightarrow>
     ((case fst p of Some c \<Rightarrow> word_char c | None \<Rightarrow> False) \<noteq>
      (case snd p of c # _ \<Rightarrow> word_char c | [] \<Rightarrow> False))"

definition consumed :: "string \<Rightarrow> string \<Rightarrow> string" where
  "consumed s s' = take (length s - length s') s"

primrec many :: "(pos \<times> caps \<Rightarrow> (pos \<times> caps) list) \<Rightarrow> nat \<Rightarrow> pos \<times> caps \<Rightarrow> (pos \<times> caps) list" where
  \<comment> \<open>at most n iterations, longest first\<close>
  "many f 0 st = [st]"
| "many f (Suc n) st =
     concat (map (\<lambda>st'. if length (snd (fst st')) < length (snd (fst st)) then many f n st' else []) (f st))
     @ [st]"

primrec few :: "(pos \<times> caps \<Rightarrow> (pos \<times> caps) list) \<Rightarrow> nat \<Rightarrow> pos \<times> caps \<Rightarrow> (pos \<times> caps) list" where
  \<comment> \<open>at most n iterations, shortest first\<close>
  "few f 0 st = [st]"
| "few f (Suc n) st =
     st # concat (map (\<lambda>st'. if length (snd (fst st')) < length (snd (fst st)) then few f n st' else []) (f st))"

primrec run :: "re \<Rightarrow> pos \<times> caps \<Rightarrow> (pos \<times> caps) list" where
  "run (Cls p) st =
     (case snd (fst st) of c # s \<Rightarrow> if p c then [((Some c, s), snd st)] else [] | [] \<Rightarrow> [])"
| "run Eps st = [st]"
| "run (Seq a b) st = concat (map (run b) (run a st))"
| "run (Alt a b) st = run a st @ run b st"
| "run (Opt a) st = run a st @ [st]"
| "run (Star a) st = many (run a) (length (snd (fst st))) st"
| "run (Lazy a) st = few (run a) (length (snd (fst st))) st"
| "run (Grp n a) st =
     map (\<lambda>st'. (fst st', (n, consumed (snd (fst st)) (snd (fst st'))) # snd st')) (run a st)"
| "run Bnd st = (if at_boundary (fst st) then [st] else [])"
| "run Beg st = (if fst (fst st) = None then [st] else [])"
| "run End st = (if snd (fst st) = [] then [st] else [])"

section \<open>Searching\<close>

record found =
  fd_before :: string
  fd_text :: string
  fd_pos :: pos         \<comment> \<open>where the match ends\<close>
  fd_caps :: caps

fun search :: "re \<Rightarrow> pos \<Rightarrow> found option" where
  "search r (pv, []) =
     (case run r ((pv, []), []) of
        (q, k) # _ \<Rightarrow> Some \<lparr>fd_before = [], fd_text = [], fd_pos = q, fd_caps = k\<rparr>
      | [] \<Rightarrow> None)"
| "search r (pv, c # s) =
     (case run r ((pv, c # s), []) of
        (q, k) # _ \<Rightarrow> Some \<lparr>fd_before = [], fd_text = consumed (c # s) (snd q), fd_pos = q, fd_caps = k\<rparr>
      | [] \<Rightarrow> map_option (fd_before_update (\<lambda>a. c # a)) (search r (Some c, s)))"

definition find_re :: "re \<Rightarrow> string \<Rightarrow> found option" where
  "find_re r s = search r (None, s)"

definition MatchString :: "re \<Rightarrow> string \<Rightarrow> bool" where
  "MatchString r s \<longleftrightarrow> find_re r s \<noteq> None"

definition FindString :: "re \<Rightarrow> string \<Rightarrow> string" where
  \<comment> \<open>empty when there is no match\<close>
  "FindString r s = (case find_re r s of Some m \<Rightarrow> fd_text m | None \<Rightarrow> [])"

definition submatch :: "found \<Rightarrow> nat \<Rightarrow> string" where
  \<comment> \<open>the text of a group; a group that took no part is empty\<close>
  "submatch m n = (case map_of (fd_caps m) n of Some t \<Rightarrow> t | None \<Rightarrow> [])"

function find_all :: "re \<Rightarrow> pos \<Rightarrow> found list" where
  \<comment> \<open>the successive matches; no expression of the source matches the empty text\<close>
  "find_all r p =
     (case search r p of
        Some m \<Rightarrow> if length (snd (fd_pos m)) < length (snd p) then m # find_all r (fd_pos m) else []
      | None \<Rightarrow> [])"
  by pat_completeness auto

termination
  by (relation "measure (\<lambda>(r, p). length (snd p))") auto

declare find_all.simps [simp del]

definition FindAll :: "re \<Rightarrow> string \<Rightarrow> found list" where
  "FindAll r s = find_all r (None, s)"

function replace_from :: "re \<Rightarrow> string \<Rightarrow> pos \<Rightarrow> string" where
  "replace_from r rep p =
     (case search r p of
        Some m \<Rightarrow>
          if length (snd (fd_pos m)) < length (snd p)
          then fd_before m @ rep @ replace_from r rep (fd_pos m) else snd p
      | None \<Rightarrow> snd p)"
  by pat_completeness auto

termination
  by (relation "measure (\<lambda>(r, rep, p). length (snd p))") auto

declare replace_from.simps [simp del]

definition ReplaceAll :: "re \<Rightarrow> string \<Rightarrow> string \<Rightarrow> string" where
  "ReplaceAll r s rep = replace_from r rep (None, s)"

section \<open>Building expressions\<close>

fun seq :: "re list \<Rightarrow> re" where
  "seq [] = Eps"
| "seq [r] = r"
| "seq (r # rs) = Seq r (seq rs)"

fun alt :: "re list \<Rightarrow> re" where
  "alt [] = Cls (\<lambda>_. False)"
| "alt [r] = r"
| "alt (r # rs) = Alt r (alt rs)"

definition one_of :: "string \<Rightarrow> re" where
  "one_of cs = Cls (\<lambda>c. c \<in> set cs)"

definition lit :: "string \<Rightarrow> re" where
  "lit s = seq (map (\<lambda>x. Cls (\<lambda>c. c = x)) s)"

definition lit_fold :: "string \<Rightarrow> re" where
  \<comment> \<open>a lower-case literal under the flag i\<close>
  "lit_fold s = seq (map (\<lambda>x. Cls (\<lambda>c. lower_char c = x)) s)"

definition plus :: "re \<Rightarrow> re" where
  "plus r = Seq r (Star r)"

section \<open>What a match is\<close>

definition from_to :: "(char \<Rightarrow> bool) \<Rightarrow> pos \<times> caps \<Rightarrow> pos \<times> caps \<Rightarrow> bool" where
  \<comment> \<open>the text consumed between two states, all of it in a class\<close>
  "from_to p st st' \<longleftrightarrow>
     (\<exists>u. snd (fst st) = u @ snd (fst st') \<and> list_all p u)"

lemma from_to_refl [simp]: "from_to p st st"
  by (auto simp: from_to_def)

lemma from_to_trans: "from_to p a b \<Longrightarrow> from_to p b c \<Longrightarrow> from_to p a c"
  unfolding from_to_def by (metis append.assoc list_all_append)

lemma from_to_mono: "from_to p a b \<Longrightarrow> (\<And>c. p c \<Longrightarrow> q c) \<Longrightarrow> from_to q a b"
  by (auto simp: from_to_def list_all_iff)

lemma many_from_to:
  assumes "\<And>st st'. st' \<in> set (f st) \<Longrightarrow> from_to p st st'"
  shows "st' \<in> set (many f n st) \<Longrightarrow> from_to p st st'"
proof (induction n arbitrary: st)
  case (Suc n)
  then show ?case by (auto split: if_splits intro: from_to_trans [OF assms])
qed simp

lemma few_from_to:
  assumes "\<And>st st'. st' \<in> set (f st) \<Longrightarrow> from_to p st st'"
  shows "st' \<in> set (few f n st) \<Longrightarrow> from_to p st st'"
proof (induction n arbitrary: st)
  case (Suc n)
  then show ?case by (auto split: if_splits intro: from_to_trans [OF assms])
qed simp

primrec over :: "(char \<Rightarrow> bool) \<Rightarrow> re \<Rightarrow> bool" where
  \<comment> \<open>every class of the expression lies in a class\<close>
  "over p (Cls q) \<longleftrightarrow> (\<forall>c. q c \<longrightarrow> p c)"
| "over p Eps \<longleftrightarrow> True"
| "over p (Seq a b) \<longleftrightarrow> over p a \<and> over p b"
| "over p (Alt a b) \<longleftrightarrow> over p a \<and> over p b"
| "over p (Opt a) \<longleftrightarrow> over p a"
| "over p (Star a) \<longleftrightarrow> over p a"
| "over p (Lazy a) \<longleftrightarrow> over p a"
| "over p (Grp n a) \<longleftrightarrow> over p a"
| "over p Bnd \<longleftrightarrow> True"
| "over p Beg \<longleftrightarrow> True"
| "over p End \<longleftrightarrow> True"

lemma over_any [simp]: "over (\<lambda>_. True) r"
  by (induction r) auto

lemma run_over: "over p r \<Longrightarrow> st' \<in> set (run r st) \<Longrightarrow> from_to p st st'"
proof (induction r arbitrary: st st')
  case (Cls q)
  then show ?case
    by (cases "snd (fst st)")
      (auto simp: from_to_def intro!: exI [of _ "[hd (snd (fst st))]"] split: if_splits)
next
  case (Seq a b)
  then obtain st1 where "st1 \<in> set (run a st)" "st' \<in> set (run b st1)" by auto
  with Seq.IH Seq.prems(1) have "from_to p st st1" "from_to p st1 st'" by simp_all
  then show ?case by (rule from_to_trans)
next
  case (Star a)
  have "from_to p s s'" if "s' \<in> set (run a s)" for s s'
    using Star.IH Star.prems(1) that by simp
  then show ?case using Star.prems(2) many_from_to [of "run a" p] by simp
next
  case (Lazy a)
  have "from_to p s s'" if "s' \<in> set (run a s)" for s s'
    using Lazy.IH Lazy.prems(1) that by simp
  then show ?case using Lazy.prems(2) few_from_to [of "run a" p] by simp
next
  case (Grp n a)
  then obtain st1 where "st1 \<in> set (run a st)" "fst st' = fst st1" by auto
  with Grp.IH Grp.prems(1) have "from_to p st st1" by simp
  with \<open>fst st' = fst st1\<close> show ?case by (simp add: from_to_def)
qed (auto split: if_splits)

lemma run_splits: "st' \<in> set (run r st) \<Longrightarrow> snd (fst st) = consumed (snd (fst st)) (snd (fst st')) @ snd (fst st')"
  using run_over [OF over_any] by (fastforce simp: from_to_def consumed_def)

lemma consumed_append [simp]: "consumed (u @ s) s = u"
  by (simp add: consumed_def)

lemma search_splits:
  "search r p = Some m \<Longrightarrow> snd p = fd_before m @ fd_text m @ snd (fd_pos m)"
proof (induction r p arbitrary: m rule: search.induct)
  case (1 r pv)
  then obtain q k sts where r: "run r ((pv, []), []) = (q, k) # sts"
      "m = \<lparr>fd_before = [], fd_text = [], fd_pos = q, fd_caps = k\<rparr>"
    by (auto split: list.splits)
  then show ?case using run_splits [of "(q, k)" r "((pv, []), [])"] by simp
next
  case (2 r pv c s)
  show ?case
  proof (cases "run r ((pv, c # s), [])")
    case Nil
    with 2 show ?thesis by auto
  next
    case (Cons st' sts)
    with 2(2) run_splits [of st' r "((pv, c # s), [])"] show ?thesis by (auto split: prod.splits)
  qed
qed

lemma search_found:
  \<comment> \<open>a match is the first one \<open>run\<close> prefers at some position\<close>
  "search r p = Some m \<Longrightarrow>
   \<exists>pv. hd (run r ((pv, fd_text m @ snd (fd_pos m)), [])) = (fd_pos m, fd_caps m) \<and>
        run r ((pv, fd_text m @ snd (fd_pos m)), []) \<noteq> []"
proof (induction r p arbitrary: m rule: search.induct)
  case (1 r pv)
  then obtain q k sts where r: "run r ((pv, []), []) = (q, k) # sts"
      "m = \<lparr>fd_before = [], fd_text = [], fd_pos = q, fd_caps = k\<rparr>"
    by (auto split: list.splits)
  moreover from r have "snd q = []" using run_splits [of "(q, k)" r "((pv, []), [])"] by simp
  ultimately show ?case by (intro exI [of _ pv]) simp
next
  case (2 r pv c s)
  show ?case
  proof (cases "run r ((pv, c # s), [])")
    case Nil
    with 2 show ?thesis by auto
  next
    case (Cons st' sts)
    then have "c # s = consumed (c # s) (snd (fst st')) @ snd (fst st')"
      using run_splits [of st' r "((pv, c # s), [])"] by simp
    with 2(2) Cons show ?thesis by (intro exI [of _ pv]) (auto split: prod.splits)
  qed
qed

lemma search_over: "over p r \<Longrightarrow> search r q = Some m \<Longrightarrow> list_all p (fd_text m)"
proof -
  assume o: "over p r" and s: "search r q = Some m"
  obtain pv where h: "run r ((pv, fd_text m @ snd (fd_pos m)), []) \<noteq> []"
      "hd (run r ((pv, fd_text m @ snd (fd_pos m)), [])) = (fd_pos m, fd_caps m)"
    using search_found [OF s] by blast
  then have "(fd_pos m, fd_caps m) \<in> set (run r ((pv, fd_text m @ snd (fd_pos m)), []))"
    by (metis hd_in_set)
  from run_over [OF o this] show ?thesis by (auto simp: from_to_def)
qed

section \<open>What a group holds\<close>

primrec groups_over :: "(nat \<Rightarrow> char \<Rightarrow> bool) \<Rightarrow> re \<Rightarrow> bool" where
  "groups_over g (Cls q) \<longleftrightarrow> True"
| "groups_over g Eps \<longleftrightarrow> True"
| "groups_over g (Seq a b) \<longleftrightarrow> groups_over g a \<and> groups_over g b"
| "groups_over g (Alt a b) \<longleftrightarrow> groups_over g a \<and> groups_over g b"
| "groups_over g (Opt a) \<longleftrightarrow> groups_over g a"
| "groups_over g (Star a) \<longleftrightarrow> groups_over g a"
| "groups_over g (Lazy a) \<longleftrightarrow> groups_over g a"
| "groups_over g (Grp n a) \<longleftrightarrow> over (g n) a \<and> groups_over g a"
| "groups_over g Bnd \<longleftrightarrow> True"
| "groups_over g Beg \<longleftrightarrow> True"
| "groups_over g End \<longleftrightarrow> True"

definition caps_ok :: "(nat \<Rightarrow> char \<Rightarrow> bool) \<Rightarrow> caps \<Rightarrow> bool" where
  "caps_ok g k \<longleftrightarrow> list_all (\<lambda>(n, t). list_all (g n) t) k"

lemma many_caps:
  assumes "\<And>st st'. st' \<in> set (f st) \<Longrightarrow> caps_ok g (snd st) \<Longrightarrow> caps_ok g (snd st')"
  shows "st' \<in> set (many f n st) \<Longrightarrow> caps_ok g (snd st) \<Longrightarrow> caps_ok g (snd st')"
proof (induction n arbitrary: st)
  case (Suc n)
  then consider st1 where "st1 \<in> set (f st)" "st' \<in> set (many f n st1)" | "st' = st"
    by (auto split: if_splits)
  then show ?case
  proof cases
    case 1
    with Suc.prems(2) have "caps_ok g (snd st1)" using assms by blast
    with 1 Suc.IH show ?thesis by blast
  qed (use Suc.prems in simp)
qed simp

lemma few_caps:
  assumes "\<And>st st'. st' \<in> set (f st) \<Longrightarrow> caps_ok g (snd st) \<Longrightarrow> caps_ok g (snd st')"
  shows "st' \<in> set (few f n st) \<Longrightarrow> caps_ok g (snd st) \<Longrightarrow> caps_ok g (snd st')"
proof (induction n arbitrary: st)
  case (Suc n)
  then consider st1 where "st1 \<in> set (f st)" "st' \<in> set (few f n st1)" | "st' = st"
    by (auto split: if_splits)
  then show ?case
  proof cases
    case 1
    with Suc.prems(2) have "caps_ok g (snd st1)" using assms by blast
    with 1 Suc.IH show ?thesis by blast
  qed (use Suc.prems in simp)
qed simp

lemma run_caps:
  "groups_over g r \<Longrightarrow> st' \<in> set (run r st) \<Longrightarrow> caps_ok g (snd st) \<Longrightarrow> caps_ok g (snd st')"
proof (induction r arbitrary: st st')
  case (Cls q)
  then show ?case by (auto split: list.splits if_splits)
next
  case (Seq a b)
  then obtain st1 where "st1 \<in> set (run a st)" "st' \<in> set (run b st1)" by auto
  with Seq.IH Seq.prems(1,3) show ?case by simp
next
  case (Star a)
  have "caps_ok g (snd s')" if "s' \<in> set (run a s)" "caps_ok g (snd s)" for s s'
    using Star.IH Star.prems(1) that by simp
  then show ?case using Star.prems many_caps [of "run a" g] by simp
next
  case (Lazy a)
  have "caps_ok g (snd s')" if "s' \<in> set (run a s)" "caps_ok g (snd s)" for s s'
    using Lazy.IH Lazy.prems(1) that by simp
  then show ?case using Lazy.prems few_caps [of "run a" g] by simp
next
  case (Grp n a)
  then obtain st1 where st1: "st1 \<in> set (run a st)"
      "st' = (fst st1, (n, consumed (snd (fst st)) (snd (fst st1))) # snd st1)" by auto
  from Grp.prems(1) run_over [OF _ st1(1)] have "from_to (g n) st st1" by simp
  then have "list_all (g n) (consumed (snd (fst st)) (snd (fst st1)))" by (auto simp: from_to_def)
  with Grp.IH [OF _ st1(1)] Grp.prems st1(2) show ?case by (simp add: caps_ok_def)
qed (auto split: if_splits)

lemma submatch_over:
  assumes "groups_over g r" "search r p = Some m"
  shows "list_all (g n) (submatch m n)"
proof -
  obtain pv where h: "run r ((pv, fd_text m @ snd (fd_pos m)), []) \<noteq> []"
      "hd (run r ((pv, fd_text m @ snd (fd_pos m)), [])) = (fd_pos m, fd_caps m)"
    using search_found [OF assms(2)] by blast
  then have "(fd_pos m, fd_caps m) \<in> set (run r ((pv, fd_text m @ snd (fd_pos m)), []))"
    by (metis hd_in_set)
  from run_caps [OF assms(1) this] have "caps_ok g (fd_caps m)" by (simp add: caps_ok_def)
  then have "list_all (g n) t" if "map_of (fd_caps m) n = Some t" for t
    using map_of_SomeD [OF that] by (auto simp: caps_ok_def list_all_iff)
  then show ?thesis by (simp add: submatch_def split: option.split)
qed

lemma find_all_search: "m \<in> set (find_all r p) \<Longrightarrow> \<exists>q. search r q = Some m"
proof (induction r p rule: find_all.induct)
  case (1 r p)
  show ?case
  proof (cases "search r p")
    case None
    with "1.prems" show ?thesis by (simp add: find_all.simps)
  next
    case (Some m')
    with "1.prems" have l: "length (snd (fd_pos m')) < length (snd p)"
      by (simp add: find_all.simps [of r p] split: if_splits)
    with "1.prems" Some have "m = m' \<or> m \<in> set (find_all r (fd_pos m'))"
      by (simp add: find_all.simps [of r p])
    with "1.IH" [OF Some l] Some show ?thesis by blast
  qed
qed

lemma over_seq [simp]: "over p (seq rs) \<longleftrightarrow> list_all (over p) rs"
  by (induction rs rule: seq.induct) auto

lemma over_alt [simp]: "over p (alt rs) \<longleftrightarrow> list_all (over p) rs"
  by (induction rs rule: alt.induct) auto

lemma groups_over_seq [simp]: "groups_over g (seq rs) \<longleftrightarrow> list_all (groups_over g) rs"
  by (induction rs rule: seq.induct) auto

lemma groups_over_alt [simp]: "groups_over g (alt rs) \<longleftrightarrow> list_all (groups_over g) rs"
  by (induction rs rule: alt.induct) auto

lemma groups_over_lit [simp]: "groups_over g (lit s)" "groups_over g (lit_fold s)" "groups_over g (one_of cs)"
  by (auto simp: lit_def lit_fold_def one_of_def list_all_iff)

lemma groups_over_plus [simp]: "groups_over g (plus r) \<longleftrightarrow> groups_over g r"
  by (simp add: plus_def)

end
