(* ===== verification/StrategyFile.thy ===== *)
theory StrategyFile
  imports Instance Regex
begin

text \<open>
  The operating strategy an author writes in memory.md: \<^verbatim>\<open>strategy.go\<close>, the model selection of
  \<^verbatim>\<open>modelselection.go\<close> and the declared servers of \<^verbatim>\<open>mcp.go\<close>.  The regular expressions are those
  of the source, as terms of theory Regex; of the alternatives that only a character outside
  ASCII matches (typographic quotes and dashes) nothing is left.
\<close>

section \<open>Expressions\<close>

definition digits :: re where "digits = plus (Cls is_digit)"
definition spaces :: re where "spaces = Star (Cls re_space)"
definition spaces1 :: re where "spaces1 = plus (Cls re_space)"

definition disabledRe :: re where
  "disabledRe = alt
     [seq [Bnd, alt [lit_fold ''do not'', lit_fold (''don'' @ [CHR 0x27] @ ''t''), lit_fold ''never'',
                     Seq (lit_fold ''disable'') (Opt (lit_fold ''d'')), lit_fold ''forbidden'', lit_fold ''prohibited''], Bnd],
      seq [Bnd, lit_fold ''no'', spaces1, lit_fold ''sub'', Opt (lit_fold ''-''), lit_fold ''agent'', Opt (lit_fold ''s''), Bnd],
      seq [Bnd, lit_fold ''switche'', Opt (lit_fold ''d''), spaces1, lit_fold ''off'', Bnd]]"

definition integerRe :: re where "integerRe = seq [Bnd, Grp 1 digits, Bnd]"

definition backtickRe :: re where
  "backtickRe = seq [lit ''`'', Grp 1 (plus (Cls (\<lambda>c. c \<noteq> CHR ''`''))), lit ''`'']"

definition urlRe :: re where
  "urlRe = seq [lit ''http'', Opt (lit ''s''), lit ''://'', plus (Cls (\<lambda>c. \<not> re_space c))]"

definition trailReach :: re where
  "trailReach = seq [Opt (one_of '',;''), spaces,
     alt [lit_fold ''via'', lit_fold ''using'', lit_fold ''through'', lit_fold ''over'', lit_fold ''at''], spaces, End]"

definition dollarAmountRe :: re where
  "dollarAmountRe = seq [lit ''$'', Opt (Cls re_space), Cls is_digit,
     Star (Cls (\<lambda>c. is_digit c \<or> c = CHR '','')), Opt (Seq (lit ''.'') digits)]"

definition percentRe :: re where
  "percentRe = seq [Grp 1 (Seq digits (Opt (Seq (lit ''.'') digits))), spaces, lit ''%'']"

definition periodRe :: re where
  "periodRe = seq [Bnd, lit_fold ''every'', spaces1, Opt (Seq (Grp 1 digits) spaces),
     Grp 2 (alt [lit_fold ''second'', lit_fold ''minute'', lit_fold ''hour'', lit_fold ''day'', lit_fold ''week'']),
     Opt (lit_fold ''s''), Bnd]"

definition quotedRe :: re where
  "quotedRe = seq [lit [CHR 0x22], Grp 1 (plus (Cls (\<lambda>c. c \<noteq> CHR 0x22))), lit [CHR 0x22]]"

section \<open>Periods and counts in prose\<close>

definition proseWords :: "string \<Rightarrow> string list" where
  "proseWords t = map (\<lambda>w. ToLower (trim_chars ''.,;:()'' w)) (Fields t)"

definition cadenceDays :: "(string \<times> f64) list" where
  "cadenceDays =
     [(''hourly'', fdiv (f_of_int 1) (f_of_int 24)), (''daily'', f_of_int 1), (''nightly'', f_of_int 1),
      (''weekly'', f_of_int 7), (''fortnightly'', f_of_int 14), (''monthly'', f_of_int 30),
      (''quarterly'', f_of_int 91), (''yearly'', f_of_int 365), (''annually'', f_of_int 365)]"

definition unitDays :: "(string \<times> f64) list" where
  "unitDays =
     [(''hour'', fdiv (f_of_int 1) (f_of_int 24)), (''day'', f_of_int 1), (''week'', f_of_int 7),
      (''month'', f_of_int 30), (''year'', f_of_int 365)]"

definition countWords :: "(string \<times> int) list" where
  "countWords =
     [(''no'', 0), (''never'', 0), (''zero'', 0), (''once'', 1), (''one'', 1), (''twice'', 2), (''two'', 2),
      (''thrice'', 3), (''three'', 3), (''four'', 4), (''five'', 5), (''six'', 6), (''seven'', 7), (''eight'', 8),
      (''nine'', 9), (''ten'', 10)]"

fun first_some :: "('a \<Rightarrow> 'b option) \<Rightarrow> 'a list \<Rightarrow> 'b option" where
  \<comment> \<open>a loop that returns at the first element that gives something\<close>
  "first_some f [] = None"
| "first_some f (x # xs) = (case f x of Some y \<Rightarrow> Some y | None \<Rightarrow> first_some f xs)"

definition trim_suffix :: "string \<Rightarrow> string \<Rightarrow> string" where
  "trim_suffix p s = (if has_suffix p s then take (length s - length p) s else s)"

definition counted_period :: "string \<times> string \<Rightarrow> f64 option" where
  "counted_period cu =
     (case ParseFloat (fst cu) of
        Some count \<Rightarrow> map_option (fmul count) (map_of unitDays (trim_suffix ''s'' (snd cu)))
      | None \<Rightarrow> None)"

definition daysInProse :: "string \<Rightarrow> f64 option" where
  "daysInProse t =
     (let words = proseWords t in
      case first_some (map_of cadenceDays) words of
        Some d \<Rightarrow> Some d
      | None \<Rightarrow> first_some counted_period (zip words (tl words)))"

definition countInProse :: "string \<Rightarrow> int option" where
  "countInProse t =
     first_some (\<lambda>w. case Atoi w of Some n \<Rightarrow> Some n | None \<Rightarrow> map_of countWords w) (proseWords t)"

section \<open>Declarations\<close>

definition splitDeclaration :: "string \<Rightarrow> string \<times> string" where
  "splitDeclaration bullet =
     (case first_some (\<lambda>sep. case cut_at sep bullet of
                Some (name, description) \<Rightarrow>
                  (let n = TrimSpace name in
                   if n \<noteq> [] \<and> length n \<le> 60 then Some (n, TrimSpace description) else None)
              | None \<Rightarrow> None) ['':'', '' -- '', '' - ''] of
        Some nd \<Rightarrow> nd
      | None \<Rightarrow> (TrimSpace bullet, []))"

definition backticked :: "string \<Rightarrow> string" where
  "backticked t = (case find_re backtickRe t of Some m \<Rightarrow> TrimSpace (submatch m 1) | None \<Rightarrow> [])"

definition linked :: "string \<Rightarrow> string" where
  "linked t = trim_right (\<lambda>c. c \<in> set ''.,;'') (FindString urlRe t)"

definition extractReach :: "string \<Rightarrow> string \<times> string \<times> string" where
  "extractReach description =
     (let c1 = ReplaceAll backtickRe description [];
          c2 = ReplaceAll urlRe c1 [];
          c3 = ReplaceAll trailReach (TrimSpace c2) []
      in (backticked description, linked description, trim_chars '' ,;'' c3))"

definition path_like :: "string \<Rightarrow> bool" where
  "path_like w \<longleftrightarrow>
     (contains_str ''/'' w \<or> has_suffix ''.md'' w \<or> has_suffix ''.jsonl'' w \<or> has_suffix ''.json'' w \<or>
      has_suffix ''.log'' w) \<and> list_ex (\<lambda>c. c \<in> set ''./'') w"

definition declaredPath :: "string \<Rightarrow> string" where
  "declaredPath prose =
     (case find path_like (map (\<lambda>w. trim_right (\<lambda>c. c = CHR ''.'') (trim_chars ''`,;()'' w)) (Fields prose)) of
        Some w \<Rightarrow> w | None \<Rightarrow> [])"

definition declaredStorePath :: "string \<Rightarrow> string" where
  "declaredStorePath prose = (if backticked prose \<noteq> [] then backticked prose else declaredPath prose)"

section \<open>The sections of the strategy\<close>

definition no_model :: modelSpec where
  "no_model = \<lparr>ms_Provider = [], ms_Model = [], ms_APIKeyEnvVar = [], ms_APIBase = [], ms_Temperature = None,
     ms_MaxOutputTokens = 0\<rparr>"

definition empty_strategy :: "string \<Rightarrow> Strategy" where
  "empty_strategy t =
     \<lparr>sy_Raw = t, sy_ContextHistory = [], sy_HistoryCapacity = 0, sy_AuditTrail = [], sy_AuditEnabled = True,
      sy_AuditPath = [], sy_RetentionDays = fzero, sy_SubagentSpawning = [], sy_SubagentsConfigured = False,
      sy_SubagentsEnabled = False, sy_MaxSubagents = 0, sy_SkillsDiscovery = [], sy_Tools = [],
      sy_ToolAcquisition = True, sy_Ontology = \<lparr>on_Terms = [], on_Notes = []\<rparr>, sy_ModelSelection = [],
      sy_Primary = no_model, sy_AuxModelSelection = [], sy_Aux = no_model, sy_Pricing = [],
      sy_InputRatePerMillion = None, sy_OutputRatePerMillion = None, sy_Budget = fzero,
      sy_AlertThresholds = [], sy_KnowledgeSources = [], sy_CrossSessionPath = [], sy_MCP = [],
      sy_McpServers = [], sy_Schedule = [], sy_ScheduledWork = []\<rparr>"

definition atoi_digits :: "string \<Rightarrow> int" where
  \<comment> \<open>the value strconv.Atoi returns on digits, its error ignored: a number too large is the largest\<close>
  "atoi_digits s = (case Atoi s of Some v \<Rightarrow> v | None \<Rightarrow> if s = [] then 0 else max_int64)"

definition readContextHistory :: "string \<Rightarrow> Strategy \<Rightarrow> Strategy" where
  "readContextHistory prose s =
     (let s1 = s\<lparr>sy_ContextHistory := prose\<rparr> in
      case find_re integerRe prose of
        Some m \<Rightarrow> s1\<lparr>sy_HistoryCapacity := atoi_digits (submatch m 1)\<rparr> | None \<Rightarrow> s1)"

definition sentences :: "string \<Rightarrow> string list" where
  "sentences prose = fields_by (\<lambda>c. c = CHR ''.'' \<or> c = CHR '';'') [] prose"

definition retention_in :: "string \<Rightarrow> f64 option" where
  "retention_in sentence =
     (if list_ex (\<lambda>w. contains_str w (ToLower sentence)) [''keep'', ''retain'', ''retention'', ''purge'', ''rotate'']
      then daysInProse sentence else None)"

definition readAudit :: "string \<Rightarrow> Strategy \<Rightarrow> Strategy" where
  "readAudit prose s =
     (let s1 = s\<lparr>sy_AuditTrail := prose, sy_AuditEnabled := \<not> MatchString disabledRe prose,
                 sy_AuditPath := declaredStorePath prose\<rparr> in
      case first_some retention_in (sentences prose) of
        Some days \<Rightarrow> s1\<lparr>sy_RetentionDays := days\<rparr> | None \<Rightarrow> s1)"

definition budget_in :: "string \<Rightarrow> f64 option" where
  "budget_in prose =
     (let m = FindString dollarAmountRe prose in
      if m \<noteq> [] then ParseFloat (filter (\<lambda>c. c \<notin> set ''$, '') m) else None)"

definition percents_in :: "string \<Rightarrow> f64 list" where
  "percents_in prose =
     List.map_filter (\<lambda>m. map_option (\<lambda>v. fdiv v (f_of_int 100)) (ParseFloat (submatch m 1))) (FindAll percentRe prose)"

definition readBudget :: "string \<Rightarrow> Strategy \<Rightarrow> Strategy" where
  "readBudget prose s =
     (let s1 = (case budget_in prose of Some v \<Rightarrow> s\<lparr>sy_Budget := v\<rparr> | None \<Rightarrow> s)
      in s1\<lparr>sy_AlertThresholds := sort_f (sy_AlertThresholds s1 @ dedup_thresholds [] (percents_in prose))\<rparr>)"

definition rate_in :: "string list \<Rightarrow> f64 option" where
  "rate_in ws = first_some (\<lambda>w. if has_prefix ''$'' w then ParseFloat (trim_chars ''$,()'' w) else None) ws"

definition scaled :: "string list \<Rightarrow> f64 \<Rightarrow> f64" where
  "scaled ws rate =
     (if ''thousand'' \<in> set ws \<or> ''1k'' \<in> set ws then fmul rate (f_of_int 1000)
      else if ''token'' \<in> set ws \<and> ''million'' \<notin> set ws \<and> ''1m'' \<notin> set ws then fmul rate million
      else rate)"

definition price_sentence :: "string \<Rightarrow> Strategy \<Rightarrow> Strategy" where
  "price_sentence sentence s =
     (let ws = Fields (ToLower sentence) in
      case rate_in ws of
        None \<Rightarrow> s
      | Some r \<Rightarrow>
          (let rate = scaled ws r;
               s1 = (if ''input'' \<in> set ws then s\<lparr>sy_InputRatePerMillion := Some rate\<rparr> else s)
           in if ''output'' \<in> set ws then s1\<lparr>sy_OutputRatePerMillion := Some rate\<rparr> else s1))"

definition readPricing :: "string \<Rightarrow> Strategy \<Rightarrow> Strategy" where
  "readPricing prose s = fold price_sentence (sentences prose) (s\<lparr>sy_Pricing := prose\<rparr>)"

definition readSubagents :: "string \<Rightarrow> Strategy \<Rightarrow> Strategy" where
  "readSubagents prose s =
     (let s1 = s\<lparr>sy_SubagentSpawning := prose, sy_SubagentsConfigured := True,
                 sy_SubagentsEnabled := \<not> MatchString disabledRe prose\<rparr> in
      if sy_SubagentsEnabled s1 then
        (case find_re integerRe prose of
           Some m \<Rightarrow> s1\<lparr>sy_MaxSubagents := atoi_digits (submatch m 1)\<rparr> | None \<Rightarrow> s1)
      else s1)"

subsection \<open>Standing work\<close>

definition wrap64 :: "int \<Rightarrow> int" where
  \<comment> \<open>the value an int64 holds\<close>
  "wrap64 i = (i + 2 ^ 63) mod 2 ^ 64 - 2 ^ 63"

definition unit_ns :: "string \<Rightarrow> int" where
  "unit_ns u =
     (if u = ''second'' then second_ns else if u = ''minute'' then 60 * second_ns
      else if u = ''hour'' then 3600 * second_ns else if u = ''day'' then day_ns
      else if u = ''week'' then 7 * day_ns else 0)"

definition parsePeriod :: "string \<Rightarrow> duration" where
  "parsePeriod t =
     (case find_re periodRe t of
        None \<Rightarrow> 0
      | Some m \<Rightarrow>
          (let count = (if submatch m 1 \<noteq> [] then atoi_digits (submatch m 1) else 1) in
           if count \<le> 0 then 0 else wrap64 (count * unit_ns (ToLower (submatch m 2)))))"

definition cutPrefixFold :: "string \<Rightarrow> string \<Rightarrow> string option" where
  "cutPrefixFold s p =
     (if length s < length p \<or> ToLower (take (length p) s) \<noteq> ToLower p then None
      else (let rest = drop (length p) s in
            if rest \<noteq> [] \<and> hd rest \<noteq> CHR '' '' \<and> hd rest \<noteq> CHR '','' \<and> hd rest \<noteq> CHR '':''
            then None else Some (TrimSpace rest)))"

definition glue :: "char \<Rightarrow> bool" where
  "glue c \<longleftrightarrow> c \<in> set '',;:- '' \<or> c = CHR 0x09"

definition scheduledIntent :: "string \<Rightarrow> string" where
  "scheduledIntent bullet =
     (case find_re quotedRe bullet of
        Some m \<Rightarrow> TrimSpace (submatch m 1)
      | None \<Rightarrow>
          (let rest = trim_left glue (TrimSpace (ReplaceAll periodRe bullet []));
               r2 = (case first_some (cutPrefixFold rest) [''reason about'', ''reason'', ''run'', ''do''] of
                       Some t \<Rightarrow> t | None \<Rightarrow> rest)
           in TrimSpace (trim_left glue r2)))"

definition scheduled :: "string \<Rightarrow> ScheduledWork option" where
  "scheduled bullet =
     (if parsePeriod bullet \<le> 0 then None
      else if scheduledIntent bullet = [] then None
      else Some \<lparr>sw_Every = parsePeriod bullet, sw_Intent = scheduledIntent bullet\<rparr>)"

definition readSchedule :: "Body \<Rightarrow> Strategy \<Rightarrow> Strategy" where
  "readSchedule body s =
     s\<lparr>sy_Schedule := bd_Prose body,
       sy_ScheduledWork := sy_ScheduledWork s @ List.map_filter scheduled (bd_Bullets body)\<rparr>"

subsection \<open>Tools, knowledge, vocabulary, servers\<close>

definition declared_tool :: "string \<Rightarrow> Tool" where
  "declared_tool bullet =
     (let (name, description) = splitDeclaration bullet;
          (command, url, cleaned) = extractReach description
      in \<lparr>tl_Name = name, tl_Description = cleaned, tl_Command = command, tl_Origin = []\<rparr>)"

definition readTools :: "Body \<Rightarrow> Strategy \<Rightarrow> Strategy" where
  "readTools body s =
     (let s1 = s\<lparr>sy_Tools := sy_Tools s @ map declared_tool (bd_Bullets body)\<rparr>;
          prose = ToLower (bd_Prose body)
      in if prose \<noteq> [] \<and> (MatchString disabledRe prose \<or> contains_str ''fixed toolset'' prose \<or>
                           contains_str ''no new tools'' prose)
         then s1\<lparr>sy_ToolAcquisition := False\<rparr> else s1)"

definition declared_source :: "string \<Rightarrow> KnowledgeSource option" where
  "declared_source bullet =
     (let (name, description) = splitDeclaration bullet;
          (command, url, cleaned) = extractReach description;
          path = (if command = [] then TrimSpace description else command)
      in if name \<noteq> [] \<and> path \<noteq> [] then Some \<lparr>ks_Name = name, ks_Path = path\<rparr> else None)"

definition readKnowledge :: "Body \<Rightarrow> Strategy \<Rightarrow> Strategy" where
  "readKnowledge body s =
     s\<lparr>sy_KnowledgeSources := sy_KnowledgeSources s @ List.map_filter declared_source (bd_Bullets body)\<rparr>"

definition add_note :: "string \<Rightarrow> Ontology \<Rightarrow> Ontology" where
  "add_note t o1 = o1\<lparr>on_Notes := TrimSpace (on_Notes o1 @ [newline] @ t)\<rparr>"

definition ontology_bullet :: "string \<Rightarrow> Ontology \<Rightarrow> Ontology" where
  "ontology_bullet bullet o1 =
     (let (term, meaning) = splitDeclaration bullet in
      if meaning \<noteq> [] then Define term meaning o1 else add_note term o1)"

definition readOntology :: "Body \<Rightarrow> Strategy \<Rightarrow> Strategy" where
  "readOntology body s =
     (let o1 = fold ontology_bullet (bd_Bullets body) (sy_Ontology s)
      in s\<lparr>sy_Ontology := (if bd_Prose body \<noteq> [] then add_note (bd_Prose body) o1 else o1)\<rparr>)"

definition Reach :: "McpServer \<Rightarrow> string" where
  "Reach v = (if mc_Command v \<noteq> [] then mc_Command v else mc_URL v)"

definition Server_Describe :: "McpServer \<Rightarrow> string" where
  "Server_Describe v =
     mc_Name v @ (if mc_Description v \<noteq> [] then '': '' @ mc_Description v else []) @
     (if Reach v \<noteq> [] then '' (reached via `'' @ Reach v @ ''`)'' else [])"

definition declared_server :: "string \<Rightarrow> McpServer option" where
  "declared_server bullet =
     (let (name, description) = splitDeclaration bullet;
          (command, url, cleaned) = extractReach description
      in if TrimSpace name = [] then None
         else Some \<lparr>mc_Name = name, mc_Description = cleaned, mc_Command = command, mc_URL = url\<rparr>)"

definition readMCP :: "Body \<Rightarrow> Strategy \<Rightarrow> Strategy" where
  "readMCP body s =
     s\<lparr>sy_MCP := bd_Prose body,
       sy_McpServers := sy_McpServers s @ List.map_filter declared_server (bd_Bullets body)\<rparr>"

definition McpServerNamed :: "string \<Rightarrow> Strategy \<Rightarrow> McpServer option" where
  "McpServerNamed name s = find (\<lambda>v. Normalize (mc_Name v) = Normalize name) (sy_McpServers s)"

section \<open>Model selection\<close>

definition upper_word :: "char \<Rightarrow> bool" where
  "upper_word c \<longleftrightarrow> is_upper c \<or> is_digit c \<or> c = CHR ''_''"

definition envVarRe :: re where
  "envVarRe = seq [Bnd, Grp 1 (seq [Cls is_upper, Star (Cls upper_word), Alt (lit ''KEY'') (lit ''TOKEN''),
     Star (Cls upper_word)]), Bnd]"

definition temperatureRe :: re where
  "temperatureRe = seq [lit_fold ''temperature'', spaces,
     Opt (alt [lit_fold ''of'', lit ''='', lit '':'', lit_fold ''at'']), spaces,
     Grp 1 (seq [Star (Cls is_digit), Opt (lit ''.''), digits])]"

definition amount :: "nat \<Rightarrow> re" where
  "amount n = Grp n (plus (Cls (\<lambda>c. is_digit c \<or> c = CHR '','')))"

definition of_is :: re where
  "of_is = seq [spaces, Opt (alt [lit_fold ''of'', lit ''='', lit '':'']), spaces]"

definition tokens :: re where
  "tokens = seq [spaces, lit_fold ''token'', Opt (lit_fold ''s'')]"

definition maxTokensRe :: re where
  "maxTokensRe = alt
     [seq [lit_fold ''max'', Opt (one_of ''_ ''), lit_fold ''tokens'', of_is, amount 1],
      seq [lit_fold ''max'', Opt (lit_fold ''imum''), spaces1,
           alt [lit_fold ''output'', lit_fold ''response'', lit_fold ''reply''],
           Opt (Seq spaces1 (lit_fold ''length'')), of_is, amount 2, tokens],
      seq [lit_fold ''up'', spaces1, lit_fold ''to'', of_is, amount 3, tokens]]"

definition modelIDRe :: re where
  "modelIDRe = seq [Grp 1 (Seq (Cls is_letter) (Star (Cls (\<lambda>c. word_char c \<or> c = CHR ''-'')))), lit ''/'',
     Grp 2 (Seq (Cls is_letter) (Star (Cls (\<lambda>c. word_char c \<or> c \<in> set ''.:-''))))]"

definition lower_or_digit :: "char \<Rightarrow> bool" where
  "lower_or_digit c \<longleftrightarrow> is_lower c \<or> is_digit c"

definition modelTokenRe :: re where
  "modelTokenRe = seq [Bnd, Grp 1 (seq [Cls is_lower, Star (Cls lower_or_digit),
     plus (Seq (one_of ''-.:'') (plus (Cls lower_or_digit)))]), Bnd]"

definition providers :: "string list" where
  "providers =
     [''anthropic'', ''openai'', ''azure'', ''gemini'', ''vertex'', ''google'', ''bedrock'',
      ''mistral'', ''cohere'', ''groq'', ''together'', ''ollama'', ''deepseek'', ''vllm'']"

definition isProvider :: "string \<Rightarrow> bool" where
  "isProvider name \<longleftrightarrow> name \<in> set providers"

definition hasDigit :: "string \<Rightarrow> bool" where
  "hasDigit s \<longleftrightarrow> list_ex is_digit s"

definition named_model :: "string \<Rightarrow> (string \<times> string) option" where
  \<comment> \<open>a model written as provider/model\<close>
  "named_model prose =
     first_some (\<lambda>m. let left = ToLower (submatch m 1); right = trim_right (\<lambda>c. c = CHR ''.'') (submatch m 2)
                     in if isProvider left \<or> hasDigit right then Some (left, left @ ''/'' @ right) else None)
       (FindAll modelIDRe (ReplaceAll urlRe prose '' ''))"

definition guessed_model :: "string \<Rightarrow> (string \<times> string) option" where
  \<comment> \<open>a provider named as a word, and a token with a digit\<close>
  "guessed_model prose =
     (let lowered = ToLower prose in
      first_some (\<lambda>prov.
         if MatchString (seq [Bnd, lit prov, Bnd]) lowered then
           first_some (\<lambda>m. if fd_text m \<noteq> prov \<and> hasDigit (fd_text m)
                           then Some (prov, prov @ ''/'' @ fd_text m) else None) (FindAll modelTokenRe lowered)
         else None) providers)"

definition max_tokens_in :: "string \<Rightarrow> int" where
  "max_tokens_in prose =
     (case find_re maxTokensRe prose of
        None \<Rightarrow> 0
      | Some m \<Rightarrow>
          (case find (\<lambda>g. g \<noteq> []) [submatch m 1, submatch m 2, submatch m 3] of
             Some g \<Rightarrow> (case Atoi (filter (\<lambda>c. c \<noteq> CHR '','') g) of Some v \<Rightarrow> v | None \<Rightarrow> 0)
           | None \<Rightarrow> 0))"

definition parseModelProse :: "string \<Rightarrow> modelSpec" where
  "parseModelProse prose =
     (let spec = \<lparr>ms_Provider = [], ms_Model = [],
           ms_APIKeyEnvVar = (case find_re envVarRe prose of Some m \<Rightarrow> submatch m 1 | None \<Rightarrow> []),
           ms_APIBase = linked prose,
           ms_Temperature = (case find_re temperatureRe prose of Some m \<Rightarrow> ParseFloat (submatch m 1) | None \<Rightarrow> None),
           ms_MaxOutputTokens = max_tokens_in prose\<rparr>
      in case named_model prose of
           Some (p, m) \<Rightarrow> spec\<lparr>ms_Provider := p, ms_Model := m\<rparr>
         | None \<Rightarrow>
             (case guessed_model prose of
                Some (p, m) \<Rightarrow> spec\<lparr>ms_Provider := p, ms_Model := m\<rparr>
              | None \<Rightarrow> spec))"

definition readModel :: "string \<Rightarrow> Strategy \<Rightarrow> Strategy" where
  "readModel prose s = s\<lparr>sy_ModelSelection := prose, sy_Primary := parseModelProse prose\<rparr>"

definition readAuxiliaryModel :: "string \<Rightarrow> Strategy \<Rightarrow> Strategy" where
  "readAuxiliaryModel prose s = s\<lparr>sy_AuxModelSelection := prose, sy_Aux := parseModelProse prose\<rparr>"

section \<open>The whole document\<close>

definition mentions :: "string \<Rightarrow> string list \<Rightarrow> bool" where
  "mentions t ws \<longleftrightarrow> list_ex (\<lambda>w. contains_str w t) ws"

definition read_section :: "Section \<Rightarrow> Strategy \<Rightarrow> Strategy" where
  "read_section sec s =
     (let title = Normalize (sec_Name sec); body = StructuredBody sec []; prose = bd_Prose body in
      if mentions title [''ontolog'', ''vocabular''] then readOntology body s
      else if mentions title [''audit''] then readAudit prose s
      else if mentions title [''budget'', ''spend''] then readBudget prose s
      else if mentions title [''pricing'', ''price'', ''cost''] then readPricing prose s
      else if mentions title [''mcp''] then readMCP body s
      else if mentions title [''schedul'', ''standing work'', ''recurring''] then readSchedule body s
      else if mentions title [''knowledge''] then readKnowledge body s
      else if mentions title [''cross session'', ''persist''] then s\<lparr>sy_CrossSessionPath := declaredStorePath prose\<rparr>
      else if mentions title [''discover''] then s\<lparr>sy_SkillsDiscovery := prose\<rparr>
      else if mentions title [''toolset''] then s
      else if mentions title [''tool''] then readTools body s
      else if mentions title [''auxiliary'', ''summar''] then readAuxiliaryModel prose s
      else if mentions title [''model''] then readModel prose s
      else if mentions title [''spawn'', ''subagent'', ''sub-agent'', ''agent''] then readSubagents prose s
      else if mentions title [''history'', ''context'', ''memory''] then readContextHistory prose s
      else s)"

definition StrategyFromMarkdown :: "string \<Rightarrow> Strategy" where
  "StrategyFromMarkdown t = fold read_section (doc_Sections (ParseDocument t)) (empty_strategy t)"

section \<open>The client of the declared model\<close>

record HTTPClient =
  hc_Provider :: string
  hc_Model :: string
  hc_APIKey :: string
  hc_APIBase :: string
  hc_Temperature :: "f64 option"
  hc_MaxTokens :: int

definition ToUpper :: "string \<Rightarrow> string" where
  "ToUpper s = map upper_char s"

definition NewHTTPClient :: "(string \<Rightarrow> string) \<Rightarrow> string \<Rightarrow> string \<Rightarrow> string \<Rightarrow> string \<Rightarrow> HTTPClient" where
  \<comment> \<open>the first argument is os.Getenv\<close>
  "NewHTTPClient getenv provider model keyEnvVar apiBase =
     (let var = (if keyEnvVar = [] then ToUpper provider @ ''_API_KEY'' else keyEnvVar)
      in \<lparr>hc_Provider = provider, hc_Model = model, hc_APIKey = getenv var, hc_APIBase = apiBase,
          hc_Temperature = None, hc_MaxTokens = 0\<rparr>)"

definition clientFrom :: "(string \<Rightarrow> string) \<Rightarrow> modelSpec \<Rightarrow> HTTPClient option" where
  "clientFrom getenv spec =
     (if ms_Model spec = [] then None
      else (let client = NewHTTPClient getenv (ms_Provider spec) (ms_Model spec) (ms_APIKeyEnvVar spec) (ms_APIBase spec) in
            if hc_APIKey client = [] \<and> ms_APIBase spec = [] then None
            else Some (client\<lparr>hc_Temperature := ms_Temperature spec,
                              hc_MaxTokens := (if 0 < ms_MaxOutputTokens spec then ms_MaxOutputTokens spec else 0)\<rparr>)))"

definition ModelClient :: "(string \<Rightarrow> string) \<Rightarrow> Strategy \<Rightarrow> HTTPClient option" where
  "ModelClient getenv s = clientFrom getenv (sy_Primary s)"

definition AuxModelClient :: "(string \<Rightarrow> string) \<Rightarrow> Strategy \<Rightarrow> HTTPClient option" where
  "AuxModelClient getenv s = clientFrom getenv (sy_Aux s)"

end
