(* ===== verification/StrategyProps.thy ===== *)
theory StrategyProps
  imports StrategyFile
begin

text \<open>
  What the strategy read from memory.md is like whatever the author wrote: its numbers are in
  range, its standing work can run, its thresholds ascend, it names a credential and never holds
  one; which section a field comes from; and where the prose is misread.
\<close>

section \<open>What the expressions capture\<close>

lemma over_digits [simp]: "over is_digit digits"
  by (simp add: digits_def plus_def)

lemma groups_over_classes [simp]: "groups_over g digits" "groups_over g spaces" "groups_over g spaces1"
  by (simp_all add: digits_def spaces_def spaces1_def plus_def)

lemma integer_digits: "find_re integerRe t = Some m \<Longrightarrow> list_all is_digit (submatch m 1)"
proof -
  have "groups_over (\<lambda>_. is_digit) integerRe" by (simp add: integerRe_def)
  then show "find_re integerRe t = Some m \<Longrightarrow> list_all is_digit (submatch m 1)"
    unfolding find_re_def by (rule submatch_over)
qed

lemma credential_upper: "find_re envVarRe t = Some m \<Longrightarrow> list_all upper_word (submatch m 1)"
proof -
  have "groups_over (\<lambda>_. upper_word) envVarRe"
    by (simp add: envVarRe_def lit_def upper_word_def is_upper_def Let_def)
  then show "find_re envVarRe t = Some m \<Longrightarrow> list_all upper_word (submatch m 1)"
    unfolding find_re_def by (rule submatch_over)
qed

lemma atoi_digits_range:
  assumes "list_all is_digit s"
  shows "0 \<le> atoi_digits s \<and> atoi_digits s \<le> max_int64"
proof -
  have "(case s of [] \<Rightarrow> False | c # r \<Rightarrow> c = CHR ''-'') = False"
    using assms by (auto simp: is_digit_def split: list.splits)
  then have "0 \<le> v \<and> v \<le> max_int64" if "Atoi s = Some v" for v
    using that by (auto simp: Atoi_def Let_def split: if_splits list.splits)
  then show ?thesis by (auto simp: atoi_digits_def max_int64_def split: option.split)
qed

section \<open>The invariant of a strategy\<close>

definition spec_ok :: "modelSpec \<Rightarrow> bool" where
  "spec_ok spec \<longleftrightarrow>
     (ms_Provider spec = [] \<and> ms_Model spec = [] \<or>
      (\<exists>name. ms_Model spec = ms_Provider spec @ ''/'' @ name)) \<and>
     list_all upper_word (ms_APIKeyEnvVar spec) \<and>
     ms_MaxOutputTokens spec \<le> max_int64"

definition work_ok :: "ScheduledWork \<Rightarrow> bool" where
  "work_ok w \<longleftrightarrow> 0 < sw_Every w \<and> sw_Every w \<le> max_int64 \<and> sw_Intent w \<noteq> [] \<and> TrimSpace (sw_Intent w) = sw_Intent w"

definition strategy_inv :: "Strategy \<Rightarrow> bool" where
  "strategy_inv s \<longleftrightarrow>
     0 \<le> sy_HistoryCapacity s \<and> sy_HistoryCapacity s \<le> max_int64 \<and>
     0 \<le> sy_MaxSubagents s \<and> sy_MaxSubagents s \<le> max_int64 \<and>
     (sy_SubagentsEnabled s \<longrightarrow> sy_SubagentsConfigured s) \<and>
     sorted_wrt (\<lambda>x y. \<not> flt y x) (sy_AlertThresholds s) \<and> (\<forall>t \<in> set (sy_AlertThresholds s). flt fzero t) \<and>
     list_all work_ok (sy_ScheduledWork s) \<and>
     (\<forall>k \<in> set (sy_KnowledgeSources s). ks_Name k \<noteq> [] \<and> ks_Path k \<noteq> []) \<and>
     (\<forall>v \<in> set (sy_McpServers s). TrimSpace (mc_Name v) \<noteq> []) \<and>
     spec_ok (sy_Primary s) \<and> spec_ok (sy_Aux s)"

lemma insert_f_sorted:
  assumes "sorted_wrt (\<lambda>x y. \<not> flt y x) ys" "\<forall>y \<in> set ys. flt fzero y" "flt fzero x"
  shows "sorted_wrt (\<lambda>x y. \<not> flt y x) (insert_f x ys)"
  using assms
proof (induction ys)
  case (Cons y ys)
  show ?case
  proof (cases "flt y x")
    case True
    with Cons show ?thesis by (auto dest: flt_asym)
  next
    case False
    have "\<not> flt z x" if z: "z \<in> set ys" for z
    proof
      assume "flt z x"
      from z Cons.prems have "\<not> flt z y" "flt fzero z" "flt fzero y" by auto
      then have "flt y z \<or> feq y z" using flt_total [of y z] positive_number by blast
      with \<open>flt z x\<close> have "flt y x" by (auto intro: flt_trans feq_flt_trans)
      with False show False by simp
    qed
    with False Cons.prems show ?thesis by auto
  qed
qed simp

lemma sort_f_sorted: "\<forall>x \<in> set xs. flt fzero x \<Longrightarrow> sorted_wrt (\<lambda>x y. \<not> flt y x) (sort_f xs)"
proof (induction xs)
  case (Cons x xs)
  then have "sorted_wrt (\<lambda>x y. \<not> flt y x) (insert_f x (sort_f xs))" by (intro insert_f_sorted) auto
  then show ?case by (simp add: sort_f_def)
qed (simp add: sort_f_def)

lemma first_some_Some: "first_some f xs = Some y \<Longrightarrow> \<exists>x \<in> set xs. f x = Some y"
  by (induction xs) (auto split: option.splits)

lemma named_model_shape: "named_model t = Some (p, m) \<Longrightarrow> \<exists>name. m = p @ ''/'' @ name"
  by (auto simp: named_model_def Let_def dest!: first_some_Some split: if_splits)

lemma guessed_model_shape: "guessed_model t = Some (p, m) \<Longrightarrow> \<exists>name. m = p @ ''/'' @ name"
  by (auto simp: guessed_model_def Let_def dest!: first_some_Some split: if_splits)

lemma max_tokens_range: "max_tokens_in t \<le> max_int64"
  by (auto simp: max_tokens_in_def Atoi_def Let_def max_int64_def split: option.splits if_splits)

lemma parseModelProse_ok: "spec_ok (parseModelProse t)"
  using max_tokens_range [of t]
  by (auto simp: parseModelProse_def Let_def spec_ok_def
      dest: named_model_shape guessed_model_shape credential_upper split: option.split)

lemma wrap64_le: "wrap64 i \<le> max_int64"
proof -
  have "(i + 2 ^ 63) mod 2 ^ 64 < (2 :: int) ^ 64" by (rule pos_mod_bound) simp
  then show ?thesis by (simp add: wrap64_def max_int64_def)
qed

lemma parsePeriod_le: "parsePeriod t \<le> max_int64"
  using wrap64_le by (auto simp: parsePeriod_def Let_def max_int64_def split: option.split)

lemma TrimSpace_idem [simp]: "TrimSpace (TrimSpace s) = TrimSpace s"
  by (simp add: TrimSpace_def)

lemma scheduledIntent_trimmed: "TrimSpace (scheduledIntent b) = scheduledIntent b"
  by (simp add: scheduledIntent_def Let_def split: option.split)

lemma scheduled_ok: "scheduled b = Some w \<Longrightarrow> work_ok w"
  using parsePeriod_le [of b] scheduledIntent_trimmed [of b]
  by (auto simp: scheduled_def work_ok_def split: if_splits)

lemma map_filter_all: "(\<And>x y. f x = Some y \<Longrightarrow> P y) \<Longrightarrow> \<forall>y \<in> set (List.map_filter f xs). P y"
  by (induction xs) (auto simp: List.map_filter_simps split: option.splits)

lemma declared_source_ok: "declared_source b = Some k \<Longrightarrow> ks_Name k \<noteq> [] \<and> ks_Path k \<noteq> []"
  by (auto simp: declared_source_def Let_def split: prod.splits if_splits)

lemma declared_server_ok: "declared_server b = Some v \<Longrightarrow> TrimSpace (mc_Name v) \<noteq> []"
  by (auto simp: declared_server_def Let_def split: prod.splits if_splits)

section \<open>Each reader keeps it\<close>

lemma strategy_inv_prose [simp]:
  "strategy_inv (s\<lparr>sy_CrossSessionPath := p\<rparr>) = strategy_inv s"
  "strategy_inv (s\<lparr>sy_SkillsDiscovery := p\<rparr>) = strategy_inv s"
  "strategy_inv (s\<lparr>sy_Pricing := p\<rparr>) = strategy_inv s"
  by (simp_all add: strategy_inv_def)

lemma readSchedule_inv: "strategy_inv s \<Longrightarrow> strategy_inv (readSchedule b s)"
proof -
  have "\<forall>w \<in> set (List.map_filter scheduled (bd_Bullets b)). work_ok w"
    by (rule map_filter_all) (rule scheduled_ok)
  then show "strategy_inv s \<Longrightarrow> strategy_inv (readSchedule b s)"
    by (simp add: strategy_inv_def readSchedule_def list_all_iff ball_Un)
qed

lemma readKnowledge_inv: "strategy_inv s \<Longrightarrow> strategy_inv (readKnowledge b s)"
  using map_filter_all [of declared_source "\<lambda>k. ks_Name k \<noteq> [] \<and> ks_Path k \<noteq> []" "bd_Bullets b", OF declared_source_ok]
  by (simp add: strategy_inv_def readKnowledge_def ball_Un)

lemma readMCP_inv: "strategy_inv s \<Longrightarrow> strategy_inv (readMCP b s)"
  using map_filter_all [of declared_server "\<lambda>v. TrimSpace (mc_Name v) \<noteq> []" "bd_Bullets b", OF declared_server_ok]
  by (simp add: strategy_inv_def readMCP_def ball_Un)

lemma readBudget_inv: "strategy_inv s \<Longrightarrow> strategy_inv (readBudget t s)"
  using dedup_thresholds_props [of "[]" "percents_in t"]
  by (auto simp: strategy_inv_def readBudget_def Let_def intro!: sort_f_sorted split: option.split)

lemma readSubagents_inv: "strategy_inv s \<Longrightarrow> strategy_inv (readSubagents t s)"
  using integer_digits atoi_digits_range
  by (auto simp: strategy_inv_def readSubagents_def Let_def split: option.split)

lemma readContextHistory_inv: "strategy_inv s \<Longrightarrow> strategy_inv (readContextHistory t s)"
  using integer_digits atoi_digits_range
  by (auto simp: strategy_inv_def readContextHistory_def Let_def split: option.split)

lemma readAudit_inv: "strategy_inv s \<Longrightarrow> strategy_inv (readAudit t s)"
  by (auto simp: strategy_inv_def readAudit_def Let_def split: option.split)

lemma price_sentence_inv: "strategy_inv s \<Longrightarrow> strategy_inv (price_sentence t s)"
  by (auto simp: strategy_inv_def price_sentence_def Let_def split: option.split)

lemma readPricing_inv: "strategy_inv s \<Longrightarrow> strategy_inv (readPricing t s)"
proof -
  have f: "strategy_inv s \<Longrightarrow> strategy_inv (fold price_sentence ts s)" for ts s
    by (induction ts arbitrary: s) (simp_all add: price_sentence_inv)
  assume "strategy_inv s"
  then show ?thesis unfolding readPricing_def by (intro f) simp
qed

lemma readTools_inv: "strategy_inv s \<Longrightarrow> strategy_inv (readTools b s)"
  by (auto simp: strategy_inv_def readTools_def Let_def)

lemma readOntology_inv: "strategy_inv s \<Longrightarrow> strategy_inv (readOntology b s)"
  by (auto simp: strategy_inv_def readOntology_def Let_def)

lemma readModel_inv: "strategy_inv s \<Longrightarrow> strategy_inv (readModel t s)"
  by (auto simp: strategy_inv_def readModel_def parseModelProse_ok)

lemma readAuxiliaryModel_inv: "strategy_inv s \<Longrightarrow> strategy_inv (readAuxiliaryModel t s)"
  by (auto simp: strategy_inv_def readAuxiliaryModel_def parseModelProse_ok)

lemmas reader_inv =
  readOntology_inv readAudit_inv readBudget_inv readPricing_inv readMCP_inv readSchedule_inv readKnowledge_inv
  readTools_inv readAuxiliaryModel_inv readModel_inv readSubagents_inv readContextHistory_inv

lemma read_section_inv: "strategy_inv s \<Longrightarrow> strategy_inv (read_section sec s)"
  by (simp add: read_section_def Let_def reader_inv)

lemma fold_read_section_inv: "strategy_inv s \<Longrightarrow> strategy_inv (fold read_section secs s)"
  by (induction secs arbitrary: s) (simp_all add: read_section_inv)

lemma empty_strategy_inv: "strategy_inv (empty_strategy t)"
  by (simp add: strategy_inv_def empty_strategy_def spec_ok_def no_model_def max_int64_def)

text \<open>
  C39.  Whatever text memory.md holds, the strategy read from it is well formed: the history capacity
  and the subagent limit are numbers of 64 bits and not negative, the alert thresholds are
  positive and ascend, every piece of standing work has a positive period and an intent, every
  knowledge source a name and a path, every declared server a name; a model is named by its
  provider and an id, and the credential is a name in capitals, never a key.
\<close>
theorem strategy_well_formed: "strategy_inv (StrategyFromMarkdown t)"
  unfolding StrategyFromMarkdown_def by (rule fold_read_section_inv [OF empty_strategy_inv])

section \<open>Where a field comes from\<close>

definition model_section :: "Section \<Rightarrow> bool" where
  \<comment> \<open>the headings the dispatch reads as the primary model\<close>
  "model_section sec \<longleftrightarrow>
     (let title = Normalize (sec_Name sec) in
      mentions title [''model''] \<and>
      \<not> mentions title [''ontolog'', ''vocabular'', ''audit'', ''budget'', ''spend'', ''pricing'', ''price'', ''cost'',
        ''mcp'', ''schedul'', ''standing work'', ''recurring'', ''knowledge'', ''cross session'', ''persist'',
        ''discover'', ''toolset'', ''tool'', ''auxiliary'', ''summar''])"

definition auxiliary_section :: "Section \<Rightarrow> bool" where
  "auxiliary_section sec \<longleftrightarrow>
     (let title = Normalize (sec_Name sec) in
      mentions title [''auxiliary'', ''summar''] \<and>
      \<not> mentions title [''ontolog'', ''vocabular'', ''audit'', ''budget'', ''spend'', ''pricing'', ''price'', ''cost'',
        ''mcp'', ''schedul'', ''standing work'', ''recurring'', ''knowledge'', ''cross session'', ''persist'',
        ''discover'', ''toolset'', ''tool''])"

definition model_of :: "Section list \<Rightarrow> modelSpec" where
  \<comment> \<open>the model the last of some sections names\<close>
  "model_of secs = (if secs = [] then no_model else parseModelProse (bd_Prose (StructuredBody (last secs) [])))"

lemma Define_terms [simp]: "sy_Primary (readOntology b s) = sy_Primary s" "sy_Aux (readOntology b s) = sy_Aux s"
  by (simp_all add: readOntology_def Let_def)

lemma fold_prices [simp]:
  "sy_Primary (fold price_sentence ts s) = sy_Primary s" "sy_Aux (fold price_sentence ts s) = sy_Aux s"
  by (induction ts arbitrary: s) (simp_all add: price_sentence_def Let_def split: option.split)

lemma readers_keep_models [simp]:
  "sy_Primary (readAudit t s) = sy_Primary s" "sy_Aux (readAudit t s) = sy_Aux s"
  "sy_Primary (readBudget t s) = sy_Primary s" "sy_Aux (readBudget t s) = sy_Aux s"
  "sy_Primary (readPricing t s) = sy_Primary s" "sy_Aux (readPricing t s) = sy_Aux s"
  "sy_Primary (readMCP b s) = sy_Primary s" "sy_Aux (readMCP b s) = sy_Aux s"
  "sy_Primary (readSchedule b s) = sy_Primary s" "sy_Aux (readSchedule b s) = sy_Aux s"
  "sy_Primary (readKnowledge b s) = sy_Primary s" "sy_Aux (readKnowledge b s) = sy_Aux s"
  "sy_Primary (readTools b s) = sy_Primary s" "sy_Aux (readTools b s) = sy_Aux s"
  "sy_Primary (readSubagents t s) = sy_Primary s" "sy_Aux (readSubagents t s) = sy_Aux s"
  "sy_Primary (readContextHistory t s) = sy_Primary s" "sy_Aux (readContextHistory t s) = sy_Aux s"
  "sy_Primary (readAuxiliaryModel t s) = sy_Primary s" "sy_Aux (readModel t s) = sy_Aux s"
  by (simp_all add: readAudit_def readBudget_def readPricing_def readMCP_def readSchedule_def readKnowledge_def
      readTools_def readSubagents_def readContextHistory_def readAuxiliaryModel_def readModel_def Let_def
      split: option.split)

lemma read_section_primary:
  "sy_Primary (read_section sec s) =
     (if model_section sec then parseModelProse (bd_Prose (StructuredBody sec [])) else sy_Primary s)"
  by (simp add: read_section_def model_section_def mentions_def readModel_def Let_def)

lemma read_section_aux:
  "sy_Aux (read_section sec s) =
     (if auxiliary_section sec then parseModelProse (bd_Prose (StructuredBody sec [])) else sy_Aux s)"
  by (simp add: read_section_def auxiliary_section_def mentions_def readAuxiliaryModel_def Let_def)

lemma last_one_wins:
  assumes "\<And>x s. g (f x s) = (if p x then h x else g s)"
  shows "g (fold f xs s) = (if filter p xs = [] then g s else h (last (filter p xs)))"
  by (induction xs arbitrary: s) (simp_all add: assms)

text \<open>
  The primary model is the one named by the last section that is headed as a model section,
  and the auxiliary model by the last one headed as auxiliary: whatever their order, neither
  overwrites the other, and no other section of the file changes them.
\<close>
theorem models_do_not_collide:
  "sy_Primary (StrategyFromMarkdown t) = model_of (filter model_section (doc_Sections (ParseDocument t))) \<and>
   sy_Aux (StrategyFromMarkdown t) = model_of (filter auxiliary_section (doc_Sections (ParseDocument t))) \<and>
   \<not> (\<exists>sec. model_section sec \<and> auxiliary_section sec)"
proof (intro conjI)
  let ?secs = "doc_Sections (ParseDocument t)"
  show "sy_Primary (StrategyFromMarkdown t) = model_of (filter model_section ?secs)"
    unfolding StrategyFromMarkdown_def model_of_def
    by (subst last_one_wins [of sy_Primary, OF read_section_primary]) (simp add: empty_strategy_def)
  show "sy_Aux (StrategyFromMarkdown t) = model_of (filter auxiliary_section ?secs)"
    unfolding StrategyFromMarkdown_def model_of_def
    by (subst last_one_wins [of sy_Aux, OF read_section_aux]) (simp add: empty_strategy_def)
  show "\<not> (\<exists>sec. model_section sec \<and> auxiliary_section sec)"
    by (auto simp: model_section_def auxiliary_section_def mentions_def Let_def)
qed

section \<open>Prose that is misread\<close>

text \<open>
  A price with cents loses them: sentences are split at every full stop, the one inside an
  amount too, so a declared rate of $3.50 per million is read as $3.
\<close>
theorem price_loses_cents:
  "sy_InputRatePerMillion (readPricing ''Input tokens cost $3.50 per million'' (empty_strategy [])) = Some (f_of_int 3)"
proof -
  have s: "sentences ''Input tokens cost $3.50 per million'' = [''Input tokens cost $3'', ''50 per million'']"
    "Fields (ToLower ''Input tokens cost $3'') = [''input'', ''tokens'', ''cost'', ''$3'']"
    "Fields (ToLower ''50 per million'') = [''50'', ''per'', ''million'']"
    "trim_chars ''$,()'' ''$3'' = ''3''" by code_simp+
  have "ParseFloat ''3'' = Some (f_of_int 3)" by (simp add: parse_float_eval float_eval char_eval)
  then show ?thesis
    by (simp add: readPricing_def price_sentence_def rate_in_def scaled_def has_prefix_def s)
qed

text \<open>
  A period that does not fit 64 bits wraps around: work authored for every 30501 weeks (585
  years) is armed for about every three days.
\<close>
theorem period_wraps:
  "parsePeriod ''every 30501 weeks'' = 260726290448384 \<and> 260726290448384 < 4 * day_ns"
proof -
  obtain m where m: "find_re periodRe ''every 30501 weeks'' = Some m" "submatch m 1 = ''30501''" "submatch m 2 = ''week''"
  proof -
    have "map_option (\<lambda>m. (submatch m 1, submatch m 2)) (find_re periodRe ''every 30501 weeks'') = Some (''30501'', ''week'')"
      by code_simp
    then show thesis using that by auto
  qed
  have "atoi_digits ''30501'' = 30501"
    by (simp add: atoi_digits_def Atoi_def char_eval read_digits_def digit_val_def min_int64_def max_int64_def)
  moreover have "unit_ns (ToLower ''week'') = 7 * day_ns" by (simp add: unit_ns_def char_eval ToLower_def)
  ultimately show ?thesis using m by (simp add: parsePeriod_def wrap64_def day_ns_def second_ns_def)
qed

end
