(* ===== verification/Knowledge.thy ===== *)
theory Knowledge
  imports Stages
begin

text \<open>
  The reference corpus of \<^verbatim>\<open>knowledge.go\<close>: passages cut from documents, their ranking by BM25, and the
  index of model-written gists.  \<^verbatim>\<open>math.Log\<close> is the argument \<open>lg\<close>.  The order in which the source ranges
  over the set of query terms, which may differ from passage to passage, is the argument \<open>rng\<close>; the sums
  of floats depend on it.
\<close>

section \<open>Words\<close>

definition wordsOf :: "string \<Rightarrow> string list" where
  "wordsOf t = Fields (ToLower (map (\<lambda>c. if is_letter c \<or> is_digit c then c else CHR '' '') t))"

definition contentHash :: "string \<Rightarrow> string" where
  "contentHash t = take 12 (sha256_hex t)"

definition Fingerprint :: "Passage \<Rightarrow> string" where
  "Fingerprint p = contentHash (ps_Text p)"

definition searchable :: "Passage \<Rightarrow> string" where
  "searchable p = (if ps_Gist p \<noteq> [] then ps_Text p @ newline # ps_Gist p else ps_Text p)"

definition count_in :: "string list \<Rightarrow> string \<Rightarrow> nat" where
  \<comment> \<open>an entry of the map countWordsIn builds\<close>
  "count_in ws w = length (filter (\<lambda>v. v = w) ws)"

section \<open>Documents\<close>

function split_on :: "string \<Rightarrow> string \<Rightarrow> string list" where
  \<comment> \<open>strings.Split on a separator that is not empty\<close>
  "split_on sep s =
     (case cut_at sep s of
        Some (a, b) \<Rightarrow> if length b < length s then a # split_on sep b else [s]
      | None \<Rightarrow> [s])"
  by pat_completeness auto

termination
  by (relation "measure (\<lambda>(sep, s). length s)") auto

declare split_on.simps [simp del]

definition new_passage :: "string \<Rightarrow> string \<Rightarrow> Passage" where
  "new_passage source t = \<lparr>ps_Source = source, ps_Text = t, ps_Gist = []\<rparr>"

definition section_content :: "Section \<Rightarrow> string" where
  "section_content sec =
     (let body = StructuredBody sec [] in
      join_with [newline]
        ((if bd_Prose body \<noteq> [] then [bd_Prose body] else []) @ map (\<lambda>b. ''- '' @ b) (bd_Bullets body) @ bd_Numbered body))"

definition section_mark :: string where
  \<comment> \<open>the section sign, in the two bytes of its encoding, between spaces\<close>
  "section_mark = [CHR '' '', CHR 0xC2, CHR 0xA7, CHR '' '']"

definition AddDocument :: "string \<Rightarrow> string \<Rightarrow> string \<Rightarrow> Passage list \<Rightarrow> Passage list" where
  "AddDocument sourceName filename t ps =
     (let source = sourceName @ '' -- '' @ filename in
      if has_suffix ''.md'' filename then
        (let doc = ParseDocument t in
         ps @ (if doc_Preamble doc \<noteq> []
               then [new_passage source (doc_Preamble doc)] else []) @
         map (\<lambda>sec. new_passage (source @ section_mark @ sec_Name sec) (section_content sec))
           (filter (\<lambda>sec. section_content sec \<noteq> []) (doc_Sections doc)))
      else
        ps @ map (new_passage source) (filter (\<lambda>c. c \<noteq> []) (map (\<lambda>p. join_with '' '' (Fields p)) (split_on [newline, newline] t))))"

section \<open>Ranking\<close>

definition bm25K1 :: f64 where "bm25K1 = fdiv (f_of_int 3) (f_of_int 2)"
definition bm25B :: f64 where "bm25B = fdiv (f_of_int 3) (f_of_int 4)"

definition saturationFloor :: "nat \<Rightarrow> f64 \<Rightarrow> f64" where
  "saturationFloor len avgLen =
     fmul bm25K1 (fadd (fsub (f_of_int 1) bm25B) (fdiv (fmul bm25B (f_of_int (int len))) avgLen))"

definition doc_freq :: "string list list \<Rightarrow> string \<Rightarrow> f64" where
  "doc_freq docs term = f_of_int (int (length (filter (\<lambda>d. 0 < count_in d term) docs)))"

definition idf :: "(f64 \<Rightarrow> f64) \<Rightarrow> f64 \<Rightarrow> f64 \<Rightarrow> f64" where
  "idf lg n_docs freq =
     (let half = fdiv (f_of_int 1) (f_of_int 2)
      in lg (fadd (f_of_int 1) (fdiv (fadd (fsub n_docs freq) half) (fadd freq half))))"

definition add_term :: "(f64 \<Rightarrow> f64) \<Rightarrow> string list list \<Rightarrow> string list \<Rightarrow> f64 \<Rightarrow> string \<Rightarrow> f64 \<Rightarrow> f64" where
  "add_term lg docs d flr term score =
     (let c = f_of_int (int (count_in d term)) in
      if count_in d term = 0 then score
      else fadd score
             (fdiv (fmul (idf lg (f_of_int (int (length docs))) (doc_freq docs term)) (fmul c (fadd bm25K1 (f_of_int 1))))
                (fadd c flr)))"

definition passage_score :: "(f64 \<Rightarrow> f64) \<Rightarrow> string list list \<Rightarrow> string list \<Rightarrow> string list \<Rightarrow> f64" where
  "passage_score lg docs terms d =
     (let avgLen = fdiv (f_of_int (int (sum_list (map length docs)))) (f_of_int (int (length docs)))
      in fold (add_term lg docs d (saturationFloor (length d) avgLen)) terms fzero)"

fun rank_insert :: "f64 \<times> Passage \<Rightarrow> (f64 \<times> Passage) list \<Rightarrow> (f64 \<times> Passage) list" where
  "rank_insert x [] = [x]"
| "rank_insert x (y # ys) = (if flt (fst y) (fst x) then x # y # ys else y # rank_insert x ys)"

definition rank_passages :: "(f64 \<times> Passage) list \<Rightarrow> (f64 \<times> Passage) list" where
  \<comment> \<open>sort.SliceStable, highest score first\<close>
  "rank_passages xs = fold rank_insert xs []"

definition head_passages :: "int \<Rightarrow> Passage list \<Rightarrow> Passage list" where
  "head_passages limit ps = take (nat limit) ps"

definition scored_passages ::
  "(f64 \<Rightarrow> f64) \<Rightarrow> (nat \<Rightarrow> string list \<Rightarrow> string list) \<Rightarrow> Passage list \<Rightarrow> string list \<Rightarrow> (f64 \<times> Passage) list" where
  "scored_passages lg rng ps terms =
     (let docs = map (\<lambda>p. wordsOf (searchable p)) ps in
      filter (\<lambda>(s, p). flt fzero s)
        (map (\<lambda>(i, p). (passage_score lg docs (rng i terms) (wordsOf (searchable p)), p)) (enumerate 0 ps)))"

definition Candidates ::
  "(f64 \<Rightarrow> f64) \<Rightarrow> (nat \<Rightarrow> string list \<Rightarrow> string list) \<Rightarrow> Passage list \<Rightarrow> string \<Rightarrow> int \<Rightarrow> Passage list" where
  "Candidates lg rng ps query limit =
     (let terms = remdups (wordsOf query) in
      if length terms = 0 \<or> length ps = 0 then head_passages limit ps
      else (let ranked = scored_passages lg rng ps terms in
            if length ranked = 0 then head_passages limit ps
            else take (nat limit) (map snd (rank_passages ranked))))"

definition Narrowing :: "Passage list \<Rightarrow> string" where
  "Narrowing ps =
     (if list_ex (\<lambda>p. ps_Gist p \<noteq> []) ps then ''BM25 over passage text and index gists''
      else ''BM25 over passage text alone (no gist index)'')"

section \<open>The index\<close>

fun Index :: "provider \<Rightarrow> Passage list \<Rightarrow> LMState \<Rightarrow> (Passage list \<times> nat \<times> ear_error option) \<times> LMState" where
  \<comment> \<open>the passages, how many were gisted, and the error that stopped it\<close>
  "Index model [] s = (([], 0, None), s)"
| "Index model (p # ps) s =
     (if ps_Gist p \<noteq> [] then
        (let ((ps', n, e), s') = Index model ps s in ((p # ps', n, e), s'))
      else
        (case Signature_Run model GistPassage [VStr (Passage_Render p)] s of
           (Inl e, s') \<Rightarrow> ((p # ps, 0, Some e), s')
         | (Inr out, s') \<Rightarrow>
             (let gist = TrimSpace (out_text out 0);
                  p' = (if gist \<noteq> [] then p\<lparr>ps_Gist := gist\<rparr> else p);
                  ((ps', n, e), s'') = Index model ps s'
              in ((p' # ps', (if gist \<noteq> [] then Suc n else n), e), s''))))"

definition corpus_librarian :: "(f64 \<Rightarrow> f64) \<Rightarrow> (nat \<Rightarrow> string list \<Rightarrow> string list) \<Rightarrow> Passage list \<Rightarrow> Librarian" where
  \<comment> \<open>a librarian over a corpus, its limits not set\<close>
  "corpus_librarian lg rng ps =
     \<lparr>ln_Passages = ps, ln_Candidates = Candidates lg rng ps, ln_Narrowing = Narrowing ps,
      ln_CandidateLimit = 0, ln_KeepLimit = 0\<rparr>"

section \<open>The best passages\<close>

lemma set_rank_insert [simp]: "set (rank_insert x ys) = insert x (set ys)"
  by (induction ys) auto

lemma mset_rank_insert [simp]: "mset (rank_insert x ys) = add_mset x (mset ys)"
  by (induction ys) auto

definition descending :: "(f64 \<times> Passage) list \<Rightarrow> bool" where
  "descending xs \<longleftrightarrow> sorted_wrt (\<lambda>x y. \<not> flt (fst x) (fst y)) xs"

lemma rank_insert_descending:
  assumes "descending ys" "flt fzero (fst x)" "\<forall>y \<in> set ys. flt fzero (fst y)"
  shows "descending (rank_insert x ys)"
  using assms
proof (induction ys)
  case (Cons y ys)
  show ?case
  proof (cases "flt (fst y) (fst x)")
    case True
    have "\<not> flt (fst x) (fst z)" if z: "z \<in> set ys" for z
    proof
      assume "flt (fst x) (fst z)"
      with True have "flt (fst y) (fst z)" by (rule flt_trans)
      with Cons.prems(1) z show False by (auto simp: descending_def)
    qed
    with True Cons.prems show ?thesis by (auto simp: descending_def dest: flt_asym)
  next
    case False
    with Cons show ?thesis by (auto simp: descending_def)
  qed
qed (simp add: descending_def)

lemma rank_passages_props:
  assumes "\<forall>x \<in> set xs. flt fzero (fst x)"
  shows "descending (rank_passages xs) \<and> mset (rank_passages xs) = mset xs"
proof -
  have "descending (fold rank_insert xs acc) \<and> mset (fold rank_insert xs acc) = mset xs + mset acc"
    if "descending acc" "\<forall>x \<in> set xs. flt fzero (fst x)" "\<forall>x \<in> set acc. flt fzero (fst x)" for acc
    using that by (induction xs arbitrary: acc) (simp_all add: rank_insert_descending)
  from this [of "[]"] assms show ?thesis by (simp add: rank_passages_def descending_def)
qed

lemma scored_positive: "x \<in> set (scored_passages lg rng ps ts) \<Longrightarrow> flt fzero (fst x)"
  by (auto simp: scored_passages_def Let_def)

text \<open>
  The passages returned for a query are the best: of the passages that match at all, ranked by
  their score, the first of the ranking up to the limit; a query nothing matches gets the first
  passages of the corpus.
\<close>
theorem candidates_are_best:
  "\<exists>chosen rest.
     mset (chosen @ rest) = mset (scored_passages lg rng ps (remdups (wordsOf query))) \<and>
     descending (chosen @ rest) \<and>
     Candidates lg rng ps query limit =
       (if wordsOf query = [] \<or> chosen @ rest = [] then take (nat limit) ps else map snd chosen) \<and>
     length chosen = min (nat limit) (length (chosen @ rest))"
proof -
  let ?scored = "scored_passages lg rng ps (remdups (wordsOf query))"
  let ?r = "rank_passages ?scored"
  have r: "descending ?r" "mset ?r = mset ?scored"
    using rank_passages_props [of ?scored] scored_positive by blast+
  have e: "?r = [] \<longleftrightarrow> ?scored = []" using r(2) by (metis mset_zero_iff_right)
  have "ps = [] \<Longrightarrow> ?scored = []" by (simp add: scored_passages_def)
  then have "Candidates lg rng ps query limit =
      (if wordsOf query = [] \<or> ?r = [] then take (nat limit) ps else map snd (take (nat limit) ?r))"
    by (simp add: Candidates_def head_passages_def Let_def e take_map)
  with r show ?thesis
    by (intro exI [of _ "take (nat limit) ?r"] exI [of _ "drop (nat limit) ?r"]) (simp add: min.commute)
qed

end
