(* ===== verification/StackFiles.thy ===== *)
theory StackFiles
  imports StrategyFile
begin

text \<open>
  The stacked files of \<^verbatim>\<open>loader.go\<close>: skills, personas, policies, workflows, processes and the tenant, each
  parsed from one document, with their cross-references resolved.  A parsed object's address is the
  number of its section; the skills written inside a persona are numbered after the sections of
  the skills file.  A map from names to objects is an association list.  A workflow is mutated
  through its pointer after processes hold it, so that mutation is applied to every copy with its
  address.
\<close>

section \<open>Errors\<close>

fun foldR :: "('a \<Rightarrow> 's \<Rightarrow> ('e, 's) outcome) \<Rightarrow> 'a list \<Rightarrow> 's \<Rightarrow> ('e, 's) outcome" where
  \<comment> \<open>a loop that returns at the first error\<close>
  "foldR f [] s = Inr s"
| "foldR f (x # xs) s = bindR (f x s) (foldR f xs)"

type_synonym 'a loaded = "(string, 'a) outcome"

definition quoted :: "string \<Rightarrow> string" where
  "quoted s = [CHR 0x27] @ s @ [CHR 0x27]"

definition resolve :: "(string \<times> 'a) list \<Rightarrow> string \<Rightarrow> string \<Rightarrow> ('a \<Rightarrow> string) \<Rightarrow> 'a loaded" where
  "resolve m reference kind nameOf =
     (case map_of m (Normalize reference) of
        Some v \<Rightarrow> Inr v
      | None \<Rightarrow>
          (let known = map (\<lambda>k. nameOf (the (map_of m k))) (sorted_keys m);
               list = (if 0 < length known then join_with '', '' known else ''none'')
           in Inl (''unknown '' @ kind @ '' '' @ quoted reference @ '' referenced in the stack -- known '' @ kind @
                   ''s: '' @ list)))"

definition resolveSkill :: "(string \<times> Skill) list \<Rightarrow> string \<Rightarrow> Skill loaded" where
  "resolveSkill m ref = resolve m ref ''skill'' sk_Name"

definition resolvePersona :: "(string \<times> Persona) list \<Rightarrow> string \<Rightarrow> Persona loaded" where
  "resolvePersona m ref = resolve m ref ''persona'' pe_Name"

definition resolvePolicy :: "(string \<times> Policy) list \<Rightarrow> string \<Rightarrow> Policy loaded" where
  "resolvePolicy m ref = resolve m ref ''policy'' po_Name"

definition resolveWorkflow :: "(string \<times> Workflow) list \<Rightarrow> string \<Rightarrow> Workflow loaded" where
  "resolveWorkflow m ref = resolve m ref ''workflow'' wf_Name"

section \<open>Helpers\<close>

definition joinProse :: "Body \<Rightarrow> string" where
  "joinProse body =
     join_with [newline]
       ((if bd_Prose body \<noteq> [] then [bd_Prose body] else []) @ map (\<lambda>b. ''- '' @ b) (bd_Bullets body))"

definition splitReferences :: "string \<Rightarrow> string list" where
  \<comment> \<open>the separators are the two characters of refSplit\<close>
  "splitReferences value =
     (if value = [] then []
      else filter (\<lambda>p. p \<noteq> [])
             (map TrimSpace (concat (map (split_char CHR '';'') (split_char CHR '','' value)))))"

definition delegationParen :: re where
  "delegationParen = seq [lit ''('', Grp 1 (plus (Cls (\<lambda>c. c \<notin> set ''()''))), lit '')'', spaces, End]"

definition delegationSquare :: re where
  "delegationSquare = seq [lit ''['', Grp 1 (plus (Cls (\<lambda>c. c \<notin> set ''[]''))), lit '']'', spaces, End]"

definition delegationDash :: re where
  "delegationDash =
     seq [Cls re_space, lit ''--'', spaces, Grp 1 (Seq (Cls (\<lambda>_. True)) (Lazy (Cls (\<lambda>_. True)))), spaces, End]"

definition delegationPrefix :: re where
  "delegationPrefix =
     seq [Beg, alt [seq [lit_fold ''delegate'', Opt (lit_fold ''d''), spaces1, lit_fold ''to''], lit_fold ''persona'', lit_fold ''by''],
          spaces, Opt (lit '':''), spaces]"

definition delegation_by :: "string \<Rightarrow> (string \<times> Persona) list \<Rightarrow> re \<Rightarrow> (string \<times> Persona) option" where
  "delegation_by item personas pattern =
     (case find_re pattern item of
        None \<Rightarrow> None
      | Some m \<Rightarrow>
          (let who = ReplaceAll delegationPrefix (TrimSpace (submatch m 1)) [] in
           map_option (Pair (trim_right (\<lambda>c. c = CHR '' '') (fd_before m))) (map_of personas (Normalize who))))"

definition splitDelegation :: "string \<Rightarrow> (string \<times> Persona) list \<Rightarrow> string \<times> Persona option" where
  "splitDelegation item personas =
     (case first_some (delegation_by item personas) [delegationParen, delegationSquare, delegationDash] of
        Some (instruction, p) \<Rightarrow> (instruction, Some p)
      | None \<Rightarrow> (item, None))"

section \<open>Skills and personas\<close>

definition key_of :: "Section \<Rightarrow> string" where
  "key_of sec = Normalize (sec_Name sec)"

definition load_skill :: "nat \<Rightarrow> Section \<Rightarrow> Skill" where
  "load_skill i sec =
     (let body = StructuredBody sec [''description''] in
      \<lparr>sk_ref = i, sk_Name = sec_Name sec, sk_Prompt = joinProse body, sk_Description = Field body [''description''],
       sk_Version = [], sk_Author = []\<rparr>)"

definition loadSkills :: "Document \<Rightarrow> (string \<times> Skill) list" where
  "loadSkills doc =
     fold (\<lambda>(i, sec) m. map_put (key_of sec) (load_skill i sec) m) (enumerate 0 (doc_Sections doc)) []"

definition persona_ref :: "(string \<times> Skill) list \<Rightarrow> string \<Rightarrow> Persona \<Rightarrow> Persona loaded" where
  "persona_ref skills ref p = bindR (resolveSkill skills ref) (\<lambda>s. Inr (AddSkill p s))"

definition inline_skill :: "nat \<Rightarrow> string \<Rightarrow> string \<Rightarrow> Skill" where
  "inline_skill n name prompt =
     \<lparr>sk_ref = n, sk_Name = TrimSpace name, sk_Prompt = TrimSpace prompt, sk_Description = [], sk_Version = [],
      sk_Author = []\<rparr>"

definition persona_bullet :: "(string \<times> Skill) list \<Rightarrow> string \<Rightarrow> nat \<times> Persona \<Rightarrow> (nat \<times> Persona) loaded" where
  "persona_bullet skills bullet np =
     (case map_of skills (Normalize bullet) of
        Some s \<Rightarrow> Inr (fst np, AddSkill (snd np) s)
      | None \<Rightarrow>
          (case cut_at '':'' bullet of
             Some (name, prompt) \<Rightarrow> Inr (Suc (fst np), AddSkill (snd np) (inline_skill (fst np) name prompt))
           | None \<Rightarrow> bindR (resolveSkill skills bullet) (\<lambda>_. Inr np)))"

definition load_persona :: "(string \<times> Skill) list \<Rightarrow> nat \<Rightarrow> Section \<Rightarrow> nat \<Rightarrow> (nat \<times> Persona) loaded" where
  "load_persona skills i sec n =
     (let body = StructuredBody sec [''skills'', ''skill''];
          p = \<lparr>pe_ref = i, pe_Name = sec_Name sec, pe_Instructions = bd_Prose body, pe_Skills = []\<rparr>
      in bindR (foldR (persona_ref skills) (splitReferences (Field body [''skills'', ''skill''])) p)
           (\<lambda>p1. foldR (persona_bullet skills) (bd_Bullets body) (n, p1)))"

definition loadPersonas :: "nat \<Rightarrow> Document \<Rightarrow> (string \<times> Skill) list \<Rightarrow> (string \<times> Persona) list loaded" where
  \<comment> \<open>the first argument is the first free address of a skill\<close>
  "loadPersonas n doc skills =
     map_sum id snd
       (foldR (\<lambda>(i, sec) (n, m). bindR (load_persona skills i sec n) (\<lambda>(n', p). Inr (n', map_put (key_of sec) p m)))
          (enumerate 0 (doc_Sections doc)) (n, []))"

section \<open>Policies\<close>

definition readApprovalField :: "string \<Rightarrow> string \<Rightarrow> bool loaded" where
  "readApprovalField policyName value =
     (if value = [] then Inr False
      else (let ws = Fields (Normalize value) in
            if list_ex (\<lambda>no. no \<in> set ws) [''no'', ''not'', ''none'', ''never'', ''false''] then Inr False
            else if list_ex (\<lambda>yes. yes \<in> set ws) [''required'', ''needed'', ''mandatory'', ''human'', ''yes'', ''true'']
            then Inr True
            else Inl (''policy '' @ quoted policyName @ '' has an unreadable Approval field '' @ quoted value @
                      '' -- write '' @ quoted ''Approval: required'' @ '' or '' @ quoted ''Approval: not required'')))"

definition policy_keys :: "string list" where
  "policy_keys =
     [''fallback'', ''fallback expression'', ''applies to'', ''applies'', ''scope'', ''approval'', ''approvers'',
      ''approver'', ''escalate'', ''escalation'']"

definition escalation_days :: "string \<Rightarrow> string \<Rightarrow> f64 option loaded" where
  "escalation_days policyName escalation =
     (if escalation = [] then Inr None
      else (case daysInProse escalation of
              Some days \<Rightarrow> Inr (Some days)
            | None \<Rightarrow>
                Inl (''policy '' @ quoted policyName @ '' declares Escalate '' @ quoted escalation @
                     '' but no readable period -- write '' @ quoted ''Escalate: after 3 days'')))"

definition load_policy :: "nat \<Rightarrow> Section \<Rightarrow> Policy loaded" where
  "load_policy i sec =
     (let body = StructuredBody sec policy_keys; escalation = Field body [''escalate'', ''escalation''] in
      bindR (readApprovalField (sec_Name sec) (Field body [''approval''])) (\<lambda>approval.
      bindR (escalation_days (sec_Name sec) escalation) (\<lambda>days.
      Inr \<lparr>po_ref = i, po_Name = sec_Name sec, po_Statement = joinProse body,
           po_FallbackExpression = Field body [''fallback'', ''fallback expression''], po_ApprovalRequired = approval,
           po_Approvers = splitReferences (Field body [''approvers'', ''approver'']), po_Escalation = escalation,
           po_EscalationDays = days, po_Gate = None\<rparr>)))"

definition policy_scope :: "Section \<Rightarrow> string" where
  "policy_scope sec = Field (StructuredBody sec policy_keys) [''applies to'', ''applies'', ''scope'']"

type_synonym policy_files = "(string \<times> Policy) list \<times> (string \<times> string) list"

definition loadPolicies :: "Document \<Rightarrow> policy_files loaded" where
  "loadPolicies doc =
     foldR (\<lambda>(i, sec) (policies, scopes).
        bindR (load_policy i sec) (\<lambda>p.
          Inr (map_put (key_of sec) p policies, map_put (key_of sec) (policy_scope sec) scopes)))
       (enumerate 0 (doc_Sections doc)) ([], [])"

section \<open>Workflows\<close>

definition contract_bullet :: "string \<Rightarrow> string \<Rightarrow> Contract \<Rightarrow> Contract loaded" where
  "contract_bullet workflow bullet c =
     (case (case cut_at '': '' bullet of Some kv \<Rightarrow> Some kv | None \<Rightarrow> cut_at '':'' bullet) of
        Some (name, meaning) \<Rightarrow>
          if TrimSpace name \<noteq> [] then Inr (AddField c (TrimSpace name) (TrimSpace meaning))
          else Inl (''deliverable field '' @ quoted bullet @ '' in '' @ quoted workflow @ '' must be written as '' @
                    quoted ''name: meaning'')
      | None \<Rightarrow> Inl (''deliverable field '' @ quoted bullet @ '' in '' @ quoted workflow @ '' must be written as '' @
                    quoted ''name: meaning''))"

definition loadContract :: "Section \<Rightarrow> Workflow \<Rightarrow> Contract loaded" where
  "loadContract sec w =
     (let body = StructuredBody sec [];
          c0 = \<lparr>ct_Name = wf_Name w @ '' Deliverable'', ct_Description = bd_Prose body, ct_Fields = []\<rparr>
      in bindR (foldR (contract_bullet (wf_Name w)) (bd_Bullets body) c0) (\<lambda>c.
           if length (ct_Fields c) = 0
           then Inl (''deliverable of '' @ quoted (wf_Name w) @ '' declares no fields -- add '' @ quoted ''- name: meaning'' @
                     '' bullets'')
           else Inr c))"

definition workflow_keys :: "string list" where
  "workflow_keys =
     [''persona'', ''delegate to'', ''delegate'', ''policies'', ''policy'', ''pattern'', ''routes'', ''route'', ''retries'',
      ''retry'']"

definition retry_budget :: "string \<Rightarrow> string \<Rightarrow> int option loaded" where
  "retry_budget workflow retries =
     (if retries = [] then Inr None
      else (case countInProse retries of
              Some count \<Rightarrow> Inr (Some count)
            | None \<Rightarrow>
                Inl (''workflow '' @ quoted workflow @ '' declares Retries '' @ quoted retries @
                     '' but no readable count -- write '' @ quoted ''Retries: retry a failed leg twice'')))"

definition default_persona :: "(string \<times> Persona) list \<Rightarrow> string \<Rightarrow> Persona option loaded" where
  "default_persona personas ref =
     (if ref = [] then Inr None else bindR (resolvePersona personas ref) (\<lambda>p. Inr (Some p)))"

definition add_item :: "(string \<times> Persona) list \<Rightarrow> Persona option \<Rightarrow> string \<Rightarrow> Workflow \<Rightarrow> Workflow" where
  "add_item personas def item w =
     (let (instruction, persona) = splitDelegation item personas
      in AddStep w instruction (case persona of Some p \<Rightarrow> Some p | None \<Rightarrow> def))"

definition workflow_policy :: "(string \<times> Policy) list \<Rightarrow> string \<Rightarrow> Workflow \<Rightarrow> Workflow loaded" where
  "workflow_policy policies ref w = bindR (resolvePolicy policies ref) (\<lambda>p. Inr (AddPolicy w p))"

definition load_workflow ::
  "(string \<times> Persona) list \<Rightarrow> (string \<times> Policy) list \<Rightarrow> nat \<Rightarrow> Section \<Rightarrow> Workflow loaded" where
  "load_workflow personas policies i sec =
     (let body = StructuredBody sec workflow_keys in
      bindR (retry_budget (sec_Name sec) (Field body [''retries'', ''retry''])) (\<lambda>retries.
      bindR (default_persona personas (Field body [''persona'', ''delegate to'', ''delegate''])) (\<lambda>def.
      (let w0 = \<lparr>wf_ref = i, wf_Name = sec_Name sec, wf_Personas = [], wf_Steps = [], wf_Policies = [],
                 wf_Contract = None, wf_Pattern = Field body [''pattern''], wf_Routes = Field body [''routes'', ''route''],
                 wf_RetryBudget = retries\<rparr>;
           items = (if length (bd_Numbered body) = 0 then bd_Bullets body else bd_Numbered body);
           w1 = fold (add_item personas def) items w0
       in foldR (workflow_policy policies) (splitReferences (Field body [''policies'', ''policy''])) w1))))"

record workflow_state =
  ws_map :: "(string \<times> Workflow) list"
  ws_order :: "string list"
  ws_last :: "(string \<times> Workflow) option"  \<comment> \<open>the last workflow and the key it is stored under\<close>

definition is_deliverable :: "Section \<Rightarrow> bool" where
  "is_deliverable sec \<longleftrightarrow> contains_str ''deliverable'' (Normalize (sec_Name sec))"

definition workflow_section ::
  "(string \<times> Persona) list \<Rightarrow> (string \<times> Policy) list \<Rightarrow> nat \<times> Section \<Rightarrow> workflow_state \<Rightarrow> workflow_state loaded" where
  "workflow_section personas policies isec st =
     (let (i, sec) = isec in
      if is_deliverable sec then
        (case ws_last st of
           None \<Rightarrow> Inl (''deliverable section '' @ quoted (sec_Name sec) @ '' has no workflow above it to attach to'')
         | Some (key, w) \<Rightarrow>
             bindR (loadContract sec w) (\<lambda>c.
               (let w' = w\<lparr>wf_Contract := Some c\<rparr>
                in Inr (st\<lparr>ws_map := map_put key w' (ws_map st), ws_last := Some (key, w')\<rparr>))))
      else
        bindR (load_workflow personas policies i sec) (\<lambda>w.
          Inr (st\<lparr>ws_map := map_put (key_of sec) w (ws_map st), ws_order := ws_order st @ [key_of sec],
                  ws_last := Some (key_of sec, w)\<rparr>)))"

definition no_workflows :: workflow_state where
  "no_workflows = \<lparr>ws_map = [], ws_order = [], ws_last = None\<rparr>"

definition loadWorkflows ::
  "Document \<Rightarrow> (string \<times> Persona) list \<Rightarrow> (string \<times> Policy) list \<Rightarrow> ((string \<times> Workflow) list \<times> string list) loaded" where
  "loadWorkflows doc personas policies =
     map_sum id (\<lambda>st. (ws_map st, ws_order st))
       (foldR (workflow_section personas policies) (enumerate 0 (doc_Sections doc)) no_workflows)"

section \<open>Processes\<close>

definition process_ref ::
  "(string \<times> Workflow) list \<Rightarrow> string \<Rightarrow> Process \<times> string list \<Rightarrow> (Process \<times> string list) loaded" where
  "process_ref workflows ref pr =
     bindR (resolveWorkflow workflows ref) (\<lambda>w. Inr (AddWorkflow (fst pr) w, Normalize ref # snd pr))"

definition process_bullet :: "(string \<times> Workflow) list \<Rightarrow> string \<Rightarrow> Process \<times> string list \<Rightarrow> Process \<times> string list" where
  "process_bullet workflows bullet pr =
     (case map_of workflows (Normalize bullet) of
        Some w \<Rightarrow> (AddWorkflow (fst pr) w, Normalize bullet # snd pr)
      | None \<Rightarrow>
          if bullet \<noteq> [] then
            ((fst pr)\<lparr>pr_Description := TrimSpace (pr_Description (fst pr) @ newline # ''- '' @ bullet)\<rparr>, snd pr)
          else pr)"

definition load_process ::
  "(string \<times> Workflow) list \<Rightarrow> nat \<Rightarrow> Section \<Rightarrow> string list \<Rightarrow> (Process \<times> string list) loaded" where
  "load_process workflows i sec referenced =
     (let body = StructuredBody sec [''workflows'', ''workflow''];
          p0 = \<lparr>pr_ref = i, pr_Name = sec_Name sec, pr_Description = bd_Prose body, pr_Workflows = []\<rparr>
      in bindR (foldR (process_ref workflows) (splitReferences (Field body [''workflows'', ''workflow''])) (p0, referenced))
           (\<lambda>pr. Inr (fold (process_bullet workflows) (bd_Bullets body) pr)))"

definition loadProcesses ::
  "Document \<Rightarrow> (string \<times> Workflow) list \<Rightarrow> (Process list \<times> string list) loaded" where
  \<comment> \<open>the second component lists the keys of the source's set referenced\<close>
  "loadProcesses doc workflows =
     foldR (\<lambda>(i, sec) (ps, referenced).
        bindR (load_process workflows i sec referenced) (\<lambda>(p, referenced'). Inr (ps @ [p], referenced')))
       (enumerate 0 (doc_Sections doc)) ([], [])"

section \<open>The tenant\<close>

record Tenant =
  tn_OrgID :: string
  tn_Name :: string
  tn_FiscalYearStart :: "gotime option"
  tn_FiscalYearEnd :: "gotime option"
  tn_Timezone :: string
  tn_SecretEnvVar :: string

definition NewTenant :: Tenant where
  "NewTenant = \<lparr>tn_OrgID = ''default'', tn_Name = [], tn_FiscalYearStart = None, tn_FiscalYearEnd = None,
     tn_Timezone = [], tn_SecretEnvVar = []\<rparr>"

definition days_of :: "int \<Rightarrow> int \<Rightarrow> int \<Rightarrow> int" where
  \<comment> \<open>the days from January 1 of year 1 to a date\<close>
  "days_of y m d =
     (let y' = (if m \<le> 2 then y - 1 else y); era = y' div 400; yoe = y' mod 400;
          mp = (if m \<le> 2 then m + 9 else m - 3);
          doy = (153 * mp + 2) div 5 + d - 1;
          doe = yoe * 365 + yoe div 4 - yoe div 100 + doy
      in era * 146097 + doe - 306)"

definition is_leap :: "int \<Rightarrow> bool" where
  "is_leap y \<longleftrightarrow> y mod 4 = 0 \<and> (y mod 100 \<noteq> 0 \<or> y mod 400 = 0)"

definition days_in :: "int \<Rightarrow> int \<Rightarrow> int" where
  "days_in y m = (if m = 2 then (if is_leap y then 29 else 28) else if m \<in> {4, 6, 9, 11} then 30 else 31)"

definition parse_date :: "string \<Rightarrow> gotime option" where
  \<comment> \<open>time.Parse with the layout 2006-01-02\<close>
  "parse_date s =
     (if length s = 10 \<and> s ! 4 = CHR ''-'' \<and> s ! 7 = CHR ''-'' \<and>
         list_all is_digit (take 4 s @ take 2 (drop 5 s) @ drop 8 s)
      then (let y = int (read_digits (take 4 s)); m = int (read_digits (take 2 (drop 5 s))); d = int (read_digits (drop 8 s))
            in if 1 \<le> m \<and> m \<le> 12 \<and> 1 \<le> d \<and> d \<le> days_in y m then Some (days_of y m d * day_ns) else None)
      else None)"

definition FiscalYearBounds :: "gotime \<Rightarrow> gotime \<Rightarrow> Tenant \<Rightarrow> gotime \<times> gotime" where
  \<comment> \<open>the first argument is a reading of the clock, used when no day is given\<close>
  "FiscalYearBounds now today t =
     (case (tn_FiscalYearStart t, tn_FiscalYearEnd t) of
        (Some a, Some b) \<Rightarrow> (a, b)
      | _ \<Rightarrow>
          (let today' = (if IsZero today then now else today); (y, m, d) = civil (today' div day_ns)
           in (days_of y 1 1 * day_ns, days_of y 12 31 * day_ns)))"

definition tenant_keys :: "string list" where
  "tenant_keys =
     [''org id'', ''org'', ''fiscal year start'', ''fiscal year end'', ''timezone'', ''secret env var'', ''secret'']"

definition declared_date :: "string \<Rightarrow> gotime option" where
  "declared_date s = (if s \<noteq> [] then parse_date s else None)"

definition loadTenant :: "Document \<Rightarrow> string \<Rightarrow> bool \<Rightarrow> Tenant loaded" where
  "loadTenant doc filename found =
     (case doc_Sections doc of
        [] \<Rightarrow>
          if \<not> found then Inr NewTenant
          else Inl (filename @ '' declares no tenant -- a tenant needs a '' @ quoted ''## Org Name'' @ '' section with an '' @
                    quoted ''Org id:'' @ '' field (note the two hashes: a single '' @ quoted ''#'' @
                    '' is the document title, not a section)'')
      | sec # _ \<Rightarrow>
          (let body = StructuredBody sec tenant_keys; orgID = Field body [''org id'', ''org''] in
           if orgID = [] then
             Inl (''tenant '' @ quoted (sec_Name sec) @ '' declares no '' @ quoted ''Org id:'' @ '' -- every tenant.md needs one'')
           else Inr \<lparr>tn_OrgID = orgID, tn_Name = sec_Name sec,
                     tn_FiscalYearStart = declared_date (Field body [''fiscal year start'']),
                     tn_FiscalYearEnd = declared_date (Field body [''fiscal year end'']),
                     tn_Timezone = Field body [''timezone''],
                     tn_SecretEnvVar = Field body [''secret env var'', ''secret'']\<rparr>))"

section \<open>The scopes of policies\<close>

definition runtimeScopes :: "string list" where
  "runtimeScopes =
     [''runtime'', ''the runtime'', ''all'', ''everything'', ''global'', ''the whole runtime'']"

definition toolScopes :: "string list" where
  "toolScopes =
     [''tools'', ''tool'', ''tool calls'', ''tool call'', ''tool invocations'', ''tool invocation'', ''any tool'']"

definition hasPolicy :: "Policy list \<Rightarrow> Policy \<Rightarrow> bool" where
  "hasPolicy policies want \<longleftrightarrow> list_ex (\<lambda>p. po_ref p = po_ref want) policies"

definition through_pointer :: "nat \<Rightarrow> (Workflow \<Rightarrow> Workflow) \<Rightarrow> Workflow \<Rightarrow> Workflow" where
  "through_pointer ref f w = (if wf_ref w = ref then f w else w)"

definition on_workflow :: "nat \<Rightarrow> (Workflow \<Rightarrow> Workflow) \<Rightarrow> Runtime \<Rightarrow> Runtime" where
  "on_workflow ref f r =
     r\<lparr>rt_Processes := map (\<lambda>p. p\<lparr>pr_Workflows := map (through_pointer ref f) (pr_Workflows p)\<rparr>) (rt_Processes r)\<rparr>"

type_synonym scope_state = "Runtime \<times> (string \<times> Workflow) list"

definition apply_target :: "Policy \<Rightarrow> string \<Rightarrow> scope_state \<Rightarrow> scope_state loaded" where
  "apply_target policy target st =
     (let (r, workflows) = st; lowered = TrimSpace (ToLower target) in
      if Normalize target \<in> set toolScopes then
        Inr (r\<lparr>rt_ToolPolicies := rt_ToolPolicies r @ [policy]\<rparr>, workflows)
      else if lowered \<in> set runtimeScopes \<or> contains_str ''runtime'' lowered then
        Inr (Runtime_AddPolicy policy r, workflows)
      else
        bindR (resolveWorkflow workflows target) (\<lambda>w.
          if hasPolicy (wf_Policies w) policy then Inr st
          else Inr (on_workflow (wf_ref w) (\<lambda>v. AddPolicy v policy) r,
                    map (\<lambda>(k, v). (k, through_pointer (wf_ref w) (\<lambda>v. AddPolicy v policy) v)) workflows)))"

definition policy_targets :: "string \<Rightarrow> string list" where
  "policy_targets scope =
     (let targets = splitReferences scope in if length targets = 0 then [''runtime''] else targets)"

definition applyPolicyScopes ::
  "(string \<times> Policy) list \<Rightarrow> (string \<times> string) list \<Rightarrow> scope_state \<Rightarrow> scope_state loaded" where
  "applyPolicyScopes policies scopes st =
     foldR (\<lambda>key st.
        foldR (apply_target (the (map_of policies key)))
          (policy_targets (case map_of scopes key of Some s \<Rightarrow> s | None \<Rightarrow> [])) st)
       (sorted_keys policies) st"

section \<open>Stacking the processes\<close>

definition orphan_process :: "nat \<Rightarrow> Workflow \<Rightarrow> Process" where
  "orphan_process i w =
     AddWorkflow \<lparr>pr_ref = i, pr_Name = wf_Name w, pr_Description = ''Runs the '' @ wf_Name w @ '' workflow.'',
        pr_Workflows = []\<rparr> w"

definition add_orphan :: "(string \<times> Workflow) list \<Rightarrow> string list \<Rightarrow> string \<Rightarrow> Runtime \<Rightarrow> Runtime" where
  "add_orphan workflows referenced key r =
     (if key \<in> set referenced then r
      else (case map_of workflows key of
              Some w \<Rightarrow> AddProcess (orphan_process (length (rt_Processes r)) w) r
            | None \<Rightarrow> r))"

definition stack_processes ::
  "Process list \<Rightarrow> (string \<times> Workflow) list \<Rightarrow> string list \<Rightarrow> string list \<Rightarrow> Runtime \<Rightarrow> Runtime" where
  "stack_processes processes workflows order referenced r =
     fold (add_orphan workflows referenced) order (fold AddProcess processes r)"

end
