(* ===== verification/Session.thy ===== *)
theory Session
  imports StackFiles
begin

text \<open>
  Cross-session data, \<^verbatim>\<open>session_store.go\<close>: the memory layers of an instance written to a file and restored
  from it.  The markdown codec is written out.  Of the JSON codec the payload is a record, and
  \<^verbatim>\<open>encoding/json\<close> itself is a pair of arguments, which turn a payload to text and back.  An instant read
  back keeps its moment, not its offset.
\<close>

section \<open>Instants as text\<close>

definition format_rfc3339nano :: "gotime \<Rightarrow> string" where
  "format_rfc3339nano t = format_date t @ ''T'' @ format_time t @ format_frac t @ ''Z''"

definition two_digits :: "string \<Rightarrow> (int \<times> string) option" where
  "two_digits s =
     (if 2 \<le> length s \<and> list_all is_digit (take 2 s) then Some (int (read_digits (take 2 s)), drop 2 s) else None)"

definition up_to_two_digits :: "string \<Rightarrow> (int \<times> string) option" where
  \<comment> \<open>the hour, which the parser takes with one digit too\<close>
  "up_to_two_digits s =
     (let ds = takeWhile is_digit (take 2 s) in
      if ds = [] then None else Some (int (read_digits ds), drop (length ds) s))"

definition after_char :: "char \<Rightarrow> string \<Rightarrow> string option" where
  "after_char c s = (case s of d # r \<Rightarrow> if d = c then Some r else None | [] \<Rightarrow> None)"

definition read_fraction :: "string \<Rightarrow> int \<times> string" where
  \<comment> \<open>a fraction of a second, in nanoseconds; digits past the ninth are dropped\<close>
  "read_fraction s =
     (case s of
        c # r \<Rightarrow>
          (let ds = takeWhile is_digit r in
           if (c = CHR ''.'' \<or> c = CHR '','') \<and> ds \<noteq> []
           then (int (read_digits (take 9 (ds @ replicate 9 CHR ''0''))), drop (length ds) r) else (0, s))
      | [] \<Rightarrow> (0, s))"

definition read_zone :: "bool \<Rightarrow> string \<Rightarrow> int option" where
  \<comment> \<open>the offset in seconds; the flag says that the layout has a zone\<close>
  "read_zone zoned s =
     (if \<not> zoned then (if s = [] then Some 0 else None)
      else if s = ''Z'' then Some 0
      else (case s of
              c # r \<Rightarrow>
                if c \<noteq> CHR ''+'' \<and> c \<noteq> CHR ''-'' then None
                else Option.bind (two_digits r) (\<lambda>(hh, r1).
                     Option.bind (after_char CHR '':'' r1) (\<lambda>r2.
                     Option.bind (two_digits r2) (\<lambda>(mm, r3).
                       if r3 = [] \<and> hh \<le> 24 \<and> mm \<le> 60 then Some ((if c = CHR ''-'' then -1 else 1) * (hh * 3600 + mm * 60))
                       else None)))
            | [] \<Rightarrow> None))"

definition parse_time :: "bool \<Rightarrow> string \<Rightarrow> gotime option" where
  "parse_time zoned s =
     Option.bind (parse_date (take 10 s)) (\<lambda>d.
     Option.bind (after_char CHR ''T'' (drop 10 s)) (\<lambda>r1.
     Option.bind (up_to_two_digits r1) (\<lambda>(hh, r2).
     Option.bind (after_char CHR '':'' r2) (\<lambda>r3.
     Option.bind (two_digits r3) (\<lambda>(mm, r4).
     Option.bind (after_char CHR '':'' r4) (\<lambda>r5.
     Option.bind (two_digits r5) (\<lambda>(ss, r6).
       (let (ns, r7) = read_fraction r6 in
        if hh < 24 \<and> mm < 60 \<and> ss < 60 then
          map_option (\<lambda>off. d + (hh * 3600 + mm * 60 + ss - off) * second_ns + ns) (read_zone zoned r7)
        else None))))))))"

definition parseTimestamp :: "string \<Rightarrow> gotime option" where
  "parseTimestamp value =
     (let v = TrimSpace value in case parse_time True v of Some t \<Rightarrow> Some t | None \<Rightarrow> parse_time False v)"

definition atoiOr :: "string \<Rightarrow> int \<Rightarrow> int" where
  "atoiOr value fallback = (case Atoi (TrimSpace value) of Some n \<Rightarrow> n | None \<Rightarrow> fallback)"

definition atofOr :: "string \<Rightarrow> f64 \<Rightarrow> f64" where
  "atofOr value fallback = (case ParseFloat (TrimSpace value) of Some f \<Rightarrow> f | None \<Rightarrow> fallback)"

section \<open>Writing markdown\<close>

definition compressed_lines :: "nat \<times> string \<Rightarrow> string list" where
  "compressed_lines is = [''## Compressed '' @ show_nat (fst is + 1), [], Quote (snd is), []]"

definition entry_lines :: "nat \<times> MemoryEntry \<Rightarrow> string list" where
  "entry_lines ie =
     (let e = snd ie in
      [''## Entry '' @ show_nat (fst ie + 1), [], ''Timestamp: '' @ format_rfc3339nano (me_Timestamp e)] @
      (case me_Evidence e of
         Some v \<Rightarrow> [''Evidence basis: '' @ ev_Basis v, ''Evidence confidence: '' @ Sprint_float (ev_Confidence v)]
       | None \<Rightarrow> []) @
      [[], ''Intent:'', Quote (me_IntentText e), [], ''Decision:'', Quote (Sprint (me_Decision e)), []] @
      (if 0 < length (me_Context e)
       then [''Context:'', []] @
            map (\<lambda>key. ''- '' @ key @ '': '' @ Sprint (the (map_of (me_Context e) key))) (sorted_keys (me_Context e)) @ [[]]
       else []))"

definition experience_lines :: "Experience \<Rightarrow> string list" where
  "experience_lines x =
     [''## Experience'', [], ''Observations: '' @ show_int (xp_Observations x), []] @
     concat (map (\<lambda>d. [''### Observed decision'', [], ''Count: '' @ show_int (the (map_of (xp_DecisionCounts x) d)), [],
                       Quote d, []]) (sorted_keys (xp_DecisionCounts x)))"

definition adaptation_lines :: "Adaptation \<Rightarrow> string list" where
  "adaptation_lines a =
     [''## Adaptation -- '' @ ad_Name a, [], ''Confidence: '' @ Sprint_float (ad_Confidence a),
      ''Evidence count: '' @ show_int (ad_EvidenceCount a), [], Quote (ad_Insight a), []]"

definition renderMarkdown :: "gotime \<Rightarrow> Runtime \<Rightarrow> string" where
  "renderMarkdown now rt =
     join_with [newline]
       ([''# Session -- '' @ rt_Name rt, [], ''Saved at: '' @ format_rfc3339nano now, []] @
        concat (map compressed_lines (enumerate 0 (mm_Compressed (rt_Memory rt)))) @
        concat (map entry_lines (enumerate 0 (mm_Working (rt_Memory rt)))) @
        experience_lines (rt_Experience rt) @
        concat (map adaptation_lines (bk_Impressions (rt_Adaptations rt))))"

section \<open>Reading markdown\<close>

record session_data =
  sd_working :: "MemoryEntry list"
  sd_compressed :: "string list"
  sd_observations :: int
  sd_decisionCounts :: "(string \<times> int) list"
  sd_adaptations :: "Adaptation list"

definition entryFromSection :: "gotime \<Rightarrow> Section \<Rightarrow> MemoryEntry" where
  "entryFromSection now sec =
     (let body = StructuredBody sec [''timestamp'', ''evidence basis'', ''evidence confidence''];
          basis = Field body [''evidence basis''];
          evidence = (if basis \<noteq> []
                      then Some \<lparr>ev_Basis = basis, ev_Sources = [],
                                 ev_Confidence = atofOr (Field body [''evidence confidence'']) (f_of_int 1)\<rparr>
                      else None);
          timestamp = (case parseTimestamp (Field body [''timestamp'']) of Some t \<Rightarrow> t | None \<Rightarrow> now);
          blocks = labelledBlocks (sec_Lines sec);
          block = (\<lambda>k. case map_of blocks k of Some v \<Rightarrow> v | None \<Rightarrow> [])
      in \<lparr>me_IntentText = block ''intent'', me_Decision = VStr (block ''decision''),
          me_Context = fold context_bullet (bd_Bullets body) [], me_Evidence = evidence, me_Timestamp = timestamp\<rparr>)"

definition adaptation_name :: "string \<Rightarrow> string" where
  "adaptation_name name =
     (case cut_at ''--'' name of
        Some (_, after) \<Rightarrow> if TrimSpace after \<noteq> [] then TrimSpace after else name
      | None \<Rightarrow> name)"

definition adaptation_from :: "Section \<Rightarrow> Adaptation" where
  "adaptation_from sec =
     (let body = StructuredBody sec [''confidence'', ''evidence count''] in
      \<lparr>ad_Name = adaptation_name (sec_Name sec), ad_Insight = Unquote (sec_Lines sec),
       ad_Confidence = atofOr (Field body [''confidence'']) (f_of_int 1),
       ad_EvidenceCount = atoiOr (Field body [''evidence count'']) 0\<rparr>)"

definition restore_section :: "gotime \<Rightarrow> Section \<Rightarrow> session_data \<Rightarrow> session_data" where
  "restore_section now sec d =
     (let key = Normalize (sec_Name sec) in
      if has_prefix ''compressed'' key then d\<lparr>sd_compressed := sd_compressed d @ [Unquote (sec_Lines sec)]\<rparr>
      else if has_prefix ''entry'' key then d\<lparr>sd_working := sd_working d @ [entryFromSection now sec]\<rparr>
      else if key = ''experience'' then
        d\<lparr>sd_observations := atoiOr (Field (StructuredBody sec [''observations'']) [''observations'']) 0\<rparr>
      else if has_prefix ''observed'' key then
        d\<lparr>sd_decisionCounts := map_put (Unquote (sec_Lines sec))
              (atoiOr (Field (StructuredBody sec [''count'']) [''count'']) 1) (sd_decisionCounts d)\<rparr>
      else if has_prefix ''adaptation'' key then d\<lparr>sd_adaptations := sd_adaptations d @ [adaptation_from sec]\<rparr>
      else d)"

definition empty_session :: session_data where
  "empty_session = \<lparr>sd_working = [], sd_compressed = [], sd_observations = 0, sd_decisionCounts = [], sd_adaptations = []\<rparr>"

definition read_session :: "gotime \<Rightarrow> string \<Rightarrow> session_data" where
  "read_session now t = fold (restore_section now) (doc_Sections (ParseDocument t)) empty_session"

definition put_session :: "session_data \<Rightarrow> Runtime \<Rightarrow> Runtime" where
  "put_session d rt =
     rt\<lparr>rt_Memory := (rt_Memory rt)\<lparr>mm_Compressed := sd_compressed d, mm_Working := sd_working d\<rparr>,
        rt_Experience := (rt_Experience rt)\<lparr>xp_Observations := sd_observations d, xp_DecisionCounts := sd_decisionCounts d\<rparr>,
        rt_Adaptations := (rt_Adaptations rt)\<lparr>bk_Impressions := sd_adaptations d\<rparr>\<rparr>"

definition restoreMarkdown :: "gotime \<Rightarrow> string \<Rightarrow> Runtime \<Rightarrow> Runtime" where
  \<comment> \<open>the first argument is the reading of the clock that stands in for an unreadable timestamp\<close>
  "restoreMarkdown now t rt = put_session (read_session now t) rt"

section \<open>The JSON codec\<close>

record working_payload =
  wp_IntentText :: string
  wp_Decision :: string
  wp_Context :: ctx
  wp_Timestamp :: string
  wp_EvidenceBasis :: string
  wp_EvidenceConfidence :: f64

record sessionPayload =
  py_Runtime :: string
  py_SavedAt :: string
  py_Capacity :: int
  py_Compressed :: "string list"
  py_Working :: "working_payload list"
  py_Observations :: int
  py_DecisionCounts :: "(string \<times> int) list"
  py_Adaptations :: "Adaptation list"

definition working_out :: "MemoryEntry \<Rightarrow> working_payload" where
  "working_out e =
     \<lparr>wp_IntentText = me_IntentText e, wp_Decision = Sprint (me_Decision e), wp_Context = me_Context e,
      wp_Timestamp = format_rfc3339nano (me_Timestamp e),
      wp_EvidenceBasis = (case me_Evidence e of Some v \<Rightarrow> ev_Basis v | None \<Rightarrow> []),
      wp_EvidenceConfidence = (case me_Evidence e of Some v \<Rightarrow> ev_Confidence v | None \<Rightarrow> f_of_int 1)\<rparr>"

definition payload :: "gotime \<Rightarrow> Runtime \<Rightarrow> sessionPayload" where
  "payload now rt =
     \<lparr>py_Runtime = rt_Name rt, py_SavedAt = format_rfc3339nano now, py_Capacity = mm_Capacity (rt_Memory rt),
      py_Compressed = mm_Compressed (rt_Memory rt), py_Working = map working_out (mm_Working (rt_Memory rt)),
      py_Observations = xp_Observations (rt_Experience rt), py_DecisionCounts = xp_DecisionCounts (rt_Experience rt),
      py_Adaptations = bk_Impressions (rt_Adaptations rt)\<rparr>"

definition or_full :: "f64 \<Rightarrow> f64" where
  \<comment> \<open>a confidence of zero reads as one\<close>
  "or_full c = (if feq c fzero then f_of_int 1 else c)"

definition working_in :: "gotime \<Rightarrow> working_payload \<Rightarrow> MemoryEntry" where
  "working_in now w =
     \<lparr>me_IntentText = wp_IntentText w, me_Decision = VStr (wp_Decision w), me_Context = wp_Context w,
      me_Evidence = (if wp_EvidenceBasis w \<noteq> []
                     then Some \<lparr>ev_Basis = wp_EvidenceBasis w, ev_Sources = [], ev_Confidence = or_full (wp_EvidenceConfidence w)\<rparr>
                     else None),
      me_Timestamp = (case parseTimestamp (wp_Timestamp w) of Some t \<Rightarrow> t | None \<Rightarrow> now)\<rparr>"

definition restoreJSON :: "gotime \<Rightarrow> sessionPayload \<Rightarrow> Runtime \<Rightarrow> Runtime" where
  "restoreJSON now p rt =
     put_session
       \<lparr>sd_working = map (working_in now) (py_Working p), sd_compressed = py_Compressed p,
        sd_observations = py_Observations p, sd_decisionCounts = py_DecisionCounts p,
        sd_adaptations = map (\<lambda>a. a\<lparr>ad_Confidence := or_full (ad_Confidence a)\<rparr>) (py_Adaptations p)\<rparr> rt"

section \<open>The store\<close>

type_synonym files = "string \<Rightarrow> string option"

definition Session_Save ::
  "(sessionPayload \<Rightarrow> string option) \<Rightarrow> gotime \<Rightarrow> string \<Rightarrow> Runtime \<Rightarrow> files \<Rightarrow> string option \<times> files" where
  \<comment> \<open>the path written, None when the payload cannot be encoded\<close>
  "Session_Save marshal now path rt fs =
     (if has_suffix ''.md'' path then (Some path, fs(path \<mapsto> renderMarkdown now rt))
      else (case marshal (payload now rt) of
              Some t \<Rightarrow> (Some path, fs(path \<mapsto> t))
            | None \<Rightarrow> (None, fs)))"

definition Session_Restore ::
  "(string \<Rightarrow> sessionPayload option) \<Rightarrow> gotime \<Rightarrow> files \<Rightarrow> string \<Rightarrow> Runtime \<Rightarrow> bool \<times> Runtime" where
  "Session_Restore unmarshal now fs path rt =
     (case fs path of
        None \<Rightarrow> (False, rt)
      | Some t \<Rightarrow>
          if has_suffix ''.md'' path then (True, restoreMarkdown now t rt)
          else (case unmarshal t of
                  None \<Rightarrow> (False, rt)
                | Some p \<Rightarrow> (True, restoreJSON now p rt)))"

end
