(* ===== verification/Json.thy ===== *)
theory Json
  imports Encode
begin

text \<open>
  What the source uses of decoding JSON: \<^verbatim>\<open>json.Unmarshal\<close> as a parser to a tree, the decoding of
  a tree into a value of \<^verbatim>\<open>any\<close>, and the readers a struct's fields use.  The parser's fuel is one more
  than the length of the text, which bounds its depth; the library's own limit of 10000 levels is not
  modelled.
\<close>

datatype jvalue =
    JNull
  | JBool bool
  | JNum string      \<comment> \<open>the literal\<close>
  | JStr string
  | JArr "jvalue list"
  | JObj "(string \<times> jvalue) list"  \<comment> \<open>the members in order, duplicates kept\<close>

section \<open>Lexical level\<close>

definition json_space :: "char \<Rightarrow> bool" where
  "json_space c \<longleftrightarrow> c \<in> {CHR '' '', CHR 0x09, CHR 0x0A, CHR 0x0D}"

definition skip_ws :: "string \<Rightarrow> string" where
  "skip_ws s = dropWhile json_space s"

definition utf8 :: "nat \<Rightarrow> string" where
  "utf8 n =
     (if n < 0x80 then [char_of n]
      else if n < 0x800 then [char_of (0xC0 + n div 64), char_of (0x80 + n mod 64)]
      else if n < 0x10000 then
        [char_of (0xE0 + n div 4096), char_of (0x80 + n div 64 mod 64), char_of (0x80 + n mod 64)]
      else [char_of (0xF0 + n div 262144), char_of (0x80 + n div 4096 mod 64), char_of (0x80 + n div 64 mod 64),
            char_of (0x80 + n mod 64)])"

definition hex4 :: "string \<Rightarrow> nat option" where
  "hex4 s =
     (if 4 \<le> length s \<and> list_all is_hex (take 4 s)
      then Some (foldl (\<lambda>n c. 16 * n + hex_val c) 0 (take 4 s)) else None)"

definition low_surrogate :: "string \<Rightarrow> nat option" where
  \<comment> \<open>the second half of a pair, written as an escape\<close>
  "low_surrogate s =
     (if has_prefix [CHR 0x5C, CHR ''u''] s
      then (case hex4 (drop 2 s) of
              Some n \<Rightarrow> if 0xDC00 \<le> n \<and> n < 0xE000 then Some n else None
            | None \<Rightarrow> None)
      else None)"

definition simple_escape :: "char \<Rightarrow> char option" where
  "simple_escape c =
     (if c \<in> {CHR 0x22, CHR 0x5C, CHR ''/''} then Some c
      else map_of [(CHR ''b'', CHR 0x08), (CHR ''f'', CHR 0x0C), (CHR ''n'', CHR 0x0A), (CHR ''r'', CHR 0x0D),
                   (CHR ''t'', CHR 0x09)] c)"

function jstring :: "string \<Rightarrow> (string \<times> string) option" where
  \<comment> \<open>a string after its opening quote: its text and what follows the closing quote\<close>
  "jstring [] = None"
| "jstring (c # r) =
     (if c = CHR 0x22 then Some ([], r)
      else if (of_char c :: nat) < 32 then None
      else if c \<noteq> CHR 0x5C then map_option (\<lambda>(t, q). (c # t, q)) (jstring r)
      else if r = [] then None
      else (case simple_escape (hd r) of
              Some e \<Rightarrow> map_option (\<lambda>(t, q). (e # t, q)) (jstring (tl r))
            | None \<Rightarrow>
                if hd r \<noteq> CHR ''u'' then None
                else (case hex4 (tl r) of
                        None \<Rightarrow> None
                      | Some n \<Rightarrow>
                          if 0xD800 \<le> n \<and> n < 0xDC00 \<and> low_surrogate (drop 5 r) \<noteq> None
                          then map_option (\<lambda>(t, q). (utf8 (0x10000 + (n - 0xD800) * 1024 +
                                   (the (low_surrogate (drop 5 r)) - 0xDC00)) @ t, q)) (jstring (drop 11 r))
                          else map_option (\<lambda>(t, q). (utf8 (if 0xD800 \<le> n \<and> n < 0xE000 then 0xFFFD else n) @ t, q))
                                 (jstring (drop 5 r)))))"
  by pat_completeness auto

termination
  by (relation "measure length") (auto simp: neq_Nil_conv)

definition span :: "(char \<Rightarrow> bool) \<Rightarrow> string \<Rightarrow> string \<times> string" where
  "span p s = (takeWhile p s, dropWhile p s)"

definition num_frac :: "string \<Rightarrow> string \<times> string" where
  \<comment> \<open>a full stop with its digits\<close>
  "num_frac s =
     (if has_prefix ''.'' s then (CHR ''.'' # fst (span is_digit (tl s)), snd (span is_digit (tl s))) else ([], s))"

definition num_one :: "(char \<Rightarrow> bool) \<Rightarrow> string \<Rightarrow> string \<times> string" where
  \<comment> \<open>one character of a kind, if it is there\<close>
  "num_one p s = (case s of c # r \<Rightarrow> if p c then ([c], r) else ([], s) | [] \<Rightarrow> ([], []))"

definition num_exp :: "string \<Rightarrow> string \<times> string \<times> string" where
  \<comment> \<open>the letter with an optional sign, the digits, the rest\<close>
  "num_exp s =
     (case num_one (\<lambda>c. lower_char c = CHR ''e'') s of
        ([], _) \<Rightarrow> ([], [], s)
      | (mark, s1) \<Rightarrow>
          (case num_one (\<lambda>c. c = CHR ''+'' \<or> c = CHR ''-'') s1 of
             (sg, s2) \<Rightarrow> (mark @ sg, span is_digit s2)))"

definition jnumber :: "string \<Rightarrow> (string \<times> string) option" where
  \<comment> \<open>the literal of a number and what follows it\<close>
  "jnumber s =
     (let (sg, s1) = num_one (\<lambda>c. c = CHR ''-'') s; (ip, s2) = span is_digit s1; (fp, s3) = num_frac s2;
          (mark, ed, s4) = num_exp s3
      in if ip \<noteq> [] \<and> (hd ip \<noteq> CHR ''0'' \<or> length ip = 1) \<and> length fp \<noteq> 1 \<and> (mark = [] \<or> ed \<noteq> [])
         then Some (sg @ ip @ fp @ mark @ ed, s4) else None)"

section \<open>Values\<close>

fun jparse :: "nat \<Rightarrow> string \<Rightarrow> (jvalue \<times> string) option"
and jelems :: "nat \<Rightarrow> string \<Rightarrow> (jvalue list \<times> string) option"
and jmembers :: "nat \<Rightarrow> string \<Rightarrow> ((string \<times> jvalue) list \<times> string) option" where
  "jparse 0 s = None"
| "jparse (Suc n) s =
     (case skip_ws s of
        [] \<Rightarrow> None
      | c # r \<Rightarrow>
          if c = CHR 0x22 then map_option (\<lambda>(t, q). (JStr t, q)) (jstring r)
          else if c = CHR ''['' then
            (if has_prefix '']'' (skip_ws r) then Some (JArr [], tl (skip_ws r))
             else map_option (\<lambda>(vs, q). (JArr vs, q)) (jelems n r))
          else if c = CHR 0x7B then
            (if has_prefix [CHR 0x7D] (skip_ws r) then Some (JObj [], tl (skip_ws r))
             else map_option (\<lambda>(ms, q). (JObj ms, q)) (jmembers n r))
          else if has_prefix ''null'' (c # r) then Some (JNull, drop 4 (c # r))
          else if has_prefix ''true'' (c # r) then Some (JBool True, drop 4 (c # r))
          else if has_prefix ''false'' (c # r) then Some (JBool False, drop 5 (c # r))
          else map_option (\<lambda>(t, q). (JNum t, q)) (jnumber (c # r)))"
| "jelems 0 s = None"
| "jelems (Suc n) s =
     (case jparse n s of
        None \<Rightarrow> None
      | Some (v, q) \<Rightarrow>
          (case skip_ws q of
             [] \<Rightarrow> None
           | c # r \<Rightarrow>
               if c = CHR '','' then map_option (\<lambda>(vs, q'). (v # vs, q')) (jelems n r)
               else if c = CHR '']'' then Some ([v], r) else None))"
| "jmembers 0 s = None"
| "jmembers (Suc n) s =
     (case skip_ws s of
        [] \<Rightarrow> None
      | c # r \<Rightarrow>
          if c \<noteq> CHR 0x22 then None
          else (case jstring r of
                  None \<Rightarrow> None
                | Some (k, q) \<Rightarrow>
                    if \<not> has_prefix '':'' (skip_ws q) then None
                    else (case jparse n (tl (skip_ws q)) of
                            None \<Rightarrow> None
                          | Some (v, q') \<Rightarrow>
                              (case skip_ws q' of
                                 [] \<Rightarrow> None
                               | d # r' \<Rightarrow>
                                   if d = CHR '','' then map_option (\<lambda>(ms, q''). ((k, v) # ms, q'')) (jmembers n r')
                                   else if d = CHR 0x7D then Some ([(k, v)], r') else None))))"

definition json_tree :: "string \<Rightarrow> jvalue option" where
  \<comment> \<open>the fuel is spent at one unit a level and one a member, so twice the length is enough\<close>
  "json_tree s =
     (case jparse (2 * length s + 2) s of
        Some (v, q) \<Rightarrow> if skip_ws q = [] then Some v else None
      | None \<Rightarrow> None)"

section \<open>Decoding\<close>

fun any_of :: "jvalue \<Rightarrow> goval option" where
  \<comment> \<open>decoding into any; a number out of range is an error\<close>
  "any_of JNull = Some VNil"
| "any_of (JBool b) = Some (VBool b)"
| "any_of (JNum t) = map_option VFloat (ParseFloat t)"
| "any_of (JStr s) = Some (VStr s)"
| "any_of (JArr vs) = map_option VList (collect_opt (map any_of vs))"
| "any_of (JObj ms) =
     map_option (\<lambda>kvs. VMap (fold (\<lambda>(k, v). map_put k v) kvs []))
       (collect_opt (map (\<lambda>(k, v). map_option (Pair k) v) (map (\<lambda>(k, v). (k, any_of v)) ms)))"

definition Unmarshal_map :: "string \<Rightarrow> ctx option" where
  \<comment> \<open>decoding into a map from strings to any; null leaves it empty\<close>
  "Unmarshal_map s =
     (case json_tree s of
        Some JNull \<Rightarrow> Some []
      | Some (JObj ms) \<Rightarrow> (case any_of (JObj ms) of Some (VMap m) \<Rightarrow> Some m | _ \<Rightarrow> None)
      | _ \<Rightarrow> None)"

type_synonym 'a field_reader = "jvalue \<Rightarrow> 'a \<Rightarrow> 'a option"

definition field_named :: "(string \<times> 'a field_reader) list \<Rightarrow> string \<Rightarrow> 'a field_reader option" where
  \<comment> \<open>the field a key sets: the one of that name, else one that differs in case only\<close>
  "field_named fs key =
     (case map_of fs key of
        Some r \<Rightarrow> Some r
      | None \<Rightarrow> map_option snd (find (\<lambda>(n, r). ToLower n = ToLower key) fs))"

fun read_members :: "(string \<times> 'a field_reader) list \<Rightarrow> (string \<times> jvalue) list \<Rightarrow> 'a \<Rightarrow> 'a option" where
  \<comment> \<open>decoding into a struct; the error of a member does not depend on the others\<close>
  "read_members fs [] x = Some x"
| "read_members fs ((k, v) # ms) x =
     (case field_named fs k of
        None \<Rightarrow> read_members fs ms x
      | Some r \<Rightarrow> (case r v x of Some x' \<Rightarrow> read_members fs ms x' | None \<Rightarrow> None))"

definition Unmarshal_struct :: "(string \<times> 'a field_reader) list \<Rightarrow> string \<Rightarrow> 'a \<Rightarrow> 'a option" where
  \<comment> \<open>decoding into a struct whose fields these are; null changes nothing\<close>
  "Unmarshal_struct fs s x =
     (case json_tree s of
        Some JNull \<Rightarrow> Some x
      | Some (JObj ms) \<Rightarrow> read_members fs ms x
      | _ \<Rightarrow> None)"

text \<open>Readers of fields: null leaves a scalar as it is and empties a list or a map.\<close>

definition string_field :: "(string \<Rightarrow> 'a \<Rightarrow> 'a) \<Rightarrow> 'a field_reader" where
  "string_field put v x = (case v of JStr s \<Rightarrow> Some (put s x) | JNull \<Rightarrow> Some x | _ \<Rightarrow> None)"

definition bool_field :: "(bool \<Rightarrow> 'a \<Rightarrow> 'a) \<Rightarrow> 'a field_reader" where
  "bool_field put v x = (case v of JBool b \<Rightarrow> Some (put b x) | JNull \<Rightarrow> Some x | _ \<Rightarrow> None)"

definition int_field :: "(int \<Rightarrow> 'a \<Rightarrow> 'a) \<Rightarrow> 'a field_reader" where
  "int_field put v x = (case v of JNum t \<Rightarrow> map_option (\<lambda>i. put i x) (Atoi t) | JNull \<Rightarrow> Some x | _ \<Rightarrow> None)"

definition float_field :: "(f64 \<Rightarrow> 'a \<Rightarrow> 'a) \<Rightarrow> 'a field_reader" where
  "float_field put v x = (case v of JNum t \<Rightarrow> map_option (\<lambda>f. put f x) (ParseFloat t) | JNull \<Rightarrow> Some x | _ \<Rightarrow> None)"

definition json_strings :: "jvalue list \<Rightarrow> string list option" where
  \<comment> \<open>a null among the strings is an empty one\<close>
  "json_strings vs = collect_opt (map (\<lambda>w. case w of JStr s \<Rightarrow> Some s | JNull \<Rightarrow> Some [] | _ \<Rightarrow> None) vs)"

definition strings_field :: "(string list \<Rightarrow> 'a \<Rightarrow> 'a) \<Rightarrow> 'a field_reader" where
  "strings_field put v x =
     (case v of JArr vs \<Rightarrow> map_option (\<lambda>ss. put ss x) (json_strings vs) | JNull \<Rightarrow> Some (put [] x) | _ \<Rightarrow> None)"

definition map_field :: "(ctx \<Rightarrow> 'a \<Rightarrow> 'a) \<Rightarrow> 'a field_reader" where
  "map_field put v x =
     (case v of
        JObj ms \<Rightarrow> (case any_of v of Some (VMap m) \<Rightarrow> Some (put m x) | _ \<Rightarrow> None)
      | JNull \<Rightarrow> Some (put [] x)
      | _ \<Rightarrow> None)"

end
