(* ===== verification/TrailJson.thy ===== *)
theory TrailJson
  imports Session Json
begin

text \<open>
  The JSON side of \<^verbatim>\<open>trailfile.go\<close>: the resumption of a trail of JSON lines, opening a trail of either
  codec, the verification of JSON lines and of either codec, and the log reconstructed from a file.
  The text of an instant is taken after JSON's escapes are undone.
\<close>

section \<open>Lines\<close>

definition json_lines :: "string \<Rightarrow> string list" where
  "json_lines content = filter (\<lambda>l. TrimSpace l \<noteq> []) (split_char newline content)"

definition any_string :: "goval option \<Rightarrow> string" where
  \<comment> \<open>the assertion to a string, empty when it fails\<close>
  "any_string v = (case v of Some (VStr s) \<Rightarrow> s | _ \<Rightarrow> [])"

section \<open>Opening\<close>

definition resume_line :: "(f64 \<Rightarrow> int) \<Rightarrow> string \<Rightarrow> TrailFile \<Rightarrow> TrailFile" where
  "resume_line oor line t =
     (case Unmarshal_map line of
        None \<Rightarrow> t
      | Some rec \<Rightarrow>
          (let n = anyInt oor (map_of rec ''cycle''); chain = any_string (map_of rec ''chain'') in
           t\<lparr>tf_maxCycle := (if tf_maxCycle t < n then n else tf_maxCycle t),
             tf_tip := (if chain \<noteq> [] then chain else tf_tip t)\<rparr>))"

definition resume :: "(f64 \<Rightarrow> int) \<Rightarrow> string option \<Rightarrow> TrailFile \<Rightarrow> TrailFile" where
  "resume oor existing t =
     (case existing of
        None \<Rightarrow> t
      | Some content \<Rightarrow>
          if tf_asMd t then resume_md content t else fold (resume_line oor) (json_lines content) t)"

definition OpenTrailFile ::
  "(f64 \<Rightarrow> int) \<Rightarrow> (string \<Rightarrow> string option) \<Rightarrow> (string \<Rightarrow> string option) \<Rightarrow> string \<Rightarrow> string option \<Rightarrow> (string, TrailFile) outcome" where
  \<comment> \<open>the errors of creating the directory and of opening the file, the path, and what the file holds\<close>
  "OpenTrailFile oor mkdir_err open_err path existing =
     (case mkdir_err path of
        Some e \<Rightarrow> Inl (''creating the trail directory: '' @ e)
      | None \<Rightarrow>
          (let t = resume oor existing
                     \<lparr>tf_Path = path, tf_file = None, tf_asMd = has_suffix ''.md'' path, tf_tip = genesis,
                      tf_lastCycle = 0, tf_maxCycle = 0\<rparr>
           in case open_err path of
                Some e \<Rightarrow> Inl (''opening the trail file: '' @ e)
              | None \<Rightarrow> Inr (t\<lparr>tf_file := Some (case existing of None \<Rightarrow> [] | Some c \<Rightarrow> c)\<rparr>)))"

section \<open>Verification\<close>

definition json_link :: "string \<Rightarrow> trailLink option" where
  \<comment> \<open>the link of one line, None when the line is passed over\<close>
  "json_link line =
     (case Unmarshal_map line of
        None \<Rightarrow> None
      | Some flds \<Rightarrow>
          (let stored = any_string (map_of flds ''chain''); rest = filter (\<lambda>(k, v). k \<noteq> ''chain'') flds;
               stage = any_string (map_of rest ''stage'')
           in if stored = [] then None
              else map_option (\<lambda>payload. \<lparr>lk_label = (if stage = [] then ''?'' else stage), lk_payload = payload,
                                          lk_stored = stored\<rparr>) (json (VMap rest))))"

definition chainLinksJSONL :: "string \<Rightarrow> trailLink list" where
  "chainLinksJSONL content = List.map_filter json_link (json_lines content)"

definition VerifyTrail :: "string \<Rightarrow> string option \<Rightarrow> bool \<times> string" where
  \<comment> \<open>the path, and what the file holds, None when it cannot be read\<close>
  "VerifyTrail path existing =
     (case existing of
        None \<Rightarrow> (False, ''no trail file at '' @ go_quote path)
      | Some content \<Rightarrow>
          (let links = (if has_suffix ''.md'' path then chainLinksMd content else chainLinksJSONL content) in
           if length links = 0 then
             (False, ''no chain records found -- this trail carries no integrity hashes'')
           else (case verify_links genesis 0 links of
                   Some (n, label) \<Rightarrow>
                     (False, ''broken chain at record '' @ show_nat n @ '' ('' @ label @
                        '') -- the trail was altered here or earlier'')
                 | None \<Rightarrow> (True, ''chain intact over '' @ show_nat (length links) @ '' records''))))"

section \<open>Reading a log back\<close>

definition strict_time :: "string \<Rightarrow> gotime option" where
  \<comment> \<open>the instant of a JSON text: two digits for the hour, a full stop before the fraction, an offset in range\<close>
  "strict_time s =
     (case parse_time True s of
        None \<Rightarrow> None
      | Some t \<Rightarrow>
          if s ! 12 = CHR '':'' \<or> s ! 19 = CHR '','' \<or>
             (last s \<noteq> CHR ''Z'' \<and>
              (24 \<le> read_digits (take 2 (drop (length s - 5) s)) \<or> 60 \<le> read_digits (drop (length s - 2) s)))
          then None else Some t)"

definition time_field :: "(gotime \<Rightarrow> 'a \<Rightarrow> 'a) \<Rightarrow> 'a field_reader" where
  "time_field put v x =
     (case v of JStr s \<Rightarrow> map_option (\<lambda>t. put t x) (strict_time s) | JNull \<Rightarrow> Some x | _ \<Rightarrow> None)"

definition record_fields :: "(string \<times> Record field_reader) list" where
  "record_fields =
     [(''cycle'', int_field (\<lambda>n. rc_Cycle_update (\<lambda>_. n))), (''stage'', string_field (\<lambda>s. rc_Stage_update (\<lambda>_. s))),
      (''time'', time_field (\<lambda>t. rc_Time_update (\<lambda>_. t))), (''inputs'', map_field (\<lambda>m. rc_Inputs_update (\<lambda>_. m))),
      (''output'', string_field (\<lambda>s. rc_Output_update (\<lambda>_. s))),
      (''rationale'', string_field (\<lambda>s. rc_Rationale_update (\<lambda>_. s))),
      (''model'', string_field (\<lambda>s. rc_Model_update (\<lambda>_. s))), (''chain'', string_field (\<lambda>s. rc_Chain_update (\<lambda>_. s)))]"

definition zero_record :: Record where
  "zero_record =
     \<lparr>rc_Cycle = 0, rc_Stage = [], rc_Time = 0, rc_Inputs = [], rc_Output = [], rc_Rationale = [], rc_Model = [], rc_Chain = []\<rparr>"

definition read_record :: "string \<Rightarrow> Record option" where
  "read_record line = Unmarshal_struct record_fields line zero_record"

definition cycle_of :: "Record list \<Rightarrow> TrailCycle" where
  \<comment> \<open>the records of one number; the intent record names it, and the first one dates it otherwise\<close>
  "cycle_of rs =
     (let c = (case find (\<lambda>r. rc_Stage r = ''intent'') rs of
                 Some r \<Rightarrow> \<lparr>tc_IntentText = rc_Output r, tc_Started = rc_Time r, tc_Records = rs\<rparr>
               | None \<Rightarrow> \<lparr>tc_IntentText = [], tc_Started = 0, tc_Records = rs\<rparr>)
      in if IsZero (tc_Started c) \<and> rs \<noteq> [] then c\<lparr>tc_Started := rc_Time (hd rs)\<rparr> else c)"

definition log_of_records :: "Record list \<Rightarrow> ReasoningLog" where
  "log_of_records rs =
     (let numbers = sort (remdups (map rc_Cycle rs)) in
      \<lparr>rl_Sink = None, rl_Trail = None,
       rl_Cycles = map (\<lambda>n. cycle_of (filter (\<lambda>r. rc_Cycle r = n) rs)) numbers, rl_current = False, rl_chainTip = [],
       rl_cycleNo = fold max numbers 0\<rparr>)"

definition ReadTrail :: "string \<Rightarrow> (string, string) outcome \<Rightarrow> (string, ReasoningLog) outcome" where
  \<comment> \<open>the path, and the text of the file or the error of reading it\<close>
  "ReadTrail path existing =
     (if has_suffix ''.md'' path then
        Inl (go_quote path @ '' is a markdown trail -- a human view; only a JSONL trail reads back losslessly'')
      else bindR existing (\<lambda>content. Inr (log_of_records (List.map_filter read_record (json_lines content)))))"

end
