(* ===== verification/AuthorityLoad.thy ===== *)
theory AuthorityLoad
  imports Authority Json
begin

text \<open>
  Loading the envelope registry, the rest of \<^verbatim>\<open>authority.go\<close>: the stored JSON is decoded and replaces the
  envelopes in memory.  The text of a decoding error is an argument.  A member written twice in
  one envelope overwrites the first, as in the source.
\<close>

definition envelope_fields :: "(string \<times> CapabilityEnvelope field_reader) list" where
  "envelope_fields =
     [(''agent'', string_field (\<lambda>s. en_Agent_update (\<lambda>_. s))), (''certified'', bool_field (\<lambda>b. en_Certified_update (\<lambda>_. b))),
      (''scopes'', strings_field (\<lambda>ss. en_Scopes_update (\<lambda>_. ss))),
      (''max_autonomy_tier'', int_field (\<lambda>n. en_MaxAutonomyTier_update (\<lambda>_. n))),
      (''status'', string_field (\<lambda>s. en_Status_update (\<lambda>_. s))),
      (''trust_score'', float_field (\<lambda>f. en_TrustScore_update (\<lambda>_. f))),
      (''issued_at'', string_field (\<lambda>s. en_IssuedAt_update (\<lambda>_. s))),
      (''signature'', string_field (\<lambda>s. en_Signature_update (\<lambda>_. s)))]"

definition zero_envelope :: CapabilityEnvelope where
  "zero_envelope =
     \<lparr>en_Agent = [], en_Certified = False, en_Scopes = [], en_MaxAutonomyTier = 0, en_Status = [], en_TrustScore = fzero,
      en_IssuedAt = [], en_Signature = []\<rparr>"

definition envelope_of :: "jvalue \<Rightarrow> CapabilityEnvelope option option" where
  \<comment> \<open>an element of the list: the nil pointer for null, the outer None for an error\<close>
  "envelope_of v =
     (case v of
        JNull \<Rightarrow> Some None
      | JObj ms \<Rightarrow> map_option Some (read_members envelope_fields ms zero_envelope)
      | _ \<Rightarrow> None)"

definition envelopes_field :: "CapabilityEnvelope option list field_reader" where
  "envelopes_field v x =
     (case v of JArr vs \<Rightarrow> collect_opt (map envelope_of vs) | JNull \<Rightarrow> Some [] | _ \<Rightarrow> None)"

definition store_envelope :: "CapabilityEnvelope option \<Rightarrow> (string \<times> CapabilityEnvelope) list \<Rightarrow> (string \<times> CapabilityEnvelope) list" where
  "store_envelope e m =
     (case e of Some e1 \<Rightarrow> if en_Agent e1 \<noteq> [] then map_put (Normalize (en_Agent e1)) e1 m else m | None \<Rightarrow> m)"

definition Registry_Load :: "(string \<Rightarrow> string) \<Rightarrow> 'b EnvelopeRegistry \<Rightarrow> string option \<times> 'b EnvelopeRegistry" where
  \<comment> \<open>the first argument gives the text of a decoding error\<close>
  "Registry_Load json_err g0 =
     (let g = ensure_name g0 in
      case rg_Backend g of
        None \<Rightarrow> (None, g)
      | Some be \<Rightarrow>
          (case be_Exists be (rg_StateName g) (rg_store g) of
             Inl e \<Rightarrow> (Some e, g)
           | Inr False \<Rightarrow> (None, g)
           | Inr True \<Rightarrow>
               (case be_Read be (rg_StateName g) (rg_store g) of
                  Inl e \<Rightarrow> (Some e, g)
                | Inr t \<Rightarrow>
                    (case Unmarshal_struct [(''envelopes'', envelopes_field)] t [] of
                       None \<Rightarrow> (Some (''reading authority registry '' @ go_quote (rg_StateName g) @ '': '' @ json_err t), g)
                     | Some es \<Rightarrow> (None, g\<lparr>rg_envelopes := fold store_envelope es []\<rparr>)))))"

end
