(* ===== verification/SessionJson.thy ===== *)
theory SessionJson
  imports Session AuthorityLoad
begin

text \<open>
  The JSON codec of \<^verbatim>\<open>session_store.go\<close> written out: the indented text of a payload, and the payload
  decoded from a text.  A missing context is written as an empty one.
\<close>

section \<open>Encoding\<close>

fun any_tree :: "goval \<Rightarrow> jtree option" where
  "any_tree (VList vs) = map_option JArray (collect_opt (map any_tree vs))"
| "any_tree (VStrs ss) = Some (JArray (map (\<lambda>s. JAtom (json_string s)) ss))"
| "any_tree (VMap m) =
     map_option JObject
       (collect_opt (map (\<lambda>(k, v). map_option (Pair k) v) (sort_key fst (map (\<lambda>(k, v). (k, any_tree v)) m))))"
| "any_tree v = map_option JAtom (json v)"

definition text_tree :: "string \<Rightarrow> jtree" where
  "text_tree s = JAtom (json_string s)"

definition or_null :: "jtree list \<Rightarrow> jtree" where
  \<comment> \<open>a slice that was never appended to\<close>
  "or_null ts = (if ts = [] then JAtom ''null'' else JArray ts)"

definition working_tree :: "working_payload \<Rightarrow> jtree option" where
  "working_tree w =
     (case (any_tree (VMap (wp_Context w)), json_float (wp_EvidenceConfidence w)) of
        (Some ctx, Some conf) \<Rightarrow>
          Some (JObject
            [(''intent_text'', text_tree (wp_IntentText w)), (''decision'', text_tree (wp_Decision w)), (''context'', ctx),
             (''timestamp'', text_tree (wp_Timestamp w)), (''evidence_basis'', text_tree (wp_EvidenceBasis w)),
             (''evidence_confidence'', JAtom conf)])
      | _ \<Rightarrow> None)"

definition adaptation_tree :: "Adaptation \<Rightarrow> jtree option" where
  "adaptation_tree a =
     map_option (\<lambda>conf. JObject
        [(''name'', text_tree (ad_Name a)), (''insight'', text_tree (ad_Insight a)), (''confidence'', JAtom conf),
         (''evidence_count'', JAtom (show_int (ad_EvidenceCount a)))])
       (json_float (ad_Confidence a))"

definition session_tree :: "sessionPayload \<Rightarrow> jtree option" where
  "session_tree p =
     (case (collect_opt (map working_tree (py_Working p)), collect_opt (map adaptation_tree (py_Adaptations p))) of
        (Some ws, Some as) \<Rightarrow>
          Some (JObject
            [(''runtime'', text_tree (py_Runtime p)), (''saved_at'', text_tree (py_SavedAt p)),
             (''memory'', JObject
                [(''capacity'', JAtom (show_int (py_Capacity p))), (''compressed'', JArray (map text_tree (py_Compressed p))),
                 (''working'', or_null ws)]),
             (''experience'', JObject
                [(''observations'', JAtom (show_int (py_Observations p))),
                 (''decision_counts'', JObject (map (\<lambda>k. (k, JAtom (show_int (the (map_of (py_DecisionCounts p) k)))))
                                                 (sorted_keys (py_DecisionCounts p))))]),
             (''adaptations'', or_null as)])
      | _ \<Rightarrow> None)"

definition session_marshal :: "sessionPayload \<Rightarrow> string option" where
  "session_marshal p = map_option (render_tree 0) (session_tree p)"

section \<open>Decoding\<close>

definition struct_field :: "(string \<times> 'a field_reader) list \<Rightarrow> 'a field_reader" where
  \<comment> \<open>a struct inside the struct\<close>
  "struct_field fs v x = (case v of JObj ms \<Rightarrow> read_members fs ms x | JNull \<Rightarrow> Some x | _ \<Rightarrow> None)"

definition structs_field :: "(string \<times> 'b field_reader) list \<Rightarrow> 'b \<Rightarrow> ('b list \<Rightarrow> 'a \<Rightarrow> 'a) \<Rightarrow> 'a field_reader" where
  \<comment> \<open>a list of structs, each read into a zero one\<close>
  "structs_field fs zero put v x =
     (case v of
        JArr vs \<Rightarrow> map_option (\<lambda>ys. put ys x) (collect_opt (map (\<lambda>w. struct_field fs w zero) vs))
      | JNull \<Rightarrow> Some (put [] x)
      | _ \<Rightarrow> None)"

definition counts_field :: "((string \<times> int) list \<Rightarrow> 'a \<Rightarrow> 'a) \<Rightarrow> 'a field_reader" where
  "counts_field put v x =
     (case v of
        JObj ms \<Rightarrow>
          map_option (\<lambda>kvs. put (fold (\<lambda>(k, n). map_put k n) kvs []) x)
            (collect_opt (map (\<lambda>(k, w). map_option (Pair k) (int_field (\<lambda>n _. n) w 0)) ms))
      | JNull \<Rightarrow> Some (put [] x)
      | _ \<Rightarrow> None)"

definition working_fields :: "(string \<times> working_payload field_reader) list" where
  "working_fields =
     [(''intent_text'', string_field (\<lambda>s. wp_IntentText_update (\<lambda>_. s))), (''decision'', string_field (\<lambda>s. wp_Decision_update (\<lambda>_. s))),
      (''context'', map_field (\<lambda>m. wp_Context_update (\<lambda>_. m))), (''timestamp'', string_field (\<lambda>s. wp_Timestamp_update (\<lambda>_. s))),
      (''evidence_basis'', string_field (\<lambda>s. wp_EvidenceBasis_update (\<lambda>_. s))),
      (''evidence_confidence'', float_field (\<lambda>f. wp_EvidenceConfidence_update (\<lambda>_. f)))]"

definition zero_working :: working_payload where
  "zero_working =
     \<lparr>wp_IntentText = [], wp_Decision = [], wp_Context = [], wp_Timestamp = [], wp_EvidenceBasis = [], wp_EvidenceConfidence = fzero\<rparr>"

definition adaptation_fields :: "(string \<times> Adaptation field_reader) list" where
  "adaptation_fields =
     [(''name'', string_field (\<lambda>s. ad_Name_update (\<lambda>_. s))), (''insight'', string_field (\<lambda>s. ad_Insight_update (\<lambda>_. s))),
      (''confidence'', float_field (\<lambda>f. ad_Confidence_update (\<lambda>_. f))),
      (''evidence_count'', int_field (\<lambda>n. ad_EvidenceCount_update (\<lambda>_. n)))]"

definition zero_adaptation :: Adaptation where
  "zero_adaptation = \<lparr>ad_Name = [], ad_Insight = [], ad_Confidence = fzero, ad_EvidenceCount = 0\<rparr>"

definition session_fields :: "(string \<times> sessionPayload field_reader) list" where
  "session_fields =
     [(''runtime'', string_field (\<lambda>s. py_Runtime_update (\<lambda>_. s))), (''saved_at'', string_field (\<lambda>s. py_SavedAt_update (\<lambda>_. s))),
      (''memory'', struct_field
        [(''capacity'', int_field (\<lambda>n. py_Capacity_update (\<lambda>_. n))), (''compressed'', strings_field (\<lambda>ss. py_Compressed_update (\<lambda>_. ss))),
         (''working'', structs_field working_fields zero_working (\<lambda>ws. py_Working_update (\<lambda>_. ws)))]),
      (''experience'', struct_field
        [(''observations'', int_field (\<lambda>n. py_Observations_update (\<lambda>_. n))),
         (''decision_counts'', counts_field (\<lambda>c. py_DecisionCounts_update (\<lambda>_. c)))]),
      (''adaptations'', structs_field adaptation_fields zero_adaptation (\<lambda>as. py_Adaptations_update (\<lambda>_. as)))]"

definition zero_payload :: sessionPayload where
  "zero_payload =
     \<lparr>py_Runtime = [], py_SavedAt = [], py_Capacity = 0, py_Compressed = [], py_Working = [], py_Observations = 0,
      py_DecisionCounts = [], py_Adaptations = []\<rparr>"

definition session_unmarshal :: "string \<Rightarrow> sessionPayload option" where
  "session_unmarshal t = Unmarshal_struct session_fields t zero_payload"

end
