(* ===== verification/Paths.thy ===== *)
theory Paths
  imports Ear_Prelude
begin

text \<open>What the source uses of \<^verbatim>\<open>path/filepath\<close>, on a system whose separator is the slash.\<close>

definition slash :: char where "slash = CHR ''/''"

definition IsAbs :: "string \<Rightarrow> bool" where
  "IsAbs p \<longleftrightarrow> p \<noteq> [] \<and> hd p = slash"

definition clean_step :: "bool \<Rightarrow> string \<Rightarrow> string list \<Rightarrow> string list" where
  \<comment> \<open>one element of the path against the elements kept so far, the last one first\<close>
  "clean_step rooted el kept =
     (if el = [] \<or> el = ''.'' then kept
      else if el = ''..'' then
        (if kept \<noteq> [] \<and> hd kept \<noteq> ''..'' then tl kept else if rooted then kept else ''..'' # kept)
      else el # kept)"

definition clean_elements :: "string \<Rightarrow> string list" where
  "clean_elements p = rev (fold (clean_step (IsAbs p)) (split_char slash p) [])"

definition Clean :: "string \<Rightarrow> string" where
  "Clean p =
     (let body = join_with [slash] (clean_elements p) in
      if IsAbs p then slash # body else if body = [] then ''.'' else body)"

definition Join :: "string list \<Rightarrow> string" where
  "Join els =
     (let els' = filter (\<lambda>e. e \<noteq> []) els in if els' = [] then [] else Clean (join_with [slash] els'))"

definition Base :: "string \<Rightarrow> string" where
  "Base p =
     (if p = [] then ''.''
      else (let q = trim_right (\<lambda>c. c = slash) p in if q = [] then [slash] else last (split_char slash q)))"

definition resolve_path :: "string \<Rightarrow> string \<Rightarrow> string" where
  \<comment> \<open>a path declared in a stack: kept when absolute, else taken from the stack's directory\<close>
  "resolve_path directory path = (if IsAbs path then path else Join [directory, path])"

section \<open>A plain name below a directory\<close>

definition plain_name :: "string \<Rightarrow> bool" where
  "plain_name s \<longleftrightarrow> slash \<notin> set s \<and> s \<notin> {[], ''.'', ''..''}"

definition below :: "string \<Rightarrow> string" where
  \<comment> \<open>what every path of a file in a directory begins with\<close>
  "below d =
     (if d = [] then [] else (if IsAbs d then [slash] else []) @ concat (map (\<lambda>e. e @ [slash]) (clean_elements d)))"

lemma split_char_snoc: "sep \<notin> set s \<Longrightarrow> split_char sep (d @ sep # s) = split_char sep d @ [s]"
  by (induction d) (auto simp: split_char_single split: list.split)

lemma join_snoc: "join_with sep (xs @ [s]) = concat (map (\<lambda>e. e @ sep) xs) @ s"
  by (induction xs) (simp_all add: join_with_Cons)

lemma clean_elements_plain: "plain_name s \<Longrightarrow> clean_elements (d @ slash # s) = clean_elements d @ [s]" if "d \<noteq> []"
  using that by (auto simp: clean_elements_def IsAbs_def plain_name_def split_char_snoc clean_step_def)

lemma Join_plain: "plain_name s \<Longrightarrow> Join [d, s] = below d @ s"
proof -
  assume s: "plain_name s"
  then have "\<not> IsAbs s" by (metis IsAbs_def hd_in_set plain_name_def)
  moreover have "clean_elements s = [s]"
    using s by (simp add: clean_elements_def split_char_single plain_name_def clean_step_def)
  moreover have "IsAbs (d @ slash # s) = IsAbs d" if "d \<noteq> []" using that by (simp add: IsAbs_def)
  ultimately show ?thesis
    using s clean_elements_plain [of d s]
    by (auto simp: Join_def Clean_def below_def plain_name_def Let_def join_snoc [where xs = "[]", simplified] join_snoc join_with_Cons)
qed

lemma Join_plain_inj: "plain_name s \<Longrightarrow> plain_name t \<Longrightarrow> Join [d, s] = Join [d, t] \<longleftrightarrow> s = t"
  by (simp add: Join_plain)

end
