(* ===== verification/Loader.thy ===== *)
theory Loader
  imports Knowledge TrailJson SessionJson Paths Spawner
begin

text \<open>
  Loading a directory into a runtime, the rest of \<^verbatim>\<open>loader.go\<close>: the candidate files, the order in which
  they are parsed and stacked, the wiring of memory.md, the knowledge sources, the session store and the
  audit trail.  What the loader takes from outside is a record: the files, the environment, the clock,
  what a bound model writes, and the errors of creating and opening a file.
\<close>

record LoadEnv =
  le_files :: files
  le_getenv :: "string \<Rightarrow> string"
  le_now :: gotime
  le_model :: "HTTPClient \<Rightarrow> summarizer \<times> summarizer"  \<comment> \<open>SummarizeHistory and DistillInsight run against a client\<close>
  le_mkdir_err :: "string \<Rightarrow> string option"
  le_open_err :: "string \<Rightarrow> string option"
  le_oor :: "f64 \<Rightarrow> int"
  le_log :: "f64 \<Rightarrow> f64"                               \<comment> \<open>math.Log\<close>
  le_range :: "nat \<Rightarrow> string list \<Rightarrow> string list"      \<comment> \<open>the order in which a map is ranged over\<close>

section \<open>The candidate files\<close>

definition fileCandidates :: "string \<Rightarrow> string list" where
  "fileCandidates kind =
     (case map_of
        [(''skills'', [''skills.md'', ''skill.md'']), (''personas'', [''persona.md'', ''personas.md'']),
         (''workflows'', [''workflow.md'', ''workflows.md'']), (''processes'', [''process.md'', ''processes.md'']),
         (''policies'', [''policy.md'', ''policies.md'']), (''tenant'', [''tenant.md'', ''org.md'']),
         (''memory'', [''memory.md''])] kind of
        Some cs \<Rightarrow> cs
      | None \<Rightarrow> [])"

definition loader_source :: "files \<Rightarrow> string \<Rightarrow> string \<Rightarrow> string \<times> string \<times> bool" where
  "loader_source fs directory kind =
     (case first_some (\<lambda>c. map_option (Pair c) (fs (Join [directory, c]))) (fileCandidates kind) of
        Some (candidate, t) \<Rightarrow> (t, candidate, True)
      | None \<Rightarrow> ([], [], False))"

definition loader_read :: "files \<Rightarrow> string \<Rightarrow> string \<Rightarrow> string" where
  "loader_read fs directory kind = fst (loader_source fs directory kind)"

definition loader_parse :: "files \<Rightarrow> string \<Rightarrow> string \<Rightarrow> Document" where
  "loader_parse fs directory kind = ParseDocument (loader_read fs directory kind)"

section \<open>What a load gives\<close>

record Loaded =
  ld_Runtime :: Runtime
  ld_Tenant :: Tenant
  ld_Client :: "HTTPClient option"  \<comment> \<open>the field LM\<close>
  ld_Aux :: "HTTPClient option"     \<comment> \<open>the field AuxLM\<close>
  ld_Spawner :: "Spawner option"

definition stack_name :: "string \<Rightarrow> Document \<Rightarrow> string \<Rightarrow> string" where
  "stack_name name processesDoc directory =
     (let n = (if name = [] then doc_Title processesDoc else name) in if n = [] then Base directory else n)"

definition load_stack :: "files \<Rightarrow> string \<Rightarrow> string \<Rightarrow> Loaded loaded" where
  \<comment> \<open>the stacked files, before memory.md\<close>
  "load_stack fs directory name =
     (let skillsDoc = loader_parse fs directory ''skills''; skills = loadSkills skillsDoc;
          processesDoc = loader_parse fs directory ''processes'';
          (tenantText, tenantFile, tenantFound) = loader_source fs directory ''tenant''
      in bindR (loadPersonas (length (doc_Sections skillsDoc)) (loader_parse fs directory ''personas'') skills) (\<lambda>personas.
         bindR (loadPolicies (loader_parse fs directory ''policies'')) (\<lambda>(policies, scopes).
         bindR (loadWorkflows (loader_parse fs directory ''workflows'') personas policies) (\<lambda>(workflows, order).
         bindR (loadProcesses processesDoc workflows) (\<lambda>(processes, referenced).
         bindR (loadTenant (ParseDocument tenantText) tenantFile tenantFound) (\<lambda>tenant.
           (let r0 = (NewRuntime (stack_name name processesDoc directory))\<lparr>rt_OrgID := tn_OrgID tenant\<rparr>;
                r1 = stack_processes processes workflows order referenced r0
            in bindR (applyPolicyScopes policies scopes (r1, workflows)) (\<lambda>(r2, _).
                 Inr \<lparr>ld_Runtime = r2, ld_Tenant = tenant, ld_Client = None, ld_Aux = None, ld_Spawner = None\<rparr>))))))))"

section \<open>memory.md\<close>

definition on_runtime :: "(Runtime \<Rightarrow> Runtime) \<Rightarrow> Loaded \<Rightarrow> Loaded" where
  "on_runtime f l = l\<lparr>ld_Runtime := f (ld_Runtime l)\<rparr>"

definition bind_client :: "LoadEnv \<Rightarrow> HTTPClient option \<Rightarrow> Loaded \<Rightarrow> Loaded" where
  "bind_client e client l =
     (case client of
        None \<Rightarrow> l
      | Some c \<Rightarrow>
          (on_runtime (attachLM no_calls True (fst (le_model e c)) (snd (le_model e c))) l)\<lparr>ld_Client := Some c\<rparr>)"

definition bind_aux :: "LoadEnv \<Rightarrow> HTTPClient option \<Rightarrow> Loaded \<Rightarrow> Loaded" where
  "bind_aux e client l =
     (case client of
        None \<Rightarrow> l
      | Some c \<Rightarrow> (on_runtime (attachAuxiliaryLM (fst (le_model e c)) (snd (le_model e c))) l)\<lparr>ld_Aux := Some c\<rparr>)"

definition apply_strategy :: "Strategy \<Rightarrow> Runtime \<Rightarrow> Runtime" where
  \<comment> \<open>the strategy, the tools, the capacity and the budget\<close>
  "apply_strategy s r =
     (let r1 = r\<lparr>rt_Strategy := Some s, rt_Tools := sy_Tools s\<rparr>;
          r2 = (if 0 < sy_HistoryCapacity s
                then r1\<lparr>rt_Memory := (rt_Memory r1)\<lparr>mm_Capacity := sy_HistoryCapacity s\<rparr>\<rparr> else r1)
      in if flt fzero (sy_Budget s)
         then r2\<lparr>rt_Budget := Some (NewBudgetMonitor (sy_Budget s) (sy_AlertThresholds s))\<rparr> else r2)"

definition applyMemoryStrategy :: "LoadEnv \<Rightarrow> string \<Rightarrow> Loaded \<Rightarrow> Loaded" where
  "applyMemoryStrategy e memoryText l =
     (if memoryText = [] then l
      else (let s = StrategyFromMarkdown memoryText;
                l1 = on_runtime (apply_strategy s) l;
                l2 = bind_client e (ModelClient (le_getenv e) s) l1;
                l3 = bind_aux e (AuxModelClient (le_getenv e) s) l2
            in if sy_SubagentsConfigured s
               then l3\<lparr>ld_Spawner := Some \<lparr>sp_Enabled = sy_SubagentsEnabled s, sp_Limit = sy_MaxSubagents s, sp_spawned = []\<rparr>\<rparr>
               else l3))"

definition add_source :: "LoadEnv \<Rightarrow> string \<Rightarrow> KnowledgeSource \<Rightarrow> Passage list \<Rightarrow> Passage list" where
  "add_source e directory src corpus =
     (let path = resolve_path directory (ks_Path src) in
      case le_files e path of
        None \<Rightarrow> corpus
      | Some data \<Rightarrow> AddDocument (ks_Name src) (Base path) data corpus)"

definition loadKnowledge :: "LoadEnv \<Rightarrow> string \<Rightarrow> Runtime \<Rightarrow> Runtime" where
  "loadKnowledge e directory r =
     (case rt_Strategy r of
        None \<Rightarrow> r
      | Some s \<Rightarrow>
          (let corpus = fold (add_source e directory) (sy_KnowledgeSources s) [] in
           if 0 < length corpus then r\<lparr>rt_Librarian := Some (corpus_librarian (le_log e) (le_range e) corpus)\<rparr> else r))"

definition loadSessionStore :: "LoadEnv \<Rightarrow> string \<Rightarrow> Runtime \<Rightarrow> Runtime" where
  "loadSessionStore e directory r =
     (case rt_Strategy r of
        None \<Rightarrow> r
      | Some s \<Rightarrow>
          if sy_CrossSessionPath s = [] then r
          else (let path = resolve_path directory (sy_CrossSessionPath s)
                in (snd (Session_Restore session_unmarshal (le_now e) (le_files e) path r))\<lparr>rt_SessionStore := Some path\<rparr>))"

definition WithSessionStore :: "LoadEnv \<Rightarrow> string \<Rightarrow> Runtime \<Rightarrow> Runtime" where
  "WithSessionStore e path r =
     (snd (Session_Restore session_unmarshal (le_now e) (le_files e) path r))\<lparr>rt_SessionStore := Some path\<rparr>"

definition trail_log :: "TrailFile \<Rightarrow> ReasoningLog \<Rightarrow> ReasoningLog" where
  "trail_log t l = SeedCycleNumbering (tf_maxCycle t) (l\<lparr>rl_Trail := Some t\<rparr>)"

definition loadAuditTrail :: "LoadEnv \<Rightarrow> string \<Rightarrow> Runtime \<Rightarrow> Runtime loaded" where
  "loadAuditTrail e directory r =
     (case rt_Strategy r of
        None \<Rightarrow> Inr r
      | Some s \<Rightarrow>
          if \<not> sy_AuditEnabled s \<or> sy_AuditPath s = [] then Inr r
          else (let path = resolve_path directory (sy_AuditPath s) in
                case OpenTrailFile (le_oor e) (le_mkdir_err e) (le_open_err e) path (le_files e path) of
                  Inl err \<Rightarrow> Inl (''audit trail declared in memory.md: '' @ err)
                | Inr trail \<Rightarrow> Inr (r\<lparr>rt_ReasoningLog := trail_log trail (rt_ReasoningLog r)\<rparr>)))"

definition LoadRuntime :: "LoadEnv \<Rightarrow> string \<Rightarrow> string \<Rightarrow> Loaded loaded" where
  "LoadRuntime e directory name =
     bindR (load_stack (le_files e) directory name) (\<lambda>l.
       (let l1 = applyMemoryStrategy e (loader_read (le_files e) directory ''memory'') l;
            l2 = on_runtime (loadSessionStore e directory \<circ> loadKnowledge e directory) l1
        in bindR (loadAuditTrail e directory (ld_Runtime l2)) (\<lambda>r. Inr (l2\<lparr>ld_Runtime := r\<rparr>))))"

end
