(* ===== verification/LoaderProps.thy ===== *)
theory LoaderProps
  imports Loader
begin

text \<open>
  What a load promises: no authored workflow or policy is dropped, a tenant that is declared is never
  replaced by the default, and a trail that is declared is open and continues the file.
\<close>

section \<open>Loops that stop at an error\<close>

lemma foldR_keeps:
  assumes "foldR f xs s = Inr s'" "I s" "\<And>x s s'. x \<in> set xs \<Longrightarrow> I s \<Longrightarrow> f x s = Inr s' \<Longrightarrow> I s'"
  shows "I s'"
  using assms
proof (induction xs arbitrary: s)
  case (Cons x xs)
  then obtain s1 where s1: "f x s = Inr s1" "foldR f xs s1 = Inr s'" by (auto simp: bindR_eq_Inr)
  have "I s1" using Cons.prems(2,3) s1(1) by auto
  show ?case by (rule Cons.IH [OF s1(2) \<open>I s1\<close>]) (use Cons.prems(3) in auto)
qed simp

lemma foldR_reaches:
  assumes "foldR f xs s = Inr s'" "I s"
    "\<And>x s s'. x \<in> set xs \<Longrightarrow> I s \<Longrightarrow> f x s = Inr s' \<Longrightarrow> I s' \<and> Q x s' \<and> (\<forall>y. Q y s \<longrightarrow> Q y s')"
  shows "I s' \<and> (\<forall>x \<in> set xs. Q x s') \<and> (\<forall>y. Q y s \<longrightarrow> Q y s')"
  using assms
proof (induction xs arbitrary: s)
  case (Cons x xs)
  then obtain s1 where s1: "f x s = Inr s1" "foldR f xs s1 = Inr s'" by (auto simp: bindR_eq_Inr)
  have a: "I s1 \<and> Q x s1 \<and> (\<forall>y. Q y s \<longrightarrow> Q y s1)" using Cons.prems(2,3) s1(1) by auto
  have "I s' \<and> (\<forall>x \<in> set xs. Q x s') \<and> (\<forall>y. Q y s1 \<longrightarrow> Q y s')"
    by (rule Cons.IH [OF s1(2)]) (use Cons.prems(3) a in auto)
  with a show ?case by auto
qed simp

section \<open>Workflows\<close>

definition named_keys :: "('a \<Rightarrow> string) \<Rightarrow> (string \<times> 'a) list \<Rightarrow> bool" where
  "named_keys name_of m \<longleftrightarrow> (\<forall>k v. map_of m k = Some v \<longrightarrow> Normalize (name_of v) = k)"

lemma named_keys_put: "named_keys nm m \<Longrightarrow> Normalize (nm v) = k \<Longrightarrow> named_keys nm (map_put k v m)"
  by (simp add: named_keys_def)

definition from_policies :: "(string \<times> Policy) list \<Rightarrow> Workflow \<Rightarrow> bool" where
  "from_policies policies w \<longleftrightarrow> (\<forall>p \<in> set (wf_Policies w). p \<in> ran (map_of policies))"

lemma resolve_Inr: "resolve m ref kind nm = Inr v \<longleftrightarrow> map_of m (Normalize ref) = Some v"
  by (auto simp: resolve_def Let_def split: option.splits)

lemma load_workflow_props:
  assumes "load_workflow personas policies i sec = Inr w"
  shows "wf_Name w = sec_Name sec \<and> from_policies policies w"
proof -
  have items: "wf_Name (fold (add_item personas d) items w0) = wf_Name w0 \<and> wf_Policies (fold (add_item personas d) items w0) = wf_Policies w0"
    for d items w0
    by (induction items arbitrary: w0) (simp_all add: add_item_def AddStep_def split: prod.split)
  let ?I = "\<lambda>w. wf_Name w = sec_Name sec \<and> from_policies policies w"
  obtain w0 refs where "foldR (workflow_policy policies) refs w0 = Inr w" "?I w0"
    using assms items
    by (auto simp: load_workflow_def Let_def bindR_eq_Inr from_policies_def)
  then show ?thesis
    by (rule foldR_keeps [where I = ?I])
      (auto simp: workflow_policy_def bindR_eq_Inr resolvePolicy_def resolve_Inr AddPolicy_def from_policies_def ran_def)
qed

definition workflows_ok :: "(string \<times> Policy) list \<Rightarrow> workflow_state \<Rightarrow> bool" where
  "workflows_ok policies st \<longleftrightarrow>
     named_keys wf_Name (ws_map st) \<and> (\<forall>k \<in> set (ws_order st). map_of (ws_map st) k \<noteq> None) \<and>
     dom (map_of (ws_map st)) \<subseteq> set (ws_order st) \<and>
     (\<forall>w \<in> ran (map_of (ws_map st)). from_policies policies w) \<and>
     (\<forall>k w. ws_last st = Some (k, w) \<longrightarrow> k \<in> set (ws_order st) \<and> Normalize (wf_Name w) = k \<and> from_policies policies w)"

lemma ran_put: "v \<in> ran (m(k \<mapsto> w)) \<Longrightarrow> v = w \<or> v \<in> ran m"
  by (auto simp: ran_def split: if_splits)

lemma workflow_section_ok:
  assumes "workflows_ok policies st" "workflow_section personas policies (i, sec) st = Inr st'"
  shows "workflows_ok policies st' \<and> (\<not> is_deliverable sec \<longrightarrow> key_of sec \<in> set (ws_order st')) \<and>
    set (ws_order st) \<subseteq> set (ws_order st')"
proof (cases "is_deliverable sec")
  case True
  with assms(2) obtain k w c where st': "ws_last st = Some (k, w)"
    "st' = st\<lparr>ws_map := map_put k (w\<lparr>wf_Contract := Some c\<rparr>) (ws_map st), ws_last := Some (k, w\<lparr>wf_Contract := Some c\<rparr>)\<rparr>"
    by (auto simp: workflow_section_def bindR_eq_Inr Let_def split: option.splits)
  with assms(1) True show ?thesis
    by (auto simp: workflows_ok_def from_policies_def dest!: ran_put intro!: named_keys_put)
next
  case False
  with assms(2) obtain w where w: "load_workflow personas policies i sec = Inr w"
    "st' = st\<lparr>ws_map := map_put (key_of sec) w (ws_map st), ws_order := ws_order st @ [key_of sec], ws_last := Some (key_of sec, w)\<rparr>"
    by (auto simp: workflow_section_def bindR_eq_Inr)
  have "Normalize (wf_Name w) = key_of sec" "from_policies policies w"
    using load_workflow_props [OF w(1)] by (simp_all add: key_of_def)
  with assms(1) False w(2) show ?thesis
    by (auto simp: workflows_ok_def dest!: ran_put intro!: named_keys_put)
qed

lemma loadWorkflows_props:
  assumes "loadWorkflows doc personas policies = Inr (workflows, order)"
  shows "named_keys wf_Name workflows \<and> (\<forall>k \<in> set order. map_of workflows k \<noteq> None) \<and> dom (map_of workflows) \<subseteq> set order \<and>
    (\<forall>w \<in> ran (map_of workflows). from_policies policies w) \<and>
    (\<forall>sec \<in> set (doc_Sections doc). \<not> is_deliverable sec \<longrightarrow> key_of sec \<in> set order)"
proof -
  obtain st where st: "foldR (workflow_section personas policies) (enumerate 0 (doc_Sections doc)) no_workflows = Inr st"
    "workflows = ws_map st" "order = ws_order st"
    using assms by (auto simp: loadWorkflows_def map_sum_def split: sum.splits)
  have start: "workflows_ok policies no_workflows" by (simp add: workflows_ok_def no_workflows_def named_keys_def)
  let ?Q = "\<lambda>isec st. \<not> is_deliverable (snd isec) \<longrightarrow> key_of (snd isec) \<in> set (ws_order st)"
  have step: "workflows_ok policies s' \<and> ?Q x s' \<and> (\<forall>y. ?Q y s \<longrightarrow> ?Q y s')"
    if "workflows_ok policies s" "workflow_section personas policies x s = Inr s'" for x s s'
    using workflow_section_ok [of policies s personas "fst x" "snd x" s'] that by auto
  have "workflows_ok policies st \<and> (\<forall>isec \<in> set (enumerate 0 (doc_Sections doc)). ?Q isec st)"
    using foldR_reaches [OF st(1), of "workflows_ok policies" ?Q, OF start step] by blast
  moreover have "set (doc_Sections doc) = snd ` set (enumerate 0 (doc_Sections doc))" by (metis list.set_map map_snd_enumerate)
  ultimately have "workflows_ok policies st \<and> (\<forall>sec \<in> set (doc_Sections doc). \<not> is_deliverable sec \<longrightarrow> key_of sec \<in> set (ws_order st))"
    by (simp only:) blast
  then show ?thesis using st(2,3) by (simp add: workflows_ok_def)
qed

definition authored_as :: "Workflow \<Rightarrow> Workflow \<Rightarrow> bool" where
  \<comment> \<open>the second is the first with a deliverable attached and policies added\<close>
  "authored_as w0 w \<longleftrightarrow>
     w = w0\<lparr>wf_Policies := wf_Policies w, wf_Contract := wf_Contract w\<rparr> \<and> set (wf_Policies w0) \<subseteq> set (wf_Policies w)"

lemma authored_refl [simp]: "authored_as w w" "authored_as w (w\<lparr>wf_Contract := c\<rparr>)" "authored_as w (AddPolicy w p)"
  by (simp_all add: authored_as_def AddPolicy_def subset_insertI)

lemma authored_trans: "authored_as w0 w1 \<Longrightarrow> authored_as w1 w2 \<Longrightarrow> authored_as w0 w2"
proof -
  assume a: "authored_as w0 w1" "authored_as w1 w2"
  define p c p' c' where "p = wf_Policies w1" "c = wf_Contract w1" "p' = wf_Policies w2" "c' = wf_Contract w2"
  with a have "w1 = w0\<lparr>wf_Policies := p, wf_Contract := c\<rparr>" "w2 = w1\<lparr>wf_Policies := p', wf_Contract := c'\<rparr>"
    by (simp_all add: authored_as_def)
  with a show ?thesis by (auto simp: authored_as_def)
qed

fun last_keyed :: "(Section \<Rightarrow> bool) \<Rightarrow> Section list \<Rightarrow> nat \<Rightarrow> bool" where
  \<comment> \<open>the section at the position counts, and no later one that counts has its key\<close>
  "last_keyed P [] i = False"
| "last_keyed P (sec # secs) 0 = (P sec \<and> key_of sec \<notin> key_of ` {t \<in> set secs. P t})"
| "last_keyed P (sec # secs) (Suc i) = last_keyed P secs i"

definition last_put :: "workflow_state \<Rightarrow> bool" where
  "last_put st \<longleftrightarrow> (\<forall>k w. ws_last st = Some (k, w) \<longrightarrow> map_of (ws_map st) k = Some w)"

definition authored_maps :: "(string \<times> Workflow) list \<Rightarrow> (string \<times> Workflow) list \<Rightarrow> string \<Rightarrow> bool" where
  "authored_maps m m' k \<longleftrightarrow> (\<forall>w. map_of m k = Some w \<longrightarrow> (\<exists>w'. map_of m' k = Some w' \<and> authored_as w w'))"

lemma authored_maps_trans: "authored_maps m m1 k \<Longrightarrow> authored_maps m1 m2 k \<Longrightarrow> authored_maps m m2 k"
  unfolding authored_maps_def by (meson authored_trans)

lemma workflow_section_authored:
  assumes "workflow_section personas policies (i, sec) st = Inr st'" "last_put st"
  shows "last_put st' \<and>
    (if is_deliverable sec then \<forall>k. authored_maps (ws_map st) (ws_map st') k
     else (\<exists>w. load_workflow personas policies i sec = Inr w \<and> map_of (ws_map st') (key_of sec) = Some w) \<and>
       (\<forall>k. k \<noteq> key_of sec \<longrightarrow> map_of (ws_map st') k = map_of (ws_map st) k))"
  using assms
  by (auto simp: workflow_section_def bindR_eq_Inr Let_def last_put_def authored_maps_def split: option.splits if_splits)

lemma workflows_authored:
  assumes "foldR (workflow_section personas policies) (enumerate n secs) st = Inr st'" "last_put st"
  shows "(\<forall>i. last_keyed (\<lambda>t. \<not> is_deliverable t) secs i \<longrightarrow>
       (\<exists>w0 w. load_workflow personas policies (n + i) (secs ! i) = Inr w0 \<and> map_of (ws_map st') (key_of (secs ! i)) = Some w \<and>
          authored_as w0 w)) \<and>
    (\<forall>k. k \<notin> key_of ` {t \<in> set secs. \<not> is_deliverable t} \<longrightarrow> authored_maps (ws_map st) (ws_map st') k)"
  using assms
proof (induction secs arbitrary: n st)
  case Nil
  then show ?case by (simp add: authored_maps_def)
next
  case (Cons sec secs)
  then obtain st1 where st1: "workflow_section personas policies (n, sec) st = Inr st1"
    "foldR (workflow_section personas policies) (enumerate (Suc n) secs) st1 = Inr st'" by (auto simp: bindR_eq_Inr)
  note one = workflow_section_authored [OF st1(1) Cons.prems(2)]
  then have "last_put st1" by blast
  note IH = Cons.IH [OF st1(2) this]
  have keep: "authored_maps (ws_map st) (ws_map st') k" if "k \<notin> key_of ` {t \<in> set (sec # secs). \<not> is_deliverable t}" for k
  proof (rule authored_maps_trans)
    show "authored_maps (ws_map st) (ws_map st1) k"
    proof (cases "is_deliverable sec")
      case True
      then show ?thesis using one by simp
    next
      case False
      then have "k \<noteq> key_of sec" using that by auto
      then show ?thesis using one False by (simp add: authored_maps_def)
    qed
    show "authored_maps (ws_map st1) (ws_map st') k" using IH that by auto
  qed
  have "\<exists>w0 w. load_workflow personas policies (n + i) ((sec # secs) ! i) = Inr w0 \<and>
      map_of (ws_map st') (key_of ((sec # secs) ! i)) = Some w \<and> authored_as w0 w"
    if i: "last_keyed (\<lambda>t. \<not> is_deliverable t) (sec # secs) i" for i
  proof (cases i)
    case 0
    then have s: "\<not> is_deliverable sec" "key_of sec \<notin> key_of ` {t \<in> set secs. \<not> is_deliverable t}"
      using i by simp_all
    then obtain w0 where "load_workflow personas policies n sec = Inr w0" "map_of (ws_map st1) (key_of sec) = Some w0"
      using one by auto
    moreover have "authored_maps (ws_map st1) (ws_map st') (key_of sec)" using IH s(2) by blast
    ultimately show ?thesis using 0 by (auto simp: authored_maps_def)
  next
    case (Suc j)
    then have "last_keyed (\<lambda>t. \<not> is_deliverable t) secs j" using i by simp
    with IH Suc show ?thesis by simp
  qed
  with keep show ?case by blast
qed

section \<open>Policies\<close>

definition policies_ok :: "nat \<Rightarrow> policy_files \<Rightarrow> bool" where
  \<comment> \<open>after n sections: each policy under its name, the addresses below n and distinct\<close>
  "policies_ok n ps \<longleftrightarrow>
     named_keys po_Name (fst ps) \<and> (\<forall>p \<in> ran (map_of (fst ps)). po_ref p < n) \<and>
     (\<forall>p \<in> ran (map_of (fst ps)). \<forall>q \<in> ran (map_of (fst ps)). po_ref p = po_ref q \<longrightarrow> p = q)"

lemma load_policy_props: "load_policy i sec = Inr p \<Longrightarrow> po_Name p = sec_Name sec \<and> po_ref p = i"
  by (auto simp: load_policy_def Let_def bindR_eq_Inr)

lemma foldR_policies:
  assumes "foldR (\<lambda>(i, sec) (policies, scopes).
        bindR (load_policy i sec) (\<lambda>p. Inr (map_put (key_of sec) p policies, map_put (key_of sec) (policy_scope sec) scopes)))
       (enumerate n secs) ps = Inr ps'" "policies_ok n ps"
  shows "policies_ok (n + length secs) ps' \<and> (\<forall>sec \<in> set secs. key_of sec \<in> dom (map_of (fst ps'))) \<and>
    dom (map_of (fst ps)) \<subseteq> dom (map_of (fst ps'))"
  using assms
proof (induction secs arbitrary: n ps)
  case (Cons sec secs)
  obtain policies scopes where ps: "ps = (policies, scopes)" by fastforce
  with Cons.prems(1) obtain p where p: "load_policy n sec = Inr p"
    "foldR (\<lambda>(i, sec) (policies, scopes).
        bindR (load_policy i sec) (\<lambda>p. Inr (map_put (key_of sec) p policies, map_put (key_of sec) (policy_scope sec) scopes)))
       (enumerate (Suc n) secs) (map_put (key_of sec) p policies, map_put (key_of sec) (policy_scope sec) scopes) = Inr ps'"
    by (auto simp: bindR_eq_Inr)
  have "po_Name p = sec_Name sec" "po_ref p = n" using load_policy_props [OF p(1)] by auto
  with Cons.prems(2) ps have "policies_ok (Suc n) (map_put (key_of sec) p policies, map_put (key_of sec) (policy_scope sec) scopes)"
    by (fastforce simp: policies_ok_def key_of_def less_Suc_eq dest!: ran_put intro!: named_keys_put)
  moreover have "dom (map_of (map_put (key_of sec) p policies)) = insert (key_of sec) (dom (map_of policies))" by auto
  ultimately show ?case using Cons.IH [OF p(2)] ps by (simp del: map_of_map_put)
qed simp

lemma policies_loaded:
  assumes "foldR (\<lambda>(i, sec) (policies, scopes).
        bindR (load_policy i sec) (\<lambda>p. Inr (map_put (key_of sec) p policies, map_put (key_of sec) (policy_scope sec) scopes)))
       (enumerate n secs) ps = Inr ps'"
  shows "(\<forall>i. last_keyed (\<lambda>_. True) secs i \<longrightarrow>
       (\<exists>p. load_policy (n + i) (secs ! i) = Inr p \<and> map_of (fst ps') (key_of (secs ! i)) = Some p)) \<and>
    (\<forall>k. k \<notin> key_of ` set secs \<longrightarrow> map_of (fst ps') k = map_of (fst ps) k)"
  using assms
proof (induction secs arbitrary: n ps)
  case Nil
  then show ?case by simp
next
  case (Cons sec secs)
  obtain policies scopes where ps: "ps = (policies, scopes)" by fastforce
  with Cons.prems(1) obtain p where p: "load_policy n sec = Inr p"
    "foldR (\<lambda>(i, sec) (policies, scopes).
        bindR (load_policy i sec) (\<lambda>p. Inr (map_put (key_of sec) p policies, map_put (key_of sec) (policy_scope sec) scopes)))
       (enumerate (Suc n) secs) (map_put (key_of sec) p policies, map_put (key_of sec) (policy_scope sec) scopes) = Inr ps'"
    by (auto simp: bindR_eq_Inr)
  note IH = Cons.IH [OF p(2)]
  have "\<exists>p. load_policy (n + i) ((sec # secs) ! i) = Inr p \<and> map_of (fst ps') (key_of ((sec # secs) ! i)) = Some p"
    if i: "last_keyed (\<lambda>_. True) (sec # secs) i" for i
  proof (cases i)
    case 0
    then have "key_of sec \<notin> key_of ` set secs" using i by simp
    with IH p(1) 0 show ?thesis by simp
  next
    case (Suc j)
    then have "last_keyed (\<lambda>_. True) secs j" using i by simp
    with IH Suc show ?thesis by simp
  qed
  moreover have "map_of (fst ps') k = map_of (fst ps) k" if "k \<notin> key_of ` set (sec # secs)" for k
    using IH that ps by simp
  ultimately show ?case by blast
qed

lemma loadPolicies_props:
  assumes "loadPolicies doc = Inr (policies, scopes)"
  shows "named_keys po_Name policies \<and> (\<forall>sec \<in> set (doc_Sections doc). key_of sec \<in> dom (map_of policies)) \<and>
    (\<forall>p \<in> ran (map_of policies). \<forall>q \<in> ran (map_of policies). po_ref p = po_ref q \<longrightarrow> p = q)"
proof -
  have "policies_ok 0 ([], [])" by (simp add: policies_ok_def named_keys_def)
  from foldR_policies [OF assms [unfolded loadPolicies_def] this] show ?thesis by (simp add: policies_ok_def)
qed

section \<open>Processes\<close>

definition stacked :: "Process list \<Rightarrow> Workflow \<Rightarrow> bool" where
  "stacked ps w \<longleftrightarrow> (\<exists>p \<in> set ps. w \<in> set (pr_Workflows p))"

definition refs_ok :: "(string \<times> Workflow) list \<Rightarrow> Process list \<Rightarrow> string list \<Rightarrow> bool" where
  "refs_ok workflows ps referenced \<longleftrightarrow> (\<forall>k \<in> set referenced. \<exists>w. map_of workflows k = Some w \<and> stacked ps w)"

lemma load_process_refs:
  assumes "load_process workflows i sec referenced = Inr (p, referenced')" "refs_ok workflows ps referenced"
  shows "refs_ok workflows (ps @ [p]) referenced'"
proof -
  let ?I = "\<lambda>pr. \<forall>k \<in> set (snd pr). \<exists>w. map_of workflows k = Some w \<and> (stacked ps w \<or> w \<in> set (pr_Workflows (fst pr)))"
  have bullets: "?I pr \<Longrightarrow> ?I (fold (process_bullet workflows) bs pr)" for bs pr
  proof (induction bs arbitrary: pr)
    case (Cons b bs)
    have "?I (process_bullet workflows b pr)"
      using Cons.prems by (fastforce simp: process_bullet_def AddWorkflow_def split: option.splits)
    then show ?case using Cons.IH by simp
  qed simp
  obtain refs p0 pr where pr: "foldR (process_ref workflows) refs (p0, referenced) = Inr pr"
    "(p, referenced') = fold (process_bullet workflows) (bd_Bullets (StructuredBody sec [''workflows'', ''workflow''])) pr"
    using assms(1) by (auto simp: load_process_def Let_def bindR_eq_Inr)
  have "?I (p0, referenced)" using assms(2) by (auto simp: refs_ok_def)
  then have "?I pr"
    by (rule foldR_keeps [OF pr(1)])
      (fastforce simp: process_ref_def bindR_eq_Inr resolveWorkflow_def resolve_Inr AddWorkflow_def)
  then have "?I (p, referenced')" unfolding pr(2) by (rule bullets)
  then show ?thesis by (fastforce simp: refs_ok_def stacked_def)
qed

lemma loadProcesses_refs:
  assumes "loadProcesses doc workflows = Inr (processes, referenced)"
  shows "refs_ok workflows processes referenced"
proof -
  have "refs_ok workflows (fst ([], [])) (snd ([], []))" by (simp add: refs_ok_def)
  from foldR_keeps [OF assms [unfolded loadProcesses_def], of "\<lambda>pr. refs_ok workflows (fst pr) (snd pr)", OF this]
  show ?thesis using load_process_refs [of workflows] by (force simp: bindR_eq_Inr)
qed

lemma AddProcess_list: "rt_Processes (fold AddProcess ps r) = rt_Processes r @ ps"
  by (induction ps arbitrary: r) (simp_all add: AddProcess_def)

lemma add_orphan_keeps: "stacked (rt_Processes r) w \<Longrightarrow> stacked (rt_Processes (add_orphan workflows referenced k r)) w"
  by (auto simp: add_orphan_def AddProcess_def stacked_def split: option.splits)

lemma orphans_stacked:
  assumes "\<forall>k \<in> set referenced. \<exists>w. map_of workflows k = Some w \<and> stacked (rt_Processes r) w"
    "map_of workflows k = Some w" "k \<in> set order"
  shows "stacked (rt_Processes (fold (add_orphan workflows referenced) order r)) w"
proof -
  have keep: "stacked (rt_Processes r) v \<Longrightarrow> stacked (rt_Processes (fold (add_orphan workflows referenced) ks r)) v" for v ks r
    by (induction ks arbitrary: r) (simp_all add: add_orphan_keeps)
  show ?thesis
    using assms(1,3)
  proof (induction order arbitrary: r)
    case (Cons j order)
    show ?case
    proof (cases "j = k")
      case True
      have "stacked (rt_Processes (add_orphan workflows referenced k r)) w"
        using bspec [OF Cons.prems(1), of k] assms(2)
        by (auto simp: add_orphan_def AddProcess_def stacked_def orphan_process_def AddWorkflow_def)
      with True keep show ?thesis by simp
    next
      case False
      have "\<forall>k \<in> set referenced. \<exists>w. map_of workflows k = Some w \<and> stacked (rt_Processes (add_orphan workflows referenced j r)) w"
        using Cons.prems(1) add_orphan_keeps by blast
      from Cons.IH [OF this] Cons.prems(2) False show ?thesis by simp
    qed
  qed simp
qed

section \<open>Scopes\<close>

definition governs :: "Runtime \<Rightarrow> Policy \<Rightarrow> bool" where
  \<comment> \<open>the policy is judged somewhere: on every cycle, on every tool call, or with a stacked workflow\<close>
  "governs r p \<longleftrightarrow>
     p \<in> set (rt_Policies r) \<or> p \<in> set (rt_ToolPolicies r) \<or> (\<exists>w. stacked (rt_Processes r) w \<and> p \<in> set (wf_Policies w))"

definition scopes_ok :: "string set \<Rightarrow> (string \<times> Policy) list \<Rightarrow> scope_state \<Rightarrow> bool" where
  \<comment> \<open>the workflows have these keys, each under its name, and all are stacked\<close>
  "scopes_ok keys policies st \<longleftrightarrow>
     dom (map_of (snd st)) = keys \<and> named_keys wf_Name (snd st) \<and>
     (\<forall>w \<in> ran (map_of (snd st)). stacked (rt_Processes (fst st)) w \<and> from_policies policies w)"

lemma stacked_on_workflow:
  "stacked (rt_Processes r) w \<Longrightarrow> stacked (rt_Processes (on_workflow ref f r)) (through_pointer ref f w)"
  by (force simp: stacked_def on_workflow_def)

lemma map_of_through:
  "map_of (map (\<lambda>(k, v). (k, g v)) m) k = map_option g (map_of m k)"
  by (induction m) auto

lemma governs_on_workflow: "governs r p \<Longrightarrow> governs (on_workflow ref (\<lambda>v. AddPolicy v q) r) p"
proof -
  assume g: "governs r p"
  have f: "rt_Policies (on_workflow ref f r) = rt_Policies r" "rt_ToolPolicies (on_workflow ref f r) = rt_ToolPolicies r" for f
    by (simp_all add: on_workflow_def)
  have "stacked (rt_Processes r) w \<Longrightarrow> p \<in> set (wf_Policies w) \<Longrightarrow>
      \<exists>w. stacked (rt_Processes (on_workflow ref (\<lambda>v. AddPolicy v q) r)) w \<and> p \<in> set (wf_Policies w)" for w
    using stacked_on_workflow [of r w ref "\<lambda>v. AddPolicy v q"] by (force simp: through_pointer_def AddPolicy_def)
  with g show ?thesis by (auto simp: governs_def f)
qed

lemma apply_target_props:
  assumes "apply_target p target st = Inr st'" "scopes_ok keys policies st" "p \<in> ran (map_of policies)"
    "\<forall>p \<in> ran (map_of policies). \<forall>q \<in> ran (map_of policies). po_ref p = po_ref q \<longrightarrow> p = q"
  shows "scopes_ok keys policies st' \<and> governs (fst st') p \<and> (\<forall>q. governs (fst st) q \<longrightarrow> governs (fst st') q)"
proof -
  obtain r ws where st: "st = (r, ws)" by fastforce
  from assms(1) consider "st' = (r\<lparr>rt_ToolPolicies := rt_ToolPolicies r @ [p]\<rparr>, ws)" | "st' = (Runtime_AddPolicy p r, ws)"
    | w where "map_of ws (Normalize target) = Some w" "hasPolicy (wf_Policies w) p" "st' = st"
    | w where "map_of ws (Normalize target) = Some w"
        "st' = (on_workflow (wf_ref w) (\<lambda>v. AddPolicy v p) r, map (\<lambda>(k, v). (k, through_pointer (wf_ref w) (\<lambda>v. AddPolicy v p) v)) ws)"
    by (auto simp: apply_target_def st Let_def bindR_eq_Inr resolveWorkflow_def resolve_Inr split: if_splits)
  then show ?thesis
  proof cases
    case 1
    with assms(2) show ?thesis by (auto simp: st scopes_ok_def governs_def)
  next
    case 2
    with assms(2) show ?thesis by (auto simp: st scopes_ok_def governs_def Runtime_AddPolicy_def)
  next
    case 3
    then have w: "stacked (rt_Processes r) w" "from_policies policies w"
      using assms(2) by (auto simp: st scopes_ok_def ran_def)
    obtain q where "q \<in> set (wf_Policies w)" "po_ref q = po_ref p" using 3(2) by (auto simp: hasPolicy_def list_ex_iff)
    then have "p \<in> set (wf_Policies w)" using assms(3,4) w(2) by (metis from_policies_def)
    with w(1) 3(3) assms(2) show ?thesis by (auto simp: st governs_def)
  next
    case 4
    let ?g = "through_pointer (wf_ref w) (\<lambda>v. AddPolicy v p)"
    have w: "stacked (rt_Processes r) w" using 4(1) assms(2) by (auto simp: st scopes_ok_def ran_def)
    have g: "wf_Name (?g v) = wf_Name v" "from_policies policies v \<Longrightarrow> from_policies policies (?g v)" for v
      using assms(3) by (auto simp: through_pointer_def AddPolicy_def from_policies_def)
    have "scopes_ok keys policies st'"
      using assms(2) 4(2) g stacked_on_workflow
      by (auto simp: st scopes_ok_def named_keys_def map_of_through ran_def)
    moreover have "governs (fst st') p"
      using stacked_on_workflow [OF w, of "wf_ref w" "\<lambda>v. AddPolicy v p"] 4(2)
      by (force simp: governs_def through_pointer_def AddPolicy_def)
    ultimately show ?thesis using 4(2) governs_on_workflow by (auto simp: st)
  qed
qed

lemma policy_targets_nonempty: "policy_targets scope \<noteq> []"
  by (simp add: policy_targets_def Let_def)

lemma applyPolicyScopes_props:
  assumes "applyPolicyScopes policies scopes st = Inr st'" "scopes_ok keys policies st"
    "\<forall>p \<in> ran (map_of policies). \<forall>q \<in> ran (map_of policies). po_ref p = po_ref q \<longrightarrow> p = q"
  shows "scopes_ok keys policies st' \<and> (\<forall>p \<in> ran (map_of policies). governs (fst st') p)"
proof -
  let ?I = "scopes_ok keys policies" and ?Q = "\<lambda>k st. governs (fst st) (the (map_of policies k))"
  have step: "?I s' \<and> ?Q k s' \<and> (\<forall>j. ?Q j s \<longrightarrow> ?Q j s')"
    if k: "k \<in> set (sorted_keys policies)" and i: "?I s"
      and e: "foldR (apply_target (the (map_of policies k))) (policy_targets t) s = Inr s'" for k s s' t
  proof -
    have p: "the (map_of policies k) \<in> ran (map_of policies)" using k by (auto simp: ran_def)
    have "?I s' \<and> (\<forall>x \<in> set (policy_targets t). ?Q k s') \<and> (\<forall>q. governs (fst s) q \<longrightarrow> governs (fst s') q)"
      using foldR_reaches [OF e, of "\<lambda>s'. ?I s' \<and> (\<forall>q. governs (fst s) q \<longrightarrow> governs (fst s') q)" "\<lambda>x. ?Q k"]
        i apply_target_props [OF _ _ p assms(3)] by blast
    then show ?thesis using policy_targets_nonempty [of t] by (metis all_not_in_conv set_empty)
  qed
  have "?I st' \<and> (\<forall>k \<in> set (sorted_keys policies). ?Q k st')"
    using foldR_reaches [OF assms(1) [unfolded applyPolicyScopes_def], of ?I ?Q, OF assms(2)] step by blast
  then show ?thesis by (force simp: ran_def)
qed

lemma apply_target_authored:
  assumes "apply_target p target st = Inr st'"
  shows "authored_maps (snd st) (snd st') k"
proof -
  have t: "authored_as w (through_pointer ref (\<lambda>v. AddPolicy v q) w)" for w ref q by (simp add: through_pointer_def)
  obtain r ws where st: "st = (r, ws)" by fastforce
  from assms have "snd st' = ws \<or> (\<exists>ref. snd st' = map (\<lambda>(k, v). (k, through_pointer ref (\<lambda>v. AddPolicy v p) v)) ws)"
    by (auto simp: apply_target_def st Let_def bindR_eq_Inr split: if_splits)
  then show ?thesis using t by (auto simp: st authored_maps_def map_of_through)
qed

lemma applyPolicyScopes_authored:
  assumes "applyPolicyScopes policies scopes st = Inr st'"
  shows "authored_maps (snd st) (snd st') k"
proof -
  let ?I = "\<lambda>s. authored_maps (snd st) (snd s) k"
  have inner: "?I s'" if "?I s" "foldR (apply_target p) ts s = Inr s'" for p ts s s'
    by (rule foldR_keeps [OF that(2), of ?I, OF that(1)]) (meson authored_maps_trans apply_target_authored)
  have "?I st" by (simp add: authored_maps_def)
  then show ?thesis by (rule foldR_keeps [OF assms [unfolded applyPolicyScopes_def], of ?I]) (rule inner)
qed

section \<open>A whole load\<close>

lemma loader_parse_tenant: "loader_source fs directory k = (t, f, b) \<Longrightarrow> loader_parse fs directory k = ParseDocument t"
  by (simp add: loader_parse_def loader_read_def)

lemma load_stack_props:
  assumes "load_stack fs directory name = Inr l"
  shows "\<exists>personas policies scopes.
    loadPersonas (length (doc_Sections (loader_parse fs directory ''skills''))) (loader_parse fs directory ''personas'')
      (loadSkills (loader_parse fs directory ''skills'')) = Inr personas \<and>
    loadPolicies (loader_parse fs directory ''policies'') = Inr (policies, scopes) \<and>
    (\<forall>i. last_keyed (\<lambda>sec. \<not> is_deliverable sec) (doc_Sections (loader_parse fs directory ''workflows'')) i \<longrightarrow>
       (\<exists>w0 w. load_workflow personas policies i (doc_Sections (loader_parse fs directory ''workflows'') ! i) = Inr w0 \<and>
          authored_as w0 w \<and> stacked (rt_Processes (ld_Runtime l)) w)) \<and>
    (\<forall>i. last_keyed (\<lambda>sec. True) (doc_Sections (loader_parse fs directory ''policies'')) i \<longrightarrow>
       (\<exists>p. load_policy i (doc_Sections (loader_parse fs directory ''policies'') ! i) = Inr p \<and> governs (ld_Runtime l) p))"
proof -
  let ?w = "loader_parse fs directory ''workflows''" and ?p = "loader_parse fs directory ''policies''"
  obtain personas policies scopes workflows order processes referenced tenant r0 r2 ws2 where l:
    "loadPersonas (length (doc_Sections (loader_parse fs directory ''skills''))) (loader_parse fs directory ''personas'')
      (loadSkills (loader_parse fs directory ''skills'')) = Inr personas"
    "loadPolicies ?p = Inr (policies, scopes)" "loadWorkflows ?w personas policies = Inr (workflows, order)"
    "loadProcesses (loader_parse fs directory ''processes'') workflows = Inr (processes, referenced)"
    "applyPolicyScopes policies scopes (stack_processes processes workflows order referenced r0, workflows) = Inr (r2, ws2)"
    "rt_Processes r0 = []" "l = \<lparr>ld_Runtime = r2, ld_Tenant = tenant, ld_Client = None, ld_Aux = None, ld_Spawner = None\<rparr>"
    using assms
    by (auto simp: load_stack_def Let_def bindR_eq_Inr NewRuntime_def split: prod.splits)
  note pol = loadPolicies_props [OF l(2)] and wfs = loadWorkflows_props [OF l(3)]
  let ?r1 = "stack_processes processes workflows order referenced r0"
  have "\<forall>k \<in> set referenced. \<exists>w. map_of workflows k = Some w \<and> stacked (rt_Processes (fold AddProcess processes r0)) w"
    using loadProcesses_refs [OF l(4)] l(6) by (auto simp: refs_ok_def AddProcess_list)
  then have "\<forall>w \<in> ran (map_of workflows). stacked (rt_Processes ?r1) w"
    unfolding stack_processes_def using orphans_stacked [of referenced workflows] wfs by (fastforce simp: ran_def)
  with wfs have "scopes_ok (dom (map_of workflows)) policies (?r1, workflows)" by (simp add: scopes_ok_def)
  from applyPolicyScopes_props [OF l(5) this] pol
  have fin: "scopes_ok (dom (map_of workflows)) policies (r2, ws2)" "\<forall>p \<in> ran (map_of policies). governs r2 p" by auto
  obtain st where st: "foldR (workflow_section personas policies) (enumerate 0 (doc_Sections ?w)) no_workflows = Inr st" "workflows = ws_map st"
    using l(3) by (auto simp: loadWorkflows_def map_sum_def split: sum.splits)
  have "last_put no_workflows" by (simp add: last_put_def no_workflows_def)
  note written = workflows_authored [OF st(1) this, folded st(2)]
  have "\<exists>w0 w. load_workflow personas policies i (doc_Sections ?w ! i) = Inr w0 \<and> authored_as w0 w \<and> stacked (rt_Processes r2) w"
    if "last_keyed (\<lambda>sec. \<not> is_deliverable sec) (doc_Sections ?w) i" for i
  proof -
    from written that obtain w0 w where w: "load_workflow personas policies i (doc_Sections ?w ! i) = Inr w0"
      "map_of workflows (key_of (doc_Sections ?w ! i)) = Some w" "authored_as w0 w" by fastforce
    with applyPolicyScopes_authored [OF l(5), of "key_of (doc_Sections ?w ! i)"] obtain w' where
      "map_of ws2 (key_of (doc_Sections ?w ! i)) = Some w'" "authored_as w w'" by (auto simp: authored_maps_def)
    with w fin(1) authored_trans show ?thesis by (fastforce simp: scopes_ok_def ran_def)
  qed
  moreover have "\<exists>p. load_policy i (doc_Sections ?p ! i) = Inr p \<and> governs r2 p"
    if "last_keyed (\<lambda>sec. True) (doc_Sections ?p) i" for i
    using policies_loaded [OF l(2) [unfolded loadPolicies_def]] that fin(2) by (fastforce simp: ran_def)
  ultimately show ?thesis using l(1,2,7) by auto
qed

lemma on_runtime_simps [simp]: "ld_Runtime (on_runtime f l) = f (ld_Runtime l)"
  by (simp add: on_runtime_def)

definition same_stack :: "Runtime \<Rightarrow> Runtime \<Rightarrow> bool" where
  \<comment> \<open>the processes and the policies are untouched\<close>
  "same_stack r r' \<longleftrightarrow>
     rt_Processes r' = rt_Processes r \<and> rt_Policies r' = rt_Policies r \<and> rt_ToolPolicies r' = rt_ToolPolicies r \<and>
     rt_OrgID r' = rt_OrgID r"

lemma memory_same: "same_stack (ld_Runtime l) (ld_Runtime (applyMemoryStrategy e t l)) \<and>
    ld_Tenant (applyMemoryStrategy e t l) = ld_Tenant l"
proof -
  have a: "same_stack r (apply_strategy s r)" for s r
    by (simp add: same_stack_def apply_strategy_def Let_def)
  have b: "same_stack (ld_Runtime l) (ld_Runtime (bind_client e c l)) \<and> ld_Tenant (bind_client e c l) = ld_Tenant l"
    "same_stack (ld_Runtime l) (ld_Runtime (bind_aux e c l)) \<and> ld_Tenant (bind_aux e c l) = ld_Tenant l" for c l
    by (simp_all add: bind_client_def bind_aux_def same_stack_def attachLM_def attachAuxiliaryLM_def on_runtime_def split: option.split)
  have t: "same_stack x y \<Longrightarrow> same_stack y z \<Longrightarrow> same_stack x z" "same_stack x x" for x y z
    by (simp_all add: same_stack_def)
  define s where "s = StrategyFromMarkdown t"
  define l1 where "l1 = on_runtime (apply_strategy s) l"
  define l2 where "l2 = bind_client e (ModelClient (le_getenv e) s) l1"
  define l3 where "l3 = bind_aux e (AuxModelClient (le_getenv e) s) l2"
  have "same_stack (ld_Runtime l) (ld_Runtime l3) \<and> ld_Tenant l3 = ld_Tenant l"
    using t(1) a b by (metis l1_def l2_def l3_def on_runtime_simps on_runtime_def Loaded.select_convs(2) Loaded.surjective Loaded.update_convs(1))
  then show ?thesis
    by (simp add: applyMemoryStrategy_def Let_def t(2) l1_def [symmetric] l2_def [symmetric] l3_def [symmetric] s_def [symmetric])
qed

lemma wiring_same:
  "same_stack r (loadKnowledge e directory r)" "same_stack r (loadSessionStore e directory r)"
  "loadAuditTrail e directory r = Inr r' \<Longrightarrow> same_stack r r'"
  by (auto simp: same_stack_def loadKnowledge_def loadSessionStore_def loadAuditTrail_def Let_def Session_Restore_def
      restoreMarkdown_def restoreJSON_def put_session_def split: option.splits if_splits sum.splits)

lemma LoadRuntime_stack:
  assumes "LoadRuntime e directory name = Inr l"
  obtains l0 where "load_stack (le_files e) directory name = Inr l0" "same_stack (ld_Runtime l0) (ld_Runtime l)"
    "ld_Tenant l = ld_Tenant l0"
proof -
  obtain l0 where l0: "load_stack (le_files e) directory name = Inr l0" using assms by (auto simp: LoadRuntime_def bindR_eq_Inr)
  define l1 where "l1 = applyMemoryStrategy e (loader_read (le_files e) directory ''memory'') l0"
  define r2 where "r2 = loadSessionStore e directory (loadKnowledge e directory (ld_Runtime l1))"
  obtain r3 where r3: "loadAuditTrail e directory r2 = Inr r3" "ld_Runtime l = r3" "ld_Tenant l = ld_Tenant l1"
    using assms l0 by (auto simp: LoadRuntime_def bindR_eq_Inr Let_def l1_def r2_def on_runtime_def)
  have t: "same_stack x y \<Longrightarrow> same_stack y z \<Longrightarrow> same_stack x z" for x y z by (simp add: same_stack_def)
  have "same_stack (ld_Runtime l0) (ld_Runtime l)"
    unfolding r3(2)
  proof (rule t)
    show "same_stack (ld_Runtime l0) (ld_Runtime l1)" using memory_same [of l0 e] by (simp add: l1_def)
    show "same_stack (ld_Runtime l1) r3"
      by (rule t [OF t [OF wiring_same(1) wiring_same(2)] wiring_same(3) [OF r3(1) [unfolded r2_def]]])
  qed
  moreover have "ld_Tenant l = ld_Tenant l0" using memory_same [of l0 e] r3(3) by (simp add: l1_def)
  ultimately show thesis using that l0 by blast
qed

lemma loadTenant_org:
  assumes "loadTenant doc f True = Inr tenant"
  shows "\<exists>sec rest. doc_Sections doc = sec # rest \<and>
    tn_OrgID tenant = Field (StructuredBody sec tenant_keys) [''org id'', ''org''] \<and> tn_OrgID tenant \<noteq> []"
  using assms by (auto simp: loadTenant_def Let_def simp del: Field.simps split: list.splits if_splits)

section \<open>Properties\<close>


text \<open>
  C6.  A declared tenant is never replaced by the default: when the directory has a tenant file, a load that
  succeeds belongs to the organisation that the file's first section names, and it names one.
\<close>
theorem declared_tenant_binds:
  assumes "LoadRuntime e directory name = Inr l" "loader_source (le_files e) directory ''tenant'' = (t, f, True)"
  shows "\<exists>sec rest. doc_Sections (ParseDocument t) = sec # rest \<and>
    rt_OrgID (ld_Runtime l) = Field (StructuredBody sec tenant_keys) [''org id'', ''org''] \<and>
    rt_OrgID (ld_Runtime l) \<noteq> [] \<and> tn_OrgID (ld_Tenant l) = rt_OrgID (ld_Runtime l)"
proof -
  obtain l0 where l0: "load_stack (le_files e) directory name = Inr l0" "same_stack (ld_Runtime l0) (ld_Runtime l)"
    "ld_Tenant l = ld_Tenant l0"
    by (rule LoadRuntime_stack [OF assms(1)])
  have org: "rt_OrgID (fst st') = rt_OrgID (fst st)" if "applyPolicyScopes policies scopes st = Inr st'" for policies scopes st st'
  proof -
    have one: "rt_OrgID (fst s') = rt_OrgID (fst st)" if "rt_OrgID (fst s) = rt_OrgID (fst st)" "apply_target p x s = Inr s'" for p x s s'
      using that by (auto simp: apply_target_def Let_def bindR_eq_Inr Runtime_AddPolicy_def on_workflow_def
          split: prod.splits if_splits)
    show ?thesis
      by (rule foldR_keeps [OF that [unfolded applyPolicyScopes_def], of "\<lambda>s. rt_OrgID (fst s) = rt_OrgID (fst st)"])
        (auto dest: foldR_keeps [of _ _ _ _ "\<lambda>s. rt_OrgID (fst s) = rt_OrgID (fst st)"] one)
  qed
  have procs: "rt_OrgID (stack_processes ps ws order refs r) = rt_OrgID r" for ps ws order refs r
  proof -
    have "rt_OrgID (fold AddProcess ps r) = rt_OrgID r" by (induction ps arbitrary: r) (simp_all add: AddProcess_def)
    moreover have "rt_OrgID (fold (add_orphan ws refs) order r) = rt_OrgID r" for r
      by (induction order arbitrary: r) (simp_all add: add_orphan_def AddProcess_def split: option.split)
    ultimately show ?thesis by (simp add: stack_processes_def)
  qed
  obtain tenant where tenant: "loadTenant (ParseDocument t) f True = Inr tenant" "ld_Tenant l0 = tenant"
    "rt_OrgID (ld_Runtime l0) = tn_OrgID tenant"
    using l0(1) assms(2)
    by (auto simp: load_stack_def Let_def bindR_eq_Inr procs dest!: org split: prod.splits)
  then show ?thesis
    using l0(2,3) loadTenant_org [OF tenant(1)] by (simp add: same_stack_def)
qed


section \<open>A concrete stack\<close>

definition text_of_lines :: "string list \<Rightarrow> string" where
  "text_of_lines ls = join_with [newline] ls"

definition sample_files :: files where
  "sample_files =
     map_of
       [(''desk/workflow.md'', text_of_lines [''## Review'', [], ''1. Read the file'', ''2. Decide'']),
        (''desk/policy.md'', text_of_lines [''## Cap'', ''Applies to: Review'', ''Fallback: amount <= 10'', [], ''Stay below the cap.'']),
        (''desk/tenant.md'', text_of_lines [''## Acme'', ''Org id: acme''])]"

definition sample_env :: LoadEnv where
  "sample_env =
     \<lparr>le_files = sample_files, le_getenv = (\<lambda>_. []), le_now = 0, le_model = (\<lambda>_. (\<lambda>_. None, \<lambda>_. None)),
      le_mkdir_err = (\<lambda>_. None), le_open_err = (\<lambda>_. None), le_oor = (\<lambda>_. 0), le_log = (\<lambda>x. x), le_range = (\<lambda>_ xs. xs)\<rparr>"

lemma sample_loads:
  "\<exists>l. LoadRuntime sample_env ''desk'' [] = Inr l"
proof -
  have "case load_stack sample_files ''desk'' [] of
      Inr l \<Rightarrow> (case rt_Strategy (ld_Runtime l) of None \<Rightarrow> True | Some _ \<Rightarrow> False) | Inl _ \<Rightarrow> False" by code_simp
  then obtain l where l: "load_stack sample_files ''desk'' [] = Inr l" "rt_Strategy (ld_Runtime l) = None"
    by (auto split: sum.splits option.splits)
  have "loader_read sample_files ''desk'' ''memory'' = []" by code_simp
  with l show ?thesis
    by (simp add: LoadRuntime_def sample_env_def applyMemoryStrategy_def loadKnowledge_def loadSessionStore_def
        loadAuditTrail_def on_runtime_def)
qed


lemma declared_tenant_binds_witness:
  "\<exists>l. LoadRuntime sample_env ''desk'' [] = Inr l \<and> rt_OrgID (ld_Runtime l) = ''acme''"
proof -
  obtain l where l: "LoadRuntime sample_env ''desk'' [] = Inr l" using sample_loads by blast
  define t where "t = text_of_lines [''## Acme'', ''Org id: acme'']"
  have "loader_source (le_files sample_env) ''desk'' ''tenant'' = (t, ''tenant.md'', True)"
    unfolding t_def by code_simp
  from declared_tenant_binds [OF l this] obtain sec rest where
    "doc_Sections (ParseDocument t) = sec # rest"
    "rt_OrgID (ld_Runtime l) = Field (StructuredBody sec tenant_keys) [''org id'', ''org'']" by blast
  moreover have "map (\<lambda>sec. Field (StructuredBody sec tenant_keys) [''org id'', ''org'']) (doc_Sections (ParseDocument t)) = [''acme'']"
    unfolding t_def by code_simp
  ultimately show ?thesis using l by auto
qed

end
