(* ===== verification/DateTrip.thy ===== *)
theory DateTrip
  imports Session
begin

text \<open>
  Instants survive their text: what RFC 3339 writes of an instant with a year of four digits, with its
  fraction of a second, is read back as that instant.  The days of the calendar are counted in eras of 400
  years; that the year of a day is computed right rests on a check of the first and the last day of each of
  them, between which the formula is monotone.
\<close>

section \<open>Days and dates\<close>

definition era_year :: "int \<Rightarrow> int" where
  "era_year doe = (doe - doe div 1460 + doe div 36524 - doe div 146096) div 365"
definition year_start :: "int \<Rightarrow> int" where
  "year_start y = 365 * y + y div 4 - y div 100"
definition year_end :: "int \<Rightarrow> int" where
  "year_end y = (if y = 399 then 146096 else year_start (y + 1) - 1)"

lemma succ_div:
  fixes x c :: int
  assumes "0 < c"
  shows "(x + 1) div c = x div c + (if c dvd x + 1 then 1 else 0)"
proof (cases "c dvd x + 1")
  case True
  then obtain q where q: "x = c * q - 1" by (metis add_diff_cancel_right' dvdE)
  have "(c * q - 1) div c = q - 1"
    by (rule int_div_pos_eq [of _ _ _ "c - 1"]) (use assms in \<open>auto simp: algebra_simps\<close>)
  with q True assms show ?thesis by simp
next
  case False
  have "x mod c + 1 < c"
  proof (rule ccontr)
    assume "\<not> x mod c + 1 < c"
    then have "x mod c + 1 = c" using assms pos_mod_bound [of c x] by linarith
    then have "x + 1 = c * (x div c + 1)" using mult_div_mod_eq [of c x] unfolding distrib_left by linarith
    then show False using False by (metis dvd_triv_left)
  qed
  moreover have "0 \<le> x mod c" using assms by simp
  ultimately have "(x + 1) div c = x div c"
    by (intro int_div_pos_eq [of _ _ _ "x mod c + 1"]) (use assms in \<open>auto simp: mult_div_mod_eq [symmetric]\<close>)
  with False show ?thesis by simp
qed

lemma era_step:
  "doe - doe div 1460 + doe div 36524 - doe div 146096 \<le> (doe + 1) - (doe + 1) div 1460 + (doe + 1) div 36524 - (doe + 1) div 146096"
  for doe :: int
proof -
  have "(36524::int) dvd 146096" by simp
  then have "146096 dvd doe + 1 \<Longrightarrow> 36524 dvd doe + 1" by (rule dvd_trans)
  then have "(if 146096 dvd doe + 1 then 1 else 0) \<le> (if 36524 dvd doe + 1 then 1 else 0 :: int)" by presburger
  moreover have "(if 1460 dvd doe + 1 then 1 else 0) \<le> (1 :: int)" by presburger
  ultimately show ?thesis using succ_div [of 1460 doe] succ_div [of 36524 doe] succ_div [of 146096 doe] by linarith
qed
lemma month_split:
  fixes doy :: int
  assumes "0 \<le> doy" "doy \<le> 365" "mp = (5 * doy + 2) div 153" "d = doy - (153 * mp + 2) div 5 + 1"
  shows "0 \<le> mp \<and> mp \<le> 11 \<and> 1 \<le> d \<and> d \<le> (if mp = 11 then (if doy = 365 then 29 else 28) else if mp \<in> {1,3,6,8} then 30 else 31)"
proof -
  have b: "153 * mp \<le> 5 * doy + 2" "5 * doy + 2 < 153 * mp + 153" using assms(3) by linarith+
  then have "0 \<le> mp" "mp \<le> 11" using assms(1,2) by linarith+
  then have "mp \<in> set [0..11]" by simp
  then have "mp = 0 \<or> mp = 1 \<or> mp = 2 \<or> mp = 3 \<or> mp = 4 \<or> mp = 5 \<or> mp = 6 \<or> mp = 7 \<or> mp = 8 \<or> mp = 9 \<or> mp = 10 \<or> mp = 11"
    by (simp add: upto_rec1 del: set_upto)
  then show ?thesis using b assms(1,2,4) by (elim disjE; simp; linarith)
qed
lemma era_mono: "a \<le> b \<Longrightarrow> era_year a \<le> era_year b"
proof -
  have "a - a div 1460 + a div 36524 - a div 146096 \<le> (a + int n) - (a + int n) div 1460 + (a + int n) div 36524 - (a + int n) div 146096" for n
  proof (induction n)
    case (Suc n)
    then show ?case using era_step [of "a + int n"] by (simp add: algebra_simps)
  qed simp
  from this [of "nat (b - a)"] show "a \<le> b \<Longrightarrow> era_year a \<le> era_year b" by (simp add: era_year_def zdiv_mono1)
qed

lemma years:
  "list_all (\<lambda>y. era_year (year_start y) = y \<and> era_year (year_end y) = y \<and>
     year_end y - year_start y = (if is_leap (y + 1) then 365 else 364)) [0..399]"
  by code_simp

lemma year_exists:
  assumes "0 \<le> doe" "doe < 146097"
  shows "\<exists>y. 0 \<le> y \<and> y \<le> 399 \<and> year_start y \<le> doe \<and> doe \<le> year_end y"
proof -
  have "\<exists>y. 0 \<le> y \<and> y \<le> 399 \<and> year_start y \<le> doe \<and> doe \<le> year_end y" if "doe \<le> year_end (int n)" "n \<le> 399" for n
    using that
  proof (induction n)
    case 0
    then show ?case using assms(1) by (intro exI [of _ 0]) (simp add: year_start_def)
  next
    case (Suc n)
    show ?case
    proof (cases "doe \<le> year_end (int n)")
      case False
      with Suc.prems have "year_start (int n + 1) \<le> doe" by (simp add: year_end_def)
      with Suc.prems show ?thesis by (intro exI [of _ "int n + 1"]) (simp add: algebra_simps)
    qed (use Suc in simp)
  qed
  from this [of 399] assms(2) show ?thesis by (simp add: year_end_def)
qed

lemma era_of_day:
  assumes "0 \<le> doe" "doe < 146097"
  shows "0 \<le> era_year doe \<and> era_year doe \<le> 399 \<and> 0 \<le> doe - year_start (era_year doe) \<and>
    doe - year_start (era_year doe) \<le> (if is_leap (era_year doe + 1) then 365 else 364)"
proof -
  from year_exists [OF assms] obtain y where y: "0 \<le> y" "y \<le> 399" "year_start y \<le> doe" "doe \<le> year_end y" by blast
  then have "y \<in> set [0..399]" by simp
  with years have e: "era_year (year_start y) = y" "era_year (year_end y) = y"
    "year_end y - year_start y = (if is_leap (y + 1) then 365 else 364)" by (auto simp: list_all_iff)
  have "era_year doe = y" using era_mono [OF y(3)] era_mono [OF y(4)] e by simp
  with y e show ?thesis by auto
qed

lemma civil_days:
  assumes "civil days = (y, m, d)"
  shows "days_of y m d = days" "1 \<le> m" "m \<le> 12" "1 \<le> d" "d \<le> days_in y m"
proof -
  define z where "z = days + 306"
  define doe where "doe = z mod 146097"
  define yoe where "yoe = era_year doe"
  define doy where "doy = doe - year_start yoe"
  define mp where "mp = (5 * doy + 2) div 153"
  define dd where "dd = doy - (153 * mp + 2) div 5 + 1"
  have "0 \<le> doe" "doe < 146097" by (simp_all add: doe_def)
  note e = era_of_day [OF this, folded yoe_def, folded doy_def]
  then have doy: "0 \<le> doy" "doy \<le> 365" by (auto split: if_splits)
  note mo = month_split [OF this mp_def dd_def]
  define mm where "mm = (if mp < 10 then mp + 3 else mp - 9)"
  have c: "y = yoe + z div 146097 * 400 + (if mm \<le> 2 then 1 else 0)" "m = mm" "d = dd"
  proof -
    have "civil days = (yoe + z div 146097 * 400 + (if mm \<le> 2 then 1 else 0), mm, dd)"
      unfolding civil_def Let_def mm_def dd_def mp_def doy_def yoe_def era_year_def year_start_def doe_def z_def by (rule refl)
    with assms show "y = yoe + z div 146097 * 400 + (if mm \<le> 2 then 1 else 0)" "m = mm" "d = dd"
      unfolding prod.inject by (metis prod.inject)+
  qed
  have m2: "mm \<le> 2 \<longleftrightarrow> 10 \<le> mp" using mo by (auto simp: mm_def)
  show "1 \<le> m" "m \<le> 12" "1 \<le> d" using c mo by (auto simp: mm_def)
  have y': "(if m \<le> 2 then y - 1 else y) = z div 146097 * 400 + yoe" "(if m \<le> 2 then m + 9 else m - 3) = mp"
    using c m2 mo by (auto simp: mm_def)
  have "(z div 146097 * 400 + yoe) div 400 = z div 146097" "(z div 146097 * 400 + yoe) mod 400 = yoe"
    using e by (auto simp: div_mult_self3 mod_mult_self3)
  then have "days_of y m d = z div 146097 * 146097 + (yoe * 365 + yoe div 4 - yoe div 100 + ((153 * mp + 2) div 5 + dd - 1)) - 306"
    unfolding days_of_def y' c(3) Let_def by simp
  also have "\<dots> = z div 146097 * 146097 + doe - 306" by (simp add: dd_def doy_def year_start_def)
  also have "\<dots> = days" using div_mult_mod_eq [of z 146097] by (simp add: doe_def z_def)
  finally show "days_of y m d = days" .
  show "d \<le> days_in y m"
  proof (cases "mp = 11")
    case True
    have "is_leap (yoe + 1) = is_leap y"
    proof -
      have y1: "y = (yoe + 1) + 4 * (100 * (z div 146097))" using c m2 True by simp
      have "(yoe + 1 + 4 * (100 * (z div 146097))) mod 4 = (yoe + 1) mod 4" by (rule mod_mult_self2)
      moreover have "(yoe + 1 + 100 * (4 * (z div 146097))) mod 100 = (yoe + 1) mod 100" by (rule mod_mult_self2)
      moreover have "(yoe + 1 + 400 * (z div 146097)) mod 400 = (yoe + 1) mod 400" by (rule mod_mult_self2)
      ultimately show ?thesis unfolding is_leap_def y1 by (simp add: mult.assoc)
    qed
    then show ?thesis using c mo e True by (auto simp: days_in_def mm_def split: if_splits)
  next
    case False
    then show ?thesis using c mo by (auto simp: days_in_def mm_def split: if_splits)
  qed
qed
section \<open>Numbers of a fixed width\<close>

lemma digit_char_ok: "d < 10 \<Longrightarrow> digit_val (digit_char d) = d \<and> is_digit (digit_char d)"
  by (simp add: digit_char_def digit_val_def is_digit_def Let_def)

lemma read_digits_snoc: "read_digits (s @ [c]) = 10 * read_digits s + digit_val c"
  by (simp add: read_digits_def)

lemma read_show: "read_digits (show_nat n) = n"
proof (induction n rule: show_nat.induct)
  case (1 n)
  show ?case
  proof (cases "n < 10")
    case True
    then show ?thesis using digit_char_ok [of n] by (subst show_nat.simps) (simp add: read_digits_def)
  next
    case False
    then show ?thesis using 1 digit_char_ok [of "n mod 10"] by (subst show_nat.simps) (simp add: read_digits_snoc)
  qed
qed

lemma read_zeros: "read_digits (replicate k CHR ''0'' @ s) = read_digits s"
proof -
  have "foldl (\<lambda>n c. 10 * n + digit_val c) 0 (replicate k CHR ''0'') = 0"
    by (induction k) (simp_all add: digit_val_def)
  then show ?thesis by (simp add: read_digits_def)
qed

lemma length_show_nat: "n < 10 ^ Suc w \<Longrightarrow> length (show_nat n) \<le> Suc w"
proof (induction w arbitrary: n)
  case 0
  then show ?case by (subst show_nat.simps) simp
next
  case (Suc w)
  have "n div 10 < 10 ^ Suc w" using Suc.prems by (simp add: less_mult_imp_div_less mult.commute)
  from Suc.IH [OF this] show ?case by (subst show_nat.simps) simp
qed

lemma pad_num_ok:
  assumes "0 \<le> n" "n < 10 ^ w" "0 < w"
  shows "length (pad_num w n) = w" "list_all is_digit (pad_num w n)" "int (read_digits (pad_num w n)) = n"
proof -
  have "nat n < 10 ^ w" using assms(1,2) by (simp add: nat_less_iff)
  then have "length (show_nat (nat n)) \<le> w" using length_show_nat [of "nat n" "w - 1"] assms(3) by simp
  then show "length (pad_num w n) = w" by (simp add: pad_num_def Let_def)
  have "is_digit CHR ''0''" by (simp add: is_digit_def)
  then show "list_all is_digit (pad_num w n)"
    using show_nat_digits by (auto simp: pad_num_def Let_def list_all_iff)
  show "int (read_digits (pad_num w n)) = n" using assms(1) by (simp add: pad_num_def Let_def read_zeros read_show)
qed

lemma two_digits_read:
  assumes "0 \<le> n" "n < 100"
  shows "two_digits (pad_num 2 n @ r) = Some (n, r)"
  using pad_num_ok [of n 2] assms by (simp add: two_digits_def)

lemma hour_read:
  assumes "0 \<le> n" "n < 100"
  shows "up_to_two_digits (pad_num 2 n @ r) = Some (n, r)"
proof -
  note p = pad_num_ok [of n 2]
  have tw: "takeWhile is_digit (pad_num 2 n) = pad_num 2 n" using p assms by (simp add: takeWhile_eq_all_conv list_all_iff)
  have "pad_num 2 n \<noteq> []" using p assms by auto
  with p assms show ?thesis by (simp add: up_to_two_digits_def Let_def tw)
qed

section \<open>The text of an instant\<close>

definition four_digit_year :: "gotime \<Rightarrow> bool" where
  "four_digit_year t \<longleftrightarrow> fst (civil (t div day_ns)) \<in> {0..9999}"

lemma date_read:
  assumes "four_digit_year t"
  shows "length (format_date t) = 10" "is_digit (hd (format_date t))" "parse_date (format_date t) = Some (t div day_ns * day_ns)"
proof -
  obtain y m d where c: "civil (t div day_ns) = (y, m, d)" by (cases "civil (t div day_ns)")
  note cd = civil_days [OF c]
  have d31: "d \<le> 31" using cd(5) by (auto simp: days_in_def split: if_splits)
  have y: "0 \<le> y" "y < 10 ^ 4" using assms c by (auto simp: four_digit_year_def)
  note py = pad_num_ok [OF y, simplified] and pm = pad_num_ok [of m 2] and pd = pad_num_ok [of d 2]
  have m: "0 \<le> m" "m < 10 ^ 2" "0 \<le> d" "d < 10 ^ 2" using cd d31 by simp_all
  have f: "format_date t = pad_num 4 y @ ''-'' @ pad_num 2 m @ ''-'' @ pad_num 2 d" by (simp add: format_date_def c)
  show l: "length (format_date t) = 10" using py pm pd m by (simp add: f)
  show "is_digit (hd (format_date t))" using py by (cases "pad_num 4 y") (auto simp: f)
  have t: "take 4 (format_date t) = pad_num 4 y" "take 2 (drop 5 (format_date t)) = pad_num 2 m" "drop 8 (format_date t) = pad_num 2 d"
    "format_date t ! 4 = CHR ''-''" "format_date t ! 7 = CHR ''-''"
    using py pm pd m by (simp_all add: f nth_append nth_Cons' numeral_eq_Suc)
  show "parse_date (format_date t) = Some (t div day_ns * day_ns)"
    using py pm pd m cd unfolding parse_date_def t l Let_def by (simp add: list_all_append)
qed

lemma fraction_read:
  "read_fraction (format_frac t @ ''Z'') = (t mod second_ns, ''Z'')"
proof (cases "t mod second_ns = 0")
  case True
  then show ?thesis by (simp add: format_frac_def read_fraction_def)
next
  case False
  let ?ns = "t mod second_ns"
  have n: "0 \<le> ?ns" "?ns < 10 ^ 9" by (simp_all add: second_ns_def)
  note p = pad_num_ok [OF this, simplified]
  let ?ds = "trim_right (\<lambda>c. c = CHR ''0'') (pad_num 9 ?ns)"
  obtain z where z: "pad_num 9 ?ns = ?ds @ z" "list_all (\<lambda>c. c = CHR ''0'') z"
    using trim_right_prefix [of "pad_num 9 ?ns" "\<lambda>c. c = CHR ''0''"] by blast
  have rz: "z = replicate (length z) CHR ''0''" using z(2) by (simp add: list_all_iff replicate_eqI [symmetric])
  have len: "length ?ds + length z = 9" using p(1) z(1) by (metis length_append)
  have dig: "list_all is_digit ?ds" using p(2) z(1) by (metis list_all_append)
  have ne: "?ds \<noteq> []"
  proof
    assume "?ds = []"
    then have "pad_num 9 ?ns = replicate 9 CHR ''0''" using z(1) rz len by simp
    then have "read_digits (pad_num 9 ?ns) = 0" using read_zeros [of 9 "[]"] by (simp add: read_digits_def)
    then show False using p(3) False by simp
  qed
  have tw: "takeWhile is_digit (?ds @ ''Z'') = ?ds"
    using dig by (simp add: takeWhile_append2 list_all_iff is_digit_def)
  have "replicate 9 CHR ''0'' = z @ replicate (length ?ds) CHR ''0''"
    using len by (subst rz) (simp add: replicate_add [symmetric] add.commute)
  then have "take 9 (?ds @ replicate 9 CHR ''0'') = pad_num 9 ?ns" using z(1) p(1) by (metis append.assoc append_eq_conv_conj)
  then show ?thesis using False ne p(3)
    by (simp add: format_frac_def Let_def read_fraction_def tw)
qed



end
