(* ===== verification/Store.thy ===== *)
theory Store
  imports StackFiles AuthorityLoad Paths
begin

text \<open>
  The library of named objects, \<^verbatim>\<open>store.go\<close>: the file-based backend, the typed catalogues over any
  backend, the library assembled from five of them, and a runtime composed from it.  A disk maps
  paths to contents; reading, writing and deleting a file do not fail otherwise, and a directory's
  name holds no pattern character.  The range over a map that picks the object of a catalogue file is
  an argument.  Every object read gets an address of its own.
\<close>

section \<open>The file store\<close>

type_synonym disk = "(string \<times> string) list"

definition slug_char :: "char \<Rightarrow> bool" where
  "slug_char c \<longleftrightarrow> is_lower c \<or> is_digit c"

definition slug :: "string \<Rightarrow> string" where
  \<comment> \<open>runs of other characters become one hyphen and the outer ones go: the fields, hyphenated\<close>
  "slug name =
     (let s = join_with ''-'' (fields_by (\<lambda>c. \<not> slug_char c) [] (Normalize name)) in if s = [] then ''unnamed'' else s)"

definition PathFor :: "string \<Rightarrow> string \<Rightarrow> string" where
  "PathFor directory name = Join [directory, slug name @ ''.md'']"

definition NewStore :: "(string \<Rightarrow> string option) \<Rightarrow> string \<Rightarrow> string loaded" where
  \<comment> \<open>the error of creating the directory; the store is its directory\<close>
  "NewStore mkdir_err directory =
     (case mkdir_err directory of
        Some e \<Rightarrow> Inl (''opening the catalogue at '' @ go_quote directory @ '': '' @ e)
      | None \<Rightarrow> Inr directory)"

definition glob_md :: "string \<Rightarrow> string \<Rightarrow> bool" where
  \<comment> \<open>whether a path matches the pattern *.md of a directory\<close>
  "glob_md directory path \<longleftrightarrow>
     has_prefix (below directory) path \<and>
     (let n = drop (length (below directory)) path in slash \<notin> set n \<and> has_suffix ''.md'' n)"

definition heading_name :: "string \<Rightarrow> string option" where
  "heading_name content =
     (case doc_Sections (ParseDocument content) of [] \<Rightarrow> None | sec # _ \<Rightarrow> Some (sec_Name sec))"

definition Store_List :: "string \<Rightarrow> disk \<Rightarrow> string list loaded" where
  "Store_List directory d =
     Inr (List.map_filter (\<lambda>path. heading_name (the (map_of d path))) (filter (glob_md directory) (sorted_keys d)))"

definition Store_Exists :: "string \<Rightarrow> string \<Rightarrow> disk \<Rightarrow> bool loaded" where
  "Store_Exists directory name d = Inr (map_of d (PathFor directory name) \<noteq> None)"

definition or_none :: "string list \<Rightarrow> string" where
  "or_none known = (let s = join_with '', '' known in if s = [] then ''none'' else s)"

definition Store_Read :: "string \<Rightarrow> string \<Rightarrow> disk \<Rightarrow> string loaded" where
  "Store_Read directory name d =
     (case map_of d (PathFor directory name) of
        Some t \<Rightarrow> Inr t
      | None \<Rightarrow>
          bindR (Store_List directory d) (\<lambda>known.
            Inl (go_quote name @ '' is not in the catalogue at '' @ directory @ '' -- catalogued: '' @ or_none known)))"

definition Store_Write :: "string \<Rightarrow> string \<Rightarrow> string \<Rightarrow> disk \<Rightarrow> unit loaded \<times> disk" where
  "Store_Write directory name t d = (Inr (), map_put (PathFor directory name) t d)"

definition Store_Delete :: "string \<Rightarrow> string \<Rightarrow> disk \<Rightarrow> unit loaded \<times> disk" where
  "Store_Delete directory name d = (Inr (), filter (\<lambda>(p, t). p \<noteq> PathFor directory name) d)"

definition file_backend :: "string \<Rightarrow> disk backend" where
  "file_backend directory =
     \<lparr>be_List = Store_List directory, be_Exists = Store_Exists directory, be_Read = Store_Read directory,
      be_Write = Store_Write directory, be_Delete = Store_Delete directory\<rparr>"

section \<open>Catalogues\<close>

record 'a kind =
  kd_Kind :: string
  kd_parse :: "nat \<Rightarrow> Document \<Rightarrow> (nat \<times> 'a) loaded"  \<comment> \<open>takes and gives the next free address\<close>
  kd_render :: "'a \<Rightarrow> string"
  kd_nameOf :: "'a \<Rightarrow> string"

definition Catalogue_Load :: "'a kind \<Rightarrow> 'b backend \<Rightarrow> 'b \<Rightarrow> nat \<Rightarrow> string \<Rightarrow> (nat \<times> 'a) loaded" where
  "Catalogue_Load k be b n name =
     bindR (be_Read be name b) (\<lambda>t.
       (let doc = ParseDocument t in
        if length (doc_Sections doc) = 0 then
          Inl (''catalogued '' @ kd_Kind k @ '' '' @ go_quote name @ '' has no '' @ quoted ''## Heading'' @ '' to read an object from'')
        else kd_parse k n doc))"

definition Catalogue_LoadAll :: "'a kind \<Rightarrow> 'b backend \<Rightarrow> 'b \<Rightarrow> nat \<Rightarrow> (nat \<times> (string \<times> 'a) list) loaded" where
  "Catalogue_LoadAll k be b n =
     bindR (be_List be b) (\<lambda>names.
       foldR (\<lambda>name (n, out). bindR (Catalogue_Load k be b n name) (\<lambda>(n', item). Inr (n', map_put (Normalize name) item out)))
         names (n, []))"

definition Catalogue_Save :: "'a kind \<Rightarrow> 'b backend \<Rightarrow> 'a \<Rightarrow> 'b \<Rightarrow> unit loaded \<times> 'b" where
  "Catalogue_Save k be item b =
     (let name = kd_nameOf k item in
      if TrimSpace name = [] then (Inl (''cannot catalogue an unnamed '' @ kd_Kind k), b)
      else be_Write be name (kd_render k item) b)"

section \<open>The kinds\<close>

definition first_name :: "Document \<Rightarrow> string" where
  "first_name doc = sec_Name (hd (doc_Sections doc))"

definition firstOf :: "(nat \<Rightarrow> nat) \<Rightarrow> (string \<times> 'a) list \<Rightarrow> string \<Rightarrow> string \<Rightarrow> 'a loaded" where
  \<comment> \<open>the first argument says which entry of a map of that size the range gives first\<close>
  "firstOf rng items kind name =
     (if items = [] then Inl (''catalogued '' @ kind @ '' '' @ go_quote name @ '' parsed to nothing'')
      else Inr (snd (items ! rng (length items))))"

definition SkillCatalogue :: "(nat \<Rightarrow> nat) \<Rightarrow> Skill kind" where
  "SkillCatalogue rng =
     \<lparr>kd_Kind = ''skill'',
      kd_parse = (\<lambda>n doc. bindR (firstOf rng (loadSkills doc) ''skill'' (first_name doc)) (\<lambda>s. Inr (n + 1, s\<lparr>sk_ref := n\<rparr>))),
      kd_render = Skill_ToMarkdown, kd_nameOf = sk_Name\<rparr>"

definition PolicyCatalogue :: "(nat \<Rightarrow> nat) \<Rightarrow> Policy kind" where
  "PolicyCatalogue rng =
     \<lparr>kd_Kind = ''policy'',
      kd_parse = (\<lambda>n doc. bindR (loadPolicies doc) (\<lambda>(policies, _).
        bindR (firstOf rng policies ''policy'' (first_name doc)) (\<lambda>p. Inr (n + 1, p\<lparr>po_ref := n\<rparr>)))),
      kd_render = Policy_ToMarkdown, kd_nameOf = po_Name\<rparr>"

definition bullets_of :: "Document \<Rightarrow> nat" where
  \<comment> \<open>a bound on the skills written inside the personas of a document\<close>
  "bullets_of doc = sum_list (map (\<lambda>sec. length (bd_Bullets (StructuredBody sec [''skills'', ''skill'']))) (doc_Sections doc))"

definition PersonaCatalogue :: "(nat \<Rightarrow> nat) \<Rightarrow> nat \<Rightarrow> (string \<times> Skill) list \<Rightarrow> Persona kind" where
  \<comment> \<open>the number is the first address free after the catalogued skills\<close>
  "PersonaCatalogue rng ns skills =
     \<lparr>kd_Kind = ''persona'',
      kd_parse = (\<lambda>n doc. bindR (loadPersonas (ns + n) doc skills) (\<lambda>personas.
        bindR (firstOf rng personas ''persona'' (first_name doc))
          (\<lambda>p. Inr (n + 1 + bullets_of doc, p\<lparr>pe_ref := n\<rparr>)))),
      kd_render = Persona_ToMarkdown, kd_nameOf = pe_Name\<rparr>"

definition WorkflowCatalogue :: "(nat \<Rightarrow> nat) \<Rightarrow> (string \<times> Persona) list \<Rightarrow> (string \<times> Policy) list \<Rightarrow> Workflow kind" where
  "WorkflowCatalogue rng personas policies =
     \<lparr>kd_Kind = ''workflow'',
      kd_parse = (\<lambda>n doc. bindR (loadWorkflows doc personas policies) (\<lambda>(workflows, _).
        bindR (firstOf rng workflows ''workflow'' (first_name doc)) (\<lambda>w. Inr (n + 1, w\<lparr>wf_ref := n\<rparr>)))),
      kd_render = Workflow_ToMarkdown, kd_nameOf = wf_Name\<rparr>"

definition ProcessCatalogue :: "(string \<times> Workflow) list \<Rightarrow> Process kind" where
  "ProcessCatalogue workflows =
     \<lparr>kd_Kind = ''process'',
      kd_parse = (\<lambda>n doc. bindR (loadProcesses doc workflows) (\<lambda>(processes, _).
        if length processes = 0 then Inl (''catalogued process '' @ go_quote (first_name doc) @ '' parsed to nothing'')
        else Inr (n + 1, (hd processes)\<lparr>pr_ref := n\<rparr>))),
      kd_render = Process_ToMarkdown, kd_nameOf = pr_Name\<rparr>"

section \<open>The library\<close>

record 'b LibraryBackends =
  lb_Skills :: "'b backend option"
  lb_Policies :: "'b backend option"
  lb_Personas :: "'b backend option"
  lb_Workflows :: "'b backend option"
  lb_Processes :: "'b backend option"

record 'b Library =
  ly_Skills :: "Skill kind \<times> 'b backend"
  ly_Policies :: "Policy kind \<times> 'b backend"
  ly_Personas :: "Persona kind \<times> 'b backend"
  ly_Workflows :: "Workflow kind \<times> 'b backend"
  ly_Processes :: "Process kind \<times> 'b backend"

definition NewLibrary :: "(nat \<Rightarrow> nat) \<Rightarrow> 'b LibraryBackends \<Rightarrow> 'b \<Rightarrow> 'b Library loaded" where
  \<comment> \<open>the last argument is the state behind the backends\<close>
  "NewLibrary rng bs b =
     (case (lb_Skills bs, lb_Policies bs, lb_Personas bs, lb_Workflows bs, lb_Processes bs) of
        (Some sb, Some pb, Some eb, Some wb, Some cb) \<Rightarrow>
          bindR (Catalogue_LoadAll (SkillCatalogue rng) sb b 0) (\<lambda>(ns, skills).
          bindR (Catalogue_LoadAll (PolicyCatalogue rng) pb b 0) (\<lambda>(_, policies).
          bindR (Catalogue_LoadAll (PersonaCatalogue rng ns skills) eb b 0) (\<lambda>(_, personas).
          bindR (Catalogue_LoadAll (WorkflowCatalogue rng personas policies) wb b 0) (\<lambda>(_, workflows).
            Inr \<lparr>ly_Skills = (SkillCatalogue rng, sb), ly_Policies = (PolicyCatalogue rng, pb),
                 ly_Personas = (PersonaCatalogue rng ns skills, eb),
                 ly_Workflows = (WorkflowCatalogue rng personas policies, wb),
                 ly_Processes = (ProcessCatalogue workflows, cb)\<rparr>))))
      | _ \<Rightarrow> Inl (''a library needs a backend for every kind (skills, policies, personas, workflows, processes)''))"

definition OpenLibrary :: "(string \<Rightarrow> string option) \<Rightarrow> (nat \<Rightarrow> nat) \<Rightarrow> string \<Rightarrow> disk \<Rightarrow> disk Library loaded" where
  "OpenLibrary mkdir_err rng directory d =
     (let open_kind = (\<lambda>kind. bindR (NewStore mkdir_err (Join [directory, kind])) (\<lambda>dir. Inr (Some (file_backend dir)))) in
      bindR (open_kind ''skills'') (\<lambda>sb. bindR (open_kind ''policies'') (\<lambda>pb. bindR (open_kind ''personas'') (\<lambda>eb.
      bindR (open_kind ''workflows'') (\<lambda>wb. bindR (open_kind ''processes'') (\<lambda>cb.
        NewLibrary rng \<lparr>lb_Skills = sb, lb_Policies = pb, lb_Personas = eb, lb_Workflows = wb, lb_Processes = cb\<rparr> d))))))"

definition Compose :: "'b Library \<Rightarrow> 'b \<Rightarrow> string \<Rightarrow> string list \<Rightarrow> Runtime loaded" where
  "Compose l b name processNames =
     (if length processNames = 0 then Inl (''composing '' @ go_quote name @ '' needs at least one process name'')
      else map_sum id snd
        (foldR (\<lambda>pn (n, r). bindR (Catalogue_Load (fst (ly_Processes l)) (snd (ly_Processes l)) b n pn)
                 (\<lambda>(n', p). Inr (n', AddProcess p r)))
           processNames (0, NewRuntime name)))"

end
