(* ===== verification/StoreSql.thy ===== *)
theory StoreSql
  imports Store
begin

text \<open>
  The catalogue backend over SQL, \<^verbatim>\<open>store_sql.go\<close>.  The driver is a parameter: what executing a statement
  and running a query with arguments do to the database, and the transaction it offers; a row is the
  list of its columns, and a transaction works on a copy that a commit installs.  A schema template
  holds no other verb than its one %s.
\<close>

record 'db sql =
  sq_Exec :: "string \<Rightarrow> string list \<Rightarrow> 'db \<Rightarrow> string option \<times> 'db"  \<comment> \<open>the text of the error, if any\<close>
  sq_Query :: "string \<Rightarrow> string list \<Rightarrow> 'db \<Rightarrow> (string, string list list) outcome"
  sq_Begin :: "'db \<Rightarrow> (string, 'db) outcome"
  sq_Commit :: "'db \<Rightarrow> 'db \<Rightarrow> string option \<times> 'db"  \<comment> \<open>the database and the transaction's copy\<close>

record SQLBackend =
  sb_table :: string
  sb_ph :: "nat \<Rightarrow> string"
  sb_schema :: string

definition validSQLIdentifier :: "string \<Rightarrow> bool" where
  "validSQLIdentifier s \<longleftrightarrow>
     s \<noteq> [] \<and> (is_letter (hd s) \<or> hd s = CHR ''_'') \<and> list_all (\<lambda>c. is_letter c \<or> is_digit c \<or> c = CHR ''_'') s"

definition defaultSchema :: string where
  "defaultSchema =
     ''CREATE TABLE IF NOT EXISTS %s (slug VARCHAR(255) PRIMARY KEY, name TEXT NOT NULL, body TEXT NOT NULL)''"

type_synonym SQLOption = "SQLBackend \<Rightarrow> SQLBackend"

definition WithPlaceholders :: "(nat \<Rightarrow> string) \<Rightarrow> SQLOption" where
  "WithPlaceholders style b = b\<lparr>sb_ph := style\<rparr>"

definition Postgres :: SQLOption where
  "Postgres = WithPlaceholders (\<lambda>n. CHR ''$'' # show_nat n)"

definition WithSchema :: "string \<Rightarrow> SQLOption" where
  "WithSchema ddlTemplate b = b\<lparr>sb_schema := ddlTemplate\<rparr>"

definition WithoutSchemaInit :: SQLOption where
  "WithoutSchemaInit b = b\<lparr>sb_schema := []\<rparr>"

definition schema_text :: "string \<Rightarrow> string \<Rightarrow> string" where
  \<comment> \<open>Sprintf of the template and the table\<close>
  "schema_text template table =
     (case cut_at ''%s'' template of
        Some (a, b) \<Rightarrow> a @ table @ b
      | None \<Rightarrow> template @ ''%!(EXTRA string='' @ table @ '')'')"

definition NewSQLBackend ::
  "'db sql \<Rightarrow> 'db option \<Rightarrow> string \<Rightarrow> SQLOption list \<Rightarrow> SQLBackend loaded \<times> 'db option" where
  \<comment> \<open>the handle is None when it is nil\<close>
  "NewSQLBackend q handle table opts =
     (case handle of
        None \<Rightarrow> (Inl ''NewSQLBackend needs an open *sql.DB'', None)
      | Some db \<Rightarrow>
          if \<not> validSQLIdentifier table then
            (Inl (''invalid catalogue table name '' @ go_quote table @ '' -- must be a plain SQL identifier''), Some db)
          else
            (let b = fold (\<lambda>opt b. opt b) opts \<lparr>sb_table = table, sb_ph = (\<lambda>n. ''?''), sb_schema = defaultSchema\<rparr> in
             if sb_schema b = [] then (Inr b, Some db)
             else (case sq_Exec q (schema_text (sb_schema b) table) [] db of
                     (Some e, db') \<Rightarrow> (Inl (''provisioning catalogue table '' @ go_quote table @ '': '' @ e), Some db')
                   | (None, db') \<Rightarrow> (Inr b, Some db'))))"

section \<open>The contract\<close>

definition where_slug :: "SQLBackend \<Rightarrow> string" where
  "where_slug b = sb_table b @ '' WHERE slug = '' @ sb_ph b 1"

definition SQL_List :: "'db sql \<Rightarrow> SQLBackend \<Rightarrow> 'db \<Rightarrow> string list loaded" where
  \<comment> \<open>each row has the one column asked for\<close>
  "SQL_List q b db =
     bindR (sq_Query q (''SELECT name FROM '' @ sb_table b @ '' ORDER BY slug'') [] db) (\<lambda>rows. Inr (map hd rows))"

definition SQL_Exists :: "'db sql \<Rightarrow> SQLBackend \<Rightarrow> string \<Rightarrow> 'db \<Rightarrow> bool loaded" where
  "SQL_Exists q b name db =
     bindR (sq_Query q (''SELECT 1 FROM '' @ where_slug b) [slug name] db) (\<lambda>rows. Inr (rows \<noteq> []))"

definition SQL_Read :: "'db sql \<Rightarrow> SQLBackend \<Rightarrow> string \<Rightarrow> 'db \<Rightarrow> string loaded" where
  "SQL_Read q b name db =
     bindR (sq_Query q (''SELECT body FROM '' @ where_slug b) [slug name] db) (\<lambda>rows.
       (case rows of
          row # _ \<Rightarrow> Inr (hd row)
        | [] \<Rightarrow>
            (case SQL_List q b db of
               Inl _ \<Rightarrow> Inl (go_quote name @ '' is not in catalogue table '' @ sb_table b)
             | Inr known \<Rightarrow>
                 Inl (go_quote name @ '' is not in catalogue table '' @ sb_table b @ '' -- catalogued: '' @ or_none known))))"

definition SQL_Write :: "'db sql \<Rightarrow> SQLBackend \<Rightarrow> string \<Rightarrow> string \<Rightarrow> 'db \<Rightarrow> unit loaded \<times> 'db" where
  \<comment> \<open>an early return rolls the transaction back, which leaves the database\<close>
  "SQL_Write q b name t db =
     (case sq_Begin q db of
        Inl e \<Rightarrow> (Inl e, db)
      | Inr tx \<Rightarrow>
          (case sq_Exec q (''DELETE FROM '' @ where_slug b) [slug name] tx of
             (Some e, _) \<Rightarrow> (Inl e, db)
           | (None, tx1) \<Rightarrow>
               (case sq_Exec q (''INSERT INTO '' @ sb_table b @ '' (slug, name, body) VALUES ('' @ sb_ph b 1 @ '', '' @
                                sb_ph b 2 @ '', '' @ sb_ph b 3 @ '')'') [slug name, name, t] tx1 of
                  (Some e, _) \<Rightarrow> (Inl e, db)
                | (None, tx2) \<Rightarrow>
                    (case sq_Commit q db tx2 of
                       (Some e, db') \<Rightarrow> (Inl e, db')
                     | (None, db') \<Rightarrow> (Inr (), db')))))"

definition SQL_Delete :: "'db sql \<Rightarrow> SQLBackend \<Rightarrow> string \<Rightarrow> 'db \<Rightarrow> unit loaded \<times> 'db" where
  "SQL_Delete q b name db =
     (case sq_Exec q (''DELETE FROM '' @ where_slug b) [slug name] db of
        (Some e, db') \<Rightarrow> (Inl e, db')
      | (None, db') \<Rightarrow> (Inr (), db'))"

definition sql_backend :: "'db sql \<Rightarrow> SQLBackend \<Rightarrow> 'db backend" where
  "sql_backend q b =
     \<lparr>be_List = SQL_List q b, be_Exists = SQL_Exists q b, be_Read = SQL_Read q b, be_Write = SQL_Write q b,
      be_Delete = SQL_Delete q b\<rparr>"

definition kind_table :: "string \<Rightarrow> string \<Rightarrow> string" where
  "kind_table pre kind = (if pre \<noteq> [] then pre @ ''_'' @ kind else kind)"

definition open_kind ::
  "'db sql \<Rightarrow> string \<Rightarrow> SQLOption list \<Rightarrow> string \<Rightarrow> SQLBackend list \<times> 'db option \<Rightarrow> (string \<times> 'db option, SQLBackend list \<times> 'db option) outcome" where
  "open_kind q pre opts kind st =
     (case NewSQLBackend q (snd st) (kind_table pre kind) opts of
        (Inl e, h) \<Rightarrow> Inl (e, h)
      | (Inr b, h) \<Rightarrow> Inr (fst st @ [b], h))"

definition SQLLibrary ::
  "(nat \<Rightarrow> nat) \<Rightarrow> 'db sql \<Rightarrow> 'db option \<Rightarrow> string \<Rightarrow> SQLOption list \<Rightarrow> 'db Library loaded \<times> 'db option" where
  "SQLLibrary rng q handle pre opts =
     (if pre \<noteq> [] \<and> \<not> validSQLIdentifier pre then (Inl (''invalid catalogue table prefix '' @ go_quote pre), handle)
      else (case foldR (open_kind q pre opts) [''skills'', ''policies'', ''personas'', ''workflows'', ''processes''] ([], handle) of
              Inl (e, h) \<Rightarrow> (Inl e, h)
            | Inr (bs, h) \<Rightarrow>
                (let be = (\<lambda>i. Some (sql_backend q (bs ! i))) in
                 (NewLibrary rng
                    \<lparr>lb_Skills = be 0, lb_Policies = be 1, lb_Personas = be 2, lb_Workflows = be 3, lb_Processes = be 4\<rparr>
                    (the h), h))))"

end
