(* ===== verification/SqlDriver.thy ===== *)
theory SqlDriver
  imports StoreSql
begin

text \<open>
  A database to run the SQL backend on.  The driver is not part of the repository, so this is not a model of
  one: it interprets the text of a statement, for the forms CREATE TABLE, INSERT, DELETE and SELECT with one
  condition or order, over tables of named columns with a primary key, the way the SQL standard reads them,
  with the placeholders ? and $n.  It knows nothing of the backend: a statement over another column or
  another table means something else here.
\<close>

section \<open>Words of a statement\<close>

definition sql_mark :: "char \<Rightarrow> bool" where
  "sql_mark c \<longleftrightarrow> c \<in> {CHR ''('', CHR '')'', CHR '','', CHR ''=''}"

definition emit :: "string \<Rightarrow> string list" where
  "emit w = (if w = [] then [] else [w])"

fun sql_words :: "string \<Rightarrow> string \<Rightarrow> string list" where
  \<comment> \<open>words between blanks; a mark is a word of its own\<close>
  "sql_words w [] = emit w"
| "sql_words w (c # cs) =
     (if c = CHR '' '' then emit w @ sql_words [] cs
      else if sql_mark c then emit w @ [c] # sql_words [] cs
      else sql_words (w @ [c]) cs)"

definition sql_plain :: "string \<Rightarrow> bool" where
  "sql_plain w \<longleftrightarrow> list_all (\<lambda>c. c \<noteq> CHR '' '' \<and> \<not> sql_mark c) w"

lemma sql_words_plain: "sql_plain v \<Longrightarrow> sql_words w (v @ cs) = sql_words (w @ v) cs"
  by (induction v arbitrary: w) (simp_all add: sql_plain_def)

section \<open>Statements\<close>

datatype sql_statement =
    CreateTable string "string list" "string option"   \<comment> \<open>columns, primary key\<close>
  | InsertInto string "string list" "nat list"         \<comment> \<open>columns, arguments\<close>
  | DeleteFrom string string nat                       \<comment> \<open>condition: column, argument\<close>
  | SelectWhere string string string nat               \<comment> \<open>what, table, condition\<close>
  | SelectOrder string string string                   \<comment> \<open>what, table, order\<close>

definition placeholder :: "nat \<Rightarrow> string \<Rightarrow> nat option" where
  \<comment> \<open>the argument a placeholder stands for: the next one for ?, the n-th for $n\<close>
  "placeholder i w =
     (if w = ''?'' then Some i
      else if w \<noteq> [] \<and> hd w = CHR ''$'' \<and> tl w \<noteq> [] \<and> list_all is_digit (tl w)
      then Some (foldl (\<lambda>n c. 10 * n + ((of_char c :: nat) - 48)) 0 (tl w) - 1)
      else None)"

fun placeholders :: "nat \<Rightarrow> string list \<Rightarrow> nat list option" where
  \<comment> \<open>a list of placeholders between commas up to the closing parenthesis\<close>
  "placeholders i (w # m # ws) =
     (case placeholder i w of
        None \<Rightarrow> None
      | Some k \<Rightarrow>
          if m = '','' then map_option ((#) k) (placeholders (i + 1) ws)
          else if m = '')'' \<and> ws = [] then Some [k] else None)"
| "placeholders i _ = None"

fun names_to_mark :: "string list \<Rightarrow> (string list \<times> string list) option" where
  \<comment> \<open>names between commas up to the closing parenthesis, and what follows it\<close>
  "names_to_mark (w # m # ws) =
     (if m = '','' then map_option (\<lambda>(ns, rest). (w # ns, rest)) (names_to_mark ws)
      else if m = '')'' then Some ([w], ws) else None)"
| "names_to_mark _ = None"

fun column_defs :: "nat \<Rightarrow> string list \<Rightarrow> string list \<Rightarrow> string list list option" where
  \<comment> \<open>the definitions of columns, split at the commas outside inner parentheses\<close>
  "column_defs d cur (w # ws) =
     (if w = ''('' then column_defs (d + 1) (cur @ [w]) ws
      else if w = '')'' then (if d = 0 then (if ws = [] then Some [cur] else None) else column_defs (d - 1) (cur @ [w]) ws)
      else if w = '','' \<and> d = 0 then map_option ((#) cur) (column_defs 0 [] ws)
      else column_defs d (cur @ [w]) ws)"
| "column_defs d cur [] = None"

fun has_pair :: "string \<Rightarrow> string \<Rightarrow> string list \<Rightarrow> bool" where
  "has_pair a b (x # y # zs) \<longleftrightarrow> x = a \<and> y = b \<or> has_pair a b (y # zs)"
| "has_pair a b _ \<longleftrightarrow> False"

definition primary_key :: "string list list \<Rightarrow> string option" where
  "primary_key defs = map_option hd (find (has_pair ''PRIMARY'' ''KEY'') defs)"

definition parse_create :: "string list \<Rightarrow> sql_statement option" where
  "parse_create ws =
     (case ws of
        t # m # rest \<Rightarrow>
          if m = ''('' then map_option (\<lambda>defs. CreateTable t (map hd defs) (primary_key defs)) (column_defs 0 [] rest) else None
      | _ \<Rightarrow> None)"

definition parse_insert :: "string list \<Rightarrow> sql_statement option" where
  "parse_insert ws =
     (case ws of
        t # m # rest \<Rightarrow>
          (case names_to_mark rest of
             Some (cs, v # m' # ps) \<Rightarrow>
               if m = ''('' \<and> v = ''VALUES'' \<and> m' = ''('' then map_option (InsertInto t cs) (placeholders 0 ps) else None
           | _ \<Rightarrow> None)
      | _ \<Rightarrow> None)"

definition parse_select :: "string list \<Rightarrow> sql_statement option" where
  "parse_select ws =
     (case ws of
        [what, f, t, x, y, z, p] \<Rightarrow>
          if f = ''FROM'' \<and> x = ''WHERE'' \<and> z = ''='' then map_option (SelectWhere what t y) (placeholder 0 p) else None
      | [what, f, t, x, y, z] \<Rightarrow>
          if f = ''FROM'' \<and> x = ''ORDER'' \<and> y = ''BY'' then Some (SelectOrder what t z) else None
      | _ \<Rightarrow> None)"

definition parse_delete :: "string list \<Rightarrow> sql_statement option" where
  "parse_delete ws =
     (case ws of
        [t, x, y, z, p] \<Rightarrow> if x = ''WHERE'' \<and> z = ''='' then map_option (DeleteFrom t y) (placeholder 0 p) else None
      | _ \<Rightarrow> None)"

definition parse_sql :: "string \<Rightarrow> sql_statement option" where
  "parse_sql text =
     (let ws = sql_words [] text in
      if take 5 ws = [''CREATE'', ''TABLE'', ''IF'', ''NOT'', ''EXISTS''] then parse_create (drop 5 ws)
      else if take 2 ws = [''INSERT'', ''INTO''] then parse_insert (drop 2 ws)
      else if take 2 ws = [''DELETE'', ''FROM''] then parse_delete (drop 2 ws)
      else if take 1 ws = [''SELECT''] then parse_select (drop 1 ws)
      else None)"

section \<open>Running them\<close>

type_synonym sql_row = "(string \<times> string) list"

record sql_table_data =
  tb_columns :: "string list"
  tb_key :: "string option"
  tb_rows :: "sql_row list"

type_synonym sql_db = "string \<rightharpoonup> sql_table_data"

definition cell :: "string \<Rightarrow> sql_row \<Rightarrow> string" where
  "cell col row = (case map_of row col of Some v \<Rightarrow> v | None \<Rightarrow> [])"

definition syntax_error :: string where "syntax_error = ''syntax error''"

definition set_rows :: "string \<Rightarrow> sql_table_data \<Rightarrow> sql_row list \<Rightarrow> sql_db \<Rightarrow> sql_db" where
  "set_rows t d rows db = db(t \<mapsto> d\<lparr>tb_rows := rows\<rparr>)"

definition insert_row :: "string \<Rightarrow> string list \<Rightarrow> string list \<Rightarrow> sql_db \<Rightarrow> string option \<times> sql_db" where
  \<comment> \<open>every column of the table is given; the key is not there yet\<close>
  "insert_row t cols vals db =
     (case db t of
        None \<Rightarrow> (Some ''no such table'', db)
      | Some d \<Rightarrow>
          if set cols \<noteq> set (tb_columns d) \<or> length cols \<noteq> length vals then (Some ''wrong columns'', db)
          else
            (let row = zip cols vals in
             case tb_key d of
               Some k \<Rightarrow>
                 if cell k row \<in> set (map (cell k) (tb_rows d)) then (Some ''UNIQUE constraint failed'', db)
                 else (None, set_rows t d (tb_rows d @ [row]) db)
             | None \<Rightarrow> (None, set_rows t d (tb_rows d @ [row]) db)))"

definition run_exec :: "string \<Rightarrow> string list \<Rightarrow> sql_db \<Rightarrow> string option \<times> sql_db" where
  "run_exec text args db =
     (case parse_sql text of
        Some (CreateTable t cols key) \<Rightarrow>
          (None, if db t = None then db(t \<mapsto> \<lparr>tb_columns = cols, tb_key = key, tb_rows = []\<rparr>) else db)
      | Some (InsertInto t cols is) \<Rightarrow>
          if list_all (\<lambda>i. i < length args) is then insert_row t cols (map ((!) args) is) db
          else (Some ''missing argument'', db)
      | Some (DeleteFrom t col i) \<Rightarrow>
          (case db t of
             None \<Rightarrow> (Some ''no such table'', db)
           | Some d \<Rightarrow>
               if col \<in> set (tb_columns d) \<and> i < length args
               then (None, set_rows t d (filter (\<lambda>row. cell col row \<noteq> args ! i) (tb_rows d)) db)
               else (Some ''no such column or argument'', db))
      | _ \<Rightarrow> (Some syntax_error, db))"

definition pick :: "string \<Rightarrow> sql_table_data \<Rightarrow> sql_row list \<Rightarrow> (string, string list list) outcome" where
  \<comment> \<open>the number 1, or a column\<close>
  "pick what d rows =
     (if what = ''1'' then Inr (map (\<lambda>_. [''1'']) rows)
      else if what \<in> set (tb_columns d) then Inr (map (\<lambda>row. [cell what row]) rows)
      else Inl ''no such column'')"

definition run_query :: "string \<Rightarrow> string list \<Rightarrow> sql_db \<Rightarrow> (string, string list list) outcome" where
  "run_query text args db =
     (case parse_sql text of
        Some (SelectWhere what t col i) \<Rightarrow>
          (case db t of
             None \<Rightarrow> Inl ''no such table''
           | Some d \<Rightarrow>
               if col \<in> set (tb_columns d) \<and> i < length args
               then pick what d (filter (\<lambda>row. cell col row = args ! i) (tb_rows d))
               else Inl ''no such column or argument'')
      | Some (SelectOrder what t col) \<Rightarrow>
          (case db t of
             None \<Rightarrow> Inl ''no such table''
           | Some d \<Rightarrow>
               if col \<in> set (tb_columns d) then pick what d (sort_key (cell col) (tb_rows d)) else Inl ''no such column'')
      | _ \<Rightarrow> Inl syntax_error)"

definition reference_sql :: "sql_db sql" where
  \<comment> \<open>a transaction is a copy that a commit installs\<close>
  "reference_sql = \<lparr>sq_Exec = run_exec, sq_Query = run_query, sq_Begin = Inr, sq_Commit = (\<lambda>db tx. (None, tx))\<rparr>"

section \<open>What the statements of the backend mean to it\<close>

definition portable :: "SQLBackend \<Rightarrow> bool" where
  \<comment> \<open>a table with a plain name, and one of the two placeholder styles\<close>
  "portable b \<longleftrightarrow>
     validSQLIdentifier (sb_table b) \<and> (sb_ph b = (\<lambda>n. ''?'') \<or> sb_ph b = (\<lambda>n. CHR ''$'' # show_nat n))"

lemma valid_plain: "validSQLIdentifier t \<Longrightarrow> sql_plain t \<and> t \<noteq> []"
  by (auto simp: validSQLIdentifier_def sql_plain_def sql_mark_def list_all_iff is_letter_def is_lower_def is_upper_def
      is_digit_def)

lemma sql_words_name: "sql_plain v \<Longrightarrow> sql_words [] (v @ cs) = sql_words v cs"
  using sql_words_plain [of v "[]"] by simp

lemma sql_words_last: "sql_plain v \<Longrightarrow> v \<noteq> [] \<Longrightarrow> sql_words [] v = [v]"
  using sql_words_name [of v "[]"] by (simp add: emit_def)

lemma placeholder_plain:
  "portable b \<Longrightarrow> sql_plain (sb_ph b 1) \<and> sb_ph b 1 \<noteq> []" "portable b \<Longrightarrow> sql_plain (sb_ph b 2) \<and> sb_ph b 2 \<noteq> []"
  "portable b \<Longrightarrow> sql_plain (sb_ph b 3) \<and> sb_ph b 3 \<noteq> []"
  by (auto simp: portable_def sql_plain_def sql_mark_def show_small simp del: One_nat_def)

lemma placeholder_index:
  "portable b \<Longrightarrow> placeholder 0 (sb_ph b 1) = Some 0" "portable b \<Longrightarrow> placeholder 1 (sb_ph b 2) = Some 1"
  "portable b \<Longrightarrow> placeholder 2 (sb_ph b 3) = Some 2"
  by (auto simp: portable_def placeholder_def show_small is_digit_def simp del: One_nat_def)

lemmas sql_words_eval = sql_words_name sql_words_last sql_mark_def emit_def

lemma portable_table: "portable b \<Longrightarrow> sql_plain (sb_table b) \<and> sb_table b \<noteq> []"
  using valid_plain by (auto simp: portable_def)

lemma parse_delete_text:
  assumes "portable b"
  shows "parse_sql (''DELETE FROM '' @ sb_table b @ '' WHERE slug = '' @ sb_ph b 1) = Some (DeleteFrom (sb_table b) ''slug'' 0)"
proof -
  have "sql_words [] (''DELETE FROM '' @ sb_table b @ '' WHERE slug = '' @ sb_ph b 1) =
      [''DELETE'', ''FROM'', sb_table b, ''WHERE'', ''slug'', ''='', sb_ph b 1]"
    using portable_table [OF assms] placeholder_plain [OF assms] by (simp add: sql_words_eval)
  then show ?thesis
    using placeholder_index [OF assms] by (simp add: parse_sql_def parse_delete_def)
qed

lemma parse_select_text:
  assumes "portable b" "sql_plain what" "what \<noteq> []"
  shows "parse_sql (''SELECT '' @ what @ '' FROM '' @ sb_table b @ '' WHERE slug = '' @ sb_ph b 1) =
    Some (SelectWhere what (sb_table b) ''slug'' 0)"
proof -
  have "sql_words [] (''SELECT '' @ what @ '' FROM '' @ sb_table b @ '' WHERE slug = '' @ sb_ph b 1) =
      [''SELECT'', what, ''FROM'', sb_table b, ''WHERE'', ''slug'', ''='', sb_ph b 1]"
    using portable_table [OF assms(1)] placeholder_plain [OF assms(1)] assms(2,3) by (simp add: sql_words_eval)
  then show ?thesis
    using placeholder_index [OF assms(1)] by (simp add: parse_sql_def parse_select_def)
qed

lemma parse_order_text:
  assumes "portable b"
  shows "parse_sql (''SELECT name FROM '' @ sb_table b @ '' ORDER BY slug'') = Some (SelectOrder ''name'' (sb_table b) ''slug'')"
proof -
  have "sql_words [] (''SELECT name FROM '' @ sb_table b @ '' ORDER BY slug'') =
      [''SELECT'', ''name'', ''FROM'', sb_table b, ''ORDER'', ''BY'', ''slug'']"
    using portable_table [OF assms] by (simp add: sql_words_eval)
  then show ?thesis by (simp add: parse_sql_def parse_select_def)
qed

lemma parse_insert_text:
  assumes "portable b"
  shows "parse_sql (''INSERT INTO '' @ sb_table b @ '' (slug, name, body) VALUES ('' @ sb_ph b 1 @ '', '' @ sb_ph b 2 @ '', '' @
      sb_ph b 3 @ '')'') = Some (InsertInto (sb_table b) [''slug'', ''name'', ''body''] [0, 1, 2])"
proof -
  have "sql_words [] (''INSERT INTO '' @ sb_table b @ '' (slug, name, body) VALUES ('' @ sb_ph b 1 @ '', '' @ sb_ph b 2 @ '', '' @
      sb_ph b 3 @ '')'') = [''INSERT'', ''INTO'', sb_table b, ''('', ''slug'', '','', ''name'', '','', ''body'', '')'',
      ''VALUES'', ''('', sb_ph b 1, '','', sb_ph b 2, '','', sb_ph b 3, '')'']"
    using portable_table [OF assms] placeholder_plain [OF assms] by (simp add: sql_words_eval)
  then show ?thesis
    using placeholder_index [OF assms] by (simp add: parse_sql_def parse_insert_def numeral_2_eq_2)
qed

lemma parse_schema_text:
  assumes "validSQLIdentifier t"
  shows "parse_sql (schema_text defaultSchema t) = Some (CreateTable t [''slug'', ''name'', ''body''] (Some ''slug''))"
proof -
  have "cut_at ''%s'' defaultSchema = Some (''CREATE TABLE IF NOT EXISTS '',
      '' (slug VARCHAR(255) PRIMARY KEY, name TEXT NOT NULL, body TEXT NOT NULL)'')"
    by code_simp
  then have "schema_text defaultSchema t = ''CREATE TABLE IF NOT EXISTS '' @ t @
      '' (slug VARCHAR(255) PRIMARY KEY, name TEXT NOT NULL, body TEXT NOT NULL)''"
    by (simp add: schema_text_def)
  then have "sql_words [] (schema_text defaultSchema t) = [''CREATE'', ''TABLE'', ''IF'', ''NOT'', ''EXISTS'', t, ''('',
      ''slug'', ''VARCHAR'', ''('', ''255'', '')'', ''PRIMARY'', ''KEY'', '','', ''name'', ''TEXT'', ''NOT'', ''NULL'', '','',
      ''body'', ''TEXT'', ''NOT'', ''NULL'', '')'']"
    using valid_plain [OF assms] by (simp add: sql_words_eval)
  then show ?thesis by (simp add: parse_sql_def parse_create_def primary_key_def)
qed

end
