(* ===== verification/StoreProps.thy ===== *)
theory StoreProps
  imports SqlDriver
begin

text \<open>
  What a catalogue backend promises its clients, as a locale: it is a map from keys to texts.  The
  file store and the SQL backend keep the promise, so a catalogue means the same over either.
\<close>

section \<open>The contract\<close>

definition read_text :: "'b backend \<Rightarrow> 'b \<Rightarrow> string \<Rightarrow> string option" where
  "read_text be b name = (case be_Read be name b of Inr t \<Rightarrow> Some t | Inl _ \<Rightarrow> None)"

datatype store_op = StoreWrite string string | StoreDelete string

fun store_step :: "'b backend \<Rightarrow> store_op \<Rightarrow> 'b \<Rightarrow> 'b" where
  "store_step be (StoreWrite name t) b = snd (be_Write be name t b)"
| "store_step be (StoreDelete name) b = snd (be_Delete be name b)"

fun spec_step :: "store_op \<Rightarrow> (string \<rightharpoonup> string) \<Rightarrow> (string \<rightharpoonup> string)" where
  \<comment> \<open>the abstract store: a map from slugs to texts\<close>
  "spec_step (StoreWrite name t) m = m(slug name \<mapsto> t)"
| "spec_step (StoreDelete name) m = m(slug name := None)"

locale catalogue_store =
  fixes be :: "'b backend" and valid :: "'b \<Rightarrow> bool"
  assumes write_ok: "valid b \<Longrightarrow> fst (be_Write be n t b) = Inr () \<and> valid (snd (be_Write be n t b))"
    and delete_ok: "valid b \<Longrightarrow> fst (be_Delete be n b) = Inr () \<and> valid (snd (be_Delete be n b))"
    and read_write: "valid b \<Longrightarrow>
      read_text be (snd (be_Write be n t b)) m = (if slug m = slug n then Some t else read_text be b m)"
    and read_delete: "valid b \<Longrightarrow>
      read_text be (snd (be_Delete be n b)) m = (if slug m = slug n then None else read_text be b m)"
    and exists_read: "valid b \<Longrightarrow> be_Exists be n b = Inr (read_text be b n \<noteq> None)"
begin

lemma step_valid: "valid b \<Longrightarrow> valid (store_step be op b)"
  by (cases op) (simp_all add: write_ok delete_ok)

lemma step_refines:
  "valid b \<Longrightarrow> \<forall>n. read_text be b n = m (slug n) \<Longrightarrow> read_text be (store_step be op b) n = spec_step op m (slug n)"
  by (cases op) (simp_all add: read_write read_delete)

lemma run_refines:
  "valid b \<Longrightarrow> \<forall>n. read_text be b n = m (slug n) \<Longrightarrow>
     read_text be (fold (store_step be) ops b) n = fold spec_step ops m (slug n) \<and>
     be_Exists be n (fold (store_step be) ops b) = Inr (fold spec_step ops m (slug n) \<noteq> None)"
proof (induction ops arbitrary: b m)
  case Nil
  then show ?case by (simp add: exists_read)
next
  case (Cons op ops)
  then show ?case using Cons.IH [of "store_step be op b" "spec_step op m"] by (simp add: step_valid step_refines)
qed

lemma Load_after_Save:
  assumes "valid b" "TrimSpace (kd_nameOf k item) \<noteq> []" "slug name = slug (kd_nameOf k item)"
    "doc_Sections (ParseDocument (kd_render k item)) \<noteq> []"
  shows "fst (Catalogue_Save k be item b) = Inr () \<and>
    Catalogue_Load k be (snd (Catalogue_Save k be item b)) n name = kd_parse k n (ParseDocument (kd_render k item))"
proof -
  have "read_text be (snd (be_Write be (kd_nameOf k item) (kd_render k item) b)) name = Some (kd_render k item)"
    using assms by (simp add: read_write)
  then have "be_Read be name (snd (be_Write be (kd_nameOf k item) (kd_render k item) b)) = Inr (kd_render k item)"
    by (simp add: read_text_def split: sum.splits)
  with assms show ?thesis by (simp add: Catalogue_Save_def Catalogue_Load_def Let_def write_ok)
qed

end

section \<open>Slugs\<close>

lemma fields_by_all:
  "list_all (\<lambda>c. \<not> p c) w \<Longrightarrow> f \<in> set (fields_by p w s) \<Longrightarrow> list_all (\<lambda>c. \<not> p c) f"
  by (induction p w s rule: fields_by.induct) (auto split: if_splits)

lemma slug_chars: "c \<in> set (slug name) \<Longrightarrow> slug_char c \<or> c = CHR ''-''"
proof -
  have j: "c \<in> set (join_with ''-'' fs) \<Longrightarrow> c = CHR ''-'' \<or> (\<exists>f \<in> set fs. c \<in> set f)" for fs
    by (induction "''-''" fs rule: join_with.induct) auto
  have "slug_char c" if "c \<in> set ''unnamed''" using that by (auto simp: slug_char_def is_lower_def)
  moreover assume "c \<in> set (slug name)"
  ultimately show ?thesis
    using j [of "fields_by (\<lambda>c. \<not> slug_char c) [] (Normalize name)"]
      fields_by_all [of "\<lambda>c. \<not> slug_char c" "[]" _ "Normalize name"]
    by (auto simp: slug_def Let_def list_all_iff split: if_splits)
qed

lemma slug_nonempty: "slug name \<noteq> []"
  by (simp add: slug_def Let_def)

lemma plain_slug: "plain_name (slug name @ ''.md'')"
proof -
  have "\<not> slug_char slash" "slash \<noteq> CHR ''-''" by (simp_all add: slug_char_def slash_def char_eval)
  then have "slash \<notin> set (slug name)" using slug_chars by blast
  moreover have "slash \<notin> set ''.md''" by (simp add: slash_def)
  moreover have "length (slug name @ ''.md'') > 3" using slug_nonempty by simp
  ultimately show ?thesis by (auto simp: plain_name_def)
qed

lemma PathFor_eq: "PathFor d m = PathFor d n \<longleftrightarrow> slug m = slug n"
  by (simp add: PathFor_def Join_plain plain_slug)

section \<open>The file store\<close>

lemma read_text_file: "read_text (file_backend d) b n = map_of b (PathFor d n)"
  by (simp add: read_text_def file_backend_def Store_Read_def Store_List_def split: option.split)

lemma map_of_filter_key: "map_of (filter (\<lambda>(p, t). p \<noteq> k) b) j = (if j = k then None else map_of b j)"
  by (induction b) auto

interpretation files: catalogue_store "file_backend d" "\<lambda>_. True"
  by unfold_locales
    (simp_all add: read_text_file, simp_all add: file_backend_def Store_Write_def Store_Delete_def Store_Exists_def
       map_of_filter_key PathFor_eq)


section \<open>The SQL backend\<close>

definition delete_text :: "SQLBackend \<Rightarrow> string" where
  "delete_text b = ''DELETE FROM '' @ sb_table b @ '' WHERE slug = '' @ sb_ph b 1"

definition insert_text :: "SQLBackend \<Rightarrow> string" where
  "insert_text b = ''INSERT INTO '' @ sb_table b @ '' (slug, name, body) VALUES ('' @ sb_ph b 1 @ '', '' @ sb_ph b 2 @ '', '' @
     sb_ph b 3 @ '')''"

definition select_text :: "string \<Rightarrow> SQLBackend \<Rightarrow> string" where
  "select_text what b = ''SELECT '' @ what @ '' FROM '' @ sb_table b @ '' WHERE slug = '' @ sb_ph b 1"

type_synonym sql_rows = "(string \<times> string \<times> string) list"

lemma filter_key_Nil: "filter (\<lambda>r. fst r = k) rs = [] \<longleftrightarrow> map_of rs k = None" for rs :: sql_rows
  by (force simp: map_of_eq_None_iff filter_empty_conv)

lemma filter_key_Cons: "filter (\<lambda>r. fst r = k) rs = r # rs' \<Longrightarrow> map_of rs k = Some (snd r)" for rs :: sql_rows
  by (induction rs) (auto split: if_splits)

text \<open>
  What the backend asks of a driver, on a database in which its table stands: each statement does what its text
  says to the rows of slug, name and body, and a transaction is a copy that the commit installs.
\<close>

locale sql_table =
  fixes q :: "'db sql" and b :: SQLBackend and rows :: "'db \<Rightarrow> sql_rows" and ready :: "'db \<Rightarrow> bool"
  assumes delete_law: "ready db \<Longrightarrow> \<exists>db'. sq_Exec q (delete_text b) [s] db = (None, db') \<and> ready db' \<and>
      rows db' = filter (\<lambda>r. fst r \<noteq> s) (rows db)"
    and insert_law: "ready db \<Longrightarrow> s \<notin> fst ` set (rows db) \<Longrightarrow> \<exists>db'. sq_Exec q (insert_text b) [s, n, t] db = (None, db') \<and>
      ready db' \<and> rows db' = rows db @ [(s, n, t)]"
    and body_law: "ready db \<Longrightarrow>
      sq_Query q (select_text ''body'' b) [s] db = Inr (map (\<lambda>r. [snd (snd r)]) (filter (\<lambda>r. fst r = s) (rows db)))"
    and one_law: "ready db \<Longrightarrow>
      sq_Query q (select_text ''1'' b) [s] db = Inr (map (\<lambda>r. [''1'']) (filter (\<lambda>r. fst r = s) (rows db)))"
    and begin_law: "ready db \<Longrightarrow> sq_Begin q db = Inr db"
    and commit_law: "ready tx \<Longrightarrow> sq_Commit q db tx = (None, tx)"
begin

lemma sql_read: "ready db \<Longrightarrow> read_text (sql_backend q b) db n = map_option snd (map_of (rows db) (slug n))"
  using body_law [of db "slug n"]
  by (auto simp: read_text_def sql_backend_def SQL_Read_def select_text_def where_slug_def filter_key_Nil dest: filter_key_Cons
      split: list.splits sum.splits)

lemma sql_delete:
  assumes "ready db"
  shows "\<exists>db'. SQL_Delete q b n db = (Inr (), db') \<and> ready db' \<and> rows db' = filter (\<lambda>r. fst r \<noteq> slug n) (rows db)"
  using delete_law [OF assms, of "slug n"] by (auto simp: SQL_Delete_def delete_text_def where_slug_def)

lemma sql_write:
  assumes "ready db"
  shows "\<exists>db'. SQL_Write q b n t db = (Inr (), db') \<and> ready db' \<and>
    rows db' = filter (\<lambda>r. fst r \<noteq> slug n) (rows db) @ [(slug n, n, t)]"
proof -
  obtain tx1 where tx1: "sq_Exec q (delete_text b) [slug n] db = (None, tx1)" "ready tx1"
    "rows tx1 = filter (\<lambda>r. fst r \<noteq> slug n) (rows db)"
    using delete_law [OF assms] by blast
  then have "slug n \<notin> fst ` set (rows tx1)" by auto
  from insert_law [OF tx1(2) this, of n t] obtain tx2 where tx2: "sq_Exec q (insert_text b) [slug n, n, t] tx1 = (None, tx2)"
    "ready tx2" "rows tx2 = rows tx1 @ [(slug n, n, t)]" by blast
  with tx1 begin_law [OF assms] commit_law [OF tx2(2), of db] show ?thesis
    by (simp add: SQL_Write_def delete_text_def insert_text_def where_slug_def)
qed

lemma sql_exists: "ready db \<Longrightarrow> SQL_Exists q b n db = Inr (map_of (rows db) (slug n) \<noteq> None)"
  using one_law [of db "slug n"]
  by (simp add: SQL_Exists_def select_text_def where_slug_def filter_key_Nil)

end

sublocale sql_table \<subseteq> catalogue_store "sql_backend q b" ready
proof
  have filter_map: "map_of (filter (\<lambda>r. fst r \<noteq> k) rs) j = (if j = k then None else map_of rs j)" for rs :: sql_rows and j k
    by (induction rs) auto
  show "read_text (sql_backend q b) (snd (be_Write (sql_backend q b) n t db)) m =
      (if slug m = slug n then Some t else read_text (sql_backend q b) db m)" if "ready db" for db n t m
    using sql_write [OF that, of n t] sql_read [OF that]
    by (auto simp: sql_backend_def map_add_def filter_map sql_read [unfolded sql_backend_def] split: option.split)
  show "read_text (sql_backend q b) (snd (be_Delete (sql_backend q b) n db)) m =
      (if slug m = slug n then None else read_text (sql_backend q b) db m)" if "ready db" for db n m
    using sql_delete [OF that, of n] sql_read [OF that]
    by (auto simp: sql_backend_def filter_map sql_read [unfolded sql_backend_def])
  show "be_Exists (sql_backend q b) n db = Inr (read_text (sql_backend q b) db n \<noteq> None)" if "ready db" for db n
    unfolding sql_read [OF that] by (simp add: sql_backend_def sql_exists [OF that])
  show "fst (be_Write (sql_backend q b) n t db) = Inr () \<and> ready (snd (be_Write (sql_backend q b) n t db))"
    if "ready db" for db n t using sql_write [OF that, of n t] by (auto simp: sql_backend_def)
  show "fst (be_Delete (sql_backend q b) n db) = Inr () \<and> ready (snd (be_Delete (sql_backend q b) n db))"
    if "ready db" for db n using sql_delete [OF that, of n] by (auto simp: sql_backend_def)
qed

text \<open>The interpreter of theory SqlDriver is such a driver, for every portable backend whose table stands.\<close>

definition catalogue_row :: "string \<times> string \<times> string \<Rightarrow> sql_row" where
  "catalogue_row r = [(''slug'', fst r), (''name'', fst (snd r)), (''body'', snd (snd r))]"

definition catalogue_data :: "sql_rows \<Rightarrow> sql_table_data" where
  "catalogue_data rs =
     \<lparr>tb_columns = [''slug'', ''name'', ''body''], tb_key = Some ''slug'', tb_rows = map catalogue_row rs\<rparr>"

definition stands :: "SQLBackend \<Rightarrow> sql_db \<Rightarrow> bool" where
  "stands b db \<longleftrightarrow> portable b \<and> (\<exists>rs. db (sb_table b) = Some (catalogue_data rs))"

definition catalogued :: "SQLBackend \<Rightarrow> sql_db \<Rightarrow> sql_rows" where
  "catalogued b db = map (\<lambda>r. (cell ''slug'' r, cell ''name'' r, cell ''body'' r)) (tb_rows (the (db (sb_table b))))"

lemma cells [simp]:
  "cell ''slug'' (catalogue_row r) = fst r" "cell ''name'' (catalogue_row r) = fst (snd r)"
  "cell ''body'' (catalogue_row r) = snd (snd r)"
  by (simp_all add: cell_def catalogue_row_def)

lemma catalogued_data: "db (sb_table b) = Some (catalogue_data rs) \<Longrightarrow> catalogued b db = rs"
  by (simp add: catalogued_def catalogue_data_def comp_def)

lemma filter_catalogue: "filter (\<lambda>r. P (cell ''slug'' r)) (map catalogue_row rs) = map catalogue_row (filter (\<lambda>r. P (fst r)) rs)"
  by (induction rs) simp_all

lemma parse_texts:
  assumes "portable b"
  shows "parse_sql (delete_text b) = Some (DeleteFrom (sb_table b) ''slug'' 0)"
    "parse_sql (insert_text b) = Some (InsertInto (sb_table b) [''slug'', ''name'', ''body''] [0, 1, 2])"
    "parse_sql (select_text ''body'' b) = Some (SelectWhere ''body'' (sb_table b) ''slug'' 0)"
    "parse_sql (select_text ''1'' b) = Some (SelectWhere ''1'' (sb_table b) ''slug'' 0)"
  unfolding delete_text_def insert_text_def select_text_def
  by (rule parse_delete_text [OF assms] parse_insert_text [OF assms] parse_select_text [OF assms];
      simp add: sql_plain_def sql_mark_def)+

interpretation reference: sql_table reference_sql b "catalogued b" "stands b"
proof
  fix db s n t
  assume st: "stands b db"
  then obtain rs where p: "portable b" and d: "db (sb_table b) = Some (catalogue_data rs)" by (auto simp: stands_def)
  have rs: "catalogued b db = rs" using d by (rule catalogued_data)
  show "\<exists>db'. sq_Exec reference_sql (delete_text b) [s] db = (None, db') \<and> stands b db' \<and>
      catalogued b db' = filter (\<lambda>r. fst r \<noteq> s) (catalogued b db)"
  proof (intro exI conjI)
    let ?db = "db(sb_table b \<mapsto> catalogue_data (filter (\<lambda>r. fst r \<noteq> s) rs))"
    show "sq_Exec reference_sql (delete_text b) [s] db = (None, ?db)"
      using d filter_catalogue [of "\<lambda>x. x \<noteq> s" rs]
      by (simp add: reference_sql_def run_exec_def parse_texts [OF p] set_rows_def catalogue_data_def)
    show "stands b ?db" using p by (auto simp: stands_def)
    show "catalogued b ?db = filter (\<lambda>r. fst r \<noteq> s) (catalogued b db)" unfolding rs by (rule catalogued_data) simp
  qed
  show "sq_Query reference_sql (select_text ''body'' b) [s] db =
      Inr (map (\<lambda>r. [snd (snd r)]) (filter (\<lambda>r. fst r = s) (catalogued b db)))"
    using d rs filter_catalogue [of "\<lambda>x. x = s" rs]
    by (simp add: reference_sql_def run_query_def parse_texts [OF p] pick_def catalogue_data_def)
  show "sq_Query reference_sql (select_text ''1'' b) [s] db =
      Inr (map (\<lambda>r. [''1'']) (filter (\<lambda>r. fst r = s) (catalogued b db)))"
    using d rs filter_catalogue [of "\<lambda>x. x = s" rs]
    by (simp add: reference_sql_def run_query_def parse_texts [OF p] pick_def catalogue_data_def comp_def)
  show "sq_Begin reference_sql db = Inr db" "sq_Commit reference_sql db' db = (None, db)" for db'
    by (simp_all add: reference_sql_def)
  assume new: "s \<notin> fst ` set (catalogued b db)"
  show "\<exists>db'. sq_Exec reference_sql (insert_text b) [s, n, t] db = (None, db') \<and> stands b db' \<and>
      catalogued b db' = catalogued b db @ [(s, n, t)]"
  proof (intro exI conjI)
    let ?db = "db(sb_table b \<mapsto> catalogue_data (rs @ [(s, n, t)]))"
    have "cell ''slug'' [(''slug'', s), (''name'', n), (''body'', t)] = s" by (simp add: cell_def)
    then show "sq_Exec reference_sql (insert_text b) [s, n, t] db = (None, ?db)"
      using d new rs
      by (simp add: reference_sql_def run_exec_def parse_texts [OF p] insert_row_def set_rows_def
          catalogue_data_def catalogue_row_def [of "(s, n, t)"] Let_def image_image insert_commute)
    show "stands b ?db" using p by (auto simp: stands_def)
    show "catalogued b ?db = catalogued b db @ [(s, n, t)]" unfolding rs by (rule catalogued_data) simp
  qed
qed

lemma provision:
  assumes "validSQLIdentifier table" "opts = [] \<or> opts = [Postgres]" "db table = None"
  shows "\<exists>b. NewSQLBackend reference_sql (Some db) table opts = (Inr b, Some (db(table \<mapsto> catalogue_data []))) \<and>
    sb_table b = table \<and> portable b"
proof -
  have schema: "defaultSchema \<noteq> []" by (simp add: defaultSchema_def)
  have run: "run_exec (schema_text defaultSchema table) [] db = (None, db(table \<mapsto> catalogue_data []))"
    using assms(3) by (simp add: run_exec_def parse_schema_text [OF assms(1)] catalogue_data_def)
  from assms(2) show ?thesis
    using assms(1) schema run
    by (auto simp: NewSQLBackend_def reference_sql_def Let_def Postgres_def WithPlaceholders_def portable_def)
qed

section \<open>Properties\<close>

text \<open>
  C27.  The file store is a map from slugs to texts: whatever is written and deleted, in any order, a name
  reads as the last text written under its slug and not deleted since, and exists exactly then.
\<close>
theorem file_store_is_a_map:
  "(\<forall>t. Store_Read d n (fold (store_step (file_backend d)) ops []) = Inr t \<longleftrightarrow> fold spec_step ops Map.empty (slug n) = Some t) \<and>
   Store_Exists d n (fold (store_step (file_backend d)) ops []) = Inr (fold spec_step ops Map.empty (slug n) \<noteq> None)"
proof -
  have "\<forall>n. read_text (file_backend d) [] n = Map.empty (slug n)" by (simp add: read_text_file)
  note run = files.run_refines [OF TrueI this, of ops n]
  then have r: "read_text (file_backend d) (fold (store_step (file_backend d)) ops []) n = fold spec_step ops Map.empty (slug n)"
    by blast
  have "be_Read (file_backend d) = Store_Read d" "be_Exists (file_backend d) = Store_Exists d" by (simp_all add: file_backend_def)
  with r run show ?thesis by (auto simp: read_text_def split: sum.splits)
qed

text \<open>
  C23.  A catalogue means the same on disk and in a database: the backend opened in a database without its
  table, with either style of placeholder, provisions the table, and after the same writes and deletions the
  file store and the backend, whose statements are read and run by an interpreter of SQL, give the same
  text for every name and agree on what exists.
\<close>
theorem backends_agree:
  assumes "validSQLIdentifier table" "opts = [] \<or> opts = [Postgres]" "db0 table = None"
  shows "\<exists>b db. NewSQLBackend reference_sql (Some db0) table opts = (Inr b, Some db) \<and>
    (let files = fold (store_step (file_backend d)) ops [];
         tables = fold (store_step (sql_backend reference_sql b)) ops db
     in read_text (file_backend d) files n = read_text (sql_backend reference_sql b) tables n \<and>
        Store_Exists d n files = SQL_Exists reference_sql b n tables)"
proof -
  define db where "db = db0(table \<mapsto> catalogue_data [])"
  obtain b where b: "NewSQLBackend reference_sql (Some db0) table opts = (Inr b, Some db)"
    "sb_table b = table" "portable b" using provision [of table opts db0] assms by (auto simp: db_def)
  have st: "stands b db" using b by (auto simp: stands_def db_def)
  have "catalogued b db = []" using b(2) by (intro catalogued_data) (simp add: db_def)
  then have e: "\<forall>n. read_text (file_backend d) [] n = Map.empty (slug n)"
    "\<forall>n. read_text (sql_backend reference_sql b) db n = Map.empty (slug n)"
    by (simp_all add: read_text_file reference.sql_read [OF st])
  have "be_Exists (file_backend d) = Store_Exists d" "be_Exists (sql_backend reference_sql b) = SQL_Exists reference_sql b"
    by (simp_all add: file_backend_def sql_backend_def)
  then show ?thesis
    using b(1) files.run_refines [OF TrueI e(1), of ops n] reference.run_refines [OF st e(2), of ops n]
    by (intro exI [of _ b] exI [of _ db]) (simp add: Let_def)
qed

theorem backends_agree_witness:
  "\<exists>b db. NewSQLBackend reference_sql (Some Map.empty) ''ear_skills'' [Postgres] = (Inr b, Some db) \<and>
    (let files = fold (store_step (file_backend ''lib'')) [StoreWrite ''Band Profile'' ''score it'', StoreDelete ''wire''] [];
         tables = fold (store_step (sql_backend reference_sql b)) [StoreWrite ''Band Profile'' ''score it'', StoreDelete ''wire''] db
     in read_text (file_backend ''lib'') files ''band-profile'' = read_text (sql_backend reference_sql b) tables ''band-profile'' \<and>
        Store_Exists ''lib'' ''band-profile'' files = SQL_Exists reference_sql b ''band-profile'' tables)"
proof (rule backends_agree)
  show "validSQLIdentifier ''ear_skills''" by code_simp
qed simp_all

text \<open>
  No name leaves the catalogue: the file a name addresses, whatever characters the name has, lies directly
  in the store's directory, and the listing finds it there.
\<close>
theorem store_stays_in_directory:
  "\<exists>f. PathFor d name = below d @ f @ ''.md'' \<and> f \<noteq> [] \<and> list_all (\<lambda>c. slug_char c \<or> c = CHR ''-'') f \<and>
     glob_md d (PathFor d name)"
proof -
  have p: "PathFor d name = below d @ slug name @ ''.md''" by (simp add: PathFor_def Join_plain plain_slug)
  then have "glob_md d (PathFor d name)"
    using plain_slug [of name] by (simp add: glob_md_def has_prefix_def has_suffix_def plain_name_def Let_def)
  with p show ?thesis using slug_chars slug_nonempty by (auto simp: list_all_iff)
qed


section \<open>A skill saved and loaded\<close>

definition plain_text :: "string \<Rightarrow> bool" where
  \<comment> \<open>one line, without white space at its ends\<close>
  "plain_text s \<longleftrightarrow> newline \<notin> set s \<and> CHR 0x0D \<notin> set s \<and> TrimSpace s = s"

definition prose_line :: "string \<Rightarrow> bool" where
  \<comment> \<open>a line that the parser takes for prose\<close>
  "prose_line s \<longleftrightarrow>
     plain_text s \<and> s \<noteq> [] \<and> headingRe s = None \<and> bulletRe s = None \<and> numberedRe s = None \<and>
     (case cut_at '':'' s of Some (key, _) \<Rightarrow> Normalize key \<noteq> ''description'' | None \<Rightarrow> True)"

definition skill_ok :: "Skill \<Rightarrow> bool" where
  "skill_ok s \<longleftrightarrow>
     plain_text (sk_Name s) \<and> sk_Name s \<noteq> [] \<and> last (sk_Name s) \<noteq> CHR ''#'' \<and> plain_text (sk_Description s) \<and>
     prose_line (sk_Prompt s)"

lemma unify_plain: "CHR 0x0D \<notin> set t \<Longrightarrow> unify_newlines t = t"
  by (induction t rule: unify_newlines.induct) auto

lemma trimmed_ends:
  assumes "TrimSpace s = s" "s \<noteq> []" shows "\<not> is_space (hd s) \<and> \<not> is_space (last s)"
proof
  have t: "s = trim_right is_space (trim_left is_space s)" using assms(1) by (simp add: TrimSpace_def trim_by_def)
  then have "trim_right is_space (trim_left is_space s) \<noteq> []" using assms(2) by simp
  then show "\<not> is_space (last s)" using t trim_right_last by metis
  obtain u where "trim_left is_space s = s @ u" using trim_right_prefix [of "trim_left is_space s" is_space] t by metis
  then have "length (s @ u) \<le> length s" by (metis length_dropWhile_le trim_left_def)
  then have "trim_left is_space s = s" using \<open>trim_left is_space s = s @ u\<close> by simp
  then show "\<not> is_space (hd s)" using assms(2) hd_dropWhile [of is_space s] by (metis trim_left_def)
qed

lemma re_space_space: "re_space c \<Longrightarrow> is_space c"
  by (auto simp: re_space_def is_space_def)

lemma heading_plain:
  assumes "plain_text name" "name \<noteq> []" "last name \<noteq> CHR ''#''"
  shows "headingRe (''## '' @ name) = Some (2, name)"
proof -
  have ends: "\<not> re_space (hd name)" "\<not> re_space (last name)"
    using trimmed_ends [of name] assms re_space_space by (auto simp: plain_text_def)
  then have "dropWhile re_space name = name" by (cases name) simp_all
  moreover have "re_space (CHR '' '')" by (simp add: re_space_def)
  moreover have "strip_end name = name" using ends assms(3) by (simp add: strip_end_def trim_right_id)
  ultimately show ?thesis by (simp add: headingRe_def Let_def)
qed

definition desc_line :: "string \<Rightarrow> string" where
  "desc_line d = ''Description: '' @ d"

definition skill_lines :: "Skill \<Rightarrow> string list" where
  "skill_lines s = [[]] @ (if sk_Description s \<noteq> [] then [desc_line (sk_Description s), []] else []) @ [sk_Prompt s, []]"

lemma skill_document:
  assumes "skill_ok s"
  shows "doc_Sections (ParseDocument (Skill_ToMarkdown s)) = [\<lparr>sec_Name = sk_Name s, sec_Lines = skill_lines s\<rparr>]"
proof -
  let ?ls = "(''## '' @ sk_Name s) # butlast (skill_lines s)"
  have ok: "plain_text (sk_Name s)" "sk_Name s \<noteq> []" "last (sk_Name s) \<noteq> CHR ''#''" "plain_text (sk_Description s)"
    "plain_text (sk_Prompt s)" "sk_Prompt s \<noteq> []" "headingRe (sk_Prompt s) = None"
    using assms by (auto simp: skill_ok_def prose_line_def)
  have "last (sk_Prompt s) \<noteq> newline" using ok(5,6) by (metis last_in_set plain_text_def)
  moreover have "\<exists>x. join_with [newline] ?ls = x @ sk_Prompt s" by (simp add: skill_lines_def join_with_Cons)
  ultimately have "last (join_with [newline] ?ls) \<noteq> newline" using ok(6) by auto
  then have "trim_right (\<lambda>c. c = newline) (join_with [newline] ?ls) = join_with [newline] ?ls" by (simp add: trim_right_id)
  moreover have "Skill_ToMarkdown s = trim_right (\<lambda>c. c = newline) (join_with [newline] ?ls) @ [newline]"
    using ok(6) by (simp add: Skill_ToMarkdown_def finish_markdown_def skill_lines_def desc_line_def)
  ultimately have whole: "Skill_ToMarkdown s = join_with [newline] (?ls @ [[]])"
    by (simp add: skill_lines_def join_with_Cons)
  have nl: "\<forall>l \<in> set (?ls @ [[]]). newline \<notin> set l \<and> CHR 0x0D \<notin> set l"
    using ok by (auto simp: plain_text_def skill_lines_def desc_line_def)
  have cr: "CHR 0x0D \<notin> set (join_with [newline] xs)" if "\<forall>l \<in> set xs. CHR 0x0D \<notin> set l" for xs :: "string list"
    using that by (induction "[newline]" xs rule: join_with.induct) auto
  have "split_char newline (unify_newlines (Skill_ToMarkdown s)) = ?ls @ [[]]"
    unfolding whole using nl cr [of "?ls @ [[]]"] by (subst unify_plain) (simp_all add: split_join_char del: join_with.simps)
  then have split: "split_char newline (unify_newlines (Skill_ToMarkdown s)) = (''## '' @ sk_Name s) # skill_lines s"
    by (simp add: skill_lines_def)
  have none: "headingRe [] = None" "headingRe (desc_line d) = None" for d
    by (simp_all add: headingRe_def desc_line_def)
  have "fold doc_line (skill_lines s) \<lparr>ds_title = [], ds_sections = [\<lparr>sec_Name = sk_Name s, sec_Lines = []\<rparr>], ds_preamble = []\<rparr> =
      \<lparr>ds_title = [], ds_sections = [\<lparr>sec_Name = sk_Name s, sec_Lines = skill_lines s\<rparr>], ds_preamble = []\<rparr>"
    using ok(7) none by (simp add: skill_lines_def doc_line_def add_line_def)
  moreover have "doc_line (''## '' @ sk_Name s) \<lparr>ds_title = [], ds_sections = [], ds_preamble = []\<rparr> =
      \<lparr>ds_title = [], ds_sections = [\<lparr>sec_Name = sk_Name s, sec_Lines = []\<rparr>], ds_preamble = []\<rparr>"
    using heading_plain [OF ok(1-3)] ok(1) by (simp add: doc_line_def Let_def plain_text_def)
  ultimately show ?thesis by (simp add: ParseDocument_def split Let_def)
qed

lemma description_line:
  assumes "plain_text d" "bs_open st = NoItem"
  shows "body_line [''description''] (desc_line d) st =
    st\<lparr>bs_body := (bs_body st)\<lparr>bd_Fields := map_put ''description'' d (bd_Fields (bs_body st))\<rparr>, bs_open := NoItem\<rparr>"
proof -
  have "Normalize ''Description'' = ''description''" by code_simp
  moreover have "cut_at '':'' (desc_line d) = Some (''Description'', '' '' @ d)" by (simp add: has_prefix_def desc_line_def)
  moreover have "TrimSpace ('' '' @ d) = d"
    using assms by (simp add: plain_text_def TrimSpace_def trim_by_def trim_left_def is_space_def)
  moreover have "TrimSpace (desc_line d) \<noteq> []"
    by (auto simp: TrimSpace_def trim_by_def trim_left_def trim_right_def is_space_def desc_line_def)
  moreover have "bulletRe (desc_line d) = None" "numberedRe (desc_line d) = None"
    by (simp_all add: bulletRe_def numberedRe_def re_space_def is_digit_def desc_line_def)
  ultimately show ?thesis using assms(2) by (simp add: body_line_def Let_def)
qed

lemma skill_body:
  assumes "skill_ok s"
  shows "StructuredBody \<lparr>sec_Name = sk_Name s, sec_Lines = skill_lines s\<rparr> [''description''] =
    \<lparr>bd_Fields = (if sk_Description s \<noteq> [] then [(''description'', sk_Description s)] else []), bd_Bullets = [],
     bd_Numbered = [], bd_Prose = sk_Prompt s\<rparr>"
proof -
  have ok: "prose_line (sk_Prompt s)" "plain_text (sk_Description s)" using assms by (auto simp: skill_ok_def)
  have blank: "body_line ks [] st = st\<lparr>bs_prose := bs_prose st @ [[]], bs_open := NoItem\<rparr>" for ks st
    by (simp add: body_line_def TrimSpace_def trim_by_def trim_left_def trim_right_def)
  have prose: "body_line [''description''] (sk_Prompt s) st = st\<lparr>bs_prose := bs_prose st @ [sk_Prompt s], bs_open := NoItem\<rparr>"
    if "bs_open st = NoItem" for st
    using ok(1) that by (auto simp: body_line_def prose_line_def plain_text_def Let_def split: option.splits)
  have n: "Normalize ''description'' = ''description''" by code_simp
  have p: "sk_Prompt s \<noteq> []" using ok(1) by (simp add: prose_line_def)
  show ?thesis
    using p by (cases "sk_Description s = []")
      (simp_all add: StructuredBody_def Let_def n skill_lines_def blank prose description_line [OF ok(2)] empty_body_def
         paragraphs_def map_put_def)
qed

text \<open>
  A skill saved in the library loads back from it: for a skill of one plain line of prompt, under any
  spelling of its name with the same slug, the object loaded is the one saved, at its new address, without
  the version and the author, which the file does not carry.
\<close>
theorem saved_skill_loads:
  assumes "skill_ok s" "slug name = slug (sk_Name s)" "rng 1 = 0"
  shows "Catalogue_Load (SkillCatalogue rng) (file_backend d)
      (snd (Catalogue_Save (SkillCatalogue rng) (file_backend d) s disk)) n name =
    Inr (n + 1, s\<lparr>sk_ref := n, sk_Version := [], sk_Author := []\<rparr>)"
proof -
  let ?k = "SkillCatalogue rng"
  have k: "kd_nameOf ?k s = sk_Name s" "kd_render ?k s = Skill_ToMarkdown s" by (simp_all add: SkillCatalogue_def)
  have "TrimSpace (sk_Name s) \<noteq> []" using assms(1) by (auto simp: skill_ok_def plain_text_def)
  with k skill_document [OF assms(1)] assms(2)
  have "Catalogue_Load ?k (file_backend d) (snd (Catalogue_Save ?k (file_backend d) s disk)) n name =
      kd_parse ?k n (ParseDocument (Skill_ToMarkdown s))"
    using files.Load_after_Save [where b = disk and k = ?k and item = s and name = name and d = d and n = n] by simp
  moreover have "Normalize ''description'' = ''description''" by code_simp
  then have "loadSkills (ParseDocument (Skill_ToMarkdown s)) =
      [(Normalize (sk_Name s), s\<lparr>sk_ref := 0, sk_Version := [], sk_Author := []\<rparr>)]"
    using skill_document [OF assms(1)] skill_body [OF assms(1)]
    by (cases s) (simp add: loadSkills_def load_skill_def joinProse_def key_of_def map_put_def Let_def skill_ok_def prose_line_def)
  ultimately show ?thesis using assms(3) by (simp add: SkillCatalogue_def firstOf_def)
qed

definition sample_skill :: Skill where
  "sample_skill =
     \<lparr>sk_ref = 7, sk_Name = ''Band Profile'', sk_Prompt = ''Read the file, then score it.'', sk_Description = ''Scores: a band'',
      sk_Version = [], sk_Author = []\<rparr>"

lemma saved_skill_loads_witness:
  "Catalogue_Load (SkillCatalogue (\<lambda>_. 0)) (file_backend ''lib/skills'')
      (snd (Catalogue_Save (SkillCatalogue (\<lambda>_. 0)) (file_backend ''lib/skills'') sample_skill [])) 3 ''band_profile'' =
    Inr (4, sample_skill\<lparr>sk_ref := 3\<rparr>)"
proof -
  have "skill_ok sample_skill" by code_simp
  moreover have "slug ''band_profile'' = slug (sk_Name sample_skill)" by code_simp
  ultimately show ?thesis
    using saved_skill_loads [of sample_skill "''band_profile''" "\<lambda>_. 0" "''lib/skills''" "[]" 3]
    by (simp add: sample_skill_def)
qed

end
