(* ===== verification/JsonTrip.thy ===== *)
theory JsonTrip
  imports Json "HOL-Library.Multiset"
begin

text \<open>
  Encoding and decoding are inverse: the text \<open>json\<close> gives for a value is parsed back to the value
  with every map sorted by key, and encoding that again gives the same text.  The values are those
  decoding produces, with numbers whose literal reads back; \<open>json_ok\<close> says so and is executable.
\<close>

section \<open>Strings\<close>

lemma hex_digits:
  assumes "d < 16" shows "is_hex (hex_digit d) \<and> hex_val (hex_digit d) = d"
proof -
  have "d \<in> {0, 1, 2, 3, 4, 5, 6, 7, 8, 9, 10, 11, 12, 13, 14, 15}"
    using assms by (simp only: insert_iff empty_iff) presburger
  then show ?thesis
    by (elim insertE emptyE) (simp_all add: hex_digit_def is_hex_def hex_val_def char_eval Let_def digit_val_def)
qed

lemma hex4_byte:
  assumes "n < 256"
  shows "hex4 (CHR ''0'' # CHR ''0'' # hex_digit (n div 16) # hex_digit (n mod 16) # t) = Some n"
proof -
  have z: "is_hex (CHR ''0'')" "hex_val (CHR ''0'') = 0"
    by (simp_all add: is_hex_def hex_val_def char_eval Let_def digit_val_def)
  have "n div 16 < 16" "n mod 16 < 16" using assms by auto
  then show ?thesis
    using hex_digits [of "n div 16"] hex_digits [of "n mod 16"] z by (simp add: hex4_def)
qed

lemma jstring_simple:
  "simple_escape e = Some c \<Longrightarrow> jstring (CHR 0x5C # e # t) = map_option (\<lambda>(u, q). (c # u, q)) (jstring t)"
  by simp

lemma jstring_hex:
  assumes "of_char c < (128::nat)"
  shows "jstring (CHR 0x5C # CHR ''u'' # CHR ''0'' # CHR ''0'' # hex_digit (of_char c div 16) # hex_digit (of_char c mod 16) # t) =
    map_option (\<lambda>(u, q). (c # u, q)) (jstring t)"
proof -
  have "simple_escape (CHR ''u'') = None" by (simp add: simple_escape_def)
  moreover have "hex4 (CHR ''0'' # CHR ''0'' # hex_digit (of_char c div 16) # hex_digit (of_char c mod 16) # t) = Some (of_char c)"
    using hex4_byte [of "of_char c" t] assms by simp
  ultimately show ?thesis using assms by (simp add: utf8_def)
qed

lemma json_char_cases:
  obtains e where "json_char c = [CHR 0x5C, e]" "simple_escape e = Some c"
  | "json_char c = CHR 0x5C # ''u00'' @ [hex_digit (of_char c div 16), hex_digit (of_char c mod 16)]" "of_char c < (128::nat)"
  | "json_char c = [c]" "c \<noteq> CHR 0x22" "c \<noteq> CHR 0x5C" "\<not> of_char c < (32::nat)"
proof -
  have n: "of_char c = k \<Longrightarrow> c = char_of k" for k :: nat by (metis char_of_char)
  have lt: "c \<in> set ''<>&'' \<Longrightarrow> of_char c < (128::nat)" by auto
  show thesis
  proof (cases "of_char c = (34::nat) \<or> c = CHR 0x5C \<or> of_char c \<in> {8, 9, 10, 12, 13::nat}")
    case True
    then have "c \<in> {CHR 0x22, CHR 0x5C, CHR 0x08, CHR 0x09, CHR 0x0A, CHR 0x0C, CHR 0x0D}"
      by (elim disjE insertE emptyE) (auto dest!: n simp: char_of_def bit_iff_odd)
    then have "\<exists>e. json_char c = [CHR 0x5C, e] \<and> simple_escape e = Some c"
      by (elim insertE emptyE) (simp_all add: json_char_def simple_escape_def Let_def)
    then show ?thesis using that(1) by blast
  next
    case False
    show ?thesis
    proof (cases "of_char c < (32::nat) \<or> c \<in> set ''<>&''")
      case True
      have "of_char c < (128::nat)" using True lt by auto
      then show ?thesis using that(2) True False by (simp add: json_char_def Let_def)
    next
      case nolow: False
      show ?thesis by (rule that(3)) (use False nolow in \<open>auto simp: json_char_def Let_def\<close>)
    qed
  qed
qed

lemma jstring_char: "jstring (json_char c @ t) = map_option (\<lambda>(u, q). (c # u, q)) (jstring t)"
  by (cases c rule: json_char_cases)
    (simp_all only: append_Cons append_Nil jstring_simple jstring_hex, simp)

lemma jstring_body: "jstring (concat (map json_char s) @ CHR 0x22 # t) = Some (s, t)"
proof (induction s)
  case (Cons c s)
  then show ?case using jstring_char [of c "concat (map json_char s) @ CHR 0x22 # t"] by simp
qed simp

section \<open>Numbers\<close>


definition stops :: "string \<Rightarrow> bool" where
  \<comment> \<open>what may follow a value\<close>
  "stops r \<longleftrightarrow> r = [] \<or> hd r \<in> {CHR '','', CHR '']'', CHR 0x7D, newline}"

lemma stops_heads:
  assumes "stops r" "r \<noteq> []"
  shows "\<not> is_digit (hd r)" "hd r \<noteq> CHR ''-''" "hd r \<noteq> CHR ''.''" "lower_char (hd r) \<noteq> CHR ''e''" "hd r \<noteq> CHR ''+''"
proof -
  have "\<not> is_digit d \<and> d \<noteq> CHR ''-'' \<and> d \<noteq> CHR ''.'' \<and> lower_char d \<noteq> CHR ''e'' \<and> d \<noteq> CHR ''+''"
    if "d \<in> set [CHR '','', CHR '']'', CHR 0x7D, newline]" for d
  proof -
    have "list_all (\<lambda>d. \<not> is_digit d \<and> d \<noteq> CHR ''-'' \<and> d \<noteq> CHR ''.'' \<and> lower_char d \<noteq> CHR ''e'' \<and> d \<noteq> CHR ''+'')
      [CHR '','', CHR '']'', CHR 0x7D, newline]" by code_simp
    with that show ?thesis by (auto simp: list_all_iff)
  qed
  with assms show "\<not> is_digit (hd r)" "hd r \<noteq> CHR ''-''" "hd r \<noteq> CHR ''.''" "lower_char (hd r) \<noteq> CHR ''e''" "hd r \<noteq> CHR ''+''"
    by (auto simp: stops_def)
qed

lemma span_stops:
  "r = [] \<or> \<not> p (hd r) \<Longrightarrow> span p x = (a, b) \<Longrightarrow> span p (x @ r) = (a, b @ r)"
  by (induction x arbitrary: a b) (cases r, auto simp: span_def)+

lemma num_one_stops:
  "r = [] \<or> \<not> p (hd r) \<Longrightarrow> num_one p x = (a, b) \<Longrightarrow> num_one p (x @ r) = (a, b @ r)"
  by (cases x; cases r) (auto simp: num_one_def)

lemma num_frac_stops:
  assumes "stops r" "num_frac x = (a, b)" shows "num_frac (x @ r) = (a, b @ r)"
proof -
  have r: "r = [] \<or> \<not> is_digit (hd r)" "r = [] \<or> hd r \<noteq> CHR ''.''" using stops_heads [OF assms(1)] by auto
  show ?thesis
  proof (cases x)
    case Nil
    with assms(2) r(2) show ?thesis by (cases r) (auto simp: num_frac_def has_prefix_def)
  next
    case (Cons c y)
    obtain u v where "span is_digit y = (u, v)" by fastforce
    with span_stops [OF r(1) this] Cons assms(2) show ?thesis by (auto simp: num_frac_def has_prefix_def)
  qed
qed

lemma num_exp_stops:
  assumes "stops r" "num_exp x = (a, b, c)" shows "num_exp (x @ r) = (a, b, c @ r)"
proof -
  have r: "r = [] \<or> \<not> is_digit (hd r)" "r = [] \<or> lower_char (hd r) \<noteq> CHR ''e''"
    "r = [] \<or> \<not> (hd r = CHR ''+'' \<or> hd r = CHR ''-'')" using stops_heads [OF assms(1)] by auto
  obtain m s1 where m: "num_one (\<lambda>c. lower_char c = CHR ''e'') x = (m, s1)" by fastforce
  obtain g s2 where g: "num_one (\<lambda>c. c = CHR ''+'' \<or> c = CHR ''-'') s1 = (g, s2)" by fastforce
  obtain d s3 where d: "span is_digit s2 = (d, s3)" by fastforce
  note steps = num_one_stops [OF r(2) m] num_one_stops [OF r(3) g] span_stops [OF r(1) d]
  show ?thesis
    using assms(2) m g d steps by (cases m) (auto simp: num_exp_def)
qed

lemma jnumber_stops:
  assumes "jnumber t = Some (u, v)" "stops r" shows "jnumber (t @ r) = Some (u, v @ r)"
proof -
  have r: "r = [] \<or> hd r \<noteq> CHR ''-''" "r = [] \<or> \<not> is_digit (hd r)" using stops_heads [OF assms(2)] by auto
  obtain sg s1 where 1: "num_one (\<lambda>c. c = CHR ''-'') t = (sg, s1)" by fastforce
  obtain ip s2 where 2: "span is_digit s1 = (ip, s2)" by fastforce
  obtain fp s3 where 3: "num_frac s2 = (fp, s3)" by fastforce
  obtain mark ed s4 where 4: "num_exp s3 = (mark, ed, s4)" by (metis prod_cases3)
  have "v = s4" using assms(1) 1 2 3 4 by (auto simp: jnumber_def split: if_splits)
  with assms(1) 1 2 3 4 num_one_stops [OF r(1) 1] span_stops [OF r(2) 2] num_frac_stops [OF assms(2) 3] num_exp_stops [OF assms(2) 4]
  show ?thesis by (auto simp: jnumber_def split: if_splits)
qed

definition number_char :: "char \<Rightarrow> bool" where
  "number_char c \<longleftrightarrow> is_digit c \<or> c \<in> set ''+-.'' \<or> lower_char c = CHR ''e''"

lemma jnumber_chars:
  assumes "jnumber t = Some (u, v)"
  shows "t = u @ v \<and> list_all number_char u \<and> u \<noteq> [] \<and> (hd u = CHR ''-'' \<or> is_digit (hd u))"
proof -
  have span: "x = a @ b \<and> list_all is_digit a" if "span is_digit x = (a, b)" for x a b
    using that by (auto simp: span_def list_all_iff dest: set_takeWhileD)
  have one: "x = a @ b \<and> (a = [] \<or> (\<exists>c. a = [c] \<and> p c))" if "num_one p x = (a, b)" for p x a b
    using that by (auto simp: num_one_def split: list.splits if_splits)
  obtain sg s1 where 1: "num_one (\<lambda>c. c = CHR ''-'') t = (sg, s1)" by fastforce
  obtain ip s2 where 2: "span is_digit s1 = (ip, s2)" by fastforce
  obtain fp s3 where 3: "num_frac s2 = (fp, s3)" by fastforce
  obtain mark ed s4 where 4: "num_exp s3 = (mark, ed, s4)" by (metis prod_cases3)
  have d: "is_digit c \<Longrightarrow> number_char c" for c by (simp add: number_char_def)
  have f: "s2 = fp @ s3 \<and> list_all number_char fp"
    using 3 span [OF surjective_pairing, of "tl s2"] d by (cases s2) (auto simp: num_frac_def has_prefix_def list_all_iff number_char_def split: if_splits)
  have e: "s3 = mark @ ed @ s4 \<and> list_all number_char mark \<and> list_all number_char ed"
  proof -
    obtain m s5 where m: "num_one (\<lambda>c. lower_char c = CHR ''e'') s3 = (m, s5)" by fastforce
    obtain g s6 where g: "num_one (\<lambda>c. c = CHR ''+'' \<or> c = CHR ''-'') s5 = (g, s6)" by fastforce
    obtain k s7 where k: "span is_digit s6 = (k, s7)" by fastforce
    show ?thesis
      using 4 m g k one [OF m] one [OF g] span [OF k] d
      by (cases m) (auto simp: num_exp_def number_char_def list_all_iff)
  qed
  have "u = sg @ ip @ fp @ mark @ ed" "v = s4" "ip \<noteq> []"
    using assms 1 2 3 4 by (auto simp: jnumber_def split: if_splits)
  with one [OF 1] span [OF 2] f e d show ?thesis
    by (cases ip) (auto simp: number_char_def list_all_iff)
qed

section \<open>Values\<close>

fun json_ok :: "goval \<Rightarrow> bool" where
  \<comment> \<open>a value as decoding gives it, whose numbers read back\<close>
  "json_ok (VFloat f) =
     (case json_float f of Some t \<Rightarrow> jnumber t = Some (t, []) \<and> ParseFloat t = Some f | None \<Rightarrow> False)"
| "json_ok (VList vs) = list_all json_ok vs"
| "json_ok (VMap m) = (distinct (map fst m) \<and> list_all id (map (\<lambda>(k, v). json_ok v) m))"
| "json_ok (VInt i) = False"
| "json_ok (VInt64 i) = False"
| "json_ok (VStrs ss) = False"
| "json_ok _ = True"

fun jtree :: "goval \<Rightarrow> jvalue" where
  "jtree (VBool b) = JBool b"
| "jtree (VFloat f) = JNum (the (json_float f))"
| "jtree (VStr s) = JStr s"
| "jtree (VList vs) = JArr (map jtree vs)"
| "jtree (VMap m) = JObj (sort_key fst (map (\<lambda>(k, v). (k, jtree v)) m))"
| "jtree _ = JNull"

fun canon :: "goval \<Rightarrow> goval" where
  \<comment> \<open>the value with every map sorted by key\<close>
  "canon (VList vs) = VList (map canon vs)"
| "canon (VMap m) = VMap (sort_key fst (map (\<lambda>(k, v). (k, canon v)) m))"
| "canon v = v"

definition reads :: "string \<Rightarrow> jvalue \<Rightarrow> bool" where
  \<comment> \<open>the text begins like a value and is parsed to it, whatever follows\<close>
  "reads s v \<longleftrightarrow>
     s \<noteq> [] \<and> \<not> json_space (hd s) \<and> hd s \<noteq> CHR '']'' \<and> hd s \<noteq> CHR 0x7D \<and> newline \<notin> set s \<and>
     (\<forall>n r. length s \<le> n \<longrightarrow> stops r \<longrightarrow> jparse n (s @ r) = Some (v, r))"

lemma skip_ws_id: "\<not> json_space (hd s) \<Longrightarrow> skip_ws s = s"
  by (cases s) (simp_all add: skip_ws_def)

lemma collect_opt_Some: "collect_opt xs = Some ys \<longleftrightarrow> xs = map Some ys"
  by (induction xs arbitrary: ys) (auto split: option.split)

lemma json_space_not:
  "\<not> json_space (CHR 0x22)" "\<not> json_space (CHR '','')" "\<not> json_space (CHR '']'')" "\<not> json_space (CHR 0x7D)"
  "\<not> json_space (CHR '':'')" "\<not> json_space (CHR ''['')" "\<not> json_space (CHR 0x7B)" "\<not> json_space (CHR ''n'')"
  "\<not> json_space (CHR ''t'')" "\<not> json_space (CHR ''f'')" "\<not> json_space (CHR ''-'')"
  by (simp_all add: json_space_def)

lemma skip_ws_Cons [simp]: "\<not> json_space c \<Longrightarrow> skip_ws (c # s) = c # s"
  by (simp add: skip_ws_def)

lemma json_char_plain: "newline \<notin> set (json_char c)"
proof (cases c rule: json_char_cases)
  case (1 e)
  then show ?thesis by (auto simp: simple_escape_def split: if_splits)
next
  case 2
  have "hex_digit d \<noteq> newline" if "d < 16" for d
  proof -
    have "is_hex (hex_digit d)" using hex_digits [OF that] by simp
    moreover have "\<not> is_hex newline" by (simp add: is_hex_def char_eval Let_def)
    ultimately show ?thesis by metis
  qed
  then have "hex_digit (of_char c div 16) \<noteq> newline" "hex_digit (of_char c mod 16) \<noteq> newline"
    using 2(2) by simp_all
  then show ?thesis using 2(1) by (auto dest: sym)
qed auto

lemma reads_string: "reads (json_string s) (JStr s)"
proof -
  have "newline \<notin> set (json_string s)" using json_char_plain by (auto simp: json_string_def)
  moreover have "jparse n (json_string s @ r) = Some (JStr s, r)" if "length (json_string s) \<le> n" for n r
    using that jstring_body [of s r] by (cases n) (simp_all add: json_string_def json_space_not)
  ultimately show ?thesis by (simp add: reads_def json_space_not json_string_def)
qed

lemma reads_number:
  assumes "jnumber t = Some (t, [])" shows "reads t (JNum t)"
proof -
  note c = jnumber_chars [OF assms]
  have nc: "\<not> json_space d \<and> d \<notin> {CHR '']'', CHR 0x7D, CHR 0x22, CHR ''['', CHR 0x7B, CHR ''n'', CHR ''t'', CHR ''f'', newline}"
    if "d = CHR ''-'' \<or> is_digit d" for d
    using that by (auto simp: json_space_def is_digit_def)
  have hd: "hd t = CHR ''-'' \<or> is_digit (hd t)" "t \<noteq> []" using c by auto
  have "\<not> number_char newline" by (simp add: number_char_def char_eval)
  then have "newline \<notin> set t" using c by (auto simp: list_all_iff)
  moreover have "jparse n (t @ r) = Some (JNum t, r)" if len: "length t \<le> n" and st: "stops r" for n r
  proof -
    obtain d u where t: "t = d # u" using hd by (cases t) auto
    obtain m where "n = Suc m" using len t by (cases n) auto
    then show ?thesis using t nc [of d] hd jnumber_stops [OF assms st] by (simp add: has_prefix_def)
  qed
  ultimately show ?thesis using hd nc [of "hd t"] by (auto simp: reads_def)
qed

lemma reads_word: "reads ''null'' JNull" "reads ''true'' (JBool True)" "reads ''false'' (JBool False)"
  by (auto simp: reads_def json_space_not has_prefix_def dest!: Suc_le_D)

lemma reads_elems:
  assumes "list_all2 reads ss vs" "ss \<noteq> []" "length (join_with '','' ss) < n" "stops r"
  shows "jelems n (join_with '','' ss @ CHR '']'' # r) = Some (vs, r)"
  using assms
proof (induction ss vs arbitrary: n rule: list_all2_induct)
  case (Cons s ss v vs)
  obtain m where n: "n = Suc m" using Cons.prems by (cases n) auto
  have stop: "stops (CHR '']'' # r)" "stops (CHR '','' # t)" for t by (simp_all add: stops_def)
  show ?case
  proof (cases "ss = []")
    case True
    with Cons.hyps n Cons.prems stop show ?thesis by (auto simp: reads_def json_space_not)
  next
    case False
    then have j: "join_with '','' (s # ss) = s @ CHR '','' # join_with '','' ss" by (simp add: join_with_Cons)
    have len: "length s \<le> m" "length (join_with '','' ss) < m" using Cons.prems(2) n j by auto
    have "s \<noteq> []" using Cons.hyps(1) by (simp add: reads_def)
    have "jparse m (s @ CHR '','' # join_with '','' ss @ CHR '']'' # r) = Some (v, CHR '','' # join_with '','' ss @ CHR '']'' # r)"
      using Cons.hyps(1) len(1) stop(2) by (simp add: reads_def)
    then show ?thesis
      using Cons.IH [OF False len(2) Cons.prems(3)] n j by (simp add: json_space_not)
  qed
qed simp

definition member_text :: "string \<times> string \<Rightarrow> string" where
  "member_text kv = json_string (fst kv) @ CHR '':'' # snd kv"

lemma reads_members:
  assumes "list_all2 (\<lambda>(k, s) (l, v). k = l \<and> reads s v) kss kvs" "kss \<noteq> []"
    "length (join_with '','' (map member_text kss)) < n" "stops r"
  shows "jmembers n (join_with '','' (map member_text kss) @ CHR 0x7D # r) = Some (kvs, r)"
  using assms
proof (induction kss kvs arbitrary: n rule: list_all2_induct)
  case (Cons ks kss kv kvs)
  obtain k s v where e: "ks = (k, s)" "kv = (k, v)" "reads s v" using Cons.hyps(1) by auto
  obtain m where n: "n = Suc m" using Cons.prems by (cases n) auto
  have stop: "stops (CHR 0x7D # r)" "stops (CHR '','' # t)" for t by (simp_all add: stops_def)
  have js: "jstring (concat (map json_char k) @ CHR 0x22 # t) = Some (k, t)" for t by (rule jstring_body)
  show ?case
  proof (cases "kss = []")
    case True
    moreover have "length s \<le> m" using Cons.prems(2) n e True by (simp add: member_text_def)
    then have "jparse m (s @ CHR 0x7D # r) = Some (v, CHR 0x7D # r)" using e(3) stop by (simp add: reads_def)
    ultimately show ?thesis
      using Cons.hyps(2) n e js by (simp add: member_text_def json_string_def json_space_not has_prefix_def)
  next
    case False
    then have j: "join_with '','' (map member_text (ks # kss)) = member_text ks @ CHR '','' # join_with '','' (map member_text kss)"
      by (simp add: join_with_Cons)
    define t where "t = join_with '','' (map member_text kss) @ CHR 0x7D # r"
    have whole: "join_with '','' (map member_text (ks # kss)) @ CHR 0x7D # r =
        CHR 0x22 # concat (map json_char k) @ CHR 0x22 # CHR '':'' # s @ CHR '','' # t"
      unfolding j by (simp add: member_text_def json_string_def t_def e)
    have len: "length s \<le> m" "length (join_with '','' (map member_text kss)) < m"
    proof -
      have "length (member_text ks) + 1 + length (join_with '','' (map member_text kss)) < n"
        using Cons.prems(2) unfolding j by simp
      then show "length s \<le> m" "length (join_with '','' (map member_text kss)) < m"
        using n e by (simp_all add: member_text_def)
    qed
    have "jparse m (s @ CHR '','' # t) = Some (v, CHR '','' # t)"
      using e(3) len(1) stop(2) by (simp add: reads_def)
    moreover have "jmembers m t = Some (kvs, r)" using Cons.IH [OF False len(2) Cons.prems(3)] by (simp add: t_def)
    ultimately show ?thesis
      unfolding whole using n e js by (simp add: json_space_not has_prefix_def)
  qed
qed simp

lemma reads_array: "list_all2 reads ss vs \<Longrightarrow> reads (json_array ss) (JArr vs)"
proof -
  assume ss: "list_all2 reads ss vs"
  have plain: "newline \<notin> set (join_with '','' ss)"
    using ss
  proof (induction rule: list_all2_induct)
    case (Cons s ss v vs)
    then show ?case by (cases "ss = []") (auto simp: reads_def join_with_Cons)
  qed simp
  have "jparse n (json_array ss @ r) = Some (JArr vs, r)" if len: "length (json_array ss) \<le> n" and st: "stops r" for n r
  proof -
    obtain m where n: "n = Suc m" using len by (cases n) (auto simp: json_array_def)
    show ?thesis
    proof (cases "ss = []")
      case True
      with ss n show ?thesis by (simp add: json_array_def json_space_not has_prefix_def)
    next
      case False
      then obtain s ss' where s: "ss = s # ss'" by (cases ss) auto
      then have "s \<noteq> []" "\<not> json_space (hd s)" "hd s \<noteq> CHR '']''" using ss by (auto simp: list_all2_Cons1 reads_def)
      moreover obtain t where "join_with '','' ss = s @ t" using s by (cases "ss' = []") (auto simp: join_with_Cons)
      ultimately have "\<not> has_prefix '']'' (skip_ws (join_with '','' ss @ CHR '']'' # r))"
        by (cases s) (auto simp: has_prefix_def)
      moreover have "jelems m (join_with '','' ss @ CHR '']'' # r) = Some (vs, r)"
        using reads_elems [OF ss False _ st] len n by (simp add: json_array_def)
      ultimately show ?thesis using n by (simp add: json_array_def json_space_not)
    qed
  qed
  with plain show ?thesis by (simp add: reads_def json_array_def json_space_not)
qed

lemma json_object_members: "json_object kss = CHR 0x7B # join_with '','' (map member_text kss) @ [CHR 0x7D]"
  by (simp add: json_object_def member_text_def [abs_def] case_prod_beta')

lemma reads_object:
  assumes "list_all2 (\<lambda>(k, s) (l, v). k = l \<and> reads s v) kss kvs"
  shows "reads (json_object kss) (JObj kvs)"
proof -
  have plain: "newline \<notin> set (join_with '','' (map member_text kss))"
    using assms
  proof (induction rule: list_all2_induct)
    case (Cons ks kss kv kvs)
    then have "newline \<notin> set (member_text ks)"
      using reads_string by (auto simp: member_text_def reads_def)
    with Cons.IH show ?case by (cases "kss = []") (auto simp: join_with_Cons)
  qed simp
  have "jparse n (json_object kss @ r) = Some (JObj kvs, r)" if len: "length (json_object kss) \<le> n" and st: "stops r" for n r
  proof -
    obtain m where n: "n = Suc m" using len by (cases n) (auto simp: json_object_members)
    show ?thesis
    proof (cases "kss = []")
      case True
      with assms n show ?thesis by (simp add: json_object_members json_space_not has_prefix_def)
    next
      case False
      then obtain ks kss' where "kss = ks # kss'" by (cases kss) auto
      then obtain t where "join_with '','' (map member_text kss) = CHR 0x22 # t"
        by (cases "kss' = []") (auto simp: join_with_Cons member_text_def json_string_def)
      moreover have "jmembers m (join_with '','' (map member_text kss) @ CHR 0x7D # r) = Some (kvs, r)"
        using reads_members [OF assms False _ st] len n by (simp add: json_object_members)
      ultimately show ?thesis using n by (simp add: json_object_members json_space_not has_prefix_def)
    qed
  qed
  with plain show ?thesis by (simp add: reads_def json_object_members json_space_not)
qed

lemma sort_key_map_snd:
  "sort_key fst (map (\<lambda>(k, v). (k, g v)) m) = map (\<lambda>(k, v). (k, g v)) (sort_key fst m)"
proof -
  have ins: "insort_key fst (case x of (k, v) \<Rightarrow> (k, g v)) (map (\<lambda>(k, v). (k, g v)) xs) =
      map (\<lambda>(k, v). (k, g v)) (insort_key fst x xs)" for x xs
    by (induction xs) (auto split: prod.splits)
  show ?thesis by (induction m) (simp_all add: sort_key_def ins)
qed

lemma json_ok_reads: "json_ok v \<Longrightarrow> \<exists>s. json v = Some s \<and> reads s (jtree v)"
proof (induction v rule: json_ok.induct)
  case (1 f)
  then show ?case using reads_number by (auto split: option.splits)
next
  case (2 vs)
  then have "\<exists>ss. map json vs = map Some ss \<and> list_all2 reads ss (map jtree vs)"
  proof (induction vs)
    case (Cons v vs)
    from Cons.prems(1) [of v] Cons.prems(2) obtain s where "json v = Some s" "reads s (jtree v)" by auto
    moreover from Cons.IH Cons.prems obtain ss where "map json vs = map Some ss" "list_all2 reads ss (map jtree vs)"
      by auto
    ultimately show ?case by (intro exI [of _ "s # ss"]) simp
  qed simp
  then show ?case using reads_array by (auto simp: collect_opt_Some [THEN iffD2])
next
  case (3 m)
  let ?m = "sort_key fst m"
  have IH: "\<exists>s. json v = Some s \<and> reads s (jtree v)" if "(k, v) \<in> set ?m" for k v
    using 3 that by (force simp: list_all_iff)
  then have "\<exists>kss. map (\<lambda>(k, v). map_option (Pair k) v) (map (\<lambda>(k, v). (k, json v)) xs) = map Some kss \<and>
      list_all2 (\<lambda>(k, s) (l, v). k = l \<and> reads s v) kss (map (\<lambda>(k, v). (k, jtree v)) xs)"
    if "set xs \<subseteq> set ?m" for xs
    using that
  proof (induction xs)
    case (Cons kv xs)
    obtain k v where kv: "kv = (k, v)" by fastforce
    from Cons.prems kv have "\<exists>s. json v = Some s \<and> reads s (jtree v)" by (intro IH [of k]) auto
    then obtain s where "json v = Some s" "reads s (jtree v)" by blast
    moreover from Cons.IH Cons.prems obtain kss where
      "map (\<lambda>(k, v). map_option (Pair k) v) (map (\<lambda>(k, v). (k, json v)) xs) = map Some kss"
      "list_all2 (\<lambda>(k, s) (l, v). k = l \<and> reads s v) kss (map (\<lambda>(k, v). (k, jtree v)) xs)"
      by (auto simp del: map_map)
    ultimately show ?case by (intro exI [of _ "(k, s) # kss"]) (simp add: kv)
  qed simp
  from this [OF subset_refl] obtain kss where
    "map (\<lambda>(k, v). map_option (Pair k) v) (map (\<lambda>(k, v). (k, json v)) ?m) = map Some kss"
    "list_all2 (\<lambda>(k, s) (l, v). k = l \<and> reads s v) kss (map (\<lambda>(k, v). (k, jtree v)) ?m)" by auto
  then show ?case
    using reads_object by (auto simp: sort_key_map_snd collect_opt_Some [THEN iffD2] simp del: map_map)
qed (use reads_word reads_string in auto)

lemma fold_map_put: "distinct (map fst (acc @ m)) \<Longrightarrow> fold (\<lambda>(k, v). map_put k v) m acc = acc @ m"
proof (induction m arbitrary: acc)
  case (Cons kv m)
  then show ?case by (cases kv) (simp add: map_put_new Cons.IH)
qed simp

lemma distinct_sort_fst: "distinct (map fst m) \<Longrightarrow> distinct (map fst (sort_key fst m))"
proof -
  have "mset (map fst (sort_key fst m)) = mset (map fst m)" by simp
  then show "distinct (map fst m) \<Longrightarrow> distinct (map fst (sort_key fst m))" by (metis mset_eq_imp_distinct_iff)
qed

lemma any_of_jtree: "json_ok v \<Longrightarrow> any_of (jtree v) = Some (canon v)"
proof (induction v rule: json_ok.induct)
  case (1 f)
  then show ?case by (auto split: option.splits)
next
  case (2 vs)
  then have "map (any_of \<circ> jtree) vs = map (Some \<circ> canon) vs" by (auto simp: list_all_iff)
  then show ?case by (simp add: collect_opt_Some [THEN iffD2, of _ "map canon vs"])
next
  case (3 m)
  let ?m = "sort_key fst m"
  have IH: "any_of (jtree v) = Some (canon v)" if "(k, v) \<in> set ?m" for k v
    using 3 that by (force simp: list_all_iff)
  have "map (\<lambda>(k, v). map_option (Pair k) v) (map (\<lambda>(k, v). (k, any_of v)) (map (\<lambda>(k, v). (k, jtree v)) ?m)) =
      map Some (map (\<lambda>(k, v). (k, canon v)) ?m)"
    using IH by auto
  moreover have "distinct (map fst (map (\<lambda>(k, v). (k, canon v)) ?m))"
    using 3(2) distinct_sort_fst [of m] by (simp add: case_prod_beta' comp_def)
  then have "fold (\<lambda>(k, v). map_put k v) (map (\<lambda>(k, v). (k, canon v)) ?m) [] = map (\<lambda>(k, v). (k, canon v)) ?m"
    using fold_map_put [of "[]"] by (simp del: map_map)
  ultimately show ?case by (simp add: sort_key_map_snd collect_opt_Some [THEN iffD2] del: map_map)
qed auto

lemma json_canon: "json_ok v \<Longrightarrow> json (canon v) = json v"
proof (induction v rule: json_ok.induct)
  case (2 vs)
  then have "map json (map canon vs) = map json vs" by (auto simp: list_all_iff)
  then show ?case by (simp del: map_map)
next
  case (3 m)
  have "map (\<lambda>(k, v). (k, json v)) (map (\<lambda>(k, v). (k, canon v)) (sort_key fst m)) = map (\<lambda>(k, v). (k, json v)) (sort_key fst m)"
    using 3 by (force simp: list_all_iff)
  moreover have "sort_key fst (sort_key fst m) = sort_key fst m" by (simp add: sort_key_id_if_sorted)
  ultimately show ?case by (simp add: sort_key_map_snd del: map_map)
qed auto

lemma Unmarshal_json:
  assumes "json_ok (VMap m)"
  obtains s where "json (VMap m) = Some s" "Unmarshal_map s = Some (sort_key fst (map (\<lambda>(k, v). (k, canon v)) m))"
    "newline \<notin> set s" "s \<noteq> []" "hd s = CHR 0x7B"
proof -
  obtain s where s: "json (VMap m) = Some s" "reads s (jtree (VMap m))" using json_ok_reads [OF assms] by blast
  have "length s \<le> n \<Longrightarrow> jparse n (s @ []) = Some (jtree (VMap m), [])" for n
    using s(2) unfolding reads_def by (simp only: stops_def) simp
  from this [of "2 * length s + 2"] have "json_tree s = Some (jtree (VMap m))" by (simp add: json_tree_def skip_ws_def)
  then have "Unmarshal_map s = Some (sort_key fst (map (\<lambda>(k, v). (k, canon v)) m))"
    using any_of_jtree [OF assms] by (simp add: Unmarshal_map_def del: any_of.simps)
  moreover have "hd s = CHR 0x7B" using s(1) by (auto simp: json_object_def)
  ultimately show thesis using that s by (auto simp: reads_def)
qed

end
