(* ===== verification/TrailTrip.thy ===== *)
theory TrailTrip
  imports TrailJson JsonTrip
begin

text \<open>
  What the JSON trail promises: whatever sessions append, the file verifies over as many records, and
  \<open>ReadTrail\<close> gives the records back.
\<close>

section \<open>One line\<close>

declare json.simps [simp del]

definition json_record :: "Record \<Rightarrow> bool" where
  \<comment> \<open>the record can be encoded, and its numbers read back\<close>
  "json_record r = (case recordFields r of Some flds \<Rightarrow> json_ok (VMap flds) | None \<Rightarrow> False)"

definition json_line :: "string \<Rightarrow> Record \<Rightarrow> string" where
  \<comment> \<open>the line written for a record under a tip\<close>
  "json_line tip r =
     the (json (VMap (the (recordFields r) @ [(''chain'', VStr (chainLink tip (the (json (VMap (the (recordFields r)))))))])))"

definition json_payload :: "Record \<Rightarrow> string" where
  "json_payload r = the (json (VMap (the (recordFields r))))"

definition read_fields :: "string \<Rightarrow> Record \<Rightarrow> ctx" where
  "read_fields tip r =
     sort_key fst (map (\<lambda>(k, v). (k, canon v)) (the (recordFields r) @ [(''chain'', VStr (chainLink tip (json_payload r)))]))"

lemma chain_not_field: "recordFields r = Some flds \<Longrightarrow> ''chain'' \<notin> fst ` set flds"
  by (auto simp: recordFields_def split: option.splits if_splits)

lemma json_ok_chain:
  assumes "recordFields r = Some flds" "json_ok (VMap flds)"
  shows "json_ok (VMap (flds @ [(''chain'', VStr s)]))"
  using assms chain_not_field [OF assms(1)] by (auto simp: list_all_iff)

lemma json_line_props:
  assumes "json_record r"
  shows "json (VMap (the (recordFields r))) = Some (json_payload r)"
    "json (VMap (the (recordFields r) @ [(''chain'', VStr (chainLink tip (json_payload r)))])) = Some (json_line tip r)"
    "Unmarshal_map (json_line tip r) = Some (read_fields tip r)"
    "newline \<notin> set (json_line tip r)" "TrimSpace (json_line tip r) \<noteq> []"
proof -
  obtain flds where f: "recordFields r = Some flds" "json_ok (VMap flds)"
    using assms by (auto simp: json_record_def split: option.splits)
  obtain p where p: "json (VMap flds) = Some p" by (rule Unmarshal_json [OF f(2)])
  then show a: "json (VMap (the (recordFields r))) = Some (json_payload r)" by (simp add: json_payload_def f(1))
  obtain s where s: "json (VMap (flds @ [(''chain'', VStr (chainLink tip (json_payload r)))])) = Some s"
    "Unmarshal_map s = Some (sort_key fst (map (\<lambda>(k, v). (k, canon v)) (flds @ [(''chain'', VStr (chainLink tip (json_payload r)))])))"
    "newline \<notin> set s" "s \<noteq> []" "hd s = CHR 0x7B"
    by (rule Unmarshal_json [OF json_ok_chain [OF f]])
  then have l: "json_line tip r = s" by (simp add: json_line_def f(1) json_payload_def)
  show "json (VMap (the (recordFields r) @ [(''chain'', VStr (chainLink tip (json_payload r)))])) = Some (json_line tip r)"
    "Unmarshal_map (json_line tip r) = Some (read_fields tip r)" "newline \<notin> set (json_line tip r)"
    using s by (simp_all add: l f(1) read_fields_def)
  obtain u where "s = CHR 0x7B # u" using s(4,5) by (cases s) auto
  moreover have "\<not> is_space (CHR 0x7B)" by (simp add: is_space_def)
  ultimately show "TrimSpace (json_line tip r) \<noteq> []"
    by (simp add: l TrimSpace_def trim_by_def trim_left_def trim_right_def)
qed

lemma map_of_sorted: "distinct (map fst m) \<Longrightarrow> map_of (sort_key fst m) k = map_of m k"
  using map_of_inject_set [OF distinct_sort_fst [of m], of m] by simp

lemma chainLink_nonempty: "chainLink t p \<noteq> []"
proof -
  have "length (chainLink t p) = 64" by (simp add: chainLink_def)
  then show ?thesis by auto
qed

lemma json_link_line:
  assumes "json_record r"
  shows "\<exists>label. json_link (json_line tip r) =
    Some \<lparr>lk_label = label, lk_payload = json_payload r, lk_stored = chainLink tip (json_payload r)\<rparr>"
proof -
  obtain flds where f: "recordFields r = Some flds" "json_ok (VMap flds)"
    using assms by (auto simp: json_record_def split: option.splits)
  let ?all = "flds @ [(''chain'', VStr (chainLink tip (json_payload r)))]"
  have "distinct (map fst ?all)" using json_ok_chain [OF f, of "chainLink tip (json_payload r)"] by (simp only: json_ok.simps)
  moreover have "map fst (map (\<lambda>(k, v). (k, canon v)) ?all) = map fst ?all" by (simp add: case_prod_beta')
  ultimately have "distinct (map fst (map (\<lambda>(k, v). (k, canon v)) ?all))" by metis
  then have "map_of (read_fields tip r) ''chain'' = map_of (map (\<lambda>(k, v). (k, canon v)) ?all) ''chain''"
    by (simp add: read_fields_def f(1) map_of_sorted)
  also have "\<dots> = Some (VStr (chainLink tip (json_payload r)))"
  proof -
    have "map_of (map (\<lambda>(k, v). (k, canon v)) flds) ''chain'' = None"
      using chain_not_field [OF f(1)] by (force simp: map_of_eq_None_iff)
    then show ?thesis by (simp add: map_add_def)
  qed
  finally have "map_of (read_fields tip r) ''chain'' = Some (VStr (chainLink tip (json_payload r)))" .
  moreover have "filter (\<lambda>(k, v). k \<noteq> ''chain'') (map (\<lambda>(k, v). (k, canon v)) flds) = map (\<lambda>(k, v). (k, canon v)) flds"
    using chain_not_field [OF f(1)] by (force simp: filter_id_conv)
  then have "filter (\<lambda>(k, v). k \<noteq> ''chain'') (read_fields tip r) = sort_key fst (map (\<lambda>(k, v). (k, canon v)) flds)"
    by (simp add: read_fields_def f(1) filter_sort)
  moreover have "json (VMap (sort_key fst (map (\<lambda>(k, v). (k, canon v)) flds))) = Some (json_payload r)"
    using json_canon [OF f(2)] json_line_props(1) [OF assms] by (simp add: f(1))
  moreover have "chainLink tip (json_payload r) \<noteq> []"
    by (metis chainLink_nonempty)
  ultimately show ?thesis
    using json_line_props(3) [OF assms, of tip] by (simp add: json_link_def any_string_def Let_def)
qed

section \<open>Files written by sessions\<close>

lemma json_link_resume:
  "json_link line = Some k \<Longrightarrow> tf_tip (resume_line oor line t) = lk_stored k"
  by (auto simp: json_link_def resume_line_def Let_def split: option.splits if_splits)

lemma resume_line_same [simp]:
  "tf_asMd (resume_line oor line t) = tf_asMd t" "tf_file (resume_line oor line t) = tf_file t"
  by (simp_all add: resume_line_def Let_def split: option.split)

lemma resume_lines_tip:
  "map json_link ls = map Some L \<Longrightarrow>
     tf_tip (fold (resume_line oor) ls t) = chain_end (tf_tip t) (map link_of L) \<and>
     tf_asMd (fold (resume_line oor) ls t) = tf_asMd t"
proof (induction ls arbitrary: L t)
  case (Cons l ls)
  then obtain k L' where L: "L = k # L'" "json_link l = Some k" "map json_link ls = map Some L'" by auto
  show ?case
    using Cons.IH [OF L(3), of "resume_line oor l t"] L json_link_resume [OF L(2), of oor t]
    by (simp add: chain_end_def link_of_def last_map)
qed simp

definition json_file :: "string \<Rightarrow> string \<Rightarrow> nat \<Rightarrow> bool" where
  \<comment> \<open>a content of n lines whose links reproduce and end in the tip\<close>
  "json_file content tip n \<longleftrightarrow>
     (\<exists>ls L. content = unlines ls \<and> plain_lines ls \<and> (\<forall>l \<in> set ls. TrimSpace l \<noteq> []) \<and>
        map json_link ls = map Some L \<and> first_break chainLink genesis (map link_of L) = None \<and>
        chain_end genesis (map link_of L) = tip \<and> length L = n)"

lemma json_lines_unlines:
  "plain_lines ls \<Longrightarrow> \<forall>l \<in> set ls. TrimSpace l \<noteq> [] \<Longrightarrow> json_lines (unlines ls) = ls"
  by (simp add: json_lines_def split_unlines filter_id_conv TrimSpace_def trim_by_def trim_left_def trim_right_def)

lemma json_file_write:
  assumes "json_file content (tf_tip t) n" "json_record r" "tf_file t = Some content" "\<not> tf_asMd t"
  shows "\<exists>content' t'. fst (WriteRecord t r) = t' \<and> tf_file t' = Some content' \<and> \<not> tf_asMd t' \<and>
    json_file content' (tf_tip t') (Suc n)"
proof -
  obtain ls L where f: "content = unlines ls" "plain_lines ls" "\<forall>l \<in> set ls. TrimSpace l \<noteq> []"
    "map json_link ls = map Some L" "first_break chainLink genesis (map link_of L) = None"
    "chain_end genesis (map link_of L) = tf_tip t" "length L = n"
    using assms(1) by (auto simp: json_file_def)
  obtain flds where flds: "recordFields r = Some flds"
    using assms(2) by (auto simp: json_record_def split: option.splits)
  note line = json_line_props(1) [OF assms(2)] json_line_props(2-5) [OF assms(2), of "tf_tip t"]
  have put: "map_put ''chain'' v flds = flds @ [(''chain'', v)]" for v
    using map_put_new [OF chain_not_field [OF flds]] .
  obtain label where link: "json_link (json_line (tf_tip t) r) =
      Some \<lparr>lk_label = label, lk_payload = json_payload r, lk_stored = chainLink (tf_tip t) (json_payload r)\<rparr>"
    using json_link_line [OF assms(2)] by blast
  let ?t = "t\<lparr>tf_tip := chainLink (tf_tip t) (json_payload r), tf_file := Some (unlines (ls @ [json_line (tf_tip t) r]))\<rparr>"
  have "fst (WriteRecord t r) = ?t"
    using assms(3,4) line(1,2) f(1)
    by (simp add: WriteRecord_def writeJSONL_def flds put Let_def del: json.simps)
  moreover have "json_file (unlines (ls @ [json_line (tf_tip t) r])) (chainLink (tf_tip t) (json_payload r)) (Suc n)"
    unfolding json_file_def
    using f line(4,5) link
    by (intro exI [of _ "ls @ [json_line (tf_tip t) r]"] exI [of _ "L @ [the (json_link (json_line (tf_tip t) r))]"])
      (simp add: first_break_append link_of_def)
  ultimately show ?thesis using assms(4) by simp
qed

lemma json_file_writes:
  assumes "json_file content (tf_tip t) n" "tf_file t = Some content" "\<not> tf_asMd t" "list_all json_record rs"
  shows "\<exists>content' tip'. tf_file (fold (\<lambda>r t. fst (WriteRecord t r)) rs t) = Some content' \<and>
    json_file content' tip' (n + length rs)"
  using assms
proof (induction rs arbitrary: t content n)
  case (Cons r rs)
  then obtain content' where "tf_file (fst (WriteRecord t r)) = Some content'" "\<not> tf_asMd (fst (WriteRecord t r))"
    "json_file content' (tf_tip (fst (WriteRecord t r))) (Suc n)"
    using json_file_write [of content t n r] by auto
  then show ?case using Cons.IH [of content' "fst (WriteRecord t r)" "Suc n"] Cons.prems by simp
qed auto

definition trail_session :: "(f64 \<Rightarrow> int) \<Rightarrow> string \<Rightarrow> Record list \<Rightarrow> string option \<Rightarrow> string option" where
  \<comment> \<open>one process: open the file, write the records, close it; what the file then holds\<close>
  "trail_session oor path rs existing =
     (case OpenTrailFile oor (\<lambda>_. None) (\<lambda>_. None) path existing of
        Inl _ \<Rightarrow> existing
      | Inr t \<Rightarrow> tf_file (fold (\<lambda>r t. fst (WriteRecord t r)) rs t))"

definition json_trail :: "string option \<Rightarrow> nat \<Rightarrow> bool" where
  "json_trail existing n \<longleftrightarrow> (case existing of None \<Rightarrow> n = 0 | Some c \<Rightarrow> \<exists>tip. json_file c tip n)"

lemma json_trail_session:
  assumes "json_trail existing n" "list_all json_record rs" "\<not> has_suffix ''.md'' path"
  shows "json_trail (trail_session oor path rs existing) (n + length rs)"
proof -
  define t0 where "t0 = \<lparr>tf_Path = path, tf_file = None, tf_asMd = False, tf_tip = genesis, tf_lastCycle = 0, tf_maxCycle = 0\<rparr>"
  define c where "c = (case existing of None \<Rightarrow> [] | Some c \<Rightarrow> c)"
  define t where "t = (resume oor existing t0)\<lparr>tf_file := Some c\<rparr>"
  have op: "OpenTrailFile oor (\<lambda>_. None) (\<lambda>_. None) path existing = Inr t"
    using assms(3) by (simp add: OpenTrailFile_def t_def c_def t0_def)
  have "json_file c (tf_tip t) n \<and> \<not> tf_asMd t"
  proof (cases existing)
    case None
    with assms(1) show ?thesis
      by (simp add: json_trail_def json_file_def c_def t_def resume_def t0_def)
  next
    case (Some d)
    then obtain ls L where "d = unlines ls" "plain_lines ls" "\<forall>l \<in> set ls. TrimSpace l \<noteq> []"
      "map json_link ls = map Some L" "first_break chainLink genesis (map link_of L) = None" "length L = n"
      using assms(1) by (auto simp: json_trail_def json_file_def)
    then show ?thesis
      using Some resume_lines_tip [of ls L oor t0]
      by (auto simp: json_file_def c_def t_def resume_def t0_def json_lines_unlines)
  qed
  with json_file_writes [of c t n rs] assms(2) show ?thesis
    by (auto simp: trail_session_def op json_trail_def t_def)
qed

lemma json_trail_sessions:
  "list_all (list_all json_record) rss \<Longrightarrow> json_trail existing n \<Longrightarrow> \<not> has_suffix ''.md'' path \<Longrightarrow>
     json_trail (fold (trail_session oor path) rss existing) (n + length (concat rss))"
proof (induction rss arbitrary: existing n)
  case (Cons rs rss)
  then show ?case using json_trail_session [of existing n rs path oor] by (simp add: add.assoc [symmetric])
qed simp

lemma map_filter_links: "map json_link ls = map Some L \<Longrightarrow> List.map_filter json_link ls = L"
  by (induction ls arbitrary: L) (auto simp: List.map_filter_simps)

section \<open>Properties\<close>

text \<open>
  C15.  Whatever records sessions append to a trail of JSON lines, one session after another, each resuming
  from what the file holds, the file verifies over exactly as many records as were written -- for
  records that can be encoded and whose numbers read back from their literals.
\<close>

theorem json_sessions_verify:
  assumes "list_all (list_all json_record) rss" "concat rss \<noteq> []" "\<not> has_suffix ''.md'' path"
  shows "VerifyTrail path (fold (trail_session oor path) rss None) =
    (True, ''chain intact over '' @ show_nat (length (concat rss)) @ '' records'')"
proof -
  have n: "length (concat rss) \<noteq> 0" using assms(2) by (simp only: length_0_conv) simp
  have "json_trail (fold (trail_session oor path) rss None) (length (concat rss))"
    using json_trail_sessions [OF assms(1) _ assms(3), of None 0 oor] by (simp add: json_trail_def)
  with n obtain ls L where "fold (trail_session oor path) rss None = Some (unlines ls)" "plain_lines ls"
    "\<forall>l \<in> set ls. TrimSpace l \<noteq> []" "map json_link ls = map Some L"
    "first_break chainLink genesis (map link_of L) = None" "length L = length (concat rss)"
    unfolding json_trail_def json_file_def by (cases "fold (trail_session oor path) rss None") auto
  moreover from this(6) n have "L \<noteq> []" by (metis list.size(3))
  ultimately show ?thesis
    using assms(3) by (simp add: VerifyTrail_def chainLinksJSONL_def json_lines_unlines map_filter_links verify_links_first_break del: length_concat)
qed

lemma json_sample: "json_record comment_record"
proof -
  have "json_time 0 = Some (CHR 0x22 # ''0001-01-01T00:00:00Z'' @ [CHR 0x22])" by code_simp
  moreover have "json (VMap [(''policy'', VStr ''Cap'')]) \<noteq> None" by (simp add: json.simps)
  ultimately have "recordFields comment_record = Some
    [(''cycle'', VFloat (f_of_int 0)), (''stage'', VStr ''policy''), (''time'', VStr ''0001-01-01T00:00:00Z''),
     (''inputs'', VMap [(''policy'', VStr ''Cap'')]), (''output'', VStr ''VIOLATED''),
     (''rationale'', VStr ''see <!-- chain: ab -->''), (''model'', VStr ''llm'')]"
    by (auto simp: recordFields_def sample_record_def comment_record_def)
  moreover have "json_float (f_of_int 0) = Some ''0''" by (simp add: float_eval)
  moreover have "jnumber ''0'' = Some (''0'', [])"
    by (simp add: jnumber_def num_one_def span_def num_frac_def num_exp_def has_prefix_def char_eval)
  moreover have "ParseFloat ''0'' = Some (f_of_int 0)"
    by (simp add: parse_float_eval float_eval char_eval)
  ultimately show ?thesis by (simp add: json_record_def)
qed

lemma json_sessions_verify_witness:
  "VerifyTrail ''trail.jsonl'' (fold (trail_session (\<lambda>_. 0) ''trail.jsonl'')
      [[comment_record], [comment_record, comment_record]] None) =
    (True, ''chain intact over 3 records'')"
proof -
  have a: "list_all (list_all json_record) [[comment_record], [comment_record, comment_record]]" using json_sample by simp
  have b: "\<not> has_suffix ''.md'' ''trail.jsonl''" by code_simp
  have "show_nat 3 = ''3''" by code_simp
  with json_sessions_verify [OF a _ b, of "\<lambda>_. 0"] show ?thesis by (simp add: eval_nat_numeral)
qed

end
