(* ===== verification/ModelClient.thy ===== *)
theory ModelClient
  imports StrategyFile Json
begin

text \<open>
  The model client of \<^verbatim>\<open>llm_client.go\<close>: what it posts to a provider, how it reads the reply, and when
  it tries again.  The network is the parameter \<open>HTTPWorld\<close>: what a post is answered with may depend on
  every post made before it.  The posts made so far are the field \<open>cs_posts\<close>, which the source has not.
  The last part shows that such a client is one of the providers the rest of the development takes
  as a parameter.
\<close>

section \<open>Requests\<close>

record http_post =
  hp_URL :: string
  hp_Headers :: "(string \<times> string) list"
  hp_Payload :: string

datatype http_reply =
    NoRequest string     \<comment> \<open>http.NewRequestWithContext fails\<close>
  | NoReply string       \<comment> \<open>the transport fails\<close>
  | Replied int string   \<comment> \<open>status and body\<close>

record HTTPWorld =
  hw_send :: "http_post list \<Rightarrow> http_post \<Rightarrow> http_reply"
  hw_done :: "http_post list \<Rightarrow> duration \<Rightarrow> string option"  \<comment> \<open>whether the context ends during a wait\<close>
  hw_elapsed :: "http_post list \<Rightarrow> int"                     \<comment> \<open>milliseconds since the call started\<close>
  hw_not_json :: "string \<Rightarrow> string"                        \<comment> \<open>the texts of the decoder's and encoder's errors\<close>
  hw_not_encoded :: "ctx \<Rightarrow> string"
  hw_oor :: "f64 \<Rightarrow> int"

record ClientState =
  cs_history :: "Call list"
  cs_posts :: "http_post list"

type_synonym reply_reader = "ctx \<Rightarrow> string \<times> Usage"

definition defaultMaxTokens :: int where "defaultMaxTokens = 2048"
definition anthropicVersion :: string where "anthropicVersion = ''2023-06-01''"

definition retryBackoff :: "duration list" where
  "retryBackoff = [second_ns, 2 * second_ns]"

definition bareModel :: "HTTPClient \<Rightarrow> string" where
  "bareModel c = (case cut_at ''/'' (hc_Model c) of Some (before, after) \<Rightarrow> after | None \<Rightarrow> hc_Model c)"

definition maxTokens :: "HTTPClient \<Rightarrow> int" where
  "maxTokens c = (if 0 < hc_MaxTokens c then hc_MaxTokens c else defaultMaxTokens)"

fun jsonInt :: "(f64 \<Rightarrow> int) \<Rightarrow> goval option \<Rightarrow> int" where
  "jsonInt oor (Some (VFloat n)) = f_to_int64 oor n"
| "jsonInt oor (Some (VInt n)) = n"
| "jsonInt oor _ = 0"

fun any_map :: "goval option \<Rightarrow> ctx" where
  \<comment> \<open>the assertion v.(map[string]any) whose failure gives a nil map\<close>
  "any_map (Some (VMap m)) = m"
| "any_map _ = []"

fun any_text :: "goval option \<Rightarrow> string" where
  \<comment> \<open>the assertion v.(string) whose failure gives the empty string\<close>
  "any_text (Some (VStr s)) = s"
| "any_text _ = []"

definition anthropic_content :: "string \<Rightarrow> string \<Rightarrow> goval" where
  "anthropic_content prompt cachePrefix =
     (if cachePrefix \<noteq> [] \<and> has_prefix cachePrefix prompt \<and> length cachePrefix < length prompt
      then VList
        [VMap [(''type'', VStr ''text''), (''text'', VStr cachePrefix),
               (''cache_control'', VMap [(''type'', VStr ''ephemeral'')])],
         VMap [(''type'', VStr ''text''), (''text'', VStr (drop (length cachePrefix) prompt))]]
      else VStr prompt)"

definition anthropic_body :: "HTTPClient \<Rightarrow> string \<Rightarrow> string \<Rightarrow> string \<Rightarrow> ctx" where
  "anthropic_body c prompt system cachePrefix =
     [(''model'', VStr (bareModel c)), (''max_tokens'', VInt (maxTokens c)),
      (''messages'', VList [VMap [(''role'', VStr ''user''), (''content'', anthropic_content prompt cachePrefix)]])] @
     (if system \<noteq> [] then [(''system'', VStr system)] else []) @
     (case hc_Temperature c of Some t \<Rightarrow> [(''temperature'', VFloat t)] | None \<Rightarrow> [])"

fun block_text :: "goval \<Rightarrow> string" where
  "block_text (VMap m) = (if map_of m ''type'' = Some (VStr ''text'') then any_text (map_of m ''text'') else [])"
| "block_text _ = []"

definition anthropic_parse :: "(f64 \<Rightarrow> int) \<Rightarrow> reply_reader" where
  "anthropic_parse oor data =
     (let content = (case map_of data ''content'' of Some (VList blocks) \<Rightarrow> concat (map block_text blocks) | _ \<Rightarrow> []);
          u = any_map (map_of data ''usage'')
      in (content,
          \<lparr>us_PromptTokens = jsonInt oor (map_of u ''input_tokens''),
           us_CompletionTokens = jsonInt oor (map_of u ''output_tokens''),
           us_CacheReadTokens = jsonInt oor (map_of u ''cache_read_input_tokens''),
           us_CacheWriteTokens = jsonInt oor (map_of u ''cache_creation_input_tokens'')\<rparr>))"

definition anthropic ::
  "(f64 \<Rightarrow> int) \<Rightarrow> HTTPClient \<Rightarrow> string \<Rightarrow> string \<Rightarrow> string \<Rightarrow> string \<times> (string \<times> string) list \<times> ctx \<times> reply_reader" where
  "anthropic oor c prompt system cachePrefix =
     (let base = (if hc_APIBase c = [] then ''https://api.anthropic.com'' else hc_APIBase c)
      in (base @ ''/v1/messages'',
          [(''content-type'', ''application/json''), (''anthropic-version'', anthropicVersion),
           (''x-api-key'', hc_APIKey c)],
          anthropic_body c prompt system cachePrefix, anthropic_parse oor))"

definition openai_body :: "HTTPClient \<Rightarrow> string \<Rightarrow> string \<Rightarrow> ctx" where
  "openai_body c prompt system =
     [(''model'', VStr (bareModel c)),
      (''messages'', VList ((if system \<noteq> [] then [VMap [(''role'', VStr ''system''), (''content'', VStr system)]] else []) @
                            [VMap [(''role'', VStr ''user''), (''content'', VStr prompt)]]))] @
     (case hc_Temperature c of Some t \<Rightarrow> [(''temperature'', VFloat t)] | None \<Rightarrow> []) @
     (if 0 < hc_MaxTokens c then [(''max_tokens'', VInt (hc_MaxTokens c))] else [])"

definition openai_parse :: "(f64 \<Rightarrow> int) \<Rightarrow> reply_reader" where
  "openai_parse oor data =
     (case map_of data ''choices'' of
        Some (VList (choice # choices)) \<Rightarrow>
          (let message = any_map (map_of (any_map (Some choice)) ''message'');
               u = any_map (map_of data ''usage'');
               details = any_map (map_of u ''prompt_tokens_details'')
           in (any_text (map_of message ''content''),
               \<lparr>us_PromptTokens = jsonInt oor (map_of u ''prompt_tokens''),
                us_CompletionTokens = jsonInt oor (map_of u ''completion_tokens''),
                us_CacheReadTokens = jsonInt oor (map_of details ''cached_tokens''), us_CacheWriteTokens = 0\<rparr>))
      | _ \<Rightarrow> ([], no_usage))"

definition openai ::
  "(f64 \<Rightarrow> int) \<Rightarrow> HTTPClient \<Rightarrow> string \<Rightarrow> string \<Rightarrow> string \<times> (string \<times> string) list \<times> ctx \<times> reply_reader" where
  "openai oor c prompt system =
     (let base = (if hc_APIBase c = [] then ''https://api.openai.com/v1'' else hc_APIBase c)
      in (base @ ''/chat/completions'',
          [(''content-type'', ''application/json''), (''authorization'', ''Bearer '' @ hc_APIKey c)],
          openai_body c prompt system, openai_parse oor))"

definition request ::
  "(f64 \<Rightarrow> int) \<Rightarrow> HTTPClient \<Rightarrow> string \<Rightarrow> string \<Rightarrow> string \<Rightarrow> string \<times> (string \<times> string) list \<times> ctx \<times> reply_reader" where
  "request oor c prompt system cachePrefix =
     (if hc_Provider c = ''anthropic'' then anthropic oor c prompt system cachePrefix
      else openai oor c prompt system)"

section \<open>Posting\<close>

definition post :: "HTTPWorld \<Rightarrow> reply_reader \<Rightarrow> http_reply \<Rightarrow> (bool \<times> ear_error, string \<times> Usage) outcome" where
  \<comment> \<open>what the answer to a post amounts to; an error says whether to try again\<close>
  "post w reader answer =
     (case answer of
        NoRequest e \<Rightarrow> Inl (False, Fault e)
      | NoReply e \<Rightarrow> Inl (True, Fault e)
      | Replied status data \<Rightarrow>
          (if 400 \<le> status
           then Inl (status = 429 \<or> 500 \<le> status,
                     Fault (''LM provider returned '' @ show_int status @ '': '' @ TrimSpace data))
           else (case Unmarshal_map data of
                   None \<Rightarrow> Inl (False, Wrapped ''LM response was not JSON'' (Fault (hw_not_json w data)))
                 | Some decoded \<Rightarrow> Inr (reader decoded))))"

definition send :: "HTTPWorld \<Rightarrow> http_post \<Rightarrow> ClientState \<Rightarrow> http_reply \<times> ClientState" where
  \<comment> \<open>a request that could not be built is not sent\<close>
  "send w p s =
     (let answer = hw_send w (cs_posts s) p
      in (answer, (case answer of NoRequest e \<Rightarrow> s | _ \<Rightarrow> s\<lparr>cs_posts := cs_posts s @ [p]\<rparr>)))"

definition retry_wait :: "nat \<Rightarrow> duration" where
  "retry_wait attempt = retryBackoff ! min (attempt - 1) (length retryBackoff - 1)"

fun complete_loop ::
  "HTTPWorld \<Rightarrow> http_post \<Rightarrow> reply_reader \<Rightarrow> (string \<Rightarrow> Usage \<Rightarrow> nat \<Rightarrow> ClientState \<Rightarrow> Call) \<Rightarrow> nat list \<Rightarrow> ear_error \<Rightarrow>
   (ClientState, string) eff" where
  "complete_loop w p reader call [] lastErr s = (Inl (Wrapped ''LM call failed after retries'' lastErr), s)"
| "complete_loop w p reader call (attempt # attempts) lastErr s =
     (case (if 0 < attempt then hw_done w (cs_posts s) (retry_wait attempt) else None) of
        Some e \<Rightarrow> (Inl (Canceled e), s)
      | None \<Rightarrow>
          (let (answer, s') = send w p s in
           case post w reader answer of
             Inr (t, usage) \<Rightarrow> (Inr t, s'\<lparr>cs_history := cs_history s' @ [call t usage attempt s']\<rparr>)
           | Inl (retry, err) \<Rightarrow>
               if \<not> retry then (Inl err, s') else complete_loop w p reader call attempts err s'))"

definition HTTP_Complete :: "HTTPWorld \<Rightarrow> HTTPClient \<Rightarrow> string \<Rightarrow> string \<Rightarrow> string \<Rightarrow> (ClientState, string) eff" where
  "HTTP_Complete w c prompt system cachePrefix s =
     (let (url, headers, body, reader) = request (hw_oor w) c prompt system cachePrefix in
      case json (VMap body) of
        None \<Rightarrow> (Inl (Fault (hw_not_encoded w body)), s)
      | Some payload \<Rightarrow>
          complete_loop w \<lparr>hp_URL = url, hp_Headers = headers, hp_Payload = payload\<rparr> reader
            (\<lambda>t usage attempt s'.
               \<lparr>ca_Prompt = prompt, ca_System = system, ca_CachePrefix = cachePrefix, ca_Reply = t, ca_Usage = usage,
                ca_LatencyMs = hw_elapsed w (cs_posts s'), ca_Retries = int attempt\<rparr>)
            [0 ..< length retryBackoff + 1] (Fault ''%!w(<nil>)'') s)"

end
