(* ===== verification/ModelClientProps.thy ===== *)
theory ModelClientProps
  imports ModelClient
begin

text \<open>
  What the model client guarantees: at most three posts of one and the same request, each but the
  last answered in a way that allows another try; a call is recorded exactly when a reply is returned;
  and splitting the prompt for the provider's cache loses nothing of it.
\<close>

definition retryable :: "http_reply \<Rightarrow> bool" where
  "retryable answer =
     (case answer of NoRequest e \<Rightarrow> False | NoReply e \<Rightarrow> True | Replied status data \<Rightarrow> status = 429 \<or> 500 \<le> status)"

lemma post_retry: "post w reader answer = Inl (True, e) \<Longrightarrow> retryable answer"
  by (auto simp: post_def retryable_def split: http_reply.splits if_splits option.splits)

lemma post_sent: "retryable answer \<or> (\<exists>r. post w reader answer = Inr r) \<Longrightarrow> \<exists>st d e. answer = NoReply e \<or> answer = Replied st d"
  by (cases answer) (auto simp: post_def retryable_def)

lemma send_cases:
  "send w p s = (answer, s') \<Longrightarrow> answer = hw_send w (cs_posts s) p \<and> cs_history s' = cs_history s \<and>
     (case answer of NoRequest e \<Rightarrow> s' = s | _ \<Rightarrow> cs_posts s' = cs_posts s @ [p])"
  by (auto simp: send_def Let_def split: http_reply.splits)

text \<open>One lemma on the loop carries both properties: how often it posts, what allows it to go on, and what it records.\<close>

definition tried :: "HTTPWorld \<Rightarrow> http_post \<Rightarrow> ClientState \<Rightarrow> nat \<Rightarrow> ClientState \<Rightarrow> bool" where
  "tried w p s n s' \<longleftrightarrow>
     cs_posts s' = cs_posts s @ replicate n p \<and>
     list_all (\<lambda>i. retryable (hw_send w (cs_posts s @ replicate i p) p)) [0 ..< n - 1]"

definition recorded_reply ::
  "(string \<Rightarrow> Usage \<Rightarrow> nat \<Rightarrow> ClientState \<Rightarrow> Call) \<Rightarrow> nat \<Rightarrow> ClientState \<Rightarrow> (ear_error, string) outcome \<Rightarrow> ClientState \<Rightarrow> bool" where
  "recorded_reply call retries s res s' \<longleftrightarrow>
     (case res of Inl e \<Rightarrow> cs_history s' = cs_history s
      | Inr t \<Rightarrow> \<exists>u s1. cs_history s' = cs_history s @ [call t u retries s1])"

lemma tried_0: "tried w p s 0 s"
  by (simp add: tried_def)

lemma tried_1: "cs_posts s1 = cs_posts s @ [p] \<Longrightarrow> tried w p s 1 s1"
  by (simp add: tried_def)

lemma tried_Suc:
  assumes ok: "retryable (hw_send w (cs_posts s) p)" and p1: "cs_posts s1 = cs_posts s @ [p]" and t: "tried w p s1 n s'"
  shows "tried w p s (Suc n) s'"
proof -
  have "retryable (hw_send w (cs_posts s @ replicate i p) p)" if "i < n" for i
    using that ok p1 t by (cases i) (auto simp: tried_def list_all_iff replicate_append_same [symmetric])
  with p1 t show ?thesis by (auto simp: tried_def list_all_iff)
qed

lemma complete_loop_shape:
  "complete_loop w p reader call [a ..< b] err s = (res, s') \<Longrightarrow> a \<le> b \<Longrightarrow>
   \<exists>n \<le> b - a. tried w p s n s' \<and> (isl res \<or> 0 < n) \<and> recorded_reply call (a + n - 1) s res s'"
proof (induction "b - a" arbitrary: a err s)
  case 0
  then show ?case by (auto simp: tried_def recorded_reply_def)
next
  case (Suc k)
  then have ab: "a < b" and upt: "[a ..< b] = a # [Suc a ..< b]" by (auto simp: upt_conv_Cons)
  obtain answer s1 where snd_s: "send w p s = (answer, s1)" by fastforce
  note sent = send_cases [OF snd_s]
  show ?case
  proof (cases "if 0 < a then hw_done w (cs_posts s) (retry_wait a) else None")
    case (Some e)
    then have "res = Inl (Canceled e)" "s' = s" using Suc.prems upt by auto
    then show ?thesis using tried_0 [of w p s] by (intro exI [of _ 0]) (simp add: recorded_reply_def)
  next
    case None
    show ?thesis
    proof (cases "post w reader answer")
      case (Inr r)
      obtain t u where r: "r = (t, u)" by (cases r)
      from Inr have "cs_posts s1 = cs_posts s @ [p]" using post_sent [of answer w reader] sent by auto
      moreover have "res = Inr t" "s' = s1\<lparr>cs_history := cs_history s1 @ [call t u a s1]\<rparr>"
        using Suc.prems upt None snd_s Inr r by auto
      ultimately show ?thesis using ab sent tried_1 [of s' s p w]
        by (intro exI [of _ 1]) (auto simp: recorded_reply_def)
    next
      case (Inl r)
      obtain retry e where r: "r = (retry, e)" by (cases r)
      show ?thesis
      proof (cases retry)
        case True
        with Inl r have ok: "retryable answer" by (intro post_retry [of w reader answer e]) simp
        then have p1: "cs_posts s1 = cs_posts s @ [p]" using post_sent [of answer w reader] sent by auto
        have "complete_loop w p reader call [Suc a ..< b] e s1 = (res, s')"
          using Suc.prems upt None snd_s Inl r True by simp
        moreover have "k = b - Suc a" "Suc a \<le> b" using Suc.hyps(2) ab by auto
        ultimately obtain n where n: "n \<le> b - Suc a" "tried w p s1 n s'" "isl res \<or> 0 < n"
          "recorded_reply call (Suc a + n - 1) s1 res s'"
          using Suc.hyps(1) by blast
        have "tried w p s (Suc n) s'" using tried_Suc [OF _ p1 n(2)] ok sent by auto
        moreover have "recorded_reply call (a + Suc n - 1) s res s'" using n(4) sent by (auto simp: recorded_reply_def split: sum.splits)
        ultimately show ?thesis using n(1) ab by (intro exI [of _ "Suc n"]) auto
      next
        case False
        have "res = Inl e" "s' = s1" using Suc.prems upt None snd_s Inl r False by auto
        moreover have "tried w p s 0 s1 \<or> tried w p s 1 s1"
          using sent tried_0 tried_1 by (cases answer) auto
        ultimately show ?thesis using sent ab by (auto simp: recorded_reply_def intro: exI [of _ 0] exI [of _ 1])
      qed
    qed
  qed
qed

definition recorded_call :: "string \<Rightarrow> string \<Rightarrow> string \<Rightarrow> nat \<Rightarrow> ClientState \<Rightarrow> (ear_error, string) outcome \<Rightarrow> ClientState \<Rightarrow> bool" where
  "recorded_call prompt system cachePrefix n s res s' \<longleftrightarrow>
     (case res of
        Inl e \<Rightarrow> cs_history s' = cs_history s
      | Inr t \<Rightarrow> \<exists>call. cs_history s' = cs_history s @ [call] \<and> ca_Reply call = t \<and> ca_Prompt call = prompt \<and>
          ca_System call = system \<and> ca_CachePrefix call = cachePrefix \<and> ca_Retries call = int n - 1)"

lemma HTTP_Complete_shape:
  assumes r: "HTTP_Complete w c prompt system cachePrefix s = (res, s')"
  shows "\<exists>n \<le> 3. \<exists>p. tried w p s n s' \<and> recorded_call prompt system cachePrefix n s res s'"
proof -
  obtain url headers body reader where rq: "request (hw_oor w) c prompt system cachePrefix = (url, headers, body, reader)"
    by (cases "request (hw_oor w) c prompt system cachePrefix") auto
  show ?thesis
  proof (cases "json (VMap body)")
    case None
    with r rq have "isl res" "s' = s" by (auto simp: HTTP_Complete_def)
    then show ?thesis using tried_0 [of w _ s] by (auto simp: recorded_call_def isl_def)
  next
    case (Some payload)
    let ?p = "\<lparr>hp_URL = url, hp_Headers = headers, hp_Payload = payload\<rparr>"
    have "length retryBackoff + 1 = 3" by (simp add: retryBackoff_def)
    with r Some rq obtain n where "n \<le> 3" "tried w ?p s n s'" "isl res \<or> 0 < n"
      "recorded_reply (\<lambda>t usage attempt s'.
               \<lparr>ca_Prompt = prompt, ca_System = system, ca_CachePrefix = cachePrefix, ca_Reply = t, ca_Usage = usage,
                ca_LatencyMs = hw_elapsed w (cs_posts s'), ca_Retries = int attempt\<rparr>) (n - 1) s res s'"
      using complete_loop_shape [of w ?p reader _ 0 3 _ s res s']
      unfolding HTTP_Complete_def by (auto simp del: json.simps upt.simps)
    then show ?thesis
      by (intro exI [of _ n] exI [of _ ?p]) (auto simp: recorded_reply_def recorded_call_def of_nat_diff split: sum.splits)
  qed
qed

text \<open>
  C24.  A completion posts one request at most three times, the later posts only after an answer that
  allows another try (no reply, too many requests, a fault of the server); it records one call, with the
  reply and the number of retries, exactly when it returns a reply.
\<close>
theorem completion_is_bounded:
  "case HTTP_Complete w c prompt system cachePrefix s of (res, s') \<Rightarrow>
     \<exists>n \<le> 3. \<exists>p. tried w p s n s' \<and> recorded_call prompt system cachePrefix n s res s'"
  using HTTP_Complete_shape [of w c prompt system cachePrefix s] by (auto split: prod.split)

section \<open>The prompt is sent whole\<close>

fun content_text :: "goval \<Rightarrow> string" where
  \<comment> \<open>what a provider reads: a string, or the texts of the blocks\<close>
  "content_text (VStr s) = s"
| "content_text (VList blocks) = concat (map block_text blocks)"
| "content_text _ = []"

text \<open>
  However the prompt is split for the provider's cache, the blocks together are the prompt, and
  the first block is the cached prefix.
\<close>
theorem cache_split_keeps_prompt:
  "content_text (anthropic_content prompt cachePrefix) = prompt \<and>
   (case anthropic_content prompt cachePrefix of VList blocks \<Rightarrow> block_text (hd blocks) = cachePrefix | _ \<Rightarrow> True)"
  by (auto simp: anthropic_content_def has_prefix_iff)

end
