(* ===== verification/Monitor.thy ===== *)
theory Monitor
  imports Kernel TrailJson StrategyFile
begin

text \<open>
  Health and progress distilled from the reasoning trail: \<^verbatim>\<open>monitor.go\<close>.  One runtime's record
  InstanceHealth is a fold over the records of its log; a fleet is a fold over the kernel's process
  table.  The glyphs of the sparkline and the rule of the terminal view are the bytes of their UTF-8
  encoding.  A clock reading used for a zero instant is an argument.
\<close>

section \<open>Health\<close>

datatype Health = Healthy | Attention | Broken

fun health_text :: "Health \<Rightarrow> string" where
  "health_text Healthy = ''healthy''"
| "health_text Attention = ''attention''"
| "health_text Broken = ''broken''"

fun Rank :: "Health \<Rightarrow> nat" where
  "Rank Broken = 2"
| "Rank Attention = 1"
| "Rank Healthy = 0"

datatype Freshness = Active | Idle | Stale

fun freshness_text :: "Freshness \<Rightarrow> string" where
  "freshness_text Active = ''active''"
| "freshness_text Idle = ''idle''"
| "freshness_text Stale = ''stale''"

definition FreshActiveWithin :: duration where "FreshActiveWithin = 90 * second_ns"
definition FreshStaleAfter :: duration where "FreshStaleAfter = 30 * 60 * second_ns"

record InstanceHealth =
  ih_Name :: string
  ih_Status :: Health
  ih_Reason :: string
  ih_Cycles :: int
  ih_Calls :: int
  ih_Tokens :: int
  ih_Dollars :: f64
  ih_Latency :: duration
  ih_Blocked :: int
  ih_Pending :: int
  ih_Failed :: int
  ih_ChainIntact :: bool
  ih_ChainDetail :: string
  ih_Last :: gotime
  ih_Freshness :: Freshness
  ih_Spark :: "int list"

definition new_health :: "string \<Rightarrow> InstanceHealth" where
  "new_health name =
     \<lparr>ih_Name = name, ih_Status = Healthy, ih_Reason = [], ih_Cycles = 0, ih_Calls = 0, ih_Tokens = 0, ih_Dollars = fzero,
      ih_Latency = 0, ih_Blocked = 0, ih_Pending = 0, ih_Failed = 0, ih_ChainIntact = True, ih_ChainDetail = [],
      ih_Last = 0, ih_Freshness = Idle, ih_Spark = []\<rparr>"

definition intField :: "(f64 \<Rightarrow> int) \<Rightarrow> ctx \<Rightarrow> string \<Rightarrow> int" where
  "intField oor inputs key =
     (case map_of inputs key of
        Some (VInt v) \<Rightarrow> v | Some (VInt64 v) \<Rightarrow> v | Some (VFloat v) \<Rightarrow> f_to_int64 oor v | _ \<Rightarrow> 0)"

definition classifyHealth :: "InstanceHealth \<Rightarrow> Health \<times> string" where
  "classifyHealth h =
     (if \<not> ih_ChainIntact h then
        (Broken, if ih_ChainDetail h = [] then ''audit trail chain is broken'' else ih_ChainDetail h)
      else if 0 < ih_Failed h then (Attention, show_int (ih_Failed h) @ '' failed cycle(s)'')
      else if 0 < ih_Pending h then (Attention, show_int (ih_Pending h) @ '' awaiting approval / escalated'')
      else if 0 < ih_Blocked h then (Healthy, show_int (ih_Blocked h) @ '' policy block(s) -- governance working'')
      else (Healthy, ''all clear''))"

definition freshnessOf :: "gotime \<Rightarrow> gotime \<Rightarrow> Freshness" where
  "freshnessOf last_seen now =
     (if IsZero last_seen then Idle
      else if now - last_seen \<le> FreshActiveWithin then Active
      else if FreshStaleAfter \<le> now - last_seen then Stale
      else Idle)"

section \<open>One runtime\<close>

record Tally =
  ty_health :: InstanceHealth
  ty_cycles :: "int list"                 \<comment> \<open>the cycle numbers seen, in order\<close>
  ty_perCycle :: "(int \<times> int) list"

definition start_tally :: "string \<Rightarrow> Tally" where
  "start_tally name = \<lparr>ty_health = new_health name, ty_cycles = [], ty_perCycle = []\<rparr>"

definition at_cycle :: "(int \<times> int) list \<Rightarrow> int \<Rightarrow> int" where
  \<comment> \<open>reading a map of Go: zero where there is no entry\<close>
  "at_cycle m c = (case map_of m c of Some n \<Rightarrow> n | None \<Rightarrow> 0)"

definition see_record :: "Record \<Rightarrow> Tally \<Rightarrow> Tally" where
  "see_record r t =
     (let h = ty_health t in
      t\<lparr>ty_cycles := (if rc_Cycle r \<in> set (ty_cycles t) then ty_cycles t else ty_cycles t @ [rc_Cycle r]),
        ty_health := (if ih_Last h < rc_Time r then h\<lparr>ih_Last := rc_Time r\<rparr> else h)\<rparr>)"

definition record_tokens :: "(f64 \<Rightarrow> int) \<Rightarrow> Record \<Rightarrow> int" where
  "record_tokens oor r = intField oor (rc_Inputs r) ''input_tokens'' + intField oor (rc_Inputs r) ''output_tokens''"

definition count_usage :: "(f64 \<Rightarrow> int) \<Rightarrow> Record \<Rightarrow> Tally \<Rightarrow> Tally" where
  "count_usage oor r t =
     (let h = ty_health t; tokens = record_tokens oor r in
      t\<lparr>ty_perCycle := map_put (rc_Cycle r) (at_cycle (ty_perCycle t) (rc_Cycle r) + tokens) (ty_perCycle t),
        ty_health := h\<lparr>ih_Calls := ih_Calls h + intField oor (rc_Inputs r) ''model_calls'',
          ih_Tokens := ih_Tokens h + tokens,
          ih_Latency := wrap64 (ih_Latency h + wrap64 (intField oor (rc_Inputs r) ''latency_ms'' * 1000000)),
          ih_Dollars := (case map_of (rc_Inputs r) ''cost'' of
             Some (VFloat c) \<Rightarrow> fadd (ih_Dollars h) c | _ \<Rightarrow> ih_Dollars h)\<rparr>\<rparr>)"

definition count_blocked :: "Tally \<Rightarrow> Tally" where
  "count_blocked t = t\<lparr>ty_health := (ty_health t)\<lparr>ih_Blocked := ih_Blocked (ty_health t) + 1\<rparr>\<rparr>"

definition count_pending :: "Tally \<Rightarrow> Tally" where
  "count_pending t = t\<lparr>ty_health := (ty_health t)\<lparr>ih_Pending := ih_Pending (ty_health t) + 1\<rparr>\<rparr>"

definition count_record :: "(f64 \<Rightarrow> int) \<Rightarrow> Record \<Rightarrow> Tally \<Rightarrow> Tally" where
  \<comment> \<open>the switch over the stage\<close>
  "count_record oor r t =
     (if rc_Stage r = ''usage'' then count_usage oor r t
      else if rc_Stage r = ''policy'' then
        (if has_prefix ''VIOLATED'' (rc_Output r) then count_blocked t
         else if has_prefix ''PENDING'' (rc_Output r) then count_pending t else t)
      else if rc_Stage r = ''approval'' then
        (if has_prefix ''REJECTED'' (rc_Output r) \<or> has_prefix ''REFUSED'' (rc_Output r) then count_blocked t else t)
      else if rc_Stage r = ''tenant'' then
        (if has_prefix ''REFUSED'' (rc_Output r) then count_blocked t else t)
      else t)"

definition tally_records :: "(f64 \<Rightarrow> int) \<Rightarrow> string \<Rightarrow> Record list \<Rightarrow> Tally" where
  "tally_records oor name rs = fold (\<lambda>r t. count_record oor r (see_record r t)) rs (start_tally name)"

definition spark_of :: "Tally \<Rightarrow> int list" where
  "spark_of t =
     (let spark = map (at_cycle (ty_perCycle t)) (sort (ty_cycles t)) in if spark = [] then [0] else spark)"

definition InspectRuntime :: "(f64 \<Rightarrow> int) \<Rightarrow> gotime \<Rightarrow> string \<Rightarrow> Runtime \<Rightarrow> gotime \<Rightarrow> InstanceHealth" where
  \<comment> \<open>the second argument is the clock, read when the instant given is zero\<close>
  "InspectRuntime oor clk name r now =
     (let now' = (if IsZero now then clk else now);
          t = tally_records oor name (Log_Records (rt_ReasoningLog r));
          (intact, detail) = Verify (rt_ReasoningLog r);
          h = (ty_health t)\<lparr>ih_Cycles := int (length (ty_cycles t)), ih_Spark := spark_of t,
                ih_ChainIntact := intact, ih_ChainDetail := detail,
                ih_Freshness := freshnessOf (ih_Last (ty_health t)) now'\<rparr>
      in h\<lparr>ih_Status := fst (classifyHealth h), ih_Reason := snd (classifyHealth h)\<rparr>)"

definition InspectTrailFile ::
  "(f64 \<Rightarrow> int) \<Rightarrow> gotime \<Rightarrow> string \<Rightarrow> string \<Rightarrow> (string, string) outcome \<Rightarrow> gotime \<Rightarrow> (string, InstanceHealth) outcome" where
  \<comment> \<open>the name, the path, and the text of the file or the error of reading it\<close>
  "InspectTrailFile oor clk name path existing now =
     bindR (ReadTrail path existing) (\<lambda>log.
       (let h = InspectRuntime oor clk name ((NewRuntime name)\<lparr>rt_ReasoningLog := log\<rparr>) now;
            (intact, detail) = VerifyTrail path (case existing of Inr c \<Rightarrow> Some c | Inl e \<Rightarrow> None);
            h' = h\<lparr>ih_ChainIntact := intact, ih_ChainDetail := detail\<rparr>
        in Inr (h'\<lparr>ih_Status := fst (classifyHealth h'), ih_Reason := snd (classifyHealth h')\<rparr>)))"

section \<open>The fleet\<close>

record FleetHealth =
  fh_Instances :: "InstanceHealth list"
  fh_Cycles :: int
  fh_Tokens :: int
  fh_Dollars :: f64
  fh_Blocked :: int
  fh_Pending :: int
  fh_Failed :: int
  fh_Broken :: int
  fh_At :: gotime

definition new_fleet :: "gotime \<Rightarrow> FleetHealth" where
  "new_fleet now = \<lparr>fh_Instances = [], fh_Cycles = 0, fh_Tokens = 0, fh_Dollars = fzero, fh_Blocked = 0, fh_Pending = 0,
     fh_Failed = 0, fh_Broken = 0, fh_At = now\<rparr>"

definition Fleet_Status :: "FleetHealth \<Rightarrow> Health" where
  "Fleet_Status f = fold (\<lambda>i worst. if Rank worst < Rank (ih_Status i) then ih_Status i else worst) (fh_Instances f) Healthy"

definition Fleet_Add :: "InstanceHealth \<Rightarrow> FleetHealth \<Rightarrow> FleetHealth" where
  "Fleet_Add i f =
     f\<lparr>fh_Instances := fh_Instances f @ [i], fh_Cycles := fh_Cycles f + ih_Cycles i, fh_Tokens := fh_Tokens f + ih_Tokens i,
       fh_Dollars := fadd (fh_Dollars f) (ih_Dollars i), fh_Blocked := fh_Blocked f + ih_Blocked i,
       fh_Pending := fh_Pending f + ih_Pending i, fh_Failed := fh_Failed f + ih_Failed i,
       fh_Broken := (if ih_Status i = Broken then fh_Broken f + 1 else fh_Broken f)\<rparr>"

definition SortWorstFirst :: "FleetHealth \<Rightarrow> FleetHealth" where
  \<comment> \<open>a stable sort by name, then a stable sort by rank: the order of the source's comparison\<close>
  "SortWorstFirst f =
     f\<lparr>fh_Instances := sort_key (\<lambda>i. 2 - Rank (ih_Status i)) (sort_key ih_Name (fh_Instances f))\<rparr>"

definition failures_of :: "Kernel \<Rightarrow> string \<Rightarrow> int" where
  "failures_of k name =
     int (length (filter (\<lambda>d. ds_Status d = StatusFailed \<and> ds_Instance d = name) (History k)))"

definition inspect_instance :: "(f64 \<Rightarrow> int) \<Rightarrow> gotime \<Rightarrow> Kernel \<Rightarrow> gotime \<Rightarrow> string \<times> nat \<Rightarrow> InstanceHealth" where
  "inspect_instance oor clk k now e =
     (let i = InspectRuntime oor clk (fst e) (kn_heap k (snd e)) now; failed = failures_of k (fst e) in
      if 0 < failed
      then (let i' = i\<lparr>ih_Failed := failed\<rparr> in i'\<lparr>ih_Status := fst (classifyHealth i'), ih_Reason := snd (classifyHealth i')\<rparr>)
      else i)"

definition InspectFleet :: "(f64 \<Rightarrow> int) \<Rightarrow> gotime \<Rightarrow> Kernel \<Rightarrow> gotime \<Rightarrow> FleetHealth" where
  "InspectFleet oor clk k now =
     (let now' = (if IsZero now then clk else now)
      in SortWorstFirst (fold (\<lambda>e. Fleet_Add (inspect_instance oor clk k now' e)) (kn_instances k) (new_fleet now')))"

section \<open>The terminal view\<close>

definition glyph :: "nat \<Rightarrow> string" where
  \<comment> \<open>one of the eight block heights\<close>
  "glyph i = [CHR 0xE2, CHR 0x96, char_of (0x81 + i)]"

definition spark_index :: "int \<Rightarrow> int \<Rightarrow> int" where
  \<comment> \<open>the division of Go truncates towards zero\<close>
  "spark_index peak v = (let p = wrap64 (v * 7) in if 0 \<le> p then p div peak else - (- p div peak))"

definition last_values :: "nat \<Rightarrow> int list \<Rightarrow> int list" where
  "last_values width values = drop (length values - width) values"

definition Sparkline :: "int list \<Rightarrow> int \<Rightarrow> string list option" where
  \<comment> \<open>the glyphs in order; None where an index falls outside their table, which panics\<close>
  "Sparkline values width =
     (if values = [] \<or> width \<le> 0 then Some []
      else (let shown = last_values (nat width) values; peak = fold max shown 0 in
            if list_all (\<lambda>v. peak \<le> 0 \<or> (0 \<le> spark_index peak v \<and> spark_index peak v < 8)) shown
            then Some (map (\<lambda>v. if peak \<le> 0 then glyph 0 else glyph (nat (spark_index peak v))) shown)
            else None))"

definition pad_to :: "nat \<Rightarrow> nat \<Rightarrow> string \<Rightarrow> string" where
  \<comment> \<open>the verb %-ns on a text of that many runes\<close>
  "pad_to n runes s = s @ replicate (n - runes) CHR '' ''"

definition pad_text :: "nat \<Rightarrow> string \<Rightarrow> string" where
  "pad_text n s = pad_to n (length s) s"

definition pad_left :: "nat \<Rightarrow> string \<Rightarrow> string" where
  "pad_left n s = replicate (n - length s) CHR '' '' @ s"

definition rule_line :: string where
  "rule_line = concat (replicate 78 [CHR 0xE2, CHR 0x94, CHR 0x80])"

definition fleet_row :: "InstanceHealth \<Rightarrow> string option" where
  "fleet_row i =
     (case Sparkline (ih_Spark i) 10 of
        None \<Rightarrow> None
      | Some glyphs \<Rightarrow>
          Some (''  '' @ pad_text 20 (truncate_text (ih_Name i) 20) @ '' '' @ pad_text 10 (health_text (ih_Status i)) @ '' '' @
            pad_text 8 (freshness_text (ih_Freshness i)) @ '' '' @ pad_left 7 (show_int (ih_Cycles i)) @ '' '' @
            pad_left 9 (show_int (ih_Tokens i)) @ '' '' @ pad_to 10 (length glyphs) (concat glyphs) @ '' '' @
            truncate_text (ih_Reason i) 30 @ [newline]))"

definition fleet_head :: "FleetHealth \<Rightarrow> string" where
  "fleet_head f =
     ''EAR FLEET  '' @ format_date (fh_At f) @ '' '' @ format_time (fh_At f) @ ''  '' @ ToUpper (health_text (Fleet_Status f)) @
     [newline] @ rule_line @ [newline] @
     show_nat (length (fh_Instances f)) @ '' instance(s)   '' @ show_int (fh_Cycles f) @ '' cycles   '' @
     show_int (fh_Tokens f) @ '' tokens   $'' @ format_f 4 (fh_Dollars f) @ ''   '' @ show_int (fh_Blocked f) @ '' blocked   '' @
     show_int (fh_Pending f) @ '' pending   '' @ show_int (fh_Failed f) @ '' failed'' @ [newline, newline]"

definition fleet_columns :: string where
  "fleet_columns =
     ''  '' @ pad_text 20 ''INSTANCE'' @ '' '' @ pad_text 10 ''STATUS'' @ '' '' @ pad_text 8 ''FRESH'' @ '' '' @
     pad_left 7 ''CYCLES'' @ '' '' @ pad_left 9 ''TOKENS'' @ '' '' @ pad_text 10 ''ACTIVITY'' @ '' REASON'' @ [newline]"

definition RenderFleet :: "FleetHealth \<Rightarrow> string option" where
  "RenderFleet f =
     (if length (fh_Instances f) = 0 then Some (fleet_head f @ ''  (no instances registered)'' @ [newline])
      else map_option (\<lambda>rows. fleet_head f @ fleet_columns @ concat rows) (collect_opt (map fleet_row (fh_Instances f))))"

end
