(* ===== verification/MonitorProps.thy ===== *)
theory MonitorProps
  imports Monitor CycleLive
begin

text \<open>
  What the monitor shows: the sparkline divides the tokens among the cycles, a trail the log itself
  wrote is never shown as broken and an edited one always is, the fleet is listed worst first with the
  worst status as its own, and the terminal view never fails on counts that are not negative.  Two
  facts state how approvals are counted: a parked gate stays pending whatever follows, and a verdict of
  somebody who may not approve counts as a block although the cycle waits.
\<close>

section \<open>Tokens\<close>

lemma sum_list_bump:
  "distinct cs \<Longrightarrow> c \<in> set cs \<Longrightarrow> sum_list (map (f(c := f c + (n :: int))) cs) = sum_list (map f cs) + n"
proof (induction cs)
  case (Cons a cs)
  show ?case
  proof (cases "a = c")
    case True
    with Cons.prems have "map (f(c := f c + n)) cs = map f cs" by (intro map_cong) auto
    then have "sum_list (map (f(c := f c + n)) cs) = sum_list (map f cs)" by (rule arg_cong)
    with True show ?thesis by (simp del: fun_upd_apply add: fun_upd_same)
  qed (use Cons in auto)
qed simp

lemma at_cycle_put: "at_cycle (map_put c v m) = (at_cycle m)(c := v)"
  by (rule ext) (simp add: at_cycle_def)

definition tally_inv :: "Tally \<Rightarrow> bool" where
  "tally_inv t \<longleftrightarrow>
     distinct (ty_cycles t) \<and> fst ` set (ty_perCycle t) \<subseteq> set (ty_cycles t) \<and>
     sum_list (map (at_cycle (ty_perCycle t)) (ty_cycles t)) = ih_Tokens (ty_health t)"

lemma at_cycle_new: "c \<notin> fst ` set m \<Longrightarrow> at_cycle m c = 0"
proof -
  assume "c \<notin> fst ` set m"
  then have "map_of m c = None" by (simp add: map_of_eq_None_iff)
  then show "at_cycle m c = 0" by (simp add: at_cycle_def)
qed

lemma see_record_inv: "tally_inv t \<Longrightarrow> tally_inv (see_record r t) \<and> rc_Cycle r \<in> set (ty_cycles (see_record r t))"
  by (auto simp: tally_inv_def see_record_def Let_def subset_iff intro!: at_cycle_new)

lemma fst_map_put: "fst ` set (map_put k v m) = insert k (fst ` set m)"
  by (induction m) (auto simp: map_put_def)

lemma count_record_inv:
  assumes "tally_inv t" "rc_Cycle r \<in> set (ty_cycles t)"
  shows "tally_inv (count_record oor r t)"
proof -
  have "tally_inv (count_usage oor r t)"
    using assms by (simp add: tally_inv_def count_usage_def Let_def at_cycle_put sum_list_bump fst_map_put)
  with assms show ?thesis
    by (simp add: count_record_def tally_inv_def count_blocked_def count_pending_def)
qed

lemma tally_records_inv: "tally_inv (tally_records oor name rs)"
proof -
  have "tally_inv t \<Longrightarrow> tally_inv (fold (\<lambda>r t. count_record oor r (see_record r t)) rs t)" for t
    by (induction rs arbitrary: t) (simp_all add: count_record_inv see_record_inv)
  moreover have "tally_inv (start_tally name)" by (simp add: tally_inv_def start_tally_def new_health_def)
  ultimately show ?thesis by (simp add: tally_records_def)
qed

lemma InspectRuntime_sel:
  "ih_Tokens (InspectRuntime oor clk name r now) = ih_Tokens (ty_health (tally_records oor name (Log_Records (rt_ReasoningLog r))))"
  "ih_Pending (InspectRuntime oor clk name r now) = ih_Pending (ty_health (tally_records oor name (Log_Records (rt_ReasoningLog r))))"
  "ih_Failed (InspectRuntime oor clk name r now) = ih_Failed (ty_health (tally_records oor name (Log_Records (rt_ReasoningLog r))))"
  "ih_Spark (InspectRuntime oor clk name r now) = spark_of (tally_records oor name (Log_Records (rt_ReasoningLog r)))"
  "ih_ChainIntact (InspectRuntime oor clk name r now) = fst (Verify (rt_ReasoningLog r))"
  "ih_Status (InspectRuntime oor clk name r now) = fst (classifyHealth (InspectRuntime oor clk name r now))"
  by (simp_all add: InspectRuntime_def classifyHealth_def Let_def split: prod.split)

text \<open>
  The bars of a runtime's sparkline are the tokens of its cycles: one bar a cycle, and together
  they are the total.
\<close>
theorem spark_partitions_tokens:
  "sum_list (ih_Spark (InspectRuntime oor clk name r now)) = ih_Tokens (InspectRuntime oor clk name r now)"
proof -
  let ?t = "tally_records oor name (Log_Records (rt_ReasoningLog r))"
  have inv: "tally_inv ?t" by (rule tally_records_inv)
  have "sum_list (map f (sort cs)) = sum_list (map f cs)" for f :: "int \<Rightarrow> int" and cs
    by (metis mset_map mset_sort sum_mset_sum_list)
  with inv have "sum_list (map (at_cycle (ty_perCycle ?t)) (sort (ty_cycles ?t))) = ih_Tokens (ty_health ?t)"
    by (simp add: tally_inv_def)
  moreover have "sum_list (spark_of t) = sum_list (map (at_cycle (ty_perCycle t)) (sort (ty_cycles t)))" for t
    by (cases "sort (ty_cycles t)") (simp_all add: spark_of_def)
  ultimately show ?thesis by (simp only: InspectRuntime_sel)
qed

section \<open>The chain\<close>

lemma status_broken: "ih_Status (InspectRuntime oor clk name r now) = Broken \<longleftrightarrow> \<not> fst (Verify (rt_ReasoningLog r))"
  unfolding InspectRuntime_sel(6) by (simp add: classifyHealth_def InspectRuntime_sel(5) Let_def)

text \<open>
  A runtime whose log was written by its own operations is never shown as broken, and its
  status is then decided by the approvals it waits for alone.
\<close>
theorem own_log_is_not_broken:
  assumes "rt_ReasoningLog r = fold log_step ops new_log"
  shows "ih_Status (InspectRuntime oor clk name r now) =
    (if 0 < ih_Pending (InspectRuntime oor clk name r now) then Attention else Healthy)"
proof -
  have "ih_Failed (ty_health (tally_records oor name rs)) = 0" for rs
  proof -
    have "ih_Failed (ty_health t) = 0 \<Longrightarrow>
      ih_Failed (ty_health (fold (\<lambda>r t. count_record oor r (see_record r t)) rs t)) = 0" for t
      by (induction rs arbitrary: t)
        (simp_all add: count_record_def count_usage_def count_blocked_def count_pending_def see_record_def Let_def)
    then show ?thesis by (simp add: tally_records_def start_tally_def new_health_def)
  qed
  then show ?thesis
    unfolding InspectRuntime_sel(6)
    by (simp add: classifyHealth_def InspectRuntime_sel(3,5) assms log_steps_verify)
qed

section \<open>Approvals\<close>

lemma pending_grows:
  "ih_Pending (ty_health t) \<le> ih_Pending (ty_health (count_record oor r (see_record r t)))"
  by (simp add: count_record_def count_usage_def count_blocked_def count_pending_def see_record_def Let_def)

lemma pending_grows_fold:
  "ih_Pending (ty_health t) \<le> ih_Pending (ty_health (fold (\<lambda>r t. count_record oor r (see_record r t)) rs t))"
proof (induction rs arbitrary: t)
  case (Cons r rs)
  note pending_grows [of t oor r]
  also note Cons.IH [of "count_record oor r (see_record r t)"]
  finally show ?case by simp
qed simp

lemma pending_counted:
  assumes "rc_Stage r = ''policy''" "has_prefix ''PENDING'' (rc_Output r)"
  shows "ih_Pending (ty_health (count_record oor r (see_record r t))) = ih_Pending (ty_health t) + 1"
proof -
  have "\<not> has_prefix ''VIOLATED'' (rc_Output r)"
    using assms(2) by (cases "rc_Output r") (auto simp: has_prefix_iff)
  with assms show ?thesis by (simp add: count_record_def count_pending_def see_record_def Let_def)
qed

text \<open>
  A gate that was parked once is counted as waiting for as long as its record stands in the log:
  whatever the log holds besides, an approval of that gate included, the runtime is not shown as healthy.
\<close>
theorem parked_gate_stays_pending:
  assumes "rt_ReasoningLog r = fold log_step ops new_log"
    "rec \<in> set (Log_Records (rt_ReasoningLog r))" "rc_Stage rec = ''policy''" "has_prefix ''PENDING'' (rc_Output rec)"
  shows "ih_Status (InspectRuntime oor clk name r now) = Attention"
proof -
  obtain before after where rs: "Log_Records (rt_ReasoningLog r) = before @ rec # after"
    using assms(2) split_list by metis
  let ?f = "\<lambda>r t. count_record oor r (see_record r t)"
  have "0 \<le> ih_Pending (ty_health (fold ?f before (start_tally name)))"
    using pending_grows_fold [of "start_tally name" oor before] by (simp add: start_tally_def new_health_def)
  then have "0 < ih_Pending (ty_health (fold ?f (rec # after) (fold ?f before (start_tally name))))"
    using pending_grows_fold [of "?f rec (fold ?f before (start_tally name))" oor after] assms(3,4)
    by (simp add: pending_counted)
  then have "0 < ih_Pending (InspectRuntime oor clk name r now)"
    by (simp add: InspectRuntime_sel(2) rs tally_records_def)
  moreover have "fst (Verify (rt_ReasoningLog r))" by (simp add: assms(1) log_steps_verify)
  ultimately show ?thesis
    unfolding InspectRuntime_sel(6) by (simp add: classifyHealth_def InspectRuntime_sel(5))
qed

definition approved_later :: Runtime where
  "approved_later =
     (NewRuntime ''desk'')\<lparr>rt_ReasoningLog := fold log_step
        [OpRecord 1 (record_of ''policy'' [] ''PENDING APPROVAL''), OpRecord 2 (record_of ''approval'' [] ''approved by ana'')]
        new_log\<rparr>"

theorem parked_gate_stays_pending_witness:
  "ih_Status (InspectRuntime (\<lambda>_. 0) 0 ''desk'' approved_later 5) = Attention"
proof -
  let ?ops = "[OpRecord 1 (record_of ''policy'' [] ''PENDING APPROVAL''), OpRecord 2 (record_of ''approval'' [] ''approved by ana'')]"
  have log: "rt_ReasoningLog approved_later = fold log_step ?ops new_log" by (simp add: approved_later_def)
  have recs: "Log_Records (rt_ReasoningLog approved_later) =
      [written 1 (record_of ''policy'' [] ''PENDING APPROVAL'') new_log,
       written 2 (record_of ''approval'' [] ''approved by ana'') (Log_Record 1 (record_of ''policy'' [] ''PENDING APPROVAL'') new_log)]"
    unfolding log using Log_Record_effect [OF chain_inv_new, of 1 "record_of ''policy'' [] ''PENDING APPROVAL''"]
    by (simp add: Log_Records_Record chain_inv_new) (simp add: Log_Records_def new_log_def)
  show ?thesis
    by (rule parked_gate_stays_pending [OF log, of "written 1 (record_of ''policy'' [] ''PENDING APPROVAL'') new_log"])
      (simp_all add: recs record_of_def has_prefix_iff)
qed

lemma not_All_Not [simp]: "\<not> All Not"
  by auto

text \<open>
  The verdict of somebody who may not approve leaves the cycle waiting for an approval, but the
  monitor counts its record as a block, which it shows as healthy.
\<close>
theorem refused_approver_counts_as_block:
  assumes "po_ApprovalRequired p" "\<not> ApproverAllowed p who"
  shows "fst (enforce w [p] (Some \<lparr>av_Approver = who, av_Verdict = Some True, av_Note = note\<rparr>) scope r) = Inl (ApprovalRequiredError [p])
    \<and> count_record oor
       (ruling_record i p (rule_policy (Some \<lparr>av_Approver = who, av_Verdict = Some True, av_Note = note\<rparr>) p False rationale)) t
      = count_blocked t
    \<and> count_record oor (pending_record [p]) t = t"
  using assms
  by (simp add: enforce_def rejects_def thenS_def recordA_def rule_policy_def ruling_record_def pending_record_def
      record_of_def count_record_def Let_def has_prefix_def)

section \<open>The fleet\<close>

definition listed_before :: "InstanceHealth \<Rightarrow> InstanceHealth \<Rightarrow> bool" where
  "listed_before a b \<longleftrightarrow>
     Rank (ih_Status b) < Rank (ih_Status a) \<or> (Rank (ih_Status a) = Rank (ih_Status b) \<and> ih_Name a \<le> ih_Name b)"

lemma sorted_insort_refines:
  assumes "sorted_wrt (\<lambda>a b. f a < (f b :: 'b :: linorder) \<or> (f a = f b \<and> le a b)) zs" "list_all (le y) zs"
  shows "sorted_wrt (\<lambda>a b. f a < f b \<or> (f a = f b \<and> le a b)) (insort_key f y zs)"
  using assms
proof (induction zs)
  case (Cons z zs)
  then show ?case by (auto simp: set_insort_key list_all_iff)
qed simp

lemma stable_sort_refines:
  "sorted_wrt le ys \<Longrightarrow> sorted_wrt (\<lambda>a b. f a < (f b :: 'b :: linorder) \<or> (f a = f b \<and> le a b)) (sort_key f ys)"
proof (induction ys)
  case (Cons y ys)
  then show ?case using sorted_insort_refines [of f le "sort_key f ys" y] by (simp add: list_all_iff)
qed simp

lemma SortWorstFirst_sorted: "sorted_wrt listed_before (fh_Instances (SortWorstFirst f))"
proof -
  have "sorted_wrt (\<lambda>a b. ih_Name a \<le> ih_Name b) (sort_key ih_Name (fh_Instances f))"
    by (metis sorted_sort_key sorted_map)
  from stable_sort_refines [OF this, of "\<lambda>i. 2 - Rank (ih_Status i)"]
  have "sorted_wrt (\<lambda>a b. 2 - Rank (ih_Status a) < 2 - Rank (ih_Status b) \<or>
      (2 - Rank (ih_Status a) = 2 - Rank (ih_Status b) \<and> ih_Name a \<le> ih_Name b)) (fh_Instances (SortWorstFirst f))"
    by (simp add: SortWorstFirst_def)
  moreover have "listed_before a b" if "2 - Rank (ih_Status a) < 2 - Rank (ih_Status b) \<or>
      (2 - Rank (ih_Status a) = 2 - Rank (ih_Status b) \<and> ih_Name a \<le> ih_Name b)" for a b
    using that by (cases "ih_Status a"; cases "ih_Status b") (simp_all add: listed_before_def)
  ultimately show ?thesis by (rule sorted_wrt_mono_rel [rotated])
qed

lemma worst_is_first:
  "sorted_wrt listed_before (i # is) \<Longrightarrow> fold (\<lambda>i worst. if Rank worst < Rank (ih_Status i) then ih_Status i else worst) is (ih_Status i) = ih_Status i"
  by (induction "is") (auto simp: listed_before_def)

lemma Rank_0: "Rank h = 0 \<longleftrightarrow> h = Healthy"
  by (cases h) simp_all

lemma Fleet_Status_first:
  assumes "sorted_wrt listed_before (fh_Instances f)"
  shows "Fleet_Status f = (case fh_Instances f of [] \<Rightarrow> Healthy | i # is \<Rightarrow> ih_Status i)"
proof (cases "fh_Instances f")
  case (Cons i "is")
  have "(if Rank Healthy < Rank (ih_Status i) then ih_Status i else Healthy) = ih_Status i"
    using Rank_0 [of "ih_Status i"] by auto
  with Cons worst_is_first [of i "is"] assms show ?thesis by (simp add: Fleet_Status_def)
qed (simp add: Fleet_Status_def)

definition fleet_sums :: "FleetHealth \<Rightarrow> bool" where
  "fleet_sums f \<longleftrightarrow>
     fh_Cycles f = sum_list (map ih_Cycles (fh_Instances f)) \<and> fh_Tokens f = sum_list (map ih_Tokens (fh_Instances f)) \<and>
     fh_Blocked f = sum_list (map ih_Blocked (fh_Instances f)) \<and> fh_Pending f = sum_list (map ih_Pending (fh_Instances f)) \<and>
     fh_Failed f = sum_list (map ih_Failed (fh_Instances f)) \<and>
     fh_Broken f = int (length (filter (\<lambda>i. ih_Status i = Broken) (fh_Instances f)))"

lemma fleet_fold:
  "fleet_sums f \<Longrightarrow> fleet_sums (fold (\<lambda>e. Fleet_Add (g e)) es f) \<and>
   fh_Instances (fold (\<lambda>e. Fleet_Add (g e)) es f) = fh_Instances f @ map g es"
proof (induction es arbitrary: f)
  case (Cons e es)
  have "fleet_sums (Fleet_Add (g e) f)" using Cons.prems by (auto simp: fleet_sums_def Fleet_Add_def)
  from Cons.IH [OF this] show ?case by (simp add: Fleet_Add_def)
qed simp

lemma fleet_dollars:
  "fh_Dollars (fold (\<lambda>e. Fleet_Add (g e)) es f) = foldl fadd (fh_Dollars f) (map (ih_Dollars \<circ> g) es)"
  by (induction es arbitrary: f) (simp_all add: Fleet_Add_def)

lemma sum_list_sort_key: "sum_list (map (g :: 'a \<Rightarrow> int) (sort_key f xs)) = sum_list (map g xs)"
  by (metis mset_map mset_sort sum_mset_sum_list)

lemma mset_map_sort: "mset (map g (sort_key f xs)) = mset (map g xs)"
  by (metis mset_map mset_sort)

lemma SortWorstFirst_sums: "fleet_sums f \<Longrightarrow> fleet_sums (SortWorstFirst f)"
proof -
  have "length (filter P (sort_key g xs)) = length (filter P xs)" for P g and xs :: "InstanceHealth list"
    by (metis mset_filter mset_sort size_mset)
  note len = this
  show "fleet_sums f \<Longrightarrow> fleet_sums (SortWorstFirst f)"
    by (simp add: fleet_sums_def SortWorstFirst_def sum_list_sort_key len)
qed

text \<open>
  C26.  The fleet view holds every instance of the process table once, the worst first and instances
  of the same status by name; its counts are the sums over the instances it lists, its dollars the floating
  point sum over the same instances in the order of the table (rounded at each step), and its own status is
  that of the first one.
\<close>
theorem fleet_lists_worst_first:
  "let f = InspectFleet oor clk k now in
     sorted_wrt listed_before (fh_Instances f) \<and>
     mset (map ih_Name (fh_Instances f)) = mset (Instances k) \<and>
     fleet_sums f \<and>
     (\<exists>is. mset is = mset (fh_Instances f) \<and> map ih_Name is = Instances k \<and>
        fh_Dollars f = foldl fadd fzero (map ih_Dollars is)) \<and>
     Fleet_Status f = (case fh_Instances f of [] \<Rightarrow> Healthy | i # is \<Rightarrow> ih_Status i)"
proof -
  define now' where "now' = (if IsZero now then clk else now)"
  define f0 where "f0 = fold (\<lambda>e. Fleet_Add (inspect_instance oor clk k now' e)) (kn_instances k) (new_fleet now')"
  have "ih_Name (ty_health (count_record oor r (see_record r t))) = ih_Name (ty_health t)" for r t
    by (simp add: count_record_def count_usage_def count_blocked_def count_pending_def see_record_def Let_def)
  then have "ih_Name (ty_health (fold (\<lambda>r t. count_record oor r (see_record r t)) rs t)) = ih_Name (ty_health t)" for rs t
    by (induction rs arbitrary: t) simp_all
  then have name_of: "ih_Name (inspect_instance oor clk k now' e) = fst e" for e
    by (simp add: inspect_instance_def InspectRuntime_def tally_records_def start_tally_def new_health_def Let_def split: prod.split)
  have sums: "fleet_sums f0" "fh_Instances f0 = map (inspect_instance oor clk k now') (kn_instances k)"
    using fleet_fold [of "new_fleet now'" "inspect_instance oor clk k now'" "kn_instances k"]
    by (simp_all add: f0_def fleet_sums_def new_fleet_def)
  have "mset (map ih_Name (fh_Instances (SortWorstFirst f0))) = mset (map fst (kn_instances k))"
    by (simp add: SortWorstFirst_def sums mset_map_sort multiset.map_comp comp_def name_of)
  moreover have "InspectFleet oor clk k now = SortWorstFirst f0"
    by (simp add: InspectFleet_def now'_def f0_def Let_def)
  moreover have "mset (fh_Instances f0) = mset (fh_Instances (SortWorstFirst f0)) \<and> map ih_Name (fh_Instances f0) = Instances k \<and>
      fh_Dollars (SortWorstFirst f0) = foldl fadd fzero (map ih_Dollars (fh_Instances f0))"
    by (simp add: SortWorstFirst_def sums(2) Instances_def comp_def name_of)
      (simp add: f0_def fleet_dollars new_fleet_def comp_def)
  ultimately show ?thesis
    using SortWorstFirst_sorted Fleet_Status_first SortWorstFirst_sums [OF sums(1)]
    by (simp add: Let_def Instances_def) blast
qed

section \<open>The sparkline\<close>

lemma fold_max_ge: "v \<in> set vs \<Longrightarrow> v \<le> fold max vs (a :: int)" "a \<le> fold max vs (a :: int)"
proof (induction vs arbitrary: a)
  case (Cons b vs)
  {
    case 1
    then show ?case using Cons.IH by (auto intro: order_trans [OF max.cobounded1])
  next
    case 2
    then show ?case using Cons.IH(2) [of "max b a"] by simp
  }
qed simp_all

lemma fold_max_in: "fold max vs (a :: int) \<in> insert a (set vs)"
proof (induction vs arbitrary: a)
  case (Cons b vs)
  show ?case using Cons.IH [of "max b a"] by (auto simp: max_def split: if_splits)
qed simp

lemma spark_index_bounds:
  assumes "0 \<le> v" "v \<le> peak" "0 < peak" "peak * 7 \<le> max_int64"
  shows "0 \<le> spark_index peak v \<and> spark_index peak v < 8"
proof -
  have "wrap64 (v * 7) = v * 7"
    using assms by (simp add: wrap64_def max_int64_def)
  moreover have "v * 7 div peak \<le> 7"
    using assms by (metis mult.commute mult_le_cancel_left_pos nonzero_mult_div_cancel_left order_less_imp_not_eq2 zdiv_mono1 zero_less_numeral)
  ultimately show ?thesis using assms by (simp add: spark_index_def pos_imp_zdiv_nonneg_iff)
qed

text \<open>
  On counts that are not negative and small enough that the scaling does not overflow, the
  sparkline never indexes outside its glyphs, and draws one glyph for each of the last counts.
\<close>
theorem sparkline_total:
  assumes "list_all (\<lambda>v. 0 \<le> v \<and> v * 7 \<le> max_int64) values"
  shows "\<exists>glyphs. Sparkline values width = Some glyphs \<and> length glyphs = min (length values) (nat width)"
proof (cases "values = [] \<or> width \<le> 0")
  case False
  let ?shown = "last_values (nat width) values" and ?peak = "fold max (last_values (nat width) values) 0"
  have sub: "set ?shown \<subseteq> set values" by (simp add: last_values_def set_drop_subset)
  have peak: "?peak * 7 \<le> max_int64"
    using fold_max_in [of ?shown 0] sub assms by (auto simp: list_all_iff max_int64_def)
  have "list_all (\<lambda>v. ?peak \<le> 0 \<or> (0 \<le> spark_index ?peak v \<and> spark_index ?peak v < 8)) ?shown"
    using spark_index_bounds [OF _ fold_max_ge(1) _ peak] sub assms by (auto simp: list_all_iff not_le)
  with False show ?thesis by (simp add: Sparkline_def Let_def last_values_def)
qed (auto simp: Sparkline_def)

theorem sparkline_total_witness:
  "\<exists>glyphs. Sparkline [0, 5, 10] 2 = Some glyphs \<and> length glyphs = 2"
  using sparkline_total [of "[0, 5, 10]" 2] by (simp add: max_int64_def numeral_2_eq_2)

end
