(* ===== verification/Server.thy ===== *)
theory Server
  imports Monitor Loader
begin

text \<open>
  The control plane of \<^verbatim>\<open>server.go\<close>: routing as a function from a method, a path and a body to a
  status and a payload, the endpoints over the kernel of theory Kernel, the confinement of wire-supplied
  paths, authentication and the decoding of a request.  The file system's resolution of links, the working
  directory, the loader's surroundings and the text of a decoding error are the record \<open>ServerEnv\<close>.  A
  request is one step; the idle loop the server runs beside it is that of theory Kernel.
\<close>

section \<open>State\<close>

record ServerEnv =
  se_env :: Env
  se_load :: LoadEnv
  se_cwd :: "string option"                  \<comment> \<open>os.Getwd\<close>
  se_links :: "string \<Rightarrow> string option"     \<comment> \<open>filepath.EvalSymlinks\<close>
  se_alloc :: "Kernel \<Rightarrow> nat"                \<comment> \<open>the address of a new runtime\<close>
  se_oor :: "f64 \<Rightarrow> int"
  se_json_err :: "string \<Rightarrow> string"

record Server =
  sv_Kernel :: Kernel
  sv_StacksRoot :: string
  sv_Token :: string
  sv_Addr :: string
  sv_Claim :: "Claim option"
  sv_startedAt :: gotime
  sv_lastIntents :: "(string \<times> Intent) list"
  sv_lastResults :: "(string \<times> string) list"

datatype server_error =
    clientError int string
  | Failure ear_error

definition badRequest :: "string \<Rightarrow> server_error" where
  "badRequest msg = clientError 400 msg"

definition notFound :: "string \<Rightarrow> server_error" where
  "notFound msg = clientError 404 msg"

definition no_instance :: "string \<Rightarrow> server_error" where
  "no_instance name = notFound (''no such instance '' @ go_quote name)"

type_synonym response = "(server_error, goval) outcome"

definition NewServer :: "Kernel \<Rightarrow> gotime \<Rightarrow> Server" where
  "NewServer k now =
     \<lparr>sv_Kernel = k, sv_StacksRoot = [], sv_Token = [], sv_Addr = [], sv_Claim = None, sv_startedAt = now, sv_lastIntents = [],
      sv_lastResults = []\<rparr>"

definition drop_key :: "string \<Rightarrow> (string \<times> 'a) list \<Rightarrow> (string \<times> 'a) list" where
  \<comment> \<open>delete on a map\<close>
  "drop_key k m = filter (\<lambda>e. fst e \<noteq> k) m"

section \<open>Reading a body\<close>

definition stringField :: "ctx \<Rightarrow> string \<Rightarrow> (server_error, string) outcome" where
  "stringField body key =
     (case map_of body key of
        None \<Rightarrow> Inl (badRequest (go_quote key @ '' is required''))
      | Some (VStr s) \<Rightarrow>
          if TrimSpace s = [] then Inl (badRequest (go_quote key @ '' must be a non-empty string'')) else Inr s
      | Some _ \<Rightarrow> Inl (badRequest (go_quote key @ '' must be a non-empty string'')))"

definition contextField :: "ctx \<Rightarrow> (server_error, ctx) outcome" where
  "contextField body =
     (case map_of body ''context'' of
        None \<Rightarrow> Inr []
      | Some VNil \<Rightarrow> Inr []
      | Some (VMap m) \<Rightarrow> Inr m
      | Some _ \<Rightarrow> Inl (badRequest (go_quote ''context'' @ '' must be an object'')))"

definition ParseBool :: "string \<Rightarrow> bool option" where
  "ParseBool s =
     (if s \<in> {''1'', ''t'', ''T'', ''true'', ''TRUE'', ''True''} then Some True
      else if s \<in> {''0'', ''f'', ''F'', ''false'', ''FALSE'', ''False''} then Some False else None)"

fun boolValue :: "goval \<Rightarrow> bool option" where
  "boolValue (VBool b) = Some b"
| "boolValue (VStr s) = ParseBool s"
| "boolValue _ = None"

fun intValue :: "(f64 \<Rightarrow> int) \<Rightarrow> goval \<Rightarrow> int option" where
  "intValue oor (VInt n) = Some n"
| "intValue oor (VFloat f) = Some (f_to_int64 oor f)"
| "intValue oor (VStr s) = Atoi s"
| "intValue oor _ = None"

definition splitPath :: "string \<Rightarrow> string list" where
  "splitPath path = filter (\<lambda>seg. seg \<noteq> []) (split_char slash (trim_chars ''/'' path))"

definition equalPath :: "string list \<Rightarrow> string list \<Rightarrow> bool" where
  "equalPath parts want \<longleftrightarrow> length parts = length want \<and> list_all (\<lambda>i. parts ! i = want ! i) [0 ..< length parts]"

definition query_pair :: "string \<Rightarrow> ctx \<Rightarrow> ctx" where
  "query_pair pair out =
     (let (key, v) = (case cut_at ''='' pair of Some kv \<Rightarrow> kv | None \<Rightarrow> (pair, []))
      in if pair = [] \<or> key = [] then out else map_put key (Coerce v) out)"

definition parseQueryFlat :: "string \<Rightarrow> ctx" where
  "parseQueryFlat query = fold query_pair (split_char CHR ''&'' query) []"

definition merge_body :: "ctx \<Rightarrow> ctx \<Rightarrow> ctx" where
  "merge_body body query = fold (\<lambda>(k, v). map_put k v) body query"

section \<open>Confinement\<close>

definition Abs_path :: "ServerEnv \<Rightarrow> string \<Rightarrow> string option" where
  \<comment> \<open>filepath.Abs\<close>
  "Abs_path e p =
     (if IsAbs p then Some (Clean p) else map_option (\<lambda>d. Join [d, p]) (se_cwd e))"

fun drop_common :: "string list \<Rightarrow> string list \<Rightarrow> string list \<times> string list" where
  "drop_common (b # bs) (t # ts) = (if b = t then drop_common bs ts else (b # bs, t # ts))"
| "drop_common bs ts = (bs, ts)"

definition Rel :: "string \<Rightarrow> string \<Rightarrow> string option" where
  \<comment> \<open>filepath.Rel of two absolute paths: up out of what is left of the base, then down\<close>
  "Rel base targ =
     (if IsAbs base \<noteq> IsAbs targ then None
      else (case drop_common (clean_elements base) (clean_elements targ) of
              ([], []) \<Rightarrow> Some ''.''
            | (b, t) \<Rightarrow> Some (join_with [slash] (replicate (length b) ''..'' @ t))))"

definition or_same :: "(string \<Rightarrow> string option) \<Rightarrow> string \<Rightarrow> string" where
  "or_same f p = (case f p of Some q \<Rightarrow> q | None \<Rightarrow> p)"

definition escapes :: "string option \<Rightarrow> bool" where
  "escapes rel \<longleftrightarrow> (case rel of None \<Rightarrow> True | Some r \<Rightarrow> r = ''..'' \<or> has_prefix ''../'' r)"

definition stacks_root :: "ServerEnv \<Rightarrow> Server \<Rightarrow> string option" where
  \<comment> \<open>the root, absolute and with its links resolved\<close>
  "stacks_root e s = map_option (or_same (se_links e)) (Abs_path e (sv_StacksRoot s))"

definition resolveStack :: "ServerEnv \<Rightarrow> Server \<Rightarrow> string \<Rightarrow> (server_error, string) outcome" where
  "resolveStack e s stack =
     (case stacks_root e s of
        None \<Rightarrow> Inl (Failure (Fault ''resolving the stacks root''))
      | Some root_dir \<Rightarrow>
          (case Abs_path e (if IsAbs stack then stack else Join [root_dir, stack]) of
             None \<Rightarrow> Inl (badRequest ''unreadable stack path'')
           | Some c \<Rightarrow>
               (let candidate = or_same (se_links e) c in
                if escapes (Rel root_dir candidate)
                then Inl (clientError 403 ''stack path escapes the configured stacks root'')
                else Inr candidate)))"

section \<open>Endpoints\<close>

definition dispatch_payload :: "Dispatch \<Rightarrow> goval" where
  "dispatch_payload d =
     VMap [(''task_id'', VInt (ds_TaskID d)), (''instance'', VStr (ds_Instance d)),
           (''status'', VStr (status_text (ds_Status d))), (''summary'', VStr (ds_Summary d)),
           (''duration_ms'', VInt64 (ms_of (ds_Duration d)))]"

definition snapshotPayload :: "Snapshot \<Rightarrow> goval" where
  "snapshotPayload snap =
     VMap [(''instances'', VStrs (sn_Instances snap)), (''pending'', VInt (int (sn_Pending snap))),
           (''in_flight'', VStrs (sn_InFlight snap)), (''running'', VBool (sn_Running snap)),
           (''idle_waits'', VInt (int (sn_IdleWaits snap))), (''dispatched'', VInt (int (sn_Dispatched snap))),
           (''recent'', VList (map dispatch_payload (sn_Recent snap)))]"

definition health_payload :: "InstanceHealth \<Rightarrow> goval" where
  "health_payload i =
     VMap [(''name'', VStr (ih_Name i)), (''status'', VStr (health_text (ih_Status i))), (''reason'', VStr (ih_Reason i)),
           (''freshness'', VStr (freshness_text (ih_Freshness i))), (''cycles'', VInt (ih_Cycles i)),
           (''calls'', VInt (ih_Calls i)), (''tokens'', VInt (ih_Tokens i)), (''dollars'', VFloat (ih_Dollars i)),
           (''blocked'', VInt (ih_Blocked i)), (''pending'', VInt (ih_Pending i)), (''failed'', VInt (ih_Failed i)),
           (''chain_intact'', VBool (ih_ChainIntact i)), (''spark'', VList (map VInt (ih_Spark i)))]"

definition fleetPayload :: "FleetHealth \<Rightarrow> goval" where
  "fleetPayload f =
     VMap [(''status'', VStr (health_text (Fleet_Status f))), (''instances'', VList (map health_payload (fh_Instances f))),
           (''cycles'', VInt (fh_Cycles f)), (''tokens'', VInt (fh_Tokens f)), (''dollars'', VFloat (fh_Dollars f)),
           (''blocked'', VInt (fh_Blocked f)), (''pending'', VInt (fh_Pending f)), (''failed'', VInt (fh_Failed f)),
           (''broken'', VInt (fh_Broken f))]"

definition uptime_seconds :: "(f64 \<Rightarrow> int) \<Rightarrow> duration \<Rightarrow> int" where
  \<comment> \<open>int(d.Seconds())\<close>
  "uptime_seconds oor d =
     f_to_int64 oor (fadd (f_of_int (d div second_ns)) (fdiv (f_of_int (d mod second_ns)) (f_of_int second_ns)))"

definition server_health :: "ServerEnv \<Rightarrow> Server \<Rightarrow> response \<times> Server" where
  "server_health e s =
     (let snap = Kernel_Snapshot (sv_Kernel s); (now, k) = readClock (se_env e) (sv_Kernel s)
      in (Inr (VMap [(''status'', VStr ''ok''), (''instances'', VInt (int (length (sn_Instances snap)))),
             (''pending'', VInt (int (sn_Pending snap))), (''dispatched'', VInt (int (sn_Dispatched snap))),
             (''running'', VBool (sn_Running snap)),
             (''uptime_s'', VInt (uptime_seconds (se_oor e) (now - sv_startedAt s)))]),
          s\<lparr>sv_Kernel := k\<rparr>))"

definition server_fleet :: "ServerEnv \<Rightarrow> Server \<Rightarrow> response \<times> Server" where
  "server_fleet e s =
     (let (now, k) = readClock (se_env e) (sv_Kernel s)
      in (Inr (fleetPayload (InspectFleet (se_oor e) now k now)), s\<lparr>sv_Kernel := k\<rparr>))"

definition create_name :: "ctx \<Rightarrow> string \<Rightarrow> string" where
  "create_name body dir =
     (case map_of body ''name'' of Some (VStr n) \<Rightarrow> if TrimSpace n = [] then Base dir else n | _ \<Rightarrow> Base dir)"

definition register_loaded :: "ServerEnv \<Rightarrow> string \<Rightarrow> Runtime \<Rightarrow> Kernel \<Rightarrow> Kernel" where
  "register_loaded e name rt k =
     (let a = se_alloc e k in Register name a (k\<lparr>kn_heap := (kn_heap k)(a := rt)\<rparr>))"

definition server_create :: "ServerEnv \<Rightarrow> ctx \<Rightarrow> Server \<Rightarrow> response \<times> Server" where
  "server_create e body s =
     (if sv_StacksRoot s = [] then
        (Inl (clientError 403 ''this server has no stacks root configured, so it will not load stacks from the wire''), s)
      else (case bindR (stringField body ''stack'') (resolveStack e s) of
        Inl err \<Rightarrow> (Inl err, s)
      | Inr dir \<Rightarrow>
          (case LoadRuntime (se_load e) dir [] of
             Inl err \<Rightarrow> (Inl (badRequest (''loading the stack: '' @ err)), s)
           | Inr l \<Rightarrow>
               (let name = create_name body dir;
                    k = register_loaded e name (ld_Runtime l) (sv_Kernel s)
                in case Arm (se_env e) name [] k of
                     (Inl err, k') \<Rightarrow> (Inl (Failure (Fault err)), s\<lparr>sv_Kernel := k'\<rparr>)
                   | (Inr armed, k') \<Rightarrow>
                       (Inr (VMap [(''created'', VStr name), (''stack'', VStr dir),
                          (''org_id'', VStr (rt_OrgID (ld_Runtime l))), (''armed'', VInt (int (length armed)))]),
                        s\<lparr>sv_Kernel := k'\<rparr>)))))"

definition server_delete :: "string \<Rightarrow> Server \<Rightarrow> response \<times> Server" where
  "server_delete name s =
     (case Instance_at name (sv_Kernel s) of
        None \<Rightarrow> (Inl (no_instance name), s)
      | Some rt \<Rightarrow>
          (Inr (VMap [(''deleted'', VStr name)]),
           s\<lparr>sv_Kernel := Remove name (sv_Kernel s), sv_lastIntents := drop_key name (sv_lastIntents s),
             sv_lastResults := drop_key name (sv_lastResults s)\<rparr>))"

definition reason_answer :: "string \<Rightarrow> (ear_error, goval) outcome \<Rightarrow> response" where
  \<comment> \<open>the outcome of a cycle in the governed vocabulary\<close>
  "reason_answer name res =
     (case res of
        Inr decision \<Rightarrow>
          Inr (VMap [(''instance'', VStr name), (''outcome'', VStr ''decided''), (''decision'', VStr (Sprint decision))])
      | Inl err \<Rightarrow>
          (case error_root err of
             ApprovalRequiredError ps \<Rightarrow>
               Inr (VMap [(''instance'', VStr name), (''outcome'', VStr ''awaiting_approval''),
                  (''policies'', VStrs (policyNames ps)), (''detail'', VStr (error_text (ApprovalRequiredError ps)))])
           | PolicyViolationError scope ps \<Rightarrow>
               Inr (VMap [(''instance'', VStr name), (''outcome'', VStr ''blocked''),
                  (''policies'', VStrs (policyNames ps)), (''detail'', VStr (error_text (PolicyViolationError scope ps)))])
           | TenantBoundaryError subject org allowed \<Rightarrow>
               Inr (VMap [(''instance'', VStr name), (''outcome'', VStr ''blocked''),
                  (''detail'', VStr (error_text (TenantBoundaryError subject org allowed)))])
           | _ \<Rightarrow> Inl (Failure err)))"

definition server_reason ::
  "ServerEnv \<Rightarrow> string \<Rightarrow> nat \<Rightarrow> Intent \<Rightarrow> ApprovalVerdict option \<Rightarrow> Server \<Rightarrow> response \<times> Server" where
  "server_reason e name rt intent approval s =
     (let k = sv_Kernel s;
          (res, r) = Reason (ke_world (se_env e)) (sv_Claim s) intent approval (kn_heap k rt);
          s1 = s\<lparr>sv_Kernel := k\<lparr>kn_heap := (kn_heap k)(rt := r)\<rparr>\<rparr>
      in (reason_answer name res,
          (case res of Inr decision \<Rightarrow> s1\<lparr>sv_lastResults := map_put name (Sprint decision) (sv_lastResults s1)\<rparr> | Inl err \<Rightarrow> s1)))"

definition server_submit :: "ServerEnv \<Rightarrow> string \<Rightarrow> ctx \<Rightarrow> Server \<Rightarrow> response \<times> Server" where
  "server_submit e name body s =
     (case Instance_at name (sv_Kernel s) of
        None \<Rightarrow> (Inl (no_instance name), s)
      | Some rt \<Rightarrow>
          (case bindR (stringField body ''intent'') (\<lambda>t. bindR (contextField body) (\<lambda>c. Inr (NewIntent t (Some c)))) of
             Inl err \<Rightarrow> (Inl err, s)
           | Inr intent \<Rightarrow>
               server_reason e name rt intent None (s\<lparr>sv_lastIntents := map_put name intent (sv_lastIntents s)\<rparr>)))"

definition body_text :: "ctx \<Rightarrow> string \<Rightarrow> string" where
  \<comment> \<open>the assertion body[key].(string) whose failure gives the empty string\<close>
  "body_text body key = (case map_of body key of Some (VStr t) \<Rightarrow> t | _ \<Rightarrow> [])"

definition verdict_of :: "ctx \<Rightarrow> (server_error, ApprovalVerdict) outcome" where
  "verdict_of body =
     (case (case map_of body ''verdict'' of None \<Rightarrow> Some True | Some raw \<Rightarrow> boolValue raw) of
        None \<Rightarrow> Inl (badRequest ''verdict must be true or false'')
      | Some v \<Rightarrow> Inr \<lparr>av_Approver = body_text body ''approver'', av_Verdict = Some v, av_Note = body_text body ''note''\<rparr>)"

definition server_approve :: "ServerEnv \<Rightarrow> string \<Rightarrow> ctx \<Rightarrow> Server \<Rightarrow> response \<times> Server" where
  "server_approve e name body s =
     (case Instance_at name (sv_Kernel s) of
        None \<Rightarrow> (Inl (no_instance name), s)
      | Some rt \<Rightarrow>
          (case map_of (sv_lastIntents s) name of
             None \<Rightarrow> (Inl (badRequest (''instance '' @ go_quote name @ '' has no parked intent to approve'')), s)
           | Some intent \<Rightarrow>
               (case verdict_of body of
                  Inl err \<Rightarrow> (Inl err, s)
                | Inr approval \<Rightarrow> server_reason e name rt intent (Some approval) s)))"

definition server_status :: "string \<Rightarrow> Server \<Rightarrow> response" where
  "server_status name s =
     (case Instance_at name (sv_Kernel s) of
        None \<Rightarrow> Inl (no_instance name)
      | Some a \<Rightarrow>
          (let rt = kn_heap (sv_Kernel s) a;
               result = (case map_of (sv_lastResults s) name of Some t \<Rightarrow> t | None \<Rightarrow> [])
           in Inr (VMap
             ([(''instance'', VStr name), (''org_id'', VStr (rt_OrgID rt)),
               (''processes'', VInt (int (length (rt_Processes rt)))), (''policies'', VInt (int (length (rt_Policies rt)))),
               (''observations'', VInt (xp_Observations (rt_Experience rt)))] @
              (case map_of (sv_lastIntents s) name of Some i \<Rightarrow> [(''last_intent'', VStr (in_Text i))] | None \<Rightarrow> []) @
              (if result \<noteq> [] then [(''last_decision'', VStr result)] else [])))))"

definition record_payload :: "Record \<Rightarrow> goval" where
  "record_payload r =
     VMap [(''stage'', VStr (rc_Stage r)), (''output'', VStr (rc_Output r)), (''cycle'', VInt (rc_Cycle r))]"

definition trail_limit :: "(f64 \<Rightarrow> int) \<Rightarrow> ctx \<Rightarrow> int option" where
  "trail_limit oor body =
     (case map_of body ''limit'' of
        None \<Rightarrow> Some 50
      | Some raw \<Rightarrow> (case intValue oor raw of Some n \<Rightarrow> if n \<le> 0 then None else Some n | None \<Rightarrow> None))"

definition server_trail :: "ServerEnv \<Rightarrow> string \<Rightarrow> ctx \<Rightarrow> Server \<Rightarrow> response" where
  "server_trail e name body s =
     (case Instance_at name (sv_Kernel s) of
        None \<Rightarrow> Inl (no_instance name)
      | Some a \<Rightarrow>
          (case trail_limit (se_oor e) body of
             None \<Rightarrow> Inl (badRequest ''limit must be a positive integer'')
           | Some limit \<Rightarrow>
               (let log = rt_ReasoningLog (kn_heap (sv_Kernel s) a);
                    rs = map record_payload (Log_Records log);
                    shown = drop (length rs - nat limit) rs;
                    (intact, detail) = Verify log
                in Inr (VMap [(''instance'', VStr name), (''records'', if rs = [] then VNil else VList shown),
                     (''chain_intact'', VBool intact), (''chain_detail'', VStr detail)]))))"

section \<open>Routing\<close>

definition no_route :: "string \<Rightarrow> string list \<Rightarrow> response" where
  "no_route meth parts = Inl (notFound (''no route for '' @ meth @ '' /'' @ join_with [slash] parts))"

definition instance_route :: "ServerEnv \<Rightarrow> string \<Rightarrow> string list \<Rightarrow> ctx \<Rightarrow> Server \<Rightarrow> response \<times> Server" where
  "instance_route e meth parts body s =
     (let name = parts ! 1; action = parts ! 2 in
      if length parts = 2 \<and> meth = ''DELETE'' then server_delete name s
      else if length parts = 3 \<and> meth = ''POST'' \<and> action = ''submit'' then server_submit e name body s
      else if length parts = 3 \<and> meth = ''POST'' \<and> action = ''approve'' then server_approve e name body s
      else if length parts = 3 \<and> meth = ''GET'' \<and> action = ''status'' then (server_status name s, s)
      else if length parts = 3 \<and> meth = ''GET'' \<and> action = ''trail'' then (server_trail e name body s, s)
      else (no_route meth parts, s))"

definition route :: "ServerEnv \<Rightarrow> string \<Rightarrow> string list \<Rightarrow> ctx \<Rightarrow> Server \<Rightarrow> response \<times> Server" where
  "route e meth parts body s =
     (if meth = ''GET'' \<and> equalPath parts [''health''] then server_health e s
      else if meth = ''GET'' \<and> equalPath parts [''kernel''] then (Inr (snapshotPayload (Kernel_Snapshot (sv_Kernel s))), s)
      else if meth = ''GET'' \<and> equalPath parts [''fleet''] then server_fleet e s
      else if equalPath parts [''instances''] then
        (if meth = ''GET'' then (Inr (VMap [(''instances'', VStrs (Instances (sv_Kernel s)))]), s)
         else if meth = ''POST'' then server_create e body s
         else (no_route meth parts, s))
      else if 2 \<le> length parts \<and> parts ! 0 = ''instances'' then instance_route e meth parts body s
      else (no_route meth parts, s))"

definition error_payload :: "string \<Rightarrow> goval" where
  "error_payload msg = VMap [(''error'', VStr msg)]"

definition answer :: "response \<Rightarrow> int \<times> goval" where
  \<comment> \<open>the status of a result; a panic is caught by the deferred recover\<close>
  "answer res =
     (case res of
        Inr v \<Rightarrow> (200, v)
      | Inl (clientError status msg) \<Rightarrow> (status, error_payload msg)
      | Inl (Failure err) \<Rightarrow>
          (500, error_payload (case error_root err of Panic t \<Rightarrow> ''panic: '' @ t | _ \<Rightarrow> error_text err)))"

definition Handle :: "ServerEnv \<Rightarrow> string \<Rightarrow> string \<Rightarrow> ctx \<Rightarrow> Server \<Rightarrow> (int \<times> goval) \<times> Server" where
  "Handle e meth path body s =
     (let (rawPath, query) = (case cut_at ''?'' path of Some pq \<Rightarrow> pq | None \<Rightarrow> (path, []));
          (res, s') = route e meth (splitPath rawPath) (merge_body body (parseQueryFlat query)) s
      in (answer res, s'))"

section \<open>The socket layer\<close>

record http_in =
  hi_Method :: string
  hi_URI :: string
  hi_Authorization :: string
  hi_Body :: "string option"      \<comment> \<open>None where there is no body or its length is zero\<close>

definition maxBodyBytes :: nat where "maxBodyBytes = 2 ^ 20"

definition authorized :: "Server \<Rightarrow> http_in \<Rightarrow> bool" where
  "authorized s rq \<longleftrightarrow>
     sv_Token s = [] \<or>
     (if has_prefix ''Bearer '' (hi_Authorization rq) then drop 7 (hi_Authorization rq) else hi_Authorization rq) = sv_Token s"

definition Decode_map :: "string \<Rightarrow> ctx option" where
  \<comment> \<open>json.NewDecoder: the first value of the text, whatever follows it\<close>
  "Decode_map t =
     (case jparse (2 * length t + 2) t of
        Some (JNull, q) \<Rightarrow> Some []
      | Some (JObj ms, q) \<Rightarrow> (case any_of (JObj ms) of Some (VMap m) \<Rightarrow> Some m | _ \<Rightarrow> None)
      | _ \<Rightarrow> None)"

definition request_body :: "http_in \<Rightarrow> ctx option" where
  "request_body rq = (case hi_Body rq of None \<Rightarrow> Some [] | Some t \<Rightarrow> Decode_map (take maxBodyBytes t))"

definition writeJSON :: "int \<times> goval \<Rightarrow> int \<times> string" where
  "writeJSON a =
     (fst a, (case json (snd a) of
        Some t \<Rightarrow> t | None \<Rightarrow> json_object [(''error'', json_string ''response could not be encoded'')]) @ [newline])"

definition ServeHTTP :: "ServerEnv \<Rightarrow> http_in \<Rightarrow> Server \<Rightarrow> (int \<times> string) \<times> Server" where
  "ServeHTTP e rq s =
     (if \<not> authorized s rq then (writeJSON (401, error_payload ''unauthorized''), s)
      else (case request_body rq of
        None \<Rightarrow>
          (writeJSON (400, error_payload (''malformed JSON body: '' @ se_json_err e (the (hi_Body rq)))), s)
      | Some body \<Rightarrow> (let (a, s') = Handle e (hi_Method rq) (hi_URI rq) body s in (writeJSON a, s'))))"

definition Serve_start :: "(string \<Rightarrow> string) \<Rightarrow> Server \<Rightarrow> Server \<times> string list" where
  \<comment> \<open>what Serve settles before it listens: the token and the address, and the warnings it prints\<close>
  "Serve_start getenv s =
     (let s1 = s\<lparr>sv_Token := (if sv_Token s = [] then getenv ''EAR_SERVER_TOKEN'' else sv_Token s)\<rparr>;
          warnings =
            (if sv_Token s1 = []
             then [''ear server: WARNING -- no EAR_SERVER_TOKEN set; every request will be accepted unauthenticated''] else []) @
            (if sv_StacksRoot s1 = []
             then [''ear server: no stacks root configured; creating instances over the wire is disabled''] else [])
      in (s1\<lparr>sv_Addr := (if sv_Addr s1 = [] then '':8080'' else sv_Addr s1)\<rparr>, warnings))"

end
