(* ===== verification/ServerProps.thy ===== *)
theory ServerProps
  imports Server CycleGates KernelPool
begin

text \<open>
  What the control plane guarantees over the wire: a stack is loaded only from inside the
  configured root, no request makes an instance act for a claim that does not cover its
  organisation, every request gets one of five statuses, and a deleted instance leaves nothing
  behind.  The last part states two limits: the work a loaded stack schedules runs without the
  server's claim, and a new instance of an old name inherits the intent its predecessor was asked.
\<close>

section \<open>Confinement\<close>

lemma drop_common_append:
  "drop_common bs ts = (b, t) \<Longrightarrow> \<exists>common. bs = common @ b \<and> ts = common @ t"
proof (induction bs ts rule: drop_common.induct)
  case (1 b' bs t' ts)
  then show ?case by (auto split: if_splits)
qed auto

lemma not_escapes: "\<not> escapes (Rel base targ) \<Longrightarrow>
  IsAbs base = IsAbs targ \<and> (\<exists>rest. clean_elements targ = clean_elements base @ rest)"
proof -
  assume ok: "\<not> escapes (Rel base targ)"
  have same: "IsAbs base = IsAbs targ"
    using ok by (cases "IsAbs base = IsAbs targ") (simp_all add: escapes_def Rel_def)
  obtain b t where bt: "drop_common (clean_elements base) (clean_elements targ) = (b, t)" by fastforce
  have "b = []"
  proof (rule ccontr)
    assume "b \<noteq> []"
    then obtain n where n: "length b = Suc n" by (cases b) auto
    then have "Rel base targ = Some (join_with [slash] (''..'' # replicate n ''..'' @ t))"
      using same bt by (cases b; cases t) (simp_all add: Rel_def)
    moreover have "join_with [slash] (''..'' # xs) = ''..'' \<or> has_prefix ''../'' (join_with [slash] (''..'' # xs))" for xs
      by (cases xs) (simp_all add: slash_def has_prefix_def)
    ultimately show False using ok by (auto simp: escapes_def)
  qed
  with drop_common_append [OF bt] same show ?thesis by auto
qed

lemma resolveStack_inside:
  "resolveStack e s stack = Inr p \<Longrightarrow>
   \<exists>root_dir rest. stacks_root e s = Some root_dir \<and> IsAbs p = IsAbs root_dir \<and>
     clean_elements p = clean_elements root_dir @ rest"
  using not_escapes by (auto simp: resolveStack_def Let_def split: option.splits if_splits)

text \<open>
  C19. A path a request names resolves only to the configured root or below it: its elements begin
  with those of the root, after links on both sides are resolved and whatever "..", absolute path or link the
  request uses.
\<close>
theorem resolve_stays_inside:
  "case resolveStack e s stack of
     Inl err \<Rightarrow> True
   | Inr p \<Rightarrow> \<exists>root_dir rest. stacks_root e s = Some root_dir \<and> IsAbs p = IsAbs root_dir \<and>
       clean_elements p = clean_elements root_dir @ rest"
  using resolveStack_inside [of e s stack] by (auto split: sum.split)

section \<open>The tenant boundary\<close>

definition untouched :: "Runtime \<Rightarrow> Runtime \<Rightarrow> bool" where
  \<comment> \<open>no model was called, no tool ran, nothing was remembered\<close>
  "untouched r r' \<longleftrightarrow>
     rt_lm r' = rt_lm r \<and> rt_effects r' = rt_effects r \<and> rt_Memory r' = rt_Memory r \<and> rt_Experience r' = rt_Experience r"

lemma untouched_refl [simp]: "untouched r r"
  by (simp add: untouched_def)

lemma refused_untouched:
  "\<not> MayActAs c (rt_OrgID r) \<Longrightarrow> untouched r (snd (Reason w (Some c) intent approval r))"
  by (simp add: refused_cycle untouched_def)

lemma Submit_heap [simp]: "kn_heap (snd (Submit e name intent opts k)) = kn_heap k"
proof -
  have "kn_heap (snd (fold (apply_option e) opts (t, k))) = kn_heap k" for t k
  proof (induction opts arbitrary: t k)
    case (Cons opt opts)
    obtain t' k' where o: "apply_option e opt (t, k) = (t', k')" by fastforce
    have "kn_heap k' = kn_heap k" using o by (cases opt) (auto simp: readClock_def Let_def)
    then show ?case using Cons.IH [of t' k'] o by simp
  qed simp
  then show ?thesis
    by (auto simp: Submit_def readClock_def enqueue_def interrupt_def Let_def case_prod_beta)
qed

lemma arm_all_heap: "kn_heap (snd (arm_all e name opts work k)) = kn_heap k"
proof (induction work arbitrary: k)
  case (Cons sw work)
  then show ?case by (simp add: Schedule_task_def case_prod_beta Let_def)
qed simp

lemma Arm_heap [simp]: "kn_heap (snd (Arm e name opts k)) = kn_heap k"
  using arm_all_heap by (auto simp: Arm_def Let_def case_prod_beta split: option.split)

definition within_boundary :: "Claim \<Rightarrow> Kernel \<Rightarrow> Kernel \<Rightarrow> bool" where
  \<comment> \<open>every instance in the table whose organisation the claim does not cover is untouched\<close>
  "within_boundary c k k' \<longleftrightarrow>
     (\<forall>a \<in> snd ` set (kn_instances k). MayActAs c (rt_OrgID (kn_heap k a)) \<or> untouched (kn_heap k a) (kn_heap k' a))"

lemma within_same_heap: "kn_heap k' = kn_heap k \<Longrightarrow> within_boundary c k k'"
  by (simp add: within_boundary_def)

lemma reason_within:
  assumes "sv_Claim s = Some c"
  shows "within_boundary c (sv_Kernel s) (sv_Kernel (snd (server_reason e name rt intent approval s)))"
proof -
  obtain res r where r: "Reason (ke_world (se_env e)) (Some c) intent approval (kn_heap (sv_Kernel s) rt) = (res, r)" by fastforce
  have "kn_heap (sv_Kernel (snd (server_reason e name rt intent approval s))) = (kn_heap (sv_Kernel s))(rt := r)"
    using assms r by (simp add: server_reason_def Let_def split: sum.split)
  moreover have "MayActAs c (rt_OrgID (kn_heap (sv_Kernel s) rt)) \<or> untouched (kn_heap (sv_Kernel s) rt) r"
    using refused_untouched [of c "kn_heap (sv_Kernel s) rt" "ke_world (se_env e)" intent approval] r by auto
  ultimately show ?thesis by (auto simp: within_boundary_def)
qed

lemma server_create_kernel:
  "sv_Kernel (snd (server_create e body s)) = sv_Kernel s \<or>
   (\<exists>name dir l. LoadRuntime (se_load e) dir [] = Inr l \<and>
      sv_Kernel (snd (server_create e body s)) = snd (Arm (se_env e) name [] (register_loaded e name (ld_Runtime l) (sv_Kernel s))))"
proof (cases "sv_StacksRoot s = [] \<or> isl (bindR (stringField body ''stack'') (resolveStack e s))")
  case False
  then obtain dir where dir: "bindR (stringField body ''stack'') (resolveStack e s) = Inr dir" "sv_StacksRoot s \<noteq> []"
    by (cases "bindR (stringField body ''stack'') (resolveStack e s)") auto
  show ?thesis
  proof (cases "LoadRuntime (se_load e) dir []")
    case (Inr l)
    then have "sv_Kernel (snd (server_create e body s)) =
      snd (Arm (se_env e) (create_name body dir) [] (register_loaded e (create_name body dir) (ld_Runtime l) (sv_Kernel s)))"
      using dir by (simp add: server_create_def Let_def split: sum.split prod.split)
    with Inr show ?thesis by blast
  qed (use dir in \<open>simp add: server_create_def\<close>)
qed (auto simp: server_create_def isl_def)

lemma create_within:
  assumes "\<And>k. se_alloc e k \<notin> snd ` set (kn_instances k)"
  shows "within_boundary c (sv_Kernel s) (sv_Kernel (snd (server_create e body s)))"
proof -
  have "within_boundary c (sv_Kernel s) (snd (Arm (se_env e) name [] (register_loaded e name rt (sv_Kernel s))))" for name rt
    using assms [of "sv_Kernel s"] by (force simp: within_boundary_def register_loaded_def Let_def Register_def)
  then show ?thesis
    using server_create_kernel [of e body s] within_same_heap by metis
qed

lemma route_within:
  assumes "sv_Claim s = Some c" "\<And>k. se_alloc e k \<notin> snd ` set (kn_instances k)"
  shows "within_boundary c (sv_Kernel s) (sv_Kernel (snd (route e meth parts body s)))"
proof -
  have submit: "within_boundary c (sv_Kernel s) (sv_Kernel (snd (server_submit e name body s)))" for name
    using reason_within [of "s\<lparr>sv_lastIntents := m\<rparr>" c for m] assms(1)
    by (auto simp: server_submit_def within_same_heap split: option.split sum.split)
  have approve: "within_boundary c (sv_Kernel s) (sv_Kernel (snd (server_approve e name body s)))" for name
    using reason_within assms(1) by (auto simp: server_approve_def within_same_heap split: option.split sum.split)
  have rest: "kn_heap (sv_Kernel (snd (server_delete name s))) = kn_heap (sv_Kernel s)"
    "kn_heap (sv_Kernel (snd (server_health e s))) = kn_heap (sv_Kernel s)"
    "kn_heap (sv_Kernel (snd (server_fleet e s))) = kn_heap (sv_Kernel s)" for name
    by (simp_all add: server_delete_def server_health_def server_fleet_def readClock_def Remove_def Let_def split: option.split)
  show ?thesis
    using submit approve create_within [OF assms(2)] rest
    by (simp add: route_def instance_route_def Let_def within_same_heap)
qed

text \<open>A request adds an instance to the table only by loading its stack, and the instance is then as it was loaded.\<close>

lemma Submit_table [simp]: "kn_instances (snd (Submit e name intent opts k)) = kn_instances k"
proof -
  have "kn_instances (snd (fold (apply_option e) opts (t, k))) = kn_instances k" for t k
  proof (induction opts arbitrary: t k)
    case (Cons opt opts)
    obtain t' k' where o: "apply_option e opt (t, k) = (t', k')" by fastforce
    have "kn_instances k' = kn_instances k" using o by (cases opt) (auto simp: readClock_def Let_def)
    then show ?case using Cons.IH [of t' k'] o by simp
  qed simp
  then show ?thesis
    by (auto simp: Submit_def readClock_def enqueue_def interrupt_def Let_def case_prod_beta)
qed

lemma arm_all_table: "kn_instances (snd (arm_all e name opts work k)) = kn_instances k"
proof (induction work arbitrary: k)
  case (Cons sw work)
  then show ?case by (simp add: Schedule_task_def case_prod_beta Let_def)
qed simp

lemma Arm_table [simp]: "kn_instances (snd (Arm e name opts k)) = kn_instances k"
  using arm_all_table by (auto simp: Arm_def Let_def case_prod_beta split: option.split)

definition adds_as_loaded :: "ServerEnv \<Rightarrow> Kernel \<Rightarrow> Kernel \<Rightarrow> bool" where
  "adds_as_loaded e k k' \<longleftrightarrow>
     (\<forall>a \<in> snd ` set (kn_instances k').
        a \<in> snd ` set (kn_instances k) \<or> (\<exists>dir l. LoadRuntime (se_load e) dir [] = Inr l \<and> kn_heap k' a = ld_Runtime l))"

lemma adds_subset: "set (kn_instances k') \<subseteq> set (kn_instances k) \<Longrightarrow> adds_as_loaded e k k'"
  by (auto simp: adds_as_loaded_def)

lemma map_put_set: "set (map_put key v m) \<subseteq> insert (key, v) (set m)"
  by (induction m) (auto simp: map_put_def)

lemma create_adds: "adds_as_loaded e (sv_Kernel s) (sv_Kernel (snd (server_create e body s)))"
proof -
  have "adds_as_loaded e k (snd (Arm (se_env e) name [] (register_loaded e name (ld_Runtime l) k)))"
    if "LoadRuntime (se_load e) dir [] = Inr l" for name dir l k
    using that map_put_set [of name "se_alloc e k" "kn_instances k"]
    by (fastforce simp: adds_as_loaded_def register_loaded_def Register_def Let_def)
  moreover have "adds_as_loaded e k k" for k by (simp add: adds_subset)
  ultimately show ?thesis using server_create_kernel [of e body s] by metis
qed

lemma route_adds: "adds_as_loaded e (sv_Kernel s) (sv_Kernel (snd (route e meth parts body s)))"
proof -
  have reason: "kn_instances (sv_Kernel (snd (server_reason e name rt intent approval s))) = kn_instances (sv_Kernel s)"
    for name rt intent approval s
    by (simp add: server_reason_def Let_def case_prod_beta split: sum.split)
  have "kn_instances (sv_Kernel (snd (server_submit e name body s))) = kn_instances (sv_Kernel s)"
    "kn_instances (sv_Kernel (snd (server_approve e name body s))) = kn_instances (sv_Kernel s)" for name
    using reason by (auto simp: server_submit_def server_approve_def split: option.split sum.split)
  moreover have "set (kn_instances (sv_Kernel (snd (server_delete name s)))) \<subseteq> set (kn_instances (sv_Kernel s))"
    "kn_instances (sv_Kernel (snd (server_health e s))) = kn_instances (sv_Kernel s)"
    "kn_instances (sv_Kernel (snd (server_fleet e s))) = kn_instances (sv_Kernel s)" for name
    by (auto simp: server_delete_def server_health_def server_fleet_def readClock_def Remove_def Let_def split: option.split)
  ultimately show ?thesis
    using create_adds [of e s] by (simp add: route_def instance_route_def Let_def adds_subset)
qed

text \<open>
  C16. On a server that acts for a claim, while a request of any method, path or body is served no instance
  in the table of an organisation the claim does not cover calls its model, runs a tool or remembers
  anything; and an instance the request adds is as it was loaded, nothing of it has run.  What a stack added
  so does later by its own schedule is not under the claim (theorem \<open>served_schedule_has_no_claim\<close>).
\<close>
theorem wire_keeps_the_boundary:
  assumes "sv_Claim s = Some c" "\<And>k. se_alloc e k \<notin> snd ` set (kn_instances k)"
  shows "within_boundary c (sv_Kernel s) (sv_Kernel (snd (ServeHTTP e rq s))) \<and>
    adds_as_loaded e (sv_Kernel s) (sv_Kernel (snd (ServeHTTP e rq s)))"
proof -
  have "within_boundary c (sv_Kernel s) (sv_Kernel (snd (Handle e meth path body s))) \<and>
      adds_as_loaded e (sv_Kernel s) (sv_Kernel (snd (Handle e meth path body s)))" for meth path body
    using route_within [OF assms] route_adds by (simp add: Handle_def Let_def case_prod_beta)
  then show ?thesis
    by (simp add: ServeHTTP_def Let_def case_prod_beta within_same_heap adds_subset split: option.split)
qed

definition fresh_address :: "Kernel \<Rightarrow> nat" where
  "fresh_address k = Suc (sum_list (map snd (kn_instances k)))"

definition served :: Server where
  "served = (NewServer (Register ''desk'' 7 (NewKernel (\<lambda>_. NewRuntime ''desk''))) 0)
     \<lparr>sv_Claim := Some \<lparr>cl_Subject = ''eve'', cl_OrgIDs = [''other'']\<rparr>\<rparr>"

theorem wire_keeps_the_boundary_witness:
  "\<forall>e rq. untouched (NewRuntime ''desk'') (kn_heap (sv_Kernel (snd (ServeHTTP (e\<lparr>se_alloc := fresh_address\<rparr>) rq served))) 7)"
proof (intro allI)
  fix e rq
  have "fresh_address k \<notin> snd ` set (kn_instances k)" for k
    using member_le_sum_list [of _ "map snd (kn_instances k)"] by (fastforce simp: fresh_address_def)
  moreover have "\<not> MayActAs \<lparr>cl_Subject = ''eve'', cl_OrgIDs = [''other'']\<rparr> (rt_OrgID (NewRuntime ''desk''))"
    by (simp add: MayActAs_def NewRuntime_def)
  ultimately show "untouched (NewRuntime ''desk'') (kn_heap (sv_Kernel (snd (ServeHTTP (e\<lparr>se_alloc := fresh_address\<rparr>) rq served))) 7)"
    using wire_keeps_the_boundary [of served "\<lparr>cl_Subject = ''eve'', cl_OrgIDs = [''other'']\<rparr>" "e\<lparr>se_alloc := fresh_address\<rparr>" rq]
    by (simp add: within_boundary_def served_def NewServer_def Register_def NewKernel_def map_put_def)
qed

section \<open>Answers\<close>

text \<open>
  Without the token nothing happens: a request that does not present it is answered with 401 and changes
  nothing.
\<close>
theorem token_guards_everything:
  assumes "sv_Token s \<noteq> []" "hi_Authorization rq \<noteq> sv_Token s" "hi_Authorization rq \<noteq> ''Bearer '' @ sv_Token s"
  shows "fst (fst (ServeHTTP e rq s)) = 401 \<and> snd (ServeHTTP e rq s) = s"
proof -
  have "drop 7 h = t \<Longrightarrow> h = ''Bearer '' @ t" if "has_prefix ''Bearer '' h" for h t
    using that by (auto simp: has_prefix_iff)
  with assms have "\<not> authorized s rq" by (auto simp: authorized_def)
  then show ?thesis by (simp add: ServeHTTP_def writeJSON_def)
qed

definition proper :: "response \<Rightarrow> bool" where
  "proper res \<longleftrightarrow> (case res of Inl (clientError status msg) \<Rightarrow> status \<in> {400, 403, 404} | _ \<Rightarrow> True)"

lemma proper_simps [simp]:
  "proper (Inr v)" "proper (Inl (Failure err))" "proper (Inl (badRequest msg))" "proper (Inl (notFound msg))"
  "proper (Inl (no_instance name))" "proper (Inl (clientError 403 msg))" "proper (no_route meth parts)"
  by (simp_all add: proper_def badRequest_def notFound_def no_instance_def no_route_def)

lemma proper_field: "stringField body key = Inl err \<Longrightarrow> proper (Inl err)"
  by (auto simp: stringField_def split: option.splits goval.splits if_splits)

lemma proper_intent:
  "bindR (stringField body key) (\<lambda>t. bindR (contextField body) (\<lambda>c. Inr (g t c))) = Inl err \<Longrightarrow> proper (Inl err)"
  by (auto simp: bindR_eq_Inl contextField_def proper_field split: option.splits goval.splits)

lemma proper_resolve: "resolveStack e s stack = Inl err \<Longrightarrow> proper (Inl err)"
proof (cases "stacks_root e s")
  case (Some d)
  show "resolveStack e s stack = Inl err \<Longrightarrow> proper (Inl err)"
    unfolding resolveStack_def Some
    by (cases "Abs_path e (if IsAbs stack then stack else Join [d, stack])") (auto simp: Let_def split: if_splits)
qed (auto simp: resolveStack_def)

lemma proper_stack: "bindR (stringField body key) (resolveStack e s) = Inl err \<Longrightarrow> proper (Inl err)"
  using proper_resolve proper_field by (auto simp: bindR_eq_Inl)

lemma proper_reason: "proper (fst (server_reason e name rt intent approval s))"
  by (simp add: server_reason_def Let_def case_prod_beta reason_answer_def split: sum.split ear_error.split)

lemma proper_route: "proper (fst (route e meth parts body s))"
proof -
  have "proper (fst (server_submit e name body s))" for name
    using proper_intent [of body "''intent''" "\<lambda>t c. NewIntent t (Some c)"] proper_reason
    by (auto simp: server_submit_def split: option.split sum.split)
  moreover have "proper (fst (server_approve e name body s))" for name
    using proper_reason by (auto simp: server_approve_def verdict_of_def split: option.split sum.split)
  moreover have "proper (fst (server_create e body s))"
    using proper_stack [of body "''stack''" e s]
    by (auto simp: server_create_def Let_def split: sum.split prod.split)
  ultimately show ?thesis
    by (simp add: route_def instance_route_def server_delete_def server_status_def server_trail_def server_health_def
        server_fleet_def Let_def case_prod_beta split: option.split)
qed

text \<open>
  Every request to the API is answered, with one of five statuses: 200 for a result, 400, 403 or 404 for
  a mistake of the caller's, 500 for a failure, a panic of a cycle included.  A refusal of governance is a result.
\<close>
theorem every_request_is_answered:
  "fst (fst (Handle e meth path body s)) \<in> {200, 400, 403, 404, 500}"
proof -
  have "proper res \<Longrightarrow> fst (answer res) \<in> {200, 400, 403, 404, 500}" for res
    by (auto simp: proper_def answer_def split: sum.splits server_error.splits)
  with proper_route show ?thesis by (simp add: Handle_def Let_def case_prod_beta)
qed

section \<open>Deleting\<close>

text \<open>
  After an instance is deleted every request to it is answered with 404, and neither the list of
  instances nor what the server remembers mentions it.
\<close>
theorem deleted_instance_is_gone:
  "let s' = snd (server_delete name s) in
     Instance_at name (sv_Kernel s') = None \<and> name \<notin> set (Instances (sv_Kernel s')) \<and>
     fst (server_submit e name body s') = Inl (no_instance name) \<and>
     fst (server_approve e name body s') = Inl (no_instance name) \<and>
     server_status name s' = Inl (no_instance name) \<and> server_trail e name body s' = Inl (no_instance name) \<and>
     (Instance_at name (sv_Kernel s) = None \<or>
       map_of (sv_lastIntents s') name = None \<and> map_of (sv_lastResults s') name = None)"
proof -
  have gone: "map_of (drop_key name m) name = None" for m :: "(string \<times> 'a) list"
    by (auto simp: drop_key_def map_of_eq_None_iff)
  have "Instance_at name (sv_Kernel (snd (server_delete name s))) = None"
    by (auto simp: server_delete_def Instance_at_def Remove_def map_of_eq_None_iff split: option.split)
  moreover from this have "name \<notin> set (Instances (sv_Kernel (snd (server_delete name s))))"
    by (simp add: Instance_at_def Instances_def map_of_eq_None_iff)
  ultimately show ?thesis
    by (auto simp: Let_def server_submit_def server_approve_def server_status_def server_trail_def)
      (auto simp: server_delete_def gone split: option.splits)
qed

section \<open>Limits\<close>

lemma Submit_claim: "\<exists>t. kn_queue (snd (Submit e name intent [RunEvery p, StartAfter d] k)) = kn_queue k @ [t] \<and> tk_Claim t = None"
  by (simp add: Submit_def readClock_def enqueue_def interrupt_def Let_def)

lemma arm_all_claim:
  "set (kn_queue (snd (arm_all e name [] work k))) \<subseteq> set (kn_queue k) \<union> {t. tk_Claim t = None}"
proof (induction work arbitrary: k)
  case (Cons sw work)
  let ?k1 = "snd (Schedule_task e name (NewIntent (sw_Intent sw) None) (sw_Every sw) [] k)"
  have "set (kn_queue ?k1) \<subseteq> set (kn_queue k) \<union> {t. tk_Claim t = None}"
    using Submit_claim [of e name "NewIntent (sw_Intent sw) None" "sw_Every sw" "sw_Every sw" k]
    by (auto simp: Schedule_task_def)
  with Cons.IH [of ?k1] show ?case by (auto simp: case_prod_beta Let_def)
qed simp

lemma Arm_claim: "set (kn_queue (snd (Arm e name [] k))) \<subseteq> set (kn_queue k) \<union> {t. tk_Claim t = None}"
proof (cases "Instance_at name k")
  case (Some rt)
  then show ?thesis
    using arm_all_claim [of e name _ k] by (cases "rt_Strategy (kn_heap k rt)") (simp_all add: Arm_def Let_def case_prod_beta)
qed (simp add: Arm_def)

text \<open>
  The work that a stack created over the wire schedules runs without an identity, whatever claim the
  server acts for: every task that creating an instance adds to the run queue carries no claim.
\<close>
theorem served_schedule_has_no_claim:
  "set (kn_queue (sv_Kernel (snd (server_create e body s)))) \<subseteq> set (kn_queue (sv_Kernel s)) \<union> {t. tk_Claim t = None}"
proof -
  have "kn_queue (register_loaded e name rt k) = kn_queue k" for name rt k
    by (simp add: register_loaded_def Register_def Let_def)
  then have "set (kn_queue (snd (Arm (se_env e) name [] (register_loaded e name rt k)))) \<subseteq> set (kn_queue k) \<union> {t. tk_Claim t = None}"
    for name rt k
    using Arm_claim by metis
  then show ?thesis using server_create_kernel [of e body s] by (metis Un_upper1)
qed

text \<open>
  Creating an instance does not forget what an instance of the same name was asked last, so an
  approval of the new one runs the old one's intent.
\<close>
theorem created_instance_inherits_intent:
  assumes "Instance_at name (sv_Kernel (snd (server_create e body s))) = Some rt"
    "map_of (sv_lastIntents s) name = Some intent" "map_of body' ''verdict'' = None"
  shows "server_approve e name body' (snd (server_create e body s)) =
     server_reason e name rt intent
       (Some \<lparr>av_Approver = body_text body' ''approver'', av_Verdict = Some True, av_Note = body_text body' ''note''\<rparr>)
       (snd (server_create e body s))"
proof -
  have "sv_lastIntents (snd (server_create e body s)) = sv_lastIntents s"
    by (auto simp: server_create_def Let_def split: sum.split prod.split)
  with assms show ?thesis by (simp add: server_approve_def verdict_of_def)
qed

end
