(* ===== verification/McpClient.thy ===== *)
theory McpClient
  imports StrategyFile SessionJson Tools
begin

text \<open>
  The client of external tool servers: \<^verbatim>\<open>mcp_client.go\<close> and the declarations of \<^verbatim>\<open>mcp.go\<close>.  The first
  part is its data and its readers of JSON.  The second is the transport as shared state: the requests of
  any number of callers and the one reader of the server's output, each critical section a step
  (theory McpTransport).  The third connects a declared server and binds its tools; what a request is
  answered with is there the parameter \<open>McpWorld\<close>.
\<close>

section \<open>Frames\<close>

record rpcError =
  re_Code :: int
  re_Message :: string

record rpcMessage =
  rm_JSONRPC :: string
  rm_ID :: "int option"
  rm_Method :: string
  rm_Params :: goval
  rm_Result :: "jvalue option"     \<comment> \<open>the raw bytes of the result, as their tree\<close>
  rm_Error :: "rpcError option"

definition no_message :: rpcMessage where
  "no_message = \<lparr>rm_JSONRPC = [], rm_ID = None, rm_Method = [], rm_Params = VNil, rm_Result = None, rm_Error = None\<rparr>"

definition id_field :: "rpcMessage field_reader" where
  "id_field v m =
     (case v of
        JNull \<Rightarrow> Some (m\<lparr>rm_ID := None\<rparr>)
      | JNum t \<Rightarrow> map_option (\<lambda>n. m\<lparr>rm_ID := Some n\<rparr>) (Atoi t)
      | _ \<Rightarrow> None)"

definition params_field :: "rpcMessage field_reader" where
  "params_field v m = map_option (\<lambda>p. m\<lparr>rm_Params := p\<rparr>) (any_of v)"

definition result_field :: "rpcMessage field_reader" where
  "result_field v m = Some (m\<lparr>rm_Result := Some v\<rparr>)"

definition rpc_error_fields :: "(string \<times> rpcError field_reader) list" where
  "rpc_error_fields =
     [(''code'', int_field (\<lambda>n. re_Code_update (\<lambda>_. n))), (''message'', string_field (\<lambda>s. re_Message_update (\<lambda>_. s)))]"

definition error_field :: "rpcMessage field_reader" where
  "error_field v m =
     (case v of
        JNull \<Rightarrow> Some (m\<lparr>rm_Error := None\<rparr>)
      | JObj ms \<Rightarrow>
          map_option (\<lambda>e. m\<lparr>rm_Error := Some e\<rparr>)
            (read_members rpc_error_fields ms
               (case rm_Error m of Some e \<Rightarrow> e | None \<Rightarrow> \<lparr>re_Code = 0, re_Message = []\<rparr>))
      | _ \<Rightarrow> None)"

definition message_fields :: "(string \<times> rpcMessage field_reader) list" where
  "message_fields =
     [(''jsonrpc'', string_field (\<lambda>s. rm_JSONRPC_update (\<lambda>_. s))), (''id'', id_field),
      (''method'', string_field (\<lambda>s. rm_Method_update (\<lambda>_. s))), (''params'', params_field),
      (''result'', result_field), (''error'', error_field)]"

definition read_message :: "string \<Rightarrow> rpcMessage option" where
  "read_message line = Unmarshal_struct message_fields line no_message"

definition message_json :: "int option \<Rightarrow> string \<Rightarrow> ctx \<Rightarrow> string option" where
  \<comment> \<open>json.Marshal of the frame of a request or of a notification\<close>
  "message_json i meth params =
     map_option (\<lambda>p. json_object
       ([(''jsonrpc'', json_string ''2.0'')] @ (case i of Some n \<Rightarrow> [(''id'', show_int n)] | None \<Rightarrow> []) @
        (if meth \<noteq> [] then [(''method'', json_string meth)] else []) @ [(''params'', p)]))
       (json (VMap params))"

section \<open>Words of a command\<close>

record command_state =
  cw_words :: "string list"
  cw_current :: string
  cw_quote :: "char option"
  cw_inWord :: bool

definition command_rune :: "char \<Rightarrow> command_state \<Rightarrow> command_state" where
  \<comment> \<open>the switch over one rune\<close>
  "command_rune r s =
     (case cw_quote s of
        Some q \<Rightarrow> if r = q then s\<lparr>cw_quote := None\<rparr> else s\<lparr>cw_current := cw_current s @ [r]\<rparr>
      | None \<Rightarrow>
          if r = CHR 0x27 \<or> r = CHR 0x22 then s\<lparr>cw_quote := Some r, cw_inWord := True\<rparr>
          else if r = CHR '' '' \<or> r = CHR 0x09 then
            (if cw_inWord s then s\<lparr>cw_words := cw_words s @ [cw_current s], cw_current := [], cw_inWord := False\<rparr> else s)
          else s\<lparr>cw_current := cw_current s @ [r], cw_inWord := True\<rparr>)"

definition commandWords :: "string \<Rightarrow> string list" where
  "commandWords command =
     (let s = fold command_rune command \<lparr>cw_words = [], cw_current = [], cw_quote = None, cw_inWord = False\<rparr>
      in if cw_inWord s then cw_words s @ [cw_current s] else cw_words s)"

section \<open>Sorting\<close>

fun sink :: "string \<Rightarrow> string list \<Rightarrow> string list" where
  \<comment> \<open>the inner loop; the second argument is the sorted part, its last element first\<close>
  "sink v [] = [v]"
| "sink v (u # before) = (if v < u then u # sink v before else v # u # before)"

definition sortStrings :: "string list \<Rightarrow> string list" where
  "sortStrings values = rev (fold sink values [])"

section \<open>Replies\<close>

record McpError =
  me_Server :: string
  me_Op :: string
  me_Err :: string

definition McpError_Error :: "McpError \<Rightarrow> string" where
  "McpError_Error e = ''mcp server '' @ go_quote (me_Server e) @ '': '' @ me_Op e @ '': '' @ me_Err e"

definition mcpErrorf :: "string \<Rightarrow> string \<Rightarrow> string \<Rightarrow> McpError" where
  "mcpErrorf server op msg = \<lparr>me_Server = server, me_Op = op, me_Err = msg\<rparr>"

type_synonym mcp_reply = "(McpError, jvalue option) outcome"

record McpTool =
  mt_Name :: string
  mt_Description :: string
  mt_Parameters :: "string list"

definition keys_field :: "(string list \<Rightarrow> 'a \<Rightarrow> 'a) \<Rightarrow> 'a field_reader" where
  \<comment> \<open>a map whose values stay raw: its keys\<close>
  "keys_field put v x =
     (case v of
        JObj ms \<Rightarrow> Some (put (remdups (map fst ms)) x)
      | JNull \<Rightarrow> Some (put [] x)
      | _ \<Rightarrow> None)"

definition tool_fields :: "(string \<times> McpTool field_reader) list" where
  "tool_fields =
     [(''name'', string_field (\<lambda>s. mt_Name_update (\<lambda>_. s))), (''description'', string_field (\<lambda>s. mt_Description_update (\<lambda>_. s))),
      (''inputSchema'', struct_field [(''properties'', keys_field (\<lambda>ks. mt_Parameters_update (\<lambda>_. ks)))])]"

definition Unmarshal_result :: "(string \<times> 'a field_reader) list \<Rightarrow> jvalue option \<Rightarrow> 'a \<Rightarrow> 'a option" where
  \<comment> \<open>json.Unmarshal of a result; one that is missing is no JSON\<close>
  "Unmarshal_result fs result x =
     (case result of Some v \<Rightarrow> struct_field fs v x | None \<Rightarrow> None)"

definition read_tools :: "jvalue option \<Rightarrow> McpTool list option" where
  "read_tools result =
     Unmarshal_result
       [(''tools'', structs_field tool_fields \<lparr>mt_Name = [], mt_Description = [], mt_Parameters = []\<rparr> (\<lambda>ts _. ts))]
       result []"

definition ListTools :: "(jvalue option \<Rightarrow> string) \<Rightarrow> string \<Rightarrow> mcp_reply \<Rightarrow> (McpError, McpTool list) outcome" where
  \<comment> \<open>the text of a decoding error, the server's name, what the request tools/list gave\<close>
  "ListTools json_err server reply =
     bindR reply (\<lambda>result.
       case read_tools result of
         None \<Rightarrow> Inl (mcpErrorf server ''tools/list'' (''malformed response: '' @ json_err result))
       | Some ts \<Rightarrow> Inr (map (\<lambda>t. t\<lparr>mt_Parameters := sortStrings (mt_Parameters t)\<rparr>) ts))"

record call_payload =
  cp_Content :: "string list"    \<comment> \<open>the texts\<close>
  cp_IsError :: bool

definition content_fields :: "(string \<times> (string \<times> string) field_reader) list" where
  "content_fields = [(''type'', string_field (\<lambda>s x. (s, snd x))), (''text'', string_field (\<lambda>s x. (fst x, s)))]"

definition read_content :: "jvalue option \<Rightarrow> call_payload option" where
  "read_content result =
     Unmarshal_result
       [(''content'', structs_field content_fields ([], []) (\<lambda>cs. cp_Content_update (\<lambda>_. map snd cs))),
        (''isError'', bool_field (\<lambda>b. cp_IsError_update (\<lambda>_. b)))]
       result \<lparr>cp_Content = [], cp_IsError = False\<rparr>"

definition CallTool :: "(jvalue option \<Rightarrow> string) \<Rightarrow> string \<Rightarrow> string \<Rightarrow> mcp_reply \<Rightarrow> (McpError, string) outcome" where
  \<comment> \<open>the tool's name, and what the request tools/call gave\<close>
  "CallTool json_err server name reply =
     bindR reply (\<lambda>result.
       case read_content result of
         None \<Rightarrow> Inl (mcpErrorf server ''tools/call'' (''malformed response from '' @ go_quote name @ '': '' @ json_err result))
       | Some p \<Rightarrow>
           (let content = join_with [newline] (filter (\<lambda>s. s \<noteq> []) (cp_Content p)) in
            if cp_IsError p then Inl (mcpErrorf server ''tools/call'' (''tool '' @ go_quote name @ '' reported an error: '' @ content))
            else Inr content))"

section \<open>Connecting\<close>

definition mcpServerNames :: "Strategy \<Rightarrow> string list" where
  "mcpServerNames s = (let names = map mc_Name (sy_McpServers s) in if length names = 0 then [''none''] else names)"

datatype mcp_event = Launched "string list" | Requested string ctx | Notified string ctx | ClosedConnection

record McpWorld =
  mw_launch :: "string list \<Rightarrow> McpError option"
  mw_reply :: "mcp_event list \<Rightarrow> mcp_reply"           \<comment> \<open>what a request is answered with, after what came before\<close>
  mw_notify :: "mcp_event list \<Rightarrow> McpError option"
  mw_json_err :: "jvalue option \<Rightarrow> string"

definition MCPProtocolVersion :: string where "MCPProtocolVersion = ''2024-11-05''"

definition initialize_params :: ctx where
  "initialize_params =
     [(''protocolVersion'', VStr MCPProtocolVersion), (''capabilities'', VMap []),
      (''clientInfo'', VMap [(''name'', VStr ''ear''), (''version'', VStr ''go'')])]"

definition Mcp_Connect :: "McpWorld \<Rightarrow> McpServer \<Rightarrow> McpError option \<times> mcp_event list" where
  \<comment> \<open>the error if there is one, and what was done on the connection\<close>
  "Mcp_Connect w server =
     (let name = mc_Name server; words = commandWords (mc_Command server) in
      if mc_Command server = [] then
        (Some (mcpErrorf name ''connect''
           (if mc_URL server \<noteq> []
            then ''declared with a URL ('' @ mc_URL server @
                 '') but this client speaks stdio only; declare a launch command instead''
            else ''declares no launch command to reach it'')), [])
      else if length words = 0 then (Some (mcpErrorf name ''connect'' ''launch command is empty''), [])
      else (case mw_launch w words of
        Some e \<Rightarrow> (Some e, [])
      | None \<Rightarrow>
          (let evs = [Launched words, Requested ''initialize'' initialize_params] in
           case mw_reply w evs of
             Inl e \<Rightarrow> (Some e, evs @ [ClosedConnection])
           | Inr result \<Rightarrow>
               (let evs' = evs @ [Notified ''notifications/initialized'' []] in
                case mw_notify w evs' of
                  Some e \<Rightarrow> (Some e, evs' @ [ClosedConnection])
                | None \<Rightarrow> (None, evs')))))"

definition mcp_bound :: "string \<Rightarrow> nat \<times> McpTool \<Rightarrow> BoundTool" where
  \<comment> \<open>the address of the handler, which calls the tool of that name\<close>
  "mcp_bound server nt =
     \<lparr>bt_Name = server @ ''.'' @ mt_Name (snd nt), bt_Description = mt_Description (snd nt),
      bt_Parameters = mt_Parameters (snd nt), bt_Handler = fst nt\<rparr>"

definition bind_mcp_tools :: "string \<Rightarrow> nat \<Rightarrow> McpTool list \<Rightarrow> ToolBinder \<Rightarrow> ToolBinder" where
  \<comment> \<open>the handlers get the addresses from the given one on\<close>
  "bind_mcp_tools server addr ts b = fold (\<lambda>nt. binder_add (mcp_bound server nt)) (enumerate addr ts) b"

definition mcp_handler :: "McpWorld \<Rightarrow> string \<Rightarrow> mcp_event list \<Rightarrow> string \<Rightarrow> ctx \<Rightarrow> (string, string) outcome" where
  \<comment> \<open>the handler of a bound tool: the call on the connection, an error as its text\<close>
  "mcp_handler mw server evs name args =
     (case CallTool (mw_json_err mw) server name
             (mw_reply mw (evs @ [Requested ''tools/call'' [(''name'', VStr name), (''arguments'', VMap args)]])) of
        Inl e \<Rightarrow> Inl (McpError_Error e)
      | Inr t \<Rightarrow> Inr t)"

definition connected_record :: "McpServer \<Rightarrow> nat \<Rightarrow> Record" where
  "connected_record server n =
     record_of ''mcp''
       [(''server'', VStr (mc_Name server)), (''reach'', VStr (Reach server)), (''tools'', VInt (int n))]
       (''connected to '' @ go_quote (mc_Name server) @ '', bound '' @ show_nat n @ '' tool(s)'')"

definition ConnectMCP ::
  "World \<Rightarrow> McpWorld \<Rightarrow> nat \<Rightarrow> string \<Rightarrow> Runtime \<Rightarrow> McpError option \<times> mcp_event list \<times> Runtime" where
  \<comment> \<open>the error if there is one, what was done on the connection, and the runtime\<close>
  "ConnectMCP w mw addr name r =
     (case rt_Strategy r of
        None \<Rightarrow> (Some (mcpErrorf name ''connect'' ''this runtime has no strategy declaring any MCP servers''), [], r)
      | Some strategy \<Rightarrow>
          (case McpServerNamed name strategy of
             None \<Rightarrow>
               (Some (mcpErrorf name ''connect''
                  (''not declared in memory.md'' @ [CHR 0x27] @ ''s ## MCP section (declared: '' @
                   join_with '', '' (mcpServerNames strategy) @ '')'')), [], r)
           | Some declared \<Rightarrow>
               (case Mcp_Connect mw declared of
                  (Some e, evs) \<Rightarrow> (Some e, evs, r)
                | (None, evs) \<Rightarrow>
                    (let evs' = evs @ [Requested ''tools/list'' []] in
                     case ListTools (mw_json_err mw) (mc_Name declared) (mw_reply mw evs') of
                       Inl e \<Rightarrow> (Some e, evs' @ [ClosedConnection], r)
                     | Inr ts \<Rightarrow>
                         (None, evs',
                          put_record w (connected_record declared (length ts))
                            (r\<lparr>rt_ToolBinder := bind_mcp_tools (mc_Name declared) addr ts (rt_ToolBinder r)\<rparr>))))))"

end
