(* ===== verification/McpTransport.thy ===== *)
theory McpTransport
  imports McpClient
begin

text \<open>
  The transport of \<^verbatim>\<open>mcp_client.go\<close> as shared state: any number of callers in \<open>request\<close>, the one
  goroutine that pumps the server's output, and \<open>Close\<close>.  Each critical section, channel operation or
  decision of a select is one step, and the steps interleave in any order.  The one-slot channel a
  request makes is known by the request's ID.  The frames read so far are the field \<open>my_seen\<close>, which the
  source has not.
\<close>

section \<open>The connection\<close>

record McpConn =
  cn_nextID :: int
  cn_pending :: "int list"
  cn_connected :: bool                                 \<comment> \<open>whether stdin is set\<close>
  cn_closed :: bool
  cn_pumpErr :: "string option"
  cn_slots :: "int \<Rightarrow> rpcMessage option option"      \<comment> \<open>what a channel holds; a nil pointer is Some None\<close>

definition not_connected :: "McpConn \<Rightarrow> bool" where
  "not_connected c \<longleftrightarrow> cn_closed c \<or> \<not> cn_connected c"

definition request_begin :: "string \<Rightarrow> string \<Rightarrow> McpConn \<Rightarrow> (McpError, int \<times> McpConn) outcome" where
  \<comment> \<open>the first critical section of request\<close>
  "request_begin server meth c =
     (if not_connected c then Inl (mcpErrorf server meth ''not connected'')
      else (let i = cn_nextID c + 1 in Inr (i, c\<lparr>cn_nextID := i, cn_pending := i # cn_pending c\<rparr>)))"

definition request_end :: "int \<Rightarrow> McpConn \<Rightarrow> McpConn" where
  \<comment> \<open>the deferred delete\<close>
  "request_end i c = c\<lparr>cn_pending := removeAll i (cn_pending c)\<rparr>"

definition received :: "string \<Rightarrow> string \<Rightarrow> string option \<Rightarrow> rpcMessage option \<Rightarrow> mcp_reply" where
  \<comment> \<open>what a caller makes of what its channel gave\<close>
  "received server meth pumpErr v =
     (case v of
        None \<Rightarrow> Inl (mcpErrorf server meth (case pumpErr of Some e \<Rightarrow> e | None \<Rightarrow> ''connection closed''))
      | Some m \<Rightarrow>
          (case rm_Error m of
             Some e \<Rightarrow> Inl (mcpErrorf server meth (''server error '' @ show_int (re_Code e) @ '': '' @ re_Message e))
           | None \<Rightarrow> Inr (rm_Result m)))"

definition deliver :: "rpcMessage \<Rightarrow> McpConn \<Rightarrow> (int \<times> rpcMessage) option \<times> McpConn" where
  \<comment> \<open>the critical section of deliver: the caller the frame is for, if somebody waits for it\<close>
  "deliver m c =
     (case rm_ID m of
        None \<Rightarrow> (None, c)
      | Some i \<Rightarrow>
          if i \<in> set (cn_pending c) then (Some (i, m), c\<lparr>cn_pending := removeAll i (cn_pending c)\<rparr>) else (None, c))"

definition offer :: "int \<Rightarrow> rpcMessage option \<Rightarrow> McpConn \<Rightarrow> McpConn" where
  \<comment> \<open>the select that sends, or does nothing when the slot is taken\<close>
  "offer i v c = (if cn_slots c i = None then c\<lparr>cn_slots := (cn_slots c)(i := Some v)\<rparr> else c)"

definition take_slot :: "int \<Rightarrow> McpConn \<Rightarrow> McpConn" where
  "take_slot i c = c\<lparr>cn_slots := (cn_slots c)(i := None)\<rparr>"

definition drainPending :: "McpConn \<Rightarrow> int list \<times> McpConn" where
  \<comment> \<open>the critical section: the callers that wait\<close>
  "drainPending c = (cn_pending c, c\<lparr>cn_pending := []\<rparr>)"

definition pump_end :: "string \<Rightarrow> McpConn \<Rightarrow> McpConn" where
  "pump_end err c = c\<lparr>cn_pumpErr := Some err\<rparr>"

definition Close_begin :: "McpConn \<Rightarrow> McpConn option" where
  "Close_begin c = (if cn_closed c then None else Some (c\<lparr>cn_closed := True\<rparr>))"

definition new_conn :: McpConn where
  \<comment> \<open>a connection after its launch\<close>
  "new_conn = \<lparr>cn_nextID = 0, cn_pending = [], cn_connected = True, cn_closed = False, cn_pumpErr = None, cn_slots = (\<lambda>_. None)\<rparr>"

section \<open>The steps\<close>

text \<open>
  The pump and \<open>Close\<close> both end with one drain: the pump after the output of the server has ended, \<open>Close\<close>
  after it has marked the connection closed.  Each drain collects the callers that wait once, and then
  sends nil to each of them.
\<close>

datatype drainer = Running | DrainOwed | Drained

datatype caller = Sending | Waiting | Leaving mcp_reply | Returned mcp_reply

record McpSystem =
  my_conn :: McpConn
  my_callers :: "int \<Rightarrow> caller option"
  my_methods :: "int \<Rightarrow> string"
  my_hand :: "(int \<times> rpcMessage) option"   \<comment> \<open>the frame the pump is about to send to a caller\<close>
  my_draining :: "int list"                  \<comment> \<open>the callers a drain has still to send nil to\<close>
  my_pump :: drainer                         \<comment> \<open>the pump reads, or owes its drain, or is gone\<close>
  my_closer :: drainer                       \<comment> \<open>Close was not called, or owes its drain, or has returned\<close>
  my_seen :: "rpcMessage list"

definition new_system :: McpSystem where
  "new_system = \<lparr>my_conn = new_conn, my_callers = (\<lambda>_. None), my_methods = (\<lambda>_. []), my_hand = None, my_draining = [],
     my_pump = Running, my_closer = Running, my_seen = []\<rparr>"

definition set_caller :: "int \<Rightarrow> caller \<Rightarrow> McpSystem \<Rightarrow> McpSystem" where
  "set_caller i x s = s\<lparr>my_callers := (my_callers s)(i := Some x)\<rparr>"

definition set_conn :: "McpConn \<Rightarrow> McpSystem \<Rightarrow> McpSystem" where
  "set_conn c s = s\<lparr>my_conn := c\<rparr>"

inductive mcp_step :: "string \<Rightarrow> McpSystem \<Rightarrow> McpSystem \<Rightarrow> bool" for server where
  register: "request_begin server meth (my_conn s) = Inr (i, c) \<Longrightarrow>
    mcp_step server s (set_caller i Sending (set_conn c (s\<lparr>my_methods := (my_methods s)(i := meth)\<rparr>)))"
| written: "my_callers s i = Some Sending \<Longrightarrow> \<not> not_connected (my_conn s) \<Longrightarrow> mcp_step server s (set_caller i Waiting s)"
| unwritten: "my_callers s i = Some Sending \<Longrightarrow> mcp_step server s (set_caller i (Leaving (Inl e)) s)"
| receive: "my_callers s i = Some Waiting \<Longrightarrow> cn_slots (my_conn s) i = Some v \<Longrightarrow>
    mcp_step server s
      (set_caller i (Leaving (received server (my_methods s i) (cn_pumpErr (my_conn s)) v)) (set_conn (take_slot i (my_conn s)) s))"
| give_up: "my_callers s i = Some Waiting \<Longrightarrow> mcp_step server s (set_caller i (Leaving (Inl e)) s)"
| leave: "my_callers s i = Some (Leaving x) \<Longrightarrow>
    mcp_step server s (set_caller i (Returned x) (set_conn (request_end i (my_conn s)) s))"
| frame: "my_pump s = Running \<Longrightarrow> my_hand s = None \<Longrightarrow> deliver m (my_conn s) = (h, c) \<Longrightarrow>
    mcp_step server s ((set_conn c s)\<lparr>my_hand := h, my_seen := my_seen s @ [m]\<rparr>)"
| hand_over: "my_hand s = Some (i, m) \<Longrightarrow> mcp_step server s ((set_conn (offer i (Some m) (my_conn s)) s)\<lparr>my_hand := None\<rparr>)"
| end_of_file: "my_pump s = Running \<Longrightarrow> my_hand s = None \<Longrightarrow>
    mcp_step server s ((set_conn (pump_end err (my_conn s)) s)\<lparr>my_pump := DrainOwed\<rparr>)"
| pump_drain: "my_pump s = DrainOwed \<Longrightarrow> drainPending (my_conn s) = (is, c) \<Longrightarrow>
    mcp_step server s ((set_conn c s)\<lparr>my_draining := my_draining s @ is, my_pump := Drained\<rparr>)"
| send_nil: "my_draining s = xs @ i # ys \<Longrightarrow>
    mcp_step server s ((set_conn (offer i None (my_conn s)) s)\<lparr>my_draining := xs @ ys\<rparr>)"
| close: "Close_begin (my_conn s) = Some c \<Longrightarrow> mcp_step server s ((set_conn c s)\<lparr>my_closer := DrainOwed\<rparr>)"
| close_drain: "my_closer s = DrainOwed \<Longrightarrow> drainPending (my_conn s) = (is, c) \<Longrightarrow>
    mcp_step server s ((set_conn c s)\<lparr>my_draining := my_draining s @ is, my_closer := Drained\<rparr>)"

inductive mcp_reachable :: "string \<Rightarrow> McpSystem \<Rightarrow> bool" for server where
  start: "mcp_reachable server new_system"
| step: "mcp_reachable server s \<Longrightarrow> mcp_step server s s' \<Longrightarrow> mcp_reachable server s'"

section \<open>The invariant\<close>

text \<open>
  Where a request stands: registered, which alone promises nothing, or with its answer in the pump's hand, in
  a drain's list, or in its channel.
\<close>

definition pledges :: "McpSystem \<Rightarrow> int \<Rightarrow> nat" where
  "pledges s i =
     (if i \<in> set (cn_pending (my_conn s)) then 1 else 0) +
     (case my_hand s of Some (j, m) \<Rightarrow> if j = i then 1 else 0 | None \<Rightarrow> 0) +
     count_list (my_draining s) i + (if cn_slots (my_conn s) i = None then 0 else 1)"

definition active :: "McpSystem \<Rightarrow> int \<Rightarrow> bool" where
  "active s i \<longleftrightarrow> my_callers s i = Some Sending \<or> my_callers s i = Some Waiting"

definition frame_for :: "McpSystem \<Rightarrow> int \<Rightarrow> rpcMessage \<Rightarrow> bool" where
  "frame_for s i m \<longleftrightarrow> m \<in> set (my_seen s) \<and> rm_ID m = Some i"

definition success_ok :: "McpSystem \<Rightarrow> int \<Rightarrow> mcp_reply \<Rightarrow> bool" where
  "success_ok s i x \<longleftrightarrow>
     (case x of Inl e \<Rightarrow> True | Inr v \<Rightarrow> \<exists>m. frame_for s i m \<and> rm_Error m = None \<and> rm_Result m = v)"

definition counts_ok :: "McpSystem \<Rightarrow> bool" where
  "counts_ok s \<longleftrightarrow>
     distinct (cn_pending (my_conn s)) \<and>
     (\<forall>i. pledges s i \<le> 1) \<and> (\<forall>i. active s i \<longrightarrow> pledges s i = 1) \<and>
     (\<forall>i. 0 < pledges s i \<or> my_callers s i \<noteq> None \<longrightarrow> i \<le> cn_nextID (my_conn s))"

definition frames_ok :: "McpSystem \<Rightarrow> bool" where
  "frames_ok s \<longleftrightarrow>
     (\<forall>i m. my_hand s = Some (i, m) \<longrightarrow> frame_for s i m) \<and>
     (\<forall>i m. cn_slots (my_conn s) i = Some (Some m) \<longrightarrow> frame_for s i m) \<and>
     (\<forall>i x. my_callers s i = Some (Leaving x) \<or> my_callers s i = Some (Returned x) \<longrightarrow> success_ok s i x)"

lemmas mcp_state_simps = set_caller_def set_conn_def request_end_def take_slot_def pump_end_def

lemma request_begin_Inr:
  "request_begin server meth c = Inr (i, c') \<Longrightarrow>
   i = cn_nextID c + 1 \<and> c' = c\<lparr>cn_nextID := i, cn_pending := i # cn_pending c\<rparr>"
  by (auto simp: request_begin_def Let_def split: if_splits)

lemma deliver_cases:
  "deliver m c = (h, c') \<Longrightarrow>
   h = None \<and> c' = c \<or>
   (\<exists>i. rm_ID m = Some i \<and> i \<in> set (cn_pending c) \<and> h = Some (i, m) \<and> c' = c\<lparr>cn_pending := removeAll i (cn_pending c)\<rparr>)"
  by (auto simp: deliver_def split: option.splits if_splits)

lemma count_distinct: "distinct xs \<Longrightarrow> count_list xs x = (if x \<in> set xs then 1 else 0)"
  by (induction xs) auto

lemma counts_distinct: "counts_ok s \<Longrightarrow> distinct (cn_pending (my_conn s))"
  by (simp add: counts_ok_def)

text \<open>A step moves the answer of a request from one place to the next; only the caller takes it away.\<close>

lemma counts_less:
  assumes "counts_ok s" "\<And>i. pledges s' i \<le> pledges s i" "\<And>i. active s' i \<Longrightarrow> active s i \<and> pledges s' i = pledges s i"
    "distinct (cn_pending (my_conn s'))" "cn_nextID (my_conn s') = cn_nextID (my_conn s)"
    "\<And>i. my_callers s' i \<noteq> None \<Longrightarrow> my_callers s i \<noteq> None"
  shows "counts_ok s'"
proof -
  have "pledges s' i \<le> 1" for i using assms(1) assms(2) [of i] unfolding counts_ok_def by (meson order_trans)
  moreover have "pledges s' i = 1" if "active s' i" for i using assms(1) assms(3) [OF that] unfolding counts_ok_def by simp
  moreover have "i \<le> cn_nextID (my_conn s')" if "0 < pledges s' i \<or> my_callers s' i \<noteq> None" for i
    using that assms(1,5) assms(2) [of i] assms(6) [of i] unfolding counts_ok_def by (metis less_le_trans)
  ultimately show ?thesis using assms(4) by (simp add: counts_ok_def)
qed

lemma counts_new_id:
  assumes "counts_ok s" shows "pledges s (cn_nextID (my_conn s) + 1) = 0" "my_callers s (cn_nextID (my_conn s) + 1) = None"
proof -
  have "i \<le> cn_nextID (my_conn s)" if "0 < pledges s i \<or> my_callers s i \<noteq> None" for i
    using assms that unfolding counts_ok_def by blast
  from this [of "cn_nextID (my_conn s) + 1"]
  have "\<not> (0 < pledges s (cn_nextID (my_conn s) + 1) \<or> my_callers s (cn_nextID (my_conn s) + 1) \<noteq> None)"
    by linarith
  then show "pledges s (cn_nextID (my_conn s) + 1) = 0" "my_callers s (cn_nextID (my_conn s) + 1) = None"
    by simp_all
qed

lemma counts_register:
  assumes ok: "counts_ok s" and i: "i = cn_nextID (my_conn s) + 1"
    and p: "\<And>j. pledges s' j = pledges s j + (if j = i then 1 else 0)" and n: "cn_nextID (my_conn s') = i"
    and d: "cn_pending (my_conn s') = i # cn_pending (my_conn s)" and c: "my_callers s' = (my_callers s)(i := Some Sending)"
  shows "counts_ok s'"
proof -
  have new: "pledges s i = 0" using counts_new_id [OF ok] i by simp
  then have "i \<notin> set (cn_pending (my_conn s))" by (simp add: pledges_def split: if_splits)
  then have "distinct (cn_pending (my_conn s'))" using ok d by (simp add: counts_ok_def)
  moreover have "pledges s' j \<le> 1" for j using ok p [of j] new by (auto simp: counts_ok_def)
  moreover have "pledges s' j = 1" if "active s' j" for j
    using ok p [of j] new that by (cases "j = i") (auto simp: counts_ok_def active_def c)
  moreover have "j \<le> i" if "0 < pledges s' j \<or> my_callers s' j \<noteq> None" for j
  proof (cases "j = i")
    case False
    with that p [of j] c have "0 < pledges s j \<or> my_callers s j \<noteq> None" by simp
    with ok have "j \<le> cn_nextID (my_conn s)" unfolding counts_ok_def by blast
    then show ?thesis using i by simp
  qed simp
  ultimately show ?thesis using n by (simp add: counts_ok_def)
qed

lemma slot_free:
  assumes "counts_ok s" "(\<exists>m. my_hand s = Some (i, m)) \<or> i \<in> set (my_draining s)"
  shows "cn_slots (my_conn s) i = None"
proof (rule ccontr)
  assume "cn_slots (my_conn s) i \<noteq> None"
  moreover have "0 < count_list (my_draining s) i \<or> (\<exists>m. my_hand s = Some (i, m))"
    using assms(2) by (auto simp: count_list_0_iff simp flip: neq0_conv)
  ultimately have "2 \<le> pledges s i" by (auto simp: pledges_def)
  then show False using assms(1) by (metis counts_ok_def not_less_eq_eq numeral_2_eq_2 One_nat_def)
qed

lemma counts_step: "mcp_step server s s' \<Longrightarrow> counts_ok s \<Longrightarrow> counts_ok s'"
proof (induction rule: mcp_step.induct)
  case (register meth s i c)
  note ic = request_begin_Inr [OF register(1)]
  have "pledges s i = 0" using counts_new_id [OF register(2)] ic by simp
  then have "i \<notin> set (cn_pending (my_conn s))" by (simp add: pledges_def split: if_splits)
  with ic show ?case
    by (intro counts_register [OF register(2)]) (auto simp: pledges_def mcp_state_simps)
next
  case (written s i)
  from written.hyps show ?case
    by (intro counts_less [OF written.prems]) (auto simp: pledges_def active_def mcp_state_simps counts_distinct [OF written.prems] split: if_splits)
next
  case (unwritten s i e)
  from unwritten.hyps show ?case
    by (intro counts_less [OF unwritten.prems]) (auto simp: pledges_def active_def mcp_state_simps counts_distinct [OF unwritten.prems] split: if_splits)
next
  case (receive s i v)
  from receive.hyps show ?case
    by (intro counts_less [OF receive.prems]) (auto simp: pledges_def active_def mcp_state_simps counts_distinct [OF receive.prems] split: if_splits)
next
  case (give_up s i e)
  from give_up.hyps show ?case
    by (intro counts_less [OF give_up.prems]) (auto simp: pledges_def active_def mcp_state_simps counts_distinct [OF give_up.prems] split: if_splits)
next
  case (leave s i x)
  from leave.hyps show ?case
    by (intro counts_less [OF leave.prems])
      (auto simp: pledges_def active_def mcp_state_simps counts_distinct [OF leave.prems] distinct_removeAll split: if_splits)
next
  case (frame s m h c)
  from deliver_cases [OF frame(3)] frame(1,2) show ?case
    by (intro counts_less [OF frame.prems])
      (auto simp: pledges_def active_def mcp_state_simps counts_distinct [OF frame.prems] distinct_removeAll)
next
  case (hand_over s i m)
  with slot_free [of s i] show ?case
    by (intro counts_less [OF hand_over.prems])
      (auto simp: pledges_def active_def mcp_state_simps counts_distinct [OF hand_over.prems] offer_def)
next
  case (end_of_file s err)
  then show ?case
    by (intro counts_less [OF end_of_file.prems])
      (auto simp: pledges_def active_def mcp_state_simps counts_distinct [OF end_of_file.prems])
next
  case (pump_drain s "is" c)
  from pump_drain.hyps show ?case
    by (intro counts_less [OF pump_drain.prems])
      (auto simp: pledges_def active_def mcp_state_simps drainPending_def count_distinct counts_distinct [OF pump_drain.prems])
next
  case (close_drain s "is" c)
  from close_drain.hyps show ?case
    by (intro counts_less [OF close_drain.prems])
      (auto simp: pledges_def active_def mcp_state_simps drainPending_def count_distinct counts_distinct [OF close_drain.prems])
next
  case (send_nil s xs i ys)
  with slot_free [of s i] show ?case
    by (intro counts_less [OF send_nil.prems])
      (auto simp: pledges_def active_def mcp_state_simps counts_distinct [OF send_nil.prems] offer_def)
next
  case (close s c)
  from close.hyps show ?case
    by (intro counts_less [OF close.prems])
      (auto simp: pledges_def active_def mcp_state_simps counts_distinct [OF close.prems] Close_begin_def split: if_splits)
qed

text \<open>Frames: what is on its way to a request, or was returned to it, was read with its ID.\<close>

lemma frame_for_seen: "set (my_seen s) \<subseteq> set (my_seen s') \<Longrightarrow> frame_for s i m \<Longrightarrow> frame_for s' i m"
  by (auto simp: frame_for_def)

lemma success_ok_seen: "set (my_seen s) \<subseteq> set (my_seen s') \<Longrightarrow> success_ok s i x \<Longrightarrow> success_ok s' i x"
  by (auto simp: success_ok_def split: sum.splits intro: frame_for_seen)

lemma frames_less:
  assumes "frames_ok s" "set (my_seen s) \<subseteq> set (my_seen s')"
    "\<And>i m. my_hand s' = Some (i, m) \<Longrightarrow> my_hand s = Some (i, m) \<or> frame_for s' i m"
    "\<And>i m. cn_slots (my_conn s') i = Some (Some m) \<Longrightarrow> cn_slots (my_conn s) i = Some (Some m) \<or> frame_for s' i m"
    "\<And>i x. my_callers s' i = Some (Leaving x) \<Longrightarrow> my_callers s i = Some (Leaving x) \<or> success_ok s' i x"
    "\<And>i x. my_callers s' i = Some (Returned x) \<Longrightarrow> my_callers s i = Some (Returned x) \<or> success_ok s' i x"
  shows "frames_ok s'"
proof -
  have "frame_for s' i m" if "my_hand s' = Some (i, m)" for i m
    using assms(1,2) assms(3) [OF that] frame_for_seen unfolding frames_ok_def by blast
  moreover have "frame_for s' i m" if "cn_slots (my_conn s') i = Some (Some m)" for i m
    using assms(1,2) assms(4) [OF that] frame_for_seen unfolding frames_ok_def by blast
  moreover have "success_ok s' i x" if "my_callers s' i = Some (Leaving x) \<or> my_callers s' i = Some (Returned x)" for i x
    using assms(1,2) assms(5,6) that success_ok_seen unfolding frames_ok_def by metis
  ultimately show ?thesis by (simp add: frames_ok_def)
qed

lemma received_ok:
  "frames_ok s \<Longrightarrow> cn_slots (my_conn s) i = Some v \<Longrightarrow> success_ok s i (received server meth err v)"
proof -
  assume ok: "frames_ok s" and v: "cn_slots (my_conn s) i = Some v"
  have "frame_for s i m" if "v = Some m" for m using ok v that by (simp add: frames_ok_def)
  then show "success_ok s i (received server meth err v)"
    by (cases v; cases "rm_Error (the v)") (auto simp: received_def success_ok_def)
qed

lemma success_ok_same: "my_seen s' = my_seen s \<Longrightarrow> success_ok s' i x = success_ok s i x"
  by (cases x) (simp_all add: success_ok_def frame_for_def)

lemma frames_step: "mcp_step server s s' \<Longrightarrow> frames_ok s \<Longrightarrow> frames_ok s'"
proof (induction rule: mcp_step.induct)
  case (register meth s i c)
  with request_begin_Inr [OF register(1)] show ?case
    by (intro frames_less [OF register.prems]) (auto simp: mcp_state_simps split: if_splits)
next
  case (written s i)
  then show ?case by (intro frames_less [OF written.prems]) (auto simp: mcp_state_simps split: if_splits)
next
  case (unwritten s i e)
  then show ?case
    by (intro frames_less [OF unwritten.prems]) (auto simp: mcp_state_simps success_ok_def split: if_splits)
next
  case (receive s i v)
  from received_ok [OF receive.prems receive.hyps(2), of server "my_methods s i" "cn_pumpErr (my_conn s)"] show ?case
    by (intro frames_less [OF receive.prems]) (auto simp: mcp_state_simps success_ok_def frame_for_def split: if_splits sum.splits)
next
  case (give_up s i e)
  then show ?case
    by (intro frames_less [OF give_up.prems]) (auto simp: mcp_state_simps success_ok_def split: if_splits)
next
  case (leave s i x)
  then have "success_ok s i x" by (auto simp: frames_ok_def)
  then show ?case
    by (intro frames_less [OF leave.prems]) (auto simp: mcp_state_simps success_ok_def frame_for_def split: if_splits sum.splits)
next
  case (frame s m h c)
  from deliver_cases [OF frame(3)] show ?case
    by (intro frames_less [OF frame.prems]) (auto simp: mcp_state_simps frame_for_def)
next
  case (hand_over s i m)
  then have "frame_for s i m" by (auto simp: frames_ok_def)
  then show ?case
    by (intro frames_less [OF hand_over.prems]) (auto simp: mcp_state_simps offer_def frame_for_def split: if_splits)
next
  case (end_of_file s err)
  then show ?case by (intro frames_less [OF end_of_file.prems]) (auto simp: mcp_state_simps)
next
  case (pump_drain s "is" c)
  then show ?case by (intro frames_less [OF pump_drain.prems]) (auto simp: mcp_state_simps drainPending_def)
next
  case (close_drain s "is" c)
  then show ?case by (intro frames_less [OF close_drain.prems]) (auto simp: mcp_state_simps drainPending_def)
next
  case (send_nil s xs i ys)
  then show ?case
    by (intro frames_less [OF send_nil.prems]) (auto simp: mcp_state_simps offer_def split: if_splits)
next
  case (close s c)
  then show ?case
    by (intro frames_less [OF close.prems]) (auto simp: mcp_state_simps Close_begin_def split: if_splits)
qed

lemma mcp_invariant: "mcp_reachable server s \<Longrightarrow> counts_ok s \<and> frames_ok s"
proof (induction rule: mcp_reachable.induct)
  case start
  then show ?case
    by (simp add: counts_ok_def frames_ok_def new_system_def new_conn_def pledges_def active_def)
next
  case (step s s')
  then show ?case using counts_step frames_step by blast
qed

section \<open>The drains\<close>

definition drains_ok :: "McpSystem \<Rightarrow> bool" where
  "drains_ok s \<longleftrightarrow>
     (my_closer s = Running \<longleftrightarrow> \<not> cn_closed (my_conn s)) \<and> (my_closer s = Drained \<longrightarrow> cn_pending (my_conn s) = [])"

lemma drains_step: "mcp_step server s s' \<Longrightarrow> drains_ok s \<Longrightarrow> drains_ok s'"
proof (induction rule: mcp_step.induct)
  case (register meth s i c)
  then have "\<not> cn_closed (my_conn s)" by (auto simp: request_begin_def not_connected_def split: if_splits)
  with register request_begin_Inr [OF register(1)] show ?case by (auto simp: drains_ok_def mcp_state_simps)
next
  case (frame s m h c)
  with deliver_cases [OF frame(3)] show ?case by (auto simp: drains_ok_def mcp_state_simps)
next
  case (close s c)
  then show ?case by (auto simp: drains_ok_def mcp_state_simps Close_begin_def split: if_splits)
qed (auto simp: drains_ok_def mcp_state_simps drainPending_def offer_def)

lemma mcp_drains: "mcp_reachable server s \<Longrightarrow> drains_ok s"
proof (induction rule: mcp_reachable.induct)
  case start
  then show ?case by (simp add: drains_ok_def new_system_def new_conn_def)
next
  case (step s s')
  then show ?case using drains_step by blast
qed

text \<open>A request the pump's drain has passed is not registered any more; its ID is never given again.\<close>

definition passed :: "int \<Rightarrow> McpSystem \<Rightarrow> bool" where
  "passed i s \<longleftrightarrow> i \<le> cn_nextID (my_conn s) \<and> (my_pump s = Drained \<longrightarrow> i \<notin> set (cn_pending (my_conn s)))"

lemma passed_step: "mcp_step server s s' \<Longrightarrow> passed i s \<Longrightarrow> passed i s'"
proof (induction rule: mcp_step.induct)
  case (register meth s j c)
  with request_begin_Inr [OF register(1)] show ?case by (auto simp: passed_def mcp_state_simps)
next
  case (frame s m h c)
  with deliver_cases [OF frame(3)] show ?case by (auto simp: passed_def mcp_state_simps)
next
  case (close s c)
  then show ?case by (auto simp: passed_def mcp_state_simps Close_begin_def split: if_splits)
qed (auto simp: passed_def mcp_state_simps drainPending_def offer_def)

lemma passed_steps: "(mcp_step server)\<^sup>*\<^sup>* s s' \<Longrightarrow> passed i s \<Longrightarrow> passed i s'"
  by (induction rule: rtranclp_induct) (auto intro: passed_step)

lemma mcp_reachable_steps: "(mcp_step server)\<^sup>*\<^sup>* s s' \<Longrightarrow> mcp_reachable server s \<Longrightarrow> mcp_reachable server s'"
  by (induction rule: rtranclp_induct) (auto intro: mcp_reachable.step)

text \<open>
  An answer is on its way when the pump has it in its hand, a drain has collected the caller, or the channel
  holds it; it is still to come while the request is registered with a pump or a drain that will serve it.
\<close>

definition on_its_way :: "McpSystem \<Rightarrow> int \<Rightarrow> nat" where
  "on_its_way s i =
     (case my_hand s of Some (j, m) \<Rightarrow> if j = i then 1 else 0 | None \<Rightarrow> 0) +
     count_list (my_draining s) i + (if cn_slots (my_conn s) i = None then 0 else 1)"

definition to_come :: "McpSystem \<Rightarrow> int \<Rightarrow> nat" where
  "to_come s i =
     (if i \<in> set (cn_pending (my_conn s)) \<and> (my_pump s \<noteq> Drained \<or> my_closer s = DrainOwed) then 1 else 0)"

section \<open>Properties\<close>

text \<open>
  C18. Whatever the callers, the server and the clock do: a request that succeeds returns the result of
  a frame the pump read with that request's own ID, so no reply reaches another caller.
\<close>
theorem reply_reaches_its_request:
  assumes "mcp_reachable server s" "my_callers s i = Some (Returned (Inr v))"
  shows "\<exists>m \<in> set (my_seen s). rm_ID m = Some i \<and> rm_Error m = None \<and> rm_Result m = v"
  using mcp_invariant [OF assms(1)] assms(2) unfolding frames_ok_def
  by (fastforce simp: success_ok_def frame_for_def)

text \<open>
  C20. No caller is lost. Take a request made before the pump's last drain, in any continuation of the run:
  while it waits there is exactly one answer for it, on its way or to come; once the pump has drained, or
  \<open>Close\<close> has, that answer is on its way (in the pump's hand, collected by a drain, or in the channel). There is
  never more than one, and a send never meets a full channel, so no answer is thrown away.
\<close>
theorem waiting_caller_is_not_lost:
  assumes "mcp_reachable server s0" "my_callers s0 i \<noteq> None" "my_pump s0 \<noteq> Drained" "(mcp_step server)\<^sup>*\<^sup>* s0 s"
  shows "on_its_way s i + to_come s i \<le> 1 \<and>
    (my_callers s i = Some Waiting \<longrightarrow>
       on_its_way s i + to_come s i = 1 \<and> (my_pump s = Drained \<or> my_closer s = Drained \<longrightarrow> on_its_way s i = 1)) \<and>
    ((\<exists>m. my_hand s = Some (i, m)) \<or> i \<in> set (my_draining s) \<longrightarrow> cn_slots (my_conn s) i = None)"
proof -
  have r: "mcp_reachable server s" using mcp_reachable_steps assms(1,4) by blast
  have "i \<le> cn_nextID (my_conn s0)" using mcp_invariant [OF assms(1)] assms(2) by (auto simp: counts_ok_def)
  with assms(3) have "passed i s0" by (simp add: passed_def)
  with assms(4) have p: "passed i s" using passed_steps by blast
  have d: "drains_ok s" by (rule mcp_drains [OF r])
  have counts: "counts_ok s" using mcp_invariant [OF r] by blast
  have "pledges s i = on_its_way s i + to_come s i"
    using p d by (cases "my_closer s") (auto simp: pledges_def on_its_way_def to_come_def passed_def drains_ok_def)
  moreover have "to_come s i = 0" if "my_pump s = Drained \<or> my_closer s = Drained"
    using p d that by (auto simp: to_come_def passed_def drains_ok_def)
  moreover have "pledges s i \<le> 1" "my_callers s i = Some Waiting \<Longrightarrow> pledges s i = 1"
    using counts by (simp_all add: counts_ok_def active_def)
  ultimately show ?thesis using slot_free [OF counts, of i] by auto
qed

text \<open>A run of one request, for examples: registered, written, answered, received and returned.\<close>

definition pong :: rpcMessage where
  "pong = no_message\<lparr>rm_ID := Some 1, rm_Result := Some (JStr ''pong'')\<rparr>"

definition asked :: McpSystem where
  "asked = set_caller 1 Waiting (set_caller 1 Sending
     (set_conn (new_conn\<lparr>cn_nextID := 1, cn_pending := [1]\<rparr>) (new_system\<lparr>my_methods := (my_methods new_system)(1 := ''ping'')\<rparr>)))"

definition answered :: McpSystem where
  "answered = (set_conn (offer 1 (Some pong) (request_end 1 (my_conn asked))) asked)\<lparr>my_seen := [pong]\<rparr>"

definition finished :: McpSystem where
  "finished = set_caller 1 (Returned (Inr (Some (JStr ''pong''))))
     (set_conn (request_end 1 (take_slot 1 (my_conn answered)))
       (set_caller 1 (Leaving (Inr (Some (JStr ''pong'')))) (set_conn (take_slot 1 (my_conn answered)) answered)))"

lemma asked_reachable: "mcp_reachable server asked"
proof -
  have "request_begin server ''ping'' (my_conn new_system) = Inr (1, new_conn\<lparr>cn_nextID := 1, cn_pending := [1]\<rparr>)"
    by (simp add: request_begin_def not_connected_def new_system_def new_conn_def)
  from mcp_reachable.step [OF mcp_reachable.start mcp_step.register [OF this]]
  show ?thesis unfolding asked_def
    by (rule mcp_reachable.step) (rule mcp_step.written, simp_all add: mcp_state_simps not_connected_def new_conn_def)
qed

lemma answered_reachable: "mcp_reachable server answered"
proof -
  have "deliver pong (my_conn asked) = (Some (1, pong), request_end 1 (my_conn asked))"
    by (simp add: deliver_def pong_def asked_def mcp_state_simps)
  moreover have "my_pump asked = Running" "my_hand asked = None" "my_seen asked = []"
    by (simp_all add: asked_def mcp_state_simps new_system_def)
  ultimately have "mcp_step server asked ((set_conn (request_end 1 (my_conn asked)) asked)\<lparr>my_hand := Some (1, pong), my_seen := [pong]\<rparr>)"
    using mcp_step.frame [of asked pong "Some (1, pong)" "request_end 1 (my_conn asked)" server] by simp
  from mcp_reachable.step [OF asked_reachable this]
  have r: "mcp_reachable server ((set_conn (request_end 1 (my_conn asked)) asked)\<lparr>my_hand := Some (1, pong), my_seen := [pong]\<rparr>)" .
  have "answered = (set_conn (offer 1 (Some pong) (request_end 1 (my_conn asked)))
      ((set_conn (request_end 1 (my_conn asked)) asked)\<lparr>my_hand := Some (1, pong), my_seen := [pong]\<rparr>))\<lparr>my_hand := None\<rparr>"
    using \<open>my_hand asked = None\<close> by (cases asked) (simp add: answered_def set_conn_def)
  then show ?thesis
    using mcp_reachable.step [OF r mcp_step.hand_over [of _ 1 pong]] by (simp add: set_conn_def)
qed

lemma finished_reachable: "mcp_reachable server finished"
proof -
  have slot: "cn_slots (my_conn answered) 1 = Some (Some pong)"
    by (simp add: answered_def asked_def mcp_state_simps offer_def new_conn_def)
  have "received server m err (Some pong) = Inr (Some (JStr ''pong''))" for m err
    by (simp add: received_def pong_def no_message_def)
  with mcp_reachable.step [OF answered_reachable mcp_step.receive [OF _ slot, of server]]
  have "mcp_reachable server (set_caller 1 (Leaving (Inr (Some (JStr ''pong'')))) (set_conn (take_slot 1 (my_conn answered)) answered))"
    by (simp add: answered_def asked_def mcp_state_simps)
  from mcp_reachable.step [OF this mcp_step.leave [of _ 1]]
  show ?thesis by (simp add: finished_def set_caller_def set_conn_def)
qed

theorem reply_reaches_its_request_witness:
  "\<exists>m \<in> set (my_seen finished). rm_ID m = Some 1 \<and> rm_Error m = None \<and> rm_Result m = Some (JStr ''pong'')"
  by (rule reply_reaches_its_request [OF finished_reachable [of "''desk''"]]) (simp add: finished_def mcp_state_simps)

text \<open>A request the server never answers: its output ends, and the pump's drain collects the caller.\<close>

definition ended :: "string \<Rightarrow> McpSystem" where
  "ended err = (set_conn (pump_end err (my_conn asked)) asked)\<lparr>my_pump := DrainOwed\<rparr>"

definition drained :: "string \<Rightarrow> McpSystem" where
  "drained err = (set_conn (request_end 1 (my_conn (ended err))) (ended err))\<lparr>my_draining := [1], my_pump := Drained\<rparr>"

lemma drained_steps: "(mcp_step server)\<^sup>*\<^sup>* asked (drained err)"
proof -
  have "mcp_step server asked (ended err)"
    unfolding ended_def by (rule mcp_step.end_of_file) (simp_all add: asked_def mcp_state_simps new_system_def)
  moreover have "mcp_step server (ended err) (drained err)"
    using mcp_step.pump_drain [of "ended err" "[1]" "request_end 1 (my_conn (ended err))" server]
    by (simp add: ended_def drained_def asked_def mcp_state_simps new_system_def new_conn_def drainPending_def)
  ultimately show ?thesis by (meson rtranclp.rtrancl_refl rtranclp.rtrancl_into_rtrancl)
qed

theorem waiting_caller_is_not_lost_witness: "on_its_way (drained ''EOF'') 1 = 1"
proof -
  have "my_callers asked 1 \<noteq> None" "my_pump asked \<noteq> Drained" by (simp_all add: asked_def mcp_state_simps new_system_def)
  note waiting_caller_is_not_lost [OF asked_reachable [of "''desk''"] this drained_steps [of "''desk''" "''EOF''"]]
  moreover have "my_callers (drained ''EOF'') 1 = Some Waiting" "my_pump (drained ''EOF'') = Drained"
    by (simp_all add: drained_def ended_def asked_def mcp_state_simps)
  ultimately show ?thesis by simp
qed

text \<open>
  The pump's own drain answers only the callers of its moment: a request made after the output of the server
  has ended, before the client is closed, waits for its deadline.
\<close>

theorem request_after_end_waits:
  "\<exists>s. mcp_reachable server s \<and> my_pump s = Drained \<and> my_closer s = Running \<and> my_callers s 1 = Some Waiting \<and>
     cn_pumpErr (my_conn s) = Some err \<and> on_its_way s 1 = 0 \<and> to_come s 1 = 0"
proof -
  let ?s0 = "(set_conn (pump_end err (my_conn new_system)) new_system)\<lparr>my_pump := DrainOwed\<rparr>"
  let ?s1 = "(set_conn (pump_end err (my_conn new_system)) new_system)\<lparr>my_pump := Drained\<rparr>"
  have r0: "mcp_reachable server ?s0"
    by (rule mcp_reachable.step [OF mcp_reachable.start], rule mcp_step.end_of_file) (simp_all add: new_system_def)
  have "drainPending (my_conn ?s0) = ([], my_conn ?s0)"
    by (simp add: drainPending_def new_system_def new_conn_def mcp_state_simps)
  from mcp_reachable.step [OF r0 mcp_step.pump_drain [OF _ this]]
  have r1: "mcp_reachable server ?s1" by (simp add: mcp_state_simps new_system_def)
  have "request_begin server ''ping'' (my_conn ?s1) = Inr (1, (pump_end err new_conn)\<lparr>cn_nextID := 1, cn_pending := [1]\<rparr>)"
    by (simp add: request_begin_def not_connected_def new_system_def new_conn_def mcp_state_simps)
  from mcp_reachable.step [OF r1 mcp_step.register [OF this]]
  have "mcp_reachable server (set_caller 1 Sending (set_conn ((pump_end err new_conn)\<lparr>cn_nextID := 1, cn_pending := [1]\<rparr>)
      (?s1\<lparr>my_methods := (my_methods ?s1)(1 := ''ping'')\<rparr>)))" .
  from mcp_reachable.step [OF this mcp_step.written [of _ 1]] show ?thesis
    by (intro exI conjI) (assumption |
      simp add: mcp_state_simps not_connected_def new_conn_def new_system_def on_its_way_def to_come_def)+
qed

text \<open>A late frame, and a notification, change nothing.\<close>

lemma late_frame_is_dropped:
  "rm_ID m = None \<or> (\<exists>i. rm_ID m = Some i \<and> i \<notin> set (cn_pending c)) \<Longrightarrow> deliver m c = (None, c)"
  by (auto simp: deliver_def)

end
