(* ===== verification/McpClientProps.thy ===== *)
theory McpClientProps
  imports McpTransport "HOL-Library.Multiset"
begin

text \<open>
  The rest of the client: the hand-written sort is the library's, quoting keeps every word of a command,
  connecting binds the tools of declared servers only and closes what it launched when it fails, and two
  ways in which the name of a bound tool is not its own.
\<close>

section \<open>Sorting\<close>

lemma set_sink [simp]: "set (sink v xs) = insert v (set xs)"
  by (induction v xs rule: sink.induct) auto

lemma mset_sink: "mset (sink v xs) = add_mset v (mset xs)"
  by (induction v xs rule: sink.induct) auto

lemma sink_sorted: "sorted_wrt (\<ge>) xs \<Longrightarrow> sorted_wrt (\<ge>) (sink v xs)"
proof (induction v xs rule: sink.induct)
  case (2 v u before)
  then show ?case by (auto simp: not_less intro: order_trans less_imp_le)
qed simp

text \<open>
  The sort the client writes out gives the list the library's sort gives.
\<close>
theorem sortStrings_sort: "sortStrings values = sort values"
proof -
  have m: "mset (fold sink vs acc) = mset vs + mset acc" for vs acc
    by (induction vs arbitrary: acc) (simp_all add: mset_sink)
  have o: "sorted_wrt (\<ge>) acc \<Longrightarrow> sorted_wrt (\<ge>) (fold sink vs acc)" for vs acc
    by (induction vs arbitrary: acc) (simp_all add: sink_sorted)
  have "sorted (sortStrings values)" using o [of "[]" "values"] by (simp add: sortStrings_def sorted_wrt_rev)
  moreover have "mset (sortStrings values) = mset values" using m [of "values" "[]"] by (simp add: sortStrings_def)
  ultimately show ?thesis by (metis properties_for_sort)
qed

section \<open>Commands\<close>

definition dquote :: "string \<Rightarrow> string" where
  "dquote w = CHR 0x22 # w @ [CHR 0x22]"

lemma command_inside:
  "CHR 0x22 \<notin> set w \<Longrightarrow> cw_quote s = Some CHR 0x22 \<Longrightarrow> fold command_rune w s = s\<lparr>cw_current := cw_current s @ w\<rparr>"
  by (induction w arbitrary: s) (auto simp: command_rune_def)

lemma command_quoted:
  "CHR 0x22 \<notin> set w \<Longrightarrow> cw_quote s = None \<Longrightarrow> cw_current s = [] \<Longrightarrow>
   fold command_rune (dquote w) s = s\<lparr>cw_current := w, cw_inWord := True\<rparr>"
  by (simp add: dquote_def command_rune_def command_inside)

lemma command_words_quoted:
  "list_all (\<lambda>w. CHR 0x22 \<notin> set w) (w # ws) \<Longrightarrow> cw_quote s = None \<Longrightarrow> cw_current s = [] \<Longrightarrow> \<not> cw_inWord s \<Longrightarrow>
   fold command_rune (join_with '' '' (map dquote (w # ws))) s =
     s\<lparr>cw_words := cw_words s @ butlast (w # ws), cw_current := last (w # ws), cw_inWord := True\<rparr>"
proof (induction ws arbitrary: w s)
  case Nil
  then show ?case by (simp add: command_quoted)
next
  case (Cons v ws)
  have "fold command_rune (dquote w @ '' '') s = s\<lparr>cw_words := cw_words s @ [w]\<rparr>"
    using Cons.prems by (simp add: command_quoted) (simp add: command_rune_def)
  then show ?case
    using Cons.prems Cons.IH [of v "s\<lparr>cw_words := cw_words s @ [w]\<rparr>"] by simp
qed

text \<open>
  Words written between double quotes come back as they are, spaces and empty words included.
\<close>
theorem quoted_words_survive:
  assumes "list_all (\<lambda>w. CHR 0x22 \<notin> set w) ws"
  shows "commandWords (join_with '' '' (map dquote ws)) = ws"
proof (cases ws)
  case (Cons w vs)
  with assms command_words_quoted [of w vs "\<lparr>cw_words = [], cw_current = [], cw_quote = None, cw_inWord = False\<rparr>"]
  show ?thesis by (simp add: commandWords_def Let_def)
qed (simp add: commandWords_def)

theorem quoted_words_survive_witness:
  "commandWords (join_with '' '' (map dquote [''my server'', [], ''--port=1''])) = [''my server'', [], ''--port=1'']"
  by (rule quoted_words_survive) simp

section \<open>Connecting\<close>

definition tool_at :: "string \<Rightarrow> nat \<Rightarrow> McpTool list \<Rightarrow> nat \<Rightarrow> BoundTool" where
  \<comment> \<open>the tool at an index of the server's catalogue, under the server's name\<close>
  "tool_at server addr ts i =
     \<lparr>bt_Name = server @ ''.'' @ mt_Name (ts ! i), bt_Description = mt_Description (ts ! i),
      bt_Parameters = mt_Parameters (ts ! i), bt_Handler = addr + i\<rparr>"

definition last_named :: "string \<Rightarrow> McpTool list \<Rightarrow> string \<Rightarrow> nat option" where
  \<comment> \<open>the last tool of the catalogue that answers to the name\<close>
  "last_named server ts n = find (\<lambda>i. toolKey (server @ ''.'' @ mt_Name (ts ! i)) = toolKey n) (rev [0..<length ts])"

lemma last_named_snoc:
  "last_named server (ts @ [t]) n =
     (if toolKey (server @ ''.'' @ mt_Name t) = toolKey n then Some (length ts) else last_named server ts n)"
  by (auto simp: last_named_def nth_append intro!: find_cong)

lemma bind_mcp_last:
  "binder_Get (bind_mcp_tools server addr ts b) n =
     (case last_named server ts n of Some i \<Rightarrow> Some (tool_at server addr ts i) | None \<Rightarrow> binder_Get b n)"
proof (induction ts rule: rev_induct)
  case (snoc t ts)
  have bound: "i < length ts" if "last_named server ts n = Some i" for i
    using that by (auto simp: last_named_def find_Some_iff rev_nth)
  have "binder_Get (bind_mcp_tools server addr (ts @ [t]) b) n =
      (if toolKey n = toolKey (server @ ''.'' @ mt_Name t) then Some (mcp_bound server (addr + length ts, t))
       else binder_Get (bind_mcp_tools server addr ts b) n)"
    by (simp add: bind_mcp_tools_def enumerate_append_eq binder_Get_def binder_add_def Let_def mcp_bound_def)
  with snoc.IH bound show ?case
    by (auto simp: last_named_snoc tool_at_def mcp_bound_def nth_append split: option.split)
qed (simp add: bind_mcp_tools_def last_named_def)

definition names_server :: "Runtime \<Rightarrow> string \<Rightarrow> McpServer \<Rightarrow> bool" where
  \<comment> \<open>the stack declares a server of that name, with a command to launch it\<close>
  "names_server r name d \<longleftrightarrow>
     (\<exists>strategy. rt_Strategy r = Some strategy \<and> d \<in> set (sy_McpServers strategy)) \<and>
     Normalize (mc_Name d) = Normalize name \<and> mc_Command d \<noteq> []"

lemma Mcp_Connect_events:
  assumes "Mcp_Connect mw d = (res, evs)"
  shows "(res \<noteq> None \<and> evs = []) \<or>
    (mc_Command d \<noteq> [] \<and> (\<exists>rest. evs = Launched (commandWords (mc_Command d)) # rest \<and> (\<forall>ws. Launched ws \<notin> set rest) \<and>
       (res = None \<or> last evs = ClosedConnection)))"
  using assms by (auto simp: Mcp_Connect_def Let_def dest: sym [of "Some _"] split: if_splits option.splits sum.splits)

text \<open>
  C25. Connecting launches only a server the stack declares under that name, by its declared command and at
  most once. A failure leaves the runtime as it was and nothing running. A success binds the catalogue
  the server gave: a name that answers to a listed tool under the server's name now gets the last such
  tool, as the server described it and with a handler of its own, every other name gets what it got
  before; one record names the server, its reach and the number of tools; nothing else of the runtime changes.
\<close>
theorem connect_only_declared:
  "case ConnectMCP w mw addr name r of (res, evs, r') \<Rightarrow>
     (evs = [] \<or> (\<exists>d rest. names_server r name d \<and> evs = Launched (commandWords (mc_Command d)) # rest \<and>
        (\<forall>words. Launched words \<notin> set rest))) \<and>
     (case res of
        Some e \<Rightarrow> r' = r \<and> (evs = [] \<or> last evs = ClosedConnection)
      | None \<Rightarrow>
          \<exists>d ts binder rec. names_server r name d \<and> hd evs = Launched (commandWords (mc_Command d)) \<and>
            ListTools (mw_json_err mw) (mc_Name d) (mw_reply mw evs) = Inr ts \<and>
            r' = put_record w rec (r\<lparr>rt_ToolBinder := binder\<rparr>) \<and>
            (\<forall>n. binder_Get binder n =
               (case last_named (mc_Name d) ts n of
                  Some i \<Rightarrow> Some (tool_at (mc_Name d) addr ts i)
                | None \<Rightarrow> binder_Get (rt_ToolBinder r) n)) \<and>
            rc_Stage rec = ''mcp'' \<and> value_of (rc_Inputs rec) ''server'' = VStr (mc_Name d) \<and>
            value_of (rc_Inputs rec) ''reach'' = VStr (Reach d) \<and>
            value_of (rc_Inputs rec) ''tools'' = VInt (int (length ts)))"
proof (cases "rt_Strategy r")
  case None
  then show ?thesis by (simp add: ConnectMCP_def)
next
  case (Some strategy)
  show ?thesis
  proof (cases "McpServerNamed name strategy")
    case None
    with Some show ?thesis by (simp add: ConnectMCP_def)
  next
    case d: (Some d)
    have named: "names_server r name d" if "mc_Command d \<noteq> []"
      using d that Some by (auto simp: names_server_def McpServerNamed_def find_Some_iff)
    obtain err evs where c: "Mcp_Connect mw d = (err, evs)" by fastforce
    note evs = Mcp_Connect_events [OF c]
    show ?thesis
    proof (cases err)
      case (Some e)
      with c d evs \<open>rt_Strategy r = Some strategy\<close> show ?thesis
        using named by (auto simp: ConnectMCP_def)
    next
      case None
      define evs' where "evs' = evs @ [Requested ''tools/list'' []]"
      obtain rest where cmd: "mc_Command d \<noteq> []" and ev: "evs = Launched (commandWords (mc_Command d)) # rest"
        "\<forall>ws. Launched ws \<notin> set rest" using evs None by auto
      have run: "ConnectMCP w mw addr name r = (case ListTools (mw_json_err mw) (mc_Name d) (mw_reply mw evs') of
          Inl e \<Rightarrow> (Some e, evs' @ [ClosedConnection], r)
        | Inr ts \<Rightarrow> (None, evs', put_record w (connected_record d (length ts))
            (r\<lparr>rt_ToolBinder := bind_mcp_tools (mc_Name d) addr ts (rt_ToolBinder r)\<rparr>)))"
        unfolding evs'_def using c d None \<open>rt_Strategy r = Some strategy\<close> by (simp add: ConnectMCP_def Let_def)
      show ?thesis
      proof (cases "ListTools (mw_json_err mw) (mc_Name d) (mw_reply mw evs')")
        case (Inl e)
        then show ?thesis using run named [OF cmd] ev by (auto simp: evs'_def)
      next
        case (Inr ts)
        let ?b = "bind_mcp_tools (mc_Name d) addr ts (rt_ToolBinder r)" and ?rec = "connected_record d (length ts)"
        have "rc_Stage ?rec = ''mcp'' \<and> value_of (rc_Inputs ?rec) ''server'' = VStr (mc_Name d) \<and>
            value_of (rc_Inputs ?rec) ''reach'' = VStr (Reach d) \<and>
            value_of (rc_Inputs ?rec) ''tools'' = VInt (int (length ts))"
          by (simp add: connected_record_def record_of_def value_of_def)
        moreover have "evs' = Launched (commandWords (mc_Command d)) # (rest @ [Requested ''tools/list'' []])"
          using ev by (simp add: evs'_def)
        ultimately show ?thesis
          using run Inr named [OF cmd] ev(2) bind_mcp_last [of "mc_Name d" addr ts "rt_ToolBinder r"]
          by (auto intro!: exI [of _ d] exI [of _ ts] exI [of _ ?b] exI [of _ ?rec])
      qed
    qed
  qed
qed

text \<open>
  The namespace is not a wall: two declared servers can offer tools whose names are the same in full,
  and a tool of a server takes the place of a native tool whose name is alike.
\<close>

theorem mcp_names_collide:
  "bt_Name (mcp_bound ''crm'' (0, \<lparr>mt_Name = ''eu.search'', mt_Description = d, mt_Parameters = []\<rparr>)) =
   bt_Name (mcp_bound ''crm.eu'' (1, \<lparr>mt_Name = ''search'', mt_Description = d', mt_Parameters = []\<rparr>))"
  by (simp add: mcp_bound_def)

theorem mcp_tool_shadows_native:
  "map_option bt_Handler (binder_Get
     (bind_mcp_tools ''bank'' 9 [\<lparr>mt_Name = ''wire_funds'', mt_Description = [], mt_Parameters = []\<rparr>]
       (binder_add \<lparr>bt_Name = ''Bank.wire funds'', bt_Description = [], bt_Parameters = [], bt_Handler = 1\<rparr> NewToolBinder))
     ''Bank.wire funds'') = Some 9"
  by code_simp

end
