(* ===== verification/CommandArgs.thy ===== *)
theory CommandArgs
  imports Server
begin

text \<open>
  The command line of \<^verbatim>\<open>cmd/ear\<close>, its reading: what the commands use of the package flag, the
  separation of flags from positionals in \<^verbatim>\<open>main.go\<close>, context facts, the claim of the operator and the
  name of an instance.  The syntax of a duration is a parameter.
\<close>

section \<open>The package flag\<close>

datatype flag_kind = BoolFlag | StringFlag | IntFlag | DurationFlag

datatype flag_error =
    BadSyntax string
  | NotDefined string
  | HelpAsked
  | NeedsArgument string
  | BadValue string string

type_synonym flag_set = "(string \<times> flag_kind) list"
type_synonym settings = "(string \<times> string) list"   \<comment> \<open>every flag set, in order\<close>

definition int_base :: "string \<Rightarrow> nat \<times> string" where
  \<comment> \<open>the prefix of base 0\<close>
  "int_base t =
     (if has_prefix ''0'' t
      then (if 3 \<le> length t \<and> lower_char (t ! 1) = CHR ''b'' then (2, drop 2 t)
            else if 3 \<le> length t \<and> lower_char (t ! 1) = CHR ''o'' then (8, drop 2 t)
            else if 3 \<le> length t \<and> lower_char (t ! 1) = CHR ''x'' then (16, drop 2 t)
            else (8, drop 1 t))
      else (10, t))"

definition ParseInt0 :: "string \<Rightarrow> int option" where
  \<comment> \<open>strconv.ParseInt(s, 0, 64)\<close>
  "ParseInt0 s =
     (let neg = has_prefix ''-'' s;
          t = (if has_prefix ''-'' s \<or> has_prefix ''+'' s then drop 1 s else s);
          (base, body) = int_base t;
          prefixed = has_prefix ''0b'' (ToLower t) \<or> has_prefix ''0o'' (ToLower t) \<or> has_prefix ''0x'' (ToLower t);
          ds = filter (\<lambda>c. c \<noteq> CHR ''_'') body;
          n = foldl (\<lambda>m c. base * m + hex_val c) 0 ds;
          v = (if neg then - int n else int n)
      in if t \<noteq> [] \<and> list_all (\<lambda>c. is_hex c \<and> hex_val c < base) ds \<and>
            (CHR ''_'' \<in> set t \<longrightarrow>
               underscore_ok (has_prefix ''0x'' (ToLower t)) (if prefixed then CHR ''0'' else CHR ''!'') (if prefixed then drop 2 t else t)) \<and>
            min_int64 \<le> v \<and> v \<le> max_int64
         then Some v else None)"

definition value_ok :: "(string \<Rightarrow> duration option) \<Rightarrow> flag_kind \<Rightarrow> string \<Rightarrow> bool" where
  "value_ok dur kind v =
     (case kind of
        BoolFlag \<Rightarrow> ParseBool v \<noteq> None
      | StringFlag \<Rightarrow> True
      | IntFlag \<Rightarrow> ParseInt0 v \<noteq> None
      | DurationFlag \<Rightarrow> dur v \<noteq> None)"

definition flag_name :: "string \<Rightarrow> string \<times> string option" where
  \<comment> \<open>the text after the dashes: the name, and the value after an equals sign\<close>
  "flag_name t = (case cut_at ''='' t of Some (n, v) \<Rightarrow> (n, Some v) | None \<Rightarrow> (t, None))"

definition undashed :: "string \<Rightarrow> string" where
  "undashed s = (if has_prefix ''--'' s then drop 2 s else drop 1 s)"

fun parse_flags ::
  "(string \<Rightarrow> duration option) \<Rightarrow> flag_set \<Rightarrow> string list \<Rightarrow> (flag_error, settings \<times> string list) outcome" where
  \<comment> \<open>FlagSet.Parse: what is set, and the arguments left\<close>
  "parse_flags dur fs [] = Inr ([], [])"
| "parse_flags dur fs (s # rest) =
     (if length s < 2 \<or> \<not> has_prefix ''-'' s then Inr ([], s # rest)
      else if s = ''--'' then Inr ([], rest)
      else if undashed s = [] \<or> hd (undashed s) = CHR ''-'' \<or> hd (undashed s) = CHR ''='' then Inl (BadSyntax s)
      else
        (let name = fst (flag_name (undashed s)); given = snd (flag_name (undashed s)) in
         case map_of fs name of
           None \<Rightarrow> Inl (if name = ''help'' \<or> name = ''h'' then HelpAsked else NotDefined name)
         | Some BoolFlag \<Rightarrow>
             (let v = (case given of Some v \<Rightarrow> v | None \<Rightarrow> ''true'') in
              if \<not> value_ok dur BoolFlag v then Inl (BadValue name v)
              else bindR (parse_flags dur fs rest) (\<lambda>(sets, left). Inr ((name, v) # sets, left)))
         | Some kind \<Rightarrow>
             (case given of
                Some v \<Rightarrow>
                  if \<not> value_ok dur kind v then Inl (BadValue name v)
                  else bindR (parse_flags dur fs rest) (\<lambda>(sets, left). Inr ((name, v) # sets, left))
              | None \<Rightarrow>
                  (case rest of
                     [] \<Rightarrow> Inl (NeedsArgument name)
                   | v # rest' \<Rightarrow>
                       if \<not> value_ok dur kind v then Inl (BadValue name v)
                       else bindR (parse_flags dur fs rest') (\<lambda>(sets, left). Inr ((name, v) # sets, left))))))"

definition last_set :: "settings \<Rightarrow> string \<Rightarrow> string \<Rightarrow> string" where
  \<comment> \<open>the last value given to a flag, or its default\<close>
  "last_set sets name fallback = (case map_of (rev sets) name of Some v \<Rightarrow> v | None \<Rightarrow> fallback)"

definition bool_set :: "settings \<Rightarrow> string \<Rightarrow> bool" where
  "bool_set sets name \<longleftrightarrow> ParseBool (last_set sets name ''false'') = Some True"

definition int_set :: "settings \<Rightarrow> string \<Rightarrow> int \<Rightarrow> int" where
  "int_set sets name fallback = (case map_of (rev sets) name of Some v \<Rightarrow> the (ParseInt0 v) | None \<Rightarrow> fallback)"

definition all_set :: "settings \<Rightarrow> string \<Rightarrow> string list" where
  \<comment> \<open>a repeatable flag: contextFlags\<close>
  "all_set sets name = map snd (filter (\<lambda>e. fst e = name) sets)"

section \<open>Flags and positionals\<close>

definition value_names :: "flag_set \<Rightarrow> string list" where
  \<comment> \<open>the flags that take the following argument\<close>
  "value_names fs = map fst (filter (\<lambda>e. snd e \<noteq> BoolFlag) fs)"

definition is_positional :: "string \<Rightarrow> bool" where
  "is_positional arg \<longleftrightarrow> \<not> has_prefix ''-'' arg \<or> arg = ''-'' \<or> arg = ''--''"

definition takes_next :: "string list \<Rightarrow> string \<Rightarrow> bool" where
  "takes_next valueFlags arg \<longleftrightarrow>
     (case cut_at ''='' arg of Some _ \<Rightarrow> False | None \<Rightarrow> trim_left (\<lambda>c. c = CHR ''-'') arg \<in> set valueFlags)"

fun reorderArgs :: "string list \<Rightarrow> string list \<Rightarrow> string list \<times> string list" where
  "reorderArgs valueFlags [] = ([], [])"
| "reorderArgs valueFlags (arg # rest) =
     (if is_positional arg then (let (fl, po) = reorderArgs valueFlags rest in (fl, arg # po))
      else if takes_next valueFlags arg then
        (case rest of
           [] \<Rightarrow> ([arg], [])
         | v # rest' \<Rightarrow> (let (fl, po) = reorderArgs valueFlags rest' in (arg # v # fl, po)))
      else (let (fl, po) = reorderArgs valueFlags rest in (arg # fl, po)))"

section \<open>Context facts\<close>

definition context_pair :: "string \<Rightarrow> ctx \<Rightarrow> (string, ctx) outcome" where
  "context_pair pair c =
     (case cut_at ''='' pair of
        None \<Rightarrow> Inl (''context fact '' @ go_quote pair @ '' is not key=value'')
      | Some (key, v) \<Rightarrow>
          if TrimSpace key = [] then Inl (''context fact '' @ go_quote pair @ '' is not key=value'')
          else Inr (map_put (TrimSpace key) (Coerce v) c))"

fun context_pairs :: "string list \<Rightarrow> ctx \<Rightarrow> (string, ctx) outcome" where
  "context_pairs [] c = Inr c"
| "context_pairs (p # ps) c = bindR (context_pair p c) (context_pairs ps)"

definition parseContextPairs :: "string list \<Rightarrow> (string, ctx) outcome" where
  "parseContextPairs pairs = context_pairs pairs []"

section \<open>The operator\<close>

definition parseClaim :: "string \<Rightarrow> string \<Rightarrow> (string, Claim option) outcome" where
  "parseClaim subject0 orgs0 =
     (let subject = TrimSpace subject0; orgs = TrimSpace orgs0;
          ids = filter (\<lambda>i. i \<noteq> []) (map TrimSpace (split_char CHR '','' orgs))
      in if subject = [] \<and> orgs = [] then Inr None
         else if subject = [] \<or> orgs = [] then Inl ''-subject and -org must be given together''
         else if length ids = 0 then Inl ''-org names no org ids''
         else Inr (Some \<lparr>cl_Subject = subject, cl_OrgIDs = ids\<rparr>))"

definition instanceName :: "ServerEnv \<Rightarrow> string \<Rightarrow> string" where
  "instanceName e dir =
     (let name = Base (Clean dir) in
      if name = ''.'' \<or> name = [slash]
      then (case Abs_path e dir of Some abs_dir \<Rightarrow> Base abs_dir | None \<Rightarrow> name)
      else name)"

section \<open>Text\<close>

definition joinList :: "string list \<Rightarrow> string" where
  "joinList names = (if length names = 0 then ''(none named)'' else foldl (\<lambda>out n. out @ '', '' @ n) (hd names) (tl names))"

definition clipText :: "string \<Rightarrow> nat \<Rightarrow> string" where
  "clipText t width = (if length t \<le> width then t else take (width - 3) t @ ''...'')"

definition firstLine :: "string \<Rightarrow> string" where
  "firstLine t =
     (let s = TrimSpace t in clipText (case cut_at [newline] s of Some (line, rest) \<Rightarrow> line | None \<Rightarrow> s) 100)"

definition orUnset :: "string \<Rightarrow> string" where
  "orUnset s = (if s = [] then ''(no env var named)'' else s)"

section \<open>Properties\<close>

lemma cut_undashed:
  "has_prefix ''-'' s \<Longrightarrow> cut_at ''='' s = map_option (\<lambda>(k, v). (CHR ''-'' # k, v)) (cut_at ''='' (drop 1 s))"
  by (cases s) (auto simp: has_prefix_def split: option.split)

end
