(* ===== verification/CommandLine.thy ===== *)
theory CommandLine
  imports CommandArgs
begin

text \<open>
  The commands of \<^verbatim>\<open>cmd/ear\<close> that work on one stack or one trail: run with its outcome, inspect, trail,
  usage and verify.  A command gives what it prints, what it complains of and its exit code; a panic
  of a cycle, which nothing catches here, ends the process with code 2.  What a command meets outside is
  the record \<open>CliEnv\<close>.
\<close>

section \<open>Surroundings and results\<close>

record CliEnv =
  ce_server :: ServerEnv
  ce_is_dir :: "string \<Rightarrow> bool option"                  \<comment> \<open>os.Stat; None is an error\<close>
  ce_duration :: "string \<Rightarrow> duration option"            \<comment> \<open>time.ParseDuration\<close>
  ce_read_err :: "string \<Rightarrow> string"                     \<comment> \<open>the error of reading a file that cannot be read\<close>
  ce_glob :: "string \<Rightarrow> (string, string list) outcome"   \<comment> \<open>filepath.Glob\<close>
  ce_stdin :: "string list"
  ce_drain :: "Kernel \<Rightarrow> Dispatch list \<times> Kernel"         \<comment> \<open>Drain with several workers\<close>
  ce_idle :: "bool \<Rightarrow> duration \<Rightarrow> Kernel \<Rightarrow> string \<times> Kernel \<times> string option"  \<comment> \<open>the idle loop: what was printed meanwhile, its error unless it was cancelled\<close>
  ce_serve :: "Server \<Rightarrow> string option"                  \<comment> \<open>Serve: its error unless it was cancelled\<close>

definition ce_world :: "CliEnv \<Rightarrow> World" where
  "ce_world ce = ke_world (se_env (ce_server ce))"

definition ce_file :: "CliEnv \<Rightarrow> string \<Rightarrow> string option" where
  "ce_file ce = le_files (se_load (ce_server ce))"

datatype cmd_error = FlagError flag_error | Message string | Crash string

record CmdResult =
  cr_out :: string
  cr_err :: "cmd_error list"
  cr_exit :: int

definition exitDecided :: int where "exitDecided = 0"
definition exitBlocked :: int where "exitBlocked = 1"
definition exitError :: int where "exitError = 2"
definition exitApproval :: int where "exitApproval = 3"

definition printed :: "string \<Rightarrow> int \<Rightarrow> CmdResult" where
  "printed out code = \<lparr>cr_out = out, cr_err = [], cr_exit = code\<rparr>"

definition failed :: "string \<Rightarrow> cmd_error list \<Rightarrow> CmdResult" where
  "failed out errs = \<lparr>cr_out = out, cr_err = errs, cr_exit = exitError\<rparr>"

definition line :: "string \<Rightarrow> string" where
  "line t = t @ [newline]"

section \<open>Loading a stack and finding a trail\<close>

definition loadStack :: "CliEnv \<Rightarrow> string \<Rightarrow> string \<Rightarrow> (string, Loaded) outcome" where
  "loadStack ce dir name =
     (if ce_is_dir ce dir \<noteq> Some True then Inl (go_quote dir @ '' is not a stack directory'')
      else (case LoadRuntime (se_load (ce_server ce)) dir name of
              Inl err \<Rightarrow> Inl (''loading the stack at '' @ go_quote dir @ '': '' @ err)
            | Inr l \<Rightarrow> Inr l))"

definition resolveTrailPath :: "CliEnv \<Rightarrow> string \<Rightarrow> (string, string) outcome" where
  "resolveTrailPath ce arg =
     (case ce_is_dir ce arg of
        None \<Rightarrow> Inl (''no file or stack directory at '' @ go_quote arg)
      | Some False \<Rightarrow> Inr arg
      | Some True \<Rightarrow>
          (case ce_file ce (Join [arg, ''memory.md'']) of
             None \<Rightarrow> Inl (''stack '' @ go_quote arg @ '' has no memory.md to declare a trail'')
           | Some t \<Rightarrow>
               (let s = StrategyFromMarkdown t in
                if \<not> sy_AuditEnabled s \<or> sy_AuditPath s = []
                then Inl (''stack '' @ go_quote arg @ '' declares no reasoning audit trail in memory.md'')
                else Inr (if IsAbs (sy_AuditPath s) then sy_AuditPath s else Join [arg, sy_AuditPath s]))))"

definition read_args ::
  "CliEnv \<Rightarrow> flag_set \<Rightarrow> string list \<Rightarrow> string list \<Rightarrow> (flag_error, settings \<times> string list) outcome" where
  \<comment> \<open>what is set, and the positionals; arguments the package flag leaves are not looked at\<close>
  "read_args ce fs valueFlags args =
     (let (fl, po) = reorderArgs valueFlags args
      in bindR (parse_flags (ce_duration ce) fs fl) (\<lambda>(sets, left). Inr (sets, po)))"

section \<open>The outcome of a cycle\<close>

record runOutcome =
  ro_Status :: string
  ro_Decision :: string
  ro_Explanation :: string
  ro_BlockedPolicies :: "string list"
  ro_PendingPolicies :: "string list"
  ro_Error :: string
  ro_Usage :: string

definition note_record :: "Record \<Rightarrow> runOutcome \<Rightarrow> runOutcome" where
  "note_record r o1 =
     (if rc_Stage r = ''explanation'' then o1\<lparr>ro_Explanation := rc_Output r\<rparr>
      else if rc_Stage r = ''usage'' then o1\<lparr>ro_Usage := rc_Output r\<rparr> else o1)"

definition classifyOutcome :: "Runtime \<Rightarrow> (ear_error, goval) outcome \<Rightarrow> runOutcome" where
  "classifyOutcome rt res =
     (let o0 = \<lparr>ro_Status = [], ro_Decision = [], ro_Explanation = [], ro_BlockedPolicies = [], ro_PendingPolicies = [],
                ro_Error = [], ro_Usage = []\<rparr>;
          o1 = (case LastCycle (rt_ReasoningLog rt) of Some c \<Rightarrow> fold note_record (tc_Records c) o0 | None \<Rightarrow> o0)
      in case res of
           Inr decision \<Rightarrow> o1\<lparr>ro_Status := ''decided'', ro_Decision := Sprint decision\<rparr>
         | Inl err \<Rightarrow>
             (let o2 = o1\<lparr>ro_Error := error_text err\<rparr> in
              case error_root err of
                PolicyViolationError scope ps \<Rightarrow> o2\<lparr>ro_Status := ''blocked'', ro_BlockedPolicies := policyNames ps\<rparr>
              | ApprovalRequiredError ps \<Rightarrow> o2\<lparr>ro_Status := ''approval_required'', ro_PendingPolicies := policyNames ps\<rparr>
              | _ \<Rightarrow> o2\<lparr>ro_Status := ''error''\<rparr>))"

definition exitCode :: "runOutcome \<Rightarrow> int" where
  "exitCode o1 =
     (if ro_Status o1 = ''decided'' then exitDecided
      else if ro_Status o1 = ''blocked'' then exitBlocked
      else if ro_Status o1 = ''approval_required'' then exitApproval
      else exitError)"

definition print_outcome :: "runOutcome \<Rightarrow> string" where
  "print_outcome o1 =
     (if ro_Status o1 = ''decided'' then
        line (''decision: '' @ ro_Decision o1) @
        (if ro_Explanation o1 \<noteq> [] then line (''why:      '' @ ro_Explanation o1) else [])
      else if ro_Status o1 = ''blocked'' then line (''blocked by policy: '' @ joinList (ro_BlockedPolicies o1))
      else if ro_Status o1 = ''approval_required'' then
        line (''parked for human approval: '' @ joinList (ro_PendingPolicies o1)) @
        line ''re-run with -approve or -reject (and -approver) to give the verdict''
      else line (''error: '' @ ro_Error o1)) @
     (if ro_Usage o1 \<noteq> [] then line (''usage:    '' @ ro_Usage o1) else [])"

definition omit_text :: "string \<Rightarrow> string \<Rightarrow> (string \<times> jtree) list" where
  "omit_text key v = (if v = [] then [] else [(key, text_tree v)])"

definition omit_texts :: "string \<Rightarrow> string list \<Rightarrow> (string \<times> jtree) list" where
  "omit_texts key vs = (if vs = [] then [] else [(key, JArray (map text_tree vs))])"

definition outcome_json :: "runOutcome \<Rightarrow> string" where
  "outcome_json o1 =
     line (render_tree 0 (JObject
       ([(''status'', text_tree (ro_Status o1))] @ omit_text ''decision'' (ro_Decision o1) @
        omit_text ''explanation'' (ro_Explanation o1) @ omit_texts ''blocked_policies'' (ro_BlockedPolicies o1) @
        omit_texts ''pending_policies'' (ro_PendingPolicies o1) @ omit_text ''error'' (ro_Error o1) @
        omit_text ''usage'' (ro_Usage o1))))"

section \<open>run\<close>

definition run_flags :: flag_set where
  "run_flags =
     [(''c'', StringFlag), (''approve'', BoolFlag), (''reject'', BoolFlag), (''approver'', StringFlag), (''note'', StringFlag),
      (''name'', StringFlag), (''json'', BoolFlag)]"

fun add_facts :: "string list \<Rightarrow> ctx \<Rightarrow> (string, ctx) outcome" where
  "add_facts [] c = Inr c"
| "add_facts (pair # ps) c = bindR (parseContextPairs [pair]) (\<lambda>extra. add_facts ps (merge_body c extra))"

definition run_context :: "string list \<Rightarrow> settings \<Rightarrow> (string, ctx) outcome" where
  "run_context pairs sets = bindR (parseContextPairs pairs) (add_facts (all_set sets ''c''))"

definition run_verdict :: "settings \<Rightarrow> ApprovalVerdict option" where
  "run_verdict sets =
     (if bool_set sets ''approve'' \<or> bool_set sets ''reject''
      then Some \<lparr>av_Approver = last_set sets ''approver'' [], av_Verdict = Some (bool_set sets ''approve''),
                 av_Note = last_set sets ''note'' []\<rparr>
      else None)"

definition show_run :: "bool \<Rightarrow> (ear_error, goval) outcome \<times> Runtime \<Rightarrow> CmdResult" where
  \<comment> \<open>the end of cmdRun\<close>
  "show_run asJSON rr =
     (case rr of
        (Inl err, rt) \<Rightarrow>
          (case error_root err of
             Panic t \<Rightarrow> failed [] [Crash t]
           | _ \<Rightarrow> (let o1 = classifyOutcome rt (Inl err)
                   in printed (if asJSON then outcome_json o1 else print_outcome o1) (exitCode o1)))
      | (Inr d, rt) \<Rightarrow>
          (let o1 = classifyOutcome rt (Inr d)
           in printed (if asJSON then outcome_json o1 else print_outcome o1) (exitCode o1)))"

definition run_usage :: string where
  "run_usage = ''usage: ear run <stack-dir> '' @ [CHR 0x22] @ ''<intent>'' @ [CHR 0x22] @ '' [flags]''"

definition run_setup ::
  "CliEnv \<Rightarrow> string list \<Rightarrow> (cmd_error, settings \<times> Loaded \<times> Intent) outcome" where
  \<comment> \<open>cmdRun up to the cycle\<close>
  "run_setup ce args =
     (case read_args ce run_flags [''approver'', ''note'', ''name'', ''c''] args of
        Inl e \<Rightarrow> Inl (FlagError e)
      | Inr (sets, po) \<Rightarrow>
          if length po < 2 then Inl (Message run_usage)
          else if bool_set sets ''approve'' \<and> bool_set sets ''reject''
          then Inl (Message ''ear run: -approve and -reject are mutually exclusive'')
          else (case loadStack ce (po ! 0) (last_set sets ''name'' []) of
                  Inl e \<Rightarrow> Inl (Message (''ear run: '' @ e))
                | Inr l \<Rightarrow>
                    (case run_context (drop 2 po) sets of
                       Inl e \<Rightarrow> Inl (Message (''ear run: '' @ e))
                     | Inr c \<Rightarrow> Inr (sets, l, NewIntent (po ! 1) (Some c)))))"

definition cmdRun :: "CliEnv \<Rightarrow> string list \<Rightarrow> CmdResult" where
  "cmdRun ce args =
     (case run_setup ce args of
        Inl e \<Rightarrow> failed [] [e]
      | Inr (sets, l, intent) \<Rightarrow>
          show_run (bool_set sets ''json'') (Reason (ce_world ce) None intent (run_verdict sets) (ld_Runtime l)))"

section \<open>trail, usage and verify\<close>

definition trailArg :: "CliEnv \<Rightarrow> string \<Rightarrow> string list \<Rightarrow> (cmd_error, string) outcome" where
  "trailArg ce command args =
     (if length args \<noteq> 1 then Inl (Message (''usage: ear '' @ command @ '' <stack-dir|trail-file>''))
      else (case resolveTrailPath ce (args ! 0) of
              Inl e \<Rightarrow> Inl (Message (''ear '' @ command @ '': '' @ e))
            | Inr path \<Rightarrow> Inr path))"

definition read_file :: "CliEnv \<Rightarrow> string \<Rightarrow> (string, string) outcome" where
  "read_file ce path = (case ce_file ce path of Some t \<Rightarrow> Inr t | None \<Rightarrow> Inl (ce_read_err ce path))"

definition cmdTrail :: "CliEnv \<Rightarrow> string list \<Rightarrow> CmdResult" where
  "cmdTrail ce args =
     (case trailArg ce ''trail'' args of
        Inl e \<Rightarrow> failed [] [e]
      | Inr path \<Rightarrow>
          if has_suffix ''.md'' path then
            (case read_file ce path of
               Inl e \<Rightarrow> failed [] [Message (''ear trail: '' @ e)]
             | Inr t \<Rightarrow> printed t exitDecided)
          else (case ReadTrail path (read_file ce path) of
                  Inl e \<Rightarrow> failed [] [Message (''ear trail: '' @ e)]
                | Inr rl \<Rightarrow>
                    printed (if Log_Render rl \<noteq> [] then Log_Render rl else line ''the trail is empty'') exitDecided))"

definition cmdUsage :: "CliEnv \<Rightarrow> string list \<Rightarrow> CmdResult" where
  "cmdUsage ce args =
     (case trailArg ce ''usage'' args of
        Inl e \<Rightarrow> failed [] [e]
      | Inr path \<Rightarrow>
          (case ReadTrail path (read_file ce path) of
             Inl e \<Rightarrow> failed [] [Message (''ear usage: '' @ e)]
           | Inr rl \<Rightarrow> printed (UsageReport (se_oor (ce_server ce)) rl) exitDecided))"

definition cmdVerify :: "CliEnv \<Rightarrow> string list \<Rightarrow> CmdResult" where
  "cmdVerify ce args =
     (case trailArg ce ''verify'' args of
        Inl e \<Rightarrow> failed [] [e]
      | Inr path \<Rightarrow>
          (let (ok, detail) = VerifyTrail path (ce_file ce path) in
           if ok then printed (line (''intact: '' @ detail @ '' ('' @ path @ '')'')) exitDecided
           else printed (line (''BROKEN: '' @ detail @ '' ('' @ path @ '')'')) exitBlocked))"

end
