(* ===== verification/StackView.thy ===== *)
theory StackView
  imports CommandLine
begin

text \<open>
  The rendering of an assembled stack in \<^verbatim>\<open>cmd/ear/inspect.go\<close>, with what it uses of the package fmt:
  the verb \<^verbatim>\<open>%.3g\<close> and the text of a duration.
\<close>

section \<open>Numbers\<close>

definition round_digits :: "nat \<Rightarrow> nat \<Rightarrow> int \<Rightarrow> string \<times> int" where
  \<comment> \<open>the n significant digits of a positive float, without zeros at the end, and where its point is\<close>
  "round_digits n m e =
     (let num = (if 0 \<le> e then m * 2 ^ nat e else m);
          den = (if 0 \<le> e then 1 else 2 ^ nat (- e));
          k = dec_exp num den; p = k - int n;
          d = round_half_even (if 0 \<le> p then num else num * 10 ^ nat (- p)) (if 0 \<le> p then den * 10 ^ nat p else den)
      in (trim_right (\<lambda>c. c = CHR ''0'') (show_nat d), if d = 10 ^ n then k + 1 else k))"

definition format_g_prec :: "nat \<Rightarrow> string \<Rightarrow> int \<Rightarrow> string" where
  \<comment> \<open>%.ng of digits with the point before position \<open>dp\<close>\<close>
  "format_g_prec n ds dp =
     (let x = dp - 1; nd = int (length ds);
          eprec = (if nd < int n \<and> dp \<le> nd then nd else int n)
      in if x < -4 \<or> eprec \<le> x
         then take 1 ds @ (if 1 < length ds then CHR ''.'' # drop 1 ds else []) @
              (if x < 0 then ''e-'' else ''e+'') @
              (if \<bar>x\<bar> < 10 then ''0'' else []) @ show_nat (nat \<bar>x\<bar>)
         else if dp \<le> 0 then ''0.'' @ replicate (nat (- dp)) CHR ''0'' @ ds
         else if nd \<le> dp then ds @ replicate (nat (dp - nd)) CHR ''0''
         else take (nat dp) ds @ CHR ''.'' # drop (nat dp) ds)"

definition format_3g :: "f64 \<Rightarrow> string" where
  "format_3g x =
     (case x of
        FNaN \<Rightarrow> ''NaN''
      | FInf neg \<Rightarrow> (if neg then ''-Inf'' else ''+Inf'')
      | FFin neg m e \<Rightarrow>
          (if neg then ''-'' else []) @
          (if m = 0 then ''0'' else (let (ds, dp) = round_digits 3 m e in format_g_prec 3 ds dp)))"

definition frac_text :: "nat \<Rightarrow> int \<Rightarrow> string" where
  \<comment> \<open>the digits behind the point, zeros at the end dropped, the point with them\<close>
  "frac_text places n =
     (let ds = trim_right (\<lambda>c. c = CHR ''0'') (pad_num places n) in if ds = [] then [] else CHR ''.'' # ds)"

definition duration_text :: "duration \<Rightarrow> string" where
  \<comment> \<open>the method String of a duration\<close>
  "duration_text d =
     (let u = \<bar>d\<bar>; s = u div second_ns;
          body =
            (if u = 0 then ''0s''
             else if u < 1000 then show_int u @ ''ns''
             else if u < 1000000 then show_int (u div 1000) @ frac_text 3 (u mod 1000) @ [CHR 0xC2, CHR 0xB5] @ ''s''
             else if u < second_ns then show_int (u div 1000000) @ frac_text 6 (u mod 1000000) @ ''ms''
             else (if 3600 \<le> s then show_int (s div 3600) @ ''h'' else []) @
                  (if 60 \<le> s then show_int (s div 60 mod 60) @ ''m'' else []) @
                  show_int (s mod 60) @ frac_text 9 (u mod second_ns) @ ''s'')
      in (if d < 0 then ''-'' else []) @ body)"

section \<open>The stack\<close>

definition policyMarks :: "Policy \<Rightarrow> string" where
  "policyMarks p =
     (let marks = (if po_FallbackExpression p \<noteq> [] then [''fallback''] else []) @
                  (if po_ApprovalRequired p then [''approval-gated''] else []) @
                  (if po_Escalation p \<noteq> [] then [''escalates''] else [])
      in if length marks = 0 then [] else '' ['' @ join_with '', '' marks @ '']'')"

definition render_step :: "nat \<times> Step \<Rightarrow> string" where
  "render_step it =
     line (''    '' @ show_nat (fst it) @ ''. '' @ firstLine (st_Instruction (snd it)) @ ''  ['' @
       (case st_Persona (snd it) of Some p \<Rightarrow> pe_Name p | None \<Rightarrow> ''undelegated'') @ '']'')"

definition render_workflow :: "Workflow \<Rightarrow> string" where
  "render_workflow w =
     line (''  - workflow **'' @ wf_Name w @ ''** ('' @ show_nat (length (wf_Steps w)) @ '' steps)'') @
     concat (map render_step (enumerate 1 (wf_Steps w))) @
     concat (map (\<lambda>p. line (''    - policy: '' @ po_Name p @ policyMarks p)) (wf_Policies w)) @
     (case wf_Contract w of
        Some c \<Rightarrow> line (''    - deliverable: '' @ ct_Name c @ '' ('' @ join_with '', '' (map cf_Name (ct_Fields c)) @ '')'')
      | None \<Rightarrow> []) @
     (if wf_Pattern w \<noteq> [] then line (''    - pattern: '' @ wf_Pattern w) else [])"

definition render_process :: "Process \<Rightarrow> string" where
  "render_process p =
     line (''- **'' @ pr_Name p @ ''** -- '' @ firstLine (pr_Description p)) @ concat (map render_workflow (pr_Workflows p))"

definition render_policies :: "string \<Rightarrow> Policy list \<Rightarrow> string" where
  "render_policies title ps =
     (if 0 < length ps
      then newline # ''## '' @ title @ '' ('' @ show_nat (length ps) @ '')'' @ [newline, newline] @
           concat (map (\<lambda>p. line (''- **'' @ po_Name p @ ''**'' @ policyMarks p @ '' -- '' @ firstLine (po_Statement p))) ps)
      else [])"

definition render_tools :: "Tool list \<Rightarrow> string" where
  "render_tools ts =
     (if 0 < length ts
      then newline # ''## Tools ('' @ show_nat (length ts) @ '')'' @ [newline, newline] @
           concat (map (\<lambda>t. line (''- '' @ Describe t)) ts)
      else [])"

definition render_tenant :: "Tenant \<Rightarrow> string" where
  "render_tenant t =
     (if tn_OrgID t \<noteq> []
      then ''Org: '' @ tn_OrgID t @ (if tn_Name t \<noteq> [] then '' ('' @ tn_Name t @ '')'' else []) @ [newline, newline]
      else [])"

section \<open>The strategy\<close>

definition render_models :: "Loaded \<Rightarrow> Strategy \<Rightarrow> string" where
  "render_models l s =
     (if ms_Model (sy_Primary s) \<noteq> []
      then line (''- model: '' @ ms_Model (sy_Primary s) @ '' (key from '' @ orUnset (ms_APIKeyEnvVar (sy_Primary s)) @ ''; '' @
             (if ld_Client l \<noteq> None then ''bound'' else ''credential absent -- deterministic fallback'') @ '')'')
      else line ''- model: none declared -- deterministic reasoning'') @
     (if ms_Model (sy_Aux s) \<noteq> []
      then line (''- auxiliary model: '' @ ms_Model (sy_Aux s) @ '' (key from '' @ orUnset (ms_APIKeyEnvVar (sy_Aux s)) @ ''; '' @
             (if ld_Aux l \<noteq> None then ''bound'' else ''credential absent'') @ '')'')
      else [])"

definition render_budget :: "Strategy \<Rightarrow> string" where
  "render_budget s =
     (if flt fzero (sy_Budget s)
      then line (''- budget: $'' @ format_f 2 (sy_Budget s) @
             (if 0 < length (sy_AlertThresholds s)
              then '', alerts at '' @
                   join_with '', '' (map (\<lambda>t. format_f 0 (fmul t (f_of_int 100)) @ ''%'') (sy_AlertThresholds s))
              else []))
      else [])"

definition render_spawner :: "Spawner option \<Rightarrow> string" where
  "render_spawner sp =
     (case sp of
        None \<Rightarrow> []
      | Some x \<Rightarrow>
          if sp_Enabled x
          then line (''- subagents: '' @ (if 0 < sp_Limit x then ''up to '' @ show_int (sp_Limit x) else ''unbounded''))
          else line ''- subagents: disabled'')"

definition render_knowledge :: "Runtime \<Rightarrow> Strategy \<Rightarrow> string" where
  "render_knowledge rt s =
     (if 0 < length (sy_KnowledgeSources s)
      then line (''- knowledge: '' @ show_nat (length (sy_KnowledgeSources s)) @ '' source(s), '' @
             show_nat (case rt_Librarian rt of Some k \<Rightarrow> length (ln_Passages k) | None \<Rightarrow> 0) @ '' passages indexed'')
      else [])"

definition render_strategy :: "Loaded \<Rightarrow> Strategy \<Rightarrow> string" where
  "render_strategy l s =
     (let rt = ld_Runtime l in
      render_models l s @
      line (''- context history: '' @ show_int (mm_Capacity (rt_Memory rt)) @ '' recent cycles kept verbatim'') @
      (if sy_AuditEnabled s \<and> sy_AuditPath s \<noteq> []
       then line (''- reasoning trail: '' @ sy_AuditPath s @ '' (persisted, hash-chained)'')
       else line ''- reasoning trail: in memory only'') @
      (if flt fzero (sy_RetentionDays s)
       then line (''- trail retention: '' @ format_3g (sy_RetentionDays s) @ '' days (in-memory window)'') else []) @
      (if sy_CrossSessionPath s \<noteq> [] then line (''- cross-session data: '' @ sy_CrossSessionPath s) else []) @
      render_budget s @
      (if sy_InputRatePerMillion s \<noteq> None \<or> sy_OutputRatePerMillion s \<noteq> None
       then line ''- pricing: declared (dollar costing on)'' else []) @
      render_spawner (ld_Spawner l) @ render_knowledge rt s @
      (if 0 < length (on_Terms (sy_Ontology s))
       then line (''- ontology: '' @ show_nat (length (on_Terms (sy_Ontology s))) @ '' terms'') else []))"

definition renderStack :: "Loaded \<Rightarrow> string" where
  "renderStack l =
     (let rt = ld_Runtime l in
      ''# '' @ rt_Name rt @ [newline, newline] @ render_tenant (ld_Tenant l) @
      ''## Processes ('' @ show_nat (length (rt_Processes rt)) @ '')'' @ [newline, newline] @
      concat (map render_process (rt_Processes rt)) @
      render_policies ''Runtime policies'' (rt_Policies rt) @ render_policies ''Tool policies'' (rt_ToolPolicies rt) @
      render_tools (rt_Tools rt) @
      newline # ''## Strategy'' @ [newline, newline] @
      (case rt_Strategy rt of
         None \<Rightarrow> line ''- none declared (no memory.md)''
       | Some s \<Rightarrow> render_strategy l s))"

definition cmdInspect :: "CliEnv \<Rightarrow> string list \<Rightarrow> CmdResult" where
  "cmdInspect ce args =
     (if length args \<noteq> 1 then failed [] [Message ''usage: ear inspect <stack-dir>'']
      else (case loadStack ce (args ! 0) [] of
              Inl e \<Rightarrow> failed [] [Message (''ear inspect: '' @ e)]
            | Inr l \<Rightarrow> printed (renderStack l) exitDecided))"

end
