(* ===== verification/CommandFleet.thy ===== *)
theory CommandFleet
  imports StackView
begin

text \<open>
  The commands of \<^verbatim>\<open>cmd/ear\<close> that work on many instances: kernel, serve and monitor.  The idle
  loop itself is that of theory Kernel; here it is a parameter, as is a drain by several workers, and so is
  the service of requests.  The goroutine that reports dispatches is a function of the history it reads.
\<close>

section \<open>The operator's identity\<close>

definition classify :: "ear_error \<Rightarrow> DispatchStatus \<times> string" where
  "classify err =
     (case error_root err of
        ApprovalRequiredError ps \<Rightarrow> (StatusBlocked, error_text err)
      | PolicyViolationError scope ps \<Rightarrow> (StatusBlocked, error_text err)
      | TenantBoundaryError subject org allowed \<Rightarrow> (StatusBlocked, error_text err)
      | _ \<Rightarrow> (StatusFailed, error_text err))"

definition claimedDispatcher ::
  "World \<Rightarrow> Claim \<Rightarrow> Task \<Rightarrow> Runtime \<Rightarrow> (string, DispatchStatus \<times> string) outcome \<times> Runtime" where
  \<comment> \<open>on the left a panic, which the kernel recovers\<close>
  "claimedDispatcher w claim t rt =
     (case Reason w (Some claim) (tk_Intent t) (tk_Approval t) rt of
        (Inl err, rt') \<Rightarrow>
          (case error_root err of Panic text \<Rightarrow> Inl text | _ \<Rightarrow> Inr (classify err), rt')
      | (Inr decision, rt') \<Rightarrow> (Inr (StatusRan, Sprint decision), rt'))"

definition claimed_env :: "Claim option \<Rightarrow> Env \<Rightarrow> Env" where
  \<comment> \<open>the dispatcher at address 0\<close>
  "claimed_env claim e =
     (case claim of
        None \<Rightarrow> e
      | Some c \<Rightarrow> e\<lparr>ke_dispatchers := (ke_dispatchers e)(0 := claimedDispatcher (ke_world e) c)\<rparr>)"

definition install_claim :: "Claim option \<Rightarrow> Kernel \<Rightarrow> Kernel" where
  "install_claim claim k = (case claim of None \<Rightarrow> k | Some c \<Rightarrow> k\<lparr>kn_Dispatcher := Some 0\<rparr>)"

section \<open>Registering stacks\<close>

definition describeSchedule :: "Task list \<Rightarrow> string" where
  "describeSchedule tasks =
     (if length tasks = 0 then ''(no scheduled work authored)''
      else show_nat (length tasks) @ '' task(s): '' @
           join_with '', '' (map (\<lambda>t. ''every '' @ duration_text (tk_Every t)) tasks))"

fun register_stacks ::
  "CliEnv \<Rightarrow> TaskOption list \<Rightarrow> string list \<Rightarrow> Kernel \<Rightarrow> (string \<times> Task list) list \<times> (string, Kernel) outcome" where
  \<comment> \<open>the loop over the directories: what was armed under which name, and the kernel or the error\<close>
  "register_stacks ce opts [] k = ([], Inr k)"
| "register_stacks ce opts (dir # dirs) k =
     (case loadStack ce dir [] of
        Inl err \<Rightarrow> ([], Inl err)
      | Inr l \<Rightarrow>
          (let name = instanceName (ce_server ce) dir in
           case Arm (se_env (ce_server ce)) name opts (register_loaded (ce_server ce) name (ld_Runtime l) k) of
             (Inl err, k') \<Rightarrow> ([], Inl err)
           | (Inr tasks, k') \<Rightarrow>
               (let (rows, res) = register_stacks ce opts dirs k' in ((name, tasks) # rows, res))))"

definition registered_lines :: "(string \<times> Task list) list \<Rightarrow> string" where
  "registered_lines rows =
     concat (map (\<lambda>(name, tasks). line (''registered '' @ pad_text 24 name @ '' '' @ describeSchedule tasks)) rows)"

definition armed_count :: "(string \<times> Task list) list \<Rightarrow> nat" where
  "armed_count rows = sum_list (map (length \<circ> snd) rows)"

section \<open>Reporting\<close>

definition report_text :: "bool \<Rightarrow> Dispatch \<Rightarrow> string" where
  "report_text asJSON d =
     (if asJSON then
        (case json (VMap [(''task_id'', VInt (ds_TaskID d)), (''instance'', VStr (ds_Instance d)),
                (''status'', VStr (status_text (ds_Status d))), (''summary'', VStr (ds_Summary d)),
                (''duration_ms'', VInt64 (ms_of (ds_Duration d))),
                (''at'', VStr (format_date (ds_At d) @ ''T'' @ format_time (ds_At d) @ ''Z''))]) of
           Some t \<Rightarrow> line t
         | None \<Rightarrow> [])
      else line (format_time (ds_At d) @ '' '' @ pad_text 8 (status_text (ds_Status d)) @ '' '' @
             pad_text 20 (ds_Instance d) @ '' '' @ firstLine (ds_Summary d)))"

definition snapshot_text :: "bool \<Rightarrow> Snapshot \<Rightarrow> string" where
  "snapshot_text asJSON snap =
     (if asJSON then
        (case json (VMap [(''snapshot'', VBool True), (''instances'', VStrs (sn_Instances snap)),
                (''pending'', VInt (int (sn_Pending snap))), (''in_flight'', VStrs (sn_InFlight snap)),
                (''dispatched'', VInt (int (sn_Dispatched snap))), (''idle_waits'', VInt (int (sn_IdleWaits snap)))]) of
           Some t \<Rightarrow> line t
         | None \<Rightarrow> [])
      else line (''  -- '' @ show_nat (length (sn_Instances snap)) @ '' instance(s), '' @ show_nat (sn_Pending snap) @
             '' pending, '' @ show_nat (sn_Dispatched snap) @ '' dispatched, '' @ show_nat (sn_IdleWaits snap) @
             '' idle wait(s)''))"

definition report_tick :: "nat \<Rightarrow> Dispatch list \<Rightarrow> Dispatch list \<times> nat" where
  \<comment> \<open>one tick of the reporter: what it prints of a history, and how much it holds for reported\<close>
  "report_tick reported history =
     (let reported' = (if length history < reported then length history else reported)
      in (drop reported' history, length history))"

definition status_due :: "duration \<Rightarrow> gotime \<Rightarrow> gotime \<Rightarrow> bool" where
  \<comment> \<open>the period, the last snapshot printed, now\<close>
  "status_due every lastStatus now \<longleftrightarrow> 0 < every \<and> every \<le> now - lastStatus"

fun worst_exit :: "int \<Rightarrow> Dispatch list \<Rightarrow> int" where
  "worst_exit code [] = code"
| "worst_exit code (d # ds) =
     (case ds_Status d of
        StatusFailed \<Rightarrow> exitError
      | StatusBlocked \<Rightarrow> worst_exit exitBlocked ds
      | StatusRan \<Rightarrow> worst_exit code ds)"

definition worstExit :: "Dispatch list \<Rightarrow> int" where
  "worstExit dispatches = worst_exit exitDecided dispatches"

section \<open>kernel\<close>

definition kernel_flags :: flag_set where
  "kernel_flags =
     [(''workers'', IntFlag), (''subject'', StringFlag), (''org'', StringFlag), (''once'', BoolFlag), (''json'', BoolFlag),
      (''status-every'', DurationFlag)]"

definition new_kernel :: "settings \<Rightarrow> Kernel" where
  "new_kernel sets = (NewKernel (\<lambda>_. NewRuntime []))\<lparr>kn_Workers := int_set sets ''workers'' 1\<rparr>"

definition once_options :: "settings \<Rightarrow> TaskOption list" where
  "once_options sets = (if bool_set sets ''once'' then [StartAfter 0] else [])"

definition status_every :: "CliEnv \<Rightarrow> settings \<Rightarrow> duration" where
  "status_every ce sets =
     (case map_of (rev sets) ''status-every'' of Some v \<Rightarrow> the (ce_duration ce v) | None \<Rightarrow> 0)"

definition drain_once :: "CliEnv \<Rightarrow> Env \<Rightarrow> Kernel \<Rightarrow> Dispatch list \<times> Kernel" where
  "drain_once ce e k = (if workers e k = 1 then Drain_serial e 0 k else ce_drain ce k)"

definition runKernelLoop :: "CliEnv \<Rightarrow> bool \<Rightarrow> duration \<Rightarrow> Kernel \<Rightarrow> CmdResult" where
  "runKernelLoop ce asJSON every k =
     (let (reports, k', err) = ce_idle ce asJSON every k; snap = Kernel_Snapshot k';
          out = (if asJSON then []
                 else newline # line (''kernel running -- '' @ show_nat (length (Instances k)) @ '' instance(s), '' @
                        show_nat (Pending k) @ '' task(s) queued. Ctrl-C to stop.'') @ [newline]) @ reports @
                (if asJSON then []
                 else newline # line (''kernel stopped -- '' @ show_nat (sn_Dispatched snap) @ '' dispatched, '' @
                        show_nat (sn_Pending snap) @ '' still queued''))
      in case err of
           Some e \<Rightarrow> failed out [Message (''ear kernel: '' @ e)]
         | None \<Rightarrow> printed out exitDecided)"

definition finish_kernel :: "CliEnv \<Rightarrow> settings \<Rightarrow> Claim option \<Rightarrow> string \<Rightarrow> Kernel \<Rightarrow> CmdResult" where
  \<comment> \<open>cmdKernel once every stack is armed\<close>
  "finish_kernel ce sets claim out k =
     (let e = claimed_env claim (se_env (ce_server ce)); k' = install_claim claim k; asJSON = bool_set sets ''json''
      in if bool_set sets ''once''
         then (let (ds, k'') = drain_once ce e k' in printed (out @ concat (map (report_text asJSON) ds)) (worstExit ds))
         else (let res = runKernelLoop ce asJSON (status_every ce sets) k' in res\<lparr>cr_out := out @ cr_out res\<rparr>))"

definition cmdKernel :: "CliEnv \<Rightarrow> string list \<Rightarrow> CmdResult" where
  "cmdKernel ce args =
     (case read_args ce kernel_flags [''workers'', ''subject'', ''org'', ''status-every''] args of
        Inl e \<Rightarrow> failed [] [FlagError e]
      | Inr (sets, po) \<Rightarrow>
          if length po = 0 then failed [] [Message ''usage: ear kernel <stack-dir>... [flags]'']
          else (case parseClaim (last_set sets ''subject'' []) (last_set sets ''org'' []) of
                  Inl e \<Rightarrow> failed [] [Message (''ear kernel: '' @ e)]
                | Inr claim \<Rightarrow>
                    (let (rows, res) = register_stacks ce (once_options sets) po (new_kernel sets);
                         out = (if bool_set sets ''json'' then [] else registered_lines rows)
                     in case res of
                          Inl e \<Rightarrow> failed out [Message (''ear kernel: '' @ e)]
                        | Inr k \<Rightarrow>
                            if armed_count rows = 0
                            then failed out
                                   [Message ''ear kernel: no stack declares any `## Scheduled Work`; there is nothing to run'',
                                    Message ''  author a schedule in memory.md, or use `ear run` for one-shot work'']
                            else finish_kernel ce sets claim out k)))"

section \<open>serve\<close>

definition serve_flags :: flag_set where
  "serve_flags =
     [(''addr'', StringFlag), (''stacks'', StringFlag), (''subject'', StringFlag), (''org'', StringFlag), (''workers'', IntFlag)]"

definition serve_server :: "CliEnv \<Rightarrow> settings \<Rightarrow> Claim option \<Rightarrow> Kernel \<Rightarrow> Server" where
  "serve_server ce sets claim k =
     (NewServer k (le_now (se_load (ce_server ce))))
       \<lparr>sv_Addr := last_set sets ''addr'' '':8080'', sv_StacksRoot := last_set sets ''stacks'' [], sv_Claim := claim\<rparr>"

definition serve_banner :: "CliEnv \<Rightarrow> settings \<Rightarrow> Claim option \<Rightarrow> string" where
  "serve_banner ce sets claim =
     newline # ''ear serve -- listening on '' @ last_set sets ''addr'' '':8080'' @
     (if last_set sets ''stacks'' [] \<noteq> []
      then (case Abs_path (ce_server ce) (last_set sets ''stacks'' []) of Some p \<Rightarrow> '', stacks under '' @ p | None \<Rightarrow> [])
      else []) @
     (case claim of Some c \<Rightarrow> '', acting as '' @ cl_Subject c @ '' for '' @ join_with '', '' (cl_OrgIDs c) | None \<Rightarrow> []) @
     ''. Ctrl-C to stop.'' @ [newline, newline]"

definition serve_setup :: "CliEnv \<Rightarrow> string list \<Rightarrow> (string \<times> cmd_error, string \<times> Server) outcome" where
  \<comment> \<open>cmdServe up to Serve: what was printed, with the error or the server\<close>
  "serve_setup ce args =
     (case read_args ce serve_flags [''addr'', ''stacks'', ''subject'', ''org'', ''workers''] args of
        Inl e \<Rightarrow> Inl ([], FlagError e)
      | Inr (sets, po) \<Rightarrow>
          (case parseClaim (last_set sets ''subject'' []) (last_set sets ''org'' []) of
             Inl e \<Rightarrow> Inl ([], Message (''ear serve: '' @ e))
           | Inr claim \<Rightarrow>
               (let (rows, res) = register_stacks ce [] po (new_kernel sets) in
                case res of
                  Inl e \<Rightarrow> Inl (registered_lines rows, Message (''ear serve: '' @ e))
                | Inr k \<Rightarrow> Inr (registered_lines rows @ serve_banner ce sets claim, serve_server ce sets claim k))))"

definition cmdServe :: "CliEnv \<Rightarrow> string list \<Rightarrow> CmdResult" where
  "cmdServe ce args =
     (case serve_setup ce args of
        Inl (out, e) \<Rightarrow> failed out [e]
      | Inr (out, s) \<Rightarrow>
          (case ce_serve ce s of
             Some e \<Rightarrow> failed out [Message (''ear serve: '' @ e)]
           | None \<Rightarrow> printed (out @ newline # line ''ear serve -- stopped'') exitDecided))"

section \<open>monitor\<close>

fun add_trails :: "CliEnv \<Rightarrow> string list \<Rightarrow> FleetHealth \<Rightarrow> (string, FleetHealth) outcome" where
  "add_trails ce [] f = Inr f"
| "add_trails ce (path # paths) f =
     (let now = le_now (se_load (ce_server ce)); name = trim_suffix ''.jsonl'' (Base path) in
      case InspectTrailFile (se_oor (ce_server ce)) now name path (read_file ce path) now of
        Inl err \<Rightarrow> Inl (''reading '' @ Base path @ '': '' @ err)
      | Inr i \<Rightarrow> add_trails ce paths (Fleet_Add i f))"

definition fleetFromTrails :: "CliEnv \<Rightarrow> string \<Rightarrow> (string, FleetHealth) outcome" where
  "fleetFromTrails ce dir =
     (if ce_is_dir ce dir \<noteq> Some True then Inl (go_quote dir @ '' is not a directory of trails'')
      else bindR (ce_glob ce (Join [dir, ''*.jsonl''])) (\<lambda>matches.
        if length matches = 0 then Inl (''no .jsonl trails in '' @ go_quote dir)
        else bindR (add_trails ce (sort matches) (new_fleet (le_now (se_load (ce_server ce)))))
               (\<lambda>f. Inr (SortWorstFirst f))))"

definition cmdMonitor :: "CliEnv \<Rightarrow> string list \<Rightarrow> CmdResult" where
  "cmdMonitor ce args =
     (case read_args ce [] [] args of
        Inl e \<Rightarrow> failed [] [FlagError e]
      | Inr (sets, po) \<Rightarrow>
          if length po \<noteq> 1
          then failed [] [Message ''usage: ear monitor <trails-dir>'',
                          Message ''  a directory of .jsonl reasoning trails, one per instance'']
          else (case fleetFromTrails ce (po ! 0) of
                  Inl e \<Rightarrow> failed [] [Message (''ear monitor: '' @ e)]
                | Inr f \<Rightarrow>
                    (case RenderFleet f of
                       None \<Rightarrow> failed [] [Crash ''index out of range'']
                     | Some t \<Rightarrow> printed t (if 0 < fh_Broken f then exitBlocked else exitDecided))))"

end
