(* ===== verification/CommandRepl.thy ===== *)
theory CommandRepl
  imports CommandFleet
begin

text \<open>
  The rest of \<^verbatim>\<open>cmd/ear\<close>: the interactive session with its state, the demonstration stack, the texts
  of help, and the choice of a command.  Lines of standard input are those shorter than a mebibyte.
\<close>

section \<open>repl\<close>

record replSession =
  rs_runtime :: Loaded
  rs_lastIntent :: "Intent option"
  rs_parked :: bool
  rs_parkedNames :: "string list"

datatype repl_result =
    Continue string replSession
  | Quit
  | Crashed string

definition repl_run :: "CliEnv \<Rightarrow> string \<Rightarrow> Intent \<Rightarrow> ApprovalVerdict option \<Rightarrow> replSession \<Rightarrow> repl_result" where
  \<comment> \<open>replSession.run; the text is what was printed before\<close>
  "repl_run ce out intent approval s =
     (let (res, rt) = Reason (ce_world ce) None intent approval (ld_Runtime (rs_runtime s));
          o1 = classifyOutcome rt res;
          s' = s\<lparr>rs_runtime := (rs_runtime s)\<lparr>ld_Runtime := rt\<rparr>, rs_parked := (ro_Status o1 = ''approval_required''),
                 rs_parkedNames := ro_PendingPolicies o1\<rparr>
      in case res of
           Inl err \<Rightarrow> (case error_root err of Panic t \<Rightarrow> Crashed t | _ \<Rightarrow> Continue (out @ print_outcome o1) s')
         | Inr d \<Rightarrow> Continue (out @ print_outcome o1) s')"

definition repl_reason :: "CliEnv \<Rightarrow> string \<Rightarrow> replSession \<Rightarrow> repl_result" where
  "repl_reason ce input s =
     (let (t, factsPart) = (case cut_at '' -- '' input of Some tf \<Rightarrow> tf | None \<Rightarrow> (input, []));
          parsed = (if TrimSpace factsPart \<noteq> [] then parseContextPairs (Fields factsPart) else Inr [])
      in case parsed of
           Inl e \<Rightarrow> Continue (line (''context error: '' @ e)) s
         | Inr facts \<Rightarrow>
             (let intent = NewIntent (TrimSpace t) (Some facts)
              in repl_run ce [] intent None (s\<lparr>rs_lastIntent := Some intent\<rparr>)))"

definition repl_help :: string where
  "repl_help = concat (map line
     [''an intent per line; add facts after '' @ [CHR 0x22] @ '' -- '' @ [CHR 0x22] @ '':  Underwrite a loan -- loan_amount=20000 debt_to_income=0.3'',
      ''  :approve [approver]   approve the parked gate and re-run the intent'',
      ''  :reject [approver]    reject it instead'',
      ''  :trail                the reasoning trail so far, rendered'',
      ''  :usage                the usage ledger so far'',
      ''  :verify               prove the in-memory trail'' @ [CHR 0x27] @ ''s hash chain unbroken'',
      ''  :memory               the remembered context window'',
      ''  :stack                the loaded processes and policies'',
      ''  :quit                 leave (memory persists if the stack declares it)''])"

definition repl_verdict :: "string \<Rightarrow> string list \<Rightarrow> ApprovalVerdict" where
  "repl_verdict command rest =
     \<lparr>av_Approver = (if 0 < length rest then rest ! 0 else []), av_Verdict = Some (command = '':approve''),
      av_Note = (if 1 < length rest then join_with '' '' (tl rest) else [])\<rparr>"

definition repl_command :: "CliEnv \<Rightarrow> string \<Rightarrow> replSession \<Rightarrow> repl_result" where
  "repl_command ce input s =
     (let command = hd (Fields input); rest = tl (Fields input); rt = ld_Runtime (rs_runtime s) in
      if command \<in> {'':quit'', '':q'', '':exit''} then Quit
      else if command \<in> {'':help'', '':h''} then Continue repl_help s
      else if command \<in> {'':approve'', '':reject''} then
        (case rs_lastIntent s of
           None \<Rightarrow> Continue (line ''nothing is parked for approval'') s
         | Some intent \<Rightarrow>
             if \<not> rs_parked s then Continue (line ''nothing is parked for approval'') s
             else repl_run ce (line (''re-running '' @ go_quote (in_Text intent) @ '' with the verdict'')) intent
                    (Some (repl_verdict command rest)) s)
      else if command = '':trail'' then
        Continue (if Log_Render (rt_ReasoningLog rt) \<noteq> [] then Log_Render (rt_ReasoningLog rt) else line ''no reasoning recorded yet'') s
      else if command = '':usage'' then Continue (UsageReport (se_oor (ce_server ce)) (rt_ReasoningLog rt)) s
      else if command = '':verify'' then
        (let (ok, detail) = Verify (rt_ReasoningLog rt)
         in Continue (line ((if ok then ''intact: '' else ''BROKEN: '') @ detail)) s)
      else if command = '':memory'' then
        Continue (line (if ContextWindow (rt_Memory rt) \<noteq> [] then ContextWindow (rt_Memory rt) else ''nothing remembered yet'')) s
      else if command = '':stack'' then Continue (renderStack (rs_runtime s)) s
      else Continue (line (''unknown command '' @ command @ '' (:help lists them)'')) s)"

definition repl_line :: "CliEnv \<Rightarrow> string \<Rightarrow> replSession \<Rightarrow> repl_result" where
  \<comment> \<open>one turn of the loop\<close>
  "repl_line ce input s =
     (let t = TrimSpace input in
      if t = [] then Continue [] s
      else if has_prefix '':'' t then repl_command ce t s
      else repl_reason ce t s)"

fun repl_loop :: "CliEnv \<Rightarrow> string \<Rightarrow> string list \<Rightarrow> replSession \<Rightarrow> CmdResult" where
  \<comment> \<open>what was printed, the lines left\<close>
  "repl_loop ce out [] s = printed (out @ line ''ear> '') exitDecided"
| "repl_loop ce out (input # rest) s =
     (case repl_line ce input s of
        Continue t s' \<Rightarrow> repl_loop ce (out @ ''ear> '' @ t) rest s'
      | Quit \<Rightarrow> printed (out @ ''ear> '') exitDecided
      | Crashed t \<Rightarrow> failed (out @ ''ear> '') [Crash t])"

definition new_session :: "Loaded \<Rightarrow> replSession" where
  "new_session l = \<lparr>rs_runtime = l, rs_lastIntent = None, rs_parked = False, rs_parkedNames = []\<rparr>"

definition cmdRepl :: "CliEnv \<Rightarrow> string list \<Rightarrow> CmdResult" where
  "cmdRepl ce args =
     (if length args \<noteq> 1 then failed [] [Message ''usage: ear repl <stack-dir>'']
      else (case loadStack ce (args ! 0) [] of
              Inl e \<Rightarrow> failed [] [Message (''ear repl: '' @ e)]
            | Inr l \<Rightarrow>
                (let rt = ld_Runtime l;
                     out = line (rt_Name rt @ '' -- '' @ show_nat (length (rt_Processes rt)) @
                             '' processes loaded. An intent per line; :help for commands.'') @
                           (if 0 < Memory_Len (rt_Memory rt)
                            then line (''resumed session: '' @ show_nat (Memory_Len (rt_Memory rt)) @ '' remembered items'') else [])
                 in repl_loop ce out (ce_stdin ce) (new_session l))))"

section \<open>demo\<close>

definition demo_policy :: "nat \<Rightarrow> string \<Rightarrow> string \<Rightarrow> string \<Rightarrow> Policy" where
  "demo_policy ref name statement fallback =
     \<lparr>po_ref = ref, po_Name = name, po_Statement = statement, po_FallbackExpression = fallback, po_ApprovalRequired = False,
      po_Approvers = [], po_Escalation = [], po_EscalationDays = None, po_Gate = None\<rparr>"

definition demo_guru :: Persona where
  "demo_guru =
     AddSkill \<lparr>pe_ref = 1, pe_Name = ''Credit Risk Guru'', pe_Instructions = ''Underwrite conservatively.'', pe_Skills = []\<rparr>
       \<lparr>sk_ref = 2, sk_Name = ''risk_grade'', sk_Prompt = ''Combine the score tier and DTI band into a grade A-E.'',
        sk_Description = [], sk_Version = [], sk_Author = []\<rparr>"

definition demo_workflow :: Workflow where
  "demo_workflow =
     (let w0 = \<lparr>wf_ref = 3, wf_Name = ''Underwriting Workflow'', wf_Personas = [], wf_Steps = [], wf_Policies = [],
                wf_Contract = None, wf_Pattern = [], wf_Routes = [], wf_RetryBudget = None\<rparr>;
          w1 = AddStep w0 ''Band the credit profile and assign a risk grade.'' (Some demo_guru);
          w2 = AddStep w1 ''Decide approve or decline against the grade.'' (Some demo_guru)
      in AddPolicy w2 (demo_policy 4 ''Loan Amount Cap'' ''The loan must not exceed $75,000.'' ''loan_amount <= 75000''))"

definition demo_runtime :: Runtime where
  "demo_runtime =
     (let p = AddWorkflow \<lparr>pr_ref = 5, pr_Name = ''Underwriting'', pr_Description = ''Underwrite a consumer loan application.'',
                           pr_Workflows = []\<rparr> demo_workflow
      in Runtime_AddPolicy
           (demo_policy 6 ''Debt-to-Income Ceiling'' ''The debt-to-income ratio must not exceed 0.43.'' ''debt_to_income <= 0.43'')
           (AddProcess p (NewRuntime ''Credit Risk Runtime'')))"

definition demo_intent :: "string \<Rightarrow> int \<Rightarrow> int \<Rightarrow> int \<Rightarrow> Intent" where
  \<comment> \<open>the amount, the percentage of debt to income, the score\<close>
  "demo_intent t loan debt tier =
     NewIntent t (Some [(''loan_amount'', VFloat (f_of_int loan)),
       (''debt_to_income'', VFloat (fdiv (f_of_int debt) (f_of_int 100))), (''credit_score'', VFloat (f_of_int tier))])"

definition demo_first :: Intent where
  "demo_first = demo_intent ''Underwrite a $20,000 consumer loan application'' 20000 28 742"

definition demo_second :: Intent where
  "demo_second = demo_intent ''Underwrite a $90,000 consumer loan application'' 90000 30 705"

definition demoReason :: "CliEnv \<Rightarrow> Intent \<Rightarrow> Runtime \<Rightarrow> (string, string) outcome \<times> Runtime" where
  \<comment> \<open>what is printed, or a panic\<close>
  "demoReason ce intent rt =
     (let (res, rt') = Reason (ce_world ce) None intent None rt in
      (case res of
         Inl err \<Rightarrow>
           (case error_root err of Panic t \<Rightarrow> Inl t | _ \<Rightarrow> Inr (print_outcome (classifyOutcome rt' res)))
       | Inr d \<Rightarrow> Inr (print_outcome (classifyOutcome rt' res)), rt'))"

definition cmdDemo :: "CliEnv \<Rightarrow> string list \<Rightarrow> CmdResult" where
  "cmdDemo ce args =
     (if length args \<noteq> 0 then failed [] [Message ''usage: ear demo'']
      else (let head1 = line ''== A compliant application ==''; head2 = newline # line ''== An application that trips a policy =='' in
            case demoReason ce demo_first demo_runtime of
              (Inl t, rt) \<Rightarrow> failed head1 [Crash t]
            | (Inr out1, rt) \<Rightarrow>
                (case demoReason ce demo_second rt of
                   (Inl t, rt') \<Rightarrow> failed (head1 @ out1 @ head2) [Crash t]
                 | (Inr out2, rt') \<Rightarrow> printed (head1 @ out1 @ head2 @ out2) exitDecided)))"

section \<open>The command\<close>

definition usage_text :: string where
  "usage_text = concat (map line
     [''ear -- run an EAR stack: plain-English markdown assembled into a governed reasoning runtime'',
      [],
      ''usage:'',
      ''  ear run <stack-dir> '' @ [CHR 0x22] @ ''<intent>'' @ [CHR 0x22] @ '' [flags]   reason one intent through the stack'',
      ''  ear repl <stack-dir>                     interactive session (persists across runs)'',
      ''  ear inspect <stack-dir>                  show the assembled stack and strategy'',
      ''  ear trail <stack-dir|trail-file>         render the persisted reasoning trail'',
      ''  ear usage <stack-dir|trail-file>         the usage ledger from the persisted trail'',
      ''  ear verify <stack-dir|trail-file>        prove the trail'' @ [CHR 0x27] @ ''s hash chain unbroken'',
      ''  ear kernel <stack-dir>...                run stacks as a persistent scheduled runtime'',
      ''  ear serve <stack-dir>...                 run the control plane as an HTTP service'',
      ''  ear monitor <trails-dir>                 render fleet health from a directory of trails'',
      ''  ear demo                                 run the built-in demonstration stack'',
      ''  ear help                                 this help'',
      [],
      ''run flags:'',
      ''  -c key=value      a context fact (repeatable); values coerce to numbers/booleans'',
      ''  -approve          submit a human approval for the intent'' @ [CHR 0x27] @ ''s parked gate'',
      ''  -reject           submit a human rejection instead'',
      ''  -approver name    who is giving the verdict (validated against the policy'' @ [CHR 0x27] @ ''s approvers)'',
      ''  -note text        a note attached to the verdict'',
      ''  -name text        override the runtime name (default: the stack'' @ [CHR 0x27] @ ''s title)'',
      ''  -json             machine output: one JSON object on stdout'',
      [],
      ''kernel flags:'',
      ''  -workers N        how many different instances may run concurrently (-1 = one per CPU)'',
      ''  -subject name     act as this identity (requires -org)'',
      ''  -org a,b          the org ids that identity may act as'',
      ''  -once             arm and drain the due work once, then exit'',
      ''  -status-every d   print a process-table snapshot on this period'',
      ''  -json             machine output: one JSON object per dispatch'',
      [],
      ''serve flags:'',
      ''  -addr :8080       listen address'',
      ''  -stacks dir       directory stacks may be loaded from (required to create instances over the wire)'',
      ''  -subject name     act as this identity (requires -org)'',
      ''  -org a,b          the org ids that identity may act as'',
      ''  -workers N        how many different instances may run concurrently'',
      [],
      ''exit codes: 0 decided, 1 blocked by policy (or broken trail chain), 2 error, 3 parked for approval''])"

definition ear_run :: "CliEnv \<Rightarrow> string list \<Rightarrow> CmdResult" where
  \<comment> \<open>the function run\<close>
  "ear_run ce args =
     (case args of
        [] \<Rightarrow> failed [] [Message usage_text]
      | command # rest \<Rightarrow>
          if command = ''run'' then cmdRun ce rest
          else if command = ''repl'' then cmdRepl ce rest
          else if command = ''inspect'' then cmdInspect ce rest
          else if command = ''trail'' then cmdTrail ce rest
          else if command = ''usage'' then cmdUsage ce rest
          else if command = ''verify'' then cmdVerify ce rest
          else if command = ''kernel'' then cmdKernel ce rest
          else if command = ''serve'' then cmdServe ce rest
          else if command = ''monitor'' then cmdMonitor ce rest
          else if command = ''demo'' then cmdDemo ce rest
          else if command \<in> {''help'', ''-h'', ''--help''} then printed usage_text exitDecided
          else failed [] [Message (''ear: unknown command '' @ go_quote command @ [newline]), Message usage_text])"

end
