(* ===== verification/CommandProps.thy ===== *)
theory CommandProps
  imports CommandRepl LoaderProps
begin

text \<open>
  What the commands guarantee: no argument given as a flag is passed over, wherever flags stand; the exit
  code of a run tells its governed outcome; the trail commands find the very file a runtime of the same
  stack appends to; the exit code of the monitor and of a kernel run once; the operator's identity under the
  kernel; the reporter of dispatches, which falls silent when the history is full; and the session, whose
  verdicts answer the gate that is parked.
\<close>

section \<open>Flags and positionals\<close>

lemma cut_single: "cut_at [c] s = (if c \<in> set s then Some (takeWhile (\<lambda>x. x \<noteq> c) s, tl (dropWhile (\<lambda>x. x \<noteq> c) s)) else None)"
  by (induction s) (auto simp: has_prefix_def)

lemma undashed_name:
  assumes "has_prefix ''-'' s" "undashed s \<noteq> []" "hd (undashed s) \<noteq> CHR ''-''"
  shows "trim_left (\<lambda>c. c = CHR ''-'') s = undashed s" "CHR ''='' \<in> set s \<longleftrightarrow> CHR ''='' \<in> set (undashed s)"
proof -
  obtain t where s: "s = CHR ''-'' # t" using assms(1) by (cases s) (auto simp: has_prefix_def)
  show "trim_left (\<lambda>c. c = CHR ''-'') s = undashed s"
    using assms(2,3) by (cases t; cases "tl t") (auto simp: s undashed_def trim_left_def has_prefix_def split: if_splits)
  show "CHR ''='' \<in> set s \<longleftrightarrow> CHR ''='' \<in> set (undashed s)"
    by (cases t) (auto simp: s undashed_def has_prefix_def)
qed

lemma reorder_flag:
  "\<not> is_positional arg \<Longrightarrow> fst (reorderArgs v (arg # rest)) =
     arg # (if takes_next v arg then (case rest of [] \<Rightarrow> [] | x # rest' \<Rightarrow> x # fst (reorderArgs v rest')) else fst (reorderArgs v rest))"
  by (subst reorderArgs.simps) (simp add: case_prod_beta Let_def del: reorderArgs.simps split: list.split)

lemma value_name:
  assumes "distinct (map fst fs)" "map_of fs n = Some kind"
  shows "n \<in> set (value_names fs) \<longleftrightarrow> kind \<noteq> BoolFlag"
proof -
  have "n \<in> set (value_names fs) \<longleftrightarrow> (\<exists>k. map_of fs n = Some k \<and> k \<noteq> BoolFlag)"
    unfolding value_names_def map_of_eq_Some_iff [OF assms(1)] by force
  then show ?thesis using assms(2) by simp
qed

lemma parsed_flag:
  assumes "parse_flags dur fs (s # rest) = Inr (sets, left)" "has_prefix ''-'' s" "s \<noteq> ''--''" "\<not> length s < 2"
  shows "undashed s \<noteq> [] \<and> hd (undashed s) \<noteq> CHR ''-'' \<and>
    (\<exists>kind. map_of fs (fst (flag_name (undashed s))) = Some kind \<and>
       (if kind = BoolFlag \<or> snd (flag_name (undashed s)) \<noteq> None
        then \<exists>sets'. parse_flags dur fs rest = Inr (sets', left)
        else \<exists>v rest' sets'. rest = v # rest' \<and> parse_flags dur fs rest' = Inr (sets', left)))"
proof -
  have n: "\<not> (undashed s = [] \<or> hd (undashed s) = CHR ''-'' \<or> hd (undashed s) = CHR ''='')"
    using assms unfolding parse_flags.simps(2) by (auto split: if_splits)
  obtain kind where k: "map_of fs (fst (flag_name (undashed s))) = Some kind"
    using assms n unfolding parse_flags.simps(2) by (cases "map_of fs (fst (flag_name (undashed s)))") (simp_all add: Let_def)
  show ?thesis
  proof (cases kind)
    case BoolFlag
    then show ?thesis using assms n k unfolding parse_flags.simps(2)
      by (auto simp: Let_def bindR_eq_Inr case_prod_beta split: if_splits)
  qed (use assms n k in \<open>unfold parse_flags.simps(2), auto simp: Let_def bindR_eq_Inr case_prod_beta split: if_splits option.splits list.splits\<close>)
qed

text \<open>
  Nothing that is given as a flag is passed over: when the package flag accepts what the
  separation of flags and positionals calls the flags, it has read all of it.
\<close>
theorem no_flag_is_left:
  assumes "distinct (map fst fs)" "set valueFlags = set (value_names fs)"
    and "parse_flags dur fs (fst (reorderArgs valueFlags args)) = Inr (sets, left)"
  shows "left = []"
  using assms(2,3)
proof (induction valueFlags args arbitrary: sets left rule: reorderArgs.induct)
  case (2 v arg rest)
  show ?case
  proof (cases "is_positional arg")
    case True
    with 2 show ?thesis by (simp add: case_prod_beta)
  next
    case False
    have dash: "has_prefix ''-'' arg" "arg \<noteq> ''--''" "arg \<noteq> ''-''"
      using False by (auto simp: is_positional_def)
    then have d: "\<not> length arg < 2" by (cases arg; cases "tl arg") (auto simp: has_prefix_def)
    let ?name = "fst (flag_name (undashed arg))" and ?given = "snd (flag_name (undashed arg))"
    let ?fl = "if takes_next v arg then (case rest of [] \<Rightarrow> [] | x # rest' \<Rightarrow> x # fst (reorderArgs v rest')) else fst (reorderArgs v rest)"
    have p: "parse_flags dur fs (arg # ?fl) = Inr (sets, left)" using "2.prems"(2) by (simp only: reorder_flag [OF False])
    from parsed_flag [OF this dash(1,2) d] obtain kind where n: "undashed arg \<noteq> []" "hd (undashed arg) \<noteq> CHR ''-''"
      and kind: "map_of fs ?name = Some kind"
      and next_: "if kind = BoolFlag \<or> ?given \<noteq> None then \<exists>sets'. parse_flags dur fs ?fl = Inr (sets', left)
        else \<exists>v rest' sets'. ?fl = v # rest' \<and> parse_flags dur fs rest' = Inr (sets', left)" by blast
    have given: "?given = None \<longleftrightarrow> CHR ''='' \<notin> set arg" "?given = None \<Longrightarrow> ?name = trim_left (\<lambda>c. c = CHR ''-'') arg"
      using undashed_name [OF dash(1) n] by (auto simp: flag_name_def cut_single)
    have takes: "takes_next v arg \<longleftrightarrow> ?given = None \<and> ?name \<in> set v"
      using given by (auto simp: takes_next_def cut_single)
    have bool: "?name \<in> set v \<longleftrightarrow> kind \<noteq> BoolFlag"
      using value_name [OF assms(1) kind] "2.prems"(1) by simp
    show ?thesis
    proof (cases "takes_next v arg")
      case True
      then have "?given = None" "kind \<noteq> BoolFlag" using takes bool by auto
      then obtain x rest' sets' where "rest = x # rest'" "parse_flags dur fs (fst (reorderArgs v rest')) = Inr (sets', left)"
        using next_ True by (auto simp del: reorderArgs.simps split: list.splits)
      then show ?thesis using "2.IH"(2) [OF False True] "2.prems"(1) by blast
    next
      case n: False
      then have "kind = BoolFlag \<or> ?given \<noteq> None" using takes bool by auto
      then obtain sets' where "parse_flags dur fs (fst (reorderArgs v rest)) = Inr (sets', left)"
        using next_ n by (auto simp del: reorderArgs.simps)
      then show ?thesis using "2.IH"(3) [OF False n] "2.prems"(1) by blast
    qed
  qed
qed simp

lemma no_flag_is_left_witness:
  "parse_flags (\<lambda>_. None) run_flags (fst (reorderArgs [''approver'', ''note'', ''name'', ''c''] [''desk'', ''-c'', ''x=1'', ''pay'', ''--json'']))
     = Inr ([(''c'', ''x=1''), (''json'', ''true'')], []) \<and> ([] :: string list) = []"
proof
  show r: "parse_flags (\<lambda>_. None) run_flags (fst (reorderArgs [''approver'', ''note'', ''name'', ''c''] [''desk'', ''-c'', ''x=1'', ''pay'', ''--json'']))
     = Inr ([(''c'', ''x=1''), (''json'', ''true'')], [])"
    by code_simp
  show "([] :: string list) = []"
    by (rule no_flag_is_left [OF _ _ r]) (auto simp: run_flags_def value_names_def)
qed

fun hangs :: "string list \<Rightarrow> string list \<Rightarrow> bool" where
  \<comment> \<open>the arguments end in a flag that waits for its value\<close>
  "hangs v [] = False"
| "hangs v (arg # rest) =
     (if is_positional arg then hangs v rest
      else if takes_next v arg then (case rest of [] \<Rightarrow> True | x # rest' \<Rightarrow> hangs v rest')
      else hangs v rest)"

text \<open>
  Flags may stand anywhere: a block of arguments gives the same flags and the same positionals in
  front of the rest as by itself, unless its last flag takes the next argument for its value.
\<close>
theorem flags_stand_anywhere:
  "\<not> hangs v xs \<Longrightarrow>
   reorderArgs v (xs @ ys) = (fst (reorderArgs v xs) @ fst (reorderArgs v ys), snd (reorderArgs v xs) @ snd (reorderArgs v ys))"
proof (induction v xs rule: hangs.induct)
  case (2 v arg rest)
  then show ?case by (cases rest) (auto simp: case_prod_beta split: if_splits)
qed simp

section \<open>Exit codes\<close>

lemma exit_shown:
  "cr_exit (show_run asJSON rr) =
     (case fst rr of
        Inr d \<Rightarrow> 0
      | Inl err \<Rightarrow> (case error_root err of PolicyViolationError scope ps \<Rightarrow> 1 | ApprovalRequiredError ps \<Rightarrow> 3 | _ \<Rightarrow> 2))"
  by (cases rr; cases "fst rr")
    (auto simp: show_run_def printed_def failed_def classifyOutcome_def exitCode_def exitDecided_def exitBlocked_def exitError_def
      exitApproval_def Let_def split: ear_error.split)

text \<open>
  C17. The exit code of a run tells its governed outcome, with and without JSON: 0 a decision,
  1 a policy that was violated, 3 a gate parked for a human, 2 anything else, an error before the cycle included.
\<close>
theorem run_exit_tells_outcome:
  "cr_exit (cmdRun ce args) =
     (case run_setup ce args of
        Inl e \<Rightarrow> 2
      | Inr (sets, l, intent) \<Rightarrow>
          (case fst (Reason (ce_world ce) None intent (run_verdict sets) (ld_Runtime l)) of
             Inr d \<Rightarrow> 0
           | Inl err \<Rightarrow> (case error_root err of PolicyViolationError scope ps \<Rightarrow> 1 | ApprovalRequiredError ps \<Rightarrow> 3 | _ \<Rightarrow> 2)))"
  by (simp add: cmdRun_def exit_shown failed_def exitError_def split: sum.split)

text \<open>A drain once reports the worst of its dispatches.\<close>

lemma worst_exit_code:
  "worst_exit code ds =
     (if \<exists>d \<in> set ds. ds_Status d = StatusFailed then exitError
      else if \<exists>d \<in> set ds. ds_Status d = StatusBlocked then exitBlocked else code)"
  by (induction code ds rule: worst_exit.induct) (auto split: DispatchStatus.split)

theorem once_exit_code:
  "worstExit ds =
     (if \<exists>d \<in> set ds. ds_Status d = StatusFailed then 2 else if \<exists>d \<in> set ds. ds_Status d = StatusBlocked then 1 else 0)"
  by (simp add: worstExit_def worst_exit_code exitError_def exitBlocked_def exitDecided_def)

section \<open>The trail of a stack\<close>

definition unwired :: "Runtime \<Rightarrow> bool" where
  \<comment> \<open>no strategy and no trail yet\<close>
  "unwired r \<longleftrightarrow> rt_Strategy r = None \<and> rl_Trail (rt_ReasoningLog r) = None"

lemma unwired_stack: "unwired r \<Longrightarrow> unwired (stack_processes processes workflows order referenced r)"
proof -
  assume "unwired r"
  have a: "unwired (fold AddProcess ps r) = unwired r" for ps r
    by (induction ps arbitrary: r) (simp_all add: unwired_def AddProcess_def)
  have o: "unwired (fold (add_orphan workflows referenced) ks r) = unwired r" for ks r
    by (induction ks arbitrary: r) (simp_all add: unwired_def add_orphan_def AddProcess_def split: option.split)
  show ?thesis using \<open>unwired r\<close> by (simp add: stack_processes_def a o)
qed

lemma unwired_target: "apply_target p target st = Inr st' \<Longrightarrow> unwired (fst st) \<Longrightarrow> unwired (fst st')"
  by (cases st)
    (auto simp: apply_target_def Let_def bindR_eq_Inr unwired_def Runtime_AddPolicy_def on_workflow_def split: if_splits)

lemma unwired_scopes:
  assumes "applyPolicyScopes policies scopes st = Inr st'" "unwired (fst st)"
  shows "unwired (fst st')"
  by (rule foldR_keeps [OF assms(1) [unfolded applyPolicyScopes_def], of "\<lambda>st. unwired (fst st)", OF assms(2)])
    (erule foldR_keeps, assumption, rule unwired_target)

lemma unwired_load: "load_stack fs directory name = Inr l \<Longrightarrow> unwired (ld_Runtime l)"
proof -
  assume l: "load_stack fs directory name = Inr l"
  have "unwired ((NewRuntime n)\<lparr>rt_OrgID := g\<rparr>)" for n g by (simp add: unwired_def NewRuntime_def new_log_def)
  note u = unwired_stack [OF this]
  show ?thesis using l u
    by (auto simp: load_stack_def Let_def bindR_eq_Inr split: prod.splits) (metis unwired_scopes fst_conv)
qed

lemma memory_wiring:
  "unwired (ld_Runtime l) \<Longrightarrow>
   rt_Strategy (ld_Runtime (applyMemoryStrategy e t l)) = (if t = [] then None else Some (StrategyFromMarkdown t)) \<and>
   rl_Trail (rt_ReasoningLog (ld_Runtime (applyMemoryStrategy e t l))) = None"
  by (auto simp: applyMemoryStrategy_def Let_def bind_client_def bind_aux_def on_runtime_def apply_strategy_def attachLM_def
      attachAuxiliaryLM_def unwired_def split: option.split)

lemma wiring_keeps:
  "rt_Strategy (loadSessionStore e directory (loadKnowledge e directory r)) = rt_Strategy r"
  "rt_ReasoningLog (loadSessionStore e directory (loadKnowledge e directory r)) = rt_ReasoningLog r"
  by (auto simp: loadKnowledge_def loadSessionStore_def Let_def Session_Restore_def restoreMarkdown_def restoreJSON_def
      put_session_def split: option.split)

lemma resume_path [simp]: "tf_Path (resume oor existing t) = tf_Path t"
proof -
  have "tf_Path (fold (resume_line oor) ls t) = tf_Path t" for ls
    by (induction ls arbitrary: t) (simp_all add: resume_line_def Let_def split: option.split)
  then show ?thesis by (simp add: resume_def resume_md_def Let_def split: option.split)
qed

lemma audit_wiring:
  assumes "loadAuditTrail e directory r = Inr r'" "rl_Trail (rt_ReasoningLog r) = None"
  shows "map_option tf_Path (rl_Trail (rt_ReasoningLog r')) =
    (case rt_Strategy r of
       None \<Rightarrow> None
     | Some s \<Rightarrow> if sy_AuditEnabled s \<and> sy_AuditPath s \<noteq> [] then Some (resolve_path directory (sy_AuditPath s)) else None)"
  using assms
  by (auto simp: loadAuditTrail_def Let_def trail_log_def SeedCycleNumbering_def OpenTrailFile_def
      split: option.splits if_splits sum.splits)

lemma no_strategy_no_trail: "sy_AuditPath (StrategyFromMarkdown []) = []"
  by code_simp

lemma memory_file:
  "loader_read fs directory ''memory'' = (case fs (Join [directory, ''memory.md'']) of Some t \<Rightarrow> t | None \<Rightarrow> [])"
  by (simp add: loader_read_def loader_source_def fileCandidates_def split: option.split)

text \<open>
  C21. The trail commands find the file a runtime of the same stack appends to, under whatever name it
  is loaded: trail, usage and verify resolve the directory to it, and complain when it appends to none.
\<close>
theorem trail_commands_find_the_trail:
  assumes "loadStack ce dir name = Inr l"
  shows "case rl_Trail (rt_ReasoningLog (ld_Runtime l)) of
      Some t \<Rightarrow> resolveTrailPath ce dir = Inr (tf_Path t)
    | None \<Rightarrow> \<exists>e. resolveTrailPath ce dir = Inl e"
proof -
  let ?e = "se_load (ce_server ce)" and ?m = "Join [dir, ''memory.md'']"
  from assms have d: "ce_is_dir ce dir = Some True" and l: "LoadRuntime ?e dir name = Inr l"
    by (auto simp: loadStack_def split: if_splits sum.splits)
  obtain l0 where l0: "load_stack (le_files ?e) dir name = Inr l0" using l by (auto simp: LoadRuntime_def bindR_eq_Inr)
  define t where "t = loader_read (le_files ?e) dir ''memory''"
  define l1 where "l1 = applyMemoryStrategy ?e t l0"
  obtain r where r: "loadAuditTrail ?e dir (loadSessionStore ?e dir (loadKnowledge ?e dir (ld_Runtime l1))) = Inr r"
      "ld_Runtime l = r"
    using l l0 by (auto simp: LoadRuntime_def bindR_eq_Inr Let_def l1_def t_def on_runtime_def)
  have "map_option tf_Path (rl_Trail (rt_ReasoningLog (ld_Runtime l))) =
      (if t = [] then None
       else let s = StrategyFromMarkdown t in
         if sy_AuditEnabled s \<and> sy_AuditPath s \<noteq> [] then Some (resolve_path dir (sy_AuditPath s)) else None)"
    using audit_wiring [OF r(1)] memory_wiring [OF unwired_load [OF l0], of ?e t] r(2)
    by (simp add: wiring_keeps l1_def Let_def)
  moreover have "t = (case ce_file ce ?m of Some t \<Rightarrow> t | None \<Rightarrow> [])" by (simp add: t_def memory_file ce_file_def)
  ultimately show ?thesis
    using d no_strategy_no_trail
    by (auto simp: resolveTrailPath_def resolve_path_def Let_def split: option.splits if_splits)
qed

section \<open>The monitor\<close>

lemma broken_health: "fst (classifyHealth h) = Broken \<longleftrightarrow> \<not> ih_ChainIntact h"
  by (simp add: classifyHealth_def)

lemma inspected_intact:
  "InspectTrailFile oor clk name path existing now = Inr i \<Longrightarrow>
   ih_Status i = Broken \<longleftrightarrow> \<not> fst (VerifyTrail path (case existing of Inr c \<Rightarrow> Some c | Inl e \<Rightarrow> None))"
  by (auto simp: InspectTrailFile_def bindR_eq_Inr Let_def broken_health case_prod_beta)

lemma add_trails_broken:
  "add_trails ce paths f = Inr f' \<Longrightarrow>
   fh_Broken f' = fh_Broken f + int (length (filter (\<lambda>p. \<not> fst (VerifyTrail p (ce_file ce p))) paths))"
proof (induction paths arbitrary: f)
  case (Cons p paths)
  have "(case read_file ce p of Inr c \<Rightarrow> Some c | Inl e \<Rightarrow> None) = ce_file ce p"
    by (simp add: read_file_def split: option.split)
  with Cons inspected_intact show ?case
    by (auto simp: Let_def Fleet_Add_def split: sum.splits) 
qed simp

text \<open>
  C31. The monitor tells of a broken chain by its exit code: when some trail of the directory does not
  verify, the command does not exit with 0.
\<close>
theorem monitor_exit_tells_broken:
  assumes "ce_glob ce (Join [dir, ''*.jsonl'']) = Inr paths" "p \<in> set paths" "\<not> fst (VerifyTrail p (ce_file ce p))"
  shows "cr_exit (cmdMonitor ce [dir]) \<noteq> 0"
proof -
  have n: "filter (\<lambda>p. \<not> fst (VerifyTrail p (ce_file ce p))) (sort paths) \<noteq> []" using assms(2,3) by (auto simp: filter_empty_conv)
  have b: "0 < fh_Broken f" if "add_trails ce (sort paths) (new_fleet now) = Inr f" for f now
    using add_trails_broken [OF that] n by (auto simp: new_fleet_def)
  have "0 < fh_Broken f" if "fleetFromTrails ce d = Inr f" "d = dir" for f d
    using that assms(1) b by (auto simp: fleetFromTrails_def bindR_eq_Inr SortWorstFirst_def split: if_splits)
  moreover have "snd (reorderArgs [] [dir]) \<in> {[], [dir]}" by (simp add: takes_next_def split: option.split)
  ultimately show ?thesis
    by (auto simp: cmdMonitor_def read_args_def bindR_eq_Inr case_prod_beta failed_def printed_def exitError_def exitBlocked_def exitDecided_def
        split: sum.split prod.split option.split)
qed

end
