(* ===== verification/CommandSession.thy ===== *)
theory CommandSession
  imports CommandProps ServerProps
begin

text \<open>
  The commands that keep running: the operator's identity under the kernel, two directories of one base
  name, the reporter of dispatches, and the interactive session.
\<close>

section \<open>The operator's identity\<close>

lemma dispatcher_classes:
  "fst (classify err) = fst (classifyDispatch err) \<or>
   fst (classify err) = StatusFailed \<and> fst (classifyDispatch err) = StatusBlocked \<and> (\<exists>why. error_root err = SpawnDeniedError why)"
  by (simp add: classify_def classifyDispatch_def split: ear_error.split)

text \<open>
  C29. The operator's identity governs every task: under the dispatcher the command installs a task runs the
  very cycle it would run if it carried the operator's claim itself, whatever claim it does carry, and gets the
  same status, but for a denied spawn, which the command calls failed and the kernel blocked.
\<close>
theorem operator_claim_governs:
  "let (claimed, k1) = runTask (claimed_env (Some c) e) t a (install_claim (Some c) k);
       (own, k2) = runTask e (t\<lparr>tk_Claim := Some c\<rparr>) a (k\<lparr>kn_Dispatcher := None\<rparr>)
   in kn_heap k1 = kn_heap k2 \<and>
     (fst claimed = fst own \<or>
      fst claimed = StatusFailed \<and> fst own = StatusBlocked \<and>
      (\<exists>err why. fst (Reason (ke_world e) (Some c) (tk_Intent t) (tk_Approval t) (kn_heap k a)) = Inl err \<and>
         error_root err = SpawnDeniedError why))"
proof -
  obtain res rt where r: "Reason (ke_world e) (Some c) (tk_Intent t) (tk_Approval t) (kn_heap k a) = (res, rt)" by fastforce
  show ?thesis
  proof (cases res)
    case (Inr d)
    with r show ?thesis by (simp add: runTask_def claimed_env_def install_claim_def claimedDispatcher_def outcome_status_def)
  next
    case (Inl err)
    show ?thesis
    proof (cases "\<exists>text. error_root err = Panic text")
      case True
      with r Inl show ?thesis
        by (auto simp: runTask_def claimed_env_def install_claim_def claimedDispatcher_def outcome_status_def)
    next
      case False
      then have "outcome_status res = classifyDispatch err"
        "claimedDispatcher (ke_world e) c t (kn_heap k a) = (Inr (classify err), rt)"
        using r Inl by (auto simp: outcome_status_def claimedDispatcher_def split: ear_error.split)
      with dispatcher_classes [of err] r Inl show ?thesis
        by (auto simp: runTask_def claimed_env_def install_claim_def)
    qed
  qed
qed

section \<open>Two directories of one base name\<close>

text \<open>
  A process table entry is the base name of the directory, so of two stacks whose directories are called
  alike only the later runs, and the work both have armed runs on it.
\<close>
theorem same_base_name_replaces:
  assumes "loadStack ce d1 [] = Inr l1" "loadStack ce d2 [] = Inr l2"
    and "instanceName (ce_server ce) d1 = name" "instanceName (ce_server ce) d2 = name"
    and "register_stacks ce opts [d1, d2] (new_kernel sets) = (rows, Inr k)"
  shows "Instances k = [name] \<and> (\<exists>a. Instance_at name k = Some a \<and> kn_heap k a = ld_Runtime l2) \<and> map fst rows = [name, name]"
proof -
  let ?e = "se_env (ce_server ce)"
  let ?k1 = "register_loaded (ce_server ce) name (ld_Runtime l1) (new_kernel sets)"
  let ?k2 = "register_loaded (ce_server ce) name (ld_Runtime l2) (snd (Arm ?e name opts ?k1))"
  have r: "k = snd (Arm ?e name opts ?k2)" "map fst rows = [name, name]"
    using assms by (auto simp: Let_def split: sum.splits prod.splits)
  have "kn_instances k = [(name, se_alloc (ce_server ce) (snd (Arm ?e name opts ?k1)))]"
    unfolding r(1) Arm_table
    by (simp add: register_loaded_def Let_def Register_def new_kernel_def NewKernel_def map_put_def)
  moreover have "kn_heap k (se_alloc (ce_server ce) (snd (Arm ?e name opts ?k1))) = ld_Runtime l2"
    unfolding r(1) Arm_heap by (simp add: register_loaded_def Let_def Register_def)
  ultimately show ?thesis using r(2) by (simp add: Instances_def Instance_at_def)
qed

section \<open>The reporter\<close>

fun report_all :: "nat \<Rightarrow> Dispatch list list \<Rightarrow> Dispatch list" where
  \<comment> \<open>what is printed over the histories met at the ticks\<close>
  "report_all reported [] = []"
| "report_all reported (h # hs) = (let (out, reported') = report_tick reported h in out @ report_all reported' hs)"

fun kernel_histories :: "Kernel \<Rightarrow> Dispatch list list \<Rightarrow> Dispatch list list" where
  \<comment> \<open>the history after each batch of dispatches\<close>
  "kernel_histories k [] = []"
| "kernel_histories k (b # bs) = (let k' = fold record_dispatch b k in kn_history k' # kernel_histories k' bs)"

lemma record_limit [simp]: "history_limit (record_dispatch d k) = history_limit k"
  by (simp add: record_dispatch_def history_limit_def Let_def)

lemma records_history:
  "length (kn_history k) \<le> history_limit k \<Longrightarrow>
   history_limit (fold record_dispatch ds k) = history_limit k \<and>
   kn_history (fold record_dispatch ds k) =
     drop (length (kn_history k @ ds) - history_limit k) (kn_history k @ ds)"
proof (induction ds arbitrary: k)
  case (Cons d ds)
  let ?k = "record_dispatch d k" and ?n = "length (kn_history k) + 1 - history_limit k"
  have h: "kn_history ?k = drop ?n (kn_history k @ [d])"
    by (simp add: record_dispatch_def Let_def)
  then have "length (kn_history ?k) \<le> history_limit ?k" by simp
  from Cons.IH [OF this] have IH: "history_limit (fold record_dispatch ds ?k) = history_limit k"
    "kn_history (fold record_dispatch ds ?k) =
       drop (length (kn_history ?k @ ds) - history_limit k) (kn_history ?k @ ds)" by simp_all
  have "drop (length (kn_history ?k @ ds) - history_limit k) (kn_history ?k @ ds) =
    drop (length (kn_history k @ d # ds) - history_limit k) (kn_history k @ d # ds)"
  proof -
    have "Suc 0 - history_limit k = 0" by (auto simp: history_limit_def)
    then have "drop ?n (kn_history k @ [d]) @ ds = drop ?n (kn_history k @ d # ds)" by simp
    moreover have "length (drop ?n (kn_history k @ d # ds)) - history_limit k + ?n =
      length (kn_history k @ d # ds) - history_limit k"
      using Cons.prems by auto
    ultimately show ?thesis unfolding h by (simp only: drop_drop)
  qed
  with IH show ?case by simp
qed simp

text \<open>
  As long as the history is not full, every dispatch is reported once and in order, however the
  ticks of the reporter fall among the dispatches.
\<close>
theorem reporter_reports_each_once:
  assumes "length (kn_history k) + length (concat bs) \<le> history_limit k"
  shows "report_all (length (kn_history k)) (kernel_histories k bs) = concat bs"
  using assms
proof (induction bs arbitrary: k)
  case (Cons b bs)
  then have "length (kn_history k) \<le> history_limit k" "length (kn_history k) + length b \<le> history_limit k" by simp_all
  with records_history [of k b] have h: "kn_history (fold record_dispatch b k) = kn_history k @ b"
    "history_limit (fold record_dispatch b k) = history_limit k" by simp_all
  with Cons.IH [of "fold record_dispatch b k"] Cons.prems show ?case
    by (simp add: Let_def report_tick_def)
qed simp

text \<open>
  Once the history is full the reporter prints nothing more, whatever is dispatched: it keeps its
  place by the length of the history, which no longer grows.
\<close>
theorem reporter_falls_silent:
  assumes "length (kn_history k) = history_limit k"
  shows "report_all (history_limit k) (kernel_histories k bs) = []"
  using assms
proof (induction bs arbitrary: k)
  case (Cons b bs)
  with records_history [of k b] have "history_limit (fold record_dispatch b k) = history_limit k"
    "length (kn_history (fold record_dispatch b k)) = history_limit k" by auto
  with Cons.IH [of "fold record_dispatch b k"] show ?case
    by (simp add: Let_def report_tick_def)
qed simp

section \<open>The session\<close>

inductive repl_reachable :: "CliEnv \<Rightarrow> replSession \<Rightarrow> bool" for ce where
  start: "repl_reachable ce (new_session l)"
| line: "repl_reachable ce s \<Longrightarrow> repl_line ce input s = Continue out s' \<Longrightarrow> repl_reachable ce s'"

definition parks_last :: "CliEnv \<Rightarrow> replSession \<Rightarrow> bool" where
  "parks_last ce s \<longleftrightarrow>
     (rs_parked s \<longrightarrow>
        (\<exists>intent approval rt err ps. rs_lastIntent s = Some intent \<and>
           Reason (ce_world ce) None intent approval rt = (Inl err, ld_Runtime (rs_runtime s)) \<and>
           error_root err = ApprovalRequiredError ps \<and> policyNames ps = rs_parkedNames s))"

lemma parked_status:
  "ro_Status (classifyOutcome rt res) = ''approval_required'' \<longleftrightarrow>
     (\<exists>err ps. res = Inl err \<and> error_root err = ApprovalRequiredError ps)"
  by (cases res) (auto simp: classifyOutcome_def Let_def split: ear_error.split)

lemma parked_names:
  "error_root err = ApprovalRequiredError ps \<Longrightarrow> ro_PendingPolicies (classifyOutcome rt (Inl err)) = policyNames ps"
  by (simp add: classifyOutcome_def Let_def)

lemma run_parks:
  assumes "repl_run ce out intent approval s = Continue t s'" "rs_lastIntent s = Some intent"
  shows "parks_last ce s'"
proof -
  obtain res rt where r: "Reason (ce_world ce) None intent approval (ld_Runtime (rs_runtime s)) = (res, rt)" by fastforce
  have s': "s' = s\<lparr>rs_runtime := (rs_runtime s)\<lparr>ld_Runtime := rt\<rparr>,
      rs_parked := (ro_Status (classifyOutcome rt res) = ''approval_required''),
      rs_parkedNames := ro_PendingPolicies (classifyOutcome rt res)\<rparr>"
    using assms(1) r by (auto simp: repl_run_def Let_def split: sum.splits ear_error.splits)
  show ?thesis
    unfolding parks_last_def
  proof
    assume "rs_parked s'"
    then obtain err ps where "res = Inl err" "error_root err = ApprovalRequiredError ps" using s' parked_status by auto
    with r s' assms(2) parked_names show "\<exists>intent approval rt err ps. rs_lastIntent s' = Some intent \<and>
           Reason (ce_world ce) None intent approval rt = (Inl err, ld_Runtime (rs_runtime s')) \<and>
           error_root err = ApprovalRequiredError ps \<and> policyNames ps = rs_parkedNames s'" by fastforce
  qed
qed

lemma command_parks:
  assumes "repl_command ce input s = Continue t s'" "parks_last ce s"
  shows "parks_last ce s'"
proof -
  have "s' = s \<or> (\<exists>out intent approval. rs_lastIntent s = Some intent \<and> repl_run ce out intent approval s = Continue t s')"
    using assms(1) by (auto simp: repl_command_def Let_def case_prod_beta split: if_splits option.splits)
  then show ?thesis using assms(2) run_parks by blast
qed

lemma line_parks:
  assumes "repl_line ce input s = Continue t s'" "parks_last ce s"
  shows "parks_last ce s'"
proof -
  have reason: "parks_last ce s'" if "repl_reason ce i s = Continue t s'" for i
  proof -
    from that have "s' = s \<or> (\<exists>out intent. repl_run ce out intent None (s\<lparr>rs_lastIntent := Some intent\<rparr>) = Continue t s')"
      by (auto simp: repl_reason_def Let_def case_prod_beta split: sum.splits)
    moreover have "parks_last ce s'" if "repl_run ce out intent None (s\<lparr>rs_lastIntent := Some intent\<rparr>) = Continue t s'" for out intent
      using run_parks [OF that] by simp
    ultimately show ?thesis using assms(2) by blast
  qed
  consider "s' = s" | "repl_command ce (TrimSpace input) s = Continue t s'" | "repl_reason ce (TrimSpace input) s = Continue t s'"
    using assms(1) by (auto simp: repl_line_def Let_def split: if_splits)
  then show ?thesis using assms(2) command_parks reason by cases auto
qed

text \<open>
  C22. A verdict answers the gate that is parked: whenever the session has something parked, the last
  intent is the one whose cycle ended in that gate, with those policies, and its cycle was the last to run.
\<close>
theorem session_parks_the_last_intent:
  assumes "repl_reachable ce s" "rs_parked s"
  shows "\<exists>intent approval rt err ps. rs_lastIntent s = Some intent \<and>
     Reason (ce_world ce) None intent approval rt = (Inl err, ld_Runtime (rs_runtime s)) \<and>
     error_root err = ApprovalRequiredError ps \<and> policyNames ps = rs_parkedNames s"
proof -
  from assms(1) have "parks_last ce s"
  proof (induction rule: repl_reachable.induct)
    case (start l)
    show ?case by (simp add: parks_last_def new_session_def)
  next
    case (line s input out s')
    then show ?case using line_parks by blast
  qed
  with assms(2) show ?thesis by (simp add: parks_last_def)
qed

lemma verdict_needs_parked_gate:
  "\<not> rs_parked s \<Longrightarrow> hd (Fields input) \<in> {'':approve'', '':reject''} \<Longrightarrow>
   repl_command ce input s = Continue (line ''nothing is parked for approval'') s"
  by (auto simp: repl_command_def Let_def split: option.split)

end
