(* ===== verification/CommandDemo.thy ===== *)
theory CommandDemo
  imports CommandSession
begin

text \<open>
  The demonstration stack, run end to end: of its two applications the first is decided and the second blocked
  by the policy of its workflow.  What follows are the concrete surroundings in which the properties of the
  commands are applied.
\<close>

section \<open>Expressions of one comparison\<close>

lemma bindR_head_cong: "m = m' \<Longrightarrow> bindR m f = bindR m' f"
  by simp

lemma parse_methods:
  "parse pw vars MOr ts = parseOr (parse pw vars) ts"
  "parse pw vars (MOrLoop l) ts = orLoop (parse pw vars) l ts"
  "parse pw vars MAnd ts = parseAnd (parse pw vars) ts"
  "parse pw vars (MAndLoop l) ts = andLoop (parse pw vars) l ts"
  "parse pw vars MNot ts = parseNot (parse pw vars) ts"
  "parse pw vars MComparison ts = parseComparison (parse pw vars) ts"
  "parse pw vars (MCompLoop l) ts = compLoop (parse pw vars) l ts"
  "parse pw vars MSum ts = parseSum (parse pw vars) ts"
  "parse pw vars (MSumLoop l) ts = sumLoop pw (parse pw vars) l ts"
  "parse pw vars MTerm ts = parseTerm (parse pw vars) ts"
  "parse pw vars (MTermLoop l) ts = termLoop pw (parse pw vars) l ts"
  "parse pw vars MUnary ts = parseUnary (parse pw vars) ts"
  "parse pw vars MPower ts = parsePower pw (parse pw vars) ts"
  "parse pw vars MAtom ts = parseAtom vars (parse pw vars) ts"
  by (subst parse_unfold, simp add: parse_step_def)+

lemma SafeEval_at_most:
  assumes "tokenize e = Inr [tok tokName v, tok tokOp ''<='', tok tokNumber s, eof_token]" "literal_name v = None" "v \<noteq> ''not''"
    and "vars v = Some (VFloat x)" "ParseFloat s = Some y"
  shows "SafeEval pw e vars = Inr (VBool (fle x y))"
  using assms
  by (simp add: SafeEval_parse parse_methods parseOr_def parseAnd_def parseNot_def parseComparison_def parseSum_def parseTerm_def
      parseUnary_def parsePower_def parseAtom_def orLoop_def andLoop_def compLoop_def sumLoop_def termLoop_def
      acceptName_def acceptOp_def peek_def tok_def comparison_op_def eof_token_def name_value_def number_value_def
      compare_val_def order_num_def Let_def cong: bindR_head_cong)

lemma demo_tokens:
  "tokenize ''loan_amount <= 75000'' = Inr [tok tokName ''loan_amount'', tok tokOp ''<='', tok tokNumber ''75000'', eof_token]"
  "tokenize ''debt_to_income <= 0.43'' = Inr [tok tokName ''debt_to_income'', tok tokOp ''<='', tok tokNumber ''0.43'', eof_token]"
  by code_simp+

lemma demo_numbers:
  "ParseFloat ''75000'' = Some (f_of_int 75000)"
  "fle (f_of_int 20000) (f_of_int 75000)"
  "\<exists>y. ParseFloat ''0.43'' = Some y \<and> fle (fdiv (f_of_int 28) (f_of_int 100)) y \<and> fle (fdiv (f_of_int 30) (f_of_int 100)) y"
  "\<not> fle (f_of_int 90000) (f_of_int 75000)"
  by (simp_all add: parse_float_eval float_eval char_eval)

section \<open>A cycle of one process without a model\<close>

lemma offline_close [simp]: "offline ps pols (close_cycle w t n r) \<longleftrightarrow> offline ps pols r"
  by (simp add: offline_def close_cycle_def persist_def applyRetention_def recordUsage_def spend_budget_def put_record_def
      Let_def case_prod_beta split: option.split)

lemma gate_runs:
  assumes "offline ps pols r" "\<forall>p \<in> set pols. po_Gate p = None \<and> Policy_Evaluate (wd_pow w) p (in_Context (cy_Intent c))"
  shows "\<exists>r1. govern_run w scope False c r = (Inr c, r1) \<and> offline ps pols r1"
proof -
  have "rt_Policies r = pols" using assms(1) by (simp add: offline_def)
  moreover from live_govern [OF assms(2), of ps pols scope "cy_Approval c"] assms(1)
  obtain r1 where "governStage_Run w scope pols (cy_Intent c) (cy_Approval c) r = (Inr (), r1)" "offline ps pols r1"
    unfolding succeeds_def by auto
  ultimately show ?thesis by (simp add: govern_run_def bindS_def)
qed

lemma single_process_planning:
  assumes "offline [p] pols r" "wd_ctx_err w = (\<lambda>_ _. None)"
    and "\<forall>q \<in> set pols. po_Gate q = None \<and> Policy_Evaluate (wd_pow w) q (in_Context intent)"
  shows "\<exists>c r1. run_stages w planning (new_cycle intent approval) r = (Inr c, r1) \<and> offline [p] pols r1 \<and>
    cy_Plan c = pr_Workflows p \<and> cy_Intent c = intent \<and> cy_Approval c = approval"
proof -
  let ?c = "new_cycle intent approval"
  have i: "cy_Intent ?c = intent" "cy_Approval ?c = approval" by (simp_all add: new_cycle_def)
  obtain r1 where g: "govern_run w ''Policy'' False ?c r = (Inr ?c, r1)" "offline [p] pols r1"
    using gate_runs [OF assms(1), of w ?c] assms(3) i by auto
  have d: "discoverByKeyword [p] intent = [p]" by (simp add: discoverByKeyword_def Let_def)
  let ?c1 = "?c\<lparr>cy_Candidates := [p]\<rparr>"
  obtain r2 where r2: "discoverStage_Run w ?c r1 = (Inr ?c1, r2)" "offline [p] pols r2"
  proof (rule that)
    have "\<not> rt_LM r1" "rt_Processes r1 = [p]" using g(2) by (simp_all add: offline_def)
    then show "discoverStage_Run w ?c r1 = (Inr ?c1, put_record w (discovery_record intent [p] [p] []) r1)"
      by (simp add: discoverStage_Run_def discover_def recordA_def Let_def i d)
    show "offline [p] pols (put_record w (discovery_record intent [p] [p] []) r1)" using g(2) by simp
  qed
  let ?c2 = "?c1\<lparr>cy_Selected := [p]\<rparr>"
  have s: "selectStage_Run w ?c1 r2 = (Inr ?c2, r2)"
    using r2(2) by (simp add: selectStage_Run_def selectProcesses_def offline_def Let_def)
  let ?c3 = "?c2\<lparr>cy_Plan := pr_Workflows p\<rparr>"
  have m: "composeStage_Run ?c2 r2 = (Inr ?c3, r2)" by (simp add: composeStage_Run_def compose_def)
  have o: "scheduleStage_Run w ?c3 r2 = (Inr ?c3, r2)"
    using r2(2) by (simp add: scheduleStage_Run_def schedule_def offline_def Let_def)
  have "run_stages w planning ?c r = (Inr ?c3, r2)"
    using g(1) r2(1) s m o assms(2) by (simp add: planning_def defaultPipeline_def thenS_def bindS_def checkpoint_def)
  then show ?thesis using r2(2) i by auto
qed

text \<open>With every policy of the instance complied with, a cycle stops at the policy of the workflow.\<close>

lemma workflow_policy_blocks:
  assumes "offline [p] pols r" "wd_ctx_err w = (\<lambda>_ _. None)"
    and "\<forall>q \<in> set pols. po_Gate q = None \<and> Policy_Evaluate (wd_pow w) q (in_Context intent)"
    and "workflowPolicies (pr_Workflows p) = [q]" "po_Gate q = None" "\<not> po_ApprovalRequired q"
    and "\<not> Policy_Evaluate (wd_pow w) q (in_Context intent)"
  shows "fst (Reason w None intent None r) = Inl (PolicyViolationError ''Workflow policy'' [q])"
proof -
  let ?r0 = "begin_cycle w intent r"
  obtain c r1 where c: "run_stages w planning (new_cycle intent None) ?r0 = (Inr c, r1)" "offline [p] pols r1"
    "cy_Plan c = pr_Workflows p" "cy_Intent c = intent" "cy_Approval c = None"
    using single_process_planning [of p pols ?r0 w intent None] assms(1-3) by auto
  have out: "outcomes w r1 [q] intent = [(q, Inr (Policy_Judge (wd_pow w) q (in_Context intent)))]"
    using outcomes_offline [OF c(2), of "[q]"] assms(5) by simp
  obtain why where why: "Policy_Judge (wd_pow w) q (in_Context intent) = (False, why)"
    using assms(7) by (cases "Policy_Judge (wd_pow w) q (in_Context intent)") (simp add: Policy_Evaluate_def)
  have "fst (governStage_Run w ''Workflow policy'' [q] intent None r1) = Inl (PolicyViolationError ''Workflow policy'' [q])"
    using assms(6) by (simp add: governStage_outcome out why gate_verdict_def waives_def)
  then obtain r2 where g: "govern_run w ''Workflow policy'' True c r1 = (Inl (PolicyViolationError ''Workflow policy'' [q]), r2)"
    using c(3-5) assms(4) by (cases "governStage_Run w ''Workflow policy'' [q] intent None r1") (simp add: govern_run_def bindS_def)
  have split: "defaultPipeline = planning @ governStage ''Workflow policy'' True # drop 6 defaultPipeline"
    by (simp add: planning_def defaultPipeline_def)
  have "rt_Pipeline ?r0 = defaultPipeline" using assms(1) by (simp add: offline_def)
  moreover have "run_stages w defaultPipeline (new_cycle intent None) ?r0 = (Inl (PolicyViolationError ''Workflow policy'' [q]), r2)"
    using c(1) g assms(2) by (subst split, subst run_stages_append) (simp add: thenS_def bindS_def checkpoint_def)
  ultimately show ?thesis
    by (simp add: Reason_def reason_body_def checkTenantBoundary_def Let_def thenS_def bindS_def case_prod_beta)
qed

lemma offline_decides:
  assumes "offline ps pols r" "complying w ps intent pols" "wd_ctx_err w = (\<lambda>_ _. None)"
  shows "\<exists>d r'. Reason w None intent None r = (Inr (VStr d), r') \<and> offline ps pols r'"
proof -
  let ?r0 = "begin_cycle w intent r"
  have "offline ps pols ?r0" "planned ps intent (new_cycle intent None)" using assms(1) by (simp_all add: planned_def new_cycle_def)
  then obtain c r' where "run_stages w defaultPipeline (new_cycle intent None) ?r0 = (Inr c, r')" "decided c" "offline ps pols r'"
    using live_pipeline [OF assms(3,2)] unfolding succeeds_def by blast
  moreover have "rt_Pipeline ?r0 = defaultPipeline" using assms(1) by (simp add: offline_def)
  ultimately show ?thesis
    by (auto simp: Reason_def reason_body_def checkTenantBoundary_def Let_def thenS_def bindS_def case_prod_beta decided_def)
qed

section \<open>The demonstration\<close>

definition demo_cap :: Policy where
  "demo_cap = demo_policy 4 ''Loan Amount Cap'' ''The loan must not exceed $75,000.'' ''loan_amount <= 75000''"

definition demo_ceiling :: Policy where
  "demo_ceiling = demo_policy 6 ''Debt-to-Income Ceiling'' ''The debt-to-income ratio must not exceed 0.43.'' ''debt_to_income <= 0.43''"

lemma demo_judged:
  "Policy_Evaluate pw demo_ceiling (in_Context demo_first)" "Policy_Evaluate pw demo_ceiling (in_Context demo_second)"
  "Policy_Evaluate pw demo_cap (in_Context demo_first)" "\<not> Policy_Evaluate pw demo_cap (in_Context demo_second)"
proof -
  have l: "literal_name ''loan_amount'' = None" "literal_name ''debt_to_income'' = None" by (simp_all add: literal_name_def)
  obtain y where y: "ParseFloat ''0.43'' = Some y" "fle (fdiv (f_of_int 28) (f_of_int 100)) y" "fle (fdiv (f_of_int 30) (f_of_int 100)) y"
    using demo_numbers by auto
  show "Policy_Evaluate pw demo_ceiling (in_Context demo_first)" "Policy_Evaluate pw demo_ceiling (in_Context demo_second)"
    using SafeEval_at_most [OF demo_tokens(2) l(2) _ _ y(1)] y
    by (simp_all add: Policy_Evaluate_def Policy_Judge_def demo_ceiling_def demo_policy_def demo_first_def demo_second_def
        demo_intent_def NewIntent_def)
  show "Policy_Evaluate pw demo_cap (in_Context demo_first)" "\<not> Policy_Evaluate pw demo_cap (in_Context demo_second)"
    using SafeEval_at_most [OF demo_tokens(1) l(1) _ _ demo_numbers(1)] demo_numbers
    by (simp_all add: Policy_Evaluate_def Policy_Judge_def demo_cap_def demo_policy_def demo_first_def demo_second_def
        demo_intent_def NewIntent_def)
qed

text \<open>
  C30. The demonstration shows what it announces: run end to end without a model, its first application is
  decided, its second is blocked by the cap of its workflow and by nothing else, and the command exits with 0.
\<close>
theorem demo_decides_then_blocks:
  assumes "wd_ctx_err (ce_world ce) = (\<lambda>_ _. None)"
  shows "\<exists>d rt rt'. Reason (ce_world ce) None demo_first None demo_runtime = (Inr (VStr d), rt) \<and>
    Reason (ce_world ce) None demo_second None rt = (Inl (PolicyViolationError ''Workflow policy'' [demo_cap]), rt') \<and>
    cr_exit (cmdDemo ce []) = 0 \<and>
    cr_out (cmdDemo ce []) =
      line ''== A compliant application =='' @ print_outcome (classifyOutcome rt (Inr (VStr d))) @
      newline # line ''== An application that trips a policy =='' @
      print_outcome (classifyOutcome rt' (Inl (PolicyViolationError ''Workflow policy'' [demo_cap])))"
proof -
  let ?w = "ce_world ce"
  obtain p where p: "rt_Processes demo_runtime = [p]" "pr_Workflows p = [demo_workflow]"
    by (simp add: demo_runtime_def AddProcess_def AddWorkflow_def Runtime_AddPolicy_def NewRuntime_def)
  have off: "offline [p] [demo_ceiling] demo_runtime"
    using p(1) by (simp add: offline_def demo_runtime_def AddProcess_def Runtime_AddPolicy_def NewRuntime_def demo_ceiling_def)
  have q: "workflowPolicies (pr_Workflows p) = [demo_cap]"
    by (simp add: p(2) workflowPolicies_def demo_workflow_def AddPolicy_def AddStep_def Let_def demo_cap_def)
  have gates: "po_Gate demo_cap = None" "po_Gate demo_ceiling = None" "\<not> po_ApprovalRequired demo_cap"
    by (simp_all add: demo_cap_def demo_ceiling_def demo_policy_def)
  have "complying ?w [p] demo_first [demo_ceiling]"
    using q gates demo_judged by (simp add: complying_def compose_def)
  then obtain d rt where 1: "Reason ?w None demo_first None demo_runtime = (Inr (VStr d), rt)" "offline [p] [demo_ceiling] rt"
    using offline_decides [OF off _ assms] by blast
  have "fst (Reason ?w None demo_second None rt) = Inl (PolicyViolationError ''Workflow policy'' [demo_cap])"
    by (rule workflow_policy_blocks [OF 1(2) assms _ q gates(1,3)]) (simp_all add: gates demo_judged)
  then obtain rt' where 2: "Reason ?w None demo_second None rt = (Inl (PolicyViolationError ''Workflow policy'' [demo_cap]), rt')"
    by (cases "Reason ?w None demo_second None rt") simp
  show ?thesis
    using 1(1) 2 by (simp add: cmdDemo_def demoReason_def printed_def exitDecided_def Let_def)
qed

section \<open>Concrete surroundings\<close>

definition sample_server :: ServerEnv where
  "sample_server =
     \<lparr>se_env = steady, se_load = sample_env, se_cwd = Some ''/srv'', se_links = (\<lambda>p. Some p), se_alloc = (\<lambda>k. length (kn_instances k)),
      se_oor = (\<lambda>_. 0), se_json_err = (\<lambda>_. ''unexpected end'')\<rparr>"

definition sample_cli :: CliEnv where
  \<comment> \<open>a stack in desk and a trail that cannot be read in trails\<close>
  "sample_cli =
     \<lparr>ce_server = sample_server, ce_is_dir = (\<lambda>p. if p \<in> {''desk'', ''trails''} then Some True else None), ce_duration = (\<lambda>_. None),
      ce_read_err = (\<lambda>_. ''permission denied''), ce_glob = (\<lambda>_. Inr [''trails/desk.jsonl'']), ce_stdin = [], ce_drain = (\<lambda>k. ([], k)),
      ce_idle = (\<lambda>_ _ k. ([], k, None)), ce_serve = (\<lambda>_. None)\<rparr>"

lemma sample_world: "ce_world sample_cli = quiet"
  by (simp add: ce_world_def sample_cli_def sample_server_def steady_def)

lemma demo_decides_then_blocks_witness: "cr_exit (cmdDemo sample_cli []) = 0"
  using demo_decides_then_blocks [of sample_cli] desk_offline(3) by (auto simp: sample_world)

lemma monitor_exit_tells_broken_witness: "cr_exit (cmdMonitor sample_cli [''trails'']) \<noteq> 0"
  by (rule monitor_exit_tells_broken [of _ _ "[''trails/desk.jsonl'']" "''trails/desk.jsonl''"])
    (simp_all add: sample_cli_def sample_server_def sample_env_def sample_files_def VerifyTrail_def ce_file_def)

lemma trail_commands_find_the_trail_witness: "\<exists>e. resolveTrailPath sample_cli ''desk'' = Inl e"
proof -
  obtain l where l: "LoadRuntime sample_env ''desk'' [] = Inr l" using sample_loads by blast
  then have "loadStack sample_cli ''desk'' [] = Inr l"
    by (simp add: loadStack_def sample_cli_def sample_server_def)
  from trail_commands_find_the_trail [OF this] show ?thesis
  proof (cases "rl_Trail (rt_ReasoningLog (ld_Runtime l))")
    case (Some t)
    have "ce_file sample_cli (Join [''desk'', ''memory.md'']) = None"
    proof -
      have "sample_files (Join [''desk'', ''memory.md'']) = None" by code_simp
      then show ?thesis by (simp add: ce_file_def sample_cli_def sample_server_def sample_env_def)
    qed
    then show ?thesis by (simp add: resolveTrailPath_def sample_cli_def)
  qed simp
qed

definition sample_dispatch :: Dispatch where
  "sample_dispatch = fst (dispatch steady sweep one_task)"

lemma reporter_reports_each_once_witness:
  "report_all 0 (kernel_histories one_task [[sample_dispatch], [], [sample_dispatch]]) = [sample_dispatch, sample_dispatch]"
  using reporter_reports_each_once [of one_task "[[sample_dispatch], [], [sample_dispatch]]"]
  by (simp add: one_task_def NewKernel_def history_limit_def)

lemma reporter_falls_silent_witness:
  "report_all 1 (kernel_histories (one_task\<lparr>kn_HistoryLimit := 1, kn_history := [sample_dispatch]\<rparr>) [[sample_dispatch], [sample_dispatch]]) = []"
  using reporter_falls_silent [of "one_task\<lparr>kn_HistoryLimit := 1, kn_history := [sample_dispatch]\<rparr>"]
  by (simp add: history_limit_def del: kernel_histories.simps)

definition gate_for_a_human :: Policy where
  "gate_for_a_human = payments_policy\<lparr>po_ApprovalRequired := True\<rparr>"

definition gated_stack :: Loaded where
  "gated_stack =
     \<lparr>ld_Runtime = guarded_runtime\<lparr>rt_Policies := [gate_for_a_human]\<rparr>, ld_Tenant = NewTenant, ld_Client = None, ld_Aux = None,
      ld_Spawner = None\<rparr>"

lemma gated_stack_parks:
  "\<exists>rt. Reason quiet None pay None (ld_Runtime gated_stack) = (Inl (ApprovalRequiredError [gate_for_a_human]), rt)"
proof -
  let ?r = "begin_cycle quiet pay (ld_Runtime gated_stack)"
  have out: "outcomes quiet r [gate_for_a_human] pay = [(gate_for_a_human, Inr (False, ''over the limit''))]"
    if "rt_PolicyJudge r = CustomJudge 0" for r
    using that by (simp add: outcomes_def judge_policy_def PolicyJudge_def payments_policy_def gate_for_a_human_def
      quiet_def quiet_world_def deny_def)
  have j: "rt_PolicyJudge ?r = CustomJudge 0" "rt_Policies ?r = [gate_for_a_human]" "rt_Pipeline ?r = defaultPipeline"
    by (simp_all add: gated_stack_def guarded_runtime_def NewRuntime_def begin_cycle_def)
  have o: "outcomes quiet ?r [gate_for_a_human] pay = [(gate_for_a_human, Inr (False, ''over the limit''))]" by (rule out [OF j(1)])
  have "fst (governStage_Run quiet ''Policy'' [gate_for_a_human] pay None ?r) = Inl (ApprovalRequiredError [gate_for_a_human])"
    unfolding governStage_outcome o by (simp add: gate_verdict_def gate_for_a_human_def waives_def rejects_def)
  then obtain r2 where "governStage_Run quiet ''Policy'' [gate_for_a_human] pay None ?r = (Inl (ApprovalRequiredError [gate_for_a_human]), r2)"
    by (cases "governStage_Run quiet ''Policy'' [gate_for_a_human] pay None ?r") simp
  then have "run_stages quiet defaultPipeline (new_cycle pay None) ?r = (Inl (ApprovalRequiredError [gate_for_a_human]), r2)"
    using desk_offline(3) j
    by (simp add: defaultPipeline_def thenS_def bindS_def checkpoint_def govern_run_def new_cycle_def)
  then show ?thesis
    using j(3) by (auto simp: Reason_def reason_body_def checkTenantBoundary_def Let_def thenS_def bindS_def case_prod_beta)
qed

lemma session_parks_the_last_intent_witness:
  "\<exists>out s. repl_line sample_cli ''pay'' (new_session gated_stack) = Continue out s \<and> rs_parked s \<and>
     (\<exists>intent approval rt err. rs_lastIntent s = Some intent \<and> Reason quiet None intent approval rt = (Inl err, ld_Runtime (rs_runtime s)))"
proof -
  obtain rt where r: "Reason quiet None pay None (ld_Runtime gated_stack) = (Inl (ApprovalRequiredError [gate_for_a_human]), rt)"
    using gated_stack_parks by blast
  have i: "TrimSpace ''pay'' = ''pay''" "cut_at '' -- '' ''pay'' = None" "TrimSpace [] = []" "\<not> has_prefix '':'' ''pay''" by code_simp+
  have "NewIntent ''pay'' (Some []) = pay" by (simp add: pay_def NewIntent_def)
  with r i obtain out s where s: "repl_line sample_cli ''pay'' (new_session gated_stack) = Continue out s" "rs_parked s"
    by (simp add: repl_line_def repl_reason_def repl_run_def sample_world new_session_def parked_status Let_def)
  from session_parks_the_last_intent [OF repl_reachable.line [OF repl_reachable.start s(1)] s(2)]
  show ?thesis using s by (auto simp: sample_world)
qed

end
