(* ===== verification/Spec2Isabelle.thy ===== *)
theory Spec2Isabelle
  imports SafeEvalSpec Section Stack Hash Encode Chain TrailFile AuditLog Window Memory Concurrent Budget JudgmentProps Governance Tools Reasoning Panels CycleLive KernelPool Spawner AuthorityProps StrategyProps LoaderProps SessionProps StoreProps TrailTrip ModelClientProps MonitorProps ServerProps McpClientProps CommandDemo
begin

text \<open>
  A verification development for \<^verbatim>\<open>ear\<close>, a runtime in Go that executes reasoning written in
  markdown: an author stacks intents, skills, personas, workflows, policies and tools, and a cycle
  turns a claim into a governed, audited decision.  Every theory translates files of the
  repository; the names of definitions are the source's names.

  Parts and interactions.  A loader (\<^verbatim>\<open>loader.go\<close>, \<^verbatim>\<open>strategy.go\<close>, \<^verbatim>\<open>section.go\<close>) reads an author's directory
  into a strategy and a stack of definitions (\<^verbatim>\<open>model.go\<close>); a library of named objects (\<^verbatim>\<open>store.go\<close>,
  \<^verbatim>\<open>store_sql.go\<close>) is the other source of them.  An instance (\<^verbatim>\<open>runtime.go\<close>) owns the stack, an audit log,
  memory layers with a session file (\<^verbatim>\<open>memory.go\<close>, \<^verbatim>\<open>session_store.go\<close>), bound tools, and seams: a judge, a
  reasoner, synthesizers, each either a deterministic default or backed by a bound language model
  (\<^verbatim>\<open>lm.go\<close>, \<^verbatim>\<open>seams.go\<close>, the client \<^verbatim>\<open>llm_client.go\<close>).  \<open>Reason\<close> runs the pipeline of stages
  (\<^verbatim>\<open>stages.go\<close>, \<^verbatim>\<open>pipeline.go\<close>): tenant check, claim gate, discernment, selection, ordering, deliberation
  or panel, tool use, decision gate, deliverables, explanation, audit and memory.  Judgments go
  through typed signatures rendered to prompts and parsed back (\<^verbatim>\<open>judgment.go\<close>, \<^verbatim>\<open>signature.go\<close>,
  \<^verbatim>\<open>signatures.go\<close>).  Every stage appends to the reasoning log, a hash chain (\<^verbatim>\<open>reasoninglog.go\<close>) that can
  be streamed, persisted and read back (\<^verbatim>\<open>trailfile.go\<close>).  Tools come from the program or from servers
  reached over pipes (\<^verbatim>\<open>mcp_client.go\<close>).  A kernel (\<^verbatim>\<open>kernel.go\<close>) schedules cycles of many instances; a
  spawner (\<^verbatim>\<open>spawner.go\<close>) runs subagents; an envelope registry (\<^verbatim>\<open>authority.go\<close>) supplies the gate of a
  policy.  The kernel stands behind an HTTP server (\<^verbatim>\<open>server.go\<close>) with a view of its health
  (\<^verbatim>\<open>monitor.go\<close>), and everything is reached from the commands of \<^verbatim>\<open>cmd/ear\<close>.

  Theories, in the order they build on each other.

  \<^item> Ear_Prelude: theorem collections, ASCII text, the parts of \<^verbatim>\<open>strings\<close>, \<^verbatim>\<open>strconv\<close> and
    \<^verbatim>\<open>sort\<close> the code calls.  GoValue: Go's \<^verbatim>\<open>any\<close>.  Float64: \<^verbatim>\<open>float64\<close>.  Hash: SHA-256, HMAC.
    Encode: JSON encoding and instants.  Effects: errors, results and the model seam.
    Window: the interface of a bounded store, interpreted twice (memory, kernel history).
  \<^item> SafeEval, SafeEvalSpec (\<^verbatim>\<open>safeeval.go\<close>): tokenizer and evaluating parser; an abstract syntax of
    expressions whose meaning the parser computes; totality.
  \<^item> Section (\<^verbatim>\<open>section.go\<close>): documents, fields, the quotation idiom and its round trips.
  \<^item> Stack (\<^verbatim>\<open>model.go\<close>, \<^verbatim>\<open>policy.go\<close>, \<^verbatim>\<open>tenant.go\<close>): the authored data and policy judgment.
  \<^item> Chain, TrailFile, AuditLog (\<^verbatim>\<open>reasoninglog.go\<close>, \<^verbatim>\<open>trailfile.go\<close>): the hash chain as a locale with
    two users, the log with retention, the file with resumption and verification.
  \<^item> Memory (\<^verbatim>\<open>memory.go\<close>), Budget (\<^verbatim>\<open>budget.go\<close>), Concurrent (\<^verbatim>\<open>concurrent.go\<close>, a step relation over
    all interleavings of \<open>parallelMap\<close>).
  \<^item> Judgment, Catalogue, JudgmentProps: prompts, signatures, typed replies.
  \<^item> Instance (the record of \<^verbatim>\<open>runtime.go\<close> and its world), Governance (policy gates, tenant check),
    Tools (\<^verbatim>\<open>tool_binder.go\<close>, \<^verbatim>\<open>tool_reasoning.go\<close>), Reasoning (\<^verbatim>\<open>reasoner.go\<close>, \<^verbatim>\<open>stage.go\<close>, \<^verbatim>\<open>seams.go\<close>),
    Panels (\<^verbatim>\<open>panel.go\<close>), Stages (\<^verbatim>\<open>stages.go\<close>, \<^verbatim>\<open>contract.go\<close>, \<^verbatim>\<open>librarian.go\<close>), ReasonCycle
    (\<^verbatim>\<open>cycle.go\<close>, \<open>Reason\<close>).
  \<^item> CycleProps, CycleGates, CycleLive: what a whole cycle guarantees: it is audited on every exit
    and the log verifies until retention cuts it, no decision is made and no tool acts before both gates passed, memory holds exactly the
    decisions returned, a foreign claim is refused without a trace beyond the audit, and without
    a model a cycle decides.
  \<^item> Kernel, KernelProps, KernelPool (\<^verbatim>\<open>kernel.go\<close>): the scheduler, its order, its history, and the
    interleavings of its worker pool, in which no instance runs two cycles at once.
  \<^item> Spawner (\<^verbatim>\<open>spawner.go\<close>, \<^verbatim>\<open>options.go\<close>), Authority, AuthorityLoad, AuthorityProps (\<^verbatim>\<open>authority.go\<close>): a
    revocation binds the next judgment, and the registry is the last standing of every agent.
  \<^item> Regex (what is used of \<^verbatim>\<open>regexp\<close>), Json, JsonTrip (decoding, inverse to encoding), Paths
    (\<^verbatim>\<open>path/filepath\<close>).  StrategyFile, StrategyProps (\<^verbatim>\<open>strategy.go\<close>, \<^verbatim>\<open>modelselection.go\<close>, \<^verbatim>\<open>mcp.go\<close>), StackFiles,
    Loader, LoaderProps (\<^verbatim>\<open>loader.go\<close>): the last section of each
    name is loaded as it is written, and the runtime belongs to the declared tenant.
    Knowledge (\<^verbatim>\<open>knowledge.go\<close>).  Session, SessionJson, DateTrip, SessionProps
    (\<^verbatim>\<open>session_store.go\<close>): time stamps survive.  TrailJson, TrailTrip: the JSON
    side of \<^verbatim>\<open>trailfile.go\<close>.  Store, StoreSql, SqlDriver, StoreProps (\<^verbatim>\<open>store.go\<close>, \<^verbatim>\<open>store_sql.go\<close>): both backends
    are a map from slugs to texts, the one over SQL on an interpreter of the statements it sends.
  \<^item> ModelClient, ModelClientProps (\<^verbatim>\<open>llm_client.go\<close>): bounded retries.  Monitor, MonitorProps
    (\<^verbatim>\<open>monitor.go\<close>): the worst first, with the sums.  Server, ServerProps (\<^verbatim>\<open>server.go\<close>): every endpoint, the confinement of paths, and the tenant boundary over the wire.  McpClient, McpTransport,
    McpClientProps (\<^verbatim>\<open>mcp_client.go\<close>): the transport as interleaved steps, in which a reply reaches the
    request it answers and no request waits for a drain that has passed it.
  \<^item> CommandArgs, CommandLine, StackView, CommandFleet, CommandRepl (\<^verbatim>\<open>cmd/ear\<close>): flags, the commands with
    their output and exit codes, the interactive session.  CommandProps, CommandSession, CommandDemo:
    exit codes tell the governed outcome, the trail commands find the trail of the stack, a verdict
    answers the parked gate, and the demonstration does what it announces.

  Conventions.  A struct is a record, an error a value of a sum type, a run-time panic the outcome
  \<open>Panic\<close>; state is passed explicitly.  Pointers the code compares are addresses in a field
  \<open>..._ref\<close>.  Critical sections under one mutex are one step.  Text is ASCII.  The local time zone
  is UTC.  A seam, a handler or a gate the caller supplies is an address that the world (record
  \<open>World\<close> of theory Instance) interprets; the world also gives the clock as a sequence of
  readings, the provider of the model, and what Go leaves to the platform: \<^verbatim>\<open>math.Pow\<close> (\<open>wd_pow\<close>) and
  the conversion of a float out of range to an int (\<open>wd_oor\<close>).  Bound seams other than the caller's
  are the ones the repository defines.

  Bounds and fuel.  The evaluator's parser carries fuel, 16 times the length of the expression plus
  one; the totality property of theory SafeEvalSpec shows it is never used up.  Tool rounds and panel turns are
  bounded by the code's own constants.  \<open>Drain\<close> stops after 10000 dispatches, as in the code.
  Every other loop recurses on its data.

  Simplifications that do not change what is stated.  Appending to an open trail and writing a
  session do not fail; of the trail file the errors of making its directory and of opening it are
  kept (theory TrailJson).  Calls that a fan-out makes concurrently are numbered in the order of its
  items (theory Concurrent proves that the results do not depend on the schedule).  A summarizer or
  distiller that calls the model is a function; its calls are not added to the model's history.  A
  reasoner or judge the caller supplies keeps no state of its own; a cycle does not submit or cancel work
  of the kernel it runs under; nested subagents draw on the spawner of their root; a registry of
  envelopes has no log of its own when it is attached.  The
  clock may go in any direction unless a hypothesis says otherwise.

  Parameters that stand for the surroundings: files, the environment, links and the working
  directory, the network of the model client, the SQL driver, the process behind a tool server, the
  logarithm and the order in which a map is ranged over, and the texts of decoding errors.

  Not modelled: the sockets and the shutdown of \<open>Serve\<close>, starting and stopping the process of a tool
  server, signals, and the messages of the package \<^verbatim>\<open>flag\<close>.  The wait of the idle loop is the value it
  decides on (theories Kernel, KernelPool); under the commands that loop, a drain by several workers
  and \<open>Serve\<close> are arguments of the record \<open>CliEnv\<close>.  Characters outside ASCII and time zones other
  than UTC are left out throughout.
\<close>

end
